(* ===== verification/Harness_Prelude.thy ===== *)
theory Harness_Prelude
  imports Complex_Main "HOL-Library.AList" "HOL-Library.Multiset"
begin

text \<open>
  What the components share: the JavaScript data and library behaviour the sources use
  (values, whitespace trimming, upper-casing, \<open>new Set\<close>, insertion-ordered \<open>Map\<close>,
  the stable \<open>Array.prototype.sort\<close>), generic lemmas about them, and the two generic
  contracts of the development: a comparator handed to \<open>sort\<close> and an invariant kept by
  every step of a machine.

  Strings are lists of characters below 256 (Latin-1 code units). Instants and durations are
  integers in milliseconds: an ISO string written by \<open>toISOString\<close> is represented by
  the instant it denotes. Amounts of money are rationals: rounding of IEEE doubles is not
  modelled.
\<close>

named_theorems js_simps "evaluation of the JavaScript helpers"
named_theorems lane_simps "effect of the queue's primitive updates on its fields"

type_synonym millis = int
type_synonym usd = rat
type_synonym task_id = string

section \<open>Dynamically typed values\<close>

datatype js_value =
    JUndef
  | JNull
  | JBool bool
  | JNum rat
  | JStr string
  | JArr "js_value list"
  | JObj "(string \<times> js_value) list"

definition js_opt :: "('a \<Rightarrow> js_value) \<Rightarrow> 'a option \<Rightarrow> js_value" where
  "js_opt f x = (case x of None \<Rightarrow> JUndef | Some v \<Rightarrow> f v)"

definition js_strs :: "string list \<Rightarrow> js_value" where
  "js_strs xs = JArr (map JStr xs)"

section \<open>Strings\<close>

text \<open>The characters below 256 that \<open>trim\<close> and the regular expression class \<open>\s\<close> treat as
  white space: tab, line feed, vertical tab, form feed, carriage return, space, no-break space.\<close>

definition is_js_space :: "char \<Rightarrow> bool" where
  "is_js_space c \<longleftrightarrow>
     c \<in> {CHR 0x09, CHR 0x0A, CHR 0x0B, CHR 0x0C, CHR 0x0D, CHR 0x20, CHR 0xA0}"

definition js_trim :: "string \<Rightarrow> string" where
  "js_trim s = rev (dropWhile is_js_space (rev (dropWhile is_js_space s)))"

definition js_digit :: "char \<Rightarrow> bool" where
  "js_digit c \<longleftrightarrow> 48 \<le> (of_char c :: nat) \<and> (of_char c :: nat) \<le> 57"

definition js_upper_letter :: "char \<Rightarrow> bool" where
  "js_upper_letter c \<longleftrightarrow> 65 \<le> (of_char c :: nat) \<and> (of_char c :: nat) \<le> 90"

definition js_lower_letter :: "char \<Rightarrow> bool" where
  "js_lower_letter c \<longleftrightarrow> 97 \<le> (of_char c :: nat) \<and> (of_char c :: nat) \<le> 122"

text \<open>The class \<open>\w\<close>, which also decides the word boundary \<open>\b\<close>.\<close>

definition js_word_char :: "char \<Rightarrow> bool" where
  "js_word_char c \<longleftrightarrow> js_digit c \<or> js_upper_letter c \<or> js_lower_letter c \<or> c = CHR ''_''"

text \<open>
  \<open>toUpperCase\<close> and \<open>toLowerCase\<close>. Sharp s becomes two letters. The two Latin-1 characters
  whose upper case lies outside Latin-1 (micro sign, y with diaeresis) are left alone.
\<close>

definition js_upper_char :: "char \<Rightarrow> string" where
  "js_upper_char c =
     (let n = (of_char c :: nat) in
      if js_lower_letter c then [char_of (n - 32)]
      else if n = 223 then ''SS''
      else if 224 \<le> n \<and> n \<le> 254 \<and> n \<noteq> 247 then [char_of (n - 32)]
      else [c])"

definition js_to_upper :: "string \<Rightarrow> string" where
  "js_to_upper s = concat (map js_upper_char s)"

definition js_lower_char :: "char \<Rightarrow> char" where
  "js_lower_char c =
     (let n = (of_char c :: nat) in
      if js_upper_letter c then char_of (n + 32)
      else if 192 \<le> n \<and> n \<le> 222 \<and> n \<noteq> 215 then char_of (n + 32)
      else c)"

definition js_to_lower :: "string \<Rightarrow> string" where
  "js_to_lower s = map js_lower_char s"

text \<open>The operator \<open>??\<close>.\<close>

definition or_else :: "'a option \<Rightarrow> 'a option \<Rightarrow> 'a option" where
  "or_else x y = (case x of None \<Rightarrow> y | Some v \<Rightarrow> Some v)"

definition js_starts_with :: "string \<Rightarrow> string \<Rightarrow> bool" where
  "js_starts_with s p \<longleftrightarrow> take (length p) s = p"

definition js_ends_with :: "string \<Rightarrow> string \<Rightarrow> bool" where
  "js_ends_with s p \<longleftrightarrow> js_starts_with (rev s) (rev p)"

fun js_includes :: "string \<Rightarrow> string \<Rightarrow> bool" where
  "js_includes [] p = (p = [])"
| "js_includes (c # cs) p = (js_starts_with (c # cs) p \<or> js_includes cs p)"

text \<open>A word at the front, letters compared without case; the text after it.\<close>

definition word_here :: "string \<Rightarrow> string \<Rightarrow> string option" where
  "word_here w s =
     (if map js_upper_char (take (length w) s) = map js_upper_char w then Some (drop (length w) s) else None)"

text \<open>A run of at least one character of a class; the run and what follows.\<close>

definition run_of :: "(char \<Rightarrow> bool) \<Rightarrow> string \<Rightarrow> (string \<times> string) option" where
  "run_of P s = (if takeWhile P s = '''' then None else Some (takeWhile P s, dropWhile P s))"

fun first_match :: "(string \<Rightarrow> 'a option) \<Rightarrow> string \<Rightarrow> 'a option" where
  "first_match f [] = f []"
| "first_match f (c # cs) = (case f (c # cs) of Some x \<Rightarrow> Some x | None \<Rightarrow> first_match f cs)"

fun js_join :: "string \<Rightarrow> string list \<Rightarrow> string" where
  "js_join sep [] = ''''"
| "js_join sep [x] = x"
| "js_join sep (x # y # ys) = x @ sep @ js_join sep (y # ys)"

text \<open>The decimal text of a number in a template literal.\<close>

fun digits_text :: "nat \<Rightarrow> string" where
  "digits_text n = (if n < 10 then [char_of (48 + n)] else digits_text (n div 10) @ [char_of (48 + n mod 10)])"

declare digits_text.simps [simp del]

text \<open>\<open>split(/\r?\n/)\<close>\<close>

fun split_lines_acc :: "string \<Rightarrow> string \<Rightarrow> string list" where
  "split_lines_acc acc [] = [rev acc]"
| "split_lines_acc acc (c # cs) =
     (if c = CHR 0x0A then rev acc # split_lines_acc [] cs
      else if c = CHR 0x0D \<and> (case cs of [] \<Rightarrow> False | d # _ \<Rightarrow> d = CHR 0x0A)
      then rev acc # split_lines_acc [] (tl cs)
      else split_lines_acc (c # acc) cs)"

definition split_lines :: "string \<Rightarrow> string list" where
  "split_lines s = split_lines_acc [] s"

fun split_at :: "char \<Rightarrow> string \<Rightarrow> string list" where
  "split_at c [] = [[]]"
| "split_at c (x # xs) =
     (if x = c then [] # split_at c xs
      else case split_at c xs of [] \<Rightarrow> [[x]] | p # ps \<Rightarrow> (x # p) # ps)"

text \<open>\<open>replace(/\s+/gu, " ")\<close>\<close>

fun collapse_spaces :: "bool \<Rightarrow> string \<Rightarrow> string" where
  "collapse_spaces inSpace [] = []"
| "collapse_spaces inSpace (c # cs) =
     (if is_js_space c then (if inSpace then [] else '' '') @ collapse_spaces True cs
      else c # collapse_spaces False cs)"

text \<open>\<open>replace(/P+/g, sep)\<close>: each run of a class becomes one separator.\<close>

fun squeeze :: "(char \<Rightarrow> bool) \<Rightarrow> char \<Rightarrow> bool \<Rightarrow> string \<Rightarrow> string" where
  "squeeze P sep inRun [] = []"
| "squeeze P sep inRun (c # cs) =
     (if P c then (if inRun then [] else [sep]) @ squeeze P sep True cs else c # squeeze P sep False cs)"

definition is_line_end :: "char \<Rightarrow> bool" where
  "is_line_end c \<longleftrightarrow> c = CHR 0x0A \<or> c = CHR 0x0D"

text \<open>The suffixes that start where \<open>^\<close> matches with the flag \<open>m\<close>.\<close>

fun line_starts :: "bool \<Rightarrow> string \<Rightarrow> string list" where
  "line_starts bol [] = (if bol then [[]] else [])"
| "line_starts bol (c # cs) = (if bol then [c # cs] else []) @ line_starts (is_line_end c) cs"

fun first_some :: "('a \<Rightarrow> 'b option) \<Rightarrow> 'a list \<Rightarrow> 'b option" where
  "first_some f [] = None"
| "first_some f (x # xs) = (case f x of Some y \<Rightarrow> Some y | None \<Rightarrow> first_some f xs)"

text \<open>
  \<open>\s*(.+?)\s*$\<close> and the capture, trimmed. \<open>\s*\<close> may run over line ends; when only white space is left
  it gives back one character that is not a line end, if there is one.
\<close>

definition status_value :: "string \<Rightarrow> string option" where
  "status_value s =
     (let r = dropWhile is_js_space s in
      if r \<noteq> '''' then Some (js_trim (takeWhile (\<lambda>c. \<not> is_line_end c) r))
      else if list_ex (\<lambda>c. \<not> is_line_end c) s then Some '''' else None)"

definition after_marker :: "string \<Rightarrow> string \<Rightarrow> string option" where
  "after_marker marker s = (case word_here marker s of None \<Rightarrow> None | Some r \<Rightarrow> status_value r)"

lemma js_trim_Nil [simp]: "js_trim '''' = ''''"
  by (simp add: js_trim_def)

lemma js_trim_no_space:
  assumes "\<And>c. c \<in> set s \<Longrightarrow> \<not> is_js_space c"
  shows "js_trim s = s"
proof -
  have "dropWhile is_js_space t = t" if "set t = set s" for t
    using assms that by (cases t) auto
  then show ?thesis by (simp add: js_trim_def)
qed

lemma js_trim_snoc_space:
  assumes "\<And>c. c \<in> set s \<Longrightarrow> \<not> is_js_space c" and "s \<noteq> []" and "is_js_space d"
  shows "js_trim (s @ [d]) = s"
proof -
  have keep: "dropWhile is_js_space t = t" if "set t = set s" for t
    using assms(1) that by (cases t) auto
  have "dropWhile is_js_space (s @ [d]) = s @ [d]"
    using assms(1,2) by (cases s) auto
  then show ?thesis using assms(3) keep [of "rev s"] by (simp add: js_trim_def)
qed

lemma js_trim_eq_Nil_iff: "js_trim s = '''' \<longleftrightarrow> (\<forall>c \<in> set s. is_js_space c)"
proof -
  have "js_trim s = [] \<longleftrightarrow> (\<forall>c \<in> set (dropWhile is_js_space s). is_js_space c)"
    by (simp add: js_trim_def dropWhile_eq_Nil_conv)
  also have "\<dots> \<longleftrightarrow> (\<forall>c \<in> set s. is_js_space c)"
    by (induction s) auto
  finally show ?thesis .
qed

lemma set_js_trim: "c \<in> set (js_trim s) \<Longrightarrow> c \<in> set s"
proof -
  assume "c \<in> set (js_trim s)"
  then have "c \<in> set (rev (dropWhile is_js_space s))"
    unfolding js_trim_def by (metis set_dropWhileD set_rev)
  then show ?thesis by (auto dest: set_dropWhileD)
qed

lemma js_trim_idem: "js_trim (js_trim s) = js_trim s"
proof -
  let ?t = "dropWhile is_js_space s"
  let ?u = "rev (dropWhile is_js_space (rev ?t))"
  have "?t = ?u @ rev (takeWhile is_js_space (rev ?t))"
    by (metis rev_append rev_rev_ident takeWhile_dropWhile_id)
  then have "?u = [] \<or> \<not> is_js_space (hd ?u)"
    by (metis append_is_Nil_conv hd_append2 hd_dropWhile)
  moreover have "v = [] \<or> \<not> is_js_space (hd v) \<Longrightarrow> dropWhile is_js_space v = v" for v by (cases v) auto
  ultimately have "dropWhile is_js_space ?u = ?u" by blast
  then show ?thesis unfolding js_trim_def by (simp add: dropWhile_idem)
qed

subsection \<open>The decimal text of a number\<close>

fun read_digits :: "nat \<Rightarrow> string \<Rightarrow> nat" where
  "read_digits n [] = n"
| "read_digits n (c # cs) = read_digits (10 * n + (of_char c - 48)) cs"

lemma read_digits_append: "read_digits n (xs @ ys) = read_digits (read_digits n xs) ys"
  by (induction xs arbitrary: n) auto

lemma of_char_digit: "k < 10 \<Longrightarrow> (of_char (char_of (48 + k) :: char) :: nat) = 48 + k"
  by simp

lemma read_digits_text: "read_digits 0 (digits_text n) = n"
proof (induction n rule: digits_text.induct)
  case (1 n)
  show ?case
  proof (cases "n < 10")
    case True
    then show ?thesis by (subst digits_text.simps) (simp add: of_char_digit)
  next
    case False
    have "(of_char (char_of (48 + n mod 10) :: char) :: nat) = 48 + n mod 10"
      using of_char_digit [of "n mod 10"] by simp
    moreover have "digits_text n = digits_text (n div 10) @ [char_of (48 + n mod 10)]"
      using False by (subst digits_text.simps) simp
    ultimately show ?thesis using 1 False by (simp add: read_digits_append)
  qed
qed

lemma digits_text_inj: "digits_text m = digits_text n \<Longrightarrow> m = n"
  by (metis read_digits_text)

lemma digits_text_digits: "c \<in> set (digits_text n) \<Longrightarrow> js_digit c"
proof (induction n rule: digits_text.induct)
  case (1 n)
  have "js_digit (char_of (48 + k))" if "k < 10" for k :: nat
    using that by (simp add: js_digit_def of_char_digit)
  from this [of n] this [of "n mod 10"] 1 show ?case
    by (subst (asm) (2) digits_text.simps) (auto split: if_splits)
qed

lemma digits_text_no_hash: "CHR ''#'' \<notin> set (digits_text n)"
  using digits_text_digits [of "CHR ''#''" n] by (auto simp: js_digit_def)

section \<open>\<open>[...new Set(xs)]\<close>\<close>

text \<open>A set remembers insertion order: the first occurrence of every element stays.\<close>

fun js_uniq_acc :: "'a list \<Rightarrow> 'a list \<Rightarrow> 'a list" where
  "js_uniq_acc acc [] = acc"
| "js_uniq_acc acc (x # xs) = js_uniq_acc (if x \<in> set acc then acc else acc @ [x]) xs"

definition js_uniq :: "'a list \<Rightarrow> 'a list" where
  "js_uniq xs = js_uniq_acc [] xs"

lemma set_js_uniq_acc: "set (js_uniq_acc acc xs) = set acc \<union> set xs"
  by (induction xs arbitrary: acc) auto

lemma distinct_js_uniq_acc: "distinct acc \<Longrightarrow> distinct (js_uniq_acc acc xs)"
  by (induction xs arbitrary: acc) auto

lemma set_js_uniq [simp]: "set (js_uniq xs) = set xs"
  by (simp add: js_uniq_def set_js_uniq_acc)

lemma distinct_js_uniq [simp]: "distinct (js_uniq xs)"
  by (simp add: js_uniq_def distinct_js_uniq_acc)

lemma js_uniq_Nil [simp]: "js_uniq [] = []"
  by (simp add: js_uniq_def)

lemma js_uniq_eq_Nil [simp]: "js_uniq xs = [] \<longleftrightarrow> xs = []"
  by (metis set_js_uniq set_empty)

lemma js_uniq_acc_distinct:
  "distinct xs \<Longrightarrow> set acc \<inter> set xs = {} \<Longrightarrow> js_uniq_acc acc xs = acc @ xs"
  by (induction xs arbitrary: acc) auto

lemma js_uniq_distinct: "distinct xs \<Longrightarrow> js_uniq xs = xs"
  by (simp add: js_uniq_def js_uniq_acc_distinct)

lemma length_js_uniq_distinct: "length (js_uniq rs) = length rs \<longleftrightarrow> distinct rs"
  by (metis card_distinct distinct_card distinct_js_uniq js_uniq_distinct set_js_uniq)

definition js_set_add :: "'a \<Rightarrow> 'a list \<Rightarrow> 'a list" where
  "js_set_add x xs = (if x \<in> set xs then xs else xs @ [x])"

definition js_set_delete :: "'a \<Rightarrow> 'a list \<Rightarrow> 'a list" where
  "js_set_delete x xs = filter (\<lambda>y. y \<noteq> x) xs"

lemma set_js_set_add [simp]: "set (js_set_add x xs) = insert x (set xs)"
  by (auto simp: js_set_add_def)

lemma set_js_set_delete [simp]: "set (js_set_delete x xs) = set xs - {x}"
  by (auto simp: js_set_delete_def)

lemma distinct_js_set_add: "distinct xs \<Longrightarrow> distinct (js_set_add x xs)"
  by (auto simp: js_set_add_def)

lemma distinct_js_set_delete: "distinct xs \<Longrightarrow> distinct (js_set_delete x xs)"
  by (auto simp: js_set_delete_def)

text \<open>Removing the first occurrence of a value: \<open>splice(indexOf(x), 1)\<close>.\<close>

definition js_remove_first :: "'a \<Rightarrow> 'a list \<Rightarrow> 'a list" where
  "js_remove_first x xs = remove1 x xs"

section \<open>Insertion-ordered maps\<close>

text \<open>
  A JavaScript \<open>Map\<close> iterates in insertion order; \<open>set\<close> on a present key keeps its
  position. It is an association list with distinct keys.
\<close>

definition js_map_get :: "('k \<times> 'v) list \<Rightarrow> 'k \<Rightarrow> 'v option" where
  "js_map_get m k = map_of m k"

definition js_map_set :: "'k \<Rightarrow> 'v \<Rightarrow> ('k \<times> 'v) list \<Rightarrow> ('k \<times> 'v) list" where
  "js_map_set k v m = AList.update k v m"

definition js_map_delete :: "'k \<Rightarrow> ('k \<times> 'v) list \<Rightarrow> ('k \<times> 'v) list" where
  "js_map_delete k m = AList.delete k m"

definition js_map_keys :: "('k \<times> 'v) list \<Rightarrow> 'k list" where
  "js_map_keys m = map fst m"

definition js_map_values :: "('k \<times> 'v) list \<Rightarrow> 'v list" where
  "js_map_values m = map snd m"

text \<open>The contract of such a store and what a client may conclude from it.\<close>

locale ordered_map =
  fixes get :: "'m \<Rightarrow> 'k \<Rightarrow> 'v option"
    and put :: "'k \<Rightarrow> 'v \<Rightarrow> 'm \<Rightarrow> 'm"
    and del :: "'k \<Rightarrow> 'm \<Rightarrow> 'm"
    and keys :: "'m \<Rightarrow> 'k list"
  assumes get_put: "get (put k v m) j = (if j = k then Some v else get m j)"
    and get_del: "get (del k m) j = (if j = k then None else get m j)"
    and get_iff_key: "get m k \<noteq> None \<longleftrightarrow> k \<in> set (keys m)"
    and distinct_put: "distinct (keys m) \<Longrightarrow> distinct (keys (put k v m))"
    and distinct_del: "distinct (keys m) \<Longrightarrow> distinct (keys (del k m))"
    and keys_put_present: "k \<in> set (keys m) \<Longrightarrow> keys (put k v m) = keys m"
begin

lemma get_put_same: "get (put k v m) k = Some v"
  by (simp add: get_put)

lemma get_put_other: "j \<noteq> k \<Longrightarrow> get (put k v m) j = get m j"
  by (simp add: get_put)

lemma get_del_put: "get (del k (put k v m)) j = get (del k m) j"
  by (simp add: get_put get_del)

lemma get_None_iff: "get m k = None \<longleftrightarrow> k \<notin> set (keys m)"
  using get_iff_key [of m k] by blast

lemma keys_put_set: "set (keys (put k v m)) = insert k (set (keys m))"
proof -
  have "\<And>j. j \<in> set (keys (put k v m)) \<longleftrightarrow> j = k \<or> j \<in> set (keys m)"
    by (simp add: get_iff_key [symmetric] get_put)
  then show ?thesis by blast
qed

lemma get_puts:
  "get (fold (\<lambda>p. put (fst p) (snd p)) kvs m) k =
     (case map_of (rev kvs) k of None \<Rightarrow> get m k | Some v \<Rightarrow> Some v)"
  by (induction kvs arbitrary: m) (auto simp: get_put map_add_def split: option.splits)

lemma distinct_puts:
  "distinct (keys m) \<Longrightarrow> distinct (keys (fold (\<lambda>p. put (fst p) (snd p)) kvs m))"
  by (induction kvs arbitrary: m) (auto simp: distinct_put)

end

interpretation js_map: ordered_map js_map_get js_map_set js_map_delete js_map_keys
proof unfold_locales
  show "js_map_get (js_map_set k v m) j = (if j = k then Some v else js_map_get m j)"
    for k :: 'a and v :: 'b and m j
    by (simp add: js_map_get_def js_map_set_def update_conv')
  show "js_map_get (js_map_delete k m) j = (if j = k then None else js_map_get m j)"
    for k :: 'a and m :: "('a \<times> 'b) list" and j
    by (simp add: js_map_get_def js_map_delete_def delete_conv')
  show "(js_map_get m k \<noteq> None) = (k \<in> set (js_map_keys m))"
    for m :: "('a \<times> 'b) list" and k
    by (simp add: js_map_get_def js_map_keys_def map_of_eq_None_iff)
  show "distinct (js_map_keys m) \<Longrightarrow> distinct (js_map_keys (js_map_set k v m))"
    for m :: "('a \<times> 'b) list" and k v
    by (simp add: js_map_keys_def js_map_set_def distinct_update)
  show "distinct (js_map_keys m) \<Longrightarrow> distinct (js_map_keys (js_map_delete k m))"
    for m :: "('a \<times> 'b) list" and k
    by (simp add: js_map_keys_def js_map_delete_def distinct_delete)
  show "k \<in> set (js_map_keys m) \<Longrightarrow> js_map_keys (js_map_set k v m) = js_map_keys m"
    for m :: "('a \<times> 'b) list" and k v
    by (simp add: js_map_keys_def js_map_set_def update_keys)
qed

lemmas js_map_laws = js_map.get_put js_map.get_del js_map.keys_put_set js_map.get_None_iff

lemma js_map_Nil [simp]: "js_map_get [] k = None" "js_map_keys [] = []" "js_map_values [] = []"
  by (simp_all add: js_map_get_def js_map_keys_def js_map_values_def)

lemma js_map_get_in: "js_map_get m k = Some v \<Longrightarrow> (k, v) \<in> set m"
  by (simp add: js_map_get_def map_of_SomeD)

lemma js_map_get_of_mem: "distinct (js_map_keys m) \<Longrightarrow> (k, v) \<in> set m \<Longrightarrow> js_map_get m k = Some v"
  by (simp add: js_map_get_def js_map_keys_def map_of_is_SomeI)

section \<open>The stable sort\<close>

text \<open>
  \<open>Array.prototype.sort\<close> with a comparator is stable; for a consistent comparator its result is
  determined by that. Insertion from the right, in front of the elements that do not compare
  smaller, is such a sort.
\<close>

fun js_insert :: "('a \<Rightarrow> 'a \<Rightarrow> int) \<Rightarrow> 'a \<Rightarrow> 'a list \<Rightarrow> 'a list" where
  "js_insert cmp x [] = [x]"
| "js_insert cmp x (y # ys) = (if cmp x y \<le> 0 then x # y # ys else y # js_insert cmp x ys)"

definition js_sort :: "('a \<Rightarrow> 'a \<Rightarrow> int) \<Rightarrow> 'a list \<Rightarrow> 'a list" where
  "js_sort cmp xs = foldr (js_insert cmp) xs []"

lemma mset_js_insert: "mset (js_insert cmp x xs) = add_mset x (mset xs)"
  by (induction xs) auto

lemma mset_js_sort [simp]: "mset (js_sort cmp xs) = mset xs"
  by (induction xs) (auto simp: js_sort_def mset_js_insert)

lemma set_js_sort [simp]: "set (js_sort cmp xs) = set xs"
  by (metis mset_js_sort set_mset_mset)

lemma length_js_sort [simp]: "length (js_sort cmp xs) = length xs"
  by (metis mset_js_sort size_mset)

lemma js_sort_eq_Nil [simp]: "js_sort cmp xs = [] \<longleftrightarrow> xs = []"
  by (metis mset_js_sort mset_zero_iff)

locale comparator =
  fixes cmp :: "'a \<Rightarrow> 'a \<Rightarrow> int"
  assumes cmp_antisym: "cmp x y < 0 \<longleftrightarrow> 0 < cmp y x"
    and cmp_trans: "cmp x y \<le> 0 \<Longrightarrow> cmp y z \<le> 0 \<Longrightarrow> cmp x z \<le> 0"
begin

lemma cmp_total: "\<not> cmp x y \<le> 0 \<Longrightarrow> cmp y x \<le> 0"
  using cmp_antisym [of y x] by simp

lemma cmp_zero_sym: "cmp x y = 0 \<Longrightarrow> cmp y x = 0"
  using cmp_antisym [of x y] cmp_antisym [of y x] by force

lemma sorted_js_insert:
  "sorted_wrt (\<lambda>a b. cmp a b \<le> 0) xs \<Longrightarrow> sorted_wrt (\<lambda>a b. cmp a b \<le> 0) (js_insert cmp x xs)"
proof (induction xs)
  case Nil
  then show ?case by simp
next
  case (Cons y ys)
  have set_ins: "set (js_insert cmp x ys) = insert x (set ys)"
    by (metis mset_js_insert set_mset_add_mset_insert set_mset_mset)
  from Cons show ?case
    by (auto simp: set_ins intro: cmp_trans dest: cmp_total)
qed

lemma sorted_js_sort: "sorted_wrt (\<lambda>a b. cmp a b \<le> 0) (js_sort cmp xs)"
  by (induction xs) (auto simp: js_sort_def sorted_js_insert)

lemma filter_js_insert:
  assumes "\<And>a b. P a \<Longrightarrow> P b \<Longrightarrow> cmp a b = 0"
  shows "filter P (js_insert cmp x xs) = (if P x then x # filter P xs else filter P xs)"
  using assms by (induction xs) auto

text \<open>Stability: elements that compare equal keep the order they came in.\<close>

lemma js_sort_stable:
  assumes "\<And>a b. P a \<Longrightarrow> P b \<Longrightarrow> cmp a b = 0"
  shows "filter P (js_sort cmp xs) = filter P xs"
  using assms by (induction xs) (auto simp: js_sort_def filter_js_insert)

lemma hd_js_sort_least: "xs \<noteq> [] \<Longrightarrow> x \<in> set xs \<Longrightarrow> cmp (hd (js_sort cmp xs)) x \<le> 0"
proof -
  assume ne: "xs \<noteq> []" and x: "x \<in> set xs"
  then obtain h t where ht: "js_sort cmp xs = h # t"
    by (metis js_sort_eq_Nil neq_Nil_conv)
  have "cmp h h \<le> 0" using cmp_total by blast
  with ht x sorted_js_sort [of xs] show ?thesis
    by (metis list.sel(1) set_ConsD set_js_sort sorted_wrt.simps(2))
qed

lemma hd_js_sort_in: "xs \<noteq> [] \<Longrightarrow> hd (js_sort cmp xs) \<in> set xs"
  by (metis hd_in_set js_sort_eq_Nil set_js_sort)

end

section \<open>Machines and invariants\<close>

text \<open>
  A machine runs a list of labelled steps; a label carries the action and what the rest of the
  system answers during it. \<open>ok\<close> restricts the steps an invariant is claimed for.
\<close>

fun run_steps :: "('l \<Rightarrow> 's \<Rightarrow> 's) \<Rightarrow> 'l list \<Rightarrow> 's \<Rightarrow> 's" where
  "run_steps step [] s = s"
| "run_steps step (l # ls) s = run_steps step ls (step l s)"

fun steps_ok :: "('l \<Rightarrow> 's \<Rightarrow> 's) \<Rightarrow> ('l \<Rightarrow> 's \<Rightarrow> bool) \<Rightarrow> 'l list \<Rightarrow> 's \<Rightarrow> bool" where
  "steps_ok step ok [] s = True"
| "steps_ok step ok (l # ls) s = (ok l s \<and> steps_ok step ok ls (step l s))"

lemma run_steps_append: "run_steps step (xs @ ys) s = run_steps step ys (run_steps step xs s)"
  by (induction xs arbitrary: s) auto

locale invariant_machine =
  fixes step :: "'l \<Rightarrow> 's \<Rightarrow> 's"
    and ok :: "'l \<Rightarrow> 's \<Rightarrow> bool"
    and inv :: "'s \<Rightarrow> bool"
  assumes step_inv: "inv s \<Longrightarrow> ok l s \<Longrightarrow> inv (step l s)"
begin

lemma run_inv: "inv s \<Longrightarrow> steps_ok step ok ls s \<Longrightarrow> inv (run_steps step ls s)"
  by (induction ls arbitrary: s) (auto intro: step_inv)

lemma run_prefix_inv:
  "inv s \<Longrightarrow> steps_ok step ok (xs @ ys) s \<Longrightarrow> inv (run_steps step xs s)"
  by (induction xs arbitrary: s) (auto intro: step_inv)

end

lemma steps_ok_True: "(\<And>l s. ok l s) \<Longrightarrow> steps_ok step ok ls s"
  by (induction ls arbitrary: s) auto

section \<open>Generic list lemmas\<close>

lemma find_SomeD: "List.find P xs = Some x \<Longrightarrow> x \<in> set xs \<and> P x"
  by (induction xs) (auto split: if_splits)

lemma find_None_iff_all: "List.find P xs = None \<longleftrightarrow> (\<forall>x \<in> set xs. \<not> P x)"
  by (induction xs) auto

lemma list_all_filter_eq: "filter P xs = [] \<longleftrightarrow> (\<forall>x \<in> set xs. \<not> P x)"
  by (rule filter_empty_conv)

end
