(* ===== verification/Task_Status.thy ===== *)
theory Task_Status
  imports Harness_Prelude
begin

text \<open>
  Task statuses (\<open>src/core/task-status.ts\<close>) and the normalisation of task ids that the
  queue and the claimant index share (\<open>normalizeTaskId\<close>, \<open>normalizeClaimantTaskId\<close>).
  A status that may be \<open>null\<close> or \<open>undefined\<close> is an option.
\<close>

datatype task_status =
    BACKLOG | READY | IN_PROGRESS | BLOCKED | ON_HOLD | DECOMPOSED | VERIFYING
  | COMPLETE | VERIFIED | REJECTED

definition TASK_STATUSES :: "task_status list" where
  "TASK_STATUSES =
     [BACKLOG, READY, IN_PROGRESS, BLOCKED, ON_HOLD, DECOMPOSED, VERIFYING,
      COMPLETE, VERIFIED, REJECTED]"

fun task_status_name :: "task_status \<Rightarrow> string" where
  "task_status_name BACKLOG = ''BACKLOG''"
| "task_status_name READY = ''READY''"
| "task_status_name IN_PROGRESS = ''IN_PROGRESS''"
| "task_status_name BLOCKED = ''BLOCKED''"
| "task_status_name ON_HOLD = ''ON_HOLD''"
| "task_status_name DECOMPOSED = ''DECOMPOSED''"
| "task_status_name VERIFYING = ''VERIFYING''"
| "task_status_name COMPLETE = ''COMPLETE''"
| "task_status_name VERIFIED = ''VERIFIED''"
| "task_status_name REJECTED = ''REJECTED''"

definition TASK_STATUS_SET :: "string list" where
  "TASK_STATUS_SET = map task_status_name TASK_STATUSES"

definition TASK_STATUS_ALIASES :: "(string \<times> task_status) list" where
  "TASK_STATUS_ALIASES =
     [(''ON-HOLD'', ON_HOLD),
      (''ON HOLD'', ON_HOLD),
      (''INPROGRESS'', IN_PROGRESS),
      (''IN PROGRESS'', IN_PROGRESS),
      (''IN-PROGRESS'', IN_PROGRESS)]"

text \<open>
  \<open>stripTaskStatusAnnotation\<close>. The expression matches a non-empty run of letters, digits,
  underscores, hyphens and white space up to the first opening bracket, then a bracketed note
  without a closing bracket inside, then white space to the end.
\<close>

definition status_text_char :: "char \<Rightarrow> bool" where
  "status_text_char c \<longleftrightarrow> js_word_char c \<or> c = CHR ''-'' \<or> is_js_space c"

definition annotation_prefix :: "string \<Rightarrow> string option" where
  "annotation_prefix t =
     (let p = takeWhile (\<lambda>c. c \<noteq> CHR ''('') t;
          r = dropWhile (\<lambda>c. c \<noteq> CHR ''('') t;
          q = dropWhile (\<lambda>c. c \<noteq> CHR '')'') r
      in if p \<noteq> [] \<and> list_all status_text_char p \<and> r \<noteq> [] \<and> q \<noteq> []
            \<and> list_all is_js_space (tl q)
         then Some p else None)"

definition stripTaskStatusAnnotation :: "string \<Rightarrow> string" where
  "stripTaskStatusAnnotation rawStatus =
     (let trimmed = js_trim rawStatus in
      js_to_upper (js_trim (case annotation_prefix trimmed of
                              Some p \<Rightarrow> p | None \<Rightarrow> trimmed)))"

definition status_of_string :: "string \<Rightarrow> task_status option" where
  "status_of_string n = List.find (\<lambda>st. task_status_name st = n) TASK_STATUSES"

definition normalizeTaskStatus :: "string option \<Rightarrow> task_status option" where
  "normalizeTaskStatus rawStatus =
     (case rawStatus of
        None \<Rightarrow> None
      | Some raw \<Rightarrow>
          if raw = '''' then None
          else let base = stripTaskStatusAnnotation raw in
            (case map_of TASK_STATUS_ALIASES base of
               Some st \<Rightarrow> Some st
             | None \<Rightarrow> status_of_string base))"

definition isTaskStatus :: "string \<Rightarrow> bool" where
  "isTaskStatus value \<longleftrightarrow> value \<in> set TASK_STATUS_SET"

definition isCompleteStatus :: "string option \<Rightarrow> bool" where
  "isCompleteStatus status \<longleftrightarrow> status = Some ''COMPLETE'' \<or> status = Some ''VERIFIED''"

lemma TASK_STATUSES_complete: "st \<in> set TASK_STATUSES"
  by (cases st) (simp_all add: TASK_STATUSES_def)

lemma task_status_name_inj [simp]: "task_status_name a = task_status_name b \<longleftrightarrow> a = b"
  by (cases a; cases b) simp_all

lemma status_of_string_name [simp]: "status_of_string (task_status_name st) = Some st"
  by (cases st) (simp_all add: status_of_string_def TASK_STATUSES_def)

lemma status_of_string_SomeD: "status_of_string n = Some st \<Longrightarrow> task_status_name st = n"
  by (auto simp: status_of_string_def dest: find_SomeD)

text \<open>The characters a status name consists of.\<close>

lemma status_name_all:
  "list_all (\<lambda>c. (js_upper_letter c \<or> c = CHR ''_'') \<and> \<not> is_js_space c \<and> c \<noteq> CHR ''('') (task_status_name st)"
  by (cases st; simp; code_simp)

lemma status_name_chars:
  "c \<in> set (task_status_name st) \<Longrightarrow>
     (js_upper_letter c \<or> c = CHR ''_'') \<and> \<not> is_js_space c \<and> c \<noteq> CHR ''('' \<and> status_text_char c"
  using status_name_all [of st] by (auto simp: list_all_iff status_text_char_def js_word_char_def)

lemma js_upper_char_upper [simp]: "js_upper_letter c \<or> c = CHR ''_'' \<Longrightarrow> js_upper_char c = [c]"
  by (auto simp: js_upper_char_def js_upper_letter_def js_lower_letter_def Let_def)

lemma js_to_upper_status_name [simp]: "js_to_upper (task_status_name st) = task_status_name st"
proof -
  have "js_to_upper s = s" if "\<And>c. c \<in> set s \<Longrightarrow> js_upper_letter c \<or> c = CHR ''_''" for s
    using that by (induction s) (simp_all add: js_to_upper_def)
  then show ?thesis using status_name_chars by blast
qed

lemma js_trim_status_name [simp]: "js_trim (task_status_name st) = task_status_name st"
  by (rule js_trim_no_space) (simp add: status_name_chars)

lemma takeWhile_status_name [simp]:
  "takeWhile (\<lambda>c. c \<noteq> CHR ''('') (task_status_name st @ r) =
     task_status_name st @ takeWhile (\<lambda>c. c \<noteq> CHR ''('') r"
  by (rule takeWhile_append2) (use status_name_chars in blast)

lemma dropWhile_status_name [simp]:
  "dropWhile (\<lambda>c. c \<noteq> CHR ''('') (task_status_name st @ r) = dropWhile (\<lambda>c. c \<noteq> CHR ''('') r"
  by (rule dropWhile_append2) (use status_name_chars in blast)

lemma annotation_prefix_name [simp]: "annotation_prefix (task_status_name st) = None"
  using dropWhile_status_name [of st "[]"] by (simp add: annotation_prefix_def Let_def)

lemma alias_of_name [simp]: "map_of TASK_STATUS_ALIASES (task_status_name st) = None"
  by (cases st) (simp_all add: TASK_STATUS_ALIASES_def)

lemma status_name_nonempty [simp]: "task_status_name st \<noteq> ''''"
  by (cases st) simp_all

lemma normalize_plain_status: "normalizeTaskStatus (Some (task_status_name st)) = Some st"
  by (simp add: normalizeTaskStatus_def stripTaskStatusAnnotation_def Let_def)

lemma strip_annotated_status:
  assumes "CHR '')'' \<notin> set note"
  shows "stripTaskStatusAnnotation (task_status_name st @ '' ('' @ note @ '')'') = task_status_name st"
proof -
  let ?t = "task_status_name st @ '' ('' @ note @ '')''"
  obtain c cs where n: "task_status_name st = c # cs" by (cases "task_status_name st") auto
  have c: "\<not> is_js_space c" using status_name_chars [of c st] n by simp
  have t: "js_trim ?t = ?t" using c by (simp add: js_trim_def n is_js_space_def)
  have sp: "status_text_char (CHR '' '')" by (simp add: status_text_char_def is_js_space_def)
  have "list_all status_text_char (task_status_name st)"
    using status_name_chars by (simp add: list_all_iff)
  moreover have "dropWhile (\<lambda>c. c \<noteq> CHR '')'') (note @ '')'') = '')''"
    using assms by (subst dropWhile_append2) auto
  then have "dropWhile (\<lambda>c. c \<noteq> CHR '')'') (CHR ''('' # note @ '')'') = '')''"
    by simp
  ultimately have "annotation_prefix ?t = Some (task_status_name st @ '' '')"
    by (simp add: annotation_prefix_def Let_def sp)
  moreover have "js_trim (task_status_name st @ '' '') = task_status_name st"
    by (rule js_trim_snoc_space, simp add: status_name_chars, simp, simp add: is_js_space_def)
  ultimately show ?thesis using t by (simp add: stripTaskStatusAnnotation_def Let_def)
qed

text \<open>A normalised status is one of the canonical ones, and its name normalises to itself.\<close>

lemma normalize_idempotent:
  "normalizeTaskStatus raw = Some st \<Longrightarrow> normalizeTaskStatus (Some (task_status_name st)) = Some st"
  by (rule normalize_plain_status)

text \<open>
  A status keeps its meaning when it is annotated: the name of a status followed by a note
  in brackets, as task files write it, normalises to that status.
\<close>

theorem annotated_status_normalizes:
  assumes "CHR '')'' \<notin> set note"
  shows "normalizeTaskStatus (Some (task_status_name st @ '' ('' @ note @ '')'')) = Some st"
  using strip_annotated_status [OF assms, of st] by (simp add: normalizeTaskStatus_def Let_def)

lemma annotated_status_normalizes_witness:
  "normalizeTaskStatus (Some ''IN_PROGRESS (since monday)'') = Some IN_PROGRESS"
  using annotated_status_normalizes [of "''since monday''" IN_PROGRESS] by simp

section \<open>Task ids\<close>

text \<open>
  The first match of the expression \<open>\bTASK-\d+(?:-[A-Z]+)?\b\<close>. Digits and letters are taken
  greedily: a shorter run would end inside a word, where \<open>\b\<close> fails, so the only backtracking
  left is to give up the optional suffix.
\<close>

definition at_word_end :: "string \<Rightarrow> bool" where
  "at_word_end r \<longleftrightarrow> (case r of [] \<Rightarrow> True | c # _ \<Rightarrow> \<not> js_word_char c)"

definition task_id_suffix :: "string \<Rightarrow> string option" where
  "task_id_suffix r =
     (case r of
        [] \<Rightarrow> None
      | c # cs \<Rightarrow>
          let l = takeWhile js_upper_letter cs in
          if c = CHR ''-'' \<and> l \<noteq> [] \<and> at_word_end (dropWhile js_upper_letter cs)
          then Some (c # l) else None)"

definition task_id_at :: "string \<Rightarrow> string option" where
  "task_id_at s =
     (if js_starts_with s ''TASK-'' then
        let d = takeWhile js_digit (drop 5 s);
            r = dropWhile js_digit (drop 5 s)
        in if d = [] then None
           else (case task_id_suffix r of
                   Some x \<Rightarrow> Some (''TASK-'' @ d @ x)
                 | None \<Rightarrow> if at_word_end r then Some (''TASK-'' @ d) else None)
      else None)"

fun first_task_id :: "bool \<Rightarrow> string \<Rightarrow> string option" where
  "first_task_id after_word [] = None"
| "first_task_id after_word (c # cs) =
     (case (if after_word then None else task_id_at (c # cs)) of
        Some m \<Rightarrow> Some m
      | None \<Rightarrow> first_task_id (js_word_char c) cs)"

definition normalizeTaskId :: "string \<Rightarrow> string" where
  "normalizeTaskId value =
     (case first_task_id False value of Some m \<Rightarrow> m | None \<Rightarrow> js_trim value)"

definition normalizeClaimantTaskId :: "string \<Rightarrow> string" where
  "normalizeClaimantTaskId taskId =
     (let trimmed = js_to_upper (js_trim taskId) in
      case first_task_id False trimmed of Some m \<Rightarrow> m | None \<Rightarrow> trimmed)"

definition canonical_task_id :: "string \<Rightarrow> bool" where
  "canonical_task_id m \<longleftrightarrow>
     (\<exists>d x. m = ''TASK-'' @ d @ x \<and> d \<noteq> [] \<and> list_all js_digit d \<and>
        (x = [] \<or> (\<exists>l. x = CHR ''-'' # l \<and> l \<noteq> [] \<and> list_all js_upper_letter l)))"

lemma task_id_at_shape:
  assumes "task_id_at s = Some m"
  shows "canonical_task_id m"
proof -
  have digits: "list_all js_digit (takeWhile js_digit t)" for t
    by (auto simp: list_all_iff dest: set_takeWhileD)
  have letters: "list_all js_upper_letter (takeWhile js_upper_letter t)" for t
    by (auto simp: list_all_iff dest: set_takeWhileD)
  have suffix: "task_id_suffix r = Some x \<Longrightarrow>
      \<exists>l. x = CHR ''-'' # l \<and> l \<noteq> [] \<and> list_all js_upper_letter l" for r x
    using letters by (auto simp: task_id_suffix_def Let_def split: list.splits if_splits)
  show ?thesis
  proof (cases "task_id_suffix (dropWhile js_digit (drop 5 s))")
    case None
    with assms have "m = ''TASK-'' @ takeWhile js_digit (drop 5 s) @ []"
      and "takeWhile js_digit (drop 5 s) \<noteq> []"
      by (auto simp: task_id_at_def Let_def split: if_splits)
    then show ?thesis using digits unfolding canonical_task_id_def by blast
  next
    case (Some x)
    with assms have "m = ''TASK-'' @ takeWhile js_digit (drop 5 s) @ x"
      and "takeWhile js_digit (drop 5 s) \<noteq> []"
      by (auto simp: task_id_at_def Let_def split: if_splits)
    then show ?thesis using digits suffix [OF Some] unfolding canonical_task_id_def by blast
  qed
qed

lemma first_task_id_shape: "first_task_id b s = Some m \<Longrightarrow> canonical_task_id m"
  by (induction b s rule: first_task_id.induct)
     (auto split: if_splits option.splits dest: task_id_at_shape)

lemma digits_then_suffix:
  assumes "list_all js_digit d" and "x = [] \<or> (\<exists>l. x = CHR ''-'' # l)"
  shows "takeWhile js_digit (d @ x) = d" and "dropWhile js_digit (d @ x) = x"
proof -
  have "\<not> js_digit (CHR ''-'')" by (simp add: js_digit_def)
  with assms show "takeWhile js_digit (d @ x) = d" "dropWhile js_digit (d @ x) = x"
    by (auto simp: list_all_iff takeWhile_append2 dropWhile_append2)
qed

lemma task_id_at_canonical:
  assumes "d \<noteq> []" and "list_all js_digit d"
    and "x = [] \<or> (\<exists>l. x = CHR ''-'' # l \<and> l \<noteq> [] \<and> list_all js_upper_letter l)"
  shows "task_id_at (''TASK-'' @ d @ x) = Some (''TASK-'' @ d @ x)"
proof -
  have x: "x = [] \<or> (\<exists>l. x = CHR ''-'' # l)" using assms(3) by blast
  have all_letters: "takeWhile js_upper_letter l = l" "dropWhile js_upper_letter l = []"
    if "list_all js_upper_letter l" for l
    using that by (simp_all add: list_all_iff takeWhile_eq_all_conv dropWhile_eq_Nil_conv)
  have s: "task_id_suffix x = (if x = [] then None else Some x)"
    using assms(3)
    by (auto simp: task_id_suffix_def Let_def at_word_end_def all_letters)
  show ?thesis
    using assms(1) digits_then_suffix [OF assms(2) x] s
    by (auto simp: task_id_at_def Let_def js_starts_with_def at_word_end_def)
qed

lemma normalizeTaskId_canonical:
  "first_task_id False v = Some m \<Longrightarrow> normalizeTaskId m = m"
proof -
  assume "first_task_id False v = Some m"
  then obtain d x where m: "m = ''TASK-'' @ d @ x" and "d \<noteq> []" "list_all js_digit d"
    "x = [] \<or> (\<exists>l. x = CHR ''-'' # l \<and> l \<noteq> [] \<and> list_all js_upper_letter l)"
    using first_task_id_shape unfolding canonical_task_id_def by blast
  then have "task_id_at (''TASK-'' @ d @ x) = Some (''TASK-'' @ d @ x)"
    by (intro task_id_at_canonical)
  then show ?thesis by (simp add: normalizeTaskId_def m)
qed

text \<open>A task id is a fixed point of the claimants' normalisation.\<close>

lemma plain_chars:
  "js_digit c \<Longrightarrow> \<not> is_js_space c \<and> js_upper_char c = [c]"
  "js_upper_letter c \<Longrightarrow> \<not> is_js_space c \<and> js_upper_char c = [c]"
  by (auto simp: is_js_space_def js_digit_def js_upper_letter_def js_upper_char_def js_lower_letter_def Let_def)

lemma canonical_chars:
  assumes "canonical_task_id m" and "c \<in> set m"
  shows "\<not> is_js_space c \<and> js_upper_char c = [c]"
proof -
  have lit: "\<not> is_js_space c \<and> js_upper_char c = [c]" if "c \<in> set ''TASK-''" for c
    using that by (auto simp: is_js_space_def js_upper_char_def js_lower_letter_def Let_def)
  from assms consider "c \<in> set ''TASK-''" | "js_digit c" | "js_upper_letter c"
    unfolding canonical_task_id_def by (auto simp: list_all_iff)
  then show ?thesis using lit plain_chars by cases blast+
qed

lemma normalizeClaimantTaskId_canonical:
  assumes "canonical_task_id m"
  shows "normalizeClaimantTaskId m = m"
proof -
  have "js_trim m = m" using canonical_chars [OF assms] by (intro js_trim_no_space) blast
  moreover have "js_to_upper m = m"
    using canonical_chars [OF assms] unfolding js_to_upper_def by (induction m) auto
  moreover have "first_task_id False m = Some m"
  proof -
    obtain d x where m: "m = ''TASK-'' @ d @ x" and "d \<noteq> []" "list_all js_digit d"
      "x = [] \<or> (\<exists>l. x = CHR ''-'' # l \<and> l \<noteq> [] \<and> list_all js_upper_letter l)"
      using assms unfolding canonical_task_id_def by blast
    then have "task_id_at (''TASK-'' @ d @ x) = Some (''TASK-'' @ d @ x)" by (intro task_id_at_canonical)
    then show ?thesis by (simp add: m)
  qed
  ultimately show ?thesis by (simp add: normalizeClaimantTaskId_def)
qed

end
