(* ===== verification/Duplicate_Claimants.thy ===== *)
theory Duplicate_Claimants
  imports Task_Status
begin

text \<open>
  The claimant index (\<open>src/core/duplicate-claimants.ts\<close>): which task ids are declared by
  more than one file, and the refusals raised for them. The directory scan that produces the
  declarations is an input: \<open>None\<close> when no producer was given, \<open>Inl\<close> of its error
  message, or \<open>Inr\<close> of the declarations. Claimants are sorted with \<open>localeCompare\<close>, whose
  collation depends on the host, so the comparator is an argument of the functions that use it.
\<close>

record task_claimant_declaration =
  fileName :: string
  declaredId :: string

datatype task_claimant_index =
    TciScanned "(string \<times> string list) list"
  | TciUnavailable string

datatype duplicate_claimant_index =
    DciScanned "(string \<times> string list) list"
  | DciUnavailable string

record duplicate_claimant_check =
  chk_taskId :: string
  chk_claimants :: "string list"

record duplicate_claimant_refusal =
  ref_taskId :: string
  ref_claimants :: "string list"
  ref_message :: string
  ref_retryable :: bool

definition add_claimant ::
  "task_claimant_declaration \<Rightarrow> (string \<times> string list) list \<Rightarrow> (string \<times> string list) list" where
  "add_claimant d m =
     js_map_set (declaredId d)
       ((case js_map_get m (declaredId d) of None \<Rightarrow> [] | Some existing \<Rightarrow> existing)
          @ [fileName d]) m"

definition groupTaskClaimantsByDeclaredId ::
  "task_claimant_declaration list \<Rightarrow> (string \<times> string list) list" where
  "groupTaskClaimantsByDeclaredId declarations = fold add_claimant declarations []"

definition buildStrictTaskClaimantIndex ::
  "(string \<Rightarrow> string \<Rightarrow> int) \<Rightarrow> (string + task_claimant_declaration list) option
     \<Rightarrow> task_claimant_index" where
  "buildStrictTaskClaimantIndex localeCompare producer =
     (case producer of
        None \<Rightarrow> TciUnavailable ''TaskService is unavailable for claimant scan.''
      | Some (Inl detail) \<Rightarrow> TciUnavailable (''Claimant scan failed: '' @ detail)
      | Some (Inr declarations) \<Rightarrow>
          let normalized =
                map (\<lambda>d. d\<lparr>declaredId := normalizeClaimantTaskId (declaredId d)\<rparr>) declarations;
              claimants = groupTaskClaimantsByDeclaredId normalized
          in TciScanned (map (\<lambda>(i, fs). (i, js_sort localeCompare fs)) claimants))"

text \<open>\<open>replace\<close> with a string pattern changes the first occurrence only.\<close>

fun js_replace_first :: "string \<Rightarrow> string \<Rightarrow> string \<Rightarrow> string" where
  "js_replace_first s pat new =
     (if js_starts_with s pat then new @ drop (length pat) s
      else (case s of [] \<Rightarrow> [] | c # cs \<Rightarrow> c # js_replace_first cs pat new))"

declare js_replace_first.simps [simp del]

definition buildStrictDuplicateClaimantIndex ::
  "(string \<Rightarrow> string \<Rightarrow> int) \<Rightarrow> (string + task_claimant_declaration list) option
     \<Rightarrow> duplicate_claimant_index" where
  "buildStrictDuplicateClaimantIndex localeCompare producer =
     (case buildStrictTaskClaimantIndex localeCompare producer of
        TciUnavailable reason \<Rightarrow>
          DciUnavailable
            (if reason = ''TaskService is unavailable for claimant scan.''
             then ''TaskService is unavailable for duplicate claimant scan.''
             else js_replace_first reason ''Claimant scan'' ''Duplicate claimant scan'')
      | TciScanned claimants \<Rightarrow>
          DciScanned (filter (\<lambda>(i, fs). 1 < length fs) claimants))"

definition formatDuplicateClaimantsMessage :: "string \<Rightarrow> string list \<Rightarrow> string" where
  "formatDuplicateClaimantsMessage taskId claimants =
     ''Task '' @ taskId @ '' has duplicate claimants: '' @ js_join '', '' claimants
       @ ''. Refusing to write until the id has one owner.''"

definition duplicateClaimantRefusal ::
  "duplicate_claimant_check \<Rightarrow> duplicate_claimant_refusal" where
  "duplicateClaimantRefusal check =
     \<lparr>ref_taskId = chk_taskId check,
      ref_claimants = chk_claimants check,
      ref_message = formatDuplicateClaimantsMessage (chk_taskId check) (chk_claimants check),
      ref_retryable = False\<rparr>"

definition duplicateClaimantRefusalForIndex ::
  "duplicate_claimant_index \<Rightarrow> string \<Rightarrow> duplicate_claimant_refusal option" where
  "duplicateClaimantRefusalForIndex index taskId =
     (let normalizedTaskId = normalizeClaimantTaskId taskId in
      case index of
        DciUnavailable reason \<Rightarrow>
          Some \<lparr>ref_taskId = normalizedTaskId, ref_claimants = [],
                ref_message = ''Task '' @ normalizedTaskId
                  @ '' duplicate claimant scan unavailable: '' @ reason
                  @ '' Refusing admission until the scan succeeds.'',
                ref_retryable = True\<rparr>
      | DciScanned contested \<Rightarrow>
          map_option
            (\<lambda>claimants. duplicateClaimantRefusal
               \<lparr>chk_taskId = normalizedTaskId, chk_claimants = claimants\<rparr>)
            (js_map_get contested normalizedTaskId))"

text \<open>The error class \<open>DuplicateClaimantAdmissionError\<close> carries the check it was built from.\<close>

datatype claimant_admission_error = DuplicateClaimantAdmissionError duplicate_claimant_check

definition assertUncontestedClaimant ::
  "duplicate_claimant_check option \<Rightarrow> claimant_admission_error + unit" where
  "assertUncontestedClaimant check =
     (case check of
        Some c \<Rightarrow> if 1 < length (chk_claimants c)
                  then Inl (DuplicateClaimantAdmissionError c) else Inr ()
      | None \<Rightarrow> Inr ())"

section \<open>The grouping\<close>

definition files_of :: "task_claimant_declaration list \<Rightarrow> string \<Rightarrow> string list" where
  "files_of ds i = map fileName (filter (\<lambda>d. declaredId d = i) ds)"

lemma get_add_claimant:
  "js_map_get (add_claimant d m) i =
     (if i = declaredId d
      then Some ((case js_map_get m i of None \<Rightarrow> [] | Some fs \<Rightarrow> fs) @ [fileName d])
      else js_map_get m i)"
  by (simp add: add_claimant_def js_map_laws)

lemma get_fold_add_claimant:
  "js_map_get (fold add_claimant ds m) i =
     (case js_map_get m i of
        None \<Rightarrow> (if files_of ds i = [] then None else Some (files_of ds i))
      | Some fs \<Rightarrow> Some (fs @ files_of ds i))"
  by (induction ds arbitrary: m)
     (auto simp: files_of_def get_add_claimant split: option.splits)

lemma get_group:
  "js_map_get (groupTaskClaimantsByDeclaredId ds) i =
     (if files_of ds i = [] then None else Some (files_of ds i))"
  by (simp add: groupTaskClaimantsByDeclaredId_def get_fold_add_claimant)

lemma distinct_fold_add_claimant:
  "distinct (js_map_keys m) \<Longrightarrow> distinct (js_map_keys (fold add_claimant ds m))"
  by (induction ds arbitrary: m) (auto simp: add_claimant_def js_map.distinct_put)

lemma distinct_group: "distinct (js_map_keys (groupTaskClaimantsByDeclaredId ds))"
  by (simp add: groupTaskClaimantsByDeclaredId_def distinct_fold_add_claimant)

lemma get_map_values:
  "js_map_get (map (\<lambda>(i, fs). (i, f fs)) m) i = map_option f (js_map_get m i)"
  by (induction m) (auto simp: js_map_get_def)

lemma get_filter_values:
  "distinct (js_map_keys m) \<Longrightarrow>
     js_map_get (filter (\<lambda>(i, fs). P fs) m) i =
       (case js_map_get m i of None \<Rightarrow> None | Some fs \<Rightarrow> if P fs then Some fs else None)"
proof (induction m)
  case Nil
  then show ?case by (simp add: js_map_get_def)
next
  case (Cons p m)
  obtain j fs where p: "p = (j, fs)" by (cases p)
  from Cons.prems p have "j \<notin> fst ` set m" by (simp add: js_map_keys_def)
  then have "map_of m j = None" and "map_of (filter (\<lambda>(i, fs). P fs) m) j = None"
    by (auto simp: map_of_eq_None_iff)
  with Cons p show ?case by (auto simp: js_map_get_def js_map_keys_def)
qed

lemma distinct_keys_map_values:
  "js_map_keys (map (\<lambda>(i, fs). (i, f fs)) m) = js_map_keys m"
  by (induction m) (auto simp: js_map_keys_def)

text \<open>The files that claim a task id after normalisation.\<close>

definition claimant_files :: "task_claimant_declaration list \<Rightarrow> string \<Rightarrow> string list" where
  "claimant_files ds i =
     map fileName (filter (\<lambda>d. normalizeClaimantTaskId (declaredId d) = i) ds)"

lemma files_of_normalized:
  "files_of (map (\<lambda>d. d\<lparr>declaredId := normalizeClaimantTaskId (declaredId d)\<rparr>) ds) i
     = claimant_files ds i"
  by (induction ds) (auto simp: files_of_def claimant_files_def)

lemma strict_index_lookup:
  "buildStrictTaskClaimantIndex lc (Some (Inr ds)) = TciScanned m \<Longrightarrow>
     js_map_get m i =
       (if claimant_files ds i = [] then None else Some (js_sort lc (claimant_files ds i)))"
  by (auto simp: buildStrictTaskClaimantIndex_def Let_def get_map_values get_group
        files_of_normalized)

lemma duplicate_index_lookup:
  assumes "buildStrictDuplicateClaimantIndex lc (Some (Inr ds)) = DciScanned m"
  shows "js_map_get m i =
           (if 1 < length (claimant_files ds i) then Some (js_sort lc (claimant_files ds i))
            else None)"
proof -
  obtain c where c: "buildStrictTaskClaimantIndex lc (Some (Inr ds)) = TciScanned c"
    by (simp add: buildStrictTaskClaimantIndex_def Let_def)
  then have m: "m = filter (\<lambda>(i, fs). 1 < length fs) c"
    using assms by (simp add: buildStrictDuplicateClaimantIndex_def)
  have "distinct (js_map_keys c)"
    using c by (auto simp: buildStrictTaskClaimantIndex_def Let_def distinct_keys_map_values
        distinct_group)
  then show ?thesis
    by (auto simp: m get_filter_values strict_index_lookup [OF c] split: if_splits)
qed

lemma assertUncontestedClaimant_ok:
  "assertUncontestedClaimant check = Inr () \<longleftrightarrow>
     (\<forall>c. check = Some c \<longrightarrow> length (chk_claimants c) \<le> 1)"
  by (auto simp: assertUncontestedClaimant_def split: option.splits)

text \<open>
  Refusals fail closed. When the scan of the task files succeeds, an id is refused exactly
  when more than one file claims it (ids compared after normalisation), with the claiming files
  in the host's collation order and without leave to retry; when the scan is unavailable every
  id is refused, without claimants and with leave to retry.
\<close>

theorem claimant_refusal_exact:
  "case producer of
     Some (Inr ds) \<Rightarrow>
       duplicateClaimantRefusalForIndex (buildStrictDuplicateClaimantIndex lc producer) i =
         (let n = normalizeClaimantTaskId i; files = js_sort lc (claimant_files ds n) in
          if 1 < length (claimant_files ds n)
          then Some \<lparr>ref_taskId = n, ref_claimants = files,
                     ref_message = formatDuplicateClaimantsMessage n files, ref_retryable = False\<rparr>
          else None)
   | _ \<Rightarrow>
       \<exists>msg. duplicateClaimantRefusalForIndex (buildStrictDuplicateClaimantIndex lc producer) i =
         Some \<lparr>ref_taskId = normalizeClaimantTaskId i, ref_claimants = [], ref_message = msg,
               ref_retryable = True\<rparr>"
proof -
  have scanned: ?thesis if ds: "producer = Some (Inr ds)" for ds
  proof -
    obtain m where m: "buildStrictDuplicateClaimantIndex lc (Some (Inr ds)) = DciScanned m"
      by (simp add: buildStrictDuplicateClaimantIndex_def buildStrictTaskClaimantIndex_def Let_def)
    show ?thesis
      unfolding ds by (simp add: m duplicateClaimantRefusalForIndex_def duplicate_index_lookup [OF m]
          duplicateClaimantRefusal_def Let_def)
  qed
  have unavailable: ?thesis if "producer = None \<or> producer = Some (Inl detail)" for detail
    using that by (auto simp: buildStrictDuplicateClaimantIndex_def buildStrictTaskClaimantIndex_def
        duplicateClaimantRefusalForIndex_def Let_def)
  show ?thesis
    using scanned unavailable by (cases producer; cases "the producer") auto
qed

end
