(* ===== verification/Queue_Types.thy ===== *)
theory Queue_Types
  imports Duplicate_Claimants
begin

text \<open>
  The data of the dispatch queue (\<open>src/queue/queue-types.ts\<close>). Of \<open>StartOptions\<close> (declared
  by the dispatch manager) the fields the queue reads or writes are fields of the record; the
  other options it only copies are kept together in \<open>so_other\<close>. An absent optional field is
  \<open>None\<close>; \<open>enrichmentPending\<close> is only tested for truth, so absent and \<open>false\<close> coincide.
\<close>

record start_options =
  so_resume :: bool
  so_parentTaskId :: "task_id option"
  so_sharedBranchName :: "string option"
  so_duplicateClaimantCheck :: "duplicate_claimant_check option"
  so_admittedTaskContentHash :: "string option"
  so_other :: "(string \<times> js_value) list"

definition no_options :: start_options where
  "no_options = \<lparr>so_resume = False, so_parentTaskId = None, so_sharedBranchName = None,
     so_duplicateClaimantCheck = None, so_admittedTaskContentHash = None, so_other = []\<rparr>"

text \<open>Spreading an absent options object gives an object without fields.\<close>

definition spread_options :: "start_options option \<Rightarrow> start_options" where
  "spread_options opts = (case opts of None \<Rightarrow> no_options | Some so \<Rightarrow> so)"

datatype queue_item_status =
    RecoveredPendingScan | Queued | Ready | Running | AwaitingApproval
  | Completed | Failed | Blocked | Skipped | Stopped

fun status_name :: "queue_item_status \<Rightarrow> string" where
  "status_name RecoveredPendingScan = ''recovered_pending_scan''"
| "status_name Queued = ''queued''"
| "status_name Ready = ''ready''"
| "status_name Running = ''running''"
| "status_name AwaitingApproval = ''awaiting_approval''"
| "status_name Completed = ''completed''"
| "status_name Failed = ''failed''"
| "status_name Blocked = ''blocked''"
| "status_name Skipped = ''skipped''"
| "status_name Stopped = ''stopped''"

datatype failure_propagation = FailFast | SkipDependents | ContinueAll

fun failure_propagation_name :: "failure_propagation \<Rightarrow> string" where
  "failure_propagation_name FailFast = ''fail_fast''"
| "failure_propagation_name SkipDependents = ''skip_dependents''"
| "failure_propagation_name ContinueAll = ''continue_all''"

record queue_item =
  qi_taskId :: task_id
  qi_status :: queue_item_status
  qi_priority :: int
  qi_blockedBy :: "task_id list"
  qi_enqueuedAt :: millis
  qi_startedAt :: "millis option"
  qi_awaitingApprovalAt :: "millis option"
  qi_completedAt :: "millis option"
  qi_outcome :: "string option"
  qi_costUsd :: "usd option"
  qi_durationMs :: "millis option"
  qi_retryCount :: nat
  qi_error :: "string option"
  qi_blockedReason :: "string option"
  qi_enrichmentPending :: bool
  qi_duplicateBlockedBy :: "task_id list option"
  qi_dispatchOptions :: "start_options option"

record dispatch_queue_config =
  cfg_maxConcurrent :: int
  cfg_cooldownBetweenTasksMs :: millis
  cfg_failurePropagation :: failure_propagation
  cfg_fleetBudgetUsd :: usd
  cfg_pauseOnFailure :: bool
  cfg_persistState :: bool
  cfg_autoStartOnEnqueue :: bool

text \<open>A partial configuration: an absent field keeps the current value.\<close>

record partial_queue_config =
  pc_maxConcurrent :: "int option"
  pc_cooldownBetweenTasksMs :: "millis option"
  pc_failurePropagation :: "failure_propagation option"
  pc_fleetBudgetUsd :: "usd option"
  pc_pauseOnFailure :: "bool option"
  pc_persistState :: "bool option"
  pc_autoStartOnEnqueue :: "bool option"

record queue_stats =
  st_total :: nat
  st_queued :: nat
  st_ready :: nat
  st_running :: nat
  st_awaitingApproval :: nat
  st_completed :: nat
  st_failed :: nat
  st_blocked :: nat
  st_skipped :: nat
  st_stopped :: nat
  st_recoveredPendingScan :: nat
  st_recoveryScanUnavailableReason :: "string option"
  st_totalCostUsd :: usd
  st_totalDurationMs :: millis
  st_startedAt :: "millis option"
  st_completedAt :: "millis option"

text \<open>An item holds a lane while its dispatch is alive or paused at a human gate.\<close>

definition lane_status :: "queue_item_status \<Rightarrow> bool" where
  "lane_status st \<longleftrightarrow> st = Running \<or> st = AwaitingApproval"

definition waiting_status :: "queue_item_status \<Rightarrow> bool" where
  "waiting_status st \<longleftrightarrow> st = Queued \<or> st = Ready"

lemma lane_status_simps [simp]:
  "lane_status Running" "lane_status AwaitingApproval"
  "\<not> lane_status RecoveredPendingScan" "\<not> lane_status Queued" "\<not> lane_status Ready"
  "\<not> lane_status Completed" "\<not> lane_status Failed" "\<not> lane_status Blocked"
  "\<not> lane_status Skipped" "\<not> lane_status Stopped"
  by (simp_all add: lane_status_def)

instantiation queue_item_status :: linorder
begin

fun status_rank :: "queue_item_status \<Rightarrow> nat" where
  "status_rank RecoveredPendingScan = 0"
| "status_rank Queued = 1"
| "status_rank Ready = 2"
| "status_rank Running = 3"
| "status_rank AwaitingApproval = 4"
| "status_rank Completed = 5"
| "status_rank Failed = 6"
| "status_rank Blocked = 7"
| "status_rank Skipped = 8"
| "status_rank Stopped = 9"

definition less_eq_queue_item_status :: "queue_item_status \<Rightarrow> queue_item_status \<Rightarrow> bool" where
  "a \<le> b \<longleftrightarrow> status_rank a \<le> status_rank b"

definition less_queue_item_status :: "queue_item_status \<Rightarrow> queue_item_status \<Rightarrow> bool" where
  "a < b \<longleftrightarrow> status_rank a < status_rank b"

instance
proof
  fix a b c :: queue_item_status
  show "a < b \<longleftrightarrow> a \<le> b \<and> \<not> b \<le> a"
    by (auto simp: less_queue_item_status_def less_eq_queue_item_status_def)
  show "a \<le> a" by (simp add: less_eq_queue_item_status_def)
  show "a \<le> b \<Longrightarrow> b \<le> c \<Longrightarrow> a \<le> c" by (simp add: less_eq_queue_item_status_def)
  show "a \<le> b \<Longrightarrow> b \<le> a \<Longrightarrow> a = b"
    by (cases a; cases b) (simp_all add: less_eq_queue_item_status_def)
  show "a \<le> b \<or> b \<le> a" by (auto simp: less_eq_queue_item_status_def)
qed

end

end
