(* ===== verification/Concurrency_Guard.thy ===== *)
theory Concurrency_Guard
  imports Queue_Types
begin

text \<open>
  The concurrency guard (\<open>src/queue/concurrency-guard.ts\<close>): the lane counter, the cooldown
  between starts and the fleet budget. \<open>Date.now()\<close> is an argument of the operations that
  read the clock. The contract the queue relies on is the locale \<open>lane_counter\<close>.
\<close>

record guard_options =
  go_maxConcurrent :: int
  go_cooldownBetweenTasksMs :: millis
  go_fleetBudgetUsd :: usd

record guard_state =
  gs_runningCount :: nat
  gs_lastStartTime :: millis
  gs_totalSpentUsd :: usd

record guard =
  g_options :: guard_options
  g_state :: guard_state

datatype can_start_result =
    Allowed
  | Denied string millis

definition initial_guard_state :: guard_state where
  "initial_guard_state =
     \<lparr>gs_runningCount = 0, gs_lastStartTime = 0, gs_totalSpentUsd = 0\<rparr>"

definition new_guard :: "guard_options \<Rightarrow> guard" where
  "new_guard opts = \<lparr>g_options = opts, g_state = initial_guard_state\<rparr>"

definition canStart :: "millis \<Rightarrow> usd \<Rightarrow> guard \<Rightarrow> can_start_result" where
  "canStart now estimatedBudget g =
     (let st = g_state g; opts = g_options g;
          elapsed = now - gs_lastStartTime st;
          projected = gs_totalSpentUsd st + estimatedBudget
      in if go_maxConcurrent opts \<le> int (gs_runningCount st)
         then Denied ''concurrency_limit'' 3000
         else if 0 < gs_lastStartTime st \<and> elapsed < go_cooldownBetweenTasksMs opts
         then Denied ''cooldown'' (go_cooldownBetweenTasksMs opts - elapsed)
         else if 0 < go_fleetBudgetUsd opts \<and> go_fleetBudgetUsd opts \<le> projected
         then Denied ''fleet_budget_exhausted'' 0
         else Allowed)"

definition onTaskStart :: "millis \<Rightarrow> guard \<Rightarrow> guard" where
  "onTaskStart now g =
     g\<lparr>g_state := (g_state g)\<lparr>gs_runningCount := gs_runningCount (g_state g) + 1,
                            gs_lastStartTime := now\<rparr>\<rparr>"

definition onTaskComplete :: "usd \<Rightarrow> guard \<Rightarrow> guard" where
  "onTaskComplete costUsd g =
     (let st = g_state g in
      g\<lparr>g_state := st\<lparr>gs_runningCount :=
                          (if 0 < gs_runningCount st then gs_runningCount st - 1
                           else gs_runningCount st),
                       gs_totalSpentUsd := gs_totalSpentUsd st + costUsd\<rparr>\<rparr>)"

definition updateOptions :: "guard_options \<Rightarrow> guard \<Rightarrow> guard" where
  "updateOptions opts g = g\<lparr>g_options := opts\<rparr>"

definition reset_guard :: "guard \<Rightarrow> guard" where
  "reset_guard g = g\<lparr>g_state := initial_guard_state\<rparr>"

definition lanes_in_use :: "guard \<Rightarrow> nat" where
  "lanes_in_use g = gs_runningCount (g_state g)"

lemma lanes_start [simp, lane_simps]: "lanes_in_use (onTaskStart now g) = Suc (lanes_in_use g)"
  by (simp add: lanes_in_use_def onTaskStart_def)

lemma lanes_complete [simp, lane_simps]: "lanes_in_use (onTaskComplete c g) = lanes_in_use g - 1"
  by (simp add: lanes_in_use_def onTaskComplete_def Let_def)

lemma lanes_updateOptions [simp, lane_simps]: "lanes_in_use (updateOptions opts g) = lanes_in_use g"
  by (simp add: lanes_in_use_def updateOptions_def)

lemma lanes_new [simp]: "lanes_in_use (new_guard opts) = 0"
  by (simp add: lanes_in_use_def new_guard_def initial_guard_state_def)

lemma options_kept [simp]:
  "g_options (onTaskStart now g) = g_options g"
  "g_options (onTaskComplete c g) = g_options g"
  by (simp_all add: onTaskStart_def onTaskComplete_def Let_def)

text \<open>The decision in closed form: every refusal names its reason and its wait.\<close>

lemma canStart_Allowed_iff:
  "canStart now est g = Allowed \<longleftrightarrow>
     int (gs_runningCount (g_state g)) < go_maxConcurrent (g_options g) \<and>
     (gs_lastStartTime (g_state g) \<le> 0 \<or>
        go_cooldownBetweenTasksMs (g_options g) \<le> now - gs_lastStartTime (g_state g)) \<and>
     (go_fleetBudgetUsd (g_options g) \<le> 0 \<or>
        gs_totalSpentUsd (g_state g) + est < go_fleetBudgetUsd (g_options g))"
  by (auto simp: canStart_def Let_def not_le not_less)

lemma canStart_wait_bounds:
  "canStart now est g = Denied r w \<Longrightarrow> gs_lastStartTime (g_state g) \<le> now \<Longrightarrow>
     0 \<le> w \<and> w \<le> max 3000 (go_cooldownBetweenTasksMs (g_options g))"
  by (auto simp: canStart_def Let_def split: if_splits)

section \<open>The contract of the guard\<close>

text \<open>
  What a scheduler relies on: a start takes one lane, a completion frees one, and a guard that
  allows a start has a free lane under its limit. A scheduler that asks right before each start
  therefore never exceeds the limit.
\<close>

locale lane_counter =
  fixes lanes :: "'g \<Rightarrow> nat"
    and limit :: "'g \<Rightarrow> int"
    and allows :: "'q \<Rightarrow> 'g \<Rightarrow> bool"
    and take :: "'q \<Rightarrow> 'g \<Rightarrow> 'g"
    and release :: "'c \<Rightarrow> 'g \<Rightarrow> 'g"
  assumes take_lane: "lanes (take q g) = Suc (lanes g)"
    and release_lane: "lanes (release c g) = lanes g - 1"
    and allows_free: "allows q g \<Longrightarrow> int (lanes g) < limit g"
    and limit_take: "limit (take q g) = limit g"
    and limit_release: "limit (release c g) = limit g"
begin

definition guarded_take :: "'q \<Rightarrow> 'g \<Rightarrow> 'g" where
  "guarded_take q g = (if allows q g then take q g else g)"

definition lane_op :: "'q + 'c \<Rightarrow> 'g \<Rightarrow> 'g" where
  "lane_op x g = (case x of Inl q \<Rightarrow> guarded_take q g | Inr c \<Rightarrow> release c g)"

lemma lane_op_limit: "limit (lane_op x g) = limit g"
  by (simp add: lane_op_def guarded_take_def limit_take limit_release split: sum.split)

lemma lane_op_bound:
  "int (lanes g) \<le> max 0 (limit g) \<Longrightarrow> int (lanes (lane_op x g)) \<le> max 0 (limit g)"
  using allows_free
  by (force simp: lane_op_def guarded_take_def take_lane release_lane split: sum.split)

lemma lane_ops_bound:
  "int (lanes g) \<le> max 0 (limit g) \<Longrightarrow> int (lanes (fold lane_op xs g)) \<le> max 0 (limit g)"
proof (induction xs arbitrary: g)
  case Nil
  then show ?case by simp
next
  case (Cons x xs)
  then show ?case
    using Cons.IH [of "lane_op x g"] lane_op_bound [of g x] by (simp add: lane_op_limit)
qed

end

definition guard_limit :: "guard \<Rightarrow> int" where
  "guard_limit g = go_maxConcurrent (g_options g)"

definition guard_allows :: "millis \<times> usd \<Rightarrow> guard \<Rightarrow> bool" where
  "guard_allows q g \<longleftrightarrow> canStart (fst q) (snd q) g = Allowed"

definition guard_take :: "millis \<times> usd \<Rightarrow> guard \<Rightarrow> guard" where
  "guard_take q g = onTaskStart (fst q) g"

interpretation guard_lanes: lane_counter lanes_in_use guard_limit guard_allows guard_take onTaskComplete
  by unfold_locales
     (simp_all add: guard_take_def guard_limit_def guard_allows_def canStart_Allowed_iff
        lanes_in_use_def [symmetric])

text \<open>One guarded operation of the guard: a start preceded by the check, or a completion.\<close>

definition guard_op :: "(millis \<times> usd) + usd \<Rightarrow> guard \<Rightarrow> guard" where
  "guard_op x g =
     (case x of
        Inl q \<Rightarrow> if canStart (fst q) (snd q) g = Allowed then onTaskStart (fst q) g else g
      | Inr c \<Rightarrow> onTaskComplete c g)"

lemma guard_op_is_lane_op: "guard_op = guard_lanes.lane_op"
  by (rule ext)+
     (simp add: guard_op_def guard_lanes.lane_op_def guard_lanes.guarded_take_def
        guard_allows_def guard_take_def split: sum.split)

end
