(* ===== verification/Failure_Propagator.thy ===== *)
theory Failure_Propagator
  imports Queue_Types
begin

text \<open>
  Failure propagation (\<open>src/queue/failure-propagator.ts\<close>): the breadth-first closure of the
  dependents of a failed task and the three strategies. The map of items is an association list
  in insertion order. The closure is related to the transitive closure of the dependency edges.
\<close>

type_synonym item_map = "(task_id \<times> queue_item) list"

record failure_propagation_result =
  fpr_blocked :: "task_id list"
  fpr_skipped :: "task_id list"
  fpr_reason :: string

text \<open>The inner loop: items that wait on \<open>current\<close> join the set and the work list.\<close>

fun scan_dependents ::
  "task_id \<Rightarrow> item_map \<Rightarrow> task_id list \<times> task_id list \<Rightarrow> task_id list \<times> task_id list" where
  "scan_dependents current [] acc = acc"
| "scan_dependents current ((i, item) # rest) (dependents, queue) =
     (if i \<in> set dependents then scan_dependents current rest (dependents, queue)
      else if current \<in> set (qi_blockedBy item)
      then scan_dependents current rest (dependents @ [i], queue @ [i])
      else scan_dependents current rest (dependents, queue))"

definition undiscovered :: "item_map \<Rightarrow> task_id list \<Rightarrow> nat" where
  "undiscovered items dependents = card (fst ` set items - set dependents)"

lemma scan_dependents_grows:
  "scan_dependents current items (ds, q) = (ds', q') \<Longrightarrow>
     \<exists>new. ds' = ds @ new \<and> q' = q @ new \<and> set new \<subseteq> fst ` set items \<and> set new \<inter> set ds = {} \<and> distinct new"
proof (induction current items "(ds, q)" arbitrary: ds q rule: scan_dependents.induct)
  case (1 current ds q)
  then show ?case by auto
next
  case (2 current i item rest ds q)
  show ?case
  proof (cases "i \<notin> set ds \<and> current \<in> set (qi_blockedBy item)")
    case True
    then have "scan_dependents current rest (ds @ [i], q @ [i]) = (ds', q')"
      using "2.prems" by simp
    then obtain new where "ds' = ds @ [i] @ new" "q' = q @ [i] @ new"
        "set new \<subseteq> fst ` set rest" "set new \<inter> set (ds @ [i]) = {}" "distinct new"
      using "2.hyps"(2) True by force
    then show ?thesis using True by (intro exI [of _ "i # new"]) auto
  next
    case False
    then have "scan_dependents current rest (ds, q) = (ds', q')"
      using "2.prems" by (auto split: if_splits)
    moreover have "i \<in> set ds \<or> current \<notin> set (qi_blockedBy item)" using False by blast
    ultimately obtain new where "ds' = ds @ new" "q' = q @ new"
        "set new \<subseteq> fst ` set rest" "set new \<inter> set ds = {}" "distinct new"
      using "2.hyps"(1,3) by blast
    then show ?thesis by auto
  qed
qed

lemma undiscovered_less:
  "set new \<subseteq> fst ` set items \<Longrightarrow> set new \<inter> set ds = {} \<Longrightarrow> new \<noteq> [] \<Longrightarrow>
     undiscovered items (ds @ new) < undiscovered items ds"
  unfolding undiscovered_def by (rule psubset_card_mono) (auto simp: neq_Nil_conv)

text \<open>The outer loop. It ends: a round either discovers an item or shortens the work list.\<close>

function dependents_loop :: "item_map \<Rightarrow> task_id list \<Rightarrow> task_id list \<Rightarrow> task_id list" where
  "dependents_loop items dependents [] = dependents"
| "dependents_loop items dependents (current # queue) =
     (case scan_dependents current items (dependents, queue) of
        (dependents', queue') \<Rightarrow> dependents_loop items dependents' queue')"
  by pat_completeness auto
termination
proof (relation "measures [\<lambda>(items, ds, q). undiscovered items ds, \<lambda>(items, ds, q). length q]",
    goal_cases)
  case 1
  then show ?case by simp
next
  case (2 items ds current q ds' q')
  then obtain new where new: "ds' = ds @ new" "q' = q @ new" "set new \<subseteq> fst ` set items"
      "set new \<inter> set ds = {}"
    using scan_dependents_grows [of current items ds q ds' q'] by auto
  then show ?case
    using undiscovered_less [of new items ds] by (cases "new = []") auto
qed

definition findAllDependents :: "task_id \<Rightarrow> item_map \<Rightarrow> task_id list" where
  "findAllDependents failedTaskId allItems = dependents_loop allItems [] [failedTaskId]"

definition propagateFailure ::
  "task_id \<Rightarrow> item_map \<Rightarrow> failure_propagation \<Rightarrow> failure_propagation_result" where
  "propagateFailure failedTaskId allItems strategy =
     (case strategy of
        FailFast \<Rightarrow>
          \<lparr>fpr_blocked = [],
           fpr_skipped = map fst (filter (\<lambda>(i, item). i \<noteq> failedTaskId \<and> waiting_status (qi_status item)) allItems),
           fpr_reason = ''fail_fast: '' @ failedTaskId @ '' failed, skipping all remaining tasks''\<rparr>
      | SkipDependents \<Rightarrow>
          let dependents = findAllDependents failedTaskId allItems;
              blocked = filter (\<lambda>i. case js_map_get allItems i of
                                     None \<Rightarrow> False
                                   | Some item \<Rightarrow> waiting_status (qi_status item)) dependents
          in \<lparr>fpr_blocked = blocked, fpr_skipped = [],
              fpr_reason = ''skip_dependents: '' @ failedTaskId @ '' failed, blocking ''
                @ digits_text (length blocked) @ '' dependent task(s)''\<rparr>
      | ContinueAll \<Rightarrow>
          \<lparr>fpr_blocked = [], fpr_skipped = [],
           fpr_reason = ''continue_all: '' @ failedTaskId @ '' failed, continuing with remaining tasks''\<rparr>)"

section \<open>The closure\<close>

text \<open>\<open>(a, b)\<close> is an edge when the queued item \<open>b\<close> waits on \<open>a\<close>.\<close>

definition dependency_edges :: "item_map \<Rightarrow> (task_id \<times> task_id) set" where
  "dependency_edges items = {(a, b). \<exists>item. (b, item) \<in> set items \<and> a \<in> set (qi_blockedBy item)}"

lemma scan_dependents_set:
  "distinct (map fst items) \<Longrightarrow>
   scan_dependents current items (ds, q) = (ds', q') \<Longrightarrow>
     set ds' = set ds \<union> {b. (current, b) \<in> dependency_edges items}
   \<and> set q' = set q \<union> ({b. (current, b) \<in> dependency_edges items} - set ds)"
proof (induction current items "(ds, q)" arbitrary: ds q rule: scan_dependents.induct)
  case (1 current ds q)
  then show ?case by (auto simp: dependency_edges_def)
next
  case (2 current i item rest ds q)
  have edges: "{b. (current, b) \<in> dependency_edges ((i, item) # rest)} =
      (if current \<in> set (qi_blockedBy item) then {i} else {}) \<union> {b. (current, b) \<in> dependency_edges rest}"
    by (auto simp: dependency_edges_def)
  have i_new: "(current, i) \<notin> dependency_edges rest"
    using "2.prems"(1) by (force simp: dependency_edges_def)
  have dist: "distinct (map fst rest)" using "2.prems"(1) by simp
  show ?case
  proof (cases "i \<in> set ds")
    case True
    then show ?thesis using "2.hyps"(1) [OF True dist] "2.prems"(2) by (auto simp: edges)
  next
    case False
    note nd = this
    show ?thesis
    proof (cases "current \<in> set (qi_blockedBy item)")
      case True
      have "scan_dependents current rest (ds @ [i], q @ [i]) = (ds', q')"
        using "2.prems"(2) nd True by simp
      from "2.hyps"(2) [OF nd True dist this] show ?thesis using i_new nd True by (auto simp: edges)
    next
      case False
      have "scan_dependents current rest (ds, q) = (ds', q')"
        using "2.prems"(2) nd False by simp
      from "2.hyps"(3) [OF nd False dist this] show ?thesis using False by (auto simp: edges)
    qed
  qed
qed

text \<open>
  The loop invariant: everything discovered is reachable, and the successors of everything
  reachable that is no longer on the work list have been discovered.
\<close>

lemma dependents_loop_closure:
  assumes dist: "distinct (map fst items)"
    and sound: "set ds \<subseteq> {b. (f, b) \<in> (dependency_edges items)\<^sup>+}"
    and work: "set q \<subseteq> insert f (set ds)"
    and closed: "\<And>a b. a \<in> insert f (set ds) \<Longrightarrow> a \<notin> set q \<Longrightarrow> (a, b) \<in> dependency_edges items \<Longrightarrow> b \<in> set ds"
  shows "set (dependents_loop items ds q) = {b. (f, b) \<in> (dependency_edges items)\<^sup>+}"
  using dist sound work closed
proof (induction items ds q rule: dependents_loop.induct)
  case (1 items ds)
  have "(f, b) \<in> (dependency_edges items)\<^sup>+ \<Longrightarrow> b \<in> set ds" for b
    by (induction rule: trancl_induct) (use 1 in auto)
  then show ?case using 1 by auto
next
  case (2 items ds current q)
  let ?E = "dependency_edges items"
  obtain ds' q' where scan: "scan_dependents current items (ds, q) = (ds', q')" by fastforce
  note sets = scan_dependents_set [OF "2.prems"(1) scan]
  have cur: "current = f \<or> (f, current) \<in> ?E\<^sup>+" using "2.prems"(2,3) by auto
  then have succ: "(current, b) \<in> ?E \<Longrightarrow> (f, b) \<in> ?E\<^sup>+" for b
    by (auto intro: trancl_into_trancl)
  have "set (dependents_loop items ds' q') = {b. (f, b) \<in> ?E\<^sup>+}"
  proof (rule "2.IH" [OF scan [symmetric] "2.prems"(1)])
    show "set ds' \<subseteq> {b. (f, b) \<in> ?E\<^sup>+}" using sets "2.prems"(2) succ by auto
    show "set q' \<subseteq> insert f (set ds')" using sets "2.prems"(3) by auto
    show "b \<in> set ds'" if "a \<in> insert f (set ds')" "a \<notin> set q'" "(a, b) \<in> ?E" for a b
      using that sets "2.prems"(4) [of a b] by auto
  qed
  then show ?case by (simp add: scan)
qed

lemma findAllDependents_closure:
  "distinct (map fst items) \<Longrightarrow>
     set (findAllDependents f items) = {b. (f, b) \<in> (dependency_edges items)\<^sup>+}"
  unfolding findAllDependents_def by (rule dependents_loop_closure) auto

lemma dependents_loop_distinct: "distinct ds \<Longrightarrow> distinct (dependents_loop items ds q)"
proof (induction items ds q rule: dependents_loop.induct)
  case (2 items ds current q)
  obtain ds' q' where scan: "scan_dependents current items (ds, q) = (ds', q')" by fastforce
  then have "distinct ds'" using scan_dependents_grows [OF scan] "2.prems" by auto
  then show ?case using "2.IH" [OF scan [symmetric]] by (simp add: scan)
qed simp

lemma findAllDependents_distinct: "distinct (findAllDependents f items)"
  unfolding findAllDependents_def by (rule dependents_loop_distinct) simp

text \<open>Propagation only ever names items that have not started.\<close>

lemma propagateFailure_waiting:
  assumes "distinct (js_map_keys items)"
    and "i \<in> set (fpr_blocked (propagateFailure f items strategy))
          \<union> set (fpr_skipped (propagateFailure f items strategy))"
  shows "\<exists>item. js_map_get items i = Some item \<and> waiting_status (qi_status item)"
  using assms(2)
  by (cases strategy)
     (auto simp: propagateFailure_def Let_def split: option.splits
        dest: js_map_get_of_mem [OF assms(1)])

end
