(* ===== verification/Queue_Persistence.thy ===== *)
theory Queue_Persistence
  imports Failure_Propagator
begin

text \<open>
  The queue's durable state (\<open>src/queue/queue-persistence.ts\<close>): an append-only log of events,
  a compaction snapshot and the archived logs. A line of the log file is a well-formed event, a
  line that does not parse, or a blank line; the JSON text itself is not modelled (a written
  event is read back as it was written, absent fields staying absent).
\<close>

datatype queue_event_type =
    TaskEnqueued | TaskReady | TaskStarted | TaskAwaitingApproval | TaskResumed
  | TaskCompleted | TaskFailed | TaskBlocked | TaskSkipped | TaskStopped | TaskUnblocked
  | QueueStarted | QueuePaused | QueueResumed | QueueStopped | QueueDrained | ConfigUpdated

record queue_event =
  qe_ts :: millis
  qe_type :: queue_event_type
  qe_taskId :: "task_id option"
  qe_priority :: "int option"
  qe_blockedBy :: "task_id list option"
  qe_outcome :: "string option"
  qe_costUsd :: "usd option"
  qe_durationMs :: "millis option"
  qe_reason :: "string option"
  qe_config :: "dispatch_queue_config option"
  qe_dispatchOptions :: "start_options option"

definition queue_event :: "millis \<Rightarrow> queue_event_type \<Rightarrow> task_id option \<Rightarrow> queue_event" where
  "queue_event ts ty tid =
     \<lparr>qe_ts = ts, qe_type = ty, qe_taskId = tid, qe_priority = None, qe_blockedBy = None,
      qe_outcome = None, qe_costUsd = None, qe_durationMs = None, qe_reason = None,
      qe_config = None, qe_dispatchOptions = None\<rparr>"

lemma queue_event_simps [simp]:
  "qe_ts (queue_event ts ty tid) = ts" "qe_type (queue_event ts ty tid) = ty"
  "qe_taskId (queue_event ts ty tid) = tid" "qe_priority (queue_event ts ty tid) = None"
  "qe_blockedBy (queue_event ts ty tid) = None" "qe_outcome (queue_event ts ty tid) = None"
  "qe_costUsd (queue_event ts ty tid) = None" "qe_durationMs (queue_event ts ty tid) = None"
  "qe_reason (queue_event ts ty tid) = None" "qe_dispatchOptions (queue_event ts ty tid) = None"
  by (simp_all add: queue_event_def)

datatype log_line = LogEvent queue_event | LogMalformed string | LogBlank

datatype snapshot_file = SnapshotItems "queue_item list" | SnapshotCorrupt | SnapshotNotArray

record disk =
  dk_log :: "log_line list option"
  dk_snapshot :: "snapshot_file option"
  dk_archives :: "log_line list list"

definition MAX_LOG_LINES :: nat where
  "MAX_LOG_LINES = 10000"

definition append_event :: "queue_event \<Rightarrow> disk \<Rightarrow> disk" where
  "append_event event d =
     d\<lparr>dk_log := Some ((case dk_log d of None \<Rightarrow> [] | Some ls \<Rightarrow> ls) @ [LogEvent event])\<rparr>"

fun event_of_line :: "log_line \<Rightarrow> queue_event option" where
  "event_of_line (LogEvent e) = Some e"
| "event_of_line (LogMalformed t) = None"
| "event_of_line LogBlank = None"

definition readEvents :: "disk \<Rightarrow> queue_event list" where
  "readEvents d =
     (case dk_log d of None \<Rightarrow> [] | Some ls \<Rightarrow> List.map_filter event_of_line ls)"

definition loadSnapshot :: "disk \<Rightarrow> item_map" where
  "loadSnapshot d =
     (case dk_snapshot d of
        Some (SnapshotItems its) \<Rightarrow>
          fold (\<lambda>p. js_map_set (fst p) (snd p)) (map (\<lambda>it. (qi_taskId it, it)) its) []
      | _ \<Rightarrow> [])"

definition update_item :: "(queue_item \<Rightarrow> queue_item) \<Rightarrow> task_id \<Rightarrow> item_map \<Rightarrow> item_map" where
  "update_item f i m =
     (case js_map_get m i of None \<Rightarrow> m | Some it \<Rightarrow> js_map_set i (f it) m)"

definition enqueued_item :: "task_id \<Rightarrow> queue_event \<Rightarrow> queue_item" where
  "enqueued_item i e =
     \<lparr>qi_taskId = i, qi_status = Queued,
      qi_priority = (case qe_priority e of None \<Rightarrow> 99 | Some p \<Rightarrow> p),
      qi_blockedBy = (case qe_blockedBy e of None \<Rightarrow> [] | Some b \<Rightarrow> b),
      qi_enqueuedAt = qe_ts e, qi_startedAt = None, qi_awaitingApprovalAt = None,
      qi_completedAt = None, qi_outcome = None, qi_costUsd = None, qi_durationMs = None,
      qi_retryCount = 0, qi_error = None, qi_blockedReason = None,
      qi_enrichmentPending = False, qi_duplicateBlockedBy = None,
      qi_dispatchOptions = qe_dispatchOptions e\<rparr>"

fun apply_task_event :: "queue_event_type \<Rightarrow> queue_event \<Rightarrow> task_id \<Rightarrow> item_map \<Rightarrow> item_map" where
  "apply_task_event TaskEnqueued e i m = js_map_set i (enqueued_item i e) m"
| "apply_task_event TaskReady e i m = update_item (\<lambda>it. it\<lparr>qi_status := Ready\<rparr>) i m"
| "apply_task_event TaskStarted e i m =
     update_item (\<lambda>it. it\<lparr>qi_status := Running, qi_startedAt := Some (qe_ts e)\<rparr>) i m"
| "apply_task_event TaskAwaitingApproval e i m =
     update_item (\<lambda>it. it\<lparr>qi_status := AwaitingApproval,
                          qi_awaitingApprovalAt := Some (qe_ts e)\<rparr>) i m"
| "apply_task_event TaskResumed e i m =
     update_item (\<lambda>it. (it\<lparr>qi_status := Running\<rparr>)
                        \<lparr>qi_dispatchOptions := (case qe_dispatchOptions e of
                             None \<Rightarrow> qi_dispatchOptions it | Some so \<Rightarrow> Some so)\<rparr>) i m"
| "apply_task_event TaskCompleted e i m =
     update_item (\<lambda>it. it\<lparr>qi_status := Completed, qi_completedAt := Some (qe_ts e),
                          qi_outcome := qe_outcome e, qi_costUsd := qe_costUsd e,
                          qi_durationMs := qe_durationMs e\<rparr>) i m"
| "apply_task_event TaskFailed e i m =
     update_item (\<lambda>it. it\<lparr>qi_status := Failed, qi_completedAt := Some (qe_ts e),
                          qi_outcome := qe_outcome e, qi_error := qe_reason e\<rparr>) i m"
| "apply_task_event TaskBlocked e i m =
     update_item (\<lambda>it. it\<lparr>qi_status := Blocked, qi_blockedReason := qe_reason e,
                          qi_outcome := qe_outcome e\<rparr>) i m"
| "apply_task_event TaskSkipped e i m =
     update_item (\<lambda>it. it\<lparr>qi_status := Skipped, qi_blockedReason := qe_reason e\<rparr>) i m"
| "apply_task_event TaskStopped e i m =
     update_item (\<lambda>it. it\<lparr>qi_status := Stopped, qi_completedAt := Some (qe_ts e)\<rparr>) i m"
| "apply_task_event TaskUnblocked e i m =
     (case qe_reason e of
        None \<Rightarrow> m
      | Some dep \<Rightarrow>
          if dep = '''' then m
          else update_item (\<lambda>it. it\<lparr>qi_blockedBy := js_remove_first dep (qi_blockedBy it)\<rparr>) i m)"
| "apply_task_event QueueStarted e i m = m"
| "apply_task_event QueuePaused e i m = m"
| "apply_task_event QueueResumed e i m = m"
| "apply_task_event QueueStopped e i m = m"
| "apply_task_event QueueDrained e i m = m"
| "apply_task_event ConfigUpdated e i m = m"

definition apply_event :: "queue_event \<Rightarrow> item_map \<Rightarrow> item_map" where
  "apply_event e m =
     (case qe_taskId e of
        None \<Rightarrow> m
      | Some i \<Rightarrow> if i = '''' then m else apply_task_event (qe_type e) e i m)"

definition reset_running :: "item_map \<Rightarrow> item_map" where
  "reset_running m =
     map (\<lambda>(i, it). (i, if qi_status it = Running then it\<lparr>qi_status := Queued\<rparr> else it)) m"

definition replay :: "disk \<Rightarrow> item_map" where
  "replay d = reset_running (fold apply_event (readEvents d) (loadSnapshot d))"

definition countLines :: "disk \<Rightarrow> nat" where
  "countLines d =
     (case dk_log d of None \<Rightarrow> 0 | Some ls \<Rightarrow> length (filter (\<lambda>l. l \<noteq> LogBlank) ls))"

definition compact :: "item_map \<Rightarrow> disk \<Rightarrow> disk" where
  "compact items d =
     (if countLines d < MAX_LOG_LINES then d
      else \<lparr>dk_log = Some [],
            dk_snapshot = Some (SnapshotItems (js_map_values items)),
            dk_archives = dk_archives d @ (case dk_log d of None \<Rightarrow> [] | Some ls \<Rightarrow> [ls])\<rparr>)"

definition clear_disk :: "disk \<Rightarrow> disk" where
  "clear_disk d = d\<lparr>dk_log := None, dk_snapshot := None\<rparr>"

section \<open>The contract of an event log\<close>

text \<open>
  A log records an appended event at its end and leaves the snapshot alone; the recovered state
  is then the state recovered before, with the new event applied.
\<close>

locale event_log =
  fixes read_log :: "'d \<Rightarrow> 'e list"
    and append_log :: "'e \<Rightarrow> 'd \<Rightarrow> 'd"
    and base :: "'d \<Rightarrow> 's"
    and apply_one :: "'e \<Rightarrow> 's \<Rightarrow> 's"
    and good :: "'s \<Rightarrow> bool"
  assumes read_append: "read_log (append_log e d) = read_log d @ [e]"
    and base_append: "base (append_log e d) = base d"
    and good_base: "good (base d)"
    and good_apply: "good s \<Longrightarrow> good (apply_one e s)"
begin

definition recovered :: "'d \<Rightarrow> 's" where
  "recovered d = fold apply_one (read_log d) (base d)"

lemma recovered_append: "recovered (append_log e d) = apply_one e (recovered d)"
  by (simp add: recovered_def read_append base_append)

lemma recovered_appends:
  "recovered (fold append_log es d) = fold apply_one es (recovered d)"
  by (induction es arbitrary: d) (auto simp: recovered_append)

lemma good_fold: "good s \<Longrightarrow> good (fold apply_one es s)"
  by (induction es arbitrary: s) (auto intro: good_apply)

lemma good_recovered: "good (recovered d)"
  by (simp add: recovered_def good_fold good_base)

end

text \<open>Well-formed items: distinct keys, and every item stored under its own task id.\<close>

definition items_wf :: "item_map \<Rightarrow> bool" where
  "items_wf m \<longleftrightarrow> distinct (js_map_keys m) \<and> (\<forall>(i, it) \<in> set m. qi_taskId it = i)"

lemma set_js_map_set: "set (js_map_set k v m) \<subseteq> insert (k, v) (set m)"
  unfolding js_map_set_def by (induction m) auto

lemma items_wf_set: "items_wf m \<Longrightarrow> qi_taskId it = i \<Longrightarrow> items_wf (js_map_set i it m)"
  using set_js_map_set [of i it m] unfolding items_wf_def by (auto simp: js_map.distinct_put)

lemma items_wf_get: "items_wf m \<Longrightarrow> js_map_get m i = Some it \<Longrightarrow> qi_taskId it = i"
  unfolding items_wf_def using js_map_get_in [of m i it] by auto

lemma items_wf_update:
  "items_wf m \<Longrightarrow> (\<And>it. qi_taskId (f it) = qi_taskId it) \<Longrightarrow> items_wf (update_item f i m)"
  by (auto simp: update_item_def items_wf_get items_wf_set split: option.splits)

lemma items_wf_apply_task: "items_wf m \<Longrightarrow> items_wf (apply_task_event ty e i m)"
  by (cases ty)
     (auto simp: items_wf_update items_wf_set enqueued_item_def split: option.splits)

lemma items_wf_apply: "items_wf m \<Longrightarrow> items_wf (apply_event e m)"
  by (auto simp: apply_event_def items_wf_apply_task split: option.splits)

lemma items_wf_puts:
  "items_wf m \<Longrightarrow> items_wf (fold (\<lambda>p. js_map_set (fst p) (snd p)) (map (\<lambda>it. (qi_taskId it, it)) its) m)"
  by (induction its arbitrary: m) (auto simp: items_wf_set)

lemma items_wf_Nil [simp]: "items_wf []"
  by (simp add: items_wf_def)

lemma items_wf_snapshot: "items_wf (loadSnapshot d)"
  unfolding loadSnapshot_def
  by (auto simp: items_wf_puts simp del: fold_map split: option.split snapshot_file.split)

interpretation queue_log: event_log readEvents append_event loadSnapshot apply_event items_wf
  by unfold_locales
     (auto simp: readEvents_def append_event_def loadSnapshot_def List.map_filter_def
        items_wf_apply items_wf_snapshot [unfolded loadSnapshot_def] split: option.splits)

lemma replay_recovered: "replay d = reset_running (queue_log.recovered d)"
  by (simp add: replay_def queue_log.recovered_def)

lemma reset_running_keys [simp]: "js_map_keys (reset_running m) = js_map_keys m"
  by (induction m) (auto simp: js_map_keys_def reset_running_def)

lemma items_wf_reset: "items_wf m \<Longrightarrow> items_wf (reset_running m)"
  unfolding items_wf_def reset_running_keys by (auto simp: reset_running_def)

lemma get_reset_running:
  "js_map_get (reset_running m) i =
     map_option (\<lambda>it. if qi_status it = Running then it\<lparr>qi_status := Queued\<rparr> else it) (js_map_get m i)"
  by (induction m) (auto simp: js_map_get_def reset_running_def)

lemma items_wf_replay: "items_wf (replay d)"
  by (simp add: replay_recovered items_wf_reset queue_log.good_recovered)

lemma reset_running_no_running: "(i, it) \<in> set (reset_running m) \<Longrightarrow> qi_status it \<noteq> Running"
  by (auto simp: reset_running_def split: if_splits)

text \<open>Writing a well-formed map out and reading it back is the identity.\<close>

lemma js_map_puts_values:
  "items_wf m \<Longrightarrow> set (js_map_keys m) \<inter> set (js_map_keys n) = {} \<Longrightarrow>
     fold (\<lambda>p. js_map_set (fst p) (snd p)) (map (\<lambda>it. (qi_taskId it, it)) (js_map_values m)) n = n @ m"
proof (induction m arbitrary: n)
  case Nil
  then show ?case by simp
next
  case (Cons p m)
  obtain i it where p: "p = (i, it)" by (cases p)
  have i: "qi_taskId it = i" and wf: "items_wf m" and fresh: "i \<notin> set (js_map_keys m)"
    using Cons.prems(1) by (auto simp: p items_wf_def js_map_keys_def)
  have "i \<notin> set (js_map_keys n)" using Cons.prems(2) by (simp add: p js_map_keys_def)
  then have app: "js_map_set i it n = n @ [(i, it)]"
    unfolding js_map_set_def js_map_keys_def by (induction n) auto
  have "set (js_map_keys m) \<inter> set (js_map_keys (n @ [(i, it)])) = {}"
    using Cons.prems(2) fresh by (auto simp: p js_map_keys_def)
  from Cons.IH [OF wf this] show ?case by (simp add: p i app js_map_values_def)
qed

lemma replay_compact:
  assumes "items_wf items" and "MAX_LOG_LINES \<le> countLines d"
  shows "replay (compact items d) = reset_running items"
  using js_map_puts_values [of items "[]"] assms
  by (simp add: replay_def compact_def readEvents_def loadSnapshot_def List.map_filter_def not_less)

text \<open>No event drops a key.\<close>

lemma apply_event_keys: "set (js_map_keys m) \<subseteq> set (js_map_keys (apply_event e m))"
proof -
  have upd: "set (js_map_keys m) \<subseteq> set (js_map_keys (update_item f i m))" for f i
    by (auto simp: update_item_def js_map_laws split: option.splits)
  then show ?thesis
    by (cases "qe_type e") (auto simp: apply_event_def js_map_laws split: option.splits)
qed

lemma apply_events_keys: "set (js_map_keys m) \<subseteq> set (js_map_keys (fold apply_event es m))"
  by (induction es arbitrary: m) (auto dest: subsetD [OF apply_event_keys])

end
