(* ===== verification/Queue_Dependencies.thy ===== *)
theory Queue_Dependencies
  imports Queue_Types
begin

text \<open>
  How the queue decides that a dependency is met (\<open>src/queue/dispatch-queue.ts\<close>,
  \<open>resolveDependencies\<close>, \<open>buildSessionMap\<close>), over the records it reads from the task service
  and the event reader (\<open>src/monitor/task-service.ts\<close>, \<open>src/monitor/event-reader.ts\<close>,
  \<open>src/core/task-hygiene.ts\<close>). Of those records only the fields the queue reads are kept.
\<close>

definition PRIORITY_WEIGHT :: "(string \<times> int) list" where
  "PRIORITY_WEIGHT =
     [(''P0-CRITICAL'', 0), (''P1-HIGH'', 1), (''P2-MEDIUM'', 2), (''P3-LOW'', 3)]"

definition POLL_INTERVAL_MS :: millis where
  "POLL_INTERVAL_MS = 3000"

definition DEFAULT_ESTIMATED_COST :: usd where
  "DEFAULT_ESTIMATED_COST = 2"

definition MANUAL_TAGS :: "string list" where
  "MANUAL_TAGS = [''manual'', ''infrastructure'', ''requires-manual'']"

record backlog_hygiene =
  bh_dispatchBlocked :: bool
  bh_reasonCodes :: "string list"

record task_summary =
  ts_id :: task_id
  ts_priority :: string
  ts_status :: string
  ts_effectiveStatus :: string
  ts_blockedBy :: "string list"
  ts_tags :: "string list"
  ts_backlogHygiene :: "backlog_hygiene option"

text \<open>The parsed task that \<open>getTask\<close> returns, for a task that is not listed.\<close>

record task_detail =
  td_priority :: string
  td_blockedBy :: "string list"

definition isTaskSuppressedFromAutomation :: "task_summary \<Rightarrow> bool" where
  "isTaskSuppressedFromAutomation task =
     (case ts_backlogHygiene task of
        Some h \<Rightarrow> bh_dispatchBlocked h
      | None \<Rightarrow> ts_status task = ''ON_HOLD'' \<or> ts_status task = ''REJECTED'')"

section \<open>Sessions\<close>

datatype session_status = SActive | SCompleted | SError

fun session_status_name :: "session_status \<Rightarrow> string" where
  "session_status_name SActive = ''active''"
| "session_status_name SCompleted = ''completed''"
| "session_status_name SError = ''error''"

record session_entry =
  se_sessionId :: string
  se_taskId :: task_id
  se_startTime :: millis
  se_status :: session_status
  se_outcome :: "string option"
  se_totalCostUsd :: "usd option"
  se_durationMs :: "millis option"

text \<open>\<open>{ ...older, ...newer }\<close>: a field absent from the newer entry keeps the older value.\<close>

definition merge_session :: "session_entry \<Rightarrow> session_entry \<Rightarrow> session_entry" where
  "merge_session older newer =
     newer\<lparr>se_outcome := (case se_outcome newer of None \<Rightarrow> se_outcome older | Some v \<Rightarrow> Some v),
           se_totalCostUsd := (case se_totalCostUsd newer of
             None \<Rightarrow> se_totalCostUsd older | Some v \<Rightarrow> Some v),
           se_durationMs := (case se_durationMs newer of
             None \<Rightarrow> se_durationMs older | Some v \<Rightarrow> Some v)\<rparr>"

fun collect_sessions ::
  "nat \<Rightarrow> session_entry list \<Rightarrow> (string \<times> (session_entry \<times> nat)) list
     \<Rightarrow> (string \<times> (session_entry \<times> nat)) list" where
  "collect_sessions i [] m = m"
| "collect_sessions i (entry # rest) m =
     collect_sessions (Suc i) rest
       (case js_map_get m (se_sessionId entry) of
          None \<Rightarrow> js_map_set (se_sessionId entry) (entry, i) m
        | Some (existing, k) \<Rightarrow>
            if se_status entry \<noteq> SActive
            then js_map_set (se_sessionId entry) (merge_session existing entry, i) m
            else m)"

definition newest_first :: "session_entry \<times> nat \<Rightarrow> session_entry \<times> nat \<Rightarrow> int" where
  "newest_first a b =
     (let timeDiff = se_startTime (fst b) - se_startTime (fst a) in
      if timeDiff \<noteq> 0 then timeDiff else int (snd b) - int (snd a))"

definition getAllSessions :: "session_entry list \<Rightarrow> session_entry list" where
  "getAllSessions raw =
     map fst (js_sort newest_first (js_map_values (collect_sessions 0 raw [])))"

definition isClaimantDiagnosticSession :: "session_entry \<Rightarrow> bool" where
  "isClaimantDiagnosticSession session \<longleftrightarrow>
     se_outcome session = Some ''claimant_diagnostic'' \<or>
     js_starts_with (se_sessionId session) ''quack-diagnostic-claimant-''"

definition getExecutionSessions :: "session_entry list \<Rightarrow> session_entry list" where
  "getExecutionSessions raw = filter (\<lambda>s. \<not> isClaimantDiagnosticSession s) (getAllSessions raw)"

record task_session_info =
  si_outcome :: string
  si_costUsd :: usd
  si_status :: session_status

type_synonym session_map = "(task_id \<times> task_session_info) list"

definition session_info :: "session_entry \<Rightarrow> task_session_info" where
  "session_info session =
     \<lparr>si_outcome = (case se_outcome session of
        None \<Rightarrow> session_status_name (se_status session) | Some v \<Rightarrow> v),
      si_costUsd = (case se_totalCostUsd session of None \<Rightarrow> 0 | Some v \<Rightarrow> v),
      si_status = se_status session\<rparr>"

definition buildSessionMap :: "session_entry list \<Rightarrow> session_map" where
  "buildSessionMap sessions =
     fold (\<lambda>p. js_map_set (fst p) (snd p))
       (map (\<lambda>s. (se_taskId s, session_info s)) sessions) []"

definition session_approved :: "session_map \<Rightarrow> task_id \<Rightarrow> bool" where
  "session_approved sessions i \<longleftrightarrow>
     map_option si_outcome (js_map_get sessions i) = Some ''approved''"

section \<open>Dependencies\<close>

record dep_state =
  ds_unmet :: "task_id list"
  ds_satisfiers :: "task_id list"

definition no_deps :: dep_state where
  "no_deps = \<lparr>ds_unmet = [], ds_satisfiers = []\<rparr>"

definition task_map :: "task_summary list \<Rightarrow> (task_id \<times> task_summary) list" where
  "task_map tasks = fold (\<lambda>p. js_map_set (fst p) (snd p)) (map (\<lambda>t. (ts_id t, t)) tasks) []"

definition task_complete :: "task_summary list \<Rightarrow> task_id \<Rightarrow> bool" where
  "task_complete tasks i =
     (case js_map_get (task_map tasks) i of
        None \<Rightarrow> False
      | Some t \<Rightarrow> isCompleteStatus (Some (ts_effectiveStatus t)))"

definition subtask_ids :: "task_summary list \<Rightarrow> task_id list \<Rightarrow> task_id \<Rightarrow> task_id list" where
  "subtask_ids tasks completed depId =
     (let subtaskPrefix = depId @ ''-'' in
      js_uniq (filter (\<lambda>i. js_starts_with i subtaskPrefix) (map ts_id tasks)
               @ filter (\<lambda>i. js_starts_with i subtaskPrefix) completed))"

text \<open>What one dependency contributes: the unmet ids and the ids that satisfy it.\<close>

definition resolve_dependency ::
  "task_summary list \<Rightarrow> task_id list \<Rightarrow> string \<Rightarrow> task_id list \<times> task_id list" where
  "resolve_dependency tasks completed rawDepId =
     (let depId = normalizeTaskId rawDepId in
      if task_complete tasks depId \<or> depId \<in> set completed then ([], [depId])
      else
        let subtaskIds = subtask_ids tasks completed depId in
        if subtaskIds \<noteq> [] then
          let incomplete = filter (\<lambda>i. i \<notin> set completed \<and> \<not> task_complete tasks i) subtaskIds in
          if incomplete = [] then ([], subtaskIds) else (incomplete, [])
        else ([depId], []))"

definition resolveDependencies ::
  "string list \<Rightarrow> task_summary list \<Rightarrow> task_id list \<Rightarrow> dep_state" where
  "resolveDependencies rawDeps allTasks completedQueueIds =
     (let rs = map (resolve_dependency allTasks completedQueueIds) rawDeps in
      \<lparr>ds_unmet = js_uniq (concat (map fst rs)),
       ds_satisfiers = js_uniq (concat (map snd rs))\<rparr>)"

section \<open>What a resolution means\<close>

text \<open>
  A dependency is done when it is itself complete, or when it was split and every one of its
  subtasks is complete.
\<close>

definition task_done :: "task_summary list \<Rightarrow> task_id list \<Rightarrow> task_id \<Rightarrow> bool" where
  "task_done tasks completed i \<longleftrightarrow> task_complete tasks i \<or> i \<in> set completed"

definition dependency_done :: "task_summary list \<Rightarrow> task_id list \<Rightarrow> task_id \<Rightarrow> bool" where
  "dependency_done tasks completed d \<longleftrightarrow>
     task_done tasks completed d \<or>
     (subtask_ids tasks completed d \<noteq> [] \<and>
      (\<forall>i \<in> set (subtask_ids tasks completed d). task_done tasks completed i))"

lemma resolve_dependency_unmet:
  "fst (resolve_dependency tasks completed raw) = [] \<longleftrightarrow>
     dependency_done tasks completed (normalizeTaskId raw)"
  by (auto simp: resolve_dependency_def dependency_done_def task_done_def Let_def
        filter_empty_conv)

lemma resolveDependencies_unmet_Nil:
  "ds_unmet (resolveDependencies raws tasks completed) = [] \<longleftrightarrow>
     (\<forall>raw \<in> set raws. dependency_done tasks completed (normalizeTaskId raw))"
  by (auto simp: resolveDependencies_def Let_def resolve_dependency_unmet)

lemma resolveDependencies_satisfiers_done:
  "i \<in> set (ds_satisfiers (resolveDependencies raws tasks completed)) \<Longrightarrow>
     task_done tasks completed i"
  by (auto simp: resolveDependencies_def Let_def resolve_dependency_def task_done_def
        filter_empty_conv split: if_splits)

lemma resolveDependencies_unmet_not_done:
  "i \<in> set (ds_unmet (resolveDependencies raws tasks completed)) \<Longrightarrow>
     \<not> task_done tasks completed i"
  by (auto simp: resolveDependencies_def Let_def resolve_dependency_def task_done_def
        split: if_splits)

text \<open>The entry that survives in the session map is the last one of the list.\<close>

lemma buildSessionMap_get:
  "js_map_get (buildSessionMap sessions) i =
     map_option session_info (List.find (\<lambda>s. se_taskId s = i) (rev sessions))"
proof -
  have "map_of (map (\<lambda>s. (se_taskId s, session_info s)) xs) i =
      map_option session_info (List.find (\<lambda>s. se_taskId s = i) xs)" for xs
    by (induction xs) auto
  then show ?thesis
    by (simp add: buildSessionMap_def js_map.get_puts rev_map del: fold_map split: option.split)
qed

interpretation newest_order: comparator newest_first
  by unfold_locales (auto simp: newest_first_def Let_def split: if_splits)

lemma js_starts_with_append: "js_starts_with s p \<longleftrightarrow> (\<exists>r. s = p @ r)"
  by (auto simp: js_starts_with_def) (metis append_take_drop_id)

lemma task_map_get: "js_map_get (task_map tasks) i = List.find (\<lambda>t. ts_id t = i) (rev tasks)"
proof -
  have "js_map_get (fold (\<lambda>t m. js_map_set (ts_id t) t m) ts m) i =
      (case List.find (\<lambda>t. ts_id t = i) (rev ts) of Some t \<Rightarrow> Some t | None \<Rightarrow> js_map_get m i)" for ts m
    by (induction ts rule: rev_induct) (auto simp: js_map.get_put split: option.split)
  from this [of tasks "[]"] show ?thesis
    unfolding task_map_def fold_map by (simp add: comp_def js_map_get_def split: option.splits)
qed

section \<open>Properties\<close>

text \<open>
  C10: Dependency resolution. An id is done when the queue completed it or the last row of the backlog with
  that id has a complete status; the subtasks of an id are the known ids that continue it after a dash. Each
  dependency, normalised, contributes as follows: nothing unmet and itself as satisfier when it is done; itself as
  unmet when it is not done and has no subtasks; otherwise its subtasks that are not done as unmet, or all
  of them as satisfiers when there is none. So nothing is unmet exactly when every dependency is done or
  split into subtasks that are all done.
\<close>

theorem dependency_resolution_exact:
  "let finished = (\<lambda>i. i \<in> set completed \<or> (case List.find (\<lambda>t. ts_id t = i) (rev tasks) of
         None \<Rightarrow> False | Some t \<Rightarrow> ts_effectiveStatus t \<in> {''COMPLETE'', ''VERIFIED''}));
       subtasks = (\<lambda>d. {i. (\<exists>letter. i = d @ ''-'' @ letter) \<and> (i \<in> ts_id ` set tasks \<or> i \<in> set completed)})
   in set (ds_unmet (resolveDependencies raws tasks completed)) =
        (\<Union>d \<in> normalizeTaskId ` set raws.
           if finished d then {} else if subtasks d = {} then {d} else {i \<in> subtasks d. \<not> finished i}) \<and>
      set (ds_satisfiers (resolveDependencies raws tasks completed)) =
        (\<Union>d \<in> normalizeTaskId ` set raws.
           if finished d then {d} else if subtasks d \<subseteq> Collect finished then subtasks d else {})"
proof -
  define finished where "finished = (\<lambda>i. i \<in> set completed \<or> (case List.find (\<lambda>t. ts_id t = i) (rev tasks) of
         None \<Rightarrow> False | Some t \<Rightarrow> ts_effectiveStatus t \<in> {''COMPLETE'', ''VERIFIED''}))"
  define subtasks where
    "subtasks = (\<lambda>d. {i. (\<exists>letter. i = d @ ''-'' @ letter) \<and> (i \<in> ts_id ` set tasks \<or> i \<in> set completed)})"
  have done_iff: "task_complete tasks i \<or> i \<in> set completed \<longleftrightarrow> finished i" for i
    by (auto simp: finished_def task_complete_def task_map_get isCompleteStatus_def split: option.split)
  have sub: "set (subtask_ids tasks completed d) = subtasks d" for d
    by (auto simp: subtask_ids_def subtasks_def Let_def js_starts_with_append)
  have unmet: "set (fst (resolve_dependency tasks completed raw)) =
      (let d = normalizeTaskId raw in
       if finished d then {} else if subtasks d = {} then {d} else {i \<in> subtasks d. \<not> finished i})" for raw
    using done_iff sub [of "normalizeTaskId raw"]
    by (auto simp: resolve_dependency_def Let_def filter_empty_conv)
  have sats: "set (snd (resolve_dependency tasks completed raw)) =
      (let d = normalizeTaskId raw in
       if finished d then {d} else if subtasks d \<subseteq> Collect finished then subtasks d else {})" for raw
    using done_iff sub [of "normalizeTaskId raw"]
    by (auto simp: resolve_dependency_def Let_def filter_empty_conv)
  show ?thesis
    unfolding Let_def finished_def [symmetric] subtasks_def [symmetric]
    by (simp only: resolveDependencies_def Let_def dep_state.simps set_js_uniq set_concat set_map image_image unmet sats)
qed

lemma find_last_sorted:
  assumes "sorted_wrt R xs" and "List.find P (rev xs) = Some y" and "\<And>x. R x x"
  shows "y \<in> set xs \<and> P y \<and> (\<forall>x \<in> set xs. P x \<longrightarrow> R x y)"
  using assms
proof (induction xs rule: rev_induct)
  case Nil
  then show ?case by simp
next
  case (snoc z xs)
  then show ?case by (auto simp: sorted_wrt_append split: if_splits)
qed

lemma all_sessions_sorted:
  "sorted_wrt (\<lambda>a b. se_startTime b \<le> se_startTime a) (getAllSessions raw)"
proof -
  have "sorted_wrt (\<lambda>a b. newest_first a b \<le> 0) (js_sort newest_first ps)" for ps
    by (rule newest_order.sorted_js_sort)
  then have "sorted_wrt (\<lambda>a b. se_startTime (fst b) \<le> se_startTime (fst a)) (js_sort newest_first ps)" for ps
    by (rule sorted_wrt_mono_rel [rotated]) (auto simp: newest_first_def Let_def split: if_splits)
  then show ?thesis by (simp add: getAllSessions_def sorted_wrt_map)
qed

text \<open>
  The session map reports the oldest session. The reader returns sessions newest first and
  the map overwrites the entry of a task with each further session, so what it holds for a task
  is the session with the least start time, not the outcome of its latest run.
\<close>

theorem session_map_holds_oldest:
  assumes "js_map_get (buildSessionMap (getExecutionSessions raw)) i = Some info"
  shows "\<exists>s \<in> set (getExecutionSessions raw). se_taskId s = i \<and> info = session_info s \<and>
           (\<forall>s' \<in> set (getExecutionSessions raw). se_taskId s' = i \<longrightarrow> se_startTime s \<le> se_startTime s')"
proof -
  have sorted: "sorted_wrt (\<lambda>a b. se_startTime b \<le> se_startTime a) (getExecutionSessions raw)"
    unfolding getExecutionSessions_def by (intro sorted_wrt_filter all_sessions_sorted)
  obtain s where s: "List.find (\<lambda>s. se_taskId s = i) (rev (getExecutionSessions raw)) = Some s"
    and info: "info = session_info s"
    using assms by (auto simp: buildSessionMap_get)
  from find_last_sorted [OF sorted s] info show ?thesis by auto
qed

definition run_session :: "string \<Rightarrow> millis \<Rightarrow> string \<Rightarrow> session_entry" where
  "run_session sid t outcome =
     \<lparr>se_sessionId = sid, se_taskId = ''TASK-1'', se_startTime = t, se_status = SCompleted,
      se_outcome = Some outcome, se_totalCostUsd = None, se_durationMs = None\<rparr>"

lemma session_map_holds_oldest_witness:
  "map_option si_outcome (js_map_get (buildSessionMap (getExecutionSessions
     [run_session ''a'' 10 ''failed'', run_session ''b'' 20 ''approved''])) ''TASK-1'') = Some ''failed''"
proof -
  let ?raw = "[run_session ''a'' 10 ''failed'', run_session ''b'' 20 ''approved'']"
  have "getExecutionSessions ?raw = [run_session ''b'' 20 ''approved'', run_session ''a'' 10 ''failed'']"
    by code_simp
  moreover obtain info where info: "js_map_get (buildSessionMap (getExecutionSessions ?raw)) ''TASK-1'' = Some info"
  proof -
    have "js_map_get (buildSessionMap (getExecutionSessions ?raw)) ''TASK-1'' \<noteq> None" by code_simp
    then show thesis using that by blast
  qed
  ultimately show ?thesis
    using session_map_holds_oldest [OF info] by (auto simp: run_session_def session_info_def)
qed

end
