(* ===== verification/Queue_State.thy ===== *)
theory Queue_State
  imports Concurrency_Guard Queue_Persistence Queue_Dependencies
begin

text \<open>
  The state of \<open>DispatchQueue\<close> (\<open>src/queue/dispatch-queue.ts\<close>) and its primitive updates.

  Queue items are objects that several places refer to (the map of items, and every asynchronous
  method that is still running), so they live in a heap: \<open>items\<close> maps a task id to a reference,
  and a suspended method keeps the reference it captured. \<open>frames\<close> lists the suspended methods
  with their local variables; a frame is resumed by the machine of \<open>Queue_Machine\<close>.

  What other components answer during a step is the record \<open>env\<close>: the clock, the dispatch
  manager (\<open>getJob\<close>, \<open>getActiveJob\<close>, \<open>stop\<close>, \<open>start\<close>), the task service, the event reader, the
  claimant scan, the admission fence and the task directory.
\<close>

type_synonym ref = nat

datatype scan_result = ScanAvailable | ScanUnavailable string | ScanRejected string

datatype dispatch_error =
    ClaimantError duplicate_claimant_check
  | OtherError string bool \<comment> \<open>message; whether its details say the parent was decomposed\<close>

type_synonym start_outcome = "dispatch_error + (int \<times> millis) option"

datatype enrich_kind =
    EnrichBegin
  | EnrichRecovery "ref list" "(task_id \<times> duplicate_claimant_check) list"

datatype unblock_kind = UnblockAfterCompletion task_id | UnblockExternal

datatype frame =
    FReadyTasks session_map
  | FReadyScan "task_summary list" "task_id list" session_map "ref list" ref dep_state "task_id list" bool
  | FReadyNext "task_summary list" "task_id list" session_map "ref list"
  | FAfterReadiness
  | FDispatchTasks ref session_map
  | FDispatchGetTask ref session_map
  | FDispatchDeps ref dep_state
  | FDispatchScan ref dep_state "task_id list"
  | FDispatchFence ref start_options "duplicate_claimant_check option"
  | FDispatchRelease ref bool start_outcome
  | FUnblockScan task_id unblock_kind
  | FUnblockContested task_id "ref list" ref "task_id list" unblock_kind
  | FUnblockItem task_id "ref list" ref "task_id list" unblock_kind
  | FEnrichTasks ref session_map enrich_kind
  | FEnrichGetTask ref session_map enrich_kind
  | FEnrichScan ref dep_state enrich_kind
  | FRecoveryDir
  | FRecoveryClaimants "ref list"
  | FStartScan
  | FResumeScan
  | FEligibleTasks "start_options option" "(task_id \<times> duplicate_claimant_check) list option"
  | FEligibleScan "task_id list" "start_options option"

datatype job_status = JRunning | JCompleted | JFailed | JStopped | JAwaitingApproval

record managed_job =
  mj_status :: job_status
  mj_operatorStopCleanupPending :: bool

record env =
  env_now :: millis
  env_activeJob :: "task_id \<Rightarrow> bool"
  env_job :: "task_id \<Rightarrow> managed_job option"
  env_stop :: "task_id \<Rightarrow> bool"
  env_start :: "task_id \<Rightarrow> start_options \<Rightarrow> dispatch_error + int"
  env_tasks :: "string + task_summary list"
  env_getTask :: "task_id \<Rightarrow> string + task_detail option"
  env_sessions :: "session_entry list"
  env_staleReasons :: "string \<Rightarrow> js_value list"
  env_claimants :: "task_id \<Rightarrow> string list"
  env_fence :: "task_id \<Rightarrow> dispatch_error + string"
  env_release :: "task_id \<Rightarrow> dispatch_error option"
  env_taskDirError :: "string option"

record dq =
  items :: "(task_id \<times> ref) list"
  heap :: "ref \<Rightarrow> queue_item"
  next_ref :: ref
  qguard :: guard
  running :: bool
  paused :: bool
  pauseReason :: "string option"
  loopTimer :: "nat option"
  armedTimers :: "(nat \<times> millis) list"
  next_timer :: nat
  pollTimers :: "task_id list"
  startedAt :: "millis option"
  completedAt :: "millis option"
  recoveryScan :: bool
  recoveryResult :: "scan_result option"
  recoveryScanUnavailableReason :: "string option"
  dispatchChecks :: "task_id list"
  completionChecks :: "task_id list"
  config :: dispatch_queue_config
  has_fence :: bool
  qdisk :: disk
  emitted :: "(string \<times> task_id \<times> js_value) list"
  start_calls :: "(task_id \<times> start_options) list"
  frames :: "frame list"

section \<open>Primitive updates\<close>

definition item_ref :: "dq \<Rightarrow> task_id \<Rightarrow> ref option" where
  "item_ref s i = js_map_get (items s) i"

definition item_refs :: "dq \<Rightarrow> ref list" where
  "item_refs s = js_map_values (items s)"

definition upd_item :: "ref \<Rightarrow> (queue_item \<Rightarrow> queue_item) \<Rightarrow> dq \<Rightarrow> dq" where
  "upd_item r f s = s\<lparr>heap := (heap s)(r := f (heap s r))\<rparr>"

definition set_status :: "queue_item_status \<Rightarrow> ref \<Rightarrow> dq \<Rightarrow> dq" where
  "set_status st r s = upd_item r (\<lambda>it. it\<lparr>qi_status := st\<rparr>) s"

definition status_of :: "dq \<Rightarrow> ref \<Rightarrow> queue_item_status" where
  "status_of s r = qi_status (heap s r)"

definition tid_of :: "dq \<Rightarrow> ref \<Rightarrow> task_id" where
  "tid_of s r = qi_taskId (heap s r)"

text \<open>The map of items with the references followed.\<close>

definition deref_items :: "dq \<Rightarrow> item_map" where
  "deref_items s = map (\<lambda>(i, r). (i, heap s r)) (items s)"

definition emitQueueEvent :: "string \<Rightarrow> task_id \<Rightarrow> js_value \<Rightarrow> dq \<Rightarrow> dq" where
  "emitQueueEvent stage tid payload s = s\<lparr>emitted := emitted s @ [(stage, tid, payload)]\<rparr>"

definition persist :: "queue_event \<Rightarrow> dq \<Rightarrow> dq" where
  "persist ev s =
     (if cfg_persistState (config s) then s\<lparr>qdisk := append_event ev (qdisk s)\<rparr> else s)"

definition push_frame :: "frame \<Rightarrow> dq \<Rightarrow> dq" where
  "push_frame f s = s\<lparr>frames := frames s @ [f]\<rparr>"

text \<open>
  \<open>setTimeout\<close> and \<open>clearTimeout\<close> for the scheduling loop. Arming a timer overwrites the handle
  in \<open>loopTimer\<close>; a timer whose handle was overwritten stays armed and still fires.
\<close>

definition arm_loop_timer :: "millis \<Rightarrow> dq \<Rightarrow> dq" where
  "arm_loop_timer waitMs s =
     s\<lparr>armedTimers := armedTimers s @ [(next_timer s, waitMs)], loopTimer := Some (next_timer s),
       next_timer := Suc (next_timer s)\<rparr>"

definition clear_loop_timer :: "dq \<Rightarrow> dq" where
  "clear_loop_timer s =
     (case loopTimer s of
        None \<Rightarrow> s
      | Some t \<Rightarrow> s\<lparr>armedTimers := filter (\<lambda>p. fst p \<noteq> t) (armedTimers s), loopTimer := None\<rparr>)"

definition clear_poll_timer :: "task_id \<Rightarrow> dq \<Rightarrow> dq" where
  "clear_poll_timer i s = s\<lparr>pollTimers := js_set_delete i (pollTimers s)\<rparr>"

definition ensurePollTimer :: "task_id \<Rightarrow> dq \<Rightarrow> dq" where
  "ensurePollTimer i s = s\<lparr>pollTimers := js_set_add i (pollTimers s)\<rparr>"

definition guard_complete :: "usd \<Rightarrow> dq \<Rightarrow> dq" where
  "guard_complete c s = s\<lparr>qguard := onTaskComplete c (qguard s)\<rparr>"

definition guard_start :: "millis \<Rightarrow> dq \<Rightarrow> dq" where
  "guard_start now s = s\<lparr>qguard := onTaskStart now (qguard s)\<rparr>"

definition active :: "dq \<Rightarrow> bool" where
  "active s \<longleftrightarrow> running s \<and> \<not> paused s"

definition default_cost :: "usd option \<Rightarrow> usd" where
  "default_cost c = (case c of None \<Rightarrow> 0 | Some v \<Rightarrow> v)"

definition config_value :: "dispatch_queue_config \<Rightarrow> js_value" where
  "config_value c = JObj
     [(''maxConcurrent'', JNum (of_int (cfg_maxConcurrent c))),
      (''cooldownBetweenTasksMs'', JNum (of_int (cfg_cooldownBetweenTasksMs c))),
      (''failurePropagation'', JStr (failure_propagation_name (cfg_failurePropagation c))),
      (''fleetBudgetUsd'', JNum (cfg_fleetBudgetUsd c)),
      (''pauseOnFailure'', JBool (cfg_pauseOnFailure c)),
      (''persistState'', JBool (cfg_persistState c)),
      (''autoStartOnEnqueue'', JBool (cfg_autoStartOnEnqueue c))]"

section \<open>Claimant scans and the duplicate quarantine\<close>

definition scanDuplicateClaimants ::
  "env \<Rightarrow> task_id list \<Rightarrow> (task_id \<times> duplicate_claimant_check) list" where
  "scanDuplicateClaimants e taskIds =
     map (\<lambda>i. (i, \<lparr>chk_taskId = i, chk_claimants = env_claimants e i\<rparr>)) (js_uniq taskIds)"

definition contested_checks ::
  "(task_id \<times> duplicate_claimant_check) list \<Rightarrow> task_id list \<Rightarrow> duplicate_claimant_check list" where
  "contested_checks checks ids =
     filter (\<lambda>c. 1 < length (chk_claimants c)) (List.map_filter (js_map_get checks) ids)"

definition quarantine_reason :: "duplicate_claimant_check list \<Rightarrow> string" where
  "quarantine_reason contested =
     js_join '' '' (map (\<lambda>c. ref_message (duplicateClaimantRefusal c)) contested)"

definition setDuplicateQuarantine :: "ref \<Rightarrow> duplicate_claimant_check list \<Rightarrow> dq \<Rightarrow> dq" where
  "setDuplicateQuarantine r checks s =
     (let contested = filter (\<lambda>c. 1 < length (chk_claimants c)) checks in
      upd_item r (\<lambda>it. it\<lparr>qi_duplicateBlockedBy := Some (js_uniq (map chk_taskId contested)),
                          qi_blockedReason := Some (quarantine_reason contested)\<rparr>) s)"

definition clearDuplicateQuarantine :: "ref \<Rightarrow> dq \<Rightarrow> dq" where
  "clearDuplicateQuarantine r s =
     (if qi_duplicateBlockedBy (heap s r) = None then s
      else upd_item r (\<lambda>it. it\<lparr>qi_duplicateBlockedBy := None, qi_blockedReason := None\<rparr>) s)"

definition dup_blocked :: "queue_item \<Rightarrow> task_id list" where
  "dup_blocked it = (case qi_duplicateBlockedBy it of None \<Rightarrow> [] | Some xs \<Rightarrow> xs)"

definition refused_payload :: "duplicate_claimant_check list \<Rightarrow> queue_item \<Rightarrow> js_value" where
  "refused_payload contested it = JObj
     [(''error'', JStr ''duplicate_claimants''),
      (''claimants'', js_strs (js_uniq (concat (map chk_claimants contested)))),
      (''message'', js_opt JStr (qi_blockedReason it)),
      (''duplicateBlockedBy'', js_opt js_strs (qi_duplicateBlockedBy it))]"

section \<open>Statistics\<close>

definition count_status :: "queue_item_status \<Rightarrow> queue_item list \<Rightarrow> nat" where
  "count_status st its = length (filter (\<lambda>it. qi_status it = st) its)"

definition getStats :: "dq \<Rightarrow> queue_stats" where
  "getStats s =
     (let its = map (heap s) (item_refs s) in
      \<lparr>st_total = length its,
       st_queued = count_status Queued its,
       st_ready = count_status Ready its,
       st_running = count_status Running its,
       st_awaitingApproval = count_status AwaitingApproval its,
       st_completed = count_status Completed its,
       st_failed = count_status Failed its,
       st_blocked = count_status Blocked its,
       st_skipped = count_status Skipped its,
       st_stopped = count_status Stopped its,
       st_recoveredPendingScan = count_status RecoveredPendingScan its,
       st_recoveryScanUnavailableReason = recoveryScanUnavailableReason s,
       st_totalCostUsd = sum_list (map (\<lambda>it. default_cost (qi_costUsd it)) its),
       st_totalDurationMs =
         sum_list (map (\<lambda>it. case qi_durationMs it of None \<Rightarrow> 0 | Some d \<Rightarrow> d) its),
       st_startedAt = startedAt s,
       st_completedAt = completedAt s\<rparr>)"

definition stats_value :: "queue_stats \<Rightarrow> js_value" where
  "stats_value st = JObj
     [(''total'', JNum (of_nat (st_total st))),
      (''queued'', JNum (of_nat (st_queued st))),
      (''ready'', JNum (of_nat (st_ready st))),
      (''running'', JNum (of_nat (st_running st))),
      (''awaitingApproval'', JNum (of_nat (st_awaitingApproval st))),
      (''completed'', JNum (of_nat (st_completed st))),
      (''failed'', JNum (of_nat (st_failed st))),
      (''blocked'', JNum (of_nat (st_blocked st))),
      (''skipped'', JNum (of_nat (st_skipped st))),
      (''stopped'', JNum (of_nat (st_stopped st))),
      (''recoveredPendingScan'', JNum (of_nat (st_recoveredPendingScan st))),
      (''recoveryScanUnavailableReason'', js_opt JStr (st_recoveryScanUnavailableReason st)),
      (''totalCostUsd'', JNum (st_totalCostUsd st)),
      (''totalDurationMs'', JNum (of_int (st_totalDurationMs st))),
      (''startedAt'', js_opt (\<lambda>t. JNum (of_int t)) (st_startedAt st)),
      (''completedAt'', js_opt (\<lambda>t. JNum (of_int t)) (st_completedAt st))]"

end
