(* ===== verification/Queue_Operations.thy ===== *)
theory Queue_Operations
  imports Queue_State
begin

text \<open>
  The methods of \<open>DispatchQueue\<close> (\<open>src/queue/dispatch-queue.ts\<close>) that run without
  suspending, and the part of every asynchronous method that runs before its first \<open>await\<close>.
  One call reads the clock once. A method that throws returns its error with the state it
  leaves behind.
\<close>

section \<open>Scheduling and recovery, up to the first suspension\<close>

definition scheduleNextAfterReadiness :: "env \<Rightarrow> dq \<Rightarrow> dq" where
  "scheduleNextAfterReadiness e s =
     (if active s then push_frame (FReadyTasks (buildSessionMap (env_sessions e))) s else s)"

definition scheduleNext :: "env \<Rightarrow> dq \<Rightarrow> dq" where
  "scheduleNext e s = (if active s then scheduleNextAfterReadiness e s else s)"

definition hasRecoveredPendingRows :: "dq \<Rightarrow> bool" where
  "hasRecoveredPendingRows s \<longleftrightarrow>
     list_ex (\<lambda>r. status_of s r = RecoveredPendingScan) (item_refs s)"

definition ensureRecoveryScan :: "dq \<Rightarrow> dq" where
  "ensureRecoveryScan s =
     (if recoveryScan s then s else push_frame FRecoveryDir (s\<lparr>recoveryScan := True\<rparr>))"

definition beginEnrichment :: "env \<Rightarrow> ref \<Rightarrow> enrich_kind \<Rightarrow> dq \<Rightarrow> dq" where
  "beginEnrichment e r kind s =
     push_frame (FEnrichTasks r (buildSessionMap (env_sessions e)) kind)
       (upd_item r (\<lambda>it. it\<lparr>qi_enrichmentPending := True\<rparr>) s)"

section \<open>Draining and lifecycle\<close>

definition has_work :: "dq \<Rightarrow> bool" where
  "has_work s \<longleftrightarrow>
     list_ex (\<lambda>r. status_of s r \<in> {RecoveredPendingScan, Queued, Ready, Running, AwaitingApproval})
       (item_refs s)"

definition checkDrained :: "env \<Rightarrow> dq \<Rightarrow> dq" where
  "checkDrained e s =
     (if \<not> running s then s
      else if has_work s then s
      else
        let s1 = s\<lparr>running := False, completedAt := Some (env_now e)\<rparr>;
            s2 = persist (queue_event (env_now e) QueueDrained None) s1;
            s3 = emitQueueEvent ''dispatch_queue_drained'' ''''
                   (JObj [(''stats'', stats_value (getStats s2))]) s2
        in if cfg_persistState (config s3)
           then s3\<lparr>qdisk := compact (deref_items s3) (qdisk s3)\<rparr> else s3)"

definition pause :: "env \<Rightarrow> string option \<Rightarrow> dq \<Rightarrow> dq" where
  "pause e reason s =
     (if paused s then s
      else
        let s1 = s\<lparr>paused := True, pauseReason := reason\<rparr>;
            s2 = persist ((queue_event (env_now e) QueuePaused None)\<lparr>qe_reason := reason\<rparr>) s1;
            s3 = clear_loop_timer s2
        in emitQueueEvent ''dispatch_queue_paused'' ''''
             (JObj [(''reason'', JStr (case reason of None \<Rightarrow> ''manual pause'' | Some x \<Rightarrow> x)),
                    (''stats'', stats_value (getStats s3))]) s3)"

text \<open>The rest of \<open>start\<close> and \<open>resume\<close>, after the recovery scan they may wait for.\<close>

definition start_body :: "env \<Rightarrow> dq \<Rightarrow> dq" where
  "start_body e s =
     (if running s then s
      else
        let s1 = s\<lparr>running := True, paused := False, pauseReason := None,
                   startedAt := Some (env_now e)\<rparr>;
            s2 = persist ((queue_event (env_now e) QueueStarted None)
                   \<lparr>qe_config := Some (config s1)\<rparr>) s1;
            s3 = emitQueueEvent ''dispatch_queue_started'' ''''
                   (JObj [(''taskCount'', JNum (of_nat (length (items s2)))),
                          (''config'', config_value (config s2))]) s2
        in if items s3 = [] then checkDrained e s3 else scheduleNextAfterReadiness e s3)"

definition start :: "env \<Rightarrow> dq \<Rightarrow> dq" where
  "start e s =
     (if hasRecoveredPendingRows s then push_frame FStartScan (ensureRecoveryScan s)
      else start_body e s)"

definition resume_body :: "env \<Rightarrow> dq \<Rightarrow> dq" where
  "resume_body e s =
     (if \<not> paused s then s
      else
        let s1 = s\<lparr>paused := False, pauseReason := None\<rparr>;
            s2 = persist (queue_event (env_now e) QueueResumed None) s1;
            s3 = emitQueueEvent ''dispatch_queue_resumed'' '''' (JObj []) s2
        in if running s3 then scheduleNextAfterReadiness e s3 else s3)"

definition resume :: "env \<Rightarrow> dq \<Rightarrow> dq" where
  "resume e s =
     (if hasRecoveredPendingRows s then push_frame FResumeScan (ensureRecoveryScan s)
      else resume_body e s)"

definition stop :: "env \<Rightarrow> dq \<Rightarrow> dq" where
  "stop e s =
     (let s1 = clear_loop_timer (s\<lparr>running := False, paused := False\<rparr>);
          s2 = persist (queue_event (env_now e) QueueStopped None) s1
      in emitQueueEvent ''dispatch_queue_stopped'' ''''
           (JObj [(''stats'', stats_value (getStats s2))]) s2)"

text \<open>Stopping one item that holds a lane: the manager confirms, or a watcher stays behind.\<close>

definition already_stopped :: "env \<Rightarrow> task_id \<Rightarrow> bool" where
  "already_stopped e i =
     (case env_job e i of
        None \<Rightarrow> False
      | Some j \<Rightarrow> mj_status j \<noteq> JRunning \<and> mj_status j \<noteq> JAwaitingApproval
                  \<and> \<not> mj_operatorStopCleanupPending j)"

definition stop_confirmed :: "env \<Rightarrow> task_id \<Rightarrow> bool" where
  "stop_confirmed e i \<longleftrightarrow> already_stopped e i \<or> env_stop e i"

definition release_lane :: "task_id \<Rightarrow> ref \<Rightarrow> dq \<Rightarrow> dq" where
  "release_lane i r s =
     guard_complete (default_cost (qi_costUsd (heap s r))) (clear_poll_timer i s)"

definition mark_stopped :: "env \<Rightarrow> task_id \<Rightarrow> ref \<Rightarrow> dq \<Rightarrow> dq" where
  "mark_stopped e i r s =
     persist (queue_event (env_now e) TaskStopped (Some i))
       (upd_item r (\<lambda>it. it\<lparr>qi_status := Stopped, qi_completedAt := Some (env_now e)\<rparr>) s)"

definition abort_one :: "env \<Rightarrow> task_id \<times> ref \<Rightarrow> bool \<times> dq \<Rightarrow> bool \<times> dq" where
  "abort_one e entry acc =
     (case entry of (i, r) \<Rightarrow> case acc of (allStopped, s) \<Rightarrow>
        if lane_status (status_of s r) then
          if stop_confirmed e i then (allStopped, mark_stopped e i r (release_lane i r s))
          else (False, ensurePollTimer i s)
        else (allStopped, s))"

definition abort :: "env \<Rightarrow> dq \<Rightarrow> bool \<times> dq" where
  "abort e s =
     (let s1 = clear_loop_timer (s\<lparr>running := False, paused := False\<rparr>);
          (allStopped, s2) = fold (abort_one e) (items s1) (True, s1)
      in (allStopped,
          emitQueueEvent ''dispatch_queue_stopped'' ''''
            (JObj [(''stats'', stats_value (getStats s2)),
                   (''stopConfirmed'', JBool allStopped)]) s2))"

definition cancel :: "env \<Rightarrow> task_id \<Rightarrow> dq \<Rightarrow> bool \<times> dq" where
  "cancel e i s =
     (case item_ref s i of
        None \<Rightarrow> (False, s)
      | Some r \<Rightarrow>
          if lane_status (status_of s r) then
            if stop_confirmed e i then (True, mark_stopped e i r (release_lane i r s))
            else (False, ensurePollTimer i s)
          else (True, mark_stopped e i r s))"

section \<open>Enqueueing\<close>

datatype enqueue_error =
    AlreadyInQueue task_id
  | AlreadyRunningOutside task_id
  | Contested claimant_admission_error

definition new_item :: "env \<Rightarrow> task_id \<Rightarrow> start_options option \<Rightarrow> queue_item" where
  "new_item e tid opts =
     \<lparr>qi_taskId = tid, qi_status = Queued, qi_priority = 99, qi_blockedBy = [],
      qi_enqueuedAt = env_now e, qi_startedAt = None, qi_awaitingApprovalAt = None,
      qi_completedAt = None, qi_outcome = None, qi_costUsd = None, qi_durationMs = None,
      qi_retryCount = 0, qi_error = None, qi_blockedReason = None,
      qi_enrichmentPending = True, qi_duplicateBlockedBy = None, qi_dispatchOptions = opts\<rparr>"

definition alloc_item :: "task_id \<Rightarrow> queue_item \<Rightarrow> dq \<Rightarrow> dq" where
  "alloc_item tid it s =
     s\<lparr>heap := (heap s)(next_ref s := it), next_ref := Suc (next_ref s),
       items := js_map_set tid (next_ref s) (items s)\<rparr>"

definition enqueued_event :: "millis \<Rightarrow> task_id \<Rightarrow> queue_item \<Rightarrow> queue_event" where
  "enqueued_event ts tid it =
     (queue_event ts TaskEnqueued (Some tid))
       \<lparr>qe_priority := Some (qi_priority it), qe_blockedBy := Some (qi_blockedBy it),
        qe_dispatchOptions := qi_dispatchOptions it\<rparr>"

definition enqueue ::
  "env \<Rightarrow> task_id \<Rightarrow> start_options option \<Rightarrow> duplicate_claimant_check option \<Rightarrow> dq
     \<Rightarrow> (enqueue_error + ref) \<times> dq" where
  "enqueue e tid opts claimantCheck s =
     (if item_ref s tid \<noteq> None then (Inl (AlreadyInQueue tid), s)
      else if env_activeJob e tid then (Inl (AlreadyRunningOutside tid), s)
      else case assertUncontestedClaimant claimantCheck of
        Inl err \<Rightarrow> (Inl (Contested err), s)
      | Inr _ \<Rightarrow>
          let r = next_ref s;
              s1 = alloc_item tid (new_item e tid opts) s;
              s2 = beginEnrichment e r EnrichBegin s1;
              s3 = persist (enqueued_event (qi_enqueuedAt (heap s2 r)) tid (heap s2 r)) s2;
              s4 = emitQueueEvent ''dispatch_queue_task_enqueued'' tid
                     (JObj [(''position'', JNum (of_nat (length (items s3)))),
                            (''priority'', JNum (of_int (qi_priority (heap s3 r))))]) s3;
              s5 = (if cfg_autoStartOnEnqueue (config s4) \<and> \<not> running s4 \<and> \<not> paused s4
                    then start e s4
                    else if running s4 then scheduleNext e s4 else s4)
          in (Inr r, s5))"

record queue_batch =
  qb_items :: "ref list"
  qb_refusals :: "duplicate_claimant_refusal list"

definition add_batch_item :: "ref \<Rightarrow> queue_batch \<Rightarrow> queue_batch" where
  "add_batch_item r b = b\<lparr>qb_items := qb_items b @ [r]\<rparr>"

definition add_batch_refusal :: "duplicate_claimant_check \<Rightarrow> queue_batch \<Rightarrow> queue_batch" where
  "add_batch_refusal c b = b\<lparr>qb_refusals := qb_refusals b @ [duplicateClaimantRefusal c]\<rparr>"

definition no_batch :: queue_batch where
  "no_batch = \<lparr>qb_items = [], qb_refusals = []\<rparr>"

type_synonym claimant_checks = "(task_id \<times> duplicate_claimant_check) list"

definition check_for :: "claimant_checks option \<Rightarrow> task_id \<Rightarrow> duplicate_claimant_check option" where
  "check_for checks tid = (case checks of None \<Rightarrow> None | Some m \<Rightarrow> js_map_get m tid)"

fun enqueue_each ::
  "env \<Rightarrow> task_id list \<Rightarrow> start_options option \<Rightarrow> claimant_checks option \<Rightarrow> queue_batch \<Rightarrow> dq
     \<Rightarrow> (enqueue_error + queue_batch) \<times> dq" where
  "enqueue_each e [] opts checks b s = (Inr b, s)"
| "enqueue_each e (tid # tids) opts checks b s =
     (case item_ref s tid of
        Some r \<Rightarrow> enqueue_each e tids opts checks (add_batch_item r b) s
      | None \<Rightarrow>
         (case check_for checks tid of
            Some c \<Rightarrow>
              if 1 < length (chk_claimants c)
              then enqueue_each e tids opts checks (add_batch_refusal c b) s
              else (case enqueue e tid opts (Some c) s of
                (Inr r, s') \<Rightarrow> enqueue_each e tids opts checks (add_batch_item r b) s'
              | (Inl (Contested (DuplicateClaimantAdmissionError d)), s') \<Rightarrow>
                  enqueue_each e tids opts checks (add_batch_refusal d b) s'
              | (Inl err, s') \<Rightarrow>
                  (case item_ref s' tid of
                     Some r \<Rightarrow> enqueue_each e tids opts checks (add_batch_item r b) s'
                   | None \<Rightarrow> (Inl err, s')))
          | None \<Rightarrow>
              (case enqueue e tid opts None s of
                (Inr r, s') \<Rightarrow> enqueue_each e tids opts checks (add_batch_item r b) s'
              | (Inl (Contested (DuplicateClaimantAdmissionError d)), s') \<Rightarrow>
                  enqueue_each e tids opts checks (add_batch_refusal d b) s'
              | (Inl err, s') \<Rightarrow>
                  (case item_ref s' tid of
                     Some r \<Rightarrow> enqueue_each e tids opts checks (add_batch_item r b) s'
                   | None \<Rightarrow> (Inl err, s')))))"

definition enqueueMultiple ::
  "env \<Rightarrow> task_id list \<Rightarrow> start_options option \<Rightarrow> claimant_checks option \<Rightarrow> dq
     \<Rightarrow> (enqueue_error + queue_batch) \<times> dq" where
  "enqueueMultiple e taskIds opts checks s = enqueue_each e taskIds opts checks no_batch s"

fun enqueue_subtasks_each ::
  "env \<Rightarrow> task_id \<Rightarrow> task_id list \<Rightarrow> start_options option \<Rightarrow> claimant_checks option \<Rightarrow> queue_batch
     \<Rightarrow> dq \<Rightarrow> (enqueue_error + queue_batch) \<times> dq" where
  "enqueue_subtasks_each e parent [] opts checks b s = (Inr b, s)"
| "enqueue_subtasks_each e parent (tid # tids) opts checks b s =
     (case item_ref s tid of
        Some r \<Rightarrow> enqueue_subtasks_each e parent tids opts checks (add_batch_item r b) s
      | None \<Rightarrow>
          let subtaskOptions = (spread_options opts)
                \<lparr>so_parentTaskId := Some parent,
                 so_sharedBranchName := Some (''quack/'' @ parent)\<rparr>;
              claimantCheck = check_for checks tid
          in (case claimantCheck of
                Some c \<Rightarrow>
                  if 1 < length (chk_claimants c)
                  then enqueue_subtasks_each e parent tids opts checks (add_batch_refusal c b) s
                  else (case enqueue e tid (Some subtaskOptions) (Some c) s of
                     (Inr r, s') \<Rightarrow>
                       enqueue_subtasks_each e parent tids opts checks (add_batch_item r b) s'
                   | (Inl err, s') \<Rightarrow> (Inl err, s'))
              | None \<Rightarrow>
                  (case enqueue e tid (Some subtaskOptions) None s of
                     (Inr r, s') \<Rightarrow>
                       enqueue_subtasks_each e parent tids opts checks (add_batch_item r b) s'
                   | (Inl err, s') \<Rightarrow> (Inl err, s'))))"

definition enqueueSubtasks ::
  "env \<Rightarrow> task_id \<Rightarrow> task_id list \<Rightarrow> start_options option \<Rightarrow> claimant_checks option \<Rightarrow> dq
     \<Rightarrow> (enqueue_error + queue_batch) \<times> dq" where
  "enqueueSubtasks e parent subtasks opts checks s =
     enqueue_subtasks_each e parent subtasks opts checks no_batch s"

text \<open>Which backlog tasks \<open>enqueueAllEligible\<close> picks.\<close>

definition eligible_for_queue :: "env \<Rightarrow> dq \<Rightarrow> task_summary list \<Rightarrow> task_summary \<Rightarrow> bool" where
  "eligible_for_queue e s tasks t \<longleftrightarrow>
     ts_effectiveStatus t = ''BACKLOG'' \<and>
     \<not> (case ts_backlogHygiene t of
          Some h \<Rightarrow> list_ex (\<lambda>code. code \<noteq> ''duplicate_id'') (bh_reasonCodes h)
        | None \<Rightarrow> isTaskSuppressedFromAutomation t) \<and>
     item_ref s (ts_id t) = None \<and>
     \<not> env_activeJob e (ts_id t) \<and>
     \<not> list_ex (\<lambda>tag. js_to_lower tag \<in> set MANUAL_TAGS) (ts_tags t) \<and>
     list_all (\<lambda>depId. case List.find (\<lambda>d. ts_id d = depId) tasks of
                 None \<Rightarrow> False
               | Some dep \<Rightarrow> isCompleteStatus (Some (ts_effectiveStatus dep))) (ts_blockedBy t)"

definition eligible_ids :: "env \<Rightarrow> dq \<Rightarrow> task_summary list \<Rightarrow> task_id list" where
  "eligible_ids e s tasks = js_uniq (map ts_id (filter (eligible_for_queue e s tasks) tasks))"

definition scanEnqueueClaimants :: "env \<Rightarrow> task_id list \<Rightarrow> dq \<Rightarrow> claimant_checks" where
  "scanEnqueueClaimants e taskIds s =
     scanDuplicateClaimants e (filter (\<lambda>i. item_ref s i = None \<and> \<not> env_activeJob e i) taskIds)"

section \<open>Retrying and removing\<close>

definition retry ::
  "env \<Rightarrow> task_id \<Rightarrow> duplicate_claimant_check option \<Rightarrow> dq
     \<Rightarrow> (claimant_admission_error + bool) \<times> dq" where
  "retry e i claimantCheck s =
     (case item_ref s i of
        None \<Rightarrow> (Inr False, s)
      | Some r \<Rightarrow>
          if status_of s r \<noteq> Failed then (Inr False, s)
          else case assertUncontestedClaimant claimantCheck of
            Inl err \<Rightarrow> (Inl err, s)
          | Inr _ \<Rightarrow>
              let s1 = upd_item r (\<lambda>it. it\<lparr>qi_status := Queued, qi_retryCount := qi_retryCount it + 1,
                                          qi_error := None, qi_outcome := None\<rparr>) s;
                  s2 = persist (enqueued_event (env_now e) i (heap s1 r)) s1
              in (Inr True, if active s2 then scheduleNext e s2 else s2))"

definition remove :: "task_id \<Rightarrow> dq \<Rightarrow> bool \<times> dq" where
  "remove i s =
     (case item_ref s i of
        None \<Rightarrow> (False, s)
      | Some r \<Rightarrow>
          if lane_status (status_of s r) then (False, s)
          else (True, s\<lparr>items := js_map_delete i (items s)\<rparr>))"

section \<open>Outcomes of a dispatch\<close>

definition handleTaskAwaitingApproval :: "env \<Rightarrow> ref \<Rightarrow> dq \<Rightarrow> dq" where
  "handleTaskAwaitingApproval e r s =
     (if status_of s r = AwaitingApproval then s
      else
        let s1 = upd_item r (\<lambda>it. it\<lparr>qi_status := AwaitingApproval,
                                    qi_awaitingApprovalAt := Some (env_now e)\<rparr>) s;
            s2 = persist (queue_event (env_now e) TaskAwaitingApproval (Some (tid_of s1 r))) s1
        in emitQueueEvent ''dispatch_queue_task_awaiting_approval'' (tid_of s2 r)
             (JObj [(''awaitingApprovalAt'', JNum (of_int (env_now e)))]) s2)"

definition handleTaskResumed :: "env \<Rightarrow> ref \<Rightarrow> bool \<Rightarrow> dq \<Rightarrow> dq" where
  "handleTaskResumed e r allowRunningRow s =
     (if status_of s r \<noteq> AwaitingApproval \<and> \<not> (status_of s r = Running \<and> allowRunningRow) then s
      else
        let resumedOptions = (spread_options (qi_dispatchOptions (heap s r)))\<lparr>so_resume := True\<rparr>;
            s1 = upd_item r (\<lambda>it. it\<lparr>qi_status := Running,
                                    qi_dispatchOptions := Some resumedOptions\<rparr>) s;
            s2 = persist ((queue_event (env_now e) TaskResumed (Some (tid_of s1 r)))
                   \<lparr>qe_dispatchOptions := Some resumedOptions\<rparr>) s1
        in emitQueueEvent ''dispatch_queue_task_resumed'' (tid_of s2 r)
             (JObj [(''resumedAt'', JNum (of_int (env_now e)))]) s2)"

definition outcome_payload :: "string \<Rightarrow> usd \<Rightarrow> millis \<Rightarrow> js_value" where
  "outcome_payload outcome costUsd durationMs = JObj
     [(''outcome'', JStr outcome), (''costUsd'', JNum costUsd),
      (''durationMs'', JNum (of_int durationMs))]"

definition handleTaskSuccess ::
  "env \<Rightarrow> ref \<Rightarrow> string \<Rightarrow> usd \<Rightarrow> millis \<Rightarrow> dq \<Rightarrow> dq" where
  "handleTaskSuccess e r outcome costUsd durationMs s =
     (let s1 = upd_item r (\<lambda>it. it\<lparr>qi_status := Completed, qi_completedAt := Some (env_now e),
                                  qi_outcome := Some outcome, qi_costUsd := Some costUsd,
                                  qi_durationMs := Some durationMs\<rparr>) s;
          s2 = persist ((queue_event (env_now e) TaskCompleted (Some (tid_of s1 r)))
                 \<lparr>qe_outcome := Some outcome, qe_costUsd := Some costUsd,
                  qe_durationMs := Some durationMs\<rparr>) s1;
          s3 = emitQueueEvent ''dispatch_queue_task_completed'' (tid_of s2 r)
                 (outcome_payload outcome costUsd durationMs) s2
      in push_frame (FUnblockScan (tid_of s3 r) (UnblockAfterCompletion (tid_of s3 r))) s3)"

definition block_dependent :: "env \<Rightarrow> ref \<Rightarrow> task_id \<Rightarrow> dq \<Rightarrow> dq" where
  "block_dependent e failed i s =
     (case item_ref s i of
        None \<Rightarrow> s
      | Some d \<Rightarrow>
          let reason = ''Upstream '' @ tid_of s failed @ '' failed'';
              s1 = upd_item d (\<lambda>it. it\<lparr>qi_status := Blocked, qi_blockedReason := Some reason\<rparr>) s;
              s2 = persist ((queue_event (env_now e) TaskBlocked (Some i))\<lparr>qe_reason := Some reason\<rparr>) s1
          in emitQueueEvent ''dispatch_queue_task_blocked'' i
               (JObj [(''blockedBy'', JStr (tid_of s failed)), (''reason'', JStr reason)]) s2)"

definition skip_dependent :: "env \<Rightarrow> string \<Rightarrow> task_id \<Rightarrow> dq \<Rightarrow> dq" where
  "skip_dependent e reason i s =
     (case item_ref s i of
        None \<Rightarrow> s
      | Some d \<Rightarrow>
          persist ((queue_event (env_now e) TaskSkipped (Some i))\<lparr>qe_reason := Some reason\<rparr>)
            (upd_item d (\<lambda>it. it\<lparr>qi_status := Skipped, qi_blockedReason := Some reason\<rparr>) s))"

definition handleTaskFailure ::
  "env \<Rightarrow> ref \<Rightarrow> string \<Rightarrow> string \<Rightarrow> usd \<Rightarrow> millis \<Rightarrow> dq \<Rightarrow> dq" where
  "handleTaskFailure e r error outcome costUsd durationMs s =
     (let s1 = upd_item r (\<lambda>it. it\<lparr>qi_status := Failed, qi_completedAt := Some (env_now e),
                                  qi_error := Some error, qi_outcome := Some outcome,
                                  qi_costUsd := Some costUsd, qi_durationMs := Some durationMs\<rparr>) s;
          s2 = persist ((queue_event (env_now e) TaskFailed (Some (tid_of s1 r)))
                 \<lparr>qe_outcome := Some outcome, qe_reason := Some error\<rparr>) s1;
          s3 = emitQueueEvent ''dispatch_queue_task_failed'' (tid_of s2 r)
                 (JObj [(''error'', JStr error), (''willRetry'', JBool False)]) s2;
          result = propagateFailure (tid_of s3 r) (deref_items s3) (cfg_failurePropagation (config s3));
          s4 = fold (block_dependent e r) (fpr_blocked result) s3;
          s5 = fold (skip_dependent e (fpr_reason result)) (fpr_skipped result) s4
      in if cfg_pauseOnFailure (config s5)
         then pause e (Some (''Task '' @ tid_of s5 r @ '' failed'')) s5 else s5)"

definition handleTaskBlocked ::
  "env \<Rightarrow> ref \<Rightarrow> string \<Rightarrow> string \<Rightarrow> usd \<Rightarrow> millis \<Rightarrow> dq \<Rightarrow> dq" where
  "handleTaskBlocked e r reason outcome costUsd durationMs s =
     (let s1 = upd_item r (\<lambda>it. it\<lparr>qi_status := Blocked, qi_completedAt := Some (env_now e),
                                  qi_blockedReason := Some reason, qi_outcome := Some outcome,
                                  qi_costUsd := Some costUsd, qi_durationMs := Some durationMs\<rparr>) s;
          s2 = persist ((queue_event (env_now e) TaskBlocked (Some (tid_of s1 r)))
                 \<lparr>qe_outcome := Some outcome, qe_reason := Some reason\<rparr>) s1
      in emitQueueEvent ''dispatch_queue_task_blocked'' (tid_of s2 r)
           (JObj [(''outcome'', JStr outcome), (''reason'', JStr reason)]) s2)"

text \<open>The reason recorded by the last stale-spec event of the session, when it is a non-empty
  string. \<open>env_staleReasons\<close> lists the \<open>reason\<close> of those events in order.\<close>

definition specChangedReason :: "env \<Rightarrow> session_entry option \<Rightarrow> string" where
  "specChangedReason e session =
     (case session of
        None \<Rightarrow> ''spec_changed''
      | Some se \<Rightarrow>
          (case rev (env_staleReasons e (se_sessionId se)) of
             JStr reason # _ \<Rightarrow> if reason = '''' then ''spec_changed'' else reason
           | _ \<Rightarrow> ''spec_changed''))"

definition finish_completion_check :: "task_id \<Rightarrow> dq \<Rightarrow> dq" where
  "finish_completion_check i s = s\<lparr>completionChecks := js_set_delete i (completionChecks s)\<rparr>"

text \<open>The terminal part of a completion check, once the job is over.\<close>

definition settle_finished_job :: "env \<Rightarrow> task_id \<Rightarrow> ref \<Rightarrow> managed_job \<Rightarrow> dq \<Rightarrow> dq" where
  "settle_finished_job e i r job s =
     (let s1 = clear_poll_timer i s;
          session = List.find (\<lambda>se. se_taskId se = i) (env_sessions e);
          costUsd = (case session of None \<Rightarrow> 0 | Some se \<Rightarrow> default_cost (se_totalCostUsd se));
          durationMs = (case session of None \<Rightarrow> 0 | Some se \<Rightarrow>
            (case se_durationMs se of None \<Rightarrow> 0 | Some d \<Rightarrow> d));
          fallback = (if mj_status job = JCompleted then ''completed'' else ''failed'');
          outcome = (case session of None \<Rightarrow> fallback | Some se \<Rightarrow>
            (case se_outcome se of None \<Rightarrow> fallback | Some v \<Rightarrow> v));
          s2 = guard_complete costUsd s1
      in if outcome = ''approved'' then handleTaskSuccess e r outcome costUsd durationMs s2
         else if outcome = ''spec_changed''
         then finish_completion_check i
                (scheduleNext e
                  (handleTaskBlocked e r (specChangedReason e session) outcome costUsd durationMs s2))
         else finish_completion_check i
                (scheduleNext e (handleTaskFailure e r outcome outcome costUsd durationMs s2)))"

definition checkTaskCompletion :: "env \<Rightarrow> task_id \<Rightarrow> dq \<Rightarrow> dq" where
  "checkTaskCompletion e i s =
     (case item_ref s i of
        None \<Rightarrow> s
      | Some r \<Rightarrow>
          if \<not> lane_status (status_of s r) \<or> i \<in> set (completionChecks s) then s
          else
            let s1 = s\<lparr>completionChecks := js_set_add i (completionChecks s)\<rparr> in
            (case env_job e i of
               None \<Rightarrow> finish_completion_check i s1
             | Some job \<Rightarrow>
                 if mj_status job = JAwaitingApproval
                 then finish_completion_check i (handleTaskAwaitingApproval e r s1)
                 else if mj_status job = JRunning
                 then finish_completion_check i
                        (if status_of s1 r = AwaitingApproval then handleTaskResumed e r False s1
                         else s1)
                 else settle_finished_job e i r job s1))"

section \<open>Human gates\<close>

definition recordApprovalResume :: "env \<Rightarrow> task_id \<Rightarrow> bool \<Rightarrow> dq \<Rightarrow> bool \<times> dq" where
  "recordApprovalResume e i managerPauseReleased s =
     (case item_ref s i of
        None \<Rightarrow> (False, s)
      | Some r \<Rightarrow>
          let queuePollLagged = (status_of s r = Running \<and> managerPauseReleased) in
          if status_of s r \<noteq> AwaitingApproval \<and> \<not> queuePollLagged then (False, s)
          else if queuePollLagged \<and> env_activeJob e i then (False, s)
          else (True, handleTaskResumed e r queuePollLagged s))"

definition settleApprovalRejection ::
  "env \<Rightarrow> task_id \<Rightarrow> string \<Rightarrow> string \<Rightarrow> bool \<Rightarrow> dq \<Rightarrow> bool \<times> dq" where
  "settleApprovalRejection e i reason outcome managerPauseReleased s =
     (case item_ref s i of
        None \<Rightarrow> (False, s)
      | Some r \<Rightarrow>
          if status_of s r \<noteq> AwaitingApproval
             \<and> \<not> (status_of s r = Running \<and> managerPauseReleased) then (False, s)
          else if env_activeJob e i then (False, s)
          else (True,
                scheduleNext e (handleTaskFailure e r reason outcome 0 0 (release_lane i r s))))"

definition requeueApprovalResume :: "env \<Rightarrow> task_id \<Rightarrow> string \<Rightarrow> dq \<Rightarrow> bool \<times> dq" where
  "requeueApprovalResume e i reason s =
     (case item_ref s i of
        None \<Rightarrow> (False, s)
      | Some r \<Rightarrow>
          if status_of s r \<noteq> Running
             \<or> \<not> (case qi_dispatchOptions (heap s r) of None \<Rightarrow> False | Some so \<Rightarrow> so_resume so)
          then (False, s)
          else
            let s1 = set_status Ready r (guard_complete 0 (clear_poll_timer i s));
                s2 = persist ((queue_event (env_now e) TaskReady (Some i))
                       \<lparr>qe_reason := Some (''Approval resume start failed: '' @ reason)\<rparr>) s1;
                s3 = emitQueueEvent ''dispatch_queue_task_ready'' i
                       (JObj [(''reason'',
                         JStr (''Approval resume start failed; queued for retry: '' @ reason))]) s2
            in (True, scheduleNext e s3))"

section \<open>Configuration\<close>

definition merge_config :: "partial_queue_config \<Rightarrow> dispatch_queue_config \<Rightarrow> dispatch_queue_config" where
  "merge_config p c =
     \<lparr>cfg_maxConcurrent = (case pc_maxConcurrent p of None \<Rightarrow> cfg_maxConcurrent c | Some v \<Rightarrow> v),
      cfg_cooldownBetweenTasksMs = (case pc_cooldownBetweenTasksMs p of
        None \<Rightarrow> cfg_cooldownBetweenTasksMs c | Some v \<Rightarrow> v),
      cfg_failurePropagation = (case pc_failurePropagation p of
        None \<Rightarrow> cfg_failurePropagation c | Some v \<Rightarrow> v),
      cfg_fleetBudgetUsd = (case pc_fleetBudgetUsd p of None \<Rightarrow> cfg_fleetBudgetUsd c | Some v \<Rightarrow> v),
      cfg_pauseOnFailure = (case pc_pauseOnFailure p of None \<Rightarrow> cfg_pauseOnFailure c | Some v \<Rightarrow> v),
      cfg_persistState = (case pc_persistState p of None \<Rightarrow> cfg_persistState c | Some v \<Rightarrow> v),
      cfg_autoStartOnEnqueue = (case pc_autoStartOnEnqueue p of
        None \<Rightarrow> cfg_autoStartOnEnqueue c | Some v \<Rightarrow> v)\<rparr>"

definition guard_options_of :: "dispatch_queue_config \<Rightarrow> guard_options" where
  "guard_options_of c =
     \<lparr>go_maxConcurrent = cfg_maxConcurrent c,
      go_cooldownBetweenTasksMs = cfg_cooldownBetweenTasksMs c,
      go_fleetBudgetUsd = cfg_fleetBudgetUsd c\<rparr>"

definition updateConfig :: "env \<Rightarrow> partial_queue_config \<Rightarrow> dq \<Rightarrow> dq" where
  "updateConfig e p s =
     (let c = merge_config p (config s);
          s1 = s\<lparr>config := c, qguard := updateOptions (guard_options_of c) (qguard s)\<rparr>
      in persist ((queue_event (env_now e) ConfigUpdated None)\<lparr>qe_config := Some c\<rparr>) s1)"

section \<open>Construction and recovery\<close>

definition empty_queue :: "dispatch_queue_config \<Rightarrow> bool \<Rightarrow> disk \<Rightarrow> dq" where
  "empty_queue c fence d =
     \<lparr>items = [], heap = (\<lambda>_. new_item
         \<lparr>env_now = 0, env_activeJob = (\<lambda>_. False), env_job = (\<lambda>_. None), env_stop = (\<lambda>_. False),
          env_start = (\<lambda>_ _. Inr 0), env_tasks = Inr [], env_getTask = (\<lambda>_. Inr None),
          env_sessions = [], env_staleReasons = (\<lambda>_. []), env_claimants = (\<lambda>_. []),
          env_fence = (\<lambda>_. Inr ''''), env_release = (\<lambda>_. None), env_taskDirError = None\<rparr>
         '''' None),
      next_ref = 0, qguard = new_guard (guard_options_of c), running = False, paused = False,
      pauseReason = None, loopTimer = None, armedTimers = [], next_timer = 0, pollTimers = [], startedAt = None, completedAt = None,
      recoveryScan = False, recoveryResult = None, recoveryScanUnavailableReason = None,
      dispatchChecks = [], completionChecks = [], config = c, has_fence = fence, qdisk = d,
      emitted = [], start_calls = [], frames = []\<rparr>"

definition load_item :: "task_id \<times> queue_item \<Rightarrow> dq \<Rightarrow> dq" where
  "load_item p s = alloc_item (fst p) (snd p) s"

definition recover_row :: "env \<Rightarrow> ref \<Rightarrow> dq \<Rightarrow> dq" where
  "recover_row e r s =
     (if status_of s r \<in> {Queued, Ready, Running} then set_status RecoveredPendingScan r s
      else if status_of s r = AwaitingApproval
      then ensurePollTimer (tid_of s r) (guard_start (env_now e) s)
      else s)"

definition recoverState :: "env \<Rightarrow> dq \<Rightarrow> dq" where
  "recoverState e s =
     (let replayed = replay (qdisk s) in
      if replayed = [] then s
      else
        let s1 = fold load_item replayed s;
            s2 = fold (recover_row e) (item_refs s1) s1;
            s3 = ensureRecoveryScan s2
        in emitQueueEvent ''dispatch_queue_recovered'' ''''
             (JObj [(''recoveredCount'', JNum (of_nat (length replayed)))]) s3)"

definition new_queue :: "env \<Rightarrow> dispatch_queue_config \<Rightarrow> bool \<Rightarrow> disk \<Rightarrow> dq" where
  "new_queue e c fence d =
     (if cfg_persistState c then recoverState e (empty_queue c fence d) else empty_queue c fence d)"

end
