(* ===== verification/Queue_Machine.thy ===== *)
theory Queue_Machine
  imports Queue_Operations
begin

text \<open>
  The asynchronous methods of \<open>DispatchQueue\<close> (\<open>src/queue/dispatch-queue.ts\<close>), cut at every
  \<open>await\<close>: what runs between two suspensions is one function on the state, and the local
  variables that survive a suspension are the arguments of a \<open>frame\<close>. \<open>exec\<close> runs one action:
  a call of the public interface, a timer, or the resumption of a suspended method, in any order
  the environment chooses.

  A loop over \<open>this.items.values()\<close> follows the live iterator of the map: the next item is the
  first one, in insertion order, whose object has not been visited.
\<close>

section \<open>Readiness\<close>

definition next_unvisited :: "ref list \<Rightarrow> (ref \<Rightarrow> bool) \<Rightarrow> dq \<Rightarrow> ref option" where
  "next_unvisited visited wanted s =
     List.find wanted (filter (\<lambda>r. r \<notin> set visited) (item_refs s))"

definition visited_upto :: "ref list \<Rightarrow> ref \<Rightarrow> dq \<Rightarrow> ref list" where
  "visited_upto visited r s =
     visited @ takeWhile (\<lambda>x. x \<noteq> r) (filter (\<lambda>x. x \<notin> set visited) (item_refs s)) @ [r]"

definition completed_queue_ids :: "dq \<Rightarrow> task_id list" where
  "completed_queue_ids s =
     js_uniq (map (tid_of s) (filter (\<lambda>r. status_of s r = Completed) (item_refs s)))"

definition needs_readiness :: "dq \<Rightarrow> ref \<Rightarrow> bool" where
  "needs_readiness s r \<longleftrightarrow>
     (status_of s r = Queued \<or> (status_of s r = Blocked \<and> dup_blocked (heap s r) \<noteq> [])) \<and>
     \<not> qi_enrichmentPending (heap s r)"

definition resolveTrackedDependencies :: "dq \<Rightarrow> task_id list \<Rightarrow> session_map \<Rightarrow> dep_state" where
  "resolveTrackedDependencies s dependencyIds sessions =
     (let ok = (\<lambda>d. (case item_ref s d of None \<Rightarrow> False | Some r \<Rightarrow> status_of s r = Completed)
                    \<or> session_approved sessions d)
      in \<lparr>ds_unmet = filter (\<lambda>d. \<not> ok d) dependencyIds, ds_satisfiers = filter ok dependencyIds\<rparr>)"

definition readiness_deps ::
  "dq \<Rightarrow> task_summary list \<Rightarrow> task_id list \<Rightarrow> session_map \<Rightarrow> ref \<Rightarrow> dep_state" where
  "readiness_deps s tasks completed sessions r =
     (case js_map_get (task_map tasks) (tid_of s r) of
        Some summary \<Rightarrow> resolveDependencies (ts_blockedBy summary) tasks completed
      | None \<Rightarrow> resolveTrackedDependencies s (qi_blockedBy (heap s r)) sessions)"

text \<open>The loop of \<open>updateReadiness\<close> runs to the next item it has to scan, or to its end.\<close>

definition continueReadiness ::
  "task_summary list \<Rightarrow> task_id list \<Rightarrow> session_map \<Rightarrow> ref list \<Rightarrow> dq \<Rightarrow> dq" where
  "continueReadiness tasks completed sessions visited s =
     (case next_unvisited visited (needs_readiness s) s of
        None \<Rightarrow> push_frame FAfterReadiness s
      | Some r \<Rightarrow>
          let deps = readiness_deps s tasks completed sessions r;
              claimantIds = js_uniq (ds_satisfiers deps @ dup_blocked (heap s r))
          in push_frame (FReadyScan tasks completed sessions (visited_upto visited r s) r deps
               claimantIds (dup_blocked (heap s r) \<noteq> [])) s)"

definition beginReadinessLoop :: "task_summary list \<Rightarrow> session_map \<Rightarrow> dq \<Rightarrow> dq" where
  "beginReadinessLoop tasks sessions s =
     continueReadiness tasks (completed_queue_ids s) sessions [] s"

text \<open>After the claimant scan of one item. The item's status is not looked at again.\<close>

definition mark_ready :: "env \<Rightarrow> string \<Rightarrow> ref \<Rightarrow> dq \<Rightarrow> dq" where
  "mark_ready e why r s =
     (let s1 = set_status Ready r s;
          s2 = persist (queue_event (env_now e) TaskReady (Some (tid_of s1 r))) s1
      in emitQueueEvent ''dispatch_queue_task_ready'' (tid_of s2 r) (JObj [(''reason'', JStr why)]) s2)"

definition contested_blockers :: "dep_state \<Rightarrow> duplicate_claimant_check list \<Rightarrow> task_id \<Rightarrow> task_id list" where
  "contested_blockers deps contested tid =
     js_uniq (ds_unmet deps @ filter (\<lambda>i. i \<noteq> tid) (map chk_taskId contested))"

definition set_blockedBy :: "task_id list \<Rightarrow> ref \<Rightarrow> dq \<Rightarrow> dq" where
  "set_blockedBy b r s = upd_item r (\<lambda>it. it\<lparr>qi_blockedBy := b\<rparr>) s"

definition finishReadinessItem ::
  "env \<Rightarrow> ref \<Rightarrow> dep_state \<Rightarrow> task_id list \<Rightarrow> bool \<Rightarrow> dq \<Rightarrow> dq" where
  "finishReadinessItem e r deps claimantIds quarantined s =
     (let contested = contested_checks (scanDuplicateClaimants e claimantIds) claimantIds in
      if contested \<noteq> []
      then setDuplicateQuarantine r contested
             (set_blockedBy (contested_blockers deps contested (tid_of s r)) r s)
      else
        let s1 = (if quarantined
                  then let s0 = clearDuplicateQuarantine r s
                       in if status_of s0 r = Blocked then set_status Queued r s0 else s0
                  else s);
            s2 = set_blockedBy (ds_unmet deps) r s1
        in if ds_unmet deps = [] then mark_ready e ''dependencies met'' r s2 else s2)"

section \<open>Selecting and dispatching\<close>

definition ready_order :: "dq \<Rightarrow> ref \<Rightarrow> ref \<Rightarrow> int" where
  "ready_order s a b =
     (if qi_priority (heap s a) \<noteq> qi_priority (heap s b)
      then qi_priority (heap s a) - qi_priority (heap s b)
      else qi_enqueuedAt (heap s a) - qi_enqueuedAt (heap s b))"

definition ready_refs :: "dq \<Rightarrow> ref list" where
  "ready_refs s =
     filter (\<lambda>r. status_of s r = Ready \<and> \<not> qi_enrichmentPending (heap s r)) (item_refs s)"

definition selectNextTask :: "dq \<Rightarrow> ref option" where
  "selectNextTask s =
     (if ready_refs s = [] then None else Some (hd (js_sort (ready_order s) (ready_refs s))))"

definition afterReadiness :: "env \<Rightarrow> dq \<Rightarrow> dq" where
  "afterReadiness e s =
     (if \<not> active s then s
      else case canStart (env_now e) DEFAULT_ESTIMATED_COST (qguard s) of
        Denied reason waitMs \<Rightarrow>
          if reason = ''fleet_budget_exhausted'' then pause e (Some ''Fleet budget exhausted'') s
          else arm_loop_timer waitMs s
      | Allowed \<Rightarrow>
          (case selectNextTask s of
             None \<Rightarrow> checkDrained e s
           | Some r \<Rightarrow>
               if tid_of s r \<in> set (dispatchChecks s) then s
               else push_frame (FDispatchTasks r (buildSessionMap (env_sessions e)))
                      (s\<lparr>dispatchChecks := js_set_add (tid_of s r) (dispatchChecks s)\<rparr>)))"

definition finish_dispatch :: "ref \<Rightarrow> dq \<Rightarrow> dq" where
  "finish_dispatch r s = s\<lparr>dispatchChecks := js_set_delete (tid_of s r) (dispatchChecks s)\<rparr>"

definition may_dispatch :: "dq \<Rightarrow> ref \<Rightarrow> bool" where
  "may_dispatch s r \<longleftrightarrow> active s \<and> status_of s r = Ready"

text \<open>The \<open>catch\<close> block of \<open>dispatchTask\<close>, followed by its \<open>finally\<close>.\<close>

definition error_message :: "dispatch_error \<Rightarrow> string" where
  "error_message err =
     (case err of
        ClaimantError c \<Rightarrow> formatDuplicateClaimantsMessage (chk_taskId c) (chk_claimants c)
      | OtherError msg _ \<Rightarrow> msg)"

definition refuse_contested :: "ref \<Rightarrow> duplicate_claimant_check list \<Rightarrow> dq \<Rightarrow> dq" where
  "refuse_contested r checks s =
     (let s1 = setDuplicateQuarantine r checks (set_status Blocked r s)
      in emitQueueEvent ''dispatch_queue_task_refused'' (tid_of s1 r)
           (refused_payload checks (heap s1 r)) s1)"

definition defer_admission :: "env \<Rightarrow> ref \<Rightarrow> string \<Rightarrow> bool \<Rightarrow> dq \<Rightarrow> dq" where
  "defer_admission e r msg decomposed s =
     (let s1 = upd_item r (\<lambda>it. it\<lparr>qi_status := (if decomposed then Skipped else Queued),
                 qi_blockedReason := Some msg,
                 qi_outcome := Some (if decomposed then ''decomposed'' else ''admission_deferred'')\<rparr>) s;
          s2 = persist ((queue_event (env_now e) (if decomposed then TaskSkipped else TaskReady)
                 (Some (tid_of s1 r)))\<lparr>qe_reason := Some msg\<rparr>) s1;
          s3 = emitQueueEvent ''dispatch_queue_task_refused'' (tid_of s2 r)
                 (JObj [(''error'', JStr (if decomposed then ''parent_decomposed''
                                          else ''decomposition_admission_deferred'')),
                        (''message'', JStr msg), (''retryable'', JBool (\<not> decomposed))]) s2
      in if decomposed then scheduleNext e s3
         else if loopTimer s3 = None then arm_loop_timer POLL_INTERVAL_MS s3 else s3)"

definition catchDispatch :: "env \<Rightarrow> ref \<Rightarrow> bool \<Rightarrow> dispatch_error \<Rightarrow> dq \<Rightarrow> dq" where
  "catchDispatch e r attempted err s =
     finish_dispatch r
       (if \<not> may_dispatch s r then s
        else case err of
          ClaimantError c \<Rightarrow> refuse_contested r [c] s
        | OtherError msg decomposed \<Rightarrow>
            if has_fence s \<and> \<not> attempted then defer_admission e r msg decomposed s
            else handleTaskFailure e r msg ''dispatch_error'' 0 0 s)"

text \<open>\<open>startDispatch\<close>: an error of the manager, no start, or the process id and start time.\<close>

definition startDispatch ::
  "env \<Rightarrow> ref \<Rightarrow> start_options \<Rightarrow> dq \<Rightarrow> start_outcome \<times> dq" where
  "startDispatch e r opts s =
     (if \<not> may_dispatch s r then (Inr None, s)
      else
        let s1 = s\<lparr>start_calls := start_calls s @ [(tid_of s r, opts)]\<rparr> in
        case env_start e (tid_of s r) opts of
          Inl err \<Rightarrow> (Inl err, s1)
        | Inr pid \<Rightarrow>
            (Inr (Some (pid, env_now e)),
             guard_start (env_now e)
               (upd_item r (\<lambda>it. it\<lparr>qi_status := Running, qi_startedAt := Some (env_now e)\<rparr>) s1)))"

definition item_running :: "dq \<Rightarrow> task_id \<Rightarrow> bool" where
  "item_running s i = (case item_ref s i of None \<Rightarrow> False | Some r \<Rightarrow> status_of s r = Running)"

text \<open>After the fence has settled: the rest of the \<open>try\<close> block.\<close>

definition dispatchStarted :: "env \<Rightarrow> ref \<Rightarrow> start_outcome \<Rightarrow> dq \<Rightarrow> dq" where
  "dispatchStarted e r outcome s =
     (case outcome of
        Inl err \<Rightarrow> catchDispatch e r True err s
      | Inr None \<Rightarrow> finish_dispatch r s
      | Inr (Some (pid, startTs)) \<Rightarrow>
          if \<not> active s \<or> \<not> item_running s (tid_of s r) then finish_dispatch r s
          else
            let s1 = persist (queue_event startTs TaskStarted (Some (tid_of s r))) s;
                s2 = emitQueueEvent ''dispatch_queue_task_started'' (tid_of s1 r)
                       (JObj [(''pid'', JNum (of_int pid))]) s1;
                s3 = ensurePollTimer (tid_of s2 r) s2
            in finish_dispatch r (scheduleNext e s3))"

definition dispatchScanned :: "env \<Rightarrow> ref \<Rightarrow> dep_state \<Rightarrow> task_id list \<Rightarrow> dq \<Rightarrow> dq" where
  "dispatchScanned e r deps claimantIds s =
     (if \<not> may_dispatch s r then finish_dispatch r s
      else
        let checks = scanDuplicateClaimants e claimantIds;
            contested = contested_checks checks claimantIds
        in if contested \<noteq> [] then
             finish_dispatch r
               (refuse_contested r contested
                 (set_blockedBy (contested_blockers deps contested (tid_of s r)) r s))
           else
             let s1 = set_blockedBy [] r (clearDuplicateQuarantine r s);
                 claimantCheck = js_map_get checks (tid_of s1 r)
             in (case assertUncontestedClaimant claimantCheck of
                   Inl (DuplicateClaimantAdmissionError c) \<Rightarrow>
                     catchDispatch e r False (ClaimantError c) s1
                 | Inr _ \<Rightarrow>
                     let opts = (spread_options (qi_dispatchOptions (heap s1 r)))
                                  \<lparr>so_duplicateClaimantCheck := claimantCheck\<rparr>
                     in if has_fence s1 then push_frame (FDispatchFence r opts claimantCheck) s1
                        else (case startDispatch e r opts s1 of
                                (outcome, s2) \<Rightarrow> dispatchStarted e r outcome s2)))"

definition dispatchDeps :: "ref \<Rightarrow> dep_state \<Rightarrow> dq \<Rightarrow> dq" where
  "dispatchDeps r deps s =
     (if \<not> may_dispatch s r then finish_dispatch r s
      else if ds_unmet deps \<noteq> []
      then finish_dispatch r (set_blockedBy (ds_unmet deps) r (set_status Queued r s))
      else push_frame (FDispatchScan r deps (tid_of s r # ds_satisfiers deps)) s)"

definition dispatchTasksListed ::
  "env \<Rightarrow> ref \<Rightarrow> session_map \<Rightarrow> dq \<Rightarrow> dq" where
  "dispatchTasksListed e r sessions s =
     (case env_tasks e of
        Inl msg \<Rightarrow> catchDispatch e r False (OtherError msg False) s
      | Inr tasks \<Rightarrow>
          (case List.find (\<lambda>t. ts_id t = tid_of s r) tasks of
             Some summary \<Rightarrow>
               push_frame (FDispatchDeps r (resolveDependencies (ts_blockedBy summary) tasks [])) s
           | None \<Rightarrow> push_frame (FDispatchGetTask r sessions) s))"

definition dispatchTaskRead :: "env \<Rightarrow> ref \<Rightarrow> session_map \<Rightarrow> dq \<Rightarrow> dq" where
  "dispatchTaskRead e r sessions s =
     (case env_getTask e (tid_of s r) of
        Inl msg \<Rightarrow> catchDispatch e r False (OtherError msg False) s
      | Inr None \<Rightarrow> push_frame (FDispatchDeps r no_deps) s
      | Inr (Some task) \<Rightarrow>
          push_frame (FDispatchDeps r
            (resolveTrackedDependencies s (map normalizeTaskId (td_blockedBy task)) sessions)) s)"

text \<open>
  The admission fence runs \<open>startDispatch\<close> under its reservation, or rejects without running it;
  its promise settles when the reservation has been released, which may fail as well.
\<close>

definition dispatchFence :: "env \<Rightarrow> ref \<Rightarrow> start_options \<Rightarrow> dq \<Rightarrow> dq" where
  "dispatchFence e r opts s =
     (case env_fence e (tid_of s r) of
        Inl err \<Rightarrow> catchDispatch e r False err s
      | Inr contentHash \<Rightarrow>
          (case startDispatch e r (opts\<lparr>so_admittedTaskContentHash := Some contentHash\<rparr>) s of
             (outcome, s1) \<Rightarrow> push_frame (FDispatchRelease r (may_dispatch s r) outcome) s1))"

definition dispatchReleased :: "env \<Rightarrow> ref \<Rightarrow> bool \<Rightarrow> start_outcome \<Rightarrow> dq \<Rightarrow> dq" where
  "dispatchReleased e r attempted outcome s =
     (case env_release e (tid_of s r) of
        Some err \<Rightarrow> catchDispatch e r attempted err s
      | None \<Rightarrow> dispatchStarted e r outcome s)"

section \<open>Unblocking dependents\<close>

definition finish_unblock :: "env \<Rightarrow> unblock_kind \<Rightarrow> dq \<Rightarrow> dq" where
  "finish_unblock e kind s =
     (case kind of
        UnblockAfterCompletion i \<Rightarrow> finish_completion_check i (scheduleNext e s)
      | UnblockExternal \<Rightarrow> s)"

definition waits_on :: "dq \<Rightarrow> task_id \<Rightarrow> ref \<Rightarrow> bool" where
  "waits_on s completed r \<longleftrightarrow>
     (status_of s r = Queued \<or> dup_blocked (heap s r) \<noteq> []) \<and>
     completed \<in> set (qi_blockedBy (heap s r))"

text \<open>\<open>refreshDuplicateQuarantine\<close> after its scan: whether the item stays quarantined.\<close>

definition refreshDuplicateQuarantine ::
  "env \<Rightarrow> ref \<Rightarrow> task_id list \<Rightarrow> dq \<Rightarrow> bool \<times> dq" where
  "refreshDuplicateQuarantine e r ids s =
     (let contested = contested_checks (scanDuplicateClaimants e ids) ids in
      if contested = [] then (False, clearDuplicateQuarantine r s)
      else (True, setDuplicateQuarantine r contested s))"

definition continueContested :: "env \<Rightarrow> task_id \<Rightarrow> ref list \<Rightarrow> unblock_kind \<Rightarrow> dq \<Rightarrow> dq" where
  "continueContested e completed visited kind s =
     (case next_unvisited visited (waits_on s completed) s of
        None \<Rightarrow> finish_unblock e kind s
      | Some r \<Rightarrow>
          push_frame (FUnblockContested completed (visited_upto visited r s) r
            (js_uniq (dup_blocked (heap s r) @ [completed])) kind) s)"

definition continueUnblock :: "env \<Rightarrow> task_id \<Rightarrow> ref list \<Rightarrow> unblock_kind \<Rightarrow> dq \<Rightarrow> dq" where
  "continueUnblock e completed visited kind s =
     (case next_unvisited visited (waits_on s completed) s of
        None \<Rightarrow> finish_unblock e kind s
      | Some r \<Rightarrow>
          let ids = js_uniq (filter (\<lambda>i. i \<noteq> completed) (dup_blocked (heap s r)));
              s1 = set_blockedBy (js_remove_first completed (qi_blockedBy (heap s r))) r s;
              s2 = (if ids = [] then clearDuplicateQuarantine r s1 else s1)
          in push_frame (FUnblockItem completed (visited_upto visited r s) r ids kind) s2)"

definition finishUnblockItem :: "env \<Rightarrow> task_id \<Rightarrow> ref \<Rightarrow> task_id list \<Rightarrow> dq \<Rightarrow> dq" where
  "finishUnblockItem e completed r ids s =
     (let (stillQuarantined, s1) =
            (if ids = [] then (False, s) else refreshDuplicateQuarantine e r ids s);
          s2 = (if \<not> stillQuarantined \<and> status_of s1 r = Blocked then set_status Queued r s1 else s1);
          s3 = persist ((queue_event (env_now e) TaskUnblocked (Some (tid_of s2 r)))
                 \<lparr>qe_reason := Some completed\<rparr>) s2;
          s4 = emitQueueEvent ''dispatch_queue_task_unblocked'' (tid_of s3 r)
                 (JObj [(''unblockedBy'', JStr completed)]) s3
      in if qi_blockedBy (heap s4 r) = [] \<and> \<not> stillQuarantined
         then mark_ready e (completed @ '' completed'') r s4 else s4)"

definition unblockScanned :: "env \<Rightarrow> task_id \<Rightarrow> unblock_kind \<Rightarrow> dq \<Rightarrow> dq" where
  "unblockScanned e completed kind s =
     (if 1 < length (env_claimants e completed) then continueContested e completed [] kind s
      else continueUnblock e completed [] kind s)"

section \<open>Enrichment and the recovery scan\<close>

definition finish_recovery :: "scan_result \<Rightarrow> dq \<Rightarrow> dq" where
  "finish_recovery result s = s\<lparr>recoveryScan := False, recoveryResult := Some result\<rparr>"

text \<open>The loop of \<open>scanRecoveredRows\<close>, up to the next row it enriches.\<close>

fun continueRecovery ::
  "env \<Rightarrow> ref list \<Rightarrow> (task_id \<times> duplicate_claimant_check) list \<Rightarrow> dq \<Rightarrow> dq" where
  "continueRecovery e [] checks s = finish_recovery ScanAvailable s"
| "continueRecovery e (r # rest) checks s =
     (let check = js_map_get checks (tid_of s r) in
      if (case check of None \<Rightarrow> False | Some c \<Rightarrow> 1 < length (chk_claimants c))
      then
        let c = the check;
            s1 = setDuplicateQuarantine r [c] (set_status Blocked r s);
            s2 = emitQueueEvent ''dispatch_queue_task_refused'' (tid_of s1 r)
                   (refused_payload [c] (heap s1 r)) s1
        in continueRecovery e rest checks s2
      else beginEnrichment e r (EnrichRecovery rest checks)
             (clearDuplicateQuarantine r (set_status Queued r s)))"

definition recoveryDirChecked :: "env \<Rightarrow> dq \<Rightarrow> dq" where
  "recoveryDirChecked e s =
     (case env_taskDirError e of
        Some reason \<Rightarrow>
          finish_recovery (ScanUnavailable reason)
            (emitQueueEvent ''dispatch_queue_recovery_scan_unavailable'' ''''
              (JObj [(''reason'', JStr reason)])
              (s\<lparr>recoveryScanUnavailableReason := Some reason\<rparr>))
      | None \<Rightarrow>
          let s1 = s\<lparr>recoveryScanUnavailableReason := None\<rparr>;
              pending = filter (\<lambda>r. status_of s1 r = RecoveredPendingScan) (item_refs s1)
          in push_frame (FRecoveryClaimants pending) s1)"

definition recoveryClaimantsScanned :: "env \<Rightarrow> ref list \<Rightarrow> dq \<Rightarrow> dq" where
  "recoveryClaimantsScanned e pending s =
     continueRecovery e pending (scanDuplicateClaimants e (map (tid_of s) pending)) s"

definition enrichment_over :: "ref \<Rightarrow> dq \<Rightarrow> dq" where
  "enrichment_over r s = upd_item r (\<lambda>it. it\<lparr>qi_enrichmentPending := False\<rparr>) s"

definition finishEnrichment :: "env \<Rightarrow> ref \<Rightarrow> enrich_kind \<Rightarrow> dq \<Rightarrow> dq" where
  "finishEnrichment e r kind s =
     (let s1 = enrichment_over r s in
      case kind of
        EnrichBegin \<Rightarrow> if active s1 then scheduleNext e s1 else s1
      | EnrichRecovery rest checks \<Rightarrow> continueRecovery e rest checks s1)"

definition failEnrichment :: "env \<Rightarrow> ref \<Rightarrow> enrich_kind \<Rightarrow> string \<Rightarrow> dq \<Rightarrow> dq" where
  "failEnrichment e r kind msg s =
     (let s1 = enrichment_over r s in
      case kind of
        EnrichBegin \<Rightarrow>
          let s2 = upd_item r (\<lambda>it. it\<lparr>qi_status := Blocked, qi_blockedReason := Some msg\<rparr>) s1
          in if active s2 then scheduleNext e s2 else s2
      | EnrichRecovery rest checks \<Rightarrow> finish_recovery (ScanRejected msg) s1)"

definition priority_of :: "string \<Rightarrow> int" where
  "priority_of p = (case map_of PRIORITY_WEIGHT p of None \<Rightarrow> 99 | Some w \<Rightarrow> w)"

text \<open>The end of \<open>enrichQueueItem\<close>: the unmet dependencies are known.\<close>

definition enrichUnmet :: "env \<Rightarrow> ref \<Rightarrow> task_id list \<Rightarrow> dq \<Rightarrow> dq" where
  "enrichUnmet e r unmet s =
     (let s1 = set_blockedBy unmet r s in
      if unmet = [] \<and> status_of s1 r = Queued then mark_ready e ''no dependencies'' r s1 else s1)"

definition enrichTasksListed :: "env \<Rightarrow> ref \<Rightarrow> session_map \<Rightarrow> enrich_kind \<Rightarrow> dq \<Rightarrow> dq" where
  "enrichTasksListed e r sessions kind s =
     (case env_tasks e of
        Inl msg \<Rightarrow> failEnrichment e r kind msg s
      | Inr tasks \<Rightarrow>
          (case List.find (\<lambda>t. ts_id t = tid_of s r) tasks of
             Some summary \<Rightarrow>
               push_frame (FEnrichScan r (resolveDependencies (ts_blockedBy summary) tasks []) kind)
                 (upd_item r (\<lambda>it. it\<lparr>qi_priority := priority_of (ts_priority summary)\<rparr>) s)
           | None \<Rightarrow> push_frame (FEnrichGetTask r sessions kind) s))"

definition enrichTaskRead :: "env \<Rightarrow> ref \<Rightarrow> session_map \<Rightarrow> enrich_kind \<Rightarrow> dq \<Rightarrow> dq" where
  "enrichTaskRead e r sessions kind s =
     (case env_getTask e (tid_of s r) of
        Inl msg \<Rightarrow> failEnrichment e r kind msg s
      | Inr None \<Rightarrow> finishEnrichment e r kind s
      | Inr (Some task) \<Rightarrow>
          let s1 = upd_item r (\<lambda>it. it\<lparr>qi_priority := priority_of (td_priority task)\<rparr>) s;
              deps = resolveTrackedDependencies s1 (map normalizeTaskId (td_blockedBy task)) sessions
          in finishEnrichment e r kind (enrichUnmet e r (ds_unmet deps) s1))"

definition enrichScanned :: "env \<Rightarrow> ref \<Rightarrow> dep_state \<Rightarrow> enrich_kind \<Rightarrow> dq \<Rightarrow> dq" where
  "enrichScanned e r deps kind s =
     (let contested = contested_checks (scanDuplicateClaimants e (ds_satisfiers deps)) (ds_satisfiers deps);
          unmet = js_uniq (ds_unmet deps @ map chk_taskId contested);
          s1 = (if contested \<noteq> [] then setDuplicateQuarantine r contested s
                else clearDuplicateQuarantine r s)
      in finishEnrichment e r kind (enrichUnmet e r unmet s1))"

section \<open>The machine\<close>

datatype action =
    AEnqueue task_id "start_options option" "duplicate_claimant_check option"
  | AEnqueueMultiple "task_id list" "start_options option" "claimant_checks option"
  | AEnqueueSubtasks task_id "task_id list" "start_options option" "claimant_checks option"
  | AEnqueueAllEligible "start_options option" "claimant_checks option"
  | AStart
  | APause "string option"
  | AResume
  | AStop
  | AAbort
  | ACancel task_id
  | ARetry task_id "duplicate_claimant_check option"
  | ARemove task_id
  | ARecordApprovalResume task_id bool
  | ASettleApprovalRejection task_id string string bool
  | ARequeueApprovalResume task_id string
  | AUpdateConfig partial_queue_config
  | ANotifyExternalCompletion task_id
  | ALoopTimer nat
  | APollTimer task_id
  | AContinue nat

text \<open>Resuming a suspended method; a waiter on the recovery scan waits until the scan is over.\<close>

fun resume_frame :: "env \<Rightarrow> frame \<Rightarrow> dq \<Rightarrow> dq" where
  "resume_frame e (FReadyTasks sessions) s =
     (case env_tasks e of Inl _ \<Rightarrow> s | Inr tasks \<Rightarrow> beginReadinessLoop tasks sessions s)"
| "resume_frame e (FReadyScan tasks completed sessions visited r deps ids quarantined) s =
     push_frame (FReadyNext tasks completed sessions visited)
       (finishReadinessItem e r deps ids quarantined s)"
| "resume_frame e (FReadyNext tasks completed sessions visited) s =
     continueReadiness tasks completed sessions visited s"
| "resume_frame e FAfterReadiness s = afterReadiness e s"
| "resume_frame e (FDispatchTasks r sessions) s = dispatchTasksListed e r sessions s"
| "resume_frame e (FDispatchGetTask r sessions) s = dispatchTaskRead e r sessions s"
| "resume_frame e (FDispatchDeps r deps) s = dispatchDeps r deps s"
| "resume_frame e (FDispatchScan r deps ids) s = dispatchScanned e r deps ids s"
| "resume_frame e (FDispatchFence r opts check) s = dispatchFence e r opts s"
| "resume_frame e (FDispatchRelease r attempted outcome) s = dispatchReleased e r attempted outcome s"
| "resume_frame e (FUnblockScan completed kind) s = unblockScanned e completed kind s"
| "resume_frame e (FUnblockContested completed visited r ids kind) s =
     continueContested e completed visited kind (snd (refreshDuplicateQuarantine e r ids s))"
| "resume_frame e (FUnblockItem completed visited r ids kind) s =
     continueUnblock e completed visited kind (finishUnblockItem e completed r ids s)"
| "resume_frame e (FEnrichTasks r sessions kind) s = enrichTasksListed e r sessions kind s"
| "resume_frame e (FEnrichGetTask r sessions kind) s = enrichTaskRead e r sessions kind s"
| "resume_frame e (FEnrichScan r deps kind) s = enrichScanned e r deps kind s"
| "resume_frame e FRecoveryDir s = recoveryDirChecked e s"
| "resume_frame e (FRecoveryClaimants pending) s = recoveryClaimantsScanned e pending s"
| "resume_frame e FStartScan s =
     (if recoveryScan s then push_frame FStartScan s
      else if recoveryResult s = Some ScanAvailable then start_body e s else s)"
| "resume_frame e FResumeScan s =
     (if recoveryScan s then push_frame FResumeScan s
      else if recoveryResult s = Some ScanAvailable then resume_body e s else s)"
| "resume_frame e (FEligibleTasks opts checks) s =
     (case env_tasks e of
        Inl _ \<Rightarrow> s
      | Inr tasks \<Rightarrow>
          let ids = eligible_ids e s tasks in
          (case checks of
             Some c \<Rightarrow> snd (enqueueMultiple e ids opts (Some c) s)
           | None \<Rightarrow> push_frame (FEligibleScan ids opts) s))"
| "resume_frame e (FEligibleScan ids opts) s =
     snd (enqueueMultiple e ids opts (Some (scanDuplicateClaimants e ids)) s)"

definition take_frame :: "nat \<Rightarrow> dq \<Rightarrow> dq" where
  "take_frame k s = s\<lparr>frames := take k (frames s) @ drop (Suc k) (frames s)\<rparr>"

fun exec :: "env \<Rightarrow> action \<Rightarrow> dq \<Rightarrow> dq" where
  "exec e (AEnqueue i opts check) s = snd (enqueue e i opts check s)"
| "exec e (AEnqueueMultiple ids opts checks) s = snd (enqueueMultiple e ids opts checks s)"
| "exec e (AEnqueueSubtasks parent ids opts checks) s = snd (enqueueSubtasks e parent ids opts checks s)"
| "exec e (AEnqueueAllEligible opts checks) s = push_frame (FEligibleTasks opts checks) s"
| "exec e AStart s = start e s"
| "exec e (APause reason) s = pause e reason s"
| "exec e AResume s = resume e s"
| "exec e AStop s = stop e s"
| "exec e AAbort s = snd (abort e s)"
| "exec e (ACancel i) s = snd (cancel e i s)"
| "exec e (ARetry i check) s = snd (retry e i check s)"
| "exec e (ARemove i) s = snd (remove i s)"
| "exec e (ARecordApprovalResume i released) s = snd (recordApprovalResume e i released s)"
| "exec e (ASettleApprovalRejection i reason outcome released) s =
     snd (settleApprovalRejection e i reason outcome released s)"
| "exec e (ARequeueApprovalResume i reason) s = snd (requeueApprovalResume e i reason s)"
| "exec e (AUpdateConfig p) s = updateConfig e p s"
| "exec e (ANotifyExternalCompletion i) s = push_frame (FUnblockScan i UnblockExternal) s"
| "exec e (ALoopTimer t) s =
     (if t \<in> fst ` set (armedTimers s)
      then scheduleNext e (s\<lparr>armedTimers := filter (\<lambda>p. fst p \<noteq> t) (armedTimers s), loopTimer := None\<rparr>)
      else s)"
| "exec e (APollTimer i) s = (if i \<in> set (pollTimers s) then checkTaskCompletion e i s else s)"
| "exec e (AContinue k) s =
     (if k < length (frames s) then resume_frame e (frames s ! k) (take_frame k s) else s)"

type_synonym label = "env \<times> action"

definition qstep :: "label \<Rightarrow> dq \<Rightarrow> dq" where
  "qstep l s = exec (fst l) (snd l) s"

definition qrun :: "label list \<Rightarrow> dq \<Rightarrow> dq" where
  "qrun ls s = run_steps qstep ls s"

end
