(* ===== verification/Queue_Invariants.thy ===== *)
theory Queue_Invariants
  imports Queue_Machine
begin

text \<open>
  The structural invariant of the queue machine and the accounting of lanes.

  \<open>queue_inv n s\<close> says that the map of items is well formed, that the heap holds no lane above
  the allocated references, and that the guard's counter plus \<open>n\<close> is the number of objects that
  hold a lane (\<open>n\<close> is not 0 only in the middle of an operation that moves the two one after
  the other). One rule per primitive update, then one per operation.
\<close>

named_theorems inv_rules "operations that keep the queue invariant"

definition lane_refs :: "dq \<Rightarrow> ref set" where
  "lane_refs s = {r. lane_status (qi_status (heap s r))}"

text \<open>The item a suspended dispatch works on.\<close>

fun dispatch_refs :: "frame \<Rightarrow> ref list" where
  "dispatch_refs (FDispatchTasks r sessions) = [r]"
| "dispatch_refs (FDispatchGetTask r sessions) = [r]"
| "dispatch_refs (FDispatchDeps r deps) = [r]"
| "dispatch_refs (FDispatchScan r deps ids) = [r]"
| "dispatch_refs (FDispatchFence r opts check) = [r]"
| "dispatch_refs f = []"

definition struct_inv :: "dq \<Rightarrow> bool" where
  "struct_inv s \<longleftrightarrow>
     distinct (js_map_keys (items s)) \<and>
     (\<forall>p \<in> set (items s). snd p < next_ref s \<and> qi_taskId (heap s (snd p)) = fst p) \<and>
     (\<forall>r \<ge> next_ref s. \<not> lane_status (qi_status (heap s r))) \<and>
     (\<forall>f \<in> set (frames s). \<forall>r \<in> set (dispatch_refs f). r < next_ref s)"

definition queue_inv :: "nat \<Rightarrow> dq \<Rightarrow> bool" where
  "queue_inv n s \<longleftrightarrow>
     struct_inv s \<and> finite (lane_refs s) \<and> lanes_in_use (qguard s) + n = card (lane_refs s)"

section \<open>Primitive updates\<close>

lemma status_of_simp [simp]: "status_of s r = qi_status (heap s r)"
  by (simp add: status_of_def)

lemma tid_of_simp [simp]: "tid_of s r = qi_taskId (heap s r)"
  by (simp add: tid_of_def)

lemma heap_primitives [simp]:
  "heap (emitQueueEvent st i p s) = heap s"
  "heap (persist ev s) = heap s"
  "heap (push_frame fr s) = heap s"
  "heap (clear_poll_timer i s) = heap s"
  "heap (ensurePollTimer i s) = heap s"
  "heap (guard_complete c s) = heap s"
  "heap (guard_start now s) = heap s"
  "heap (arm_loop_timer w s) = heap s"
  "heap (clear_loop_timer s) = heap s"
  "heap (ensureRecoveryScan s) = heap s"
  "heap (finish_completion_check i s) = heap s"
  "heap (finish_dispatch r s) = heap s"
  "heap (finish_recovery res s) = heap s"
  "heap (take_frame k s) = heap s"
  by (simp_all add: emitQueueEvent_def persist_def push_frame_def clear_poll_timer_def
      ensurePollTimer_def guard_complete_def guard_start_def arm_loop_timer_def
      clear_loop_timer_def ensureRecoveryScan_def finish_completion_check_def
      finish_dispatch_def finish_recovery_def take_frame_def split: option.split)

lemma heap_upd_item [simp]: "heap (upd_item r f s) = (heap s)(r := f (heap s r))"
  by (simp add: upd_item_def)

lemma upd_item_fields [simp]:
  "next_ref (upd_item r f s) = next_ref s" "qguard (upd_item r f s) = qguard s"
  "frames (upd_item r f s) = frames s"
  by (simp_all add: upd_item_def)

lemma items_primitives [simp]:
  "items (emitQueueEvent st i p s) = items s"
  "items (persist ev s) = items s"
  "items (push_frame fr s) = items s"
  "items (clear_poll_timer i s) = items s"
  "items (ensurePollTimer i s) = items s"
  "items (guard_complete c s) = items s"
  "items (guard_start now s) = items s"
  "items (arm_loop_timer w s) = items s"
  "items (clear_loop_timer s) = items s"
  "items (upd_item r f s) = items s"
  by (simp_all add: emitQueueEvent_def persist_def push_frame_def clear_poll_timer_def
      ensurePollTimer_def guard_complete_def guard_start_def arm_loop_timer_def
      clear_loop_timer_def upd_item_def split: option.split)

lemma item_ref_primitives [simp]:
  "item_ref (emitQueueEvent st i p s) k = item_ref s k"
  "item_ref (persist ev s) k = item_ref s k"
  "item_ref (push_frame fr s) k = item_ref s k"
  "item_ref (upd_item r g s) k = item_ref s k"
  by (simp_all add: item_ref_def)

text \<open>Updates that touch neither the items nor the heap nor the guard.\<close>

lemma queue_inv_cong:
  "heap s' = heap s \<Longrightarrow> items s' = items s \<Longrightarrow> next_ref s' = next_ref s \<Longrightarrow>
     lanes_in_use (qguard s') = lanes_in_use (qguard s) \<Longrightarrow> frames s' = frames s \<Longrightarrow>
     queue_inv n s' = queue_inv n s"
  by (simp add: queue_inv_def struct_inv_def lane_refs_def)

lemma queue_inv_fields [simp]:
  "queue_inv n (s\<lparr>running := b\<rparr>) = queue_inv n s"
  "queue_inv n (s\<lparr>paused := b\<rparr>) = queue_inv n s"
  "queue_inv n (s\<lparr>pauseReason := x\<rparr>) = queue_inv n s"
  "queue_inv n (s\<lparr>loopTimer := y\<rparr>) = queue_inv n s"
  "queue_inv n (s\<lparr>armedTimers := ats\<rparr>) = queue_inv n s"
  "queue_inv n (s\<lparr>startedAt := t\<rparr>) = queue_inv n s"
  "queue_inv n (s\<lparr>completedAt := t\<rparr>) = queue_inv n s"
  "queue_inv n (s\<lparr>config := c\<rparr>) = queue_inv n s"
  "queue_inv n (s\<lparr>qdisk := d\<rparr>) = queue_inv n s"
  "queue_inv n (s\<lparr>dispatchChecks := l\<rparr>) = queue_inv n s"
  "queue_inv n (s\<lparr>completionChecks := l\<rparr>) = queue_inv n s"
  "queue_inv n (s\<lparr>recoveryScanUnavailableReason := x\<rparr>) = queue_inv n s"
  "queue_inv n (s\<lparr>recoveryScan := b\<rparr>) = queue_inv n s"
  "queue_inv n (s\<lparr>recoveryResult := rr\<rparr>) = queue_inv n s"
  "queue_inv n (s\<lparr>start_calls := sc\<rparr>) = queue_inv n s"
  "queue_inv n (s\<lparr>pollTimers := pt\<rparr>) = queue_inv n s"
  "queue_inv n (s\<lparr>emitted := em\<rparr>) = queue_inv n s"
  "queue_inv n (s\<lparr>next_timer := k\<rparr>) = queue_inv n s"
  by (rule queue_inv_cong; simp)+

lemma queue_inv_push [simp]:
  "queue_inv n (push_frame fr s) \<longleftrightarrow>
     queue_inv n s \<and> (\<forall>r \<in> set (dispatch_refs fr). r < next_ref s)"
  by (auto simp: queue_inv_def struct_inv_def lane_refs_def push_frame_def)

lemma queue_inv_take_frame: "queue_inv n s \<Longrightarrow> queue_inv n (take_frame k s)"
  by (auto simp: queue_inv_def struct_inv_def lane_refs_def take_frame_def
      dest: in_set_takeD in_set_dropD)

lemma queue_inv_item_ref: "queue_inv n s \<Longrightarrow> r \<in> set (item_refs s) \<Longrightarrow> r < next_ref s"
  by (auto simp: queue_inv_def struct_inv_def item_refs_def js_map_values_def)

lemma queue_inv_dispatch_ref:
  "queue_inv n s \<Longrightarrow> f \<in> set (frames s) \<Longrightarrow> r \<in> set (dispatch_refs f) \<Longrightarrow> r < next_ref s"
  by (auto simp: queue_inv_def struct_inv_def)

lemma queue_inv_primitives [simp]:
  "queue_inv n (emitQueueEvent st i p s) = queue_inv n s"
  "queue_inv n (persist ev s) = queue_inv n s"
  "queue_inv n (clear_poll_timer i s) = queue_inv n s"
  "queue_inv n (ensurePollTimer i s) = queue_inv n s"
  "queue_inv n (arm_loop_timer w s) = queue_inv n s"
  "queue_inv n (clear_loop_timer s) = queue_inv n s"
  "queue_inv n (ensureRecoveryScan s) = queue_inv n s"
  "queue_inv n (finish_completion_check i s) = queue_inv n s"
  "queue_inv n (finish_dispatch r s) = queue_inv n s"
  "queue_inv n (finish_recovery res s) = queue_inv n s"
  by (simp_all add: emitQueueEvent_def persist_def clear_poll_timer_def
      ensurePollTimer_def arm_loop_timer_def clear_loop_timer_def ensureRecoveryScan_def
      finish_completion_check_def finish_dispatch_def finish_recovery_def
      split: option.split)

lemma lane_refs_upd:
  "lane_refs (upd_item r f s) =
     (if lane_status (qi_status (f (heap s r))) then insert r (lane_refs s) else lane_refs s - {r})"
  by (auto simp: lane_refs_def)

lemma struct_inv_upd:
  assumes "struct_inv s" and "qi_taskId (f (heap s r)) = qi_taskId (heap s r)"
    and "lane_status (qi_status (f (heap s r))) \<Longrightarrow> r < next_ref s"
  shows "struct_inv (upd_item r f s)"
  using assms by (auto simp: struct_inv_def upd_item_def)

text \<open>An update that keeps the task id and whether the item holds a lane.\<close>

lemma queue_inv_upd_same [inv_rules]:
  assumes "queue_inv n s" and "qi_taskId (f (heap s r)) = qi_taskId (heap s r)"
    and "lane_status (qi_status (f (heap s r))) = lane_status (qi_status (heap s r))"
  shows "queue_inv n (upd_item r f s)"
proof -
  have lr: "lane_refs (upd_item r f s) = lane_refs s"
    using assms(3) by (auto simp: lane_refs_upd lane_refs_def)
  have "\<not> next_ref s \<le> r" if "lane_status (qi_status (f (heap s r)))"
    using that assms(1,3) by (auto simp: queue_inv_def struct_inv_def)
  then have "struct_inv (upd_item r f s)"
    using assms(1,2) by (intro struct_inv_upd) (auto simp: queue_inv_def)
  with assms(1) lr show ?thesis by (simp add: queue_inv_def)
qed

text \<open>An item that gives up its lane, and one that takes one.\<close>

lemma queue_inv_lane_off:
  assumes "queue_inv (Suc n) s" and "qi_taskId (f (heap s r)) = qi_taskId (heap s r)"
    and "lane_status (qi_status (heap s r))" and "\<not> lane_status (qi_status (f (heap s r)))"
  shows "queue_inv n (upd_item r f s)"
proof -
  have r: "r \<in> lane_refs s" using assms(3) by (simp add: lane_refs_def)
  have "lane_refs (upd_item r f s) = lane_refs s - {r}" using assms(4) by (simp add: lane_refs_upd)
  moreover have "struct_inv (upd_item r f s)"
    using assms by (intro struct_inv_upd) (auto simp: queue_inv_def)
  moreover have "card (lane_refs s) = Suc (lanes_in_use (qguard s) + n)" "finite (lane_refs s)"
    "struct_inv s"
    using assms(1) by (simp_all add: queue_inv_def)
  ultimately show ?thesis using r by (simp add: queue_inv_def card_Diff_singleton)
qed

lemma queue_inv_lane_on:
  assumes "queue_inv n s" and "qi_taskId (f (heap s r)) = qi_taskId (heap s r)"
    and "\<not> lane_status (qi_status (heap s r))" and "lane_status (qi_status (f (heap s r)))"
    and "r < next_ref s"
  shows "queue_inv (Suc n) (upd_item r f s)"
proof -
  have r: "r \<notin> lane_refs s" using assms(3) by (simp add: lane_refs_def)
  have "lane_refs (upd_item r f s) = insert r (lane_refs s)" using assms(4) by (simp add: lane_refs_upd)
  moreover have "struct_inv (upd_item r f s)"
    using assms by (intro struct_inv_upd) (auto simp: queue_inv_def)
  ultimately show ?thesis using assms(1) r by (simp add: queue_inv_def)
qed

lemma queue_inv_guard_complete:
  assumes "queue_inv 0 s" and "lane_status (qi_status (heap s r))"
  shows "queue_inv (Suc 0) (guard_complete c s)"
proof -
  have "r \<in> lane_refs s" using assms(2) by (simp add: lane_refs_def)
  moreover have "finite (lane_refs s)" using assms(1) by (simp add: queue_inv_def)
  ultimately have "0 < card (lane_refs s)" by (auto simp: card_gt_0_iff)
  with assms(1) show ?thesis
    by (auto simp: queue_inv_def struct_inv_def lane_refs_def guard_complete_def)
qed

lemma queue_inv_guard_start: "queue_inv (Suc n) s \<Longrightarrow> queue_inv n (guard_start now s)"
  by (simp add: queue_inv_def struct_inv_def lane_refs_def guard_start_def)

lemma queue_inv_options [simp]:
  "queue_inv n (s\<lparr>qguard := updateOptions opts (qguard s)\<rparr>) = queue_inv n s"
  by (rule queue_inv_cong) simp_all

section \<open>Operations\<close>

lemma queue_inv_schedule [simp]:
  "queue_inv n (scheduleNextAfterReadiness e s) = queue_inv n s"
  "queue_inv n (scheduleNext e s) = queue_inv n s"
  by (simp_all add: scheduleNextAfterReadiness_def scheduleNext_def)

lemma heap_schedule [simp]:
  "heap (scheduleNextAfterReadiness e s) = heap s"
  "heap (scheduleNext e s) = heap s"
  by (simp_all add: scheduleNextAfterReadiness_def scheduleNext_def)

lemma queue_inv_lifecycle [simp]:
  "queue_inv n (checkDrained e s) = queue_inv n s"
  "queue_inv n (pause e reason s) = queue_inv n s"
  "queue_inv n (stop e s) = queue_inv n s"
  by (simp_all add: checkDrained_def pause_def stop_def Let_def)

lemma queue_inv_start [simp]:
  "queue_inv n (start_body e s) = queue_inv n s"
  "queue_inv n (start e s) = queue_inv n s"
  "queue_inv n (resume_body e s) = queue_inv n s"
  "queue_inv n (resume e s) = queue_inv n s"
  by (simp_all add: start_body_def start_def resume_body_def resume_def Let_def)

lemma heap_pause [simp]: "heap (pause e reason s) = heap s"
  by (simp add: pause_def Let_def)

lemma queue_inv_quarantine [inv_rules]:
  "queue_inv n s \<Longrightarrow> queue_inv n (setDuplicateQuarantine r checks s)"
  "queue_inv n s \<Longrightarrow> queue_inv n (clearDuplicateQuarantine r s)"
  "queue_inv n s \<Longrightarrow> queue_inv n (set_blockedBy b r s)"
  "queue_inv n s \<Longrightarrow> queue_inv n (enrichment_over r s)"
  "queue_inv n s \<Longrightarrow> queue_inv n (beginEnrichment e r kind s)"
  by (simp_all add: setDuplicateQuarantine_def clearDuplicateQuarantine_def set_blockedBy_def
      enrichment_over_def beginEnrichment_def Let_def queue_inv_upd_same)

lemma status_quarantine [simp]:
  "qi_status (heap (setDuplicateQuarantine r checks s) x) = qi_status (heap s x)"
  "qi_status (heap (clearDuplicateQuarantine r s) x) = qi_status (heap s x)"
  "qi_status (heap (set_blockedBy b r s) x) = qi_status (heap s x)"
  "qi_status (heap (enrichment_over r s) x) = qi_status (heap s x)"
  "qi_status (heap (beginEnrichment e r kind s) x) = qi_status (heap s x)"
  by (simp_all add: setDuplicateQuarantine_def clearDuplicateQuarantine_def set_blockedBy_def
      enrichment_over_def beginEnrichment_def Let_def)

lemma queue_inv_set_status [inv_rules]:
  "queue_inv n s \<Longrightarrow> \<not> lane_status (qi_status (heap s r)) \<Longrightarrow> \<not> lane_status st \<Longrightarrow>
     queue_inv n (set_status st r s)"
  by (simp add: set_status_def queue_inv_upd_same)

lemma status_set_status [simp]:
  "qi_status (heap (set_status st r s) x) = (if x = r then st else qi_status (heap s x))"
  by (simp add: set_status_def)

lemma queue_inv_mark_ready [inv_rules]:
  "queue_inv n s \<Longrightarrow> \<not> lane_status (qi_status (heap s r)) \<Longrightarrow> queue_inv n (mark_ready e why r s)"
  by (simp add: mark_ready_def Let_def queue_inv_set_status)

lemma queue_inv_mark_stopped:
  "queue_inv n s \<Longrightarrow> \<not> lane_status (qi_status (heap s r)) \<Longrightarrow> queue_inv n (mark_stopped e i r s)"
  "queue_inv (Suc n) s \<Longrightarrow> lane_status (qi_status (heap s r)) \<Longrightarrow> queue_inv n (mark_stopped e i r s)"
  by (simp_all add: mark_stopped_def queue_inv_upd_same queue_inv_lane_off)

lemma queue_inv_release:
  "queue_inv 0 s \<Longrightarrow> lane_status (qi_status (heap s r)) \<Longrightarrow> queue_inv (Suc 0) (release_lane i r s)"
  by (simp add: release_lane_def queue_inv_guard_complete [where r = r])

lemma heap_release [simp]: "heap (release_lane i r s) = heap s"
  by (simp add: release_lane_def)

lemma queue_inv_release_stop:
  "queue_inv 0 s \<Longrightarrow> lane_status (qi_status (heap s r)) \<Longrightarrow>
     queue_inv 0 (mark_stopped e i r (release_lane i r s))"
  using queue_inv_release [of s r i] by (intro queue_inv_mark_stopped(2)) simp_all

lemma queue_inv_abort_one: "queue_inv 0 (snd acc) \<Longrightarrow> queue_inv 0 (snd (abort_one e p acc))"
  by (cases p; cases acc) (auto simp: abort_one_def queue_inv_release_stop)

lemma queue_inv_abort_fold:
  "queue_inv 0 (snd acc) \<Longrightarrow> queue_inv 0 (snd (fold (abort_one e) ps acc))"
  by (induction ps arbitrary: acc) (simp_all add: queue_inv_abort_one)

lemma queue_inv_abort: "queue_inv 0 s \<Longrightarrow> queue_inv 0 (snd (abort e s))"
proof -
  assume inv: "queue_inv 0 s"
  let ?s1 = "clear_loop_timer (s\<lparr>running := False, paused := False\<rparr>)"
  have "queue_inv 0 (snd (fold (abort_one e) (items ?s1) (True, ?s1)))"
    using inv by (intro queue_inv_abort_fold) simp
  then show ?thesis by (simp add: abort_def Let_def case_prod_beta)
qed

lemma queue_inv_cancel: "queue_inv 0 s \<Longrightarrow> queue_inv 0 (snd (cancel e i s))"
  by (auto simp: cancel_def queue_inv_release_stop queue_inv_mark_stopped split: option.split)

lemma queue_inv_alloc:
  assumes "queue_inv n s" and "item_ref s (qi_taskId it) = None" and "\<not> lane_status (qi_status it)"
  shows "queue_inv n (alloc_item (qi_taskId it) it s)"
proof -
  have free: "\<not> lane_status (qi_status (heap s (next_ref s)))"
    using assms(1) by (simp add: queue_inv_def struct_inv_def)
  have lr: "lane_refs (alloc_item (qi_taskId it) it s) = lane_refs s"
    using free assms(3) by (auto simp: lane_refs_def alloc_item_def)
  have fresh: "snd p < next_ref s" if "p \<in> set (items s)" for p
    using assms(1) that by (simp add: queue_inv_def struct_inv_def)
  have "struct_inv (alloc_item (qi_taskId it) it s)"
    using assms(1) fresh set_js_map_set [of "qi_taskId it" "next_ref s" "items s"]
    by (fastforce simp: queue_inv_def struct_inv_def alloc_item_def js_map.distinct_put)
  with assms(1) lr show ?thesis by (simp add: queue_inv_def) (simp add: alloc_item_def)
qed

lemma queue_inv_enqueue: "queue_inv n s \<Longrightarrow> queue_inv n (snd (enqueue e tid opts check s))"
  using queue_inv_alloc [of n s "new_item e tid opts"]
  by (auto simp: enqueue_def new_item_def Let_def queue_inv_quarantine split: sum.split)

text \<open>A batch keeps whatever every single enqueue keeps.\<close>

lemma enqueue_each_keeps:
  assumes "\<And>tid c s. tid \<in> set tids \<Longrightarrow> P s \<Longrightarrow> P (snd (enqueue e tid opts c s))" and "P s"
  shows "P (snd (enqueue_each e tids opts checks b s))"
  using assms
proof (induction tids arbitrary: b s)
  case Nil
  then show ?case by simp
next
  case (Cons tid tids)
  have IH: "P s' \<Longrightarrow> P (snd (enqueue_each e tids opts checks b s'))" for b s'
    using Cons.IH Cons.prems(1) by simp
  have enq: "P s'" if "enqueue e tid opts c s = (x, s')" for c x s'
    using Cons.prems(1) [of tid s c] Cons.prems(2) that by simp
  have one: "P (snd (case enqueue e tid opts c s of
                (Inr r, s') \<Rightarrow> enqueue_each e tids opts checks (add_batch_item r b) s'
              | (Inl (Contested (DuplicateClaimantAdmissionError d)), s') \<Rightarrow>
                  enqueue_each e tids opts checks (add_batch_refusal d b) s'
              | (Inl err, s') \<Rightarrow>
                  (case item_ref s' tid of
                     Some r \<Rightarrow> enqueue_each e tids opts checks (add_batch_item r b) s'
                   | None \<Rightarrow> (Inl err, s'))))" for c
  proof -
    obtain x s' where x: "enqueue e tid opts c s = (x, s')" by (cases "enqueue e tid opts c s")
    note s' = enq [OF x]
    show ?thesis
      unfolding x using IH [OF s'] s'
      by (cases x) (simp_all split: enqueue_error.split claimant_admission_error.split option.split)
  qed
  show ?case
    using one IH [OF Cons.prems(2)] by (simp split: option.split)
qed

lemma enqueue_subtasks_each_keeps:
  assumes "\<And>tid so c s. tid \<in> set tids \<Longrightarrow> P s \<Longrightarrow> P (snd (enqueue e tid so c s))" and "P s"
  shows "P (snd (enqueue_subtasks_each e parent tids opts checks b s))"
  using assms
proof (induction tids arbitrary: b s)
  case Nil
  then show ?case by simp
next
  case (Cons tid tids)
  have IH: "P s' \<Longrightarrow> P (snd (enqueue_subtasks_each e parent tids opts checks b s'))" for b s'
    using Cons.IH Cons.prems(1) by simp
  have one: "P (snd (case enqueue e tid so c s of
                     (Inr r, s') \<Rightarrow>
                       enqueue_subtasks_each e parent tids opts checks (add_batch_item r b) s'
                   | (Inl err, s') \<Rightarrow> (Inl err, s')))" for so c
  proof -
    obtain x s' where x: "enqueue e tid so c s = (x, s')" by (cases "enqueue e tid so c s")
    then have "P s'" using Cons.prems(1) [of tid s so c] Cons.prems(2) by simp
    then show ?thesis unfolding x using IH by (cases x) simp_all
  qed
  show ?case using one IH [OF Cons.prems(2)] by (simp add: Let_def split: option.split)
qed

lemma queue_inv_enqueueMultiple: "queue_inv n s \<Longrightarrow> queue_inv n (snd (enqueueMultiple e tids opts checks s))"
  unfolding enqueueMultiple_def by (rule enqueue_each_keeps) (simp_all add: queue_inv_enqueue)

lemma queue_inv_enqueueSubtasks:
  "queue_inv n s \<Longrightarrow> queue_inv n (snd (enqueueSubtasks e parent tids opts checks s))"
  unfolding enqueueSubtasks_def by (rule enqueue_subtasks_each_keeps) (simp_all add: queue_inv_enqueue)

lemma queue_inv_retry: "queue_inv n s \<Longrightarrow> queue_inv n (snd (retry e i check s))"
  by (auto simp: retry_def Let_def queue_inv_upd_same split: option.split sum.split)

lemma queue_inv_remove: "queue_inv n s \<Longrightarrow> queue_inv n (snd (remove i s))"
proof -
  have "set (js_map_delete i m) \<subseteq> set m" for m :: "(task_id \<times> ref) list"
    by (auto simp: js_map_delete_def AList.delete_eq)
  then show "queue_inv n s \<Longrightarrow> ?thesis"
    by (auto simp: remove_def queue_inv_def struct_inv_def lane_refs_def js_map.distinct_del
        split: option.split)
qed

lemma queue_inv_awaiting:
  "queue_inv n s \<Longrightarrow> lane_status (qi_status (heap s r)) \<Longrightarrow>
     queue_inv n (handleTaskAwaitingApproval e r s)"
  by (simp add: handleTaskAwaitingApproval_def Let_def queue_inv_upd_same)

lemma queue_inv_resumed: "queue_inv n s \<Longrightarrow> queue_inv n (handleTaskResumed e r allow s)"
  by (auto simp: handleTaskResumed_def Let_def intro!: queue_inv_upd_same)

lemma queue_inv_success:
  "queue_inv (Suc 0) s \<Longrightarrow> lane_status (qi_status (heap s r)) \<Longrightarrow>
     queue_inv 0 (handleTaskSuccess e r outcome c d s)"
  by (simp add: handleTaskSuccess_def Let_def queue_inv_lane_off)

lemma queue_inv_blocked:
  "queue_inv (Suc 0) s \<Longrightarrow> lane_status (qi_status (heap s r)) \<Longrightarrow>
     queue_inv 0 (handleTaskBlocked e r reason outcome c d s)"
  by (simp add: handleTaskBlocked_def Let_def queue_inv_lane_off)

text \<open>Propagation blocks and skips items that have not started.\<close>

lemma get_deref_items: "js_map_get (deref_items s) i = map_option (heap s) (item_ref s i)"
proof -
  have "map_of (map (\<lambda>(i, r). (i, heap s r)) m) i = map_option (heap s) (map_of m i)" for m
    by (induction m) auto
  then show ?thesis by (simp add: deref_items_def item_ref_def js_map_get_def)
qed

lemma keys_deref_items: "js_map_keys (deref_items s) = js_map_keys (items s)"
  by (simp add: deref_items_def js_map_keys_def case_prod_beta)

definition idle_ids :: "task_id list \<Rightarrow> dq \<Rightarrow> bool" where
  "idle_ids is s \<longleftrightarrow>
     (\<forall>i \<in> set is. \<forall>d. item_ref s i = Some d \<longrightarrow> \<not> lane_status (qi_status (heap s d)))"

lemma queue_inv_block_dependent:
  "queue_inv n s \<Longrightarrow> idle_ids (i # is) s \<Longrightarrow>
     queue_inv n (block_dependent e r i s) \<and> idle_ids is (block_dependent e r i s)"
  by (auto simp: block_dependent_def idle_ids_def Let_def queue_inv_upd_same split: option.split)

lemma queue_inv_skip_dependent:
  "queue_inv n s \<Longrightarrow> idle_ids (i # is) s \<Longrightarrow>
     queue_inv n (skip_dependent e reason i s) \<and> idle_ids is (skip_dependent e reason i s)"
  by (auto simp: skip_dependent_def idle_ids_def Let_def queue_inv_upd_same split: option.split)

lemma idle_ids_block: "idle_ids js s \<Longrightarrow> idle_ids js (block_dependent e r i s)"
  by (auto simp: block_dependent_def idle_ids_def Let_def split: option.split)

lemma queue_inv_block_fold:
  "queue_inv n s \<Longrightarrow> idle_ids is s \<Longrightarrow> idle_ids js s \<Longrightarrow>
     queue_inv n (fold (block_dependent e r) is s) \<and> idle_ids js (fold (block_dependent e r) is s)"
  by (induction "is" arbitrary: s) (simp_all add: queue_inv_block_dependent idle_ids_block)

lemma queue_inv_skip_fold:
  "queue_inv n s \<Longrightarrow> idle_ids is s \<Longrightarrow> queue_inv n (fold (skip_dependent e reason) is s)"
  by (induction "is" arbitrary: s) (simp_all add: queue_inv_skip_dependent)

lemma propagation_idle:
  assumes "queue_inv n s"
  shows "idle_ids (fpr_blocked (propagateFailure f (deref_items s) strategy)) s"
    and "idle_ids (fpr_skipped (propagateFailure f (deref_items s) strategy)) s"
proof -
  have dist: "distinct (js_map_keys (deref_items s))"
    using assms by (simp add: keys_deref_items queue_inv_def struct_inv_def)
  have idle: "\<not> lane_status st" if "waiting_status st" for st
    using that by (auto simp: waiting_status_def)
  show "idle_ids (fpr_blocked (propagateFailure f (deref_items s) strategy)) s"
    "idle_ids (fpr_skipped (propagateFailure f (deref_items s) strategy)) s"
    unfolding idle_ids_def
    using propagateFailure_waiting [OF dist, of _ f strategy] idle
    by (fastforce simp: get_deref_items)+
qed

lemma queue_inv_failure_tail:
  assumes "queue_inv n s"
  shows "queue_inv n (fold (skip_dependent e reason) (fpr_skipped (propagateFailure f (deref_items s) strategy))
           (fold (block_dependent e r) (fpr_blocked (propagateFailure f (deref_items s) strategy)) s))"
  using queue_inv_block_fold [OF assms propagation_idle(1,2) [OF assms]] queue_inv_skip_fold by blast

lemma queue_inv_failure:
  "queue_inv 0 s \<Longrightarrow> \<not> lane_status (qi_status (heap s r)) \<Longrightarrow>
     queue_inv 0 (handleTaskFailure e r err outcome c d s)"
  "queue_inv (Suc 0) s \<Longrightarrow> lane_status (qi_status (heap s r)) \<Longrightarrow>
     queue_inv 0 (handleTaskFailure e r err outcome c d s)"
  by (simp_all add: handleTaskFailure_def Let_def queue_inv_failure_tail queue_inv_upd_same
      queue_inv_lane_off)

lemma queue_inv_settle:
  "queue_inv 0 s \<Longrightarrow> lane_status (qi_status (heap s r)) \<Longrightarrow> queue_inv 0 (settle_finished_job e i r job s)"
  using queue_inv_guard_complete [of "clear_poll_timer i s" r]
  by (simp add: settle_finished_job_def Let_def queue_inv_success queue_inv_blocked queue_inv_failure)

lemma queue_inv_check_completion: "queue_inv 0 s \<Longrightarrow> queue_inv 0 (checkTaskCompletion e i s)"
  by (auto simp: checkTaskCompletion_def Let_def queue_inv_awaiting queue_inv_resumed queue_inv_settle
      split: option.split)

lemma queue_inv_gates:
  "queue_inv 0 s \<Longrightarrow> queue_inv 0 (snd (recordApprovalResume e i released s))"
  "queue_inv 0 s \<Longrightarrow> queue_inv 0 (snd (settleApprovalRejection e i reason outcome released s))"
  "queue_inv 0 s \<Longrightarrow> queue_inv 0 (snd (requeueApprovalResume e i reason s))"
proof -
  assume inv: "queue_inv 0 s"
  then show "queue_inv 0 (snd (recordApprovalResume e i released s))"
    by (simp add: recordApprovalResume_def Let_def queue_inv_resumed split: option.split)
  show "queue_inv 0 (snd (settleApprovalRejection e i reason outcome released s))"
    using inv by (auto simp: settleApprovalRejection_def queue_inv_failure(2) queue_inv_release
        split: option.split)
  have "queue_inv 0 (set_status Ready r (guard_complete 0 (clear_poll_timer i s)))"
    if "qi_status (heap s r) = Running" for r
    using inv that queue_inv_guard_complete [of "clear_poll_timer i s" r 0]
    by (simp add: set_status_def queue_inv_lane_off)
  then show "queue_inv 0 (snd (requeueApprovalResume e i reason s))"
    using inv by (simp add: requeueApprovalResume_def Let_def split: option.split)
qed

lemma queue_inv_updateConfig: "queue_inv n (updateConfig e p s) = queue_inv n s"
  by (simp add: updateConfig_def Let_def queue_inv_def struct_inv_def lane_refs_def persist_def)

end
