(* ===== verification/Queue_Accounting.thy ===== *)
theory Queue_Accounting
  imports Queue_Invariants
begin

text \<open>
  Lane accounting of the whole machine: the guard's counter is the number of objects that hold a
  lane after every step that does not resume a method whose item took a lane while the method
  was suspended. Those are the continuations that write an item's status without looking at it
  again (\<open>stale_refs\<close>).
\<close>

text \<open>The items whose status a resumed method overwrites unconditionally.\<close>

fun stale_refs :: "frame \<Rightarrow> ref list" where
  "stale_refs (FReadyScan tasks completed sessions visited r deps ids quarantined) = [r]"
| "stale_refs (FUnblockItem completed visited r ids kind) = [r]"
| "stale_refs (FEnrichTasks r sessions kind) = (case kind of EnrichBegin \<Rightarrow> [r] | EnrichRecovery rest _ \<Rightarrow> rest)"
| "stale_refs (FEnrichGetTask r sessions kind) = (case kind of EnrichBegin \<Rightarrow> [r] | EnrichRecovery rest _ \<Rightarrow> rest)"
| "stale_refs (FEnrichScan r deps kind) = (case kind of EnrichBegin \<Rightarrow> [r] | EnrichRecovery rest _ \<Rightarrow> rest)"
| "stale_refs (FRecoveryClaimants pending) = pending"
| "stale_refs f = []"

definition fresh_frame :: "dq \<Rightarrow> frame \<Rightarrow> bool" where
  "fresh_frame s f \<longleftrightarrow> list_all (\<lambda>r. \<not> lane_status (qi_status (heap s r))) (stale_refs f)"

definition fresh_step :: "label \<Rightarrow> dq \<Rightarrow> bool" where
  "fresh_step l s \<longleftrightarrow>
     (case snd l of
        AContinue k \<Rightarrow> k < length (frames s) \<longrightarrow> fresh_frame s (frames s ! k)
      | _ \<Rightarrow> True)"

section \<open>Readiness and dispatch\<close>

lemma queue_inv_continueReadiness [simp]:
  "queue_inv n (continueReadiness tasks completed sessions visited s) = queue_inv n s"
  by (simp add: continueReadiness_def Let_def split: option.split)

lemma queue_inv_beginReadiness [simp]:
  "queue_inv n (beginReadinessLoop tasks sessions s) = queue_inv n s"
  by (simp add: beginReadinessLoop_def)

lemma queue_inv_finishReadinessItem:
  "queue_inv n s \<Longrightarrow> \<not> lane_status (qi_status (heap s r)) \<Longrightarrow>
     queue_inv n (finishReadinessItem e r deps ids q s)"
  by (simp add: finishReadinessItem_def Let_def inv_rules)

lemma selectNextTask_in: "selectNextTask s = Some r \<Longrightarrow> r \<in> set (ready_refs s)"
  by (auto simp: selectNextTask_def split: if_splits)
     (metis hd_in_set js_sort_eq_Nil set_js_sort)

lemma ready_refs_in: "r \<in> set (ready_refs s) \<Longrightarrow> r \<in> set (item_refs s) \<and> qi_status (heap s r) = Ready"
  by (simp add: ready_refs_def)

lemma next_ref_fields [simp]: "next_ref (s\<lparr>dispatchChecks := l\<rparr>) = next_ref s"
  by simp

lemma queue_inv_afterReadiness: "queue_inv n s \<Longrightarrow> queue_inv n (afterReadiness e s)"
  by (auto simp: afterReadiness_def split: can_start_result.split option.split
      dest!: selectNextTask_in ready_refs_in intro: queue_inv_item_ref)

lemma not_lane_ready: "may_dispatch s r \<Longrightarrow> \<not> lane_status (qi_status (heap s r))"
  by (simp add: may_dispatch_def)

lemma queue_inv_refuse:
  "queue_inv n s \<Longrightarrow> \<not> lane_status (qi_status (heap s r)) \<Longrightarrow> queue_inv n (refuse_contested r cs s)"
  by (simp add: refuse_contested_def Let_def inv_rules)

lemma queue_inv_defer:
  "queue_inv n s \<Longrightarrow> \<not> lane_status (qi_status (heap s r)) \<Longrightarrow>
     queue_inv n (defer_admission e r msg decomposed s)"
  by (simp add: defer_admission_def Let_def queue_inv_upd_same)

lemma queue_inv_catch: "queue_inv 0 s \<Longrightarrow> queue_inv 0 (catchDispatch e r attempted err s)"
  by (auto simp: catchDispatch_def not_lane_ready queue_inv_refuse queue_inv_defer queue_inv_failure(1)
      split: dispatch_error.split)

lemma queue_inv_startDispatch:
  assumes "queue_inv 0 s" and "r < next_ref s"
  shows "queue_inv 0 (snd (startDispatch e r opts s))"
proof (cases "may_dispatch s r")
  case True
  let ?s1 = "s\<lparr>start_calls := start_calls s @ [(tid_of s r, opts)]\<rparr>"
  let ?s2 = "upd_item r (\<lambda>it. it\<lparr>qi_status := Running, qi_startedAt := Some (env_now e)\<rparr>) ?s1"
  have "queue_inv (Suc 0) ?s2"
    using assms True by (intro queue_inv_lane_on) (simp_all add: not_lane_ready)
  then have "queue_inv 0 (guard_start (env_now e) ?s2)" by (rule queue_inv_guard_start)
  then show ?thesis using assms True by (simp add: startDispatch_def Let_def split: sum.split)
next
  case False
  then show ?thesis using assms by (simp add: startDispatch_def)
qed

lemma queue_inv_dispatchStarted: "queue_inv 0 s \<Longrightarrow> queue_inv 0 (dispatchStarted e r outcome s)"
  by (auto simp: dispatchStarted_def Let_def queue_inv_catch split: sum.split option.split)

lemma queue_inv_dispatchScanned:
  assumes "queue_inv 0 s" and "r < next_ref s"
  shows "queue_inv 0 (dispatchScanned e r deps ids s)"
proof -
  let ?s1 = "set_blockedBy [] r (clearDuplicateQuarantine r s)"
  have s1: "queue_inv 0 ?s1" using assms(1) by (simp add: inv_rules)
  have nr: "next_ref ?s1 = next_ref s" by (simp add: set_blockedBy_def clearDuplicateQuarantine_def)
  have start: "startDispatch e r opts ?s1 = (outcome, s2) \<Longrightarrow> queue_inv 0 s2" for opts outcome s2
    using queue_inv_startDispatch [OF s1, of r e opts] assms(2) nr by simp
  have refuse: "queue_inv 0 (refuse_contested r cs (set_blockedBy b r s))"
    if "may_dispatch s r" for cs b
    using assms(1) that by (simp add: queue_inv_refuse inv_rules not_lane_ready)
  show ?thesis
    using assms s1 nr refuse start
    by (auto simp: dispatchScanned_def Let_def queue_inv_catch queue_inv_dispatchStarted
        split: sum.split claimant_admission_error.split prod.split)
qed

lemma queue_inv_dispatchDeps: "queue_inv n s \<Longrightarrow> r < next_ref s \<Longrightarrow> queue_inv n (dispatchDeps r deps s)"
  by (simp add: dispatchDeps_def inv_rules not_lane_ready)

lemma queue_inv_dispatchTasksListed:
  "queue_inv 0 s \<Longrightarrow> r < next_ref s \<Longrightarrow> queue_inv 0 (dispatchTasksListed e r sessions s)"
  by (simp add: dispatchTasksListed_def queue_inv_catch split: sum.split option.split)

lemma queue_inv_dispatchTaskRead:
  "queue_inv 0 s \<Longrightarrow> r < next_ref s \<Longrightarrow> queue_inv 0 (dispatchTaskRead e r sessions s)"
  by (simp add: dispatchTaskRead_def queue_inv_catch split: sum.split option.split)

lemma queue_inv_dispatchFence:
  assumes "queue_inv 0 s" and "r < next_ref s"
  shows "queue_inv 0 (dispatchFence e r opts s)"
proof -
  have "startDispatch e r o' s = (outcome, s2) \<Longrightarrow> queue_inv 0 s2" for o' outcome s2
    using queue_inv_startDispatch [OF assms, of e o'] by simp
  then show ?thesis using assms
    by (auto simp: dispatchFence_def queue_inv_catch split: sum.split prod.split)
qed

lemma queue_inv_dispatchReleased:
  "queue_inv 0 s \<Longrightarrow> queue_inv 0 (dispatchReleased e r attempted outcome s)"
  by (simp add: dispatchReleased_def queue_inv_catch queue_inv_dispatchStarted split: option.split)

section \<open>Unblocking, enrichment and recovery\<close>

lemma queue_inv_finish_unblock [simp]: "queue_inv n (finish_unblock e kind s) = queue_inv n s"
  by (simp add: finish_unblock_def split: unblock_kind.split)

lemma queue_inv_refresh: "queue_inv n s \<Longrightarrow> queue_inv n (snd (refreshDuplicateQuarantine e r ids s))"
  by (simp add: refreshDuplicateQuarantine_def Let_def inv_rules)

lemma status_refresh [simp]:
  "qi_status (heap (snd (refreshDuplicateQuarantine e r ids s)) x) = qi_status (heap s x)"
  by (simp add: refreshDuplicateQuarantine_def Let_def)

lemma queue_inv_continueContested [simp]:
  "queue_inv n (continueContested e completed visited kind s) = queue_inv n s"
  by (simp add: continueContested_def split: option.split)

lemma queue_inv_continueUnblock:
  "queue_inv n s \<Longrightarrow> queue_inv n (continueUnblock e completed visited kind s)"
  by (simp add: continueUnblock_def Let_def inv_rules split: option.split)

lemma queue_inv_finishUnblockItem:
  "queue_inv n s \<Longrightarrow> \<not> lane_status (qi_status (heap s r)) \<Longrightarrow>
     queue_inv n (finishUnblockItem e completed r ids s)"
  by (simp add: finishUnblockItem_def Let_def case_prod_beta inv_rules queue_inv_refresh)

lemma queue_inv_unblockScanned:
  "queue_inv n s \<Longrightarrow> queue_inv n (unblockScanned e completed kind s)"
  by (simp add: unblockScanned_def queue_inv_continueUnblock)

lemma queue_inv_continueRecovery:
  "queue_inv n s \<Longrightarrow> \<forall>r \<in> set rs. \<not> lane_status (qi_status (heap s r)) \<Longrightarrow>
     queue_inv n (continueRecovery e rs checks s)"
proof (induction e rs checks s rule: continueRecovery.induct)
  case (1 e checks s)
  then show ?case by simp
next
  case (2 e r rest checks s)
  let ?check = "js_map_get checks (tid_of s r)"
  let ?s1 = "setDuplicateQuarantine r [the ?check] (set_status Blocked r s)"
  let ?s2 = "emitQueueEvent ''dispatch_queue_task_refused'' (tid_of ?s1 r)
               (refused_payload [the ?check] (heap ?s1 r)) ?s1"
  have s2: "queue_inv n ?s2" using "2.prems" by (simp add: inv_rules)
  have idle: "\<forall>x \<in> set rest. \<not> lane_status (qi_status (heap ?s2 x))" using "2.prems" by simp
  show ?case
  proof (cases "case ?check of None \<Rightarrow> False | Some c \<Rightarrow> 1 < length (chk_claimants c)")
    case True
    then have "continueRecovery e (r # rest) checks s = continueRecovery e rest checks ?s2"
      by (simp add: Let_def)
    then show ?thesis using "2.IH" [OF refl True refl refl refl s2 idle] by simp
  next
    case False
    then have "continueRecovery e (r # rest) checks s =
        beginEnrichment e r (EnrichRecovery rest checks)
          (clearDuplicateQuarantine r (set_status Queued r s))"
      by (simp add: Let_def)
    then show ?thesis using "2.prems" by (simp add: inv_rules)
  qed
qed

lemma queue_inv_recovery:
  "queue_inv n s \<Longrightarrow> queue_inv n (recoveryDirChecked e s)"
  "queue_inv n s \<Longrightarrow> \<forall>r \<in> set rs. \<not> lane_status (qi_status (heap s r)) \<Longrightarrow>
     queue_inv n (recoveryClaimantsScanned e rs s)"
  by (simp_all add: recoveryDirChecked_def recoveryClaimantsScanned_def Let_def
      queue_inv_continueRecovery split: option.split)

text \<open>What a continuation of the enrichment may assume about the items it will write.\<close>

definition enrich_idle :: "ref \<Rightarrow> enrich_kind \<Rightarrow> dq \<Rightarrow> bool" where
  "enrich_idle r kind s \<longleftrightarrow>
     (\<forall>x \<in> set (case kind of EnrichBegin \<Rightarrow> [r] | EnrichRecovery rest _ \<Rightarrow> rest).
        \<not> lane_status (qi_status (heap s x)))"

lemma queue_inv_finishEnrichment:
  "queue_inv n s \<Longrightarrow> enrich_idle r kind s \<Longrightarrow> queue_inv n (finishEnrichment e r kind s)"
  by (auto simp: finishEnrichment_def Let_def enrich_idle_def inv_rules queue_inv_continueRecovery
      split: enrich_kind.splits)

lemma queue_inv_failEnrichment:
  "queue_inv n s \<Longrightarrow> enrich_idle r kind s \<Longrightarrow> queue_inv n (failEnrichment e r kind msg s)"
  by (auto simp: failEnrichment_def Let_def enrich_idle_def inv_rules split: enrich_kind.splits)

lemma queue_inv_enrichUnmet: "queue_inv n s \<Longrightarrow> queue_inv n (enrichUnmet e r unmet s)"
  by (simp add: enrichUnmet_def Let_def inv_rules)

lemma lane_mark_ready [simp]:
  "qi_status (heap (mark_ready e why r s) x) = (if x = r then Ready else qi_status (heap s x))"
  by (simp add: mark_ready_def Let_def)

lemma enrich_idle_steps:
  "enrich_idle r kind s \<Longrightarrow> enrich_idle r kind (enrichUnmet e r unmet s)"
  "enrich_idle r kind s \<Longrightarrow> enrich_idle r kind (setDuplicateQuarantine r cs s)"
  "enrich_idle r kind s \<Longrightarrow> enrich_idle r kind (clearDuplicateQuarantine r s)"
  "enrich_idle r kind s \<Longrightarrow> enrich_idle r kind (upd_item r (\<lambda>it. it\<lparr>qi_priority := p\<rparr>) s)"
  by (auto simp: enrich_idle_def enrichUnmet_def Let_def)

lemma queue_inv_enrich:
  "queue_inv n s \<Longrightarrow> enrich_idle r kind s \<Longrightarrow> queue_inv n (enrichTasksListed e r sessions kind s)"
  "queue_inv n s \<Longrightarrow> enrich_idle r kind s \<Longrightarrow> queue_inv n (enrichTaskRead e r sessions kind s)"
  "queue_inv n s \<Longrightarrow> enrich_idle r kind s \<Longrightarrow> queue_inv n (enrichScanned e r deps kind s)"
  by (auto simp: enrichTasksListed_def enrichTaskRead_def enrichScanned_def Let_def
      queue_inv_failEnrichment queue_inv_finishEnrichment queue_inv_enrichUnmet enrich_idle_steps
      inv_rules split: sum.split option.split)

section \<open>Steps and runs\<close>

lemma queue_inv_resume_frame:
  assumes inv: "queue_inv 0 s" and fresh: "fresh_frame s f"
    and bound: "\<forall>r \<in> set (dispatch_refs f). r < next_ref s"
  shows "queue_inv 0 (resume_frame e f s)"
proof -
  have idle: "\<forall>r \<in> set (stale_refs f). \<not> lane_status (qi_status (heap s r))"
    using fresh by (simp add: fresh_frame_def list_all_iff)
  show ?thesis
    using inv idle bound
    by (cases f)
       (simp_all add: queue_inv_finishReadinessItem queue_inv_afterReadiness
          queue_inv_dispatchTasksListed queue_inv_dispatchTaskRead queue_inv_dispatchDeps
          queue_inv_dispatchScanned queue_inv_dispatchFence queue_inv_dispatchReleased
          queue_inv_unblockScanned queue_inv_refresh queue_inv_continueUnblock
          queue_inv_finishUnblockItem queue_inv_enrich enrich_idle_def queue_inv_recovery
          queue_inv_enqueueMultiple Let_def split: sum.split option.split)
qed

lemma queue_inv_continue:
  assumes inv: "queue_inv 0 s" and k: "k < length (frames s)" and fresh: "fresh_frame s (frames s ! k)"
  shows "queue_inv 0 (resume_frame e (frames s ! k) (take_frame k s))"
proof (rule queue_inv_resume_frame)
  show "queue_inv 0 (take_frame k s)" using inv by (rule queue_inv_take_frame)
  show "fresh_frame (take_frame k s) (frames s ! k)" using fresh by (simp add: fresh_frame_def)
  show "\<forall>r \<in> set (dispatch_refs (frames s ! k)). r < next_ref (take_frame k s)"
    using queue_inv_dispatch_ref [OF inv nth_mem [OF k]] by (simp add: take_frame_def)
qed

lemma queue_inv_step: "queue_inv 0 s \<Longrightarrow> fresh_step l s \<Longrightarrow> queue_inv 0 (qstep l s)"
  by (cases l; cases "snd l")
     (auto simp: qstep_def fresh_step_def queue_inv_enqueue queue_inv_enqueueMultiple
        queue_inv_enqueueSubtasks queue_inv_abort queue_inv_cancel queue_inv_retry queue_inv_remove
        queue_inv_gates queue_inv_updateConfig queue_inv_check_completion queue_inv_continue)

interpretation lane_machine: invariant_machine qstep fresh_step "queue_inv 0"
  by unfold_locales (rule queue_inv_step)

end
