(* ===== verification/Queue_Starts.thy ===== *)
theory Queue_Starts
  imports Queue_Accounting
begin

text \<open>
  When the queue starts a dispatch. \<open>start_calls\<close> records every call of the dispatch manager's
  \<open>start\<close>; only \<open>startDispatch\<close> adds to it. \<open>start_view\<close> collects the parts of the state that
  decide and record starts: every operation that is not part of a dispatch leaves it as it is
  (enqueueing and removing change the item map only), so the invariant \<open>start_inv\<close> has to be
  checked for the dispatch frames alone.
\<close>

definition dispatch_frames :: "dq \<Rightarrow> frame list" where
  "dispatch_frames s = filter (\<lambda>f. dispatch_refs f \<noteq> []) (frames s)"

definition start_view ::
  "dq \<Rightarrow> (task_id \<times> start_options) list \<times> bool \<times> frame list \<times> nat \<times> ref list \<times> (ref \<Rightarrow> task_id)" where
  "start_view s =
     (start_calls s, has_fence s, dispatch_frames s, next_ref s, item_refs s,
      \<lambda>r. qi_taskId (heap s r))"

lemma start_view_cong:
  "start_calls s = start_calls t \<Longrightarrow> has_fence s = has_fence t \<Longrightarrow> frames s = frames t \<Longrightarrow>
   next_ref s = next_ref t \<Longrightarrow> items s = items t \<Longrightarrow> heap s = heap t \<Longrightarrow>
     start_view s = start_view t"
  by (simp add: start_view_def dispatch_frames_def item_refs_def)

lemma start_view_fields [simp]:
  "start_view (s\<lparr>qguard := g\<rparr>) = start_view s"
  "start_view (s\<lparr>running := b\<rparr>) = start_view s"
  "start_view (s\<lparr>paused := b\<rparr>) = start_view s"
  "start_view (s\<lparr>pauseReason := pr\<rparr>) = start_view s"
  "start_view (s\<lparr>loopTimer := lt\<rparr>) = start_view s"
  "start_view (s\<lparr>armedTimers := at'\<rparr>) = start_view s"
  "start_view (s\<lparr>next_timer := nt\<rparr>) = start_view s"
  "start_view (s\<lparr>pollTimers := pt\<rparr>) = start_view s"
  "start_view (s\<lparr>startedAt := sa\<rparr>) = start_view s"
  "start_view (s\<lparr>completedAt := ca\<rparr>) = start_view s"
  "start_view (s\<lparr>recoveryScan := b\<rparr>) = start_view s"
  "start_view (s\<lparr>recoveryResult := rr\<rparr>) = start_view s"
  "start_view (s\<lparr>recoveryScanUnavailableReason := ru\<rparr>) = start_view s"
  "start_view (s\<lparr>dispatchChecks := dc\<rparr>) = start_view s"
  "start_view (s\<lparr>completionChecks := cc\<rparr>) = start_view s"
  "start_view (s\<lparr>config := cf\<rparr>) = start_view s"
  "start_view (s\<lparr>qdisk := d\<rparr>) = start_view s"
  "start_view (s\<lparr>emitted := em\<rparr>) = start_view s"
  by (rule start_view_cong; simp)+

lemma start_view_upd [simp]:
  "qi_taskId (f (heap s r)) = qi_taskId (heap s r) \<Longrightarrow> start_view (upd_item r f s) = start_view s"
  by (auto simp: start_view_def upd_item_def dispatch_frames_def item_refs_def)

lemma start_view_push [simp]:
  "dispatch_refs f = [] \<Longrightarrow> start_view (push_frame f s) = start_view s"
  by (simp add: start_view_def push_frame_def dispatch_frames_def item_refs_def)

lemma start_view_primitives [simp]:
  "start_view (emitQueueEvent st i p s) = start_view s"
  "start_view (persist ev s) = start_view s"
  "start_view (clear_poll_timer i s) = start_view s"
  "start_view (ensurePollTimer i s) = start_view s"
  "start_view (guard_complete c s) = start_view s"
  "start_view (guard_start now s) = start_view s"
  "start_view (arm_loop_timer w s) = start_view s"
  "start_view (clear_loop_timer s) = start_view s"
  "start_view (set_status q r s) = start_view s"
  "start_view (finish_completion_check i s) = start_view s"
  "start_view (finish_dispatch r s) = start_view s"
  "start_view (ensureRecoveryScan s) = start_view s"
  "start_view (setDuplicateQuarantine r cs s) = start_view s"
  "start_view (clearDuplicateQuarantine r s) = start_view s"
  "start_view (set_blockedBy b r s) = start_view s"
  "start_view (enrichment_over r s) = start_view s"
  "start_view (finish_recovery res s) = start_view s"
  "start_view (beginEnrichment e r kind s) = start_view s"
  by (auto simp: emitQueueEvent_def persist_def clear_poll_timer_def ensurePollTimer_def
      guard_complete_def guard_start_def arm_loop_timer_def clear_loop_timer_def set_status_def
      finish_completion_check_def finish_dispatch_def ensureRecoveryScan_def Let_def
      setDuplicateQuarantine_def clearDuplicateQuarantine_def set_blockedBy_def
      enrichment_over_def finish_recovery_def beginEnrichment_def
      intro: start_view_cong split: option.split)

section \<open>Operations that start nothing\<close>

lemma start_view_lifecycle [simp]:
  "start_view (scheduleNextAfterReadiness e s) = start_view s"
  "start_view (scheduleNext e s) = start_view s"
  "start_view (checkDrained e s) = start_view s"
  "start_view (pause e reason s) = start_view s"
  "start_view (stop e s) = start_view s"
  "start_view (mark_ready e why r s) = start_view s"
  "start_view (release_lane i r s) = start_view s"
  "start_view (mark_stopped e i r s) = start_view s"
  by (simp_all add: scheduleNextAfterReadiness_def scheduleNext_def checkDrained_def pause_def
      stop_def mark_ready_def release_lane_def mark_stopped_def Let_def)

lemma start_view_start [simp]:
  "start_view (start_body e s) = start_view s"
  "start_view (start e s) = start_view s"
  "start_view (resume_body e s) = start_view s"
  "start_view (resume e s) = start_view s"
  by (simp_all add: start_body_def start_def resume_body_def resume_def Let_def)

lemma start_view_abort [simp]: "start_view (snd (abort e s)) = start_view s"
proof -
  have "start_view (snd (abort_one e p acc)) = start_view (snd acc)" for p acc
    by (cases p; cases acc) (simp add: abort_one_def)
  then have "start_view (snd (fold (abort_one e) ps acc)) = start_view (snd acc)" for ps acc
    by (induction ps arbitrary: acc) simp_all
  then show ?thesis by (simp add: abort_def Let_def case_prod_beta)
qed

lemma start_view_cancel [simp]: "start_view (snd (cancel e i s)) = start_view s"
  by (simp add: cancel_def split: option.split)

lemma start_view_retry [simp]: "start_view (snd (retry e i check s)) = start_view s"
  by (simp add: retry_def Let_def split: option.split sum.split)

lemma start_view_outcomes [simp]:
  "start_view (handleTaskAwaitingApproval e r s) = start_view s"
  "start_view (handleTaskResumed e r allow s) = start_view s"
  "start_view (handleTaskSuccess e r outcome c d s) = start_view s"
  "start_view (handleTaskBlocked e r reason outcome c d s) = start_view s"
  "start_view (block_dependent e r i s) = start_view s"
  "start_view (skip_dependent e reason i s) = start_view s"
  by (simp_all add: handleTaskAwaitingApproval_def handleTaskResumed_def handleTaskSuccess_def
      handleTaskBlocked_def block_dependent_def skip_dependent_def Let_def split: option.split)

lemma start_view_failure [simp]:
  "start_view (handleTaskFailure e r err outcome c d s) = start_view s"
proof -
  have "start_view (fold (block_dependent e r) is s) = start_view s" for "is" s
    by (induction "is" arbitrary: s) simp_all
  moreover have "start_view (fold (skip_dependent e reason) is s) = start_view s" for "is" s reason
    by (induction "is" arbitrary: s) simp_all
  ultimately show ?thesis by (simp add: handleTaskFailure_def Let_def)
qed

lemma start_view_completion [simp]:
  "start_view (settle_finished_job e i r job s) = start_view s"
  "start_view (checkTaskCompletion e i s) = start_view s"
  by (simp_all add: settle_finished_job_def checkTaskCompletion_def Let_def split: option.split)

lemma start_view_gates [simp]:
  "start_view (snd (recordApprovalResume e i released s)) = start_view s"
  "start_view (snd (settleApprovalRejection e i reason outcome released s)) = start_view s"
  "start_view (snd (requeueApprovalResume e i reason s)) = start_view s"
  "start_view (updateConfig e p s) = start_view s"
  by (simp_all add: recordApprovalResume_def settleApprovalRejection_def requeueApprovalResume_def
      updateConfig_def Let_def split: option.split)

lemma start_view_readiness [simp]:
  "start_view (continueReadiness tasks completed sessions visited s) = start_view s"
  "start_view (beginReadinessLoop tasks sessions s) = start_view s"
  "start_view (finishReadinessItem e r deps ids q s) = start_view s"
  by (simp_all add: continueReadiness_def beginReadinessLoop_def finishReadinessItem_def Let_def
      split: option.split)

lemma start_view_unblock [simp]:
  "start_view (finish_unblock e kind s) = start_view s"
  "start_view (snd (refreshDuplicateQuarantine e r ids s)) = start_view s"
  "start_view (continueContested e completed visited kind s) = start_view s"
  "start_view (continueUnblock e completed visited kind s) = start_view s"
  "start_view (finishUnblockItem e completed r ids s) = start_view s"
  "start_view (unblockScanned e completed kind s) = start_view s"
  by (simp_all add: finish_unblock_def refreshDuplicateQuarantine_def continueContested_def
      continueUnblock_def finishUnblockItem_def unblockScanned_def Let_def case_prod_beta
      split: option.split unblock_kind.split)

lemma start_view_recovery [simp]:
  "start_view (continueRecovery e rs checks s) = start_view s"
  by (induction e rs checks s rule: continueRecovery.induct) (simp_all add: Let_def)

lemma start_view_recovery_steps [simp]:
  "start_view (recoveryDirChecked e s) = start_view s"
  "start_view (recoveryClaimantsScanned e pending s) = start_view s"
  by (simp_all add: recoveryDirChecked_def recoveryClaimantsScanned_def Let_def split: option.split)

lemma start_view_enrich [simp]:
  "start_view (finishEnrichment e r kind s) = start_view s"
  "start_view (failEnrichment e r kind msg s) = start_view s"
  "start_view (enrichUnmet e r unmet s) = start_view s"
  "start_view (enrichTasksListed e r sessions kind s) = start_view s"
  "start_view (enrichTaskRead e r sessions kind s) = start_view s"
  "start_view (enrichScanned e r deps kind s) = start_view s"
  by (simp_all add: finishEnrichment_def failEnrichment_def enrichUnmet_def enrichTasksListed_def
      enrichTaskRead_def enrichScanned_def Let_def
      split: option.split sum.split enrich_kind.split)

lemma start_view_catch [simp]:
  "start_view (refuse_contested r cs s) = start_view s"
  "start_view (defer_admission e r msg decomposed s) = start_view s"
  "start_view (catchDispatch e r attempted err s) = start_view s"
  "start_view (dispatchStarted e r outcome s) = start_view s"
  "start_view (dispatchReleased e r attempted outcome s) = start_view s"
  by (simp_all add: refuse_contested_def defer_admission_def catchDispatch_def dispatchStarted_def
      dispatchReleased_def Let_def split: option.split sum.split dispatch_error.split)

section \<open>Admitted starts\<close>

text \<open>
  A start is admitted when its options carry a claimant check of its own task with at most one
  claimant and, when the queue has an admission fence, the content hash the fence admitted.
\<close>

definition checked_for :: "task_id \<Rightarrow> start_options \<Rightarrow> bool" where
  "checked_for i opts \<longleftrightarrow>
     (case so_duplicateClaimantCheck opts of
        None \<Rightarrow> False
      | Some c \<Rightarrow> chk_taskId c = i \<and> length (chk_claimants c) \<le> 1)"

definition start_admitted :: "bool \<Rightarrow> task_id \<times> start_options \<Rightarrow> bool" where
  "start_admitted fence p \<longleftrightarrow>
     checked_for (fst p) (snd p) \<and> (fence \<longrightarrow> so_admittedTaskContentHash (snd p) \<noteq> None)"

fun frame_admitted :: "(ref \<Rightarrow> task_id) \<Rightarrow> frame \<Rightarrow> bool" where
  "frame_admitted tids (FDispatchScan r deps ids) \<longleftrightarrow> tids r \<in> set ids"
| "frame_admitted tids (FDispatchFence r opts check) \<longleftrightarrow> checked_for (tids r) opts"
| "frame_admitted tids f \<longleftrightarrow> True"

definition start_inv :: "dq \<Rightarrow> bool" where
  "start_inv s \<longleftrightarrow>
     (\<forall>p \<in> set (start_calls s). start_admitted (has_fence s) p) \<and>
     (\<forall>r \<in> set (item_refs s). r < next_ref s) \<and>
     (\<forall>f \<in> set (dispatch_frames s). frame_admitted (\<lambda>r. qi_taskId (heap s r)) f \<and>
        (\<forall>r \<in> set (dispatch_refs f). r < next_ref s))"

lemma start_inv_view: "start_view s = start_view t \<Longrightarrow> start_inv s = start_inv t"
  by (simp add: start_inv_def start_view_def)

lemma start_inv_same: "start_view t = start_view s \<Longrightarrow> start_inv s \<Longrightarrow> start_inv t"
  using start_inv_view [of t s] by simp

lemma start_calls_view: "start_view t = start_view s \<Longrightarrow> start_calls t = start_calls s"
  by (simp add: start_view_def)

text \<open>Enqueueing allocates a new object; removing drops an entry of the map.\<close>

lemma frame_admitted_cong:
  "(\<And>r. r \<in> set (dispatch_refs f) \<Longrightarrow> tids r = tids' r) \<Longrightarrow> frame_admitted tids f = frame_admitted tids' f"
  by (cases f) simp_all

lemma start_inv_alloc:
  assumes "start_inv s"
  shows "start_inv (alloc_item tid it s)"
proof -
  have refs: "set (item_refs (alloc_item tid it s)) \<subseteq> insert (next_ref s) (set (item_refs s))"
    using set_js_map_set [of tid "next_ref s" "items s"]
    by (force simp: item_refs_def js_map_values_def alloc_item_def)
  have frames: "dispatch_frames (alloc_item tid it s) = dispatch_frames s"
    by (simp add: dispatch_frames_def alloc_item_def)
  have "frame_admitted (\<lambda>r. qi_taskId (heap (alloc_item tid it s) r)) f"
    if "f \<in> set (dispatch_frames s)" for f
  proof -
    have old: "frame_admitted (\<lambda>r. qi_taskId (heap s r)) f" "\<forall>r \<in> set (dispatch_refs f). r < next_ref s"
      using assms that by (simp_all add: start_inv_def)
    have "qi_taskId (heap (alloc_item tid it s) r) = qi_taskId (heap s r)"
      if "r \<in> set (dispatch_refs f)" for r
      using old(2) that by (auto simp: alloc_item_def)
    then have "frame_admitted (\<lambda>r. qi_taskId (heap (alloc_item tid it s) r)) f =
        frame_admitted (\<lambda>r. qi_taskId (heap s r)) f"
      by (rule frame_admitted_cong)
    then show ?thesis using old(1) by (rule iffD2)
  qed
  with assms refs show ?thesis
    unfolding start_inv_def frames by (auto simp: alloc_item_def less_Suc_eq)
qed

lemma start_inv_enqueue: "start_inv s \<Longrightarrow> start_inv (snd (enqueue e tid opts check s))"
proof -
  assume "start_inv s"
  then have "start_inv (alloc_item tid (new_item e tid opts) s)" by (rule start_inv_alloc)
  then show ?thesis
    using \<open>start_inv s\<close>
    by (auto simp: enqueue_def Let_def intro: start_inv_same [rotated] split: sum.split)
qed

lemma start_inv_enqueueMultiple: "start_inv s \<Longrightarrow> start_inv (snd (enqueueMultiple e tids opts checks s))"
  unfolding enqueueMultiple_def by (rule enqueue_each_keeps) (simp_all add: start_inv_enqueue)

lemma start_inv_enqueueSubtasks:
  "start_inv s \<Longrightarrow> start_inv (snd (enqueueSubtasks e parent tids opts checks s))"
  unfolding enqueueSubtasks_def by (rule enqueue_subtasks_each_keeps) (simp_all add: start_inv_enqueue)

lemma start_inv_remove: "start_inv s \<Longrightarrow> start_inv (snd (remove i s))"
proof -
  have "set (js_map_values (js_map_delete i m)) \<subseteq> set (js_map_values m)" for m :: "(task_id \<times> ref) list"
    by (auto simp: js_map_delete_def js_map_values_def AList.delete_eq)
  then show "start_inv s \<Longrightarrow> ?thesis"
    by (auto simp: remove_def start_inv_def item_refs_def dispatch_frames_def split: option.split)
qed

section \<open>The dispatch itself\<close>

lemma start_inv_push:
  "start_inv s \<Longrightarrow> frame_admitted (\<lambda>r. qi_taskId (heap s r)) f \<Longrightarrow>
   (\<And>r. r \<in> set (dispatch_refs f) \<Longrightarrow> r < next_ref s) \<Longrightarrow> start_inv (push_frame f s)"
  by (auto simp: start_inv_def push_frame_def dispatch_frames_def item_refs_def)

lemma start_inv_take: "start_inv s \<Longrightarrow> start_inv (take_frame k s)"
  by (auto simp: start_inv_def take_frame_def dispatch_frames_def item_refs_def
      dest: in_set_takeD in_set_dropD)

lemma startDispatch_calls:
  "start_calls (snd (startDispatch e r opts s)) =
     (if may_dispatch s r then start_calls s @ [(tid_of s r, opts)] else start_calls s)"
  by (simp add: startDispatch_def Let_def guard_start_def upd_item_def split: sum.split)

lemma startDispatch_view:
  "start_view (snd (startDispatch e r opts s)) =
     start_view (if may_dispatch s r
       then s\<lparr>start_calls := start_calls s @ [(tid_of s r, opts)]\<rparr> else s)"
  by (simp add: startDispatch_def Let_def split: sum.split)

lemma start_inv_startDispatch:
  assumes "start_inv s" and "start_admitted (has_fence s) (tid_of s r, opts)"
  shows "start_inv (snd (startDispatch e r opts s))"
proof -
  have "start_inv (if may_dispatch s r
          then s\<lparr>start_calls := start_calls s @ [(tid_of s r, opts)]\<rparr> else s)"
    using assms by (auto simp: start_inv_def dispatch_frames_def item_refs_def)
  then show ?thesis by (rule start_inv_same [OF startDispatch_view])
qed

lemma contested_Nil:
  assumes "contested_checks (scanDuplicateClaimants e ids) ids = []" and "i \<in> set ids"
  obtains c where "js_map_get (scanDuplicateClaimants e ids) i = Some c"
    and "chk_taskId c = i" and "length (chk_claimants c) \<le> 1"
proof -
  have get: "js_map_get (scanDuplicateClaimants e ids) i =
      Some \<lparr>chk_taskId = i, chk_claimants = env_claimants e i\<rparr>"
    using assms(2) by (simp add: scanDuplicateClaimants_def js_map_get_def map_of_map_restrict)
  moreover have "length (env_claimants e i) \<le> 1"
    using assms get by (force simp: contested_checks_def filter_empty_conv List.map_filter_def)
  ultimately show thesis using that by simp
qed

text \<open>The steps of a dispatch after its readiness pass.\<close>

lemma start_view_ref:
  "start_view t = start_view s \<Longrightarrow> next_ref t = next_ref s \<and> has_fence t = has_fence s \<and>
     qi_taskId (heap t r) = qi_taskId (heap s r)"
  by (simp add: start_view_def) (metis (no_types))

lemma start_inv_afterReadiness: "start_inv s \<Longrightarrow> start_inv (afterReadiness e s)"
proof -
  assume inv: "start_inv s"
  have "start_inv (push_frame (FDispatchTasks r m) (s\<lparr>dispatchChecks := dc\<rparr>))"
    if "selectNextTask s = Some r" for r m dc
  proof (rule start_inv_push)
    show "start_inv (s\<lparr>dispatchChecks := dc\<rparr>)" using inv by (rule start_inv_same [rotated]) simp
    have "r < next_ref s"
      using that inv by (auto dest!: selectNextTask_in ready_refs_in simp: start_inv_def)
    then show "x < next_ref (s\<lparr>dispatchChecks := dc\<rparr>)"
      if "x \<in> set (dispatch_refs (FDispatchTasks r m))" for x
      using that by simp
  qed simp
  then show ?thesis
    using inv
    by (auto simp: afterReadiness_def intro: start_inv_same [rotated]
        split: can_start_result.split option.split)
qed

lemma start_inv_dispatchListed:
  "start_inv s \<Longrightarrow> r < next_ref s \<Longrightarrow> start_inv (dispatchTasksListed e r sessions s)"
  "start_inv s \<Longrightarrow> r < next_ref s \<Longrightarrow> start_inv (dispatchTaskRead e r sessions s)"
  by (auto simp: dispatchTasksListed_def dispatchTaskRead_def intro: start_inv_same [rotated]
      intro!: start_inv_push split: sum.split option.split)

lemma start_inv_dispatchDeps:
  "start_inv s \<Longrightarrow> r < next_ref s \<Longrightarrow> start_inv (dispatchDeps r deps s)"
  by (auto simp: dispatchDeps_def intro: start_inv_same [rotated] intro!: start_inv_push)

lemma start_inv_dispatchFence:
  assumes "start_inv s" and "checked_for (tid_of s r) opts"
  shows "start_inv (dispatchFence e r opts s)"
proof -
  have "start_inv (snd (startDispatch e r (opts\<lparr>so_admittedTaskContentHash := Some h\<rparr>) s))" for h
    using assms by (intro start_inv_startDispatch) (simp_all add: start_admitted_def checked_for_def)
  then show ?thesis
    using assms(1)
    by (auto simp: dispatchFence_def case_prod_beta intro: start_inv_same [rotated]
        intro!: start_inv_push split: sum.split)
qed

lemma start_inv_dispatchScanned:
  assumes inv: "start_inv s" and r: "r < next_ref s" and ids: "qi_taskId (heap s r) \<in> set ids"
  shows "start_inv (dispatchScanned e r deps ids s)"
proof (cases "may_dispatch s r \<and> contested_checks (scanDuplicateClaimants e ids) ids = []")
  case False
  then show ?thesis
    using inv by (auto simp: dispatchScanned_def Let_def intro: start_inv_same [rotated])
next
  case True
  let ?s1 = "set_blockedBy [] r (clearDuplicateQuarantine r s)"
  have v: "start_view ?s1 = start_view s" by simp
  note ref = start_view_ref [OF v]
  have inv1: "start_inv ?s1" using inv by (rule start_inv_same [OF v])
  obtain c where get: "js_map_get (scanDuplicateClaimants e ids) (qi_taskId (heap s r)) = Some c"
    and c: "chk_taskId c = qi_taskId (heap s r)" "length (chk_claimants c) \<le> 1"
    using contested_Nil [OF conjunct2 [OF True] ids] by blast
  have ok: "assertUncontestedClaimant (Some c) = Inr ()"
    using c(2) by (simp add: assertUncontestedClaimant_ok)
  define opts where "opts = (spread_options (qi_dispatchOptions (heap ?s1 r)))
      \<lparr>so_duplicateClaimantCheck := Some c\<rparr>"
  have checked: "checked_for (qi_taskId (heap s r)) opts"
    using c by (simp add: checked_for_def opts_def)
  have eq: "dispatchScanned e r deps ids s =
      (if has_fence ?s1 then push_frame (FDispatchFence r opts (Some c)) ?s1
       else dispatchStarted e r (fst (startDispatch e r opts ?s1)) (snd (startDispatch e r opts ?s1)))"
    using True get ok ref [of r]
    by (simp add: dispatchScanned_def Let_def opts_def case_prod_beta)
  have "start_inv (push_frame (FDispatchFence r opts (Some c)) ?s1)"
    using inv1 checked r ref by (intro start_inv_push) simp_all
  moreover have "start_inv (snd (startDispatch e r opts ?s1))" if "\<not> has_fence ?s1"
    using inv1 checked ref [of r] that
    by (intro start_inv_startDispatch) (simp_all add: start_admitted_def)
  ultimately show ?thesis unfolding eq by (auto intro: start_inv_same [rotated])
qed

section \<open>Every step\<close>

fun plain_frame :: "frame \<Rightarrow> bool" where
  "plain_frame FAfterReadiness \<longleftrightarrow> False"
| "plain_frame (FEligibleTasks opts checks) \<longleftrightarrow> False"
| "plain_frame (FEligibleScan ids opts) \<longleftrightarrow> False"
| "plain_frame f \<longleftrightarrow> dispatch_refs f = []"

lemma start_view_plain: "plain_frame f \<Longrightarrow> start_view (resume_frame e f s) = start_view s"
  by (cases f) (simp_all split: sum.split)

lemma start_inv_resume_frame:
  assumes inv: "start_inv s" and f: "frame_admitted (\<lambda>r. qi_taskId (heap s r)) f"
    and bound: "\<forall>r \<in> set (dispatch_refs f). r < next_ref s"
  shows "start_inv (resume_frame e f s)"
proof (cases "dispatch_refs f = []")
  case True
  show ?thesis
  proof (cases f)
    case FAfterReadiness
    then show ?thesis using inv by (simp add: start_inv_afterReadiness)
  next
    case (FEligibleTasks opts checks)
    have "start_inv (push_frame (FEligibleScan ids opts) s)" for ids
      using inv by (rule start_inv_same [rotated]) simp
    then show ?thesis using inv FEligibleTasks
      by (simp add: Let_def start_inv_enqueueMultiple split: sum.split option.split)
  next
    case (FEligibleScan ids opts)
    then show ?thesis using inv by (simp add: start_inv_enqueueMultiple)
  qed (use True start_view_plain [of f, THEN start_inv_same, of s e] inv in simp_all)
next
  case False
  then show ?thesis using inv f bound
    by (cases f) (simp_all add: start_inv_dispatchListed start_inv_dispatchDeps
        start_inv_dispatchFence start_inv_dispatchScanned)
qed

lemma start_inv_step: "start_inv s \<Longrightarrow> start_inv (qstep l s)"
proof -
  assume inv: "start_inv s"
  obtain e a where l: "l = (e, a)" by (cases l)
  have "start_inv (exec e a s)"
  proof (cases a)
    case (AContinue k)
    have "frame_admitted (\<lambda>r. qi_taskId (heap (take_frame k s) r)) (frames s ! k) \<and>
        (\<forall>r \<in> set (dispatch_refs (frames s ! k)). r < next_ref (take_frame k s))"
      if k: "k < length (frames s)"
    proof (cases "dispatch_refs (frames s ! k) = []")
      case True
      then show ?thesis by (cases "frames s ! k") simp_all
    next
      case False
      then have "frames s ! k \<in> set (dispatch_frames s)" using k by (simp add: dispatch_frames_def)
      then show ?thesis using inv by (simp add: start_inv_def take_frame_def)
    qed
    then show ?thesis
      using inv start_inv_resume_frame [OF start_inv_take [OF inv]] by (simp add: AContinue)
  qed (use inv in \<open>simp_all add: start_inv_enqueue start_inv_enqueueMultiple
        start_inv_enqueueSubtasks start_inv_remove start_inv_same [of _ s]\<close>)
  then show ?thesis by (simp add: qstep_def l)
qed

interpretation start_machine: invariant_machine qstep "\<lambda>l s. True" start_inv
  by unfold_locales (rule start_inv_step)

section \<open>The steps that start a dispatch\<close>

text \<open>Seen through the view, a start call that is not added is visible to the simplifier.\<close>

lemma start_calls_fst: "start_calls s = fst (start_view s)"
  by (simp add: start_view_def)

lemma calls_alloc [simp]: "fst (start_view (alloc_item tid it s)) = fst (start_view s)"
  by (simp add: start_view_def alloc_item_def)

lemma calls_push [simp]: "fst (start_view (push_frame f s)) = fst (start_view s)"
  by (simp add: start_view_def push_frame_def)

lemma calls_enqueue [simp]: "fst (start_view (snd (enqueue e tid opts check s))) = fst (start_view s)"
  by (simp add: enqueue_def Let_def split: sum.split)

lemma calls_batches [simp]:
  "fst (start_view (snd (enqueueMultiple e tids opts checks s))) = fst (start_view s)"
  "fst (start_view (snd (enqueueSubtasks e parent tids opts checks s))) = fst (start_view s)"
  unfolding enqueueMultiple_def enqueueSubtasks_def
  by (rule enqueue_each_keeps enqueue_subtasks_each_keeps; simp)+

lemma calls_remove [simp]: "fst (start_view (snd (remove i s))) = fst (start_view s)"
  by (simp add: remove_def start_view_def split: option.split)

text \<open>A step adds at most one start, of the item its frame dispatches.\<close>

text \<open>What the admission fence answered for a task, and what is passed on to the start of that task.\<close>

definition fence_passed_on :: "env \<Rightarrow> dq \<Rightarrow> task_id \<Rightarrow> start_options \<Rightarrow> bool" where
  "fence_passed_on e s i opts \<longleftrightarrow>
     (has_fence s \<longrightarrow> (\<exists>h. env_fence e i = Inr h \<and> so_admittedTaskContentHash opts = Some h))"

definition starts_one :: "env \<Rightarrow> ref \<Rightarrow> dq \<Rightarrow> dq \<Rightarrow> bool" where
  "starts_one e r s t \<longleftrightarrow> may_dispatch s r \<and>
     (\<exists>opts. start_calls t = start_calls s @ [(tid_of s r, opts)] \<and> fence_passed_on e s (tid_of s r) opts)"

lemma starts_one_intro:
  assumes "start_calls t = start_calls (snd (startDispatch e r opts s1))"
    and "start_view s1 = start_view s" and "may_dispatch s1 r = may_dispatch s r"
    and "start_calls t \<noteq> start_calls s" and "fence_passed_on e s (tid_of s r) opts"
  shows "starts_one e r s t"
proof -
  have "start_calls s1 = start_calls s" "tid_of s1 r = tid_of s r"
    using start_calls_view [OF assms(2)] start_view_ref [OF assms(2)] by simp_all
  then show ?thesis
    using assms by (simp add: startDispatch_calls starts_one_def split: if_splits)
qed

lemma may_dispatch_prepared:
  "may_dispatch (set_blockedBy [] r (clearDuplicateQuarantine r s)) x = may_dispatch s x"
  by (simp add: may_dispatch_def active_def)
    (simp add: set_blockedBy_def clearDuplicateQuarantine_def upd_item_def)

lemma starts_scan:
  assumes "start_calls (dispatchScanned e r deps ids s) \<noteq> start_calls s"
  shows "starts_one e r s (dispatchScanned e r deps ids s)"
proof -
  let ?s1 = "set_blockedBy [] r (clearDuplicateQuarantine r s)"
  have s1: "start_view ?s1 = start_view s" by simp
  from assms obtain opts where
    "start_calls (dispatchScanned e r deps ids s) = start_calls (snd (startDispatch e r opts ?s1))"
    and "\<not> has_fence ?s1"
    by (fastforce simp: start_calls_fst dispatchScanned_def Let_def case_prod_beta
        split: if_splits sum.splits claimant_admission_error.splits)
  moreover have "has_fence ?s1 = has_fence s" using s1 by (simp add: start_view_def)
  ultimately have "fence_passed_on e s (tid_of s r) opts" by (simp add: fence_passed_on_def)
  then show ?thesis
    using \<open>start_calls (dispatchScanned e r deps ids s) = _\<close> s1 may_dispatch_prepared assms
    by (intro starts_one_intro [where opts = opts])
qed

lemma starts_fence:
  assumes "start_calls (dispatchFence e r opts s) \<noteq> start_calls s"
  shows "starts_one e r s (dispatchFence e r opts s)"
proof -
  from assms obtain h where h: "env_fence e (tid_of s r) = Inr h"
    by (fastforce simp: start_calls_fst dispatchFence_def split: sum.splits)
  then have "start_calls (dispatchFence e r opts s) =
      start_calls (snd (startDispatch e r (opts\<lparr>so_admittedTaskContentHash := Some h\<rparr>) s))"
    by (simp add: start_calls_fst dispatchFence_def case_prod_beta)
  moreover have "fence_passed_on e s (tid_of s r) (opts\<lparr>so_admittedTaskContentHash := Some h\<rparr>)"
    unfolding fence_passed_on_def using h by simp
  ultimately show ?thesis using assms
    by (intro starts_one_intro [where opts = "opts\<lparr>so_admittedTaskContentHash := Some h\<rparr>" and ?s1.0 = s]) simp_all
qed

lemma calls_dispatch_begin [simp]:
  "fst (start_view (afterReadiness e s)) = fst (start_view s)"
  "fst (start_view (dispatchTasksListed e r sessions s)) = fst (start_view s)"
  "fst (start_view (dispatchTaskRead e r sessions s)) = fst (start_view s)"
  "fst (start_view (dispatchDeps r deps s)) = fst (start_view s)"
  by (simp_all add: afterReadiness_def dispatchTasksListed_def dispatchTaskRead_def dispatchDeps_def
      split: sum.split option.split can_start_result.split)

lemma starts_resume:
  assumes "start_calls (resume_frame e f s) \<noteq> start_calls s"
  shows "\<exists>r. r \<in> set (dispatch_refs f) \<and> starts_one e r s (resume_frame e f s)"
proof (cases "plain_frame f")
  case True
  then show ?thesis using assms start_calls_view [OF start_view_plain] by metis
next
  case False
  then show ?thesis
  proof (cases f)
    case (FDispatchScan r deps ids)
    then show ?thesis using assms by (simp add: starts_scan)
  next
    case (FDispatchFence r opts check)
    then show ?thesis using assms by (simp add: starts_fence)
  qed (use assms in \<open>simp_all add: start_calls_fst Let_def split: sum.splits option.splits\<close>)
qed

lemma starts_step:
  assumes "start_calls (qstep l s) \<noteq> start_calls s"
  shows "\<exists>k r. snd l = AContinue k \<and> k < length (frames s) \<and> r \<in> set (dispatch_refs (frames s ! k)) \<and>
           starts_one (fst l) r s (qstep l s)"
proof -
  obtain e a where l: "l = (e, a)" by (cases l)
  have "start_calls (exec e a s) \<noteq> start_calls s" using assms by (simp add: l qstep_def)
  then obtain k where a: "a = AContinue k"
    by (cases a) (simp_all add: start_calls_fst split: if_splits)
  have take: "start_calls (take_frame k s) = start_calls s" by (simp add: take_frame_def)
  have k: "k < length (frames s)"
    "start_calls (resume_frame e (frames s ! k) (take_frame k s)) \<noteq> start_calls (take_frame k s)"
    using assms by (auto simp: l qstep_def a take split: if_splits)
  from starts_resume [OF k(2)] obtain r where r: "r \<in> set (dispatch_refs (frames s ! k))"
    "starts_one e r (take_frame k s) (resume_frame e (frames s ! k) (take_frame k s))" by blast
  then have "starts_one e r s (qstep l s)"
    using k(1) by (simp add: l qstep_def a starts_one_def may_dispatch_def active_def fence_passed_on_def)
      (simp add: take_frame_def)
  then show ?thesis using k(1) r(1) by (simp add: l a) blast
qed

end
