(* ===== verification/Queue_Recovery.thy ===== *)
theory Queue_Recovery
  imports Queue_Starts
begin

text \<open>
  The state the constructor of \<open>DispatchQueue\<close> leaves: the replayed items are loaded in order,
  every row that was waiting or running goes back to the recovery scan, and every row that was
  paused at a human gate takes its lane again. The invariants of the machine hold from there.
\<close>

section \<open>The empty queue\<close>

lemma empty_queue_fields [simp]:
  "items (empty_queue c fence d) = []" "next_ref (empty_queue c fence d) = 0"
  "frames (empty_queue c fence d) = []" "start_calls (empty_queue c fence d) = []"
  "has_fence (empty_queue c fence d) = fence" "qdisk (empty_queue c fence d) = d"
  "config (empty_queue c fence d) = c" "recoveryScan (empty_queue c fence d) = False"
  "qi_status (heap (empty_queue c fence d) r) = Queued"
  "lanes_in_use (qguard (empty_queue c fence d)) = 0"
  by (simp_all add: empty_queue_def new_item_def)

lemma queue_inv_empty: "queue_inv 0 (empty_queue c fence d)"
  by (simp add: queue_inv_def struct_inv_def lane_refs_def js_map_keys_def)

lemma start_inv_empty: "start_inv (empty_queue c fence d)"
  by (simp add: start_inv_def item_refs_def dispatch_frames_def js_map_values_def)

section \<open>Loading the replayed items\<close>

text \<open>\<open>loaded m s\<close>: the items of \<open>s\<close> are those of \<open>m\<close>, in order, in the first cells of the heap.\<close>

definition loaded :: "item_map \<Rightarrow> dq \<Rightarrow> bool" where
  "loaded m s \<longleftrightarrow> deref_items s = m \<and> item_refs s = [0..<length m] \<and> next_ref s = length m"

lemma js_map_set_fresh: "k \<notin> set (js_map_keys m) \<Longrightarrow> js_map_set k v m = m @ [(k, v)]"
  unfolding js_map_set_def js_map_keys_def by (induction m) auto

lemma loaded_refs: "loaded m s \<Longrightarrow> (i, r) \<in> set (items s) \<Longrightarrow> r < next_ref s"
  by (force simp: loaded_def item_refs_def js_map_values_def dest: arg_cong [where f = set])

lemma loaded_alloc:
  assumes "loaded m s" and "i \<notin> set (js_map_keys m)"
  shows "loaded (m @ [(i, it)]) (alloc_item i it s)"
proof -
  have keys: "js_map_keys (items s) = js_map_keys m"
    using assms(1) keys_deref_items [of s] by (simp add: loaded_def)
  then have items: "items (alloc_item i it s) = items s @ [(i, next_ref s)]"
    using assms(2) by (simp add: alloc_item_def js_map_set_fresh)
  have "map (\<lambda>(j, r). (j, heap (alloc_item i it s) r)) (items s) = deref_items s"
    using loaded_refs [OF assms(1)] by (fastforce simp: deref_items_def alloc_item_def)
  then have "deref_items (alloc_item i it s) =
      deref_items s @ [(i, heap (alloc_item i it s) (next_ref s))]"
    by (simp add: deref_items_def items)
  then have "deref_items (alloc_item i it s) = m @ [(i, it)]"
    using assms(1) by (simp add: loaded_def) (simp add: alloc_item_def)
  moreover have "item_refs (alloc_item i it s) = item_refs s @ [next_ref s]"
    using items by (simp add: item_refs_def js_map_values_def)
  ultimately show ?thesis using assms(1) by (simp add: loaded_def) (simp add: alloc_item_def)
qed

lemma deref_values: "map (heap s) (item_refs s) = map snd (deref_items s)"
  by (simp add: deref_items_def item_refs_def js_map_values_def case_prod_beta)

definition lane_count :: "item_map \<Rightarrow> nat" where
  "lane_count m = length (filter (\<lambda>p. lane_status (qi_status (snd p))) m)"

lemma queue_inv_alloc_any:
  assumes "queue_inv n s" and "item_ref s (qi_taskId it) = None"
  shows "queue_inv (if lane_status (qi_status it) then Suc n else n) (alloc_item (qi_taskId it) it s)"
proof (cases "lane_status (qi_status it)")
  case False
  then show ?thesis using queue_inv_alloc [OF assms] by simp
next
  case True
  let ?off = "it\<lparr>qi_status := Queued\<rparr>"
  let ?s1 = "alloc_item (qi_taskId ?off) ?off s"
  have "queue_inv n ?s1" using assms by (intro queue_inv_alloc) simp_all
  then have "queue_inv (Suc n) (upd_item (next_ref s) (\<lambda>i. i\<lparr>qi_status := qi_status it\<rparr>) ?s1)"
    using True by (intro queue_inv_lane_on) (simp_all add: alloc_item_def)
  moreover have "upd_item (next_ref s) (\<lambda>i. i\<lparr>qi_status := qi_status it\<rparr>) ?s1 =
      alloc_item (qi_taskId it) it s"
    by (simp add: upd_item_def alloc_item_def)
  ultimately show ?thesis using True by simp
qed

lemma load_items:
  assumes "items_wf (m @ m')" and "loaded m s" and "queue_inv n s" and "start_inv s"
  shows "loaded (m @ m') (fold load_item m' s) \<and>
         queue_inv (n + lane_count m') (fold load_item m' s) \<and> start_inv (fold load_item m' s)"
  using assms
proof (induction m' arbitrary: m s n)
  case Nil
  then show ?case by (simp add: lane_count_def)
next
  case (Cons p m')
  obtain i it where p: "p = (i, it)" by (cases p)
  have i: "qi_taskId it = i" and fresh: "i \<notin> set (js_map_keys m)"
    using Cons.prems(1) by (auto simp: p items_wf_def js_map_keys_def)
  have "js_map_keys (items s) = js_map_keys m"
    using Cons.prems(2) keys_deref_items [of s] by (simp add: loaded_def)
  then have none: "item_ref s i = None"
    using fresh by (simp add: item_ref_def js_map_get_def js_map_keys_def map_of_eq_None_iff)
      (simp flip: set_map)
  let ?n = "if lane_status (qi_status it) then Suc n else n"
  have "loaded (m @ [(i, it)]) (alloc_item i it s)" using Cons.prems(2) fresh by (rule loaded_alloc)
  moreover have "queue_inv ?n (alloc_item i it s)"
    using queue_inv_alloc_any [OF Cons.prems(3), of it] none unfolding i by blast
  moreover have "start_inv (alloc_item i it s)" using Cons.prems(4) by (rule start_inv_alloc)
  moreover have "items_wf ((m @ [(i, it)]) @ m')" using Cons.prems(1) by (simp add: p)
  ultimately have "loaded ((m @ [(i, it)]) @ m') (fold load_item m' (alloc_item i it s)) \<and>
      queue_inv (?n + lane_count m') (fold load_item m' (alloc_item i it s)) \<and>
      start_inv (fold load_item m' (alloc_item i it s))"
    by (intro Cons.IH)
  moreover have "fold load_item (p # m') s = fold load_item m' (alloc_item i it s)"
    by (simp add: p load_item_def [of "(i, it)"])
  moreover have "?n + lane_count m' = n + lane_count (p # m')" by (simp add: p lane_count_def)
  ultimately show ?case by (simp add: p)
qed

section \<open>Rows paused at a human gate take their lane again\<close>

lemma recover_row_other:
  "x \<noteq> r \<Longrightarrow> heap (recover_row e r s) x = heap s x"
  by (simp add: recover_row_def set_status_def)

lemma queue_inv_recover_row:
  assumes "qi_status (heap s r) \<noteq> Running"
    and "queue_inv (if qi_status (heap s r) = AwaitingApproval then Suc n else n) s"
  shows "queue_inv n (recover_row e r s)"
  using assms by (auto simp: recover_row_def queue_inv_guard_start inv_rules)

lemma queue_inv_recover_rows:
  "distinct rs \<Longrightarrow> \<forall>r \<in> set rs. qi_status (heap s r) \<noteq> Running \<Longrightarrow>
   queue_inv (length (filter (\<lambda>r. qi_status (heap s r) = AwaitingApproval) rs)) s \<Longrightarrow>
     queue_inv 0 (fold (recover_row e) rs s)"
proof (induction rs arbitrary: s)
  case Nil
  then show ?case by simp
next
  case (Cons r rs)
  let ?s1 = "recover_row e r s"
  have other: "heap ?s1 x = heap s x" if "x \<in> set rs" for x
    using that Cons.prems(1) by (intro recover_row_other) auto
  then have same: "filter (\<lambda>r. qi_status (heap ?s1 r) = AwaitingApproval) rs =
      filter (\<lambda>r. qi_status (heap s r) = AwaitingApproval) rs"
    by (intro filter_cong) simp_all
  have "queue_inv (length (filter (\<lambda>r. qi_status (heap ?s1 r) = AwaitingApproval) rs)) ?s1"
    unfolding same using Cons.prems by (intro queue_inv_recover_row) (auto split: if_splits)
  then show ?case using Cons other by simp
qed

lemma start_view_recover_rows [simp]: "start_view (fold (recover_row e) rs s) = start_view s"
  by (induction rs arbitrary: s) (simp_all add: recover_row_def)

lemma recoverState_inv:
  "queue_inv 0 (recoverState e (empty_queue c fence d)) \<and>
   start_inv (recoverState e (empty_queue c fence d))"
proof (cases "replay d = []")
  case True
  then show ?thesis by (simp add: recoverState_def queue_inv_empty start_inv_empty)
next
  case False
  let ?s0 = "empty_queue c fence d"
  let ?s1 = "fold load_item (replay d) ?s0"
  have "loaded [] ?s0" by (simp add: loaded_def deref_items_def item_refs_def js_map_values_def)
  then have l: "loaded (replay d) ?s1 \<and> queue_inv (lane_count (replay d)) ?s1 \<and> start_inv ?s1"
    using load_items [of "[]" "replay d" ?s0 0] items_wf_replay queue_inv_empty start_inv_empty
    by simp
  have its: "map (heap ?s1) (item_refs ?s1) = map snd (replay d)"
    using l deref_values [of ?s1] by (simp add: loaded_def)
  have calm: "qi_status (heap ?s1 r) \<noteq> Running" if "r \<in> set (item_refs ?s1)" for r
  proof -
    have "heap ?s1 r \<in> set (map snd (replay d))" using that by (simp flip: its)
    then show ?thesis using reset_running_no_running by (auto simp: replay_def)
  qed
  have "length (filter (\<lambda>it. lane_status (qi_status it)) (map (heap ?s1) (item_refs ?s1))) =
      lane_count (replay d)"
    unfolding its by (simp add: lane_count_def filter_map comp_def)
  moreover have "filter (\<lambda>r. lane_status (qi_status (heap ?s1 r))) (item_refs ?s1) =
      filter (\<lambda>r. qi_status (heap ?s1 r) = AwaitingApproval) (item_refs ?s1)"
    using calm by (intro filter_cong) (auto simp: lane_status_def)
  ultimately have count:
    "length (filter (\<lambda>r. qi_status (heap ?s1 r) = AwaitingApproval) (item_refs ?s1)) =
      lane_count (replay d)"
    by (simp add: filter_map comp_def)
  define s2 where "s2 = fold (recover_row e) (item_refs ?s1) ?s1"
  have "distinct (item_refs ?s1)" using l by (simp add: loaded_def)
  then have inv2: "queue_inv 0 s2"
    unfolding s2_def using calm l count by (intro queue_inv_recover_rows) simp_all
  have start2: "start_inv s2"
    using l by (intro start_inv_same [of s2 ?s1]) (simp_all add: s2_def)
  obtain p where eq: "recoverState e ?s0 =
      emitQueueEvent ''dispatch_queue_recovered'' '''' p (ensureRecoveryScan s2)"
    using False by (simp add: recoverState_def Let_def s2_def)
  have "start_inv (emitQueueEvent ''dispatch_queue_recovered'' '''' p (ensureRecoveryScan s2))"
    by (rule start_inv_same [OF _ start2]) simp
  then show ?thesis using inv2 by (simp add: eq)
qed

lemma queue_inv_new_queue: "queue_inv 0 (new_queue e c fence d)"
  and start_inv_new_queue: "start_inv (new_queue e c fence d)"
  unfolding new_queue_def using recoverState_inv [of e c fence d] queue_inv_empty start_inv_empty
  by simp_all

end
