(* ===== verification/Queue_Samples.thy ===== *)
theory Queue_Samples
  imports Queue_Recovery
begin

text \<open>
  The concrete queues and runs on which the properties of the dispatch queue are witnessed: two
  independent tasks, and a task with a dependent.
\<close>

section \<open>A concrete queue\<close>

definition sample_config :: dispatch_queue_config where
  "sample_config =
     \<lparr>cfg_maxConcurrent = 1, cfg_cooldownBetweenTasksMs = 0, cfg_failurePropagation = SkipDependents,
      cfg_fleetBudgetUsd = 0, cfg_pauseOnFailure = False, cfg_persistState = True,
      cfg_autoStartOnEnqueue = False\<rparr>"

definition empty_disk :: disk where
  "empty_disk = \<lparr>dk_log = None, dk_snapshot = None, dk_archives = []\<rparr>"

definition backlog_task :: "task_id \<Rightarrow> string \<Rightarrow> task_id list \<Rightarrow> task_summary" where
  "backlog_task i p b =
     \<lparr>ts_id = i, ts_priority = p, ts_status = ''BACKLOG'', ts_effectiveStatus = ''BACKLOG'',
      ts_blockedBy = b, ts_tags = [], ts_backlogHygiene = None\<rparr>"

text \<open>Two independent tasks, the second of higher priority; every start succeeds.\<close>

definition sample_env :: env where
  "sample_env =
     \<lparr>env_now = 1000, env_activeJob = (\<lambda>_. False), env_job = (\<lambda>_. None), env_stop = (\<lambda>_. True),
      env_start = (\<lambda>_ _. Inr 7),
      env_tasks = Inr [backlog_task ''TASK-1'' ''P1-HIGH'' [], backlog_task ''TASK-2'' ''P0-CRITICAL'' []],
      env_getTask = (\<lambda>_. Inr None), env_sessions = [], env_staleReasons = (\<lambda>_. []),
      env_claimants = (\<lambda>_. []), env_fence = (\<lambda>_. Inr ''hash''), env_release = (\<lambda>_. None),
      env_taskDirError = None\<rparr>"

definition sample_queue :: "bool \<Rightarrow> dq" where
  "sample_queue fence = new_queue sample_env sample_config fence empty_disk"

definition calls :: "action list \<Rightarrow> label list" where
  "calls acts = map (\<lambda>a. (sample_env, a)) acts"

definition enqueue_call :: "task_id \<Rightarrow> action" where
  "enqueue_call i = AEnqueue i None None"

text \<open>Enqueue one task, let its enrichment finish, start the queue and run its readiness pass.\<close>

definition until_dispatch :: "action list" where
  "until_dispatch = [enqueue_call ''TASK-1'', AContinue 0, AContinue 0, AStart, AContinue 0, AContinue 0]"

definition item_statuses :: "dq \<Rightarrow> (task_id \<times> queue_item_status) list" where
  "item_statuses s = map (\<lambda>(i, r). (i, qi_status (heap s r))) (items s)"

lemmas sample_defs = sample_config_def empty_disk_def backlog_task_def sample_env_def
  sample_queue_def calls_def enqueue_call_def until_dispatch_def

text \<open>\<open>TASK-2\<close> waits on \<open>TASK-1\<close>; the job of \<open>TASK-1\<close> ends as given.\<close>

definition dependent_env :: "managed_job option \<Rightarrow> env" where
  "dependent_env job = sample_env
     \<lparr>env_tasks := Inr [backlog_task ''TASK-1'' ''P1-HIGH'' [],
                       backlog_task ''TASK-2'' ''P1-HIGH'' [''TASK-1'']],
      env_job := (\<lambda>_. job)\<rparr>"

definition dependent_calls :: "action list \<Rightarrow> label list" where
  "dependent_calls acts = map (\<lambda>a. (dependent_env None, a)) acts"

definition dependent_queue :: "failure_propagation \<Rightarrow> dq" where
  "dependent_queue strategy =
     new_queue sample_env (sample_config\<lparr>cfg_failurePropagation := strategy\<rparr>) False empty_disk"

definition both_enqueued :: "label list" where
  "both_enqueued = dependent_calls [enqueue_call ''TASK-1'', enqueue_call ''TASK-2'', AContinue 0,
     AContinue 0, AContinue 0, AContinue 0]"

definition dependent_running :: "failure_propagation \<Rightarrow> dq" where
  "dependent_running strategy =
     qrun (both_enqueued @ dependent_calls ([AStart] @ replicate 8 (AContinue 0))) (dependent_queue strategy)"

definition failed_job :: managed_job where
  "failed_job = \<lparr>mj_status = JFailed, mj_operatorStopCleanupPending = False\<rparr>"

end
