(* ===== verification/Queue_Properties.thy ===== *)
theory Queue_Properties
  imports Queue_Samples
begin

text \<open>
  The correctness properties of the dispatch queue (\<open>src/queue/dispatch-queue.ts\<close>): lane
  accounting over whole runs, when a dispatch may start, which item is picked, how a failure
  spreads, and what a run that interleaves operator calls with suspended methods can do wrong.
\<close>

section \<open>Lanes\<close>

text \<open>
  C1: Lane accounting. Along every run from a freshly constructed queue (with whatever the log
  and the snapshot hold), as long as no method resumes on an item that took a lane while the
  method was suspended, the guard's running count is the number of items of the queue that are running or
  waiting for approval plus the number of items in such a status that are no longer in the queue, because they
  were removed while their dispatch was under way or while they ran.
\<close>

theorem lanes_accounted:
  assumes "steps_ok qstep fresh_step ls (new_queue e c fence d)"
    and "s = qrun ls (new_queue e c fence d)"
  shows "lanes_in_use (qguard s) =
           length (filter (\<lambda>r. qi_status (heap s r) \<in> {Running, AwaitingApproval}) (item_refs s)) +
           card {r. qi_status (heap s r) \<in> {Running, AwaitingApproval} \<and> r \<notin> set (item_refs s)}"
proof -
  have inv: "queue_inv 0 s"
    using lane_machine.run_inv [OF queue_inv_new_queue assms(1)] assms(2) by (simp add: qrun_def)
  have lane: "lane_refs s = {r. qi_status (heap s r) \<in> {Running, AwaitingApproval}}"
    by (auto simp: lane_refs_def lane_status_def)
  let ?queued = "set (filter (\<lambda>r. qi_status (heap s r) \<in> {Running, AwaitingApproval}) (item_refs s))"
  let ?gone = "{r. qi_status (heap s r) \<in> {Running, AwaitingApproval} \<and> r \<notin> set (item_refs s)}"
  have "lane_refs s = ?queued \<union> ?gone" "?queued \<inter> ?gone = {}" using lane by auto
  moreover have "finite (lane_refs s)" using inv by (simp add: queue_inv_def)
  ultimately have cards: "card (lane_refs s) = card ?queued + card ?gone"
    using card_Un_disjoint [of ?queued ?gone] by simp
  have "map (\<lambda>r. qi_taskId (heap s r)) (item_refs s) = js_map_keys (items s)"
    using inv by (auto simp: queue_inv_def struct_inv_def item_refs_def js_map_keys_def js_map_values_def)
  moreover have "distinct (js_map_keys (items s))" using inv by (simp add: queue_inv_def struct_inv_def)
  ultimately have "distinct (map (\<lambda>r. qi_taskId (heap s r)) (item_refs s))" by simp
  then have "distinct (item_refs s)" by (simp only: distinct_map)
  then have "card ?queued = length (filter (\<lambda>r. qi_status (heap s r) \<in> {Running, AwaitingApproval}) (item_refs s))"
    by (intro distinct_card distinct_filter)
  then show ?thesis using cards inv by (simp add: queue_inv_def)
qed

lemma lanes_accounted_witness:
  "let s = qrun (calls (until_dispatch @ [AContinue 0, AContinue 0, AContinue 0])) (sample_queue False) in
     lanes_in_use (qguard s) = 1 \<and> item_refs s = [0] \<and>
     card {r. qi_status (heap s r) \<in> {Running, AwaitingApproval} \<and> r \<notin> set (item_refs s)} = 0"
proof -
  let ?ls = "calls (until_dispatch @ [AContinue 0, AContinue 0, AContinue 0])"
  have ok: "steps_ok qstep fresh_step ?ls (sample_queue False)" by code_simp
  moreover have "lanes_in_use (qguard (qrun ?ls (sample_queue False))) = 1"
    "item_refs (qrun ?ls (sample_queue False)) = [0]"
    "qi_status (heap (qrun ?ls (sample_queue False)) 0) = Running" by code_simp+
  ultimately show ?thesis
    using lanes_accounted [of ?ls sample_env sample_config False empty_disk "qrun ?ls (sample_queue False)"]
    by (simp add: sample_queue_def Let_def)
qed

text \<open>
  C2: Guard discipline. A scheduler that asks \<open>canStart\<close> right before each start never exceeds
  \<open>maxConcurrent\<close>, whatever completions and refused starts are interleaved.
\<close>

theorem guard_bounds_lanes:
  assumes "0 \<le> go_maxConcurrent opts"
  shows "int (gs_runningCount (g_state (fold guard_op xs (new_guard opts)))) \<le> go_maxConcurrent opts"
  using guard_lanes.lane_ops_bound [of "new_guard opts" xs] assms
  by (simp add: guard_op_is_lane_op guard_limit_def lanes_in_use_def new_guard_def
      initial_guard_state_def)

lemma guard_bounds_lanes_witness:
  "int (gs_runningCount (g_state (fold guard_op [Inl (5, 1), Inl (6, 1), Inl (7, 1)]
     (new_guard \<lparr>go_maxConcurrent = 2, go_cooldownBetweenTasksMs = 0, go_fleetBudgetUsd = 0\<rparr>)))) \<le> 2"
  using guard_bounds_lanes [of "\<lparr>go_maxConcurrent = 2, go_cooldownBetweenTasksMs = 0,
      go_fleetBudgetUsd = 0\<rparr>" "[Inl (5, 1), Inl (6, 1), Inl (7, 1)]"] by simp

section \<open>Starting a dispatch\<close>

text \<open>
  C3: A dispatch is only ever started by resuming a suspended dispatch of an item that is still
  ready while the queue is running and not paused; no other call, timer or continuation starts
  anything, and one step starts at most one task.
\<close>

theorem starts_only_ready_items:
  assumes "start_calls (qstep l s) \<noteq> start_calls s"
  shows "\<exists>k r opts. snd l = AContinue k \<and> k < length (frames s) \<and>
           r \<in> set (dispatch_refs (frames s ! k)) \<and> running s \<and> \<not> paused s \<and>
           qi_status (heap s r) = Ready \<and>
           start_calls (qstep l s) = start_calls s @ [(qi_taskId (heap s r), opts)]"
  using starts_step [OF assms] by (auto simp: starts_one_def may_dispatch_def active_def)

definition before_start :: dq where
  "before_start = qrun (calls (until_dispatch @ [AContinue 0, AContinue 0])) (sample_queue False)"

lemma starts_only_ready_items_witness:
  "\<exists>k r opts. snd (sample_env, AContinue 0) = AContinue k \<and> k < length (frames before_start) \<and>
     r \<in> set (dispatch_refs (frames before_start ! k)) \<and> running before_start \<and> \<not> paused before_start \<and>
     qi_status (heap before_start r) = Ready \<and>
     start_calls (qstep (sample_env, AContinue 0) before_start)
       = start_calls before_start @ [(qi_taskId (heap before_start r), opts)]"
proof -
  have "map fst (start_calls (qstep (sample_env, AContinue 0) before_start)) = [''TASK-1'']" by code_simp
  moreover have "map fst (start_calls before_start) = []" by code_simp
  ultimately have "start_calls (qstep (sample_env, AContinue 0) before_start) \<noteq> start_calls before_start"
    by auto
  then show ?thesis by (rule starts_only_ready_items)
qed

text \<open>
  C4: Admission. A step of a run from a freshly constructed queue that starts a task passes on a claimant
  check of that very task which names at most one claimant; and when the queue has an admission fence, the
  fence admitted the task in that step and the start carries exactly the content hash the fence answered.
\<close>

theorem starts_are_admitted:
  assumes "s = qrun ls (new_queue e0 c fence d)"
    and "start_calls (qstep (e, act) s) = start_calls s @ [(i, opts)]"
  shows "(\<exists>chk. so_duplicateClaimantCheck opts = Some chk \<and> chk_taskId chk = i \<and>
            length (chk_claimants chk) \<le> 1) \<and>
         (has_fence s \<longrightarrow> (\<exists>h. env_fence e i = Inr h \<and> so_admittedTaskContentHash opts = Some h))"
proof -
  have "start_inv s"
    unfolding assms(1) qrun_def by (rule start_machine.run_inv [OF start_inv_new_queue]) (simp add: steps_ok_True)
  then have "start_inv (qstep (e, act) s)" by (rule start_machine.step_inv) simp
  then have "checked_for i opts" using assms(2) by (auto simp: start_inv_def start_admitted_def)
  moreover have "fence_passed_on e s i opts"
    using starts_step [of "(e, act)" s] assms(2) by (auto simp: starts_one_def)
  ultimately show ?thesis by (auto simp: checked_for_def fence_passed_on_def split: option.splits)
qed

definition fenced_run :: "label list" where
  "fenced_run = calls (until_dispatch @ [AContinue 0, AContinue 0, AContinue 0])"

lemma starts_are_admitted_witness:
  "\<exists>opts h. start_calls (qstep (sample_env, AContinue 0) (qrun fenced_run (sample_queue True))) = [(''TASK-1'', opts)] \<and>
     env_fence sample_env ''TASK-1'' = Inr h \<and> so_admittedTaskContentHash opts = Some h"
proof -
  let ?s = "qrun fenced_run (sample_queue True)"
  have "map fst (start_calls (qstep (sample_env, AContinue 0) ?s)) = [''TASK-1'']" by code_simp
  then obtain opts where opts: "start_calls (qstep (sample_env, AContinue 0) ?s) = [(''TASK-1'', opts)]" by auto
  have "map fst (start_calls ?s) = []" by code_simp
  then have "start_calls (qstep (sample_env, AContinue 0) ?s) = start_calls ?s @ [(''TASK-1'', opts)]" using opts by simp
  moreover have "has_fence ?s" by code_simp
  ultimately show ?thesis
    using starts_are_admitted [of ?s fenced_run sample_env sample_config True empty_disk sample_env "AContinue 0"
      "''TASK-1''" opts] opts by (auto simp: sample_queue_def)
qed

interpretation ready_comparator: comparator "ready_order s"
  by unfold_locales (auto simp: ready_order_def split: if_splits)

text \<open>
  C5: Scheduling decision. The end of a readiness pass begins at most one dispatch. It does so
  only while the queue is active, when the guard allows a start at that moment, and then for an
  item that is ready, whose enrichment is over and that no other such item precedes in the
  order by priority weight and then by enqueue time.
\<close>

theorem dispatch_begins_with_best_ready_item:
  assumes "frames (afterReadiness e s) \<noteq> frames s"
  shows "\<exists>r sessions. frames (afterReadiness e s) = frames s @ [FDispatchTasks r sessions] \<and>
           running s \<and> \<not> paused s \<and>
           canStart (env_now e) DEFAULT_ESTIMATED_COST (qguard s) = Allowed \<and>
           qi_status (heap s r) = Ready \<and> \<not> qi_enrichmentPending (heap s r) \<and>
           (\<forall>x \<in> set (item_refs s). qi_status (heap s x) = Ready \<and> \<not> qi_enrichmentPending (heap s x) \<longrightarrow>
              qi_priority (heap s r) < qi_priority (heap s x) \<or>
              qi_priority (heap s r) = qi_priority (heap s x) \<and>
                qi_enqueuedAt (heap s r) \<le> qi_enqueuedAt (heap s x))"
proof -
  have keep: "frames (checkDrained e s) = frames s" "frames (pause e reason s) = frames s"
    "frames (arm_loop_timer w s) = frames s" for reason w
    by (simp_all add: checkDrained_def pause_def arm_loop_timer_def persist_def emitQueueEvent_def
        clear_loop_timer_def Let_def split: option.split)
  from assms obtain r where act: "active s"
    and allowed: "canStart (env_now e) DEFAULT_ESTIMATED_COST (qguard s) = Allowed"
    and sel: "selectNextTask s = Some r"
    and frames: "frames (afterReadiness e s) = frames s @ [FDispatchTasks r (buildSessionMap (env_sessions e))]"
    by (auto simp: afterReadiness_def keep push_frame_def split: if_splits can_start_result.splits option.splits)
  have ne: "ready_refs s \<noteq> []" and r: "r = hd (js_sort (ready_order s) (ready_refs s))"
    using sel by (auto simp: selectNextTask_def split: if_splits)
  have "ready_order s r x \<le> 0" if "x \<in> set (ready_refs s)" for x
    using ready_comparator.hd_js_sort_least [OF ne that] r by simp
  moreover have "r \<in> set (ready_refs s)" using ready_comparator.hd_js_sort_in [OF ne] r by simp
  ultimately show ?thesis
    using act allowed frames
    by (intro exI [of _ r] exI [of _ "buildSessionMap (env_sessions e)"])
      (force simp: active_def ready_refs_def ready_order_def split: if_splits)
qed

definition two_ready :: dq where
  "two_ready = qrun (calls [enqueue_call ''TASK-1'', enqueue_call ''TASK-2'', AContinue 0, AContinue 0,
     AContinue 0, AContinue 0, AStart, AContinue 0]) (sample_queue False)"

lemma dispatch_begins_with_best_ready_item_witness:
  "item_statuses two_ready = [(''TASK-1'', Ready), (''TASK-2'', Ready)] \<and>
   (\<exists>r sessions. frames (afterReadiness sample_env two_ready) = frames two_ready @ [FDispatchTasks r sessions] \<and>
      qi_priority (heap two_ready r) = 0)"
proof -
  have st: "item_statuses two_ready = [(''TASK-1'', Ready), (''TASK-2'', Ready)]" by code_simp
  have "length (frames (afterReadiness sample_env two_ready)) \<noteq> length (frames two_ready)" by code_simp
  then have "frames (afterReadiness sample_env two_ready) \<noteq> frames two_ready" by metis
  from dispatch_begins_with_best_ready_item [OF this] obtain r sessions where
    r: "frames (afterReadiness sample_env two_ready) = frames two_ready @ [FDispatchTasks r sessions]"
    and best: "\<forall>x \<in> set (item_refs two_ready). qi_status (heap two_ready x) = Ready \<and>
       \<not> qi_enrichmentPending (heap two_ready x) \<longrightarrow>
         qi_priority (heap two_ready r) < qi_priority (heap two_ready x) \<or>
         qi_priority (heap two_ready r) = qi_priority (heap two_ready x) \<and>
           qi_enqueuedAt (heap two_ready r) \<le> qi_enqueuedAt (heap two_ready x)"
    by blast
  have "(1::ref) \<in> set (item_refs two_ready) \<and> qi_status (heap two_ready 1) = Ready \<and>
      \<not> qi_enrichmentPending (heap two_ready 1) \<and> qi_priority (heap two_ready 1) = 0" by code_simp
  with best have "qi_priority (heap two_ready r) \<le> 0" by fastforce
  moreover have "dispatch_refs (last (frames (afterReadiness sample_env two_ready))) = [1]" by code_simp
  then have "r = 1" using r by simp
  moreover have "qi_priority (heap two_ready 1) = 0" by code_simp
  ultimately show ?thesis using st r by blast
qed

section \<open>Progress\<close>


lemma select_frames [simp]: "selectNextTask (s\<lparr>frames := fs\<rparr>) = selectNextTask s"
proof -
  have "ready_order (s\<lparr>frames := fs\<rparr>) = ready_order s" by (rule ext)+ (simp add: ready_order_def)
  then show ?thesis by (simp add: selectNextTask_def ready_refs_def item_refs_def)
qed













section \<open>Failure propagation\<close>

lemma item_ref_dependents [simp]:
  "item_ref (block_dependent e r i s) = item_ref s" "item_ref (skip_dependent e reason i s) = item_ref s"
  by (auto simp: block_dependent_def skip_dependent_def Let_def fun_eq_iff split: option.split)

lemma status_block_fold:
  "qi_status (heap (fold (block_dependent e r) is s) x) =
     (if \<exists>i \<in> set is. item_ref s i = Some x then Blocked else qi_status (heap s x))"
  by (induction "is" arbitrary: s) (auto simp: block_dependent_def Let_def split: option.splits)

lemma status_skip_fold:
  "qi_status (heap (fold (skip_dependent e reason) is s) x) =
     (if \<exists>i \<in> set is. item_ref s i = Some x then Skipped else qi_status (heap s x))"
  by (induction "is" arbitrary: s) (auto simp: skip_dependent_def Let_def split: option.splits)

lemma item_ref_block_fold [simp]: "item_ref (fold (block_dependent e r) is s) = item_ref s"
  by (induction "is" arbitrary: s) simp_all

lemma mem_deref: "(i, it) \<in> set (deref_items s) \<longleftrightarrow> (\<exists>x. (i, x) \<in> set (items s) \<and> it = heap s x)"
  by (auto simp: deref_items_def)

lemma edges_cong:
  "items t = items s \<Longrightarrow> (\<And>x. qi_blockedBy (heap t x) = qi_blockedBy (heap s x)) \<Longrightarrow>
     dependency_edges (deref_items t) = dependency_edges (deref_items s)"
  by (auto simp: dependency_edges_def mem_deref)

lemma item_ref_mem:
  "distinct (js_map_keys (items s)) \<Longrightarrow> (i, x) \<in> set (items s) \<longleftrightarrow> item_ref s i = Some x"
  by (simp add: item_ref_def js_map_get_def js_map_keys_def)

lemma item_ref_tid: "queue_inv n s \<Longrightarrow> item_ref s i = Some x \<Longrightarrow> qi_taskId (heap s x) = i"
  using item_ref_mem [of s i x] by (fastforce simp: queue_inv_def struct_inv_def)

lemma mem_fail_fast:
  assumes "distinct (js_map_keys (items t))" and "item_ref t i = Some x"
  shows "i \<in> set (fpr_skipped (propagateFailure f (deref_items t) FailFast)) \<longleftrightarrow>
           i \<noteq> f \<and> waiting_status (qi_status (heap t x))"
proof -
  have "(i, it) \<in> set (deref_items t) \<longleftrightarrow> it = heap t x" for it
    using assms by (auto simp: mem_deref item_ref_mem)
  then show ?thesis by (force simp: propagateFailure_def)
qed

lemma mem_skip_dependents:
  assumes "distinct (js_map_keys (items t))" and "item_ref t i = Some x"
  shows "i \<in> set (fpr_blocked (propagateFailure f (deref_items t) SkipDependents)) \<longleftrightarrow>
           (f, i) \<in> (dependency_edges (deref_items t))\<^sup>+ \<and> waiting_status (qi_status (heap t x))"
  using assms findAllDependents_closure [of "deref_items t" f]
  by (simp add: propagateFailure_def Let_def get_deref_items keys_deref_items flip: js_map_keys_def)

text \<open>
  C7: What a failure does to the other items. After \<open>handleTaskFailure\<close> the failed item is
  \<open>failed\<close>; under \<open>fail_fast\<close> exactly the other waiting items become \<open>skipped\<close>, under
  \<open>skip_dependents\<close> exactly the waiting items that depend on the failed one, directly or through
  others, become \<open>blocked\<close> (the comment on the setting and the title of its test speak of direct dependents
  only), and under \<open>continue_all\<close> no other item changes its status.
\<close>

theorem failure_outcome:
  assumes inv: "queue_inv n s" and r: "item_ref s f = Some r" and x: "item_ref s i = Some x"
  shows "qi_status (heap (handleTaskFailure e r err outcome c d s) x) =
           (if i = f then Failed
            else if \<not> waiting_status (qi_status (heap s x)) then qi_status (heap s x)
            else case cfg_failurePropagation (config s) of
                FailFast \<Rightarrow> Skipped
              | SkipDependents \<Rightarrow>
                  if (f, i) \<in> (dependency_edges (deref_items s))\<^sup>+ then Blocked
                  else qi_status (heap s x)
              | ContinueAll \<Rightarrow> qi_status (heap s x))"
proof -
  define mark where "mark = upd_item r (\<lambda>it. it\<lparr>qi_status := Failed, qi_completedAt := Some (env_now e),
      qi_error := Some err, qi_outcome := Some outcome, qi_costUsd := Some c, qi_durationMs := Some d\<rparr>) s"
  define t where "t = emitQueueEvent ''dispatch_queue_task_failed'' f
      (JObj [(''error'', JStr err), (''willRetry'', JBool False)])
      (persist ((queue_event (env_now e) TaskFailed (Some f))
                 \<lparr>qe_outcome := Some outcome, qe_reason := Some err\<rparr>) mark)"
  have tid: "qi_taskId (heap s r) = f" using inv r by (rule item_ref_tid)
  have t: "items t = items s" "item_ref t = item_ref s" "config t = config s"
    "qi_status (heap t y) = (if y = r then Failed else qi_status (heap s y))"
    "qi_blockedBy (heap t y) = qi_blockedBy (heap s y)" for y
    by (simp_all add: t_def mark_def fun_eq_iff)
      (simp_all add: persist_def emitQueueEvent_def upd_item_def)
  have dist: "distinct (js_map_keys (items t))" using inv t(1) by (simp add: queue_inv_def struct_inv_def)
  have xt: "item_ref t i = Some x" using x t(2) by simp
  have edges: "dependency_edges (deref_items t) = dependency_edges (deref_items s)"
    using t(1,5) by (rule edges_cong)
  have same: "x = r \<longleftrightarrow> i = f" using item_ref_tid [OF inv x] r x tid by (metis option.inject)
  have ex: "(\<exists>j \<in> set js. item_ref s j = Some x) \<longleftrightarrow> i \<in> set js" for js
    using item_ref_tid [OF inv] x by blast
  let ?p = "propagateFailure f (deref_items t) (cfg_failurePropagation (config s))"
  have "heap (handleTaskFailure e r err outcome c d s) x =
      heap (fold (skip_dependent e (fpr_reason ?p)) (fpr_skipped ?p)
             (fold (block_dependent e r) (fpr_blocked ?p) t)) x"
    using tid t(3) by (simp add: handleTaskFailure_def Let_def t_def mark_def)
  then have eq: "qi_status (heap (handleTaskFailure e r err outcome c d s) x) =
      (if i \<in> set (fpr_skipped ?p) then Skipped
       else if i \<in> set (fpr_blocked ?p) then Blocked else if i = f then Failed else qi_status (heap s x))"
    by (simp add: status_skip_fold status_block_fold t ex same)
  have wt: "waiting_status (qi_status (heap t x)) \<longleftrightarrow> i \<noteq> f \<and> waiting_status (qi_status (heap s x))"
    using same by (simp add: t(4) waiting_status_def)
  show ?thesis
  proof (cases "cfg_failurePropagation (config s)")
    case FailFast
    have "fpr_blocked (propagateFailure f (deref_items t) FailFast) = []" by (simp add: propagateFailure_def)
    then show ?thesis using mem_fail_fast [OF dist xt, of f] wt unfolding eq FailFast by auto
  next
    case SkipDependents
    have "fpr_skipped (propagateFailure f (deref_items t) SkipDependents) = []"
      by (simp add: propagateFailure_def Let_def)
    then show ?thesis
      using mem_skip_dependents [OF dist xt, of f] wt unfolding eq SkipDependents edges by auto
  next
    case ContinueAll
    then show ?thesis unfolding eq by (simp add: propagateFailure_def)
  qed
qed

lemma failure_outcome_witness:
  "qi_status (heap (handleTaskFailure sample_env 0 ''boom'' ''failed'' 0 0
     (qrun both_enqueued (dependent_queue SkipDependents))) 1) = Blocked"
proof -
  let ?s = "qrun both_enqueued (dependent_queue SkipDependents)"
  have "steps_ok qstep fresh_step both_enqueued (dependent_queue SkipDependents)" by code_simp
  then have inv: "queue_inv 0 ?s"
    unfolding qrun_def dependent_queue_def by (rule lane_machine.run_inv [OF queue_inv_new_queue])
  have refs: "item_ref ?s ''TASK-1'' = Some 0" "item_ref ?s ''TASK-2'' = Some 1"
    "cfg_failurePropagation (config ?s) = SkipDependents" "waiting_status (qi_status (heap ?s 1))"
    by code_simp+
  have "(''TASK-2'', 1) \<in> set (items ?s)" "''TASK-1'' \<in> set (qi_blockedBy (heap ?s 1))" by code_simp+
  then have "(''TASK-1'', ''TASK-2'') \<in> dependency_edges (deref_items ?s)"
    by (auto simp: dependency_edges_def mem_deref)
  then have "(''TASK-1'', ''TASK-2'') \<in> (dependency_edges (deref_items ?s))\<^sup>+" by (rule r_into_trancl)
  then show ?thesis
    using failure_outcome [OF inv refs(1) refs(2), of sample_env "''boom''" "''failed''" 0 0] refs(3,4)
    by simp
qed

text \<open>Actions nobody calls: timers and the resumption of suspended methods.\<close>

fun internal_action :: "action \<Rightarrow> bool" where
  "internal_action (AContinue k) = True"
| "internal_action (ALoopTimer t) = True"
| "internal_action (APollTimer i) = True"
| "internal_action a = False"

definition quiescent :: "dq \<Rightarrow> bool" where
  "quiescent s \<longleftrightarrow> frames s = [] \<and> armedTimers s = [] \<and> pollTimers s = []"

lemma quiescent_step: "quiescent s \<Longrightarrow> internal_action (snd l) \<Longrightarrow> qstep l s = s"
  by (cases l; cases "snd l") (auto simp: quiescent_def qstep_def)

lemma quiescent_run: "quiescent s \<Longrightarrow> list_all (\<lambda>l. internal_action (snd l)) ls \<Longrightarrow> qrun ls s = s"
  unfolding qrun_def by (induction ls) (simp_all add: quiescent_step)

definition failed_run :: "label list" where
  "failed_run = both_enqueued @ dependent_calls ([AStart] @ replicate 8 (AContinue 0)) @
     [(dependent_env (Some \<lparr>mj_status = JFailed, mj_operatorStopCleanupPending = False\<rparr>), APollTimer ''TASK-1'')] @
     dependent_calls (replicate 12 (AContinue 0))"

text \<open>
  Under \<open>continue_all\<close> a failure strands its dependents: after the run \<open>failed_run\<close>, in which
  \<open>TASK-1\<close> fails, its dependent \<open>TASK-2\<close> stays \<open>queued\<close> and the queue stays running for ever, for
  whatever timers and continuations follow and whatever the rest of the system answers.
\<close>

theorem continue_all_strands_dependents:
  assumes "list_all (\<lambda>l. internal_action (snd l)) ls"
  shows "item_statuses (qrun (failed_run @ ls) (dependent_queue ContinueAll)) =
           [(''TASK-1'', Failed), (''TASK-2'', Queued)] \<and>
         running (qrun (failed_run @ ls) (dependent_queue ContinueAll))"
proof -
  have "qrun (failed_run @ ls) (dependent_queue ContinueAll) =
      qrun ls (qrun failed_run (dependent_queue ContinueAll))"
    by (simp add: qrun_def run_steps_append)
  moreover have "quiescent (qrun failed_run (dependent_queue ContinueAll))" by code_simp
  moreover have "item_statuses (qrun failed_run (dependent_queue ContinueAll)) =
      [(''TASK-1'', Failed), (''TASK-2'', Queued)]" by code_simp
  moreover have "running (qrun failed_run (dependent_queue ContinueAll))" by code_simp
  ultimately show ?thesis using quiescent_run assms by simp
qed

lemma continue_all_strands_dependents_witness:
  "running (qrun (failed_run @ calls [AContinue 3, ALoopTimer 0, APollTimer ''TASK-1''])
     (dependent_queue ContinueAll))"
  using continue_all_strands_dependents [of "calls [AContinue 3, ALoopTimer 0, APollTimer ''TASK-1'']"]
  by (simp add: calls_def)

section \<open>Operator calls between two suspensions\<close>

definition blocked_env :: "string \<Rightarrow> env" where
  "blocked_env st = sample_env
     \<lparr>env_tasks := Inr [backlog_task ''TASK-1'' ''P1-HIGH'' [''TASK-9''],
                       (backlog_task ''TASK-9'' ''P1-HIGH'' [])\<lparr>ts_effectiveStatus := st\<rparr>]\<rparr>"

definition before_cancel :: "label list" where
  "before_cancel = map (\<lambda>a. (blocked_env ''BACKLOG'', a)) [enqueue_call ''TASK-1'', AContinue 0, AContinue 0] @
     map (\<lambda>a. (blocked_env ''COMPLETE'', a)) [AStart, AContinue 0]"

text \<open>
  A cancellation can be lost. \<open>TASK-1\<close> is cancelled, with success, while a readiness pass waits
  for the claimant scan of \<open>TASK-1\<close>; the pass marks it ready without looking at its status again
  and the queue starts the cancelled task. No other operator call is involved.
\<close>

theorem cancel_lost_in_readiness_pass:
  "fst (cancel (blocked_env ''COMPLETE'') ''TASK-1'' (qrun before_cancel (sample_queue False))) = True \<and>
   item_statuses (qrun (before_cancel @ [(blocked_env ''COMPLETE'', ACancel ''TASK-1'')]) (sample_queue False))
     = [(''TASK-1'', Stopped)] \<and>
   item_statuses (qrun (before_cancel @ [(blocked_env ''COMPLETE'', ACancel ''TASK-1'')] @
       replicate 6 (blocked_env ''COMPLETE'', AContinue 0)) (sample_queue False))
     = [(''TASK-1'', Running)]"
  by (intro conjI) code_simp+

definition overlapping_passes :: "label list" where
  "overlapping_passes = calls (until_dispatch @
     [enqueue_call ''TASK-2'', AContinue 1, AContinue 2, AContinue 2, AContinue 1, AContinue 1] @
     replicate 7 (AContinue 0))"

text \<open>
  Two overlapping scheduling passes exceed \<open>maxConcurrent\<close>. The guard is asked at the end of
  a readiness pass, not when the dispatch starts; with a limit of 1, a second pass that picks
  \<open>TASK-2\<close> while the dispatch of \<open>TASK-1\<close> is suspended is allowed too, and both tasks run.
\<close>

theorem overlapping_passes_exceed_limit:
  "go_maxConcurrent (g_options (qguard (qrun overlapping_passes (sample_queue False)))) = 1 \<and>
   lanes_in_use (qguard (qrun overlapping_passes (sample_queue False))) = 2 \<and>
   item_statuses (qrun overlapping_passes (sample_queue False)) = [(''TASK-1'', Running), (''TASK-2'', Running)]"
  by (intro conjI) code_simp+

definition removed_run :: "label list" where
  "removed_run = calls (until_dispatch @ [ARemove ''TASK-1'', AContinue 0, AContinue 0, AContinue 0])"

text \<open>
  Removing an item whose dispatch is suspended leaks its lane. \<open>remove\<close> refuses running items
  only; the dispatch goes on with the removed object, starts the job and takes a lane that no item
  of the queue and no watcher will ever release, whatever timers and continuations follow.
\<close>

theorem removed_item_leaks_lane:
  assumes "list_all (\<lambda>l. internal_action (snd l)) ls"
  shows "items (qrun (removed_run @ ls) (sample_queue False)) = [] \<and>
         lanes_in_use (qguard (qrun (removed_run @ ls) (sample_queue False))) = 1 \<and>
         map fst (start_calls (qrun (removed_run @ ls) (sample_queue False))) = [''TASK-1'']"
proof -
  have "qrun (removed_run @ ls) (sample_queue False) = qrun ls (qrun removed_run (sample_queue False))"
    by (simp add: qrun_def run_steps_append)
  moreover have "quiescent (qrun removed_run (sample_queue False))" by code_simp
  moreover have "items (qrun removed_run (sample_queue False)) = []" by code_simp
  moreover have "lanes_in_use (qguard (qrun removed_run (sample_queue False))) = 1" by code_simp
  moreover have "map fst (start_calls (qrun removed_run (sample_queue False))) = [''TASK-1'']" by code_simp
  ultimately show ?thesis using quiescent_run assms by simp
qed

lemma removed_item_leaks_lane_witness:
  "lanes_in_use (qguard (qrun (removed_run @ calls [APollTimer ''TASK-1'', ALoopTimer 0]) (sample_queue False))) = 1"
  using removed_item_leaks_lane [of "calls [APollTimer ''TASK-1'', ALoopTimer 0]"] by (simp add: calls_def)

definition paused_run :: "label list" where
  "paused_run = calls (until_dispatch @ [AContinue 0, AContinue 0, AContinue 0, AContinue 0,
     APause None, AContinue 0, AResume])"

fun pass_frame :: "frame \<Rightarrow> bool" where
  "pass_frame (FReadyTasks sessions) = True"
| "pass_frame FAfterReadiness = True"
| "pass_frame f = False"

text \<open>A single running item, every lane taken, no watcher, and only scheduling passes pending.\<close>

definition orphaned :: "ref \<Rightarrow> dq \<Rightarrow> bool" where
  "orphaned r s \<longleftrightarrow>
     item_refs s = [r] \<and> qi_status (heap s r) = Running \<and> pollTimers s = [] \<and>
     go_maxConcurrent (g_options (qguard s)) \<le> int (gs_runningCount (g_state (qguard s))) \<and>
     list_all pass_frame (frames s)"

lemma orphaned_fields:
  "orphaned r s \<Longrightarrow> orphaned r (s\<lparr>armedTimers := at', loopTimer := lt\<rparr>)"
  "orphaned r s \<Longrightarrow> orphaned r (take_frame k s)"
  "orphaned r s \<Longrightarrow> orphaned r (arm_loop_timer w s)"
  "orphaned r s \<Longrightarrow> pass_frame f \<Longrightarrow> orphaned r (push_frame f s)"
  by (auto simp: orphaned_def take_frame_def arm_loop_timer_def push_frame_def item_refs_def
      list_all_iff dest: in_set_takeD in_set_dropD)

lemma orphaned_pass:
  "orphaned r s \<Longrightarrow> orphaned r (scheduleNext e s)"
  "orphaned r s \<Longrightarrow> orphaned r (beginReadinessLoop tasks sessions s)"
  "orphaned r s \<Longrightarrow> orphaned r (afterReadiness e s)"
proof -
  assume o: "orphaned r s"
  then show "orphaned r (scheduleNext e s)"
    by (simp add: scheduleNext_def scheduleNextAfterReadiness_def orphaned_fields)
  have "next_unvisited [] (needs_readiness s) s = None"
    using o by (simp add: next_unvisited_def orphaned_def needs_readiness_def)
  then show "orphaned r (beginReadinessLoop tasks sessions s)"
    using o by (simp add: beginReadinessLoop_def continueReadiness_def orphaned_fields)
  have "canStart (env_now e) DEFAULT_ESTIMATED_COST (qguard s) = Denied ''concurrency_limit'' 3000"
    using o by (simp add: canStart_def orphaned_def)
  then show "orphaned r (afterReadiness e s)"
    using o by (simp add: afterReadiness_def orphaned_fields)
qed

lemma orphaned_step: "orphaned r s \<Longrightarrow> internal_action (snd l) \<Longrightarrow> orphaned r (qstep l s)"
proof -
  assume o: "orphaned r s" and i: "internal_action (snd l)"
  have resume: "orphaned r (resume_frame e f t)" if "orphaned r t" "pass_frame f" for e f t
    using that by (cases f) (simp_all add: orphaned_pass split: sum.split)
  have "pass_frame (frames s ! k)" if "k < length (frames s)" for k
    using o that by (simp add: orphaned_def list_all_length)
  then show ?thesis
    using o i resume
    by (cases l; cases "snd l") (auto simp: qstep_def orphaned_fields orphaned_pass,
        auto simp: orphaned_def)
qed

interpretation orphan_machine: invariant_machine qstep "\<lambda>l s. internal_action (snd l)" "orphaned r"
  by unfold_locales (rule orphaned_step)

lemma steps_ok_internal:
  "steps_ok qstep (\<lambda>l s. internal_action (snd l)) ls s = list_all (\<lambda>l. internal_action (snd l)) ls"
  by (induction ls arbitrary: s) simp_all

text \<open>
  A pause while the fence settles orphans the job. The job has started under the fence; when
  the queue is paused before the fence releases its reservation, the rest of the dispatch is
  skipped, and after \<open>resume\<close> the task is running with no poll timer: its completion is never
  noticed, whatever timers and continuations follow.
\<close>

theorem pause_during_fence_orphans_job:
  assumes "list_all (\<lambda>l. internal_action (snd l)) ls"
  shows "qi_status (heap (qrun (paused_run @ ls) (sample_queue True)) 0) = Running \<and>
         pollTimers (qrun (paused_run @ ls) (sample_queue True)) = [] \<and>
         map fst (start_calls (qrun paused_run (sample_queue True))) = [''TASK-1'']"
proof -
  have "orphaned 0 (qrun paused_run (sample_queue True))" by code_simp
  then have "orphaned 0 (qrun ls (qrun paused_run (sample_queue True)))"
    unfolding qrun_def
    by (rule orphan_machine.run_inv) (simp add: steps_ok_internal assms)
  moreover have "qrun (paused_run @ ls) (sample_queue True) = qrun ls (qrun paused_run (sample_queue True))"
    by (simp add: qrun_def run_steps_append)
  moreover have "map fst (start_calls (qrun paused_run (sample_queue True))) = [''TASK-1'']" by code_simp
  ultimately show ?thesis by (simp add: orphaned_def)
qed

lemma pause_during_fence_orphans_job_witness:
  "pollTimers (qrun (paused_run @ calls [AContinue 0, AContinue 0, AContinue 0]) (sample_queue True)) = []"
  using pause_during_fence_orphans_job [of "calls [AContinue 0, AContinue 0, AContinue 0]"] by (simp add: calls_def)

end
