(* ===== verification/Queue_Durability.thy ===== *)
theory Queue_Durability
  imports Queue_Samples
begin

text \<open>
  The event log as an implementation of the queue's memory. A restart sends every row that was
  queued, ready or running through the recovery scan and keeps the status of every other row
  (\<open>recover_row\<close>); \<open>recovery_class\<close> is that abstraction of a status. A state is \<open>durable\<close> when the
  log and the snapshot determine, for every task id, what a restart would show. Every public
  operation except \<open>remove\<close> and every timer keeps a durable state durable.
\<close>

definition recovery_class :: "queue_item_status \<Rightarrow> queue_item_status" where
  "recovery_class st = (if st \<in> {Queued, Ready, Running} then RecoveredPendingScan else st)"

lemma recovery_class_simps [simp]:
  "recovery_class Queued = RecoveredPendingScan" "recovery_class Ready = RecoveredPendingScan"
  "recovery_class Running = RecoveredPendingScan"
  "recovery_class RecoveredPendingScan = RecoveredPendingScan"
  "recovery_class AwaitingApproval = AwaitingApproval" "recovery_class Completed = Completed"
  "recovery_class Failed = Failed" "recovery_class Blocked = Blocked"
  "recovery_class Skipped = Skipped" "recovery_class Stopped = Stopped"
  by (simp_all add: recovery_class_def)

definition on_disk :: "dq \<Rightarrow> task_id \<Rightarrow> queue_item_status option" where
  "on_disk s i = map_option (\<lambda>it. recovery_class (qi_status it)) (js_map_get (replay (qdisk s)) i)"

definition in_memory :: "dq \<Rightarrow> task_id \<Rightarrow> queue_item_status option" where
  "in_memory s i = map_option (\<lambda>r. recovery_class (qi_status (heap s r))) (item_ref s i)"

definition durable :: "dq \<Rightarrow> bool" where
  "durable s \<longleftrightarrow> on_disk s = in_memory s"

section \<open>What an event records\<close>

fun event_status :: "queue_event_type \<Rightarrow> queue_item_status option" where
  "event_status TaskEnqueued = Some Queued"
| "event_status TaskReady = Some Ready"
| "event_status TaskStarted = Some Running"
| "event_status TaskAwaitingApproval = Some AwaitingApproval"
| "event_status TaskResumed = Some Running"
| "event_status TaskCompleted = Some Completed"
| "event_status TaskFailed = Some Failed"
| "event_status TaskBlocked = Some Blocked"
| "event_status TaskSkipped = Some Skipped"
| "event_status TaskStopped = Some Stopped"
| "event_status ty = None"

definition status_map :: "item_map \<Rightarrow> task_id \<Rightarrow> queue_item_status option" where
  "status_map m i = map_option qi_status (js_map_get m i)"

lemma status_map_update:
  "status_map m i \<noteq> None \<Longrightarrow> (\<And>it. qi_status (f it) = st) \<Longrightarrow>
     status_map (update_item f i m) = (status_map m)(i \<mapsto> st)"
  by (auto simp: status_map_def update_item_def js_map.get_put fun_eq_iff)

lemma status_map_update_same:
  "(\<And>it. qi_status (f it) = qi_status it) \<Longrightarrow> status_map (update_item f i m) = status_map m"
  by (auto simp: status_map_def update_item_def js_map.get_put fun_eq_iff split: option.split)

lemma status_map_apply:
  assumes "qe_taskId ev = Some i" and "i \<noteq> ''''" and "event_status (qe_type ev) = Some st"
    and "qe_type ev = TaskEnqueued \<or> status_map m i \<noteq> None"
  shows "status_map (apply_event ev m) = (status_map m)(i \<mapsto> st)"
proof (cases "qe_type ev = TaskEnqueued")
  case True
  then show ?thesis using assms(1-3)
    by (auto simp: apply_event_def status_map_def js_map_laws enqueued_item_def fun_eq_iff)
next
  case False
  then show ?thesis using assms
    by (cases "qe_type ev") (simp_all add: apply_event_def status_map_update)
qed

lemma status_map_apply_none:
  "qe_taskId ev = None \<or> event_status (qe_type ev) = None \<Longrightarrow> status_map (apply_event ev m) = status_map m"
  by (cases "qe_type ev")
     (auto simp: apply_event_def status_map_update_same split: option.split)

lemma on_disk_recovered:
  "on_disk s i = map_option recovery_class (status_map (queue_log.recovered (qdisk s)) i)"
  by (simp add: on_disk_def status_map_def replay_recovered get_reset_running option.map_comp)
    (auto simp: comp_def intro!: map_option_cong)

lemma on_disk_persist_none:
  "qe_taskId ev = None \<or> event_status (qe_type ev) = None \<Longrightarrow> on_disk (persist ev s) = on_disk s"
  by (rule ext) (simp add: on_disk_recovered persist_def queue_log.recovered_append status_map_apply_none)

lemma on_disk_persist:
  assumes "qe_taskId ev = Some i" and "i \<noteq> ''''" and "event_status (qe_type ev) = Some st"
    and "qe_type ev = TaskEnqueued \<or> on_disk s i \<noteq> None" and "cfg_persistState (config s)"
  shows "on_disk (persist ev s) = (on_disk s)(i \<mapsto> recovery_class st)"
proof -
  have "qe_type ev = TaskEnqueued \<or> status_map (queue_log.recovered (qdisk s)) i \<noteq> None"
    using assms(4) by (simp add: on_disk_recovered)
  from status_map_apply [OF assms(1-3) this] show ?thesis using assms(5)
    by (auto simp: on_disk_recovered persist_def queue_log.recovered_append fun_eq_iff)
qed

section \<open>The invariant of durable states\<close>

definition kept :: "dq \<Rightarrow> bool" where
  "kept s \<longleftrightarrow>
     durable s \<and> cfg_persistState (config s) \<and> item_ref s '''' = None \<and>
     distinct (js_map_keys (items s)) \<and>
     (\<forall>p \<in> set (items s). snd p < next_ref s \<and> qi_taskId (heap s (snd p)) = fst p)"

definition durability_view ::
  "dq \<Rightarrow> (task_id \<times> ref) list \<times> (ref \<Rightarrow> queue_item_status \<times> task_id) \<times> disk \<times> bool \<times> nat" where
  "durability_view s =
     (items s, \<lambda>r. (recovery_class (qi_status (heap s r)), qi_taskId (heap s r)), qdisk s,
      cfg_persistState (config s), next_ref s)"

lemma kept_view: "durability_view s = durability_view t \<Longrightarrow> kept s = kept t"
  by (simp add: kept_def durable_def durability_view_def on_disk_def [abs_def] in_memory_def [abs_def]
      item_ref_def fun_eq_iff)

lemma kept_same: "durability_view t = durability_view s \<Longrightarrow> kept s \<Longrightarrow> kept t"
  using kept_view [of t s] by simp

named_theorems kept_rules "operations that keep a durable state durable"

lemma view_fields [simp]:
  "durability_view (s\<lparr>qguard := g\<rparr>) = durability_view s"
  "durability_view (s\<lparr>running := b\<rparr>) = durability_view s"
  "durability_view (s\<lparr>paused := b\<rparr>) = durability_view s"
  "durability_view (s\<lparr>pauseReason := pr\<rparr>) = durability_view s"
  "durability_view (s\<lparr>loopTimer := lt\<rparr>) = durability_view s"
  "durability_view (s\<lparr>armedTimers := at'\<rparr>) = durability_view s"
  "durability_view (s\<lparr>next_timer := nt\<rparr>) = durability_view s"
  "durability_view (s\<lparr>pollTimers := pt\<rparr>) = durability_view s"
  "durability_view (s\<lparr>startedAt := sa\<rparr>) = durability_view s"
  "durability_view (s\<lparr>completedAt := ca\<rparr>) = durability_view s"
  "durability_view (s\<lparr>recoveryScan := b\<rparr>) = durability_view s"
  "durability_view (s\<lparr>completionChecks := cc\<rparr>) = durability_view s"
  "durability_view (s\<lparr>dispatchChecks := dc\<rparr>) = durability_view s"
  "durability_view (s\<lparr>emitted := em\<rparr>) = durability_view s"
  "durability_view (s\<lparr>frames := fr\<rparr>) = durability_view s"
  by (simp_all add: durability_view_def)

lemma view_primitives [simp]:
  "durability_view (emitQueueEvent st i p s) = durability_view s"
  "durability_view (push_frame f s) = durability_view s"
  "durability_view (clear_poll_timer i s) = durability_view s"
  "durability_view (ensurePollTimer i s) = durability_view s"
  "durability_view (guard_complete c s) = durability_view s"
  "durability_view (guard_start now s) = durability_view s"
  "durability_view (arm_loop_timer w s) = durability_view s"
  "durability_view (clear_loop_timer s) = durability_view s"
  "durability_view (finish_completion_check i s) = durability_view s"
  "durability_view (ensureRecoveryScan s) = durability_view s"
  "durability_view (scheduleNextAfterReadiness e s) = durability_view s"
  "durability_view (scheduleNext e s) = durability_view s"
  "durability_view (release_lane i r s) = durability_view s"
  by (simp_all add: emitQueueEvent_def push_frame_def clear_poll_timer_def ensurePollTimer_def
      guard_complete_def guard_start_def arm_loop_timer_def clear_loop_timer_def
      finish_completion_check_def ensureRecoveryScan_def scheduleNextAfterReadiness_def
      scheduleNext_def release_lane_def split: option.split)

lemma view_upd_same [simp]:
  "recovery_class (qi_status (f (heap s r))) = recovery_class (qi_status (heap s r)) \<Longrightarrow>
   qi_taskId (f (heap s r)) = qi_taskId (heap s r) \<Longrightarrow>
     durability_view (upd_item r f s) = durability_view s"
  by (auto simp: durability_view_def upd_item_def)

lemma view_beginEnrichment [simp]: "durability_view (beginEnrichment e r kind s) = durability_view s"
  by (simp add: beginEnrichment_def)

text \<open>The two ways to write: a queue event, and an item with the event of its new status.\<close>

lemma in_memory_persist [simp]: "in_memory (persist ev s) = in_memory s"
  by (rule ext) (simp add: in_memory_def)

lemma config_persist [simp]: "config (persist ev s) = config s"
  by (simp add: persist_def)

lemma next_ref_persist [simp]: "next_ref (persist ev s) = next_ref s"
  by (simp add: persist_def)

lemma kept_persist_none [kept_rules]:
  "kept s \<Longrightarrow> qe_taskId ev = None \<or> event_status (qe_type ev) = None \<Longrightarrow> kept (persist ev s)"
  by (simp add: kept_def durable_def on_disk_persist_none)

lemma kept_ref: "kept s \<Longrightarrow> item_ref s i = Some r \<Longrightarrow> qi_taskId (heap s r) = i \<and> i \<noteq> '''' \<and> r < next_ref s"
  using js_map_get_in [of "items s" i r] by (auto simp: kept_def item_ref_def)

lemma kept_record [kept_rules]:
  assumes "kept s" and "item_ref s i = Some r" and "qe_taskId ev = Some i"
    and "event_status (qe_type ev) = Some st" and "recovery_class st = recovery_class (qi_status (f (heap s r)))"
    and "qi_taskId (f (heap s r)) = qi_taskId (heap s r)"
  shows "kept (persist ev (upd_item r f s))"
proof -
  have same: "j = i" if "item_ref s j = Some r" for j
    using kept_ref [OF assms(1) that] kept_ref [OF assms(1,2)] by simp
  have mem: "in_memory (upd_item r f s) = (in_memory s)(i \<mapsto> recovery_class st)"
  proof (rule ext)
    fix j
    show "in_memory (upd_item r f s) j = ((in_memory s)(i \<mapsto> recovery_class st)) j"
    proof (cases "j = i")
      case True
      then show ?thesis using assms(2,5) by (simp add: in_memory_def)
    next
      case False
      then have "item_ref s j \<noteq> Some r" using same by blast
      then show ?thesis using False by (cases "item_ref s j") (auto simp: in_memory_def)
    qed
  qed
  have disk: "on_disk (upd_item r f s) = on_disk s" by (rule ext) (simp add: on_disk_def upd_item_def)
  have dur: "on_disk s = in_memory s" using assms(1) by (simp add: kept_def durable_def)
  have "on_disk (persist ev (upd_item r f s)) = (on_disk (upd_item r f s))(i \<mapsto> recovery_class st)"
    using assms kept_ref [OF assms(1,2)]
    by (intro on_disk_persist) (simp_all add: disk dur in_memory_def, simp_all add: kept_def upd_item_def)
  then have "durable (persist ev (upd_item r f s))" by (simp add: durable_def mem disk dur)
  then show ?thesis using assms(1,6) by (simp add: kept_def) (auto simp: upd_item_def)
qed

lemma kept_alloc:
  assumes "kept s" and "item_ref s i = None" and "i \<noteq> ''''" and "qi_taskId it = i"
    and "qi_status it = Queued" and "qe_taskId ev = Some i" and "qe_type ev = TaskEnqueued"
    and "durability_view t = durability_view (alloc_item i it s)"
  shows "kept (persist ev t)"
proof -
  let ?a = "alloc_item i it s"
  have ref: "item_ref ?a j = (if j = i then Some (next_ref s) else item_ref s j)" for j
    by (simp add: item_ref_def alloc_item_def js_map.get_put)
  have bound: "item_ref s j = Some r \<Longrightarrow> r < next_ref s" for j r using kept_ref [OF assms(1)] by blast
  have "in_memory ?a = (in_memory s)(i \<mapsto> RecoveredPendingScan)"
  proof (rule ext)
    fix j
    show "in_memory ?a j = ((in_memory s)(i \<mapsto> RecoveredPendingScan)) j"
      using assms(5) bound [of j] by (cases "item_ref s j") (auto simp: in_memory_def ref, auto simp: alloc_item_def)
  qed
  moreover have "on_disk ?a = on_disk s" by (rule ext) (simp add: on_disk_def alloc_item_def)
  moreover have "on_disk (persist ev ?a) = (on_disk ?a)(i \<mapsto> RecoveredPendingScan)"
    using assms on_disk_persist [of ev i Queued ?a] by (simp add: kept_def alloc_item_def)
  ultimately have "durable (persist ev ?a)" using assms(1) by (simp add: durable_def kept_def)
  moreover have "distinct (js_map_keys (items ?a))"
    using assms(1) by (simp add: kept_def alloc_item_def js_map.distinct_put)
  moreover have "\<forall>p \<in> set (items ?a). snd p < next_ref ?a \<and> qi_taskId (heap ?a (snd p)) = fst p"
    using assms(1,4) set_js_map_set [of i "next_ref s" "items s"]
    by (fastforce simp: kept_def alloc_item_def)
  moreover have "item_ref ?a '''' = None" using assms(1,3) by (simp add: ref kept_def)
  moreover have "cfg_persistState (config ?a)" using assms(1) by (simp add: kept_def alloc_item_def)
  ultimately have "kept (persist ev ?a)" by (simp add: kept_def item_ref_def)
  moreover have "durability_view (persist ev t) = durability_view (persist ev ?a)"
    using assms(8) by (auto simp: durability_view_def persist_def fun_eq_iff)
  ultimately show ?thesis by (rule kept_same [rotated])
qed

section \<open>Operations\<close>

lemma kept_fields [simp]:
  "kept (s\<lparr>running := b\<rparr>) = kept s" "kept (s\<lparr>paused := b\<rparr>) = kept s"
  "kept (s\<lparr>pauseReason := pr\<rparr>) = kept s" "kept (s\<lparr>startedAt := sa\<rparr>) = kept s"
  "kept (s\<lparr>completedAt := ca\<rparr>) = kept s" "kept (s\<lparr>completionChecks := cc\<rparr>) = kept s"
  "kept (s\<lparr>loopTimer := lt\<rparr>) = kept s" "kept (s\<lparr>armedTimers := at'\<rparr>) = kept s"
  by (rule kept_view; simp)+

lemma kept_primitives [simp]:
  "kept (emitQueueEvent st i p s) = kept s"
  "kept (push_frame f s) = kept s"
  "kept (clear_poll_timer i s) = kept s"
  "kept (ensurePollTimer i s) = kept s"
  "kept (guard_complete c s) = kept s"
  "kept (clear_loop_timer s) = kept s"
  "kept (finish_completion_check i s) = kept s"
  "kept (ensureRecoveryScan s) = kept s"
  "kept (scheduleNextAfterReadiness e s) = kept s"
  "kept (scheduleNext e s) = kept s"
  "kept (release_lane i r s) = kept s"
  by (rule kept_view; simp)+

lemma item_ref_more [simp]:
  "item_ref (clear_poll_timer i s) = item_ref s" "item_ref (guard_complete c s) = item_ref s"
  "item_ref (release_lane i r s) = item_ref s" "item_ref (ensurePollTimer i s) = item_ref s"
  "item_ref (finish_completion_check i s) = item_ref s"
  by (simp_all add: fun_eq_iff item_ref_def clear_poll_timer_def guard_complete_def release_lane_def
      ensurePollTimer_def finish_completion_check_def)

lemma kept_compact: "kept s \<Longrightarrow> kept (s\<lparr>qdisk := compact (deref_items s) (qdisk s)\<rparr>)"
proof (cases "MAX_LOG_LINES \<le> countLines (qdisk s)")
  case False
  then have "compact (deref_items s) (qdisk s) = qdisk s" by (simp add: compact_def)
  moreover assume "kept s"
  ultimately show ?thesis by simp
next
  case True
  assume k: "kept s"
  then have "items_wf (deref_items s)"
    by (simp add: kept_def items_wf_def keys_deref_items) (auto simp: deref_items_def)
  then have "replay (compact (deref_items s) (qdisk s)) = reset_running (deref_items s)"
    using True by (rule replay_compact)
  then have "on_disk (s\<lparr>qdisk := compact (deref_items s) (qdisk s)\<rparr>) i = in_memory s i" for i
    by (cases "item_ref s i") (simp_all add: on_disk_def in_memory_def get_reset_running get_deref_items)
  then show ?thesis using k
    by (auto simp: kept_def durable_def in_memory_def [abs_def] item_ref_def)
qed

lemma kept_lifecycle [kept_rules]:
  "kept s \<Longrightarrow> kept (checkDrained e s)"
  "kept s \<Longrightarrow> kept (pause e reason s)"
  "kept s \<Longrightarrow> kept (stop e s)"
  by (simp_all add: checkDrained_def pause_def stop_def Let_def kept_persist_none kept_compact)

lemma kept_start [kept_rules]:
  "kept s \<Longrightarrow> kept (start_body e s)" "kept s \<Longrightarrow> kept (start e s)"
  "kept s \<Longrightarrow> kept (resume_body e s)" "kept s \<Longrightarrow> kept (resume e s)"
  by (simp_all add: start_body_def start_def resume_body_def resume_def Let_def kept_persist_none
      kept_lifecycle)

lemma kept_mark_stopped: "kept s \<Longrightarrow> item_ref s i = Some r \<Longrightarrow> kept (mark_stopped e i r s)"
  by (auto simp: mark_stopped_def intro!: kept_record)

lemma kept_cancel: "kept s \<Longrightarrow> kept (snd (cancel e i s))"
  by (simp add: cancel_def kept_mark_stopped split: option.split)

lemma kept_abort: "kept s \<Longrightarrow> kept (snd (abort e s))"
proof -
  assume k: "kept s"
  let ?s1 = "clear_loop_timer (s\<lparr>running := False, paused := False\<rparr>)"
  have keep: "items (mark_stopped e i r (release_lane i r t)) = items t"
    "items (ensurePollTimer i t) = items t" for i r t
    by (simp_all add: mark_stopped_def release_lane_def ensurePollTimer_def clear_poll_timer_def
        guard_complete_def persist_def upd_item_def)
  have one: "kept (snd (abort_one e p acc)) \<and> items (snd (abort_one e p acc)) = items (snd acc)"
    if "kept (snd acc)" "p \<in> set (items (snd acc))" for p acc
  proof -
    obtain i r where p: "p = (i, r)" by (cases p)
    have "item_ref (snd acc) i = Some r"
      using that by (simp add: p kept_def item_ref_def js_map_get_of_mem)
    then show ?thesis using that(1)
      by (cases acc) (simp add: p abort_one_def kept_mark_stopped keep)
  qed
  have "kept (snd (fold (abort_one e) ps acc))" if "kept (snd acc)" "set ps \<subseteq> set (items (snd acc))" for ps acc
    using that by (induction ps arbitrary: acc) (auto simp: one)
  then have "kept (snd (fold (abort_one e) (items ?s1) (True, ?s1)))" using k by simp
  then show ?thesis by (simp add: abort_def Let_def case_prod_beta)
qed

lemma kept_retry: "kept s \<Longrightarrow> kept (snd (retry e i check s))"
  by (auto simp: retry_def Let_def enqueued_event_def intro!: kept_record split: option.split sum.split)

lemma kept_outcomes [kept_rules]:
  "kept s \<Longrightarrow> item_ref s i = Some r \<Longrightarrow> kept (handleTaskAwaitingApproval e r s)"
  "kept s \<Longrightarrow> item_ref s i = Some r \<Longrightarrow> kept (handleTaskResumed e r allow s)"
  "kept s \<Longrightarrow> item_ref s i = Some r \<Longrightarrow> kept (handleTaskSuccess e r outcome c d s)"
  "kept s \<Longrightarrow> item_ref s i = Some r \<Longrightarrow> kept (handleTaskBlocked e r reason outcome c d s)"
  using kept_ref [of s i r]
  by (auto simp: handleTaskAwaitingApproval_def handleTaskResumed_def handleTaskSuccess_def
      handleTaskBlocked_def Let_def intro!: kept_record [of _ i])

lemma kept_dependents:
  "kept s \<Longrightarrow> kept (block_dependent e r i s)" "kept s \<Longrightarrow> kept (skip_dependent e reason i s)"
  by (auto simp: block_dependent_def skip_dependent_def Let_def intro!: kept_record [of _ i] split: option.split)

lemma kept_failure [kept_rules]:
  assumes "kept s" and "item_ref s i = Some r"
  shows "kept (handleTaskFailure e r err outcome c d s)"
proof -
  have blocks: "kept t \<Longrightarrow> kept (fold (block_dependent e r) is t)" for "is" t
    by (induction "is" arbitrary: t) (simp_all add: kept_dependents)
  have skips: "kept t \<Longrightarrow> kept (fold (skip_dependent e reason) is t)" for "is" t reason
    by (induction "is" arbitrary: t) (simp_all add: kept_dependents)
  show ?thesis
    using assms kept_ref [OF assms]
    by (auto simp: handleTaskFailure_def Let_def intro!: kept_lifecycle blocks skips kept_record [of _ i])
qed

lemma kept_completion: "kept s \<Longrightarrow> kept (checkTaskCompletion e i s)"
proof -
  assume k: "kept s"
  have "kept (settle_finished_job e i r job t)" if "kept t" "item_ref t i = Some r" for r job t
    using that by (simp add: settle_finished_job_def Let_def kept_outcomes [of _ i] kept_failure [of _ i])
  then show ?thesis
    using k by (simp add: checkTaskCompletion_def Let_def kept_outcomes [of _ i] item_ref_def split: option.split)
qed

lemma kept_gates:
  "kept s \<Longrightarrow> kept (snd (recordApprovalResume e i released s))"
  "kept s \<Longrightarrow> kept (snd (settleApprovalRejection e i reason outcome released s))"
  "kept s \<Longrightarrow> kept (snd (requeueApprovalResume e i reason s))"
  by (auto simp: recordApprovalResume_def settleApprovalRejection_def requeueApprovalResume_def Let_def
      set_status_def intro!: kept_outcomes kept_failure kept_record split: option.split)

lemma kept_enqueue: "kept s \<Longrightarrow> tid \<noteq> '''' \<Longrightarrow> kept (snd (enqueue e tid opts check s))"
proof -
  assume k: "kept s" and tid: "tid \<noteq> ''''"
  have "kept (persist (enqueued_event ts tid it) (beginEnrichment e (next_ref s) EnrichBegin
      (alloc_item tid (new_item e tid opts) s)))" if "item_ref s tid = None" for ts it
    by (rule kept_alloc [OF k that tid]) (simp_all add: new_item_def enqueued_event_def)
  then show ?thesis using k
    by (simp add: enqueue_def Let_def kept_start split: sum.split)
qed

lemma kept_batches:
  "kept s \<Longrightarrow> '''' \<notin> set tids \<Longrightarrow> kept (snd (enqueueMultiple e tids opts checks s))"
  "kept s \<Longrightarrow> '''' \<notin> set tids \<Longrightarrow> kept (snd (enqueueSubtasks e parent tids opts checks s))"
  unfolding enqueueMultiple_def enqueueSubtasks_def
  by (rule enqueue_each_keeps enqueue_subtasks_each_keeps; metis kept_enqueue)+

lemma kept_updateConfig:
  "kept s \<Longrightarrow> pc_persistState p \<noteq> Some False \<Longrightarrow> kept (updateConfig e p s)"
proof -
  assume k: "kept s" and p: "pc_persistState p \<noteq> Some False"
  have "durability_view (s\<lparr>config := merge_config p (config s),
      qguard := updateOptions (guard_options_of (merge_config p (config s))) (qguard s)\<rparr>) = durability_view s"
    using k p by (auto simp: durability_view_def merge_config_def kept_def split: option.split)
  then have "kept (s\<lparr>config := merge_config p (config s),
      qguard := updateOptions (guard_options_of (merge_config p (config s))) (qguard s)\<rparr>)"
    using k by (rule kept_same)
  then show ?thesis by (simp add: updateConfig_def Let_def kept_persist_none)
qed

text \<open>The calls and timers; an empty task id is ignored by the replay, so it may not be enqueued.\<close>

fun durable_action :: "action \<Rightarrow> bool" where
  "durable_action (AEnqueue i opts check) = (i \<noteq> '''')"
| "durable_action (AEnqueueMultiple ids opts checks) = ('''' \<notin> set ids)"
| "durable_action (AEnqueueSubtasks parent ids opts checks) = ('''' \<notin> set ids)"
| "durable_action (ARemove i) = False"
| "durable_action (AUpdateConfig p) = (pc_persistState p \<noteq> Some False)"
| "durable_action (AContinue k) = False"
| "durable_action a = True"

lemma kept_step: "kept s \<Longrightarrow> durable_action a \<Longrightarrow> kept (qstep (e, a) s)"
  by (cases a)
     (simp_all add: qstep_def kept_enqueue kept_batches kept_start kept_lifecycle kept_abort kept_cancel
        kept_retry kept_gates kept_updateConfig kept_completion)

lemma kept_run: "kept s \<Longrightarrow> list_all (\<lambda>l. durable_action (snd l)) ls \<Longrightarrow> kept (qrun ls s)"
  unfolding qrun_def
proof (induction ls arbitrary: s)
  case (Cons l ls)
  then show ?case using kept_step [of s "snd l" "fst l"] by simp
qed simp

section \<open>Restarting\<close>

lemma view_recover_rows: "durability_view (fold (recover_row e) rs s) = durability_view s"
proof (induction rs arbitrary: s)
  case Nil
  then show ?case by simp
next
  case (Cons r rs)
  have "durability_view (recover_row e r s) = durability_view s"
    by (auto simp: recover_row_def set_status_def)
  then show ?case using Cons by simp
qed

lemma in_memory_view: "durability_view t = durability_view s \<Longrightarrow> in_memory t = in_memory s"
  by (simp add: durability_view_def in_memory_def [abs_def] item_ref_def fun_eq_iff)

lemma in_memory_deref:
  "in_memory s i = map_option (\<lambda>it. recovery_class (qi_status it)) (js_map_get (deref_items s) i)"
  by (cases "item_ref s i") (simp_all add: in_memory_def get_deref_items)

text \<open>A restart shows what the disk holds.\<close>

lemma in_memory_new_queue:
  assumes "cfg_persistState c"
  shows "in_memory (new_queue e c fence d) i =
           map_option (\<lambda>it. recovery_class (qi_status it)) (js_map_get (replay d) i)"
proof (cases "replay d = []")
  case True
  then show ?thesis using assms by (simp add: new_queue_def recoverState_def in_memory_def item_ref_def)
next
  case False
  let ?s1 = "fold load_item (replay d) (empty_queue c fence d)"
  have "loaded [] (empty_queue c fence d)"
    by (simp add: loaded_def deref_items_def item_refs_def js_map_values_def)
  then have l: "deref_items ?s1 = replay d"
    using load_items [of "[]" "replay d" "empty_queue c fence d" 0] items_wf_replay queue_inv_empty
      start_inv_empty by (simp add: loaded_def)
  obtain p where "new_queue e c fence d = emitQueueEvent ''dispatch_queue_recovered'' '''' p
      (ensureRecoveryScan (fold (recover_row e) (item_refs ?s1) ?s1))"
    using False assms by (simp add: new_queue_def recoverState_def Let_def)
  then have "in_memory (new_queue e c fence d) = in_memory ?s1"
    by (intro in_memory_view) (simp add: view_recover_rows)
  then show ?thesis by (simp only: in_memory_deref l)
qed

text \<open>Equal rows, in order, are enough for a state to be durable.\<close>

lemma durable_rows:
  assumes "map (\<lambda>(i, it). (i, recovery_class (qi_status it))) (replay (qdisk s))
         = map (\<lambda>(i, it). (i, recovery_class (qi_status it))) (deref_items s)"
  shows "durable s"
proof -
  have "map_option (\<lambda>it. recovery_class (qi_status it)) (js_map_get m i) =
      map_of (map (\<lambda>(i, it). (i, recovery_class (qi_status it))) m) i" for m :: item_map and i
    by (induction m) (auto simp: js_map_get_def)
  then show ?thesis using assms by (auto simp: durable_def on_disk_def in_memory_deref fun_eq_iff)
qed

section \<open>Properties\<close>

text \<open>
  C8: Durability of the calls. Let the queue persist its state, no row have an empty id, and the disk determine
  the queue up to recovery (queued, ready and running rows all return as rows to be scanned). Then after any
  sequence of timers and of calls of the public interface, each up to its first suspension, a queue constructed
  from the disk shows the same statuses: after completions, failures with their propagation, approval
  decisions, cancellations, aborts, retries, enqueues. Three calls are excepted: \<open>remove\<close> (it writes no
  event), \<open>updateConfig\<close> when it turns persistence off, and enqueueing an empty id. The resumption of a
  suspended method is not covered: a dispatch refused for its claimants blocks its item without an event.
\<close>

theorem restart_restores_queue:
  assumes "kept s" and "cfg_persistState c"
    and "list_all (\<lambda>(e, a). case a of
           AContinue k \<Rightarrow> False
         | ARemove i \<Rightarrow> False
         | AUpdateConfig p \<Rightarrow> pc_persistState p \<noteq> Some False
         | AEnqueue i opts check \<Rightarrow> i \<noteq> ''''
         | AEnqueueMultiple ids opts checks \<Rightarrow> '''' \<notin> set ids
         | AEnqueueSubtasks parent ids opts checks \<Rightarrow> '''' \<notin> set ids
         | _ \<Rightarrow> True) ls"
  shows "in_memory (new_queue e' c fence (qdisk (qrun ls s))) = in_memory (qrun ls s)"
proof -
  have "list_all (\<lambda>l. durable_action (snd l)) ls"
    using assms(3)
  proof (rule list.pred_mono_strong)
    fix l
    assume "case l of (e, a) \<Rightarrow> case a of
           AContinue k \<Rightarrow> False
         | ARemove i \<Rightarrow> False
         | AUpdateConfig p \<Rightarrow> pc_persistState p \<noteq> Some False
         | AEnqueue i opts check \<Rightarrow> i \<noteq> ''''
         | AEnqueueMultiple ids opts checks \<Rightarrow> '''' \<notin> set ids
         | AEnqueueSubtasks parent ids opts checks \<Rightarrow> '''' \<notin> set ids
         | _ \<Rightarrow> True"
    then show "durable_action (snd l)" by (cases l; cases "snd l") auto
  qed
  then have "kept (qrun ls s)" using kept_run assms(1) by blast
  then show ?thesis
    using assms(2) by (simp add: kept_def durable_def in_memory_new_queue on_disk_def fun_eq_iff)
qed

lemma keptI:
  assumes "map (\<lambda>(i, it). (i, recovery_class (qi_status it))) (replay (qdisk s))
         = map (\<lambda>(i, it). (i, recovery_class (qi_status it))) (deref_items s)"
    and "cfg_persistState (config s)" and "item_ref s '''' = None" and "distinct (js_map_keys (items s))"
    and "list_all (\<lambda>p. snd p < next_ref s \<and> qi_taskId (heap s (snd p)) = fst p) (items s)"
  shows "kept s"
  using assms durable_rows [OF assms(1)] by (simp add: kept_def list_all_iff)

lemma kept_dependent_running: "kept (dependent_running SkipDependents)"
  by (rule keptI) code_simp+

lemma restart_restores_queue_witness:
  "in_memory (new_queue sample_env sample_config False
     (qdisk (qrun [(dependent_env (Some failed_job), APollTimer ''TASK-1'')] (dependent_running SkipDependents))))
       ''TASK-2'' = Some Blocked"
proof -
  have "in_memory (qrun [(dependent_env (Some failed_job), APollTimer ''TASK-1'')]
      (dependent_running SkipDependents)) ''TASK-2'' = Some Blocked" by code_simp
  moreover have "cfg_persistState sample_config" by code_simp
  ultimately show ?thesis
    using restart_restores_queue [OF kept_dependent_running, of sample_config
        "[(dependent_env (Some failed_job), APollTimer ''TASK-1'')]" sample_env False] by simp
qed

text \<open>
  A dispatch that its claimant scan refuses blocks the item in memory only: the log and the snapshot are
  the ones from before.
\<close>

lemma contested_dispatch_not_recorded:
  assumes "may_dispatch s r" and "contested_checks (scanDuplicateClaimants e ids) ids \<noteq> []"
  shows "qi_status (heap (dispatchScanned e r deps ids s) r) = Blocked \<and>
         qdisk (dispatchScanned e r deps ids s) = qdisk s"
  using assms
  by (simp add: dispatchScanned_def Let_def)
    (simp add: finish_dispatch_def refuse_contested_def set_blockedBy_def setDuplicateQuarantine_def
      emitQueueEvent_def set_status_def upd_item_def Let_def)

text \<open>
  Removal is not durable. \<open>remove\<close> writes no event: the row it drops from a durable queue is
  back, with the status it had, as soon as a queue is constructed from the disk.
\<close>

theorem removed_row_returns:
  assumes "kept s" and "fst (remove i s)" and "cfg_persistState c"
  shows "in_memory (snd (remove i s)) i = None \<and>
         in_memory (new_queue e c fence (qdisk (snd (remove i s)))) i = in_memory s i \<and>
         in_memory s i \<noteq> None"
proof -
  obtain r where r: "item_ref s i = Some r" and rem: "snd (remove i s) = s\<lparr>items := js_map_delete i (items s)\<rparr>"
    using assms(2) by (auto simp: remove_def split: option.splits if_splits)
  have "on_disk s = in_memory s" using assms(1) by (simp add: kept_def durable_def)
  then show ?thesis
    using r assms(3)
    by (simp add: rem in_memory_new_queue on_disk_def fun_eq_iff)
      (simp add: in_memory_def item_ref_def js_map.get_del)
qed

lemma removed_row_returns_witness:
  "in_memory (snd (remove ''TASK-2'' (dependent_running SkipDependents))) ''TASK-2'' = None \<and>
   in_memory (new_queue sample_env sample_config False
     (qdisk (snd (remove ''TASK-2'' (dependent_running SkipDependents))))) ''TASK-2'' = Some RecoveredPendingScan"
proof -
  have "fst (remove ''TASK-2'' (dependent_running SkipDependents))" by code_simp
  moreover have "cfg_persistState sample_config" by code_simp
  moreover have "in_memory (dependent_running SkipDependents) ''TASK-2'' = Some RecoveredPendingScan"
    by code_simp
  ultimately show ?thesis
    using removed_row_returns [OF kept_dependent_running, of "''TASK-2''" sample_config sample_env False]
    by simp
qed

text \<open>
  A retry is forgotten by a restart. A successful \<open>retry\<close> increments the item's retry count
  in memory; it is logged as a fresh enqueue, so the replay gives the row a count of 0.
\<close>

theorem retry_count_lost_on_restart:
  assumes "kept s" and "item_ref s i = Some r" and "fst (retry e i check s) = Inr True"
  shows "qi_retryCount (heap (snd (retry e i check s)) r) = Suc (qi_retryCount (heap s r)) \<and>
         (\<exists>it. js_map_get (replay (qdisk (snd (retry e i check s)))) i = Some it \<and> qi_retryCount it = 0)"
proof -
  let ?s1 = "upd_item r (\<lambda>it. it\<lparr>qi_status := Queued, qi_retryCount := qi_retryCount it + 1,
      qi_error := None, qi_outcome := None\<rparr>) s"
  let ?s2 = "persist (enqueued_event (env_now e) i (heap ?s1 r)) ?s1"
  have eq: "snd (retry e i check s) = (if active ?s2 then scheduleNext e ?s2 else ?s2)"
    using assms(2,3) by (auto simp: retry_def Let_def split: sum.splits if_splits)
  have same: "heap (snd (retry e i check s)) = heap ?s2" "qdisk (snd (retry e i check s)) = qdisk ?s2"
    by (simp_all add: eq) (simp add: scheduleNext_def scheduleNextAfterReadiness_def push_frame_def)
  have i: "i \<noteq> ''''" and cfg: "cfg_persistState (config s)"
    using kept_ref [OF assms(1,2)] assms(1) by (simp_all add: kept_def)
  have "js_map_get (queue_log.recovered (qdisk ?s2)) i =
      Some (enqueued_item i (enqueued_event (env_now e) i (heap ?s1 r)))"
    using i cfg by (simp add: persist_def queue_log.recovered_append apply_event_def
        enqueued_event_def js_map.get_put) (simp add: upd_item_def)
  then show ?thesis
    by (simp add: same replay_recovered get_reset_running) (simp add: enqueued_item_def)
qed

definition after_failure :: dq where
  "after_failure = qstep (dependent_env (Some failed_job), APollTimer ''TASK-1'') (dependent_running SkipDependents)"

lemma retry_count_lost_on_restart_witness:
  "qi_retryCount (heap (snd (retry sample_env ''TASK-1'' None after_failure)) 0) = 1 \<and>
   (\<exists>it. js_map_get (replay (qdisk (snd (retry sample_env ''TASK-1'' None after_failure)))) ''TASK-1'' = Some it \<and>
      qi_retryCount it = 0)"
proof -
  have "kept after_failure"
    unfolding after_failure_def by (rule kept_step [OF kept_dependent_running]) simp
  moreover have "item_ref after_failure ''TASK-1'' = Some 0" by code_simp
  moreover have "fst (retry sample_env ''TASK-1'' None after_failure) = Inr True" by code_simp
  moreover have "qi_retryCount (heap after_failure 0) = 0" by code_simp
  ultimately show ?thesis
    using retry_count_lost_on_restart [of after_failure "''TASK-1''" 0 sample_env None] by simp
qed

text \<open>
  C9: Compaction. Once the log has at least 10000 lines, compacting it with the queue's items moves the
  log to the archives and leaves an empty one beside a snapshot; from the two the recovery computes those very
  items, in order, with the running ones queued again. Below the limit the disk is left alone.
\<close>

theorem compaction_preserves_recovery:
  assumes "queue_inv n s"
  shows "if countLines (qdisk s) < 10000 then compact (deref_items s) (qdisk s) = qdisk s
         else dk_log (compact (deref_items s) (qdisk s)) = Some [] \<and>
              Some (last (dk_archives (compact (deref_items s) (qdisk s)))) = dk_log (qdisk s) \<and>
              butlast (dk_archives (compact (deref_items s) (qdisk s))) = dk_archives (qdisk s) \<and>
              replay (compact (deref_items s) (qdisk s)) =
                map (\<lambda>(i, it). (i, if qi_status it = Running then it\<lparr>qi_status := Queued\<rparr> else it))
                  (deref_items s)"
proof (cases "countLines (qdisk s) < 10000")
  case True
  then show ?thesis by (simp add: compact_def MAX_LOG_LINES_def)
next
  case False
  then obtain log where log: "dk_log (qdisk s) = Some log"
    by (auto simp: countLines_def split: option.splits)
  have "items_wf (deref_items s)"
    using assms by (simp add: items_wf_def keys_deref_items queue_inv_def struct_inv_def)
      (auto simp: deref_items_def)
  then have "replay (compact (deref_items s) (qdisk s)) = reset_running (deref_items s)"
    using False by (simp add: replay_compact MAX_LOG_LINES_def)
  then show ?thesis using False log by (simp add: compact_def MAX_LOG_LINES_def reset_running_def)
qed

definition full_log :: disk where
  "full_log = \<lparr>dk_log = Some (replicate 10000 (LogEvent (queue_event 0 QueueResumed None))),
     dk_snapshot = None, dk_archives = []\<rparr>"

lemma compaction_preserves_recovery_witness:
  "dk_log (compact (deref_items (empty_queue sample_config False full_log))
     (qdisk (empty_queue sample_config False full_log))) = Some [] \<and>
   replay (compact (deref_items (empty_queue sample_config False full_log))
     (qdisk (empty_queue sample_config False full_log))) = []"
proof -
  let ?s = "empty_queue sample_config False full_log"
  have "\<not> countLines (qdisk ?s) < 10000" "deref_items ?s = []"
    by (simp_all add: empty_queue_def countLines_def full_log_def deref_items_def)
  then show ?thesis
    using compaction_preserves_recovery [OF queue_inv_empty, of sample_config False full_log] by simp
qed

text \<open>
  Recovery never resurrects a running dispatch: whatever the log and the snapshot hold,
  corrupt or not, the replayed items have distinct ids, are stored under their own ids, and none
  is \<open>running\<close>.
\<close>

theorem replay_well_formed:
  "distinct (js_map_keys (replay d)) \<and>
   list_all (\<lambda>(i, it). qi_taskId it = i \<and> qi_status it \<noteq> Running) (replay d)"
proof -
  have "items_wf (replay d)" by (rule items_wf_replay)
  then show ?thesis
    using reset_running_no_running by (auto simp: items_wf_def list_all_iff replay_def)
qed

end
