(* ===== verification/Workflow_Machine.thy ===== *)
theory Workflow_Machine
  imports Task_Status
begin

text \<open>
  The canonical workflow of a task (\<open>src/workflow/workflow-state-types.ts\<close> and
  \<open>src/workflow/workflow-state-machine.ts\<close>): its states, the reasons a state may be blocked for,
  the transition table, the validation of one transition and of a task's status. The validated
  transitions form a step relation, whose paths are characterised from the submission on.
\<close>

section \<open>States and codes\<close>

datatype workflow_state =
    W_submitted | W_classified | W_routed | W_assigned | W_executing | W_verify_fix | W_reviewing
  | W_docs_followup | W_verified | W_merge_ready | W_merged | W_blocked | W_failed | W_rejected
  | W_canceled

definition CANONICAL_WORKFLOW_STATES :: "workflow_state list" where
  "CANONICAL_WORKFLOW_STATES =
     [W_submitted, W_classified, W_routed, W_assigned, W_executing, W_verify_fix, W_reviewing,
      W_docs_followup, W_verified, W_merge_ready, W_merged, W_blocked, W_failed, W_rejected,
      W_canceled]"

fun workflow_state_name :: "workflow_state \<Rightarrow> string" where
  "workflow_state_name W_submitted = ''submitted''"
| "workflow_state_name W_classified = ''classified''"
| "workflow_state_name W_routed = ''routed''"
| "workflow_state_name W_assigned = ''assigned''"
| "workflow_state_name W_executing = ''executing''"
| "workflow_state_name W_verify_fix = ''verify_fix''"
| "workflow_state_name W_reviewing = ''reviewing''"
| "workflow_state_name W_docs_followup = ''docs_followup''"
| "workflow_state_name W_verified = ''verified''"
| "workflow_state_name W_merge_ready = ''merge_ready''"
| "workflow_state_name W_merged = ''merged''"
| "workflow_state_name W_blocked = ''blocked''"
| "workflow_state_name W_failed = ''failed''"
| "workflow_state_name W_rejected = ''rejected''"
| "workflow_state_name W_canceled = ''canceled''"

definition CANONICAL_LANES :: "string list" where
  "CANONICAL_LANES = [''auto'', ''guarded_auto'', ''human_required'']"

definition CANONICAL_RISK_LEVELS :: "string list" where
  "CANONICAL_RISK_LEVELS = [''low'', ''medium'', ''high'']"

datatype block_reason =
    PendingRemoteListener | PendingManualHandoff | PendingReview | PendingWikiArtifacts
  | ReviewLinkageRequired | HostUnhealthy | WorkflowAttemptsExhausted | NonCanonicalStatus
  | ChecklistMismatch | UnresolvedHighFinding | MissingSupportCandidates

definition CANONICAL_BLOCK_REASON_CODES :: "block_reason list" where
  "CANONICAL_BLOCK_REASON_CODES =
     [PendingRemoteListener, PendingManualHandoff, PendingReview, PendingWikiArtifacts,
      ReviewLinkageRequired, HostUnhealthy, WorkflowAttemptsExhausted, NonCanonicalStatus,
      ChecklistMismatch, UnresolvedHighFinding, MissingSupportCandidates]"

fun block_reason_name :: "block_reason \<Rightarrow> string" where
  "block_reason_name PendingRemoteListener = ''pending_remote_listener''"
| "block_reason_name PendingManualHandoff = ''pending_manual_handoff''"
| "block_reason_name PendingReview = ''pending_review''"
| "block_reason_name PendingWikiArtifacts = ''pending_wiki_artifacts''"
| "block_reason_name ReviewLinkageRequired = ''review_linkage_required''"
| "block_reason_name HostUnhealthy = ''host_unhealthy''"
| "block_reason_name WorkflowAttemptsExhausted = ''workflow_attempts_exhausted''"
| "block_reason_name NonCanonicalStatus = ''non_canonical_status''"
| "block_reason_name ChecklistMismatch = ''checklist_mismatch''"
| "block_reason_name UnresolvedHighFinding = ''unresolved_high_finding''"
| "block_reason_name MissingSupportCandidates = ''missing_support_candidates''"

definition isWorkflowState :: "string \<Rightarrow> bool" where
  "isWorkflowState value \<longleftrightarrow> value \<in> set (map workflow_state_name CANONICAL_WORKFLOW_STATES)"

definition isWorkflowLane :: "string \<Rightarrow> bool" where
  "isWorkflowLane value \<longleftrightarrow> value \<in> set CANONICAL_LANES"

definition isWorkflowRiskLevel :: "string \<Rightarrow> bool" where
  "isWorkflowRiskLevel value \<longleftrightarrow> value \<in> set CANONICAL_RISK_LEVELS"

definition isBlockReasonCode :: "string \<Rightarrow> bool" where
  "isBlockReasonCode value \<longleftrightarrow> value \<in> set (map block_reason_name CANONICAL_BLOCK_REASON_CODES)"

definition REVIEW_GATE_BLOCK_REASON_BY_ISSUE_CODE :: "(string \<times> block_reason) list" where
  "REVIEW_GATE_BLOCK_REASON_BY_ISSUE_CODE =
     [(''missing_status'', NonCanonicalStatus),
      (''non_canonical_status'', NonCanonicalStatus),
      (''verified_unchecked_checklists'', ChecklistMismatch),
      (''complete_unchecked_checklists'', ChecklistMismatch),
      (''checklist_not_countable'', ChecklistMismatch),
      (''invalid_wiki_artifact'', PendingWikiArtifacts),
      (''missing_wiki_artifacts'', PendingWikiArtifacts),
      (''missing_support_doc_candidates'', MissingSupportCandidates),
      (''unresolved_high_severity_finding'', UnresolvedHighFinding),
      (''review_required'', ReviewLinkageRequired),
      (''review_missing'', ReviewLinkageRequired),
      (''review_invalid'', ReviewLinkageRequired),
      (''review_not_merge_ready'', ReviewLinkageRequired)]"

definition blockReasonForReviewGateIssue :: "string \<Rightarrow> block_reason option" where
  "blockReasonForReviewGateIssue code = map_of REVIEW_GATE_BLOCK_REASON_BY_ISSUE_CODE code"

section \<open>Transitions\<close>

datatype transition_reason =
    InvalidTransition | MissingRequiredArtifact | BlockedReasonRequired | InvalidBlockReason
  | TerminalState | BlockReason block_reason

record transition_rule =
  tr_fromState :: workflow_state
  tr_toState :: workflow_state
  tr_trigger :: string
  tr_requiredArtifacts :: "string list"
  tr_blockingReasonCode :: "block_reason option"

record transition_request =
  rq_fromState :: workflow_state
  rq_toState :: workflow_state
  rq_trigger :: string
  rq_artifacts :: "(string \<times> js_value) list option"
  rq_blockReasonCode :: "block_reason option"

record validation_result =
  vr_allowed :: bool
  vr_reasonCode :: "transition_reason option"
  vr_message :: "string option"
  vr_requiredArtifacts :: "string list"
  vr_missingArtifacts :: "string list"
  vr_rule :: "transition_rule option"

definition TERMINAL_STATES :: "workflow_state list" where
  "TERMINAL_STATES = [W_merged, W_failed, W_rejected, W_canceled]"

fun ALLOWED_BLOCK_REASONS_BY_STATE :: "workflow_state \<Rightarrow> block_reason list" where
  "ALLOWED_BLOCK_REASONS_BY_STATE W_assigned = [PendingRemoteListener, HostUnhealthy]"
| "ALLOWED_BLOCK_REASONS_BY_STATE W_executing =
     [PendingRemoteListener, HostUnhealthy, PendingManualHandoff]"
| "ALLOWED_BLOCK_REASONS_BY_STATE W_verify_fix = [PendingManualHandoff, WorkflowAttemptsExhausted]"
| "ALLOWED_BLOCK_REASONS_BY_STATE W_reviewing =
     [PendingReview, UnresolvedHighFinding, NonCanonicalStatus, ChecklistMismatch]"
| "ALLOWED_BLOCK_REASONS_BY_STATE W_docs_followup = [PendingWikiArtifacts, MissingSupportCandidates]"
| "ALLOWED_BLOCK_REASONS_BY_STATE W_verified = [ReviewLinkageRequired]"
| "ALLOWED_BLOCK_REASONS_BY_STATE _ = []"

definition rule ::
  "workflow_state \<Rightarrow> workflow_state \<Rightarrow> string \<Rightarrow> string list \<Rightarrow> block_reason option \<Rightarrow> transition_rule" where
  "rule f t trigger artifacts reason =
     \<lparr>tr_fromState = f, tr_toState = t, tr_trigger = trigger, tr_requiredArtifacts = artifacts,
      tr_blockingReasonCode = reason\<rparr>"

definition WORKFLOW_TRANSITIONS :: "transition_rule list" where
  "WORKFLOW_TRANSITIONS =
     [rule W_submitted W_classified ''lane_classified''
        [''lane'', ''riskLevel'', ''classificationReasons''] None,
      rule W_classified W_routed ''route_decision_persisted''
        [''routeDecision'', ''routeActor'', ''routeDecidedAt''] None,
      rule W_routed W_assigned ''host_assigned''
        [''hostCapabilitySnapshot'', ''hostHealthSnapshot'', ''correlationIds''] None,
      rule W_assigned W_executing ''job_accepted'' [''jobId'', ''dispatchSessionRef''] None,
      rule W_executing W_verify_fix ''verify_fix_started'' [''workflowRecord''] None,
      rule W_verify_fix W_reviewing ''verification_evidence_ready'' [''evidenceBundle''] None,
      rule W_reviewing W_docs_followup ''docs_followup_required''
        [''reviewBundle'', ''docsImpact'', ''requiredWikiActions''] (Some PendingWikiArtifacts),
      rule W_reviewing W_verified ''verification_recorded''
        [''verificationRecord'', ''linkedReviewBundle''] (Some ReviewLinkageRequired),
      rule W_docs_followup W_verified ''verification_recorded''
        [''verificationRecord'', ''linkedReviewBundle'', ''docsArtifacts''] (Some PendingWikiArtifacts),
      rule W_verified W_merge_ready ''quality_and_docs_gates_satisfied''
        [''mergeReadyReviewGate''] (Some ReviewLinkageRequired),
      rule W_merge_ready W_merged ''merge_completed'' [''mergeCommit''] None,
      rule W_submitted W_failed ''policy_failure'' [''failureReason''] None,
      rule W_executing W_failed ''execution_failed'' [''failureReason''] None,
      rule W_reviewing W_rejected ''review_rejected'' [''reviewBundle''] None,
      rule W_routed W_canceled ''operator_canceled'' [''cancelReason''] None]"

definition artifact_value :: "(string \<times> js_value) list option \<Rightarrow> string \<Rightarrow> js_value" where
  "artifact_value artifacts name =
     (case artifacts of
        None \<Rightarrow> JUndef
      | Some m \<Rightarrow> (case js_map_get m name of None \<Rightarrow> JUndef | Some v \<Rightarrow> v))"

definition hasArtifact :: "(string \<times> js_value) list option \<Rightarrow> string \<Rightarrow> bool" where
  "hasArtifact artifacts name =
     (case artifact_value artifacts name of
        JUndef \<Rightarrow> False
      | JNull \<Rightarrow> False
      | JBool b \<Rightarrow> b
      | JStr s \<Rightarrow> 0 < length (js_trim s)
      | JArr xs \<Rightarrow> 0 < length xs
      | _ \<Rightarrow> True)"

definition denied :: "transition_reason \<Rightarrow> string \<Rightarrow> validation_result" where
  "denied reason msg =
     \<lparr>vr_allowed = False, vr_reasonCode = Some reason, vr_message = Some msg,
      vr_requiredArtifacts = [], vr_missingArtifacts = [], vr_rule = None\<rparr>"

definition validateWorkflowTransition :: "transition_request \<Rightarrow> validation_result" where
  "validateWorkflowTransition req =
     (if rq_fromState req = rq_toState req then
        \<lparr>vr_allowed = True, vr_reasonCode = None, vr_message = None, vr_requiredArtifacts = [],
         vr_missingArtifacts = [], vr_rule = None\<rparr>
      else if rq_fromState req \<in> set TERMINAL_STATES then
        denied TerminalState (''Workflow state '' @ workflow_state_name (rq_fromState req) @ '' is terminal.'')
      else if rq_toState req = W_blocked then
        (case rq_blockReasonCode req of
           None \<Rightarrow> denied BlockedReasonRequired ''Blocked transitions require a canonical blockReasonCode.''
         | Some code \<Rightarrow>
             if code \<notin> set (ALLOWED_BLOCK_REASONS_BY_STATE (rq_fromState req)) then
               denied InvalidBlockReason
                 (block_reason_name code @ '' is not valid when blocking from ''
                   @ workflow_state_name (rq_fromState req) @ ''.'')
             else \<lparr>vr_allowed = True, vr_reasonCode = Some (BlockReason code), vr_message = None,
                   vr_requiredArtifacts = [], vr_missingArtifacts = [], vr_rule = None\<rparr>)
      else
        (case List.find (\<lambda>r. tr_fromState r = rq_fromState req \<and> tr_toState r = rq_toState req
                              \<and> tr_trigger r = rq_trigger req) WORKFLOW_TRANSITIONS of
           None \<Rightarrow>
             denied InvalidTransition
               (''No canonical transition from '' @ workflow_state_name (rq_fromState req) @ '' to ''
                 @ workflow_state_name (rq_toState req) @ '' via '' @ rq_trigger req @ ''.'')
         | Some r \<Rightarrow>
             let missing = filter (\<lambda>a. \<not> hasArtifact (rq_artifacts req) a) (tr_requiredArtifacts r) in
             if missing \<noteq> [] then
               \<lparr>vr_allowed = False,
                vr_reasonCode = Some (case tr_blockingReasonCode r of
                  None \<Rightarrow> MissingRequiredArtifact | Some code \<Rightarrow> BlockReason code),
                vr_message = Some (''Missing required artifacts: '' @ js_join '', '' missing),
                vr_requiredArtifacts = tr_requiredArtifacts r, vr_missingArtifacts = missing,
                vr_rule = Some r\<rparr>
             else
               \<lparr>vr_allowed = True, vr_reasonCode = None, vr_message = None,
                vr_requiredArtifacts = tr_requiredArtifacts r, vr_missingArtifacts = [],
                vr_rule = Some r\<rparr>))"

section \<open>Status invariants\<close>

record checklist_state =
  cl_checked :: int
  cl_unchecked :: int
  cl_total :: "int option"

record invariant_input =
  ii_taskId :: "string option"
  ii_taskStatus :: "string option"
  ii_successCriteria :: "checklist_state option"
  ii_testingRequirements :: "checklist_state option"

record invariant_issue =
  is_code :: block_reason
  is_message :: string
  is_field :: "string option"

definition normalizeCanonicalTaskStatus :: "string option \<Rightarrow> task_status option" where
  "normalizeCanonicalTaskStatus rawStatus = normalizeTaskStatus rawStatus"

definition uncheckedCount :: "checklist_state option \<Rightarrow> int" where
  "uncheckedCount input = (case input of None \<Rightarrow> 0 | Some c \<Rightarrow> cl_unchecked c)"

definition validateWorkflowInvariants :: "invariant_input \<Rightarrow> invariant_issue list" where
  "validateWorkflowInvariants input =
     (case normalizeCanonicalTaskStatus (ii_taskStatus input) of
        None \<Rightarrow>
          [\<lparr>is_code = NonCanonicalStatus,
            is_message = (case ii_taskStatus input of
                None \<Rightarrow> ''Task status is missing.''
              | Some st \<Rightarrow> if st = '''' then ''Task status is missing.''
                          else ''Task status \"'' @ st @ ''\" is non-canonical.''),
            is_field = Some ''status''\<rparr>]
      | Some st \<Rightarrow>
          let hasUnchecked = 0 < uncheckedCount (ii_successCriteria input)
                             \<or> 0 < uncheckedCount (ii_testingRequirements input)
          in if (st = COMPLETE \<or> st = VERIFIED) \<and> hasUnchecked
             then [\<lparr>is_code = ChecklistMismatch,
                    is_message = ''Task is marked COMPLETE or VERIFIED while Success Criteria/Testing Requirements contain unchecked items.'',
                    is_field = Some ''status''\<rparr>]
             else [])"

section \<open>The step relation\<close>

text \<open>A transition of a task is one that some request for it is validated for.\<close>

inductive workflow_step :: "workflow_state \<Rightarrow> workflow_state \<Rightarrow> bool" where
  validated: "vr_allowed (validateWorkflowTransition req) \<Longrightarrow>
     workflow_step (rq_fromState req) (rq_toState req)"

definition rule_edges :: "(workflow_state \<times> workflow_state) list" where
  "rule_edges = map (\<lambda>r. (tr_fromState r, tr_toState r)) WORKFLOW_TRANSITIONS"

lemma rule_edges_code:
  "set rule_edges =
     {(W_submitted, W_classified), (W_classified, W_routed), (W_routed, W_assigned),
      (W_assigned, W_executing), (W_executing, W_verify_fix), (W_verify_fix, W_reviewing),
      (W_reviewing, W_docs_followup), (W_reviewing, W_verified), (W_docs_followup, W_verified),
      (W_verified, W_merge_ready), (W_merge_ready, W_merged), (W_submitted, W_failed),
      (W_executing, W_failed), (W_reviewing, W_rejected), (W_routed, W_canceled)}"
  by (simp add: rule_edges_def WORKFLOW_TRANSITIONS_def rule_def)

lemma find_rule_mem:
  "List.find P WORKFLOW_TRANSITIONS = Some r \<Longrightarrow> (tr_fromState r, tr_toState r) \<in> set rule_edges \<and> P r"
  using find_SomeD [of P WORKFLOW_TRANSITIONS r] by (auto simp: rule_edges_def)

lemma allowed_cases:
  assumes "vr_allowed (validateWorkflowTransition req)"
  shows "rq_fromState req = rq_toState req \<or>
    (rq_fromState req \<notin> set TERMINAL_STATES \<and> rq_toState req = W_blocked \<and>
       (\<exists>c. rq_blockReasonCode req = Some c \<and> c \<in> set (ALLOWED_BLOCK_REASONS_BY_STATE (rq_fromState req)))) \<or>
    (rq_fromState req \<notin> set TERMINAL_STATES \<and> rq_toState req \<noteq> W_blocked \<and>
       (\<exists>r \<in> set WORKFLOW_TRANSITIONS. tr_fromState r = rq_fromState req \<and> tr_toState r = rq_toState req \<and>
          tr_trigger r = rq_trigger req \<and> list_all (hasArtifact (rq_artifacts req)) (tr_requiredArtifacts r)))"
  using assms
  by (auto simp: validateWorkflowTransition_def denied_def Let_def filter_empty_conv list_all_iff
      split: if_splits option.splits dest!: find_SomeD)

lemma step_cases:
  assumes "workflow_step s t"
  shows "s = t \<or> (t = W_blocked \<and> ALLOWED_BLOCK_REASONS_BY_STATE s \<noteq> []) \<or> (s, t) \<in> set rule_edges"
  using assms
proof (cases rule: workflow_step.cases)
  case (validated req)
  then show ?thesis using allowed_cases [OF validated(3)] by (force simp: rule_edges_def)
qed

text \<open>The triggers of the table never compete: a transition has at most one rule.\<close>

lemma rule_unique:
  "r \<in> set WORKFLOW_TRANSITIONS \<Longrightarrow> r' \<in> set WORKFLOW_TRANSITIONS \<Longrightarrow>
   tr_fromState r = tr_fromState r' \<Longrightarrow> tr_toState r = tr_toState r' \<Longrightarrow> r = r'"
proof -
  have "distinct rule_edges"
    by (simp add: rule_edges_def WORKFLOW_TRANSITIONS_def rule_def)
  then have "inj_on (\<lambda>r. (tr_fromState r, tr_toState r)) (set WORKFLOW_TRANSITIONS)"
    by (simp add: rule_edges_def distinct_map)
  then show "r \<in> set WORKFLOW_TRANSITIONS \<Longrightarrow> r' \<in> set WORKFLOW_TRANSITIONS \<Longrightarrow>
   tr_fromState r = tr_fromState r' \<Longrightarrow> tr_toState r = tr_toState r' \<Longrightarrow> r = r'"
    by (auto dest: inj_onD)
qed

section \<open>Properties\<close>

lemma transition_rule_allowed:
  assumes "r \<in> set WORKFLOW_TRANSITIONS" and "tr_fromState r = rq_fromState req"
    and "tr_toState r = rq_toState req" and "tr_trigger r = rq_trigger req"
    and "list_all (hasArtifact (rq_artifacts req)) (tr_requiredArtifacts r)"
    and "rq_fromState req \<notin> set TERMINAL_STATES" and "rq_toState req \<noteq> W_blocked"
    and "rq_fromState req \<noteq> rq_toState req"
  shows "vr_allowed (validateWorkflowTransition req)"
proof -
  let ?P = "\<lambda>r. tr_fromState r = rq_fromState req \<and> tr_toState r = rq_toState req \<and> tr_trigger r = rq_trigger req"
  obtain r' where r': "List.find ?P WORKFLOW_TRANSITIONS = Some r'"
    using assms(1-4) find_None_iff_all [of ?P WORKFLOW_TRANSITIONS]
    by (cases "List.find ?P WORKFLOW_TRANSITIONS") auto
  then have "r' = r" using assms rule_unique [of r' r] by (auto dest!: find_SomeD)
  then show ?thesis using r' assms
    by (simp add: validateWorkflowTransition_def Let_def filter_empty_conv list_all_iff)
qed

text \<open>
  What a validated transition needs. Changing state is allowed exactly when the state is not
  terminal and either the target is \<open>blocked\<close> and the reason is one the table lists for the
  current state, or a rule of the table links the two states by the given trigger and every
  artifact the rule requires is present.
\<close>

theorem transition_allowed_exact:
  assumes "rq_fromState req \<noteq> rq_toState req"
  shows "vr_allowed (validateWorkflowTransition req) \<longleftrightarrow>
    rq_fromState req \<notin> set TERMINAL_STATES \<and>
    (if rq_toState req = W_blocked
     then \<exists>c. rq_blockReasonCode req = Some c \<and> c \<in> set (ALLOWED_BLOCK_REASONS_BY_STATE (rq_fromState req))
     else \<exists>r \<in> set WORKFLOW_TRANSITIONS. tr_fromState r = rq_fromState req \<and>
            tr_toState r = rq_toState req \<and> tr_trigger r = rq_trigger req \<and>
            list_all (hasArtifact (rq_artifacts req)) (tr_requiredArtifacts r))"
proof -
  have "vr_allowed (validateWorkflowTransition req)"
    if "rq_toState req = W_blocked" "rq_fromState req \<notin> set TERMINAL_STATES"
      "rq_blockReasonCode req = Some c" "c \<in> set (ALLOWED_BLOCK_REASONS_BY_STATE (rq_fromState req))" for c
    using that assms by (simp add: validateWorkflowTransition_def)
  then show ?thesis using allowed_cases [of req] transition_rule_allowed [of _ req] assms by auto
qed

definition merge_request :: "(string \<times> js_value) list option \<Rightarrow> transition_request" where
  "merge_request artifacts =
     \<lparr>rq_fromState = W_merge_ready, rq_toState = W_merged, rq_trigger = ''merge_completed'',
      rq_artifacts = artifacts, rq_blockReasonCode = None\<rparr>"

lemma transition_allowed_exact_witness:
  "vr_allowed (validateWorkflowTransition (merge_request (Some [(''mergeCommit'', JStr ''abc'')]))) \<and>
   \<not> vr_allowed (validateWorkflowTransition (merge_request (Some [(''mergeCommit'', JStr '' '')])))"
proof -
  have art: "hasArtifact (Some [(''mergeCommit'', JStr ''abc'')]) ''mergeCommit''"
    "\<not> hasArtifact (Some [(''mergeCommit'', JStr '' '')]) ''mergeCommit''" by code_simp+
  show ?thesis
    using transition_allowed_exact [of "merge_request (Some [(''mergeCommit'', JStr ''abc'')])"]
      transition_allowed_exact [of "merge_request (Some [(''mergeCommit'', JStr '' '')])"] art
    by (simp add: merge_request_def TERMINAL_STATES_def WORKFLOW_TRANSITIONS_def rule_def)
qed

text \<open>
  No way back. The terminal states and \<open>blocked\<close> are final: every validated transition from
  \<open>merged\<close>, \<open>failed\<close>, \<open>rejected\<close>, \<open>canceled\<close> or \<open>blocked\<close> stays where it is. (\<open>blocked\<close> is not one of
  the declared terminal states, but no rule leaves it.)
\<close>

theorem final_states_absorb:
  assumes "workflow_step s t" and "s \<in> set TERMINAL_STATES \<or> s = W_blocked"
  shows "t = s"
  using assms(1)
proof (cases rule: workflow_step.cases)
  case (validated req)
  then show ?thesis
    using allowed_cases [OF validated(3)] assms(2)
    by (auto simp: WORKFLOW_TRANSITIONS_def rule_def)
qed

lemma final_states_absorb_witness: "workflow_step W_blocked W_blocked \<and> W_blocked \<notin> set TERMINAL_STATES"
proof -
  let ?req = "\<lparr>rq_fromState = W_blocked, rq_toState = W_blocked, rq_trigger = [], rq_artifacts = None,
    rq_blockReasonCode = None\<rparr>"
  have "vr_allowed (validateWorkflowTransition ?req)" by (simp add: validateWorkflowTransition_def)
  from workflow_step.validated [OF this] have "workflow_step W_blocked W_blocked" by simp
  then show ?thesis using final_states_absorb [of W_blocked W_blocked] by (simp add: TERMINAL_STATES_def)
qed

text \<open>The states a task has been in, from its submission on, without repetitions in a row.\<close>

inductive workflow_path :: "workflow_state list \<Rightarrow> bool" where
  submitted: "workflow_path [W_submitted]"
| stay: "workflow_path ss \<Longrightarrow> workflow_step (last ss) (last ss) \<Longrightarrow> workflow_path ss"
| move: "workflow_path ss \<Longrightarrow> workflow_step (last ss) s \<Longrightarrow> s \<noteq> last ss \<Longrightarrow> workflow_path (ss @ [s])"

definition main_path :: "workflow_state list" where
  "main_path = [W_submitted, W_classified, W_routed, W_assigned, W_executing, W_verify_fix, W_reviewing]"

text \<open>The histories with which each state can be reached, for the states on the way to a merge.\<close>

fun histories :: "workflow_state \<Rightarrow> workflow_state list list" where
  "histories W_submitted = [take 1 main_path]"
| "histories W_classified = [take 2 main_path]"
| "histories W_routed = [take 3 main_path]"
| "histories W_assigned = [take 4 main_path]"
| "histories W_executing = [take 5 main_path]"
| "histories W_verify_fix = [take 6 main_path]"
| "histories W_reviewing = [main_path]"
| "histories W_docs_followup = [main_path @ [W_docs_followup]]"
| "histories W_verified = [main_path @ [W_verified], main_path @ [W_docs_followup, W_verified]]"
| "histories W_merge_ready =
     [main_path @ [W_verified, W_merge_ready], main_path @ [W_docs_followup, W_verified, W_merge_ready]]"
| "histories W_merged =
     [main_path @ [W_verified, W_merge_ready, W_merged],
      main_path @ [W_docs_followup, W_verified, W_merge_ready, W_merged]]"
| "histories _ = []"

definition off_path :: "workflow_state \<Rightarrow> bool" where
  "off_path s \<longleftrightarrow> s \<in> {W_blocked, W_failed, W_rejected, W_canceled}"

lemma path_history: "workflow_path ss \<Longrightarrow> off_path (last ss) \<or> ss \<in> set (histories (last ss))"
proof (induction rule: workflow_path.induct)
  case submitted
  then show ?case by (simp add: main_path_def)
next
  case (move ss s)
  have "\<not> off_path (last ss)"
    using step_cases [OF move.hyps(2)] move.hyps(3) by (auto simp: off_path_def rule_edges_code)
  then have hist: "ss \<in> set (histories (last ss))" using move.IH by simp
  show ?case
    using step_cases [OF move.hyps(2)] move.hyps(3) hist
    by (cases "last ss"; cases s) (simp_all add: off_path_def rule_edges_code main_path_def)
qed simp

text \<open>
  C11: The ways to merge. A task that reaches \<open>merged\<close> by validated transitions from its submission
  has passed, in this order and with nothing in between, through classification, routing,
  assignment, execution, verification, review, an optional documentation follow-up, \<open>verified\<close> and
  \<open>merge_ready\<close>; no path skips the review or comes back from \<open>blocked\<close>.
\<close>

theorem merged_only_through_review:
  assumes "workflow_path ss" and "last ss = W_merged"
  shows "ss = [W_submitted, W_classified, W_routed, W_assigned, W_executing, W_verify_fix, W_reviewing,
               W_verified, W_merge_ready, W_merged] \<or>
         ss = [W_submitted, W_classified, W_routed, W_assigned, W_executing, W_verify_fix, W_reviewing,
               W_docs_followup, W_verified, W_merge_ready, W_merged]"
  using path_history [OF assms(1)] assms(2) by (auto simp: off_path_def main_path_def)

lemma rule_step:
  "(s, t) \<in> set rule_edges \<Longrightarrow> s \<notin> set TERMINAL_STATES \<Longrightarrow> workflow_step s t"
proof -
  assume e: "(s, t) \<in> set rule_edges" and nt: "s \<notin> set TERMINAL_STATES"
  then obtain r where r: "r \<in> set WORKFLOW_TRANSITIONS" "tr_fromState r = s" "tr_toState r = t"
    by (auto simp: rule_edges_def)
  let ?req = "\<lparr>rq_fromState = s, rq_toState = t, rq_trigger = tr_trigger r,
    rq_artifacts = Some (map (\<lambda>a. (a, JBool True)) (tr_requiredArtifacts r)), rq_blockReasonCode = None\<rparr>"
  have "s \<noteq> t" "t \<noteq> W_blocked" using e by (auto simp: rule_edges_code)
  moreover have "js_map_get (map (\<lambda>a. (a, JBool True)) as) x = Some (JBool True)"
    if "x \<in> set as" for x :: string and as
    using that by (induction as) (auto simp: js_map_get_def)
  then have "list_all (hasArtifact (rq_artifacts ?req)) (tr_requiredArtifacts r)"
    by (simp add: list_all_iff hasArtifact_def artifact_value_def)
  ultimately have "vr_allowed (validateWorkflowTransition ?req)"
    using transition_rule_allowed [of r ?req] r nt by simp
  from workflow_step.validated [OF this] show ?thesis by simp
qed

lemma merged_only_through_review_witness:
  "\<exists>ss. workflow_path ss \<and> last ss = W_merged \<and> W_reviewing \<in> set ss"
proof -
  have step: "workflow_path ss \<Longrightarrow> (last ss, s) \<in> set rule_edges \<Longrightarrow> last ss \<notin> set TERMINAL_STATES \<Longrightarrow>
      workflow_path (ss @ [s])" for ss s
    by (intro workflow_path.move rule_step) (auto simp: rule_edges_code)
  have "workflow_path [W_submitted]" by (rule workflow_path.submitted)
  note step [OF this, of W_classified, simplified rule_edges_code TERMINAL_STATES_def, simplified]
  note step [OF this, of W_routed, simplified rule_edges_code TERMINAL_STATES_def, simplified]
  note step [OF this, of W_assigned, simplified rule_edges_code TERMINAL_STATES_def, simplified]
  note step [OF this, of W_executing, simplified rule_edges_code TERMINAL_STATES_def, simplified]
  note step [OF this, of W_verify_fix, simplified rule_edges_code TERMINAL_STATES_def, simplified]
  note step [OF this, of W_reviewing, simplified rule_edges_code TERMINAL_STATES_def, simplified]
  note step [OF this, of W_verified, simplified rule_edges_code TERMINAL_STATES_def, simplified]
  note step [OF this, of W_merge_ready, simplified rule_edges_code TERMINAL_STATES_def, simplified]
  note path = step [OF this, of W_merged, simplified rule_edges_code TERMINAL_STATES_def, simplified]
  from merged_only_through_review [OF path] path show ?thesis by (intro exI conjI) auto
qed

text \<open>
  Status hygiene. A task passes the status invariants exactly when its status normalises to a
  canonical one and, if that is \<open>COMPLETE\<close> or \<open>VERIFIED\<close>, neither of its checklists has an
  unchecked item; otherwise exactly one issue is reported, and its code says which of the two it is.
\<close>

theorem invariants_exact:
  "validateWorkflowInvariants input = [] \<longleftrightarrow>
     (case normalizeTaskStatus (ii_taskStatus input) of
        None \<Rightarrow> False
      | Some st \<Rightarrow> if st \<in> {COMPLETE, VERIFIED}
          then uncheckedCount (ii_successCriteria input) \<le> 0 \<and> uncheckedCount (ii_testingRequirements input) \<le> 0
          else True)"
  by (auto simp: validateWorkflowInvariants_def normalizeCanonicalTaskStatus_def Let_def split: option.split)

end
