(* ===== verification/Judgment_Reducer.thy ===== *)
theory Judgment_Reducer
  imports Harness_Prelude
begin

text \<open>
  The judgment contract (\<open>src/judgment/judgment-types.ts\<close>) and its reducer
  (\<open>src/judgment/judgment-reducer.ts\<close>). The reducer checks at run time what the types promise, so
  the fields it checks (stage, disposition, source, action, safety code) are strings here. A
  \<open>JudgmentContractError\<close> is the left of a sum.
\<close>

definition JUDGMENT_SCHEMA_VERSION :: nat where
  "JUDGMENT_SCHEMA_VERSION = 1"

definition JUDGMENT_STAGES :: "string list" where
  "JUDGMENT_STAGES =
     [''readiness'', ''docs_review'', ''loop_brief'', ''loop_diff'', ''judge'', ''post_judge'']"

definition JUDGMENT_SIGNAL_DISPOSITIONS :: "string list" where
  "JUDGMENT_SIGNAL_DISPOSITIONS = [''advisory'', ''repair'', ''human_review'', ''safety'']"

definition INTENT_JUDGMENT_ACTIONS :: "string list" where
  "INTENT_JUDGMENT_ACTIONS = [''continue'', ''repair'', ''human_review'']"

definition JUDGMENT_SOURCES :: "string list" where
  "JUDGMENT_SOURCES = [''legacy_policy'', ''intent_model'', ''operator'']"

definition SAFETY_FLOOR_CODES :: "string list" where
  "SAFETY_FLOOR_CODES =
     [''missing_required_schema'', ''production_deploy'', ''protected_branch_history_rewrite'',
      ''protected_branch_delete'', ''secret_exposure'', ''machinery_tamper'']"

record judgment_signal =
  sg_source :: string
  sg_code :: string
  sg_disposition :: string
  sg_message :: string
  sg_deterministic :: bool
  sg_evidence :: "string list option"
  sg_safetyCode :: "string option"

record intent_judgment =
  ij_source :: string
  ij_action :: string
  ij_rationale :: "string list"

record safety_floor =
  sf_passed :: bool
  sf_blockers :: "judgment_signal list"

record judgment_decision =
  jd_schemaVersion :: nat
  jd_stage :: string
  jd_signals :: "judgment_signal list"
  jd_judgment :: intent_judgment
  jd_safetyFloor :: safety_floor
  jd_action :: string
  jd_rationale :: "string list"

datatype contract_error_code =
    InvalidStage | InvalidSignalCode | InvalidSignalMessage | InvalidSignalDisposition
  | InvalidJudgmentSource | InvalidJudgmentAction | SafetyCodeRequired | SafetyCodeForbidden
  | InvalidSafetyCode

datatype contract_error = JudgmentContractError contract_error_code string

definition indexed :: "nat \<Rightarrow> string \<Rightarrow> string" where
  "indexed i rest = ''signals['' @ digits_text i @ '']'' @ rest"

definition validateSignal :: "judgment_signal \<Rightarrow> nat \<Rightarrow> contract_error + unit" where
  "validateSignal signal i =
     (if sg_source signal \<notin> set JUDGMENT_STAGES then
        Inl (JudgmentContractError InvalidStage (indexed i ''.source is not a canonical judgment stage''))
      else if js_trim (sg_code signal) = '''' then
        Inl (JudgmentContractError InvalidSignalCode (indexed i ''.code must not be empty''))
      else if js_trim (sg_message signal) = '''' then
        Inl (JudgmentContractError InvalidSignalMessage (indexed i ''.message must not be empty''))
      else if sg_disposition signal \<notin> set JUDGMENT_SIGNAL_DISPOSITIONS then
        Inl (JudgmentContractError InvalidSignalDisposition (indexed i ''.disposition is not canonical''))
      else if sg_disposition signal = ''safety'' then
        (case sg_safetyCode signal of
           None \<Rightarrow> Inl (JudgmentContractError SafetyCodeRequired
                     (indexed i '' is safety-dispositioned but has no safetyCode''))
         | Some code \<Rightarrow>
             if code = '''' then
               Inl (JudgmentContractError SafetyCodeRequired
                     (indexed i '' is safety-dispositioned but has no safetyCode''))
             else if code \<notin> set SAFETY_FLOOR_CODES then
               Inl (JudgmentContractError InvalidSafetyCode (indexed i ''.safetyCode is not canonical''))
             else Inr ())
      else if sg_safetyCode signal \<noteq> None then
        Inl (JudgmentContractError SafetyCodeForbidden
              (indexed i '' has safetyCode without safety disposition''))
      else Inr ())"

text \<open>\<open>forEach\<close> stops at the first signal that throws.\<close>

fun validateSignals :: "nat \<Rightarrow> judgment_signal list \<Rightarrow> contract_error + unit" where
  "validateSignals i [] = Inr ()"
| "validateSignals i (s # ss) =
     (case validateSignal s i of Inl err \<Rightarrow> Inl err | Inr _ \<Rightarrow> validateSignals (Suc i) ss)"

definition is_safety :: "judgment_signal \<Rightarrow> bool" where
  "is_safety signal \<longleftrightarrow> sg_disposition signal = ''safety''"

definition safety_rationale :: "judgment_signal \<Rightarrow> string" where
  "safety_rationale signal =
     ''safety_floor:'' @ (case sg_safetyCode signal of None \<Rightarrow> ''undefined'' | Some c \<Rightarrow> c)"

definition reduceJudgment ::
  "string \<Rightarrow> judgment_signal list \<Rightarrow> intent_judgment \<Rightarrow> contract_error + judgment_decision" where
  "reduceJudgment stage signals judgment =
     (if stage \<notin> set JUDGMENT_STAGES then
        Inl (JudgmentContractError InvalidStage (''stage \"'' @ stage @ ''\" is not canonical''))
      else if ij_source judgment \<notin> set JUDGMENT_SOURCES then
        Inl (JudgmentContractError InvalidJudgmentSource ''judgment.source is not canonical'')
      else if ij_action judgment \<notin> set INTENT_JUDGMENT_ACTIONS then
        Inl (JudgmentContractError InvalidJudgmentAction
              ''judgment.action cannot request stop or an unknown action'')
      else case validateSignals 0 signals of
        Inl err \<Rightarrow> Inl err
      | Inr _ \<Rightarrow>
          let blockers = filter is_safety signals in
          Inr \<lparr>jd_schemaVersion = JUDGMENT_SCHEMA_VERSION, jd_stage = stage, jd_signals = signals,
               jd_judgment = judgment,
               jd_safetyFloor = \<lparr>sf_passed = (blockers = []), sf_blockers = blockers\<rparr>,
               jd_action = (if blockers \<noteq> [] then ''stop'' else ij_action judgment),
               jd_rationale = (if blockers \<noteq> [] then map safety_rationale blockers
                               else ij_rationale judgment)\<rparr>)"

section \<open>The contract of a reducer\<close>

text \<open>
  What the rest of the judgment plane relies on: an accepted judgment keeps its signals and its
  intent, stops exactly on the floor, and is accepted again unchanged.
\<close>

locale judgment_contract =
  fixes reduce :: "'stage \<Rightarrow> 'sig list \<Rightarrow> 'j \<Rightarrow> 'err + 'd"
    and stage :: "'d \<Rightarrow> 'stage" and signals :: "'d \<Rightarrow> 'sig list" and intent :: "'d \<Rightarrow> 'j"
    and stops :: "'d \<Rightarrow> bool" and floor :: "'sig \<Rightarrow> bool"
  assumes reduce_stage: "reduce st ss j = Inr d \<Longrightarrow> stage d = st"
    and reduce_signals: "reduce st ss j = Inr d \<Longrightarrow> signals d = ss"
    and reduce_intent: "reduce st ss j = Inr d \<Longrightarrow> intent d = j"
    and reduce_stops: "reduce st ss j = Inr d \<Longrightarrow> stops d \<longleftrightarrow> (\<exists>s \<in> set ss. floor s)"
begin

lemma revalidate: "reduce st ss j = Inr d \<Longrightarrow> reduce (stage d) (signals d) (intent d) = Inr d"
  using reduce_stage reduce_signals reduce_intent by metis

text \<open>Another judgment over the same signals can neither lift nor cause a stop.\<close>

lemma stop_depends_on_signals:
  "reduce st ss j = Inr d \<Longrightarrow> reduce st' (signals d) j' = Inr d' \<Longrightarrow> stops d' = stops d"
  using reduce_stops reduce_signals by metis

lemma more_signals_stop:
  "reduce st ss j = Inr d \<Longrightarrow> reduce st' (ss @ ts) j' = Inr d' \<Longrightarrow> stops d \<Longrightarrow> stops d'"
  using reduce_stops [of st ss j d] reduce_stops [of st' "ss @ ts" j' d'] by auto

end

lemma intent_action_not_stop: "a \<in> set INTENT_JUDGMENT_ACTIONS \<Longrightarrow> a \<noteq> ''stop''"
  by (auto simp: INTENT_JUDGMENT_ACTIONS_def)

lemma reduceJudgment_ok:
  "reduceJudgment stage signals judgment = Inr d \<longleftrightarrow>
     stage \<in> set JUDGMENT_STAGES \<and> ij_source judgment \<in> set JUDGMENT_SOURCES \<and>
     ij_action judgment \<in> set INTENT_JUDGMENT_ACTIONS \<and> validateSignals 0 signals = Inr () \<and>
     d = \<lparr>jd_schemaVersion = JUDGMENT_SCHEMA_VERSION, jd_stage = stage, jd_signals = signals,
          jd_judgment = judgment,
          jd_safetyFloor = \<lparr>sf_passed = (filter is_safety signals = []), sf_blockers = filter is_safety signals\<rparr>,
          jd_action = (if filter is_safety signals \<noteq> [] then ''stop'' else ij_action judgment),
          jd_rationale = (if filter is_safety signals \<noteq> [] then map safety_rationale (filter is_safety signals)
                          else ij_rationale judgment)\<rparr>"
  by (auto simp: reduceJudgment_def Let_def split: sum.splits if_splits)

definition decision_stops :: "judgment_decision \<Rightarrow> bool" where
  "decision_stops d \<longleftrightarrow> jd_action d = ''stop''"

interpretation reducer: judgment_contract reduceJudgment jd_stage jd_signals jd_judgment decision_stops is_safety
  by unfold_locales
     (auto simp: reduceJudgment_ok decision_stops_def filter_empty_conv dest: intent_action_not_stop)

lemma floor_passed:
  "reduceJudgment stage signals judgment = Inr d \<Longrightarrow> sf_passed (jd_safetyFloor d) \<longleftrightarrow> jd_action d \<noteq> ''stop''"
  by (auto simp: reduceJudgment_ok dest: intent_action_not_stop)

text \<open>A signal the reducer accepts.\<close>

definition valid_signal :: "judgment_signal \<Rightarrow> bool" where
  "valid_signal s \<longleftrightarrow>
     sg_source s \<in> set JUDGMENT_STAGES \<and> js_trim (sg_code s) \<noteq> '''' \<and> js_trim (sg_message s) \<noteq> '''' \<and>
     sg_disposition s \<in> set JUDGMENT_SIGNAL_DISPOSITIONS \<and>
     (if is_safety s then (case sg_safetyCode s of None \<Rightarrow> False | Some c \<Rightarrow> c \<in> set SAFETY_FLOOR_CODES)
      else sg_safetyCode s = None)"

lemma validateSignal_ok: "validateSignal s i = Inr () \<longleftrightarrow> valid_signal s"
proof -
  have "'''' \<notin> set SAFETY_FLOOR_CODES" by (simp add: SAFETY_FLOOR_CODES_def)
  then show ?thesis by (auto simp: validateSignal_def valid_signal_def is_safety_def split: option.split)
qed

lemma validateSignals_ok: "validateSignals i ss = Inr () \<longleftrightarrow> list_all valid_signal ss"
proof (induction ss arbitrary: i)
  case (Cons s ss)
  show ?case using validateSignal_ok [of s i] Cons by (cases "validateSignal s i") auto
qed simp

section \<open>Properties\<close>

text \<open>
  C12: The safety floor. The reducer accepts a judgment exactly when the stage, the source, the
  requested action and every signal are canonical; the accepted decision stops if and only if
  some signal is safety-dispositioned, and otherwise its action is the one that was requested.
\<close>

theorem reducer_safety_floor:
  "case reduceJudgment stage signals judgment of
     Inl _ \<Rightarrow> \<not> (stage \<in> set JUDGMENT_STAGES \<and> ij_source judgment \<in> set JUDGMENT_SOURCES \<and>
                ij_action judgment \<in> set INTENT_JUDGMENT_ACTIONS \<and> list_all valid_signal signals)
   | Inr d \<Rightarrow> stage \<in> set JUDGMENT_STAGES \<and> ij_source judgment \<in> set JUDGMENT_SOURCES \<and>
              ij_action judgment \<in> set INTENT_JUDGMENT_ACTIONS \<and> list_all valid_signal signals \<and>
              jd_signals d = signals \<and>
              jd_action d = (if list_ex is_safety signals then ''stop'' else ij_action judgment) \<and>
              sf_passed (jd_safetyFloor d) = (\<not> list_ex is_safety signals)"
proof (cases "reduceJudgment stage signals judgment")
  case (Inl err)
  then show ?thesis using validateSignals_ok [of 0 signals]
    by (auto simp: reduceJudgment_def Let_def split: if_splits sum.splits)
next
  case (Inr d)
  then show ?thesis
    using Inr [unfolded reduceJudgment_ok validateSignals_ok]
    by (auto simp: filter_empty_conv list_ex_iff)
qed

end
