(* ===== verification/Judgment_Orchestrator.thy ===== *)
theory Judgment_Orchestrator
  imports Judgment_Reducer
begin

text \<open>
  The rollout policy around the reducer (\<open>src/judgment/judgment-orchestrator.ts\<close>). The intent
  runner is an external service: an input that maps a request to its result, to a rejection, or
  that is absent. The optional settings are the booleans their only tested value makes of them.
\<close>

datatype rollout_mode = ModeOff | ModeShadow | ModeEnforce

record signal_input =
  si_ref :: string
  si_signal :: judgment_signal

record intent_request =
  ir_stage :: string
  ir_signals :: "signal_input list"
  ir_other :: "(string \<times> js_value) list"

datatype runner_error_code = RunnerTimeout | RunnerSdkError | RunnerInvalidOutput | RunnerNoResult | RunnerAborted

fun runner_error_name :: "runner_error_code \<Rightarrow> string" where
  "runner_error_name RunnerTimeout = ''timeout''"
| "runner_error_name RunnerSdkError = ''sdk_error''"
| "runner_error_name RunnerInvalidOutput = ''invalid_output''"
| "runner_error_name RunnerNoResult = ''no_result''"
| "runner_error_name RunnerAborted = ''aborted''"

record runner_meta =
  rm_model :: string
  rm_durationMs :: millis
  rm_sessionId :: "string option"
  rm_truncatedFields :: "string list"

datatype run_result =
    RunCompleted (rr_judgment: intent_judgment) (rr_refs: "string list") (rr_meta: runner_meta)
  | RunError (rr_code: runner_error_code) (rr_message: string) (rr_meta: runner_meta)

datatype orchestration_reason =
    RModeOff | RSafetyStop | RNoBlockingSignals | RIntentContextUnavailable | RShadowCandidate
  | REnforcedCandidate | RProjectionFailure | RShadowInvalidOutput | RShadowRunnerError
  | REnforceRunnerError | REnforceRunnerErrorLegacyPreserved | RIntentUpgradeRefused

record orchestration_result =
  or_mode :: rollout_mode
  or_attempted :: bool
  or_reason :: orchestration_reason
  or_legacyDecision :: judgment_decision
  or_activeDecision :: judgment_decision
  or_candidateDecision :: "judgment_decision option"
  or_runnerResult :: "run_result option"
  or_diverged :: bool

record orchestrate_input =
  oi_mode :: rollout_mode
  oi_legacyDecision :: judgment_decision
  oi_request :: "intent_request option"
  oi_runner :: "(intent_request \<Rightarrow> string + run_result) option"
  oi_preserveLegacy :: bool \<comment> \<open>\<open>onRunnerError\<close> is \<open>preserve_legacy\<close>\<close>
  oi_monotonic :: bool \<comment> \<open>\<open>outcomePolicy\<close> is \<open>monotonic_hold_or_demote\<close>\<close>
  oi_alwaysEvaluate :: bool \<comment> \<open>\<open>signalGate\<close> is \<open>always_evaluate\<close>\<close>

definition ACTION_RESTRICTIVENESS :: "(string \<times> nat) list" where
  "ACTION_RESTRICTIVENESS =
     [(''continue'', 0), (''repair'', 1), (''human_review'', 2), (''stop'', 3)]"

text \<open>The comparison with \<open>undefined\<close>, which no reduced decision can reach, is false.\<close>

definition isLessRestrictive :: "judgment_decision \<Rightarrow> judgment_decision \<Rightarrow> bool" where
  "isLessRestrictive candidate legacy =
     (case (map_of ACTION_RESTRICTIVENESS (jd_action candidate),
            map_of ACTION_RESTRICTIVENESS (jd_action legacy)) of
        (Some c, Some l) \<Rightarrow> c < l
      | _ \<Rightarrow> False)"

definition sameDecisionAction :: "judgment_decision \<Rightarrow> judgment_decision \<Rightarrow> bool" where
  "sameDecisionAction l r \<longleftrightarrow> jd_action l = jd_action r"

definition validatedLegacyDecision :: "judgment_decision \<Rightarrow> contract_error + judgment_decision" where
  "validatedLegacyDecision d = reduceJudgment (jd_stage d) (jd_signals d) (jd_judgment d)"

definition runnerUnavailableSignal :: "judgment_decision \<Rightarrow> run_result \<Rightarrow> judgment_signal" where
  "runnerUnavailableSignal decision res =
     \<lparr>sg_source = jd_stage decision, sg_code = ''intent_runner_unavailable'',
      sg_disposition = ''human_review'',
      sg_message = ''Intent judgment was unavailable; enforce mode requires human review.'',
      sg_deterministic = True,
      sg_evidence = Some [''runner_error:'' @ runner_error_name
        (case res of RunError code _ _ \<Rightarrow> code | RunCompleted _ _ _ \<Rightarrow> RunnerSdkError)],
      sg_safetyCode = None\<rparr>"

definition runnerUnavailableJudgment :: intent_judgment where
  "runnerUnavailableJudgment =
     \<lparr>ij_source = ''legacy_policy'', ij_action = ''human_review'',
      ij_rationale = [''intent_runner_unavailable'']\<rparr>"

definition unhandledRunnerRejection :: run_result where
  "unhandledRunnerRejection =
     RunError RunnerSdkError ''Intent judgment runner rejected unexpectedly''
       \<lparr>rm_model = ''unknown'', rm_durationMs = 0, rm_sessionId = None, rm_truncatedFields = []\<rparr>"

definition hasExactSignalRefs :: "run_result \<Rightarrow> intent_request \<Rightarrow> bool" where
  "hasExactSignalRefs res request =
     (case res of
        RunError _ _ _ \<Rightarrow> True
      | RunCompleted _ actual _ \<Rightarrow>
          let expected = map si_ref (ir_signals request) in
          length (js_uniq actual) = length actual \<and> length actual = length expected
          \<and> list_all (\<lambda>r. r \<in> set expected) actual)"

text \<open>The spread of the session id drops an empty one.\<close>

definition invalidRefs :: "run_result \<Rightarrow> run_result" where
  "invalidRefs res =
     RunError RunnerInvalidOutput ''Intent judgment runner returned an invalid signal-ref set''
       ((rr_meta res)\<lparr>rm_sessionId := (case rm_sessionId (rr_meta res) of
          None \<Rightarrow> None | Some sid \<Rightarrow> if sid = '''' then None else Some sid)\<rparr>)"

definition run_intent :: "(intent_request \<Rightarrow> string + run_result) option \<Rightarrow> intent_request \<Rightarrow> run_result" where
  "run_intent runner request =
     (let result = (case runner of
            None \<Rightarrow> unhandledRunnerRejection
          | Some run \<Rightarrow> (case run request of Inl _ \<Rightarrow> unhandledRunnerRejection | Inr res \<Rightarrow> res))
      in if hasExactSignalRefs result request then result else invalidRefs result)"

definition skipped :: "rollout_mode \<Rightarrow> orchestration_reason \<Rightarrow> judgment_decision \<Rightarrow> orchestration_result" where
  "skipped mode reason legacy =
     \<lparr>or_mode = mode, or_attempted = False, or_reason = reason, or_legacyDecision = legacy,
      or_activeDecision = legacy, or_candidateDecision = None, or_runnerResult = None,
      or_diverged = False\<rparr>"

definition attempted ::
  "rollout_mode \<Rightarrow> orchestration_reason \<Rightarrow> judgment_decision \<Rightarrow> judgment_decision
     \<Rightarrow> judgment_decision option \<Rightarrow> run_result \<Rightarrow> bool \<Rightarrow> orchestration_result" where
  "attempted mode reason legacy act candidate res diverged =
     \<lparr>or_mode = mode, or_attempted = True, or_reason = reason, or_legacyDecision = legacy,
      or_activeDecision = act, or_candidateDecision = candidate, or_runnerResult = Some res,
      or_diverged = diverged\<rparr>"

definition has_blocking_signal :: "judgment_decision \<Rightarrow> bool" where
  "has_blocking_signal d =
     list_ex (\<lambda>s. sg_disposition s = ''repair'' \<or> sg_disposition s = ''human_review'') (jd_signals d)"

text \<open>After the runner has answered.\<close>

definition apply_run_result ::
  "orchestrate_input \<Rightarrow> judgment_decision \<Rightarrow> run_result \<Rightarrow> contract_error + orchestration_result" where
  "apply_run_result input legacy res =
     (case res of
        RunCompleted judgment refs meta \<Rightarrow>
          (case reduceJudgment (jd_stage legacy) (jd_signals legacy) judgment of
             Inl err \<Rightarrow> Inl err
           | Inr candidate \<Rightarrow>
               let diverged = (\<not> sameDecisionAction legacy candidate) in
               if oi_monotonic input \<and> isLessRestrictive candidate legacy then
                 Inr (attempted (oi_mode input) RIntentUpgradeRefused legacy legacy (Some candidate) res diverged)
               else
                 Inr (attempted (oi_mode input)
                       (if oi_mode input = ModeEnforce then REnforcedCandidate else RShadowCandidate)
                       legacy (if oi_mode input = ModeEnforce then candidate else legacy)
                       (Some candidate) res diverged))
      | RunError code msg meta \<Rightarrow>
          if oi_mode input = ModeShadow then
            Inr (attempted (oi_mode input)
                  (if code = RunnerInvalidOutput then RShadowInvalidOutput else RShadowRunnerError)
                  legacy legacy None res False)
          else if oi_preserveLegacy input then
            Inr (attempted (oi_mode input) REnforceRunnerErrorLegacyPreserved legacy legacy None res False)
          else
            (case reduceJudgment (jd_stage legacy) (jd_signals legacy @ [runnerUnavailableSignal legacy res])
                    runnerUnavailableJudgment of
               Inl err \<Rightarrow> Inl err
             | Inr act \<Rightarrow>
                 Inr (attempted (oi_mode input) REnforceRunnerError legacy act None res
                       (\<not> sameDecisionAction legacy act))))"

definition orchestrateJudgment :: "orchestrate_input \<Rightarrow> contract_error + orchestration_result" where
  "orchestrateJudgment input =
     (case validatedLegacyDecision (oi_legacyDecision input) of
        Inl err \<Rightarrow> Inl err
      | Inr legacy \<Rightarrow>
          if \<not> sf_passed (jd_safetyFloor legacy) then Inr (skipped (oi_mode input) RSafetyStop legacy)
          else if oi_mode input = ModeOff then Inr (skipped (oi_mode input) RModeOff legacy)
          else case oi_request input of
            None \<Rightarrow> Inr (skipped (oi_mode input) RIntentContextUnavailable legacy)
          | Some request \<Rightarrow>
              if \<not> has_blocking_signal legacy \<and> \<not> oi_alwaysEvaluate input
              then Inr (skipped (oi_mode input) RNoBlockingSignals legacy)
              else apply_run_result input legacy (run_intent (oi_runner input) request))"

section \<open>Lemmas\<close>

lemma skipped_simps [simp]:
  "or_legacyDecision (skipped m r l) = l" "or_activeDecision (skipped m r l) = l"
  "or_attempted (skipped m r l) = False" "or_reason (skipped m r l) = r"
  by (simp_all add: skipped_def)

lemma attempted_simps [simp]:
  "or_legacyDecision (attempted m r l a c res d) = l" "or_activeDecision (attempted m r l a c res d) = a"
  "or_attempted (attempted m r l a c res d) = True" "or_reason (attempted m r l a c res d) = r"
  by (simp_all add: attempted_def)

lemma orchestrate_legacy:
  assumes "orchestrateJudgment input = Inr res"
  shows "validatedLegacyDecision (oi_legacyDecision input) = Inr (or_legacyDecision res)"
  using assms
  by (auto simp: orchestrateJudgment_def apply_run_result_def Let_def
      split: sum.splits if_splits option.splits run_result.splits)

text \<open>The active decision is the legacy one, or a reduction over at least the legacy signals.\<close>

lemma orchestrate_active:
  assumes "orchestrateJudgment input = Inr res"
  shows "or_activeDecision res = or_legacyDecision res \<or>
    sf_passed (jd_safetyFloor (or_legacyDecision res)) \<and> oi_mode input = ModeEnforce \<and>
    ((\<exists>j. reduceJudgment (jd_stage (or_legacyDecision res)) (jd_signals (or_legacyDecision res)) j =
         Inr (or_activeDecision res) \<and>
         \<not> (oi_monotonic input \<and> isLessRestrictive (or_activeDecision res) (or_legacyDecision res))) \<or>
     (\<exists>r. reduceJudgment (jd_stage (or_legacyDecision res))
              (jd_signals (or_legacyDecision res) @ [runnerUnavailableSignal (or_legacyDecision res) r])
              runnerUnavailableJudgment = Inr (or_activeDecision res)))"
  using assms
  by (cases "oi_mode input")
    (auto simp: orchestrateJudgment_def apply_run_result_def Let_def
      split: sum.splits if_splits option.splits run_result.splits)

lemma unavailable_not_safety [simp]: "\<not> is_safety (runnerUnavailableSignal l r)"
  by (simp add: is_safety_def runnerUnavailableSignal_def)

lemma reduced_restrictiveness:
  "reduceJudgment st ss j = Inr d \<Longrightarrow>
     \<exists>n. map_of ACTION_RESTRICTIVENESS (jd_action d) = Some n \<and> (jd_action d \<noteq> ''stop'' \<longrightarrow> n \<le> 2)"
  by (auto simp: reduceJudgment_ok ACTION_RESTRICTIVENESS_def INTENT_JUDGMENT_ACTIONS_def)

section \<open>Properties\<close>

text \<open>A judge stage that legacy policy sends to repair, or that trips the safety floor.\<close>

definition sample_signal :: "string \<Rightarrow> string option \<Rightarrow> judgment_signal" where
  "sample_signal disposition code =
     \<lparr>sg_source = ''judge'', sg_code = ''finding'', sg_disposition = disposition, sg_message = ''message'',
      sg_deterministic = True, sg_evidence = None, sg_safetyCode = code\<rparr>"

definition sample_legacy :: "judgment_signal \<Rightarrow> judgment_decision" where
  "sample_legacy signal =
     \<lparr>jd_schemaVersion = 1, jd_stage = ''judge'', jd_signals = [signal],
      jd_judgment = \<lparr>ij_source = ''legacy_policy'', ij_action = ''repair'', ij_rationale = []\<rparr>,
      jd_safetyFloor = \<lparr>sf_passed = \<not> is_safety signal, sf_blockers = filter is_safety [signal]\<rparr>,
      jd_action = (if is_safety signal then ''stop'' else ''repair''),
      jd_rationale = (if is_safety signal then [safety_rationale signal] else [])\<rparr>"

definition approving_runner :: "intent_request \<Rightarrow> string + run_result" where
  "approving_runner request =
     Inr (RunCompleted \<lparr>ij_source = ''intent_model'', ij_action = ''continue'', ij_rationale = []\<rparr>
       (map si_ref (ir_signals request))
       \<lparr>rm_model = ''model'', rm_durationMs = 1, rm_sessionId = None, rm_truncatedFields = []\<rparr>)"

definition sample_request :: intent_request where
  "sample_request = \<lparr>ir_stage = ''judge'', ir_signals = [], ir_other = []\<rparr>"

definition sample_input ::
  "rollout_mode \<Rightarrow> (intent_request \<Rightarrow> string + run_result) option \<Rightarrow> judgment_signal \<Rightarrow> orchestrate_input" where
  "sample_input mode runner signal =
     \<lparr>oi_mode = mode, oi_legacyDecision = sample_legacy signal, oi_request = Some sample_request,
      oi_runner = runner, oi_preserveLegacy = False, oi_monotonic = True, oi_alwaysEvaluate = False\<rparr>"

lemma orchestrate_obtain:
  assumes "case orchestrateJudgment input of Inl _ \<Rightarrow> False | Inr _ \<Rightarrow> True"
  obtains res where "orchestrateJudgment input = Inr res"
  using assms by (cases "orchestrateJudgment input") auto

text \<open>
  C13: Safety dominance. Whatever the rollout mode, the policies and the answer of the intent
  runner, the active decision stops if and only if one of the legacy signals is
  safety-dispositioned; in that case the runner is not even asked.
\<close>

theorem safety_dominates:
  assumes "orchestrateJudgment input = Inr res"
  shows "(jd_action (or_activeDecision res) = ''stop'') = list_ex is_safety (jd_signals (oi_legacyDecision input)) \<and>
         (if list_ex is_safety (jd_signals (oi_legacyDecision input))
          then or_reason res = RSafetyStop \<and> \<not> or_attempted res else or_reason res \<noteq> RSafetyStop)"
proof -
  let ?legacy = "oi_legacyDecision input" and ?l = "or_legacyDecision res"
  have l: "reduceJudgment (jd_stage ?legacy) (jd_signals ?legacy) (jd_judgment ?legacy) = Inr ?l"
    using orchestrate_legacy [OF assms] by (simp add: validatedLegacyDecision_def)
  note sig = reducer.reduce_signals [OF l]
  have stop_l: "(jd_action ?l = ''stop'') = list_ex is_safety (jd_signals ?legacy)"
    using reducer.reduce_stops [OF l] by (simp add: decision_stops_def list_ex_iff)
  have "(jd_action (or_activeDecision res) = ''stop'') = (jd_action ?l = ''stop'')"
    using orchestrate_active [OF assms] sig stop_l reducer.reduce_stops
    by (fastforce simp: decision_stops_def list_ex_iff)
  moreover have "if sf_passed (jd_safetyFloor ?l) then or_reason res \<noteq> RSafetyStop
      else or_reason res = RSafetyStop \<and> \<not> or_attempted res"
    using assms
    by (auto simp: orchestrateJudgment_def apply_run_result_def Let_def
        split: sum.splits if_splits option.splits run_result.splits)
  ultimately show ?thesis using stop_l floor_passed [OF l] by auto
qed

lemma safety_dominates_witness:
  "\<exists>res. orchestrateJudgment (sample_input ModeEnforce (Some approving_runner)
       (sample_signal ''safety'' (Some ''secret_exposure''))) = Inr res \<and>
     jd_action (or_activeDecision res) = ''stop'' \<and> \<not> or_attempted res"
proof -
  let ?in = "sample_input ModeEnforce (Some approving_runner) (sample_signal ''safety'' (Some ''secret_exposure''))"
  have "case orchestrateJudgment ?in of Inl _ \<Rightarrow> False | Inr _ \<Rightarrow> True" by code_simp
  then obtain res where res: "orchestrateJudgment ?in = Inr res" by (rule orchestrate_obtain)
  have "list_ex is_safety (jd_signals (oi_legacyDecision ?in))" by code_simp
  then show ?thesis using safety_dominates [OF res] res by auto
qed

text \<open>
  A rollout that is off or shadowing never changes an outcome: the active decision is the
  legacy decision as the reducer re-validated it, whatever the runner answers.
\<close>

theorem shadow_keeps_legacy:
  assumes "orchestrateJudgment input = Inr res" and "oi_mode input \<noteq> ModeEnforce"
  shows "Inr (or_activeDecision res) = validatedLegacyDecision (oi_legacyDecision input)"
  using orchestrate_active [OF assms(1)] orchestrate_legacy [OF assms(1)] assms(2) by auto

lemma shadow_keeps_legacy_witness:
  "\<exists>res. orchestrateJudgment (sample_input ModeShadow (Some approving_runner) (sample_signal ''repair'' None)) = Inr res \<and>
     Inr (or_activeDecision res) = validatedLegacyDecision (sample_legacy (sample_signal ''repair'' None))"
proof -
  let ?in = "sample_input ModeShadow (Some approving_runner) (sample_signal ''repair'' None)"
  have "case orchestrateJudgment ?in of Inl _ \<Rightarrow> False | Inr _ \<Rightarrow> True" by code_simp
  then obtain res where res: "orchestrateJudgment ?in = Inr res" by (rule orchestrate_obtain)
  show ?thesis using shadow_keeps_legacy [OF res] res by (auto simp: sample_input_def)
qed

text \<open>
  Hold or demote. Under the monotonic policy the active decision is never less restrictive
  than the legacy one: the intent model can confirm, pause or demote, but cannot widen approval.
\<close>

theorem monotonic_policy_never_upgrades:
  assumes "orchestrateJudgment input = Inr res" and "oi_monotonic input"
  shows "\<exists>l a. map_of ACTION_RESTRICTIVENESS (jd_action (or_legacyDecision res)) = Some l \<and>
           map_of ACTION_RESTRICTIVENESS (jd_action (or_activeDecision res)) = Some a \<and> l \<le> a"
proof -
  let ?l = "or_legacyDecision res" and ?a = "or_activeDecision res"
  have l: "\<exists>st ss j. reduceJudgment st ss j = Inr ?l"
    using orchestrate_legacy [OF assms(1)] by (auto simp: validatedLegacyDecision_def)
  then obtain n where n: "map_of ACTION_RESTRICTIVENESS (jd_action ?l) = Some n" "jd_action ?l \<noteq> ''stop'' \<longrightarrow> n \<le> 2"
    using reduced_restrictiveness by blast
  have pass: "jd_action ?l \<noteq> ''stop''" if "sf_passed (jd_safetyFloor ?l)"
    using that l floor_passed by blast
  from orchestrate_active [OF assms(1)] consider
    "?a = ?l"
    | j where "sf_passed (jd_safetyFloor ?l)" "reduceJudgment (jd_stage ?l) (jd_signals ?l) j = Inr ?a"
      "\<not> isLessRestrictive ?a ?l"
    | r where "sf_passed (jd_safetyFloor ?l)"
      "reduceJudgment (jd_stage ?l) (jd_signals ?l @ [runnerUnavailableSignal ?l r]) runnerUnavailableJudgment = Inr ?a"
    using assms(2) by blast
  then show ?thesis
  proof cases
    case 1
    then show ?thesis using n by simp
  next
    case 2
    then show ?thesis using n reduced_restrictiveness [OF 2(2)] by (auto simp: isLessRestrictive_def)
  next
    case 3
    then have "jd_action ?a = ''human_review'' \<or> jd_action ?a = ''stop''"
      by (auto simp: reduceJudgment_ok runnerUnavailableJudgment_def)
    then show ?thesis using n pass [OF 3(1)] by (auto simp: ACTION_RESTRICTIVENESS_def)
  qed
qed

lemma monotonic_policy_never_upgrades_witness:
  "\<exists>res a. orchestrateJudgment (sample_input ModeEnforce (Some approving_runner) (sample_signal ''repair'' None)) = Inr res \<and>
     map_of ACTION_RESTRICTIVENESS (jd_action (or_activeDecision res)) = Some a \<and>
     or_reason res = RIntentUpgradeRefused"
proof -
  let ?in = "sample_input ModeEnforce (Some approving_runner) (sample_signal ''repair'' None)"
  have c: "case orchestrateJudgment ?in of Inl _ \<Rightarrow> False | Inr r \<Rightarrow> or_reason r = RIntentUpgradeRefused" by code_simp
  then have "case orchestrateJudgment ?in of Inl _ \<Rightarrow> False | Inr _ \<Rightarrow> True" by (auto split: sum.splits)
  then obtain res where res: "orchestrateJudgment ?in = Inr res" by (rule orchestrate_obtain)
  have "oi_monotonic ?in" by (simp add: sample_input_def)
  from monotonic_policy_never_upgrades [OF res this] res c show ?thesis by auto
qed

lemma exact_refs_once:
  assumes "hasExactSignalRefs (RunCompleted j refs m) req"
  shows "distinct refs \<and> mset refs = mset (map si_ref (ir_signals req))"
proof -
  let ?e = "map si_ref (ir_signals req)"
  have d: "distinct refs" and l: "length refs = length ?e" and sub: "set refs \<subseteq> set ?e"
    using assms by (auto simp: hasExactSignalRefs_def Let_def length_js_uniq_distinct list_all_iff)
  have "card (set refs) = length ?e" using d l by (simp add: distinct_card)
  moreover have "card (set refs) \<le> card (set ?e)" using sub by (simp add: card_mono)
  moreover have "card (set ?e) \<le> length ?e" by (rule card_length)
  ultimately have "card (set ?e) = length ?e" "card (set refs) = card (set ?e)" by linarith+
  then have "distinct ?e" "set refs = set ?e" using sub by (simp_all add: card_distinct card_subset_eq)
  then show ?thesis using d set_eq_iff_mset_eq_distinct [of refs ?e] by simp
qed

text \<open>
  C14: Failing closed. In enforce mode, with an intent request and without leave to preserve the legacy outcome,
  a runner that is absent, rejects, reports an error or answers for anything but each signal of the request
  exactly once turns a judgment that has a blocking signal and no safety signal into \<open>human_review\<close>. (Without
  an intent request the runner is not asked and the legacy decision stands.)
\<close>

theorem runner_failure_fails_closed:
  assumes "validatedLegacyDecision (oi_legacyDecision input) = Inr legacy"
    and "\<not> list_ex is_safety (jd_signals legacy)" and "has_blocking_signal legacy"
    and "oi_mode input = ModeEnforce" and "\<not> oi_preserveLegacy input"
    and "oi_request input = Some request"
    and "case oi_runner input of None \<Rightarrow> True
         | Some run \<Rightarrow> (case run request of Inl _ \<Rightarrow> True | Inr res \<Rightarrow>
             (case res of RunError _ _ _ \<Rightarrow> True
              | RunCompleted _ refs _ \<Rightarrow> \<not> (distinct refs \<and> mset refs = mset (map si_ref (ir_signals request)))))"
  shows "\<exists>res. orchestrateJudgment input = Inr res \<and> jd_action (or_activeDecision res) = ''human_review'' \<and>
           or_reason res = REnforceRunnerError"
proof -
  obtain st ss j where red: "reduceJudgment st ss j = Inr legacy"
    using assms(1) by (auto simp: validatedLegacyDecision_def)
  then have valid: "jd_stage legacy \<in> set JUDGMENT_STAGES" "list_all valid_signal (jd_signals legacy)"
    by (auto simp: reduceJudgment_ok validateSignals_ok)
  have floor: "filter is_safety (jd_signals legacy) = []"
    using assms(2) by (simp add: filter_empty_conv list_ex_iff)
  have passed: "sf_passed (jd_safetyFloor legacy)" using red floor by (auto simp: reduceJudgment_ok)
  obtain code msg meta where run: "run_intent (oi_runner input) request = RunError code msg meta"
  proof -
    have err: "hasExactSignalRefs (RunError a b c) request" for a b c by (simp add: hasExactSignalRefs_def)
    have "(case res of RunError _ _ _ \<Rightarrow> True
        | RunCompleted _ refs _ \<Rightarrow> \<not> (distinct refs \<and> mset refs = mset (map si_ref (ir_signals request)))) \<Longrightarrow>
      \<exists>code msg meta. (if hasExactSignalRefs res request then res else invalidRefs res) = RunError code msg meta" for res
      using exact_refs_once by (cases res) (fastforce simp: err invalidRefs_def)+
    moreover let ?res = "case oi_runner input of None \<Rightarrow> unhandledRunnerRejection
        | Some run \<Rightarrow> (case run request of Inl _ \<Rightarrow> unhandledRunnerRejection | Inr res \<Rightarrow> res)"
    have "case ?res of RunError _ _ _ \<Rightarrow> True
        | RunCompleted _ refs _ \<Rightarrow> \<not> (distinct refs \<and> mset refs = mset (map si_ref (ir_signals request)))"
      using assms(7) by (auto simp: unhandledRunnerRejection_def split: option.splits sum.splits)
    ultimately have "\<exists>code msg meta. (if hasExactSignalRefs ?res request then ?res else invalidRefs ?res) = RunError code msg meta"
      by blast
    then show ?thesis using that by (auto simp: run_intent_def Let_def)
  qed
  let ?sig = "runnerUnavailableSignal legacy (RunError code msg meta)"
  have "js_trim (sg_code ?sig) \<noteq> ''''" "js_trim (sg_message ?sig) \<noteq> ''''"
    by (simp_all add: runnerUnavailableSignal_def) code_simp+
  then have "valid_signal ?sig"
    using valid(1) by (simp add: valid_signal_def) (simp add: runnerUnavailableSignal_def JUDGMENT_SIGNAL_DISPOSITIONS_def)
  then have "list_all valid_signal (jd_signals legacy @ [?sig])" using valid(2) by simp
  then obtain act where act: "reduceJudgment (jd_stage legacy) (jd_signals legacy @ [?sig]) runnerUnavailableJudgment = Inr act"
    "jd_action act = ''human_review''"
    using valid(1) floor
    by (simp add: reduceJudgment_ok validateSignals_ok runnerUnavailableJudgment_def JUDGMENT_SOURCES_def
        INTENT_JUDGMENT_ACTIONS_def)
  then show ?thesis
    using assms(1,3-6) passed run by (simp add: orchestrateJudgment_def apply_run_result_def)
qed

lemma runner_failure_fails_closed_witness:
  "\<exists>res. orchestrateJudgment (sample_input ModeEnforce None (sample_signal ''repair'' None)) = Inr res \<and>
     jd_action (or_activeDecision res) = ''human_review''"
proof -
  let ?in = "sample_input ModeEnforce None (sample_signal ''repair'' None)"
  have "validatedLegacyDecision (oi_legacyDecision ?in) = Inr (sample_legacy (sample_signal ''repair'' None))"
    "\<not> list_ex is_safety (jd_signals (sample_legacy (sample_signal ''repair'' None)))"
    "has_blocking_signal (sample_legacy (sample_signal ''repair'' None))"
    by code_simp+
  then show ?thesis
    using runner_failure_fails_closed [of ?in "sample_legacy (sample_signal ''repair'' None)" sample_request]
    by (auto simp: sample_input_def)
qed

end
