(* ===== verification/Judgment_Producers.thy ===== *)
theory Judgment_Producers
  imports Judgment_Orchestrator
begin

text \<open>
  The producers of deterministic facts and their injection into the judgment plane: conformance of
  the sealed change-set (\<open>src/judgment/producers/seal-conformance.ts\<close>), protected branches
  (\<open>src/judgment/producers/branch-mutation.ts\<close>), the conversion of facts to signals
  (\<open>src/judgment/producers/signal-injection.ts\<close>) and its use on a sealed snapshot
  (\<open>src/judgment/producers/snapshot-signals.ts\<close>). A manifest read from disk is an input: its
  producer blocks, or the failure to read it.
\<close>

datatype candidate_code =
    MachineryTamper | SecretExposure | ProtectedHistoryRewrite | ProtectedDelete | ProductionDeploy

fun candidate_name :: "candidate_code \<Rightarrow> string" where
  "candidate_name MachineryTamper = ''machinery_tamper''"
| "candidate_name SecretExposure = ''secret_exposure''"
| "candidate_name ProtectedHistoryRewrite = ''protected_branch_history_rewrite''"
| "candidate_name ProtectedDelete = ''protected_branch_delete''"
| "candidate_name ProductionDeploy = ''production_deploy''"

section \<open>Sealed change-sets\<close>

datatype seal_class = MachineryTierS | VerificationTierR | DeniedPath | OutsideWritable

fun seal_class_name :: "seal_class \<Rightarrow> string" where
  "seal_class_name MachineryTierS = ''machinery_tier_s''"
| "seal_class_name VerificationTierR = ''verification_tier_r''"
| "seal_class_name DeniedPath = ''denied_path''"
| "seal_class_name OutsideWritable = ''outside_writable''"

record seal_fact =
  sl_path :: string
  sl_status :: string
  sl_classification :: seal_class
  sl_candidate :: "candidate_code option"

record seal_summary =
  ss_tierSCount :: nat
  ss_tierRCount :: nat
  ss_deniedPathCount :: nat
  ss_outsideWritableCount :: nat
  ss_cleanCount :: nat
  ss_facts :: "seal_fact list"

record sandbox_config =
  sb_writablePaths :: "string list"
  sb_deniedPaths :: "string list"

definition TIER_S_EXACT_PATHS :: "string list" where
  "TIER_S_EXACT_PATHS =
     [''.quack/adapter.json'', ''.quack/verify.js'', ''.quack/judge-criteria.md'',
      ''.quack/conventions.md'']"

definition TIER_S_PREFIX_PATHS :: "string list" where
  "TIER_S_PREFIX_PATHS = [''.quack/convention-checks/'', ''.quack/templates/'']"

definition TIER_R_EXACT :: "string list" where
  "TIER_R_EXACT = [''package.json'', ''package-lock.json'', ''pnpm-lock.yaml'', ''yarn.lock'']"

definition TIER_R_PREFIXES :: "string list" where
  "TIER_R_PREFIXES = [''.github/workflows/'']"

text \<open>The four expressions of \<open>TIER_R_PATTERNS\<close>.\<close>

definition tier_r_pattern :: "string \<Rightarrow> bool" where
  "tier_r_pattern p \<longleftrightarrow>
     p \<in> set (map (\<lambda>x. ''jest.config.'' @ x) [''js'', ''ts'', ''mjs'', ''cjs'', ''json'']) \<or>
     (js_starts_with p ''tsconfig'' \<and> js_ends_with (drop 8 p) ''.json'' \<and>
        CHR ''/'' \<notin> set (take (length p - 13) (drop 8 p))) \<or>
     p = ''.eslintrc'' \<or>
     (js_starts_with p ''.eslintrc.'' \<and> drop 10 p \<noteq> '''' \<and> CHR ''/'' \<notin> set (drop 10 p)) \<or>
     p \<in> set (map (\<lambda>x. ''eslint.config.'' @ x) [''js'', ''ts'', ''mjs'', ''cjs''])"

definition normalize_path :: "string \<Rightarrow> string" where
  "normalize_path filePath =
     (let p = map (\<lambda>c. if c = CHR 0x5C then CHR ''/'' else c) filePath in
      if js_starts_with p ''./'' then drop 2 p else p)"

definition matchesActiveSpec :: "string \<Rightarrow> string \<Rightarrow> bool" where
  "matchesActiveSpec p prefix \<longleftrightarrow>
     js_starts_with p prefix \<and>
     (length p = length prefix \<or> p ! length prefix = CHR ''-'' \<or> p ! length prefix = CHR ''.'')"

definition is_tier_s :: "string \<Rightarrow> string option \<Rightarrow> bool" where
  "is_tier_s pLower activeSpecPrefix \<longleftrightarrow>
     pLower \<in> set TIER_S_EXACT_PATHS \<or> list_ex (js_starts_with pLower) TIER_S_PREFIX_PATHS \<or>
     (case activeSpecPrefix of
        None \<Rightarrow> False
      | Some pre \<Rightarrow> 0 < length pre \<and> matchesActiveSpec pLower (js_to_lower (normalize_path pre)))"

definition classify :: "string \<Rightarrow> sandbox_config \<Rightarrow> string option \<Rightarrow> seal_class option" where
  "classify filePath sandbox activeSpecPrefix =
     (let p = normalize_path filePath; pLower = js_to_lower p in
      if is_tier_s pLower activeSpecPrefix then Some MachineryTierS
      else if pLower \<in> set TIER_R_EXACT \<or> list_ex (js_starts_with pLower) TIER_R_PREFIXES
              \<or> tier_r_pattern pLower then Some VerificationTierR
      else if list_ex (\<lambda>d. p = d \<or> js_starts_with p d) (sb_deniedPaths sandbox) then Some DeniedPath
      else if sb_writablePaths sandbox \<noteq> [] \<and> \<not> list_ex (js_starts_with p) (sb_writablePaths sandbox)
      then Some OutsideWritable
      else None)"

definition seal_fact_of ::
  "sandbox_config \<Rightarrow> string option \<Rightarrow> string \<times> string \<Rightarrow> seal_fact option" where
  "seal_fact_of sandbox spec file =
     map_option (\<lambda>c. \<lparr>sl_path = normalize_path (fst file), sl_status = snd file, sl_classification = c,
                      sl_candidate = (if c = MachineryTierS then Some MachineryTamper else None)\<rparr>)
       (classify (fst file) sandbox spec)"

definition count_class :: "seal_class \<Rightarrow> seal_fact list \<Rightarrow> nat" where
  "count_class c facts = length (filter (\<lambda>f. sl_classification f = c) facts)"

definition evaluateSealConformance ::
  "(string \<times> string) list \<Rightarrow> sandbox_config \<Rightarrow> string option \<Rightarrow> seal_summary" where
  "evaluateSealConformance changedFiles sandbox spec =
     (let facts = List.map_filter (seal_fact_of sandbox spec) changedFiles in
      \<lparr>ss_tierSCount = count_class MachineryTierS facts,
       ss_tierRCount = count_class VerificationTierR facts,
       ss_deniedPathCount = count_class DeniedPath facts,
       ss_outsideWritableCount = count_class OutsideWritable facts,
       ss_cleanCount = length (filter (\<lambda>f. classify (fst f) sandbox spec = None) changedFiles),
       ss_facts = facts\<rparr>)"

section \<open>Protected branches\<close>

datatype git_floor_class = GitWrite | BranchDelete | HistoryRewrite | RemoteRedirect | AliasDefinition

fun git_floor_name :: "git_floor_class \<Rightarrow> string" where
  "git_floor_name GitWrite = ''write''"
| "git_floor_name BranchDelete = ''branch_delete''"
| "git_floor_name HistoryRewrite = ''history_rewrite''"
| "git_floor_name RemoteRedirect = ''remote_redirect''"
| "git_floor_name AliasDefinition = ''alias_definition''"

record git_floor_match =
  gm_segment :: string
  gm_verb :: string
  gm_class :: git_floor_class
  gm_targetRef :: "string option"

record branch_fact =
  bm_mutationClass :: git_floor_class
  bm_verb :: string
  bm_targetRef :: "string option"
  bm_candidate :: "candidate_code option"
  bm_segment :: string

definition DEFAULT_PROTECTED_BRANCHES :: "string list" where
  "DEFAULT_PROTECTED_BRANCHES = [''main'', ''dev'', ''staging'', ''prod'']"

definition resolveProtectedBranches :: "string list option \<Rightarrow> string \<Rightarrow> string list" where
  "resolveProtectedBranches protectedBranches baseBranch =
     js_uniq ((case protectedBranches of None \<Rightarrow> DEFAULT_PROTECTED_BRANCHES | Some bs \<Rightarrow> bs) @ [baseBranch])"

definition GLOBAL_REWRITE_VERBS :: "string list" where
  "GLOBAL_REWRITE_VERBS = [''reflog'', ''gc'', ''update-ref'']"

definition targets_protected :: "git_floor_match \<Rightarrow> string list \<Rightarrow> bool" where
  "targets_protected m protectedBranches =
     (case gm_targetRef m of
        None \<Rightarrow> False
      | Some t \<Rightarrow> list_ex (\<lambda>b. t = b \<or> t = ''refs/heads/'' @ b \<or> t = ''origin/'' @ b) protectedBranches)"

definition candidateCodeFor :: "git_floor_match \<Rightarrow> string list \<Rightarrow> candidate_code option" where
  "candidateCodeFor m protectedBranches =
     (if gm_class m = BranchDelete \<and> targets_protected m protectedBranches then Some ProtectedDelete
      else if gm_class m = HistoryRewrite then
        (if targets_protected m protectedBranches then Some ProtectedHistoryRewrite
         else if gm_targetRef m = None \<and> gm_verb m \<in> set GLOBAL_REWRITE_VERBS
         then Some ProtectedHistoryRewrite else None)
      else None)"

text \<open>\<open>classifyGitMutation\<close>, from the matches of the git floor on.\<close>

definition mutation_facts :: "git_floor_match list \<Rightarrow> string list \<Rightarrow> branch_fact list" where
  "mutation_facts matches protectedBranches =
     map (\<lambda>m. \<lparr>bm_mutationClass = gm_class m, bm_verb = gm_verb m, bm_targetRef = gm_targetRef m,
               bm_candidate = candidateCodeFor m protectedBranches, bm_segment = gm_segment m\<rparr>) matches"

record deletion_check =
  dc_allowed :: bool
  dc_reason :: "string option"

definition valid_branch_char :: "char \<Rightarrow> bool" where
  "valid_branch_char c \<longleftrightarrow>
     js_digit c \<or> js_upper_letter c \<or> js_lower_letter c \<or> c \<in> set ''._/-''"

definition strip_prefix :: "string \<Rightarrow> string \<Rightarrow> string" where
  "strip_prefix p s = (if js_starts_with s p then drop (length p) s else s)"

text \<open>\<open>json_text\<close> stands for \<open>JSON.stringify\<close> of the name, which only the message shows.\<close>

definition assertBranchDeletionAllowed ::
  "(string \<Rightarrow> string) \<Rightarrow> string \<Rightarrow> string list \<Rightarrow> deletion_check" where
  "assertBranchDeletionAllowed json_text branch protectedBranches =
     (if branch = '''' \<or> \<not> list_all valid_branch_char branch then
        \<lparr>dc_allowed = False,
         dc_reason = Some (''refusing to delete branch with invalid name '' @ json_text branch
           @ '' (shell-unsafe or non-ref characters)'')\<rparr>
      else
        let normalized = strip_prefix ''origin/'' (strip_prefix ''refs/heads/'' branch) in
        if normalized \<in> set protectedBranches then
          \<lparr>dc_allowed = False,
           dc_reason = Some (''refusing to delete protected branch \"'' @ normalized
             @ ''\" (protected set: '' @ js_join '', '' protectedBranches @ '')'')\<rparr>
        else \<lparr>dc_allowed = True, dc_reason = None\<rparr>)"

section \<open>Facts as signals\<close>

datatype signals_mode = SignalsOff | SignalsReport | SignalsEnforce

datatype secret_tier = SecretSafety | SecretHumanReview

fun secret_tier_name :: "secret_tier \<Rightarrow> string" where
  "secret_tier_name SecretSafety = ''safety''"
| "secret_tier_name SecretHumanReview = ''human_review''"

record secret_finding =
  sc_tier :: secret_tier
  sc_patternId :: string
  sc_file :: string
  sc_line :: "nat option"
  sc_maskedExcerpt :: string
  sc_demotedBy :: "string option"
  sc_candidate :: "candidate_code option"

datatype deploy_tier = ResolvedDestination | ShapeOnly

fun deploy_tier_name :: "deploy_tier \<Rightarrow> string" where
  "deploy_tier_name ResolvedDestination = ''resolved_destination''"
| "deploy_tier_name ShapeOnly = ''shape_only''"

record deploy_fact =
  df_tier :: deploy_tier
  df_verb :: string
  df_marker :: "string option"
  df_candidate :: "candidate_code option"
  df_segment :: string

datatype injectable_fact =
    SealFact seal_fact | SecretFact secret_finding | BranchFact branch_fact | DeployFact deploy_fact

fun fact_candidate :: "injectable_fact \<Rightarrow> candidate_code option" where
  "fact_candidate (SealFact f) = sl_candidate f"
| "fact_candidate (SecretFact f) = sc_candidate f"
| "fact_candidate (BranchFact f) = bm_candidate f"
| "fact_candidate (DeployFact f) = df_candidate f"

text \<open>The ellipsis in its UTF-8 encoding.\<close>

definition ELLIPSIS :: string where
  "ELLIPSIS = [CHR 0xE2, CHR 0x80, CHR 0xA6]"

definition truncate_text :: "string \<Rightarrow> string" where
  "truncate_text value = (if 160 < length value then take 160 value @ ELLIPSIS else value)"

definition dispositionFor :: "injectable_fact \<Rightarrow> signals_mode \<Rightarrow> string" where
  "dispositionFor fa mode =
     (if fact_candidate fa \<noteq> None then
        (if mode = SignalsEnforce then ''safety'' else ''human_review'')
      else case fa of
        SealFact f \<Rightarrow> if sl_classification f = VerificationTierR then ''advisory'' else ''human_review''
      | SecretFact f \<Rightarrow> ''human_review''
      | DeployFact f \<Rightarrow> if df_tier f = ShapeOnly then ''advisory'' else ''human_review''
      | BranchFact f \<Rightarrow> ''advisory'')"

definition opt_field :: "string \<Rightarrow> string option \<Rightarrow> string list" where
  "opt_field prefix v =
     (case v of None \<Rightarrow> [] | Some x \<Rightarrow> if x = '''' then [] else [prefix @ x])"

definition fact_code :: "injectable_fact \<Rightarrow> string" where
  "fact_code fa =
     (case fa of
        SealFact f \<Rightarrow> ''seal_'' @ seal_class_name (sl_classification f)
      | SecretFact f \<Rightarrow> ''secret_'' @ sc_patternId f
      | BranchFact f \<Rightarrow> ''attempt_'' @ git_floor_name (bm_mutationClass f)
      | DeployFact f \<Rightarrow> ''deploy_'' @ deploy_tier_name (df_tier f))"

definition fact_message :: "injectable_fact \<Rightarrow> string" where
  "fact_message fa =
     (case fa of
        SealFact f \<Rightarrow> ''Sealed change-set path classified '' @ seal_class_name (sl_classification f)
          @ '': '' @ sl_path f
      | SecretFact f \<Rightarrow> ''Secret scan '' @ secret_tier_name (sc_tier f) @ ''-tier finding (''
          @ sc_patternId f @ '') in '' @ sc_file f
      | BranchFact f \<Rightarrow> ''Worker attempted a denied git '' @ git_floor_name (bm_mutationClass f)
          @ '' ('' @ bm_verb f @ '')''
      | DeployFact f \<Rightarrow> ''Deploy-shaped command observed ('' @ df_verb f @ '', ''
          @ deploy_tier_name (df_tier f) @ '')'')"

definition fact_evidence :: "injectable_fact \<Rightarrow> string list" where
  "fact_evidence fa =
     (case fa of
        SealFact f \<Rightarrow> [sl_path f, ''status='' @ sl_status f]
      | SecretFact f \<Rightarrow>
          [sc_file f] @ (case sc_line f of None \<Rightarrow> [] | Some n \<Rightarrow> [''line='' @ digits_text n])
          @ [sc_maskedExcerpt f] @ opt_field ''demoted='' (sc_demotedBy f)
      | BranchFact f \<Rightarrow> [truncate_text (bm_segment f)] @ opt_field ''target='' (bm_targetRef f)
      | DeployFact f \<Rightarrow> [truncate_text (df_segment f)] @ opt_field ''marker='' (df_marker f))"

definition signalFor :: "string \<Rightarrow> injectable_fact \<Rightarrow> signals_mode \<Rightarrow> judgment_signal" where
  "signalFor stage fa mode =
     (let disposition = dispositionFor fa mode in
      \<lparr>sg_source = stage, sg_code = fact_code fa, sg_disposition = disposition,
       sg_message = fact_message fa, sg_deterministic = True, sg_evidence = Some (fact_evidence fa),
       sg_safetyCode = (if disposition = ''safety'' then map_option candidate_name (fact_candidate fa)
                        else None)\<rparr>)"

record injection_input =
  in_sealConformance :: "seal_summary option"
  in_secretFindings :: "secret_finding list option"
  in_workerFacts :: "injectable_fact list option" \<comment> \<open>branch mutation and deploy facts\<close>

definition injected_facts :: "injection_input \<Rightarrow> injectable_fact list" where
  "injected_facts input =
     (case in_sealConformance input of None \<Rightarrow> [] | Some s \<Rightarrow> map SealFact (ss_facts s))
     @ (case in_secretFindings input of None \<Rightarrow> [] | Some fs \<Rightarrow> map SecretFact fs)
     @ (case in_workerFacts input of None \<Rightarrow> [] | Some fs \<Rightarrow> fs)"

definition factsToSignals :: "string \<Rightarrow> injection_input \<Rightarrow> signals_mode \<Rightarrow> judgment_signal list" where
  "factsToSignals stage input mode =
     (if mode = SignalsOff then []
      else map (\<lambda>f. signalFor stage f mode) (injected_facts input))"

section \<open>Sealed snapshots\<close>

text \<open>The producer blocks of a snapshot or of its manifest.\<close>

type_synonym blocks = "seal_summary option \<times> secret_finding list option"

record producer_blocks =
  pb_blocks :: blocks
  pb_advisory :: "judgment_signal option"

definition conformance_advisory :: "string \<Rightarrow> string \<Rightarrow> judgment_signal" where
  "conformance_advisory code message =
     \<lparr>sg_source = ''judge'', sg_code = code, sg_disposition = ''advisory'', sg_message = message,
      sg_deterministic = True, sg_evidence = None, sg_safetyCode = None\<rparr>"

definition has_blocks :: "blocks \<Rightarrow> bool" where
  "has_blocks b \<longleftrightarrow> fst b \<noteq> None \<or> snd b \<noteq> None"

definition loadProducerBlocks :: "blocks \<Rightarrow> unit + blocks \<Rightarrow> producer_blocks" where
  "loadProducerBlocks snapshot manifest =
     (if has_blocks snapshot then \<lparr>pb_blocks = snapshot, pb_advisory = None\<rparr>
      else case manifest of
        Inr b \<Rightarrow>
          if has_blocks b then \<lparr>pb_blocks = b, pb_advisory = None\<rparr>
          else \<lparr>pb_blocks = (None, None), pb_advisory = Some (conformance_advisory ''conformance_unavailable''
                 ''Sealed snapshot predates producer blocks; conformance signals unavailable'')\<rparr>
      | Inl _ \<Rightarrow>
          \<lparr>pb_blocks = (None, None), pb_advisory = Some (conformance_advisory ''conformance_unreadable''
             ''Sealed snapshot manifest could not be read for conformance re-derivation'')\<rparr>)"

definition buildInjectedSignals ::
  "string \<Rightarrow> blocks \<Rightarrow> unit + blocks \<Rightarrow> injectable_fact list option \<Rightarrow> signals_mode \<Rightarrow> judgment_signal list" where
  "buildInjectedSignals stage snapshot manifest workerFacts mode =
     (if mode = SignalsOff then []
      else
        let loaded = loadProducerBlocks snapshot manifest;
            signals = factsToSignals stage
              \<lparr>in_sealConformance = fst (pb_blocks loaded), in_secretFindings = snd (pb_blocks loaded),
               in_workerFacts = Some (case workerFacts of None \<Rightarrow> [] | Some fs \<Rightarrow> fs)\<rparr> mode
        in signals @ (case pb_advisory loaded of None \<Rightarrow> [] | Some a \<Rightarrow> [a\<lparr>sg_source := stage\<rparr>]))"

definition safetyStopRequested :: "string option \<Rightarrow> judgment_signal list \<Rightarrow> signals_mode \<Rightarrow> bool" where
  "safetyStopRequested decisionAction injected mode =
     (if mode \<noteq> SignalsEnforce then False
      else case decisionAction of
        Some act \<Rightarrow> act = ''stop''
      | None \<Rightarrow> list_ex (\<lambda>s. sg_disposition s = ''safety'') injected)"

section \<open>Properties\<close>

lemma js_trim_Cons: "\<not> is_js_space c \<Longrightarrow> js_trim (c # cs) \<noteq> ''''"
  by (auto simp: js_trim_def dropWhile_eq_Nil_conv)

lemma candidate_canonical: "candidate_name c \<in> set SAFETY_FLOOR_CODES"
  by (cases c) (simp_all add: SAFETY_FLOOR_CODES_def)

lemma signalFor_safety: "is_safety (signalFor stage fa mode) \<longleftrightarrow> mode = SignalsEnforce \<and> fact_candidate fa \<noteq> None"
  by (auto simp: is_safety_def signalFor_def dispositionFor_def Let_def split: injectable_fact.split)

lemma signalFor_valid:
  assumes "stage \<in> set JUDGMENT_STAGES"
  shows "valid_signal (signalFor stage fa mode)"
proof -
  have "js_trim (fact_code fa) \<noteq> ''''" "js_trim (fact_message fa) \<noteq> ''''"
    by (cases fa; simp add: fact_code_def fact_message_def js_trim_Cons is_js_space_def)+
  moreover have "dispositionFor fa mode \<in> set JUDGMENT_SIGNAL_DISPOSITIONS"
    by (simp add: dispositionFor_def JUDGMENT_SIGNAL_DISPOSITIONS_def split: injectable_fact.split)
  moreover have "is_safety (signalFor stage fa mode) \<Longrightarrow>
      \<exists>c. sg_safetyCode (signalFor stage fa mode) = Some (candidate_name c)"
    using signalFor_safety [of stage fa mode] by (auto simp: signalFor_def Let_def is_safety_def)
  moreover have "\<not> is_safety (signalFor stage fa mode) \<Longrightarrow> sg_safetyCode (signalFor stage fa mode) = None"
    by (simp add: signalFor_def Let_def is_safety_def)
  ultimately show ?thesis
    using assms candidate_canonical
    by (auto simp: valid_signal_def) (simp_all add: signalFor_def Let_def)
qed

text \<open>
  The precision of signal injection. For every canonical stage and every canonical intent,
  the signals injected from any producer facts pass the reducer, and the decision stops if and
  only if the mode is \<open>enforce\<close> and some fact carries a candidate safety code: a fact without a
  code can never stop a run, and in \<open>report\<close> and \<open>off\<close> mode no fact can.
\<close>

theorem injection_precision:
  assumes "stage \<in> set JUDGMENT_STAGES" and "ij_source judgment \<in> set JUDGMENT_SOURCES"
    and "ij_action judgment \<in> set INTENT_JUDGMENT_ACTIONS"
  shows "\<exists>d. reduceJudgment stage (factsToSignals stage input mode) judgment = Inr d \<and>
           (jd_action d = ''stop'') =
             (mode = SignalsEnforce \<and> list_ex (\<lambda>f. fact_candidate f \<noteq> None) (injected_facts input))"
proof -
  have "list_all valid_signal (factsToSignals stage input mode)"
    using assms(1) by (simp add: factsToSignals_def list_all_iff signalFor_valid)
  then obtain d where d: "reduceJudgment stage (factsToSignals stage input mode) judgment = Inr d"
    using assms by (simp add: reduceJudgment_ok validateSignals_ok)
  have "decision_stops d = list_ex is_safety (factsToSignals stage input mode)"
    using reducer.reduce_stops [OF d] by (simp add: list_ex_iff)
  then show ?thesis using d
    by (auto simp: decision_stops_def factsToSignals_def list_ex_iff signalFor_safety)
qed

definition tampered :: injection_input where
  "tampered = \<lparr>in_sealConformance = Some (evaluateSealConformance [(''.QUACK/adapter.json'', ''M'')]
       \<lparr>sb_writablePaths = [], sb_deniedPaths = []\<rparr> None),
     in_secretFindings = None, in_workerFacts = None\<rparr>"

lemma injection_precision_witness:
  "\<exists>d. reduceJudgment ''loop_diff'' (factsToSignals ''loop_diff'' tampered SignalsEnforce)
     \<lparr>ij_source = ''legacy_policy'', ij_action = ''continue'', ij_rationale = []\<rparr> = Inr d \<and> jd_action d = ''stop''"
proof -
  let ?j = "\<lparr>ij_source = ''legacy_policy'', ij_action = ''continue'', ij_rationale = []\<rparr>"
  have "list_ex (\<lambda>f. fact_candidate f \<noteq> None) (injected_facts tampered)" by code_simp
  moreover have "''loop_diff'' \<in> set JUDGMENT_STAGES" "ij_source ?j \<in> set JUDGMENT_SOURCES"
    "ij_action ?j \<in> set INTENT_JUDGMENT_ACTIONS" by code_simp+
  ultimately show ?thesis
    using injection_precision [of "''loop_diff''" ?j tampered SignalsEnforce] by auto
qed

lemma count_partition:
  "count_class MachineryTierS facts + count_class VerificationTierR facts + count_class DeniedPath facts
     + count_class OutsideWritable facts = length facts"
proof (induction facts)
  case (Cons f facts)
  then show ?case by (cases "sl_classification f") (simp_all add: count_class_def)
qed (simp add: count_class_def)

lemma length_map_filter: "length (List.map_filter f xs) + length (filter (\<lambda>x. f x = None) xs) = length xs"
  by (induction xs) (auto simp: List.map_filter_simps)

text \<open>
  A sealed change-set is accounted for. Every changed file is counted in exactly one class or
  as clean, and a fact carries a candidate code exactly when it is in the machinery tier, where the
  code is \<open>machinery_tamper\<close>.
\<close>

theorem sealed_files_accounted:
  "(let s = evaluateSealConformance files sandbox spec in
      ss_tierSCount s + ss_tierRCount s + ss_deniedPathCount s + ss_outsideWritableCount s + ss_cleanCount s
        = length files \<and>
      list_all (\<lambda>f. sl_candidate f =
        (if sl_classification f = MachineryTierS then Some MachineryTamper else None)) (ss_facts s))"
proof -
  have "(classify (fst f) sandbox spec = None) = (seal_fact_of sandbox spec f = None)" for f
    by (simp add: seal_fact_of_def)
  then show ?thesis
    using length_map_filter [of "seal_fact_of sandbox spec" files]
      count_partition [of "List.map_filter (seal_fact_of sandbox spec) files"]
    by (auto simp: evaluateSealConformance_def Let_def list_all_iff List.map_filter_def seal_fact_of_def)
qed

text \<open>
  Branch deletion fails closed. A deletion is allowed only for a non-empty name over the
  shell-safe characters, and never for a protected branch, whether it is named plainly, as
  \<open>refs/heads/...\<close> or as \<open>origin/...\<close>.
\<close>

theorem protected_branch_never_deleted:
  assumes "dc_allowed (assertBranchDeletionAllowed json_text branch protected)"
  shows "branch \<noteq> '''' \<and> list_all valid_branch_char branch \<and>
         (\<forall>b \<in> set protected. \<not> js_starts_with b ''origin/'' \<and> \<not> js_starts_with b ''refs/heads/'' \<longrightarrow>
            branch \<noteq> b \<and> branch \<noteq> ''refs/heads/'' @ b \<and> branch \<noteq> ''origin/'' @ b)"
proof -
  have strip: "strip_prefix ''origin/'' (strip_prefix ''refs/heads/'' x) = b"
    if "\<not> js_starts_with b ''origin/''" "\<not> js_starts_with b ''refs/heads/''"
      "x = b \<or> x = ''refs/heads/'' @ b \<or> x = ''origin/'' @ b" for x b
    using that by (auto simp: strip_prefix_def js_starts_with_def)
  have "branch \<noteq> ''''" "list_all valid_branch_char branch"
    "strip_prefix ''origin/'' (strip_prefix ''refs/heads/'' branch) \<notin> set protected"
    using assms by (auto simp: assertBranchDeletionAllowed_def Let_def split: if_splits)
  then show ?thesis using strip [of _ branch] by metis
qed

lemma protected_branch_never_deleted_witness:
  "dc_allowed (assertBranchDeletionAllowed (\<lambda>s. s) ''quack/TASK-1'' [''main'']) \<and>
   ''quack/TASK-1'' \<noteq> ''origin/'' @ ''main''"
proof -
  have a: "dc_allowed (assertBranchDeletionAllowed (\<lambda>s. s) ''quack/TASK-1'' [''main''])" by code_simp
  have "\<not> js_starts_with ''main'' ''origin/''" "\<not> js_starts_with ''main'' ''refs/heads/''" by code_simp+
  with protected_branch_never_deleted [OF a] a show ?thesis by auto
qed

end
