(* ===== verification/Task_Selection.thy ===== *)
theory Task_Selection
  imports Task_Status
begin

text \<open>
  Which backlog tasks may be dispatched and in which order
  (\<open>src/dispatcher/dependency-resolver.ts\<close>, \<open>src/dispatcher/task-selector.ts\<close>). The directory
  listing, the parsed task files and the rows of the status table are inputs. An effort that does
  not parse is \<open>Infinity\<close> in the code and \<open>None\<close> here; efforts are exact integers.
\<close>

section \<open>Tasks\<close>

record parsed_task =
  pt_id :: task_id
  pt_status :: string
  pt_priority :: string
  pt_effort :: string
  pt_blockedBy :: "task_id list"
  pt_conventions :: "string list"
  pt_testingRequirements :: "string list"
  pt_filesToModify :: "string list"
  pt_successCriteria :: "string list"
  pt_contextReferences :: "string list"
  pt_problemStatement :: string
  pt_currentState :: string
  pt_recommendedApproach :: string

datatype status_source = FromFile | FromDb

record resolver_task =
  rt_id :: task_id
  rt_status :: string
  rt_statusSource :: status_source
  rt_specStatus :: string
  rt_blockedBy :: "task_id list"
  rt_task :: parsed_task

record file_error =
  fe_file :: string
  fe_error :: string

section \<open>The dependency resolver\<close>

text \<open>The rows of the status table whose columns are both strings; a later row wins.\<close>

definition status_overlay :: "(js_value \<times> js_value) list \<Rightarrow> (task_id \<times> string) list" where
  "status_overlay rows =
     fold (\<lambda>row m. case row of (JStr i, JStr st) \<Rightarrow> js_map_set i st m | _ \<Rightarrow> m) rows []"

definition is_task_file :: "string \<times> bool \<Rightarrow> bool" where
  "is_task_file entry \<longleftrightarrow>
     snd entry \<and> (js_starts_with (fst entry) ''TASK-'' \<or> js_starts_with (fst entry) ''SAURUS-REM-'') \<and>
     js_starts_with (rev (fst entry)) (rev ''.md'')"

definition summary_of :: "(task_id \<times> string) list option \<Rightarrow> parsed_task \<Rightarrow> resolver_task" where
  "summary_of overlay parsed =
     (let overlaid = (case overlay of None \<Rightarrow> None | Some m \<Rightarrow> js_map_get m (pt_id parsed)) in
      \<lparr>rt_id = pt_id parsed,
       rt_status = (case overlaid of None \<Rightarrow> pt_status parsed | Some st \<Rightarrow> st),
       rt_statusSource = (if overlaid = None then FromFile else FromDb),
       rt_specStatus = pt_status parsed, rt_blockedBy = pt_blockedBy parsed, rt_task = parsed\<rparr>)"

text \<open>\<open>parseAllTasks\<close> over the files in order, each read and parsed or failed with a message.\<close>

fun parseAllTasks ::
  "(task_id \<times> string) list option \<Rightarrow> (string \<times> (string + parsed_task)) list
     \<Rightarrow> (task_id \<times> resolver_task) list \<Rightarrow> file_error list \<Rightarrow> (task_id \<times> resolver_task) list \<times> file_error list" where
  "parseAllTasks overlay [] tasks errors = (tasks, errors)"
| "parseAllTasks overlay ((file, Inr parsed) # rest) tasks errors =
     parseAllTasks overlay rest (js_map_set (pt_id parsed) (summary_of overlay parsed) tasks) errors"
| "parseAllTasks overlay ((file, Inl msg) # rest) tasks errors =
     parseAllTasks overlay rest tasks (errors @ [\<lparr>fe_file = file, fe_error = msg\<rparr>])"

definition isTaskEligible :: "resolver_task \<Rightarrow> (task_id \<times> resolver_task) list \<Rightarrow> bool" where
  "isTaskEligible t allTasks \<longleftrightarrow>
     rt_status t = ''BACKLOG'' \<and>
     list_all (\<lambda>depId. case js_map_get allTasks depId of
                 None \<Rightarrow> False | Some dep \<Rightarrow> isCompleteStatus (Some (rt_status dep))) (rt_blockedBy t)"

record dependency_resolution =
  dr_eligible :: "resolver_task list"
  dr_blocked :: "resolver_task list"
  dr_errors :: "file_error list"

definition resolve_tasks ::
  "(task_id \<times> string) list option \<Rightarrow> (string \<times> (string + parsed_task)) list \<Rightarrow> dependency_resolution" where
  "resolve_tasks overlay files =
     (let (tasks, errors) = parseAllTasks overlay files [] [];
          backlog = filter (\<lambda>t. rt_status t = ''BACKLOG'') (js_map_values tasks)
      in \<lparr>dr_eligible = filter (\<lambda>t. isTaskEligible t tasks) backlog,
          dr_blocked = filter (\<lambda>t. \<not> isTaskEligible t tasks) backlog, dr_errors = errors\<rparr>)"

section \<open>The task selector\<close>

definition PRIORITY_ORDER :: "(string \<times> int) list" where
  "PRIORITY_ORDER = [(''P0-CRITICAL'', 0), (''P1-HIGH'', 1), (''P2-MEDIUM'', 2), (''P3-LOW'', 3)]"

definition parse_digits :: "string \<Rightarrow> nat" where
  "parse_digits ds = foldl (\<lambda>n c. 10 * n + (of_char c - 48)) 0 ds"

text \<open>The leftmost match of a range, and the leftmost run of digits.\<close>

fun range_match :: "string \<Rightarrow> string option" where
  "range_match [] = None"
| "range_match (c # cs) =
     (let d = takeWhile js_digit (c # cs);
          r = dropWhile is_js_space (dropWhile js_digit (c # cs))
      in if d \<noteq> [] \<and> r \<noteq> [] \<and> hd r = CHR ''-''
            \<and> (case dropWhile is_js_space (tl r) of [] \<Rightarrow> False | x # _ \<Rightarrow> js_digit x)
         then Some d else range_match cs)"

definition single_match :: "string \<Rightarrow> string option" where
  "single_match s =
     (let d = takeWhile js_digit (dropWhile (\<lambda>c. \<not> js_digit c) s) in if d = [] then None else Some d)"

definition parseEffort :: "string \<Rightarrow> nat option" where
  "parseEffort effort =
     (case range_match effort of
        Some d \<Rightarrow> Some (parse_digits d)
      | None \<Rightarrow> (case single_match effort of Some d \<Rightarrow> Some (parse_digits d) | None \<Rightarrow> None))"

datatype agent_fit = FitHigh | FitMedium | FitLow

definition estimateAgentFit :: "resolver_task \<Rightarrow> agent_fit" where
  "estimateAgentFit t =
     (let score = (if 0 < length (pt_conventions (rt_task t)) then 2 else 0)
                + (if 0 < length (pt_testingRequirements (rt_task t)) then 2 else 0)
                + (if 0 < length (pt_filesToModify (rt_task t)) then 1 else 0)
                + (case parseEffort (pt_effort (rt_task t)) of
                     None \<Rightarrow> 0 | Some h \<Rightarrow> if h \<le> 8 then 1 else (0::nat))
      in if 4 \<le> score then FitHigh else if 2 \<le> score then FitMedium else FitLow)"

definition computeReadinessScore :: "resolver_task \<Rightarrow> int" where
  "computeReadinessScore t =
     (let p = rt_task t;
          score = (if pt_problemStatement p \<noteq> '''' then 15 else 0)
                + (if 0 < length (pt_successCriteria p) then 15 else 0)
                + (if 0 < length (pt_testingRequirements p) then 15 else 0)
                + (if pt_currentState p \<noteq> '''' then 10 else 0)
                + (if pt_recommendedApproach p \<noteq> '''' then 10 else 0)
                + (if 0 < length (pt_filesToModify p) then 15 else 0)
                + (if 0 < length (pt_conventions p) then 10 else 0)
                + (if 0 < length (pt_contextReferences p) then 5 else 0)
                + (if 3 \<le> length (pt_successCriteria p) then 5 else 0)
      in min score 100)"

record task_selection =
  sel_taskId :: task_id
  sel_priority :: string
  sel_effort :: string
  sel_blockedBy :: "task_id list"
  sel_conventions :: "string list"
  sel_hasTestCriteria :: bool
  sel_readinessScore :: int
  sel_estimatedAgentFit :: agent_fit

definition toTaskSelection :: "resolver_task \<Rightarrow> task_selection" where
  "toTaskSelection t =
     \<lparr>sel_taskId = rt_id t, sel_priority = pt_priority (rt_task t), sel_effort = pt_effort (rt_task t),
      sel_blockedBy = rt_blockedBy t, sel_conventions = pt_conventions (rt_task t),
      sel_hasTestCriteria = 0 < length (pt_testingRequirements (rt_task t)),
      sel_readinessScore = computeReadinessScore t, sel_estimatedAgentFit = estimateAgentFit t\<rparr>"

text \<open>The priority is one of the four of its type; another string would not index the table.\<close>

definition priority_rank :: "string \<Rightarrow> int" where
  "priority_rank p = (case map_of PRIORITY_ORDER p of None \<Rightarrow> 4 | Some n \<Rightarrow> n)"

text \<open>
  The comparator of \<open>sort\<close>. The difference of two infinite efforts is \<open>NaN\<close>: it is not equal to
  0, so it is returned, and \<open>sort\<close> takes it as 0. An infinite difference is given by its sign.
\<close>

definition selection_order :: "task_selection \<Rightarrow> task_selection \<Rightarrow> int" where
  "selection_order a b =
     (let priorityDiff = priority_rank (sel_priority a) - priority_rank (sel_priority b) in
      if priorityDiff \<noteq> 0 then priorityDiff
      else case (parseEffort (sel_effort a), parseEffort (sel_effort b)) of
        (None, None) \<Rightarrow> 0
      | (None, Some _) \<Rightarrow> 1
      | (Some _, None) \<Rightarrow> -1
      | (Some x, Some y) \<Rightarrow>
          if int x - int y \<noteq> 0 then int x - int y
          else sel_readinessScore b - sel_readinessScore a)"

definition selectTasks :: "resolver_task list \<Rightarrow> task_selection list" where
  "selectTasks eligible = js_sort selection_order (map toTaskSelection eligible)"

section \<open>Properties\<close>

interpretation selection_comparator: comparator selection_order
  by unfold_locales (auto simp: selection_order_def Let_def split: option.splits if_splits)

text \<open>The file that decides a task: the last one, in the order of the listing, parsed with that id.\<close>

definition last_parsed :: "(string \<times> (string + parsed_task)) list \<Rightarrow> task_id \<Rightarrow> parsed_task option" where
  "last_parsed files i =
     List.find (\<lambda>p. pt_id p = i)
       (rev (List.map_filter (\<lambda>f. case snd f of Inr p \<Rightarrow> Some p | Inl _ \<Rightarrow> None) files))"

lemma find_append: "List.find P (xs @ ys) = (case List.find P xs of Some x \<Rightarrow> Some x | None \<Rightarrow> List.find P ys)"
  by (induction xs) auto

lemma parseAllTasks_get:
  "js_map_get (fst (parseAllTasks overlay files tasks errors)) i =
     (case last_parsed files i of Some p \<Rightarrow> Some (summary_of overlay p) | None \<Rightarrow> js_map_get tasks i)"
  by (induction overlay files tasks errors rule: parseAllTasks.induct)
    (auto simp: last_parsed_def List.map_filter_simps find_append js_map.get_put split: option.splits)

lemma parseAllTasks_distinct:
  "distinct (js_map_keys tasks) \<Longrightarrow> distinct (js_map_keys (fst (parseAllTasks overlay files tasks errors)))"
  by (induction overlay files tasks errors rule: parseAllTasks.induct) (auto intro: js_map.distinct_put)

lemma parseAllTasks_errors:
  "snd (parseAllTasks overlay files tasks errors) =
     errors @ List.map_filter (\<lambda>f. case snd f of Inl msg \<Rightarrow> Some \<lparr>fe_file = fst f, fe_error = msg\<rparr> | Inr _ \<Rightarrow> None) files"
  by (induction overlay files tasks errors rule: parseAllTasks.induct) (auto simp: List.map_filter_simps)

lemma rt_id_summary [simp]: "rt_id (summary_of overlay p) = pt_id p"
  by (simp add: summary_of_def Let_def)

lemma last_parsed_id: "last_parsed files i = Some p \<Longrightarrow> pt_id p = i"
  by (auto simp: last_parsed_def dest: find_SomeD)

lemma parseAllTasks_entry:
  "(i, t) \<in> set (fst (parseAllTasks overlay files [] [])) \<longleftrightarrow>
     (\<exists>p. last_parsed files i = Some p \<and> t = summary_of overlay p)"
proof -
  let ?m = "fst (parseAllTasks overlay files [] [])"
  have "(i, t) \<in> set ?m \<longleftrightarrow> js_map_get ?m i = Some t"
    using parseAllTasks_distinct [of "[]" overlay files "[]"] js_map_get_of_mem js_map_get_in by fastforce
  then show ?thesis by (auto simp: parseAllTasks_get split: option.splits)
qed

lemma parseAllTasks_values:
  "t \<in> set (js_map_values (fst (parseAllTasks overlay files [] []))) \<longleftrightarrow>
     (\<exists>p. last_parsed files (rt_id t) = Some p \<and> t = summary_of overlay p)"
proof -
  have "t \<in> set (js_map_values (fst (parseAllTasks overlay files [] []))) \<longleftrightarrow>
          (\<exists>i. (i, t) \<in> set (fst (parseAllTasks overlay files [] [])))"
    by (force simp: js_map_values_def)
  then show ?thesis using last_parsed_id by (auto simp: parseAllTasks_entry)
qed

lemma parseAllTasks_distinct_ids:
  "distinct (map rt_id (js_map_values (fst (parseAllTasks overlay files [] []))))"
proof -
  let ?m = "fst (parseAllTasks overlay files [] [])"
  have "map rt_id (js_map_values ?m) = js_map_keys ?m"
    using last_parsed_id by (auto simp: js_map_values_def js_map_keys_def parseAllTasks_entry)
  then show ?thesis using parseAllTasks_distinct [of "[]" overlay files "[]"] by simp
qed

text \<open>The dependencies of a task, looked up in the files: each is known and complete.\<close>

definition dependencies_complete ::
  "(task_id \<times> string) list option \<Rightarrow> (string \<times> (string + parsed_task)) list \<Rightarrow> resolver_task \<Rightarrow> bool" where
  "dependencies_complete overlay files t =
     list_all (\<lambda>d. case last_parsed files d of
        None \<Rightarrow> False | Some q \<Rightarrow> rt_status (summary_of overlay q) \<in> {''COMPLETE'', ''VERIFIED''})
       (rt_blockedBy t)"

lemma eligible_iff:
  "isTaskEligible t (fst (parseAllTasks overlay files [] [])) \<longleftrightarrow>
     rt_status t = ''BACKLOG'' \<and> dependencies_complete overlay files t"
  unfolding isTaskEligible_def dependencies_complete_def
  by (rule conj_cong [OF refl], rule list.pred_cong [OF refl])
    (simp add: parseAllTasks_get isCompleteStatus_def split: option.splits)

text \<open>
  Eligibility. The files decide: a task is the last parsed file with its id, with the status
  of the status table when it has one there. A resolution lists every task whose effective status
  is \<open>BACKLOG\<close> exactly once: as eligible when every dependency is a known task whose effective
  status is \<open>COMPLETE\<close> or \<open>VERIFIED\<close>, as blocked otherwise. It lists nothing else and reports
  every file that failed to parse, in order.
\<close>

theorem resolution_partitions_backlog:
  "(t \<in> set (dr_eligible (resolve_tasks overlay files)) \<longleftrightarrow>
      (\<exists>p. last_parsed files (rt_id t) = Some p \<and> t = summary_of overlay p) \<and>
      rt_status t = ''BACKLOG'' \<and> dependencies_complete overlay files t) \<and>
   (t \<in> set (dr_blocked (resolve_tasks overlay files)) \<longleftrightarrow>
      (\<exists>p. last_parsed files (rt_id t) = Some p \<and> t = summary_of overlay p) \<and>
      rt_status t = ''BACKLOG'' \<and> \<not> dependencies_complete overlay files t) \<and>
   distinct (map rt_id (dr_eligible (resolve_tasks overlay files))) \<and>
   distinct (map rt_id (dr_blocked (resolve_tasks overlay files))) \<and>
   map fe_file (dr_errors (resolve_tasks overlay files)) =
     map fst (filter (\<lambda>f. case snd f of Inl _ \<Rightarrow> True | Inr _ \<Rightarrow> False) files)"
proof -
  have errs: "map fe_file (List.map_filter
       (\<lambda>f. case snd f of Inl msg \<Rightarrow> Some \<lparr>fe_file = fst f, fe_error = msg\<rparr> | Inr _ \<Rightarrow> None) fs) =
     map fst (filter (\<lambda>f. case snd f of Inl _ \<Rightarrow> True | Inr _ \<Rightarrow> False) fs)"
    for fs :: "(string \<times> (string + parsed_task)) list"
    by (induction fs) (auto simp: List.map_filter_simps split: sum.splits)
  show ?thesis
    by (auto simp: resolve_tasks_def case_prod_beta Let_def eligible_iff parseAllTasks_values
      parseAllTasks_errors errs parseAllTasks_distinct_ids intro!: distinct_map_filter)
qed

lemma selection_order_unparseable:
  "priority_rank (sel_priority a) = r \<and> parseEffort (sel_effort a) = None \<Longrightarrow>
   priority_rank (sel_priority b) = r \<and> parseEffort (sel_effort b) = None \<Longrightarrow> selection_order a b = 0"
  by (simp add: selection_order_def)

text \<open>The order two entries of the selection must be in.\<close>

definition in_selection_order :: "task_selection \<Rightarrow> task_selection \<Rightarrow> bool" where
  "in_selection_order a b =
     (let pa = priority_rank (sel_priority a); pb = priority_rank (sel_priority b) in
      pa < pb \<or>
      pa = pb \<and> (case (parseEffort (sel_effort a), parseEffort (sel_effort b)) of
        (_, None) \<Rightarrow> True
      | (None, Some _) \<Rightarrow> False
      | (Some x, Some y) \<Rightarrow> x < y \<or> x = y \<and> sel_readinessScore b \<le> sel_readinessScore a))"

lemma selection_order_le: "selection_order a b \<le> 0 \<longleftrightarrow> in_selection_order a b"
  by (auto simp: selection_order_def in_selection_order_def Let_def split: option.splits)

text \<open>
  Selection order. The selection is a permutation of the eligible tasks, in the order of
  priority, then lower effort, then higher readiness, the tasks without a readable effort last in
  their priority; those keep the order they were given in, whatever their readiness (two infinite
  efforts differ by \<open>NaN\<close>, so the readiness score is never consulted).
\<close>

theorem selection_sorted_permutation:
  "mset (selectTasks eligible) = mset (map toTaskSelection eligible) \<and>
   sorted_wrt in_selection_order (selectTasks eligible) \<and>
   filter (\<lambda>s. priority_rank (sel_priority s) = r \<and> parseEffort (sel_effort s) = None) (selectTasks eligible) =
     filter (\<lambda>s. priority_rank (sel_priority s) = r \<and> parseEffort (sel_effort s) = None)
       (map toTaskSelection eligible)"
proof (intro conjI)
  show "mset (selectTasks eligible) = mset (map toTaskSelection eligible)"
    by (simp add: selectTasks_def)
  show "sorted_wrt in_selection_order (selectTasks eligible)"
    using selection_comparator.sorted_js_sort by (simp add: selectTasks_def selection_order_le)
  show "filter (\<lambda>s. priority_rank (sel_priority s) = r \<and> parseEffort (sel_effort s) = None) (selectTasks eligible) =
     filter (\<lambda>s. priority_rank (sel_priority s) = r \<and> parseEffort (sel_effort s) = None)
       (map toTaskSelection eligible)"
    unfolding selectTasks_def
    by (rule selection_comparator.js_sort_stable) (rule selection_order_unparseable)
qed

end
