(* ===== verification/Judge_Verdict.thy ===== *)
theory Judge_Verdict
  imports Harness_Prelude
begin

text \<open>
  The judge's answer (\<open>src/judge/verdict.ts\<close>): the JSON schema the answer is asked to follow, and
  \<open>parseJudgeResponse\<close>, which turns the value \<open>JSON.parse\<close> returned (or its failure, \<open>None\<close>) into
  a judge result or throws. The value is dynamically typed, as in the code. Two corners of JSON are
  not represented: a number too large for a double, and an object used where an array is expected
  whose own \<open>length\<close> is a string or an array (it would be converted to a number).
\<close>

section \<open>Property access\<close>

text \<open>\<open>v.k\<close>: reading a property of \<open>null\<close> or \<open>undefined\<close> throws, which is \<open>None\<close>.\<close>

fun js_prop :: "js_value \<Rightarrow> string \<Rightarrow> js_value option" where
  "js_prop JUndef k = None"
| "js_prop JNull k = None"
| "js_prop (JObj m) k = Some (case map_of m k of None \<Rightarrow> JUndef | Some v \<Rightarrow> v)"
| "js_prop (JArr xs) k = Some (if k = ''length'' then JNum (of_nat (length xs)) else JUndef)"
| "js_prop (JStr s) k = Some (if k = ''length'' then JNum (of_nat (length s)) else JUndef)"
| "js_prop (JBool b) k = Some JUndef"
| "js_prop (JNum n) k = Some JUndef"

definition js_get :: "js_value \<Rightarrow> string \<Rightarrow> js_value" where
  "js_get v k = (case js_prop v k of None \<Rightarrow> JUndef | Some x \<Rightarrow> x)"

fun js_truthy :: "js_value \<Rightarrow> bool" where
  "js_truthy JUndef = False"
| "js_truthy JNull = False"
| "js_truthy (JBool b) = b"
| "js_truthy (JNum n) = (n \<noteq> 0)"
| "js_truthy (JStr s) = (s \<noteq> '''')"
| "js_truthy (JArr xs) = True"
| "js_truthy (JObj m) = True"

text \<open>\<open>v.length > 0\<close>\<close>

definition js_nonempty :: "js_value \<Rightarrow> bool" where
  "js_nonempty v = (case js_get v ''length'' of JNum n \<Rightarrow> n > 0 | JBool b \<Rightarrow> b | _ \<Rightarrow> False)"

text \<open>\<open>v ?? d\<close>\<close>

definition js_nullish :: "js_value \<Rightarrow> js_value \<Rightarrow> js_value" where
  "js_nullish v d = (case v of JUndef \<Rightarrow> d | JNull \<Rightarrow> d | _ \<Rightarrow> v)"

text \<open>\<open>map\<close> with a callback that may throw: the first failure is the result.\<close>

fun js_try_map :: "('a \<Rightarrow> 'e + 'b) \<Rightarrow> 'a list \<Rightarrow> 'e + 'b list" where
  "js_try_map f [] = Inr []"
| "js_try_map f (x # xs) =
     (case f x of Inl e \<Rightarrow> Inl e
      | Inr y \<Rightarrow> (case js_try_map f xs of Inl e \<Rightarrow> Inl e | Inr ys \<Rightarrow> Inr (y # ys)))"

lemma js_try_map_total: "(\<And>x. x \<in> set xs \<Longrightarrow> \<exists>y. f x = Inr y) \<Longrightarrow> \<exists>ys. js_try_map f xs = Inr ys"
proof (induction xs)
  case (Cons x xs)
  obtain y where "f x = Inr y" using Cons.prems [of x] by auto
  moreover obtain ys where "js_try_map f xs = Inr ys" using Cons by auto
  ultimately show ?case by simp
qed simp

lemma length_js_try_map: "js_try_map f xs = Inr ys \<Longrightarrow> length ys = length xs"
  by (induction xs arbitrary: ys) (auto split: sum.splits)

section \<open>The schema\<close>

text \<open>The schemas used: every object closes its properties (\<open>additionalProperties: false\<close>).\<close>

datatype json_schema =
    SchemaString "string list option"
  | SchemaNumber
  | SchemaArray json_schema
  | SchemaObject "(string \<times> json_schema) list" "string list"

fun conforms :: "json_schema \<Rightarrow> js_value \<Rightarrow> bool"
and conforms_props :: "(string \<times> json_schema) list \<Rightarrow> (string \<times> js_value) list \<Rightarrow> bool" where
  "conforms (SchemaString enum) v =
     (case v of JStr s \<Rightarrow> (case enum of None \<Rightarrow> True | Some xs \<Rightarrow> s \<in> set xs) | _ \<Rightarrow> False)"
| "conforms SchemaNumber v = (case v of JNum n \<Rightarrow> True | _ \<Rightarrow> False)"
| "conforms (SchemaArray s) v = (case v of JArr xs \<Rightarrow> list_all (conforms s) xs | _ \<Rightarrow> False)"
| "conforms (SchemaObject props required) v =
     (case v of
        JObj m \<Rightarrow> list_all (\<lambda>k. map_of m k \<noteq> None) required \<and>
                  list_all (\<lambda>e. fst e \<in> set (map fst props)) m \<and> conforms_props props m
      | _ \<Rightarrow> False)"
| "conforms_props [] m = True"
| "conforms_props ((k, s) # ps) m =
     ((case map_of m k of None \<Rightarrow> True | Some v \<Rightarrow> conforms s v) \<and> conforms_props ps m)"

definition CRITERION_SCHEMA :: json_schema where
  "CRITERION_SCHEMA =
     SchemaObject
       [(''criterion'', SchemaString None),
        (''status'', SchemaString (Some [''PASS'', ''FAIL'', ''PARTIAL''])),
        (''evidence'', SchemaString None),
        (''reasoning'', SchemaString None),
        (''enforcement_type'',
           SchemaString (Some [''deterministic_code'', ''llm_instruction_only'', ''not_implemented'']))]
       [''criterion'', ''status'', ''evidence'', ''reasoning'', ''enforcement_type'']"

definition FOLLOW_UP_SCHEMA :: json_schema where
  "FOLLOW_UP_SCHEMA =
     SchemaObject
       [(''title'', SchemaString None),
        (''description'', SchemaString None),
        (''type'',
           SchemaString (Some [''optimization'', ''edge_case'', ''testing'', ''refactoring'', ''scope_gap''])),
        (''estimated_effort'',
           SchemaString (Some [''1-2 hours'', ''2-3 hours'', ''3-4 hours'', ''4-6 hours'']))]
       [''title'', ''description'', ''type'']"

definition JUDGE_RESPONSE_SCHEMA :: json_schema where
  "JUDGE_RESPONSE_SCHEMA =
     SchemaObject
       [(''verdict'', SchemaString (Some [''APPROVE'', ''REVISE'', ''REJECT''])),
        (''confidence'', SchemaNumber),
        (''scope_violations'', SchemaArray (SchemaString None)),
        (''criteria_gaps'', SchemaArray (SchemaString None)),
        (''quality_issues'', SchemaArray (SchemaString None)),
        (''feedback'', SchemaString None),
        (''criteria_evaluation'', SchemaArray CRITERION_SCHEMA),
        (''follow_up_items'', SchemaArray FOLLOW_UP_SCHEMA)]
       [''verdict'', ''confidence'', ''scope_violations'', ''criteria_gaps'', ''quality_issues'', ''feedback'']"

section \<open>The result\<close>

datatype judge_error =
    MalformedJson
  | InvalidVerdict js_value
  | MissingConfidence
  | InvalidCriterionStatus js_value
  | InvalidEnforcementType js_value
  | JudgeTypeError

datatype judge_verdict = Approve | Revise | Reject

datatype criterion_status = CritPass | CritFail | CritPartial

datatype enforcement_type = DeterministicCode | LlmInstructionOnly | NotImplemented

datatype follow_up_type = Optimization | EdgeCase | Testing | Refactoring | ScopeGap

record criterion_evaluation =
  ce_criterion :: js_value
  ce_status :: criterion_status
  ce_evidence :: js_value
  ce_reasoning :: js_value
  ce_enforcement :: enforcement_type

record follow_up_item =
  fu_title :: js_value
  fu_description :: js_value
  fu_type :: follow_up_type
  fu_estimatedEffort :: "string option"

record judge_result =
  jr_verdict :: judge_verdict
  jr_confidence :: rat
  jr_scopeViolations :: js_value
  jr_criteriaGaps :: js_value
  jr_qualityIssues :: js_value
  jr_feedback :: js_value
  jr_criteriaEvaluation :: "criterion_evaluation list option"
  jr_followUpItems :: "follow_up_item list option"

definition VALID_VERDICTS :: "(js_value \<times> judge_verdict) list" where
  "VALID_VERDICTS = [(JStr ''APPROVE'', Approve), (JStr ''REVISE'', Revise), (JStr ''REJECT'', Reject)]"

definition validStatuses :: "(js_value \<times> criterion_status) list" where
  "validStatuses = [(JStr ''PASS'', CritPass), (JStr ''FAIL'', CritFail), (JStr ''PARTIAL'', CritPartial)]"

definition validEnforcementTypes :: "(js_value \<times> enforcement_type) list" where
  "validEnforcementTypes =
     [(JStr ''deterministic_code'', DeterministicCode), (JStr ''llm_instruction_only'', LlmInstructionOnly),
      (JStr ''not_implemented'', NotImplemented)]"

definition validTypes :: "(js_value \<times> follow_up_type) list" where
  "validTypes =
     [(JStr ''optimization'', Optimization), (JStr ''edge_case'', EdgeCase), (JStr ''testing'', Testing),
      (JStr ''refactoring'', Refactoring), (JStr ''scope_gap'', ScopeGap)]"

definition validEfforts :: "string list" where
  "validEfforts = [''1-2 hours'', ''2-3 hours'', ''3-4 hours'', ''4-6 hours'']"

section \<open>Parsing\<close>

text \<open>The callback of \<open>criteria_evaluation.map\<close>.\<close>

definition parse_evaluation :: "js_value \<Rightarrow> judge_error + criterion_evaluation" where
  "parse_evaluation rawEval =
     (case js_prop rawEval ''status'' of
        None \<Rightarrow> Inl JudgeTypeError
      | Some st \<Rightarrow>
         (case map_of validStatuses st of
            None \<Rightarrow> Inl (InvalidCriterionStatus st)
          | Some status \<Rightarrow>
             (case map_of validEnforcementTypes (js_get rawEval ''enforcement_type'') of
                None \<Rightarrow> Inl (InvalidEnforcementType (js_get rawEval ''enforcement_type''))
              | Some enforcement \<Rightarrow>
                  Inr \<lparr>ce_criterion = js_get rawEval ''criterion'', ce_status = status,
                       ce_evidence = js_get rawEval ''evidence'', ce_reasoning = js_get rawEval ''reasoning'',
                       ce_enforcement = enforcement\<rparr>)))"

definition legacy_evaluation :: "js_value \<Rightarrow> criterion_evaluation" where
  "legacy_evaluation gap =
     \<lparr>ce_criterion = gap, ce_status = CritPartial, ce_evidence = JStr ''unknown'',
      ce_reasoning = JStr ''Legacy format - no details available'', ce_enforcement = NotImplemented\<rparr>"

text \<open>The evaluations, and \<open>raw.criteria_gaps\<close> as it is afterwards.\<close>

definition parse_criteria :: "js_value \<Rightarrow> judge_error + (criterion_evaluation list option \<times> js_value)" where
  "parse_criteria raw =
     (let evaluation = js_get raw ''criteria_evaluation''; gaps = js_get raw ''criteria_gaps'' in
      if js_truthy evaluation then
        (case evaluation of
           JArr evals \<Rightarrow>
             (case js_try_map parse_evaluation evals of
                Inl e \<Rightarrow> Inl e
              | Inr ces \<Rightarrow>
                  Inr (Some ces,
                       if \<not> js_truthy gaps \<or> js_get gaps ''length'' = JNum 0
                       then JArr (map ce_criterion (filter (\<lambda>e. ce_status e \<noteq> CritPass) ces)) else gaps))
         | _ \<Rightarrow> Inl JudgeTypeError)
      else if js_truthy gaps \<and> js_nonempty gaps then
        (case gaps of JArr gs \<Rightarrow> Inr (Some (map legacy_evaluation gs), gaps) | _ \<Rightarrow> Inl JudgeTypeError)
      else Inr (None, gaps))"

text \<open>The filter and the map over one follow-up item: dropped, kept, or a throw.\<close>

definition parse_follow_up :: "js_value \<Rightarrow> judge_error + follow_up_item option" where
  "parse_follow_up item =
     (case js_prop item ''title'' of
        None \<Rightarrow> Inl JudgeTypeError
      | Some title \<Rightarrow>
         (case map_of validTypes (js_get item ''type'') of
            Some ty \<Rightarrow>
              if js_truthy title \<and> js_truthy (js_get item ''description'') then
                Inr (Some \<lparr>fu_title = title, fu_description = js_get item ''description'', fu_type = ty,
                     fu_estimatedEffort =
                       (case js_get item ''estimated_effort'' of
                          JStr e \<Rightarrow> if e \<in> set validEfforts then Some e else None | _ \<Rightarrow> None)\<rparr>)
              else Inr None
          | None \<Rightarrow> Inr None))"

definition parse_follow_ups :: "js_value \<Rightarrow> judge_error + follow_up_item list option" where
  "parse_follow_ups raw =
     (let items = js_get raw ''follow_up_items'' in
      if js_truthy items \<and> js_nonempty items then
        (case items of
           JArr xs \<Rightarrow>
             (case js_try_map parse_follow_up xs of
                Inl e \<Rightarrow> Inl e
              | Inr ys \<Rightarrow> Inr (case List.map_filter id ys of [] \<Rightarrow> None | zs \<Rightarrow> Some zs))
         | _ \<Rightarrow> Inl JudgeTypeError)
      else Inr None)"

definition parseJudgeResponse :: "js_value option \<Rightarrow> judge_error + judge_result" where
  "parseJudgeResponse parsed =
     (case parsed of
        None \<Rightarrow> Inl MalformedJson
      | Some raw \<Rightarrow>
         (case js_prop raw ''verdict'' of
            None \<Rightarrow> Inl JudgeTypeError
          | Some v \<Rightarrow>
             (case map_of VALID_VERDICTS v of
                None \<Rightarrow> Inl (InvalidVerdict v)
              | Some verdict \<Rightarrow>
                 (case js_get raw ''confidence'' of
                    JNum c \<Rightarrow>
                      (case parse_criteria raw of
                         Inl e \<Rightarrow> Inl e
                       | Inr (criteriaEvaluation, gaps) \<Rightarrow>
                          (case parse_follow_ups raw of
                             Inl e \<Rightarrow> Inl e
                           | Inr followUpItems \<Rightarrow>
                               Inr \<lparr>jr_verdict = verdict, jr_confidence = max 0 (min 1 c),
                                    jr_scopeViolations = js_nullish (js_get raw ''scope_violations'') (JArr []),
                                    jr_criteriaGaps = js_nullish gaps (JArr []),
                                    jr_qualityIssues = js_nullish (js_get raw ''quality_issues'') (JArr []),
                                    jr_feedback = js_nullish (js_get raw ''feedback'') (JStr ''''),
                                    jr_criteriaEvaluation = criteriaEvaluation,
                                    jr_followUpItems = followUpItems\<rparr>))
                  | _ \<Rightarrow> Inl MissingConfidence))))"

section \<open>Properties\<close>

lemma js_nullish_truthy: "js_truthy v \<Longrightarrow> js_nullish v d = v"
  by (cases v) (simp_all add: js_nullish_def)

lemma js_nonempty_Nil [simp]: "\<not> js_nonempty (JArr [])"
  by (simp add: js_nonempty_def js_get_def)

lemma parse_criteria_gaps:
  assumes "parse_criteria raw = Inr (ces, gaps)"
  shows "case ces of None \<Rightarrow> \<not> js_truthy gaps \<or> \<not> js_nonempty gaps
    | Some es \<Rightarrow> list_ex (\<lambda>e. ce_status e \<noteq> CritPass) es \<longrightarrow> js_truthy gaps \<and> gaps \<noteq> JArr []"
proof -
  have kept: "gs \<noteq> JArr []" if "js_get gs ''length'' \<noteq> JNum 0" for gs
    using that by (auto simp: js_get_def)
  have derived: "filter (\<lambda>e. ce_status e \<noteq> CritPass) es \<noteq> []" if "list_ex (\<lambda>e. ce_status e \<noteq> CritPass) es"
    for es :: "criterion_evaluation list"
    using that by (auto simp: list_ex_iff filter_empty_conv)
  have array: "js_truthy v" if "JArr xs = v" for v xs
    using that by auto
  show ?thesis
    using assms kept derived
    by (auto intro: array simp: parse_criteria_def Let_def legacy_evaluation_def list_ex_iff
        split: if_splits js_value.splits sum.splits)
qed

lemma parse_follow_ups_nonempty: "parse_follow_ups raw = Inr f \<Longrightarrow> f \<noteq> Some []"
  by (auto simp: parse_follow_ups_def Let_def split: if_splits js_value.splits sum.splits list.splits)

text \<open>
  C19: What an accepted answer guarantees. The verdict is the answer's and one of the three; the
  confidence is the answer's number clamped into [0, 1]; an answer without evaluations has no
  criteria gaps, and one with an evaluation that is not a pass has some; a list of follow-up items
  is never empty.
\<close>

theorem accepted_answer_sound:
  assumes "parseJudgeResponse (Some raw) = Inr r"
  shows "map_of VALID_VERDICTS (js_get raw ''verdict'') = Some (jr_verdict r) \<and>
    (\<exists>c. js_get raw ''confidence'' = JNum c \<and> jr_confidence r = max 0 (min 1 c)) \<and>
    0 \<le> jr_confidence r \<and> jr_confidence r \<le> 1 \<and>
    (case jr_criteriaEvaluation r of
       None \<Rightarrow> \<not> js_nonempty (jr_criteriaGaps r)
     | Some es \<Rightarrow> list_ex (\<lambda>e. ce_status e \<noteq> CritPass) es \<longrightarrow> jr_criteriaGaps r \<noteq> JArr []) \<and>
    jr_followUpItems r \<noteq> Some []"
proof -
  from assms obtain v verdict c ces gaps f where
      v: "js_prop raw ''verdict'' = Some v" "map_of VALID_VERDICTS v = Some verdict"
    and c: "js_get raw ''confidence'' = JNum c"
    and crit: "parse_criteria raw = Inr (ces, gaps)" and f: "parse_follow_ups raw = Inr f"
    and r: "jr_verdict r = verdict" "jr_confidence r = max 0 (min 1 c)"
      "jr_criteriaGaps r = js_nullish gaps (JArr [])" "jr_criteriaEvaluation r = ces" "jr_followUpItems r = f"
    by (auto simp: parseJudgeResponse_def split: option.splits js_value.splits sum.splits)
  have get_verdict: "js_get raw ''verdict'' = v" using v by (simp add: js_get_def)
  have none: "\<not> js_nonempty (js_nullish gaps (JArr []))" if "\<not> js_truthy gaps \<or> \<not> js_nonempty gaps"
    using that by (cases gaps) (auto simp: js_nullish_def js_nonempty_def js_get_def)
  show ?thesis
    using parse_criteria_gaps [OF crit] parse_follow_ups_nonempty [OF f] v c r get_verdict none
    by (auto simp: js_nullish_truthy split: option.splits)
qed

definition revise_answer :: js_value where
  "revise_answer =
     JObj [(''verdict'', JStr ''REVISE''), (''confidence'', JNum 2), (''scope_violations'', JArr []),
       (''criteria_gaps'', JArr []), (''quality_issues'', JArr []), (''feedback'', JStr ''tests missing''),
       (''criteria_evaluation'', JArr
          [JObj [(''criterion'', JStr ''c1''), (''status'', JStr ''PASS''), (''evidence'', JStr ''a.ts''),
             (''reasoning'', JStr ''r''), (''enforcement_type'', JStr ''deterministic_code'')],
           JObj [(''criterion'', JStr ''c2''), (''status'', JStr ''FAIL''), (''evidence'', JStr ''''),
             (''reasoning'', JStr ''r''), (''enforcement_type'', JStr ''not_implemented'')]])]"

definition revise_result :: judge_result where
  "revise_result =
     \<lparr>jr_verdict = Revise, jr_confidence = 1, jr_scopeViolations = JArr [], jr_criteriaGaps = JArr [JStr ''c2''],
      jr_qualityIssues = JArr [], jr_feedback = JStr ''tests missing'',
      jr_criteriaEvaluation = Some
        [\<lparr>ce_criterion = JStr ''c1'', ce_status = CritPass, ce_evidence = JStr ''a.ts'', ce_reasoning = JStr ''r'',
          ce_enforcement = DeterministicCode\<rparr>,
         \<lparr>ce_criterion = JStr ''c2'', ce_status = CritFail, ce_evidence = JStr '''', ce_reasoning = JStr ''r'',
          ce_enforcement = NotImplemented\<rparr>],
      jr_followUpItems = None\<rparr>"

lemma revise_answer_parsed: "parseJudgeResponse (Some revise_answer) = Inr revise_result"
  by code_simp

theorem accepted_answer_sound_witness:
  "map_of VALID_VERDICTS (js_get revise_answer ''verdict'') = Some (jr_verdict revise_result) \<and>
   jr_confidence revise_result \<le> 1 \<and> jr_criteriaGaps revise_result = JArr [JStr ''c2'']"
proof -
  have "jr_criteriaGaps revise_result = JArr [JStr ''c2'']" by (simp add: revise_result_def)
  then show ?thesis using accepted_answer_sound [OF revise_answer_parsed] by blast
qed

lemma criterion_accepted: "conforms CRITERION_SCHEMA v \<Longrightarrow> \<exists>e. parse_evaluation v = Inr e"
  by (auto simp: CRITERION_SCHEMA_def parse_evaluation_def js_get_def validStatuses_def
      validEnforcementTypes_def split: js_value.splits option.splits)

lemma follow_up_accepted: "conforms FOLLOW_UP_SCHEMA v \<Longrightarrow> \<exists>y. parse_follow_up v = Inr y"
  by (auto simp: FOLLOW_UP_SCHEMA_def parse_follow_up_def js_get_def
      split: js_value.splits option.splits)

lemma conforms_props_member:
  "conforms_props ps m \<Longrightarrow> (k, s) \<in> set ps \<Longrightarrow> map_of m k = Some v \<Longrightarrow> conforms s v"
  by (induction ps) auto

lemma conforms_property:
  assumes "conforms (SchemaObject props required) raw" and "(k, s) \<in> set props"
  shows "conforms s (js_get raw k) \<or> k \<notin> set required \<and> js_get raw k = JUndef"
  using assms by (auto simp: js_get_def list_all_iff split: js_value.splits option.splits dest: conforms_props_member)

lemma conforms_array: "conforms (SchemaArray s) v \<Longrightarrow> \<exists>xs. v = JArr xs \<and> list_all (conforms s) xs"
  by (auto split: js_value.splits)

lemma conforms_string:
  "conforms (SchemaString e) v \<Longrightarrow> \<exists>t. v = JStr t \<and> (case e of None \<Rightarrow> True | Some xs \<Rightarrow> t \<in> set xs)"
  by (auto split: js_value.splits)

lemma conforms_number: "conforms SchemaNumber v \<Longrightarrow> \<exists>c. v = JNum c"
  by (auto split: js_value.splits)

lemma conforms_answer:
  assumes "conforms JUDGE_RESPONSE_SCHEMA raw"
  obtains m vs c sv gs qi fb where "raw = JObj m"
    "js_get raw ''verdict'' = JStr vs" "vs \<in> {''APPROVE'', ''REVISE'', ''REJECT''}"
    "js_get raw ''confidence'' = JNum c" "js_get raw ''scope_violations'' = JArr sv"
    "js_get raw ''criteria_gaps'' = JArr gs" "js_get raw ''quality_issues'' = JArr qi"
    "js_get raw ''feedback'' = JStr fb"
    "js_get raw ''criteria_evaluation'' = JUndef \<or>
       (\<exists>es. js_get raw ''criteria_evaluation'' = JArr es \<and> list_all (conforms CRITERION_SCHEMA) es)"
    "js_get raw ''follow_up_items'' = JUndef \<or>
       (\<exists>fs. js_get raw ''follow_up_items'' = JArr fs \<and> list_all (conforms FOLLOW_UP_SCHEMA) fs)"
proof -
  from assms obtain m where m: "raw = JObj m" by (auto simp: JUDGE_RESPONSE_SCHEMA_def split: js_value.splits)
  note field = conforms_property [OF assms [unfolded JUDGE_RESPONSE_SCHEMA_def]]
  have "conforms (SchemaString (Some [''APPROVE'', ''REVISE'', ''REJECT''])) (js_get raw ''verdict'')"
    using field [of "''verdict''"] by simp
  from conforms_string [OF this] obtain vs
    where vs: "js_get raw ''verdict'' = JStr vs" "vs \<in> {''APPROVE'', ''REVISE'', ''REJECT''}" by auto
  have "conforms SchemaNumber (js_get raw ''confidence'')" using field [of "''confidence''"] by simp
  from conforms_number [OF this] obtain c where c: "js_get raw ''confidence'' = JNum c" by auto
  have "conforms (SchemaString None) (js_get raw ''feedback'')" using field [of "''feedback''"] by simp
  from conforms_string [OF this] obtain fb where fb: "js_get raw ''feedback'' = JStr fb" by auto
  have "conforms (SchemaArray (SchemaString None)) (js_get raw ''scope_violations'')"
    using field [of "''scope_violations''" "SchemaArray (SchemaString None)"] by (simp del: conforms.simps)
  from conforms_array [OF this] obtain sv where sv: "js_get raw ''scope_violations'' = JArr sv" by blast
  have "conforms (SchemaArray (SchemaString None)) (js_get raw ''criteria_gaps'')"
    using field [of "''criteria_gaps''" "SchemaArray (SchemaString None)"] by (simp del: conforms.simps)
  from conforms_array [OF this] obtain gs where gs: "js_get raw ''criteria_gaps'' = JArr gs" by blast
  have "conforms (SchemaArray (SchemaString None)) (js_get raw ''quality_issues'')"
    using field [of "''quality_issues''" "SchemaArray (SchemaString None)"] by (simp del: conforms.simps)
  from conforms_array [OF this] obtain qi where qi: "js_get raw ''quality_issues'' = JArr qi" by blast
  have evals: "js_get raw ''criteria_evaluation'' = JUndef \<or>
       (\<exists>es. js_get raw ''criteria_evaluation'' = JArr es \<and> list_all (conforms CRITERION_SCHEMA) es)"
    using field [of "''criteria_evaluation''" "SchemaArray CRITERION_SCHEMA"]
    by (simp del: conforms.simps) (blast dest: conforms_array)
  have follow: "js_get raw ''follow_up_items'' = JUndef \<or>
       (\<exists>fs. js_get raw ''follow_up_items'' = JArr fs \<and> list_all (conforms FOLLOW_UP_SCHEMA) fs)"
    using field [of "''follow_up_items''" "SchemaArray FOLLOW_UP_SCHEMA"]
    by (simp del: conforms.simps) (blast dest: conforms_array)
  show thesis by (rule that [OF m vs(1) vs(2) c sv gs qi fb evals follow])
qed

lemma conforming_criteria:
  assumes "js_get raw ''criteria_gaps'' = JArr gs"
    and "js_get raw ''criteria_evaluation'' = JUndef \<or>
       (\<exists>es. js_get raw ''criteria_evaluation'' = JArr es \<and> list_all (conforms CRITERION_SCHEMA) es)"
  shows "\<exists>ces gaps. parse_criteria raw = Inr (ces, gaps)"
  using assms js_try_map_total [of _ parse_evaluation] criterion_accepted
  by (fastforce simp: parse_criteria_def Let_def list_all_iff split: sum.splits)

lemma conforming_follow_ups:
  assumes "js_get raw ''follow_up_items'' = JUndef \<or>
       (\<exists>fs. js_get raw ''follow_up_items'' = JArr fs \<and> list_all (conforms FOLLOW_UP_SCHEMA) fs)"
  shows "\<exists>f. parse_follow_ups raw = Inr f"
  using assms js_try_map_total [of _ parse_follow_up] follow_up_accepted
  by (fastforce simp: parse_follow_ups_def Let_def list_all_iff split: sum.splits)

text \<open>
  The schema is enough. Every answer that follows the schema the judge is given is accepted,
  and its verdict, feedback, scope violations and quality issues are taken over unchanged.
\<close>

theorem schema_answers_accepted:
  assumes "conforms JUDGE_RESPONSE_SCHEMA raw"
  shows "\<exists>r. parseJudgeResponse (Some raw) = Inr r \<and>
    map_of VALID_VERDICTS (js_get raw ''verdict'') = Some (jr_verdict r) \<and>
    jr_feedback r = js_get raw ''feedback'' \<and>
    jr_scopeViolations r = js_get raw ''scope_violations'' \<and>
    jr_qualityIssues r = js_get raw ''quality_issues''"
proof -
  from assms obtain m vs c sv gs qi fb where fields: "raw = JObj m"
      "js_get raw ''verdict'' = JStr vs" "vs \<in> {''APPROVE'', ''REVISE'', ''REJECT''}"
      "js_get raw ''confidence'' = JNum c" "js_get raw ''scope_violations'' = JArr sv"
      "js_get raw ''quality_issues'' = JArr qi" "js_get raw ''feedback'' = JStr fb"
    and gaps: "js_get raw ''criteria_gaps'' = JArr gs"
    and evals: "js_get raw ''criteria_evaluation'' = JUndef \<or>
       (\<exists>es. js_get raw ''criteria_evaluation'' = JArr es \<and> list_all (conforms CRITERION_SCHEMA) es)"
    and follow: "js_get raw ''follow_up_items'' = JUndef \<or>
       (\<exists>fs. js_get raw ''follow_up_items'' = JArr fs \<and> list_all (conforms FOLLOW_UP_SCHEMA) fs)"
    by (rule conforms_answer)
  obtain ces gaps' f where "parse_criteria raw = Inr (ces, gaps')" "parse_follow_ups raw = Inr f"
    using conforming_criteria [OF gaps evals] conforming_follow_ups [OF follow] by blast
  moreover have "js_prop raw ''verdict'' = Some (js_get raw ''verdict'')"
    by (simp add: fields(1) js_get_def)
  moreover obtain v where "map_of VALID_VERDICTS (JStr vs) = Some v"
    using fields(3) by (auto simp: VALID_VERDICTS_def)
  ultimately show ?thesis
    using fields by (simp add: parseJudgeResponse_def js_nullish_def)
qed

theorem schema_answers_accepted_witness:
  "\<exists>r. parseJudgeResponse (Some revise_answer) = Inr r \<and> jr_feedback r = JStr ''tests missing''"
proof -
  have "conforms JUDGE_RESPONSE_SCHEMA revise_answer" by code_simp
  moreover have "js_get revise_answer ''feedback'' = JStr ''tests missing''" by code_simp
  ultimately show ?thesis using schema_answers_accepted [of revise_answer] by auto
qed

end
