(* ===== verification/Federation_Types.thy ===== *)
theory Federation_Types
  imports Workflow_Machine
begin

text \<open>
  The data of the federation (\<open>src/monitor/federation/types.ts\<close>): jobs the head node hands to
  worker hosts, their leases, and the handshake by which a run that paused at a human gate is
  released and resumed; with the helpers over statuses (\<open>status.ts\<close>), leases (\<open>lease.ts\<close>) and jobs
  (\<open>jobs.ts\<close>). Of a job record the fields the modelled code reads or writes are named; the others
  travel as \<open>fj_other\<close>.

  Time stamps are texts that the code compares, stores and parses. \<open>Iso t\<close> is the text
  \<open>toISOString\<close> writes for the instant \<open>t\<close>; \<open>OtherText\<close> is any other text, with what \<open>Date.parse\<close>
  makes of it (\<open>None\<close> is \<open>NaN\<close>).
\<close>

section \<open>Time stamps\<close>

datatype iso_text = Iso millis | OtherText string "millis option"

fun date_parse :: "iso_text \<Rightarrow> millis option" where
  "date_parse (Iso t) = Some t"
| "date_parse (OtherText s p) = p"

text \<open>\<open>Date.parse(x ?? "")\<close>\<close>

definition date_parse_opt :: "iso_text option \<Rightarrow> millis option" where
  "date_parse_opt x = (case x of None \<Rightarrow> None | Some t \<Rightarrow> date_parse t)"

text \<open>Truth of an optional text: absent and empty are false.\<close>

definition js_set_text :: "string option \<Rightarrow> bool" where
  "js_set_text x \<longleftrightarrow> x \<noteq> None \<and> x \<noteq> Some ''''"

definition js_set_stamp :: "iso_text option \<Rightarrow> bool" where
  "js_set_stamp x \<longleftrightarrow> (case x of None \<Rightarrow> False | Some (Iso t) \<Rightarrow> True | Some (OtherText s p) \<Rightarrow> s \<noteq> '''')"

text \<open>\<open>n.toString(36)\<close>\<close>

definition base36_digit :: "nat \<Rightarrow> char" where
  "base36_digit d = (if d < 10 then char_of (48 + d) else char_of (87 + d))"

fun base36_nat :: "nat \<Rightarrow> string" where
  "base36_nat n =
     (if n < 36 then [base36_digit n] else base36_nat (n div 36) @ [base36_digit (n mod 36)])"

declare base36_nat.simps [simp del]

definition base36 :: "millis option \<Rightarrow> string" where
  "base36 x = (case x of None \<Rightarrow> ''NaN'' | Some n \<Rightarrow> (if n < 0 then ''-'' else []) @ base36_nat (nat \<bar>n\<bar>))"

section \<open>Records\<close>

datatype job_type = JobIntake | JobVerify | JobFix | JobDispatch

fun job_type_name :: "job_type \<Rightarrow> string" where
  "job_type_name JobIntake = ''intake''"
| "job_type_name JobVerify = ''verify''"
| "job_type_name JobFix = ''fix''"
| "job_type_name JobDispatch = ''dispatch''"

datatype federated_status =
    FsAssigned | FsQueued | FsRunning | FsVerifying | FsFixing | FsAwaitingApproval
  | FsCompleted | FsFailed | FsRejected | FsBlocked | FsCanceled

fun federated_status_name :: "federated_status \<Rightarrow> string" where
  "federated_status_name FsAssigned = ''assigned''"
| "federated_status_name FsQueued = ''queued''"
| "federated_status_name FsRunning = ''running''"
| "federated_status_name FsVerifying = ''verifying''"
| "federated_status_name FsFixing = ''fixing''"
| "federated_status_name FsAwaitingApproval = ''awaiting_approval''"
| "federated_status_name FsCompleted = ''completed''"
| "federated_status_name FsFailed = ''failed''"
| "federated_status_name FsRejected = ''rejected''"
| "federated_status_name FsBlocked = ''blocked''"
| "federated_status_name FsCanceled = ''canceled''"

datatype gate_stage = GateBlueprint | GateJudge

fun gate_stage_name :: "gate_stage \<Rightarrow> string" where
  "gate_stage_name GateBlueprint = ''blueprint''"
| "gate_stage_name GateJudge = ''judge''"

record pending_gate =
  pg_stage :: gate_stage
  pg_since :: "iso_text option"
  pg_reason :: "string option"

record federated_lease =
  ls_leaseId :: string
  ls_hostId :: string
  ls_acquiredAt :: iso_text
  ls_expiresAt :: iso_text

datatype attachment_state =
    PauseAttached | PauseReleased | ResumeRequested | ResumeClaimed | ApprovedButNotStarted
  | ManualRecovery

fun attachment_state_name :: "attachment_state \<Rightarrow> string" where
  "attachment_state_name PauseAttached = ''attached''"
| "attachment_state_name PauseReleased = ''released''"
| "attachment_state_name ResumeRequested = ''resume_requested''"
| "attachment_state_name ResumeClaimed = ''resume_claimed''"
| "attachment_state_name ApprovedButNotStarted = ''approved_but_not_started''"
| "attachment_state_name ManualRecovery = ''manual_recovery''"

record start_grant =
  sgr_token :: string
  sgr_projectId :: string
  sgr_jobId :: string
  sgr_taskId :: string
  sgr_jobType :: job_type
  sgr_hostId :: string
  sgr_originalSessionId :: string
  sgr_generation :: nat
  sgr_releaseNonce :: string
  sgr_claimToken :: string
  sgr_leaseId :: string
  sgr_issuedAt :: iso_text
  sgr_expiresAt :: iso_text
  sgr_consumedAt :: "iso_text option"
  sgr_resumedSessionId :: "string option"

datatype gate_action = GateApproved | GateRejected

record pause_decision =
  pd_action :: gate_action
  pd_reason :: "string option"
  pd_recordedAt :: iso_text

record resume_claim =
  rc_token :: string
  rc_hostId :: string
  rc_claimedAt :: iso_text
  rc_expiresAt :: iso_text

record pause_state =
  ps_generation :: nat
  ps_state :: attachment_state
  ps_gate :: gate_stage
  ps_sessionId :: string
  ps_originalHostId :: string
  ps_releaseNonce :: string
  ps_openedAt :: iso_text
  ps_preparedAt :: iso_text
  ps_releasedAt :: "iso_text option"
  ps_sweepAfter :: "iso_text option"
  ps_decision :: "pause_decision option"
  ps_resumeRequestedAt :: "iso_text option"
  ps_claim :: "resume_claim option"
  ps_startGrant :: "start_grant option"
  ps_approvedButNotStartedAt :: "iso_text option"
  ps_resumedAt :: "iso_text option"
  ps_recoveryReason :: "string option"

datatype merge_status = MergeNotRequested | MergeBlocked | MergePublishing | MergeMerged | MergeFailed

record federated_job =
  fj_projectId :: "string option"
  fj_jobId :: string
  fj_taskId :: string
  fj_jobType :: job_type
  fj_status :: federated_status
  fj_correlationId :: string
  fj_requiredCapabilities :: "string list"
  fj_parentJobId :: "string option"
  fj_priority :: "rat option"
  fj_priorityLabel :: "string option"
  fj_preferredHostId :: "string option"
  fj_hostId :: "string option"
  fj_fallbackUsed :: "bool option"
  fj_retryable :: "bool option"
  fj_blockReasonCode :: "block_reason option"
  fj_error :: "string option"
  fj_decision :: "(string \<times> js_value) list"
  fj_lease :: "federated_lease option"
  fj_leaseTtlMs :: "int option"
  fj_remoteSessionId :: "string option"
  fj_branchName :: "string option"
  fj_commitSha :: "string option"
  fj_targetBranch :: "string option"
  fj_lastEventAt :: "iso_text option"
  fj_lastEventStage :: "string option"
  fj_eventCount :: "int option"
  fj_evidence :: "js_value list option"
  fj_retryCount :: "int option"
  fj_maxRetries :: "int option"
  fj_nextAction :: "string option"
  fj_queuedAt :: "iso_text option"
  fj_assignedAt :: "iso_text option"
  fj_staleAt :: "iso_text option"
  fj_completedAt :: "iso_text option"
  fj_reviewId :: "string option"
  fj_verificationWorkflowId :: "string option"
  fj_autoMerge :: "bool option"
  fj_skipDecomposeCheck :: "bool option"
  fj_mergeStatus :: "merge_status option"
  fj_mergeBinding :: "js_value option"
  fj_pendingGate :: "pending_gate option"
  fj_pause :: "pause_state option"
  fj_createdAt :: iso_text
  fj_updatedAt :: iso_text
  fj_canceledBy :: "string option"
  fj_provenance :: "js_value option"
  fj_other :: "(string \<times> js_value) list"

section \<open>Statuses (\<open>status.ts\<close>)\<close>

definition activeFederatedStatuses :: "federated_status list" where
  "activeFederatedStatuses = [FsAssigned, FsQueued, FsRunning, FsVerifying, FsFixing]"

definition workerAttachedFederatedStatuses :: "federated_status list" where
  "workerAttachedFederatedStatuses =
     [FsAssigned, FsQueued, FsRunning, FsVerifying, FsFixing, FsAwaitingApproval]"

definition holdsWorkerAttachment :: "federated_status \<Rightarrow> bool" where
  "holdsWorkerAttachment st \<longleftrightarrow> st \<in> set workerAttachedFederatedStatuses"

definition federatedJobHoldsWorkerAttachment :: "federated_job \<Rightarrow> bool" where
  "federatedJobHoldsWorkerAttachment job =
     (if fj_status job \<noteq> FsAwaitingApproval then holdsWorkerAttachment (fj_status job)
      else case fj_pause job of
        None \<Rightarrow> True
      | Some p \<Rightarrow> ps_state p \<in> {PauseAttached, ResumeClaimed, ApprovedButNotStarted})"

definition isActiveFederatedStatus :: "federated_status \<Rightarrow> bool" where
  "isActiveFederatedStatus st \<longleftrightarrow> st \<in> set activeFederatedStatuses"

definition terminalFederatedStatus :: "federated_status \<Rightarrow> bool" where
  "terminalFederatedStatus st \<longleftrightarrow> st \<in> {FsCompleted, FsFailed, FsRejected, FsBlocked, FsCanceled}"

fun workflowStateForFederatedStatus :: "federated_status \<Rightarrow> workflow_state" where
  "workflowStateForFederatedStatus FsAssigned = W_assigned"
| "workflowStateForFederatedStatus FsQueued = W_assigned"
| "workflowStateForFederatedStatus FsRunning = W_executing"
| "workflowStateForFederatedStatus FsVerifying = W_verify_fix"
| "workflowStateForFederatedStatus FsFixing = W_verify_fix"
| "workflowStateForFederatedStatus FsAwaitingApproval = W_blocked"
| "workflowStateForFederatedStatus FsCompleted = W_reviewing"
| "workflowStateForFederatedStatus FsFailed = W_failed"
| "workflowStateForFederatedStatus FsRejected = W_rejected"
| "workflowStateForFederatedStatus FsBlocked = W_blocked"
| "workflowStateForFederatedStatus FsCanceled = W_canceled"

definition federatedStatusTransitionFreedCapacity :: "federated_status \<Rightarrow> federated_status \<Rightarrow> bool" where
  "federatedStatusTransitionFreedCapacity previous next \<longleftrightarrow>
     previous \<noteq> FsQueued \<and> holdsWorkerAttachment previous \<and> \<not> holdsWorkerAttachment next"

section \<open>Leases (\<open>lease.ts\<close>)\<close>

definition DEFAULT_FEDERATED_LEASE_TTL_MS :: int where
  "DEFAULT_FEDERATED_LEASE_TTL_MS = 30 * 60 * 1000"

text \<open>\<open>toISOString\<close> throws (\<open>None\<close>) for an invalid date.\<close>

definition createFederatedLease ::
  "string \<Rightarrow> string \<Rightarrow> iso_text \<Rightarrow> int option \<Rightarrow> federated_lease option" where
  "createFederatedLease jobId hostId now leaseTtlMs =
     (let ttl = max 1 (case leaseTtlMs of None \<Rightarrow> DEFAULT_FEDERATED_LEASE_TTL_MS | Some t \<Rightarrow> t) in
      map_option (\<lambda>t. \<lparr>ls_leaseId = jobId @ '':'' @ hostId @ '':'' @ base36 (date_parse now),
                       ls_hostId = hostId, ls_acquiredAt = now, ls_expiresAt = Iso (t + ttl)\<rparr>)
        (date_parse now))"

definition leaseExpired :: "federated_job \<Rightarrow> millis \<Rightarrow> bool" where
  "leaseExpired job nowMs =
     (case fj_lease job of
        None \<Rightarrow> False
      | Some l \<Rightarrow> (case date_parse (ls_expiresAt l) of None \<Rightarrow> False | Some t \<Rightarrow> t \<le> nowMs))"

section \<open>Jobs (\<open>jobs.ts\<close>)\<close>

text \<open>\<open>collate\<close> is \<open>localeCompare\<close> on the two time stamps.\<close>

definition queue_stamp :: "federated_job \<Rightarrow> iso_text" where
  "queue_stamp job = (case fj_queuedAt job of None \<Rightarrow> fj_createdAt job | Some t \<Rightarrow> t)"

definition job_rank :: "federated_job \<Rightarrow> rat" where
  "job_rank job = (case fj_priority job of None \<Rightarrow> 0 | Some p \<Rightarrow> p)"

definition queue_order :: "(iso_text \<Rightarrow> iso_text \<Rightarrow> int) \<Rightarrow> federated_job \<Rightarrow> federated_job \<Rightarrow> int" where
  "queue_order collate a b =
     (if job_rank b < job_rank a then -1 else if job_rank a < job_rank b then 1
      else collate (queue_stamp a) (queue_stamp b))"

definition sortFederatedQueue ::
  "(iso_text \<Rightarrow> iso_text \<Rightarrow> int) \<Rightarrow> federated_job list \<Rightarrow> federated_job list" where
  "sortFederatedQueue collate jobs = js_sort (queue_order collate) jobs"

definition BLOCKED_PREFIX :: string where
  "BLOCKED_PREFIX = ''blocked_by_unresolved:''"

definition error_starts :: "federated_job \<Rightarrow> string \<Rightarrow> bool" where
  "error_starts job p = (case fj_error job of None \<Rightarrow> False | Some e \<Rightarrow> js_starts_with e p)"

definition federatedDependencyBlockers :: "federated_job \<Rightarrow> string list" where
  "federatedDependencyBlockers record =
     (if fj_status record \<noteq> FsBlocked then []
      else if error_starts record BLOCKED_PREFIX then
        filter (\<lambda>i. i \<noteq> '''')
          (map js_trim (split_at (CHR '','')
             (drop (length BLOCKED_PREFIX) (case fj_error record of None \<Rightarrow> '''' | Some e \<Rightarrow> e))))
      else case map_of (fj_decision record) ''dependencyBlockers'' of
        Some (JArr xs) \<Rightarrow>
          List.map_filter (\<lambda>v. case v of JStr s \<Rightarrow> if js_trim s \<noteq> '''' then Some s else None | _ \<Rightarrow> None) xs
      | _ \<Rightarrow> [])"

end
