(* ===== verification/Federation_Routing.thy ===== *)
theory Federation_Routing
  imports Federation_Types
begin

text \<open>
  Worker hosts: their capabilities and load (\<open>src/federation/host-registry.ts\<close>,
  \<open>src/monitor/federation/host.ts\<close>), the registry the listeners announce themselves to
  (\<open>src/federation/listener-registry.ts\<close>) and the router that picks the host of a job
  (\<open>src/federation/job-router.ts\<close>). \<open>collate\<close> is \<open>localeCompare\<close>. A registry is the directory of
  listener files: under each file name what reading and validating the file gives, an issue code or
  a record. The optional descriptive fields of a host (alias, base URL, commit, role, protocol, last
  command) are kept together in \<open>fh_fields\<close> and their own validation is left out.
\<close>

section \<open>Hosts\<close>

record federated_host =
  fh_id :: string
  fh_capabilities :: "string list"
  fh_enabled :: bool
  fh_healthy :: bool
  fh_lastHealthCheckAt :: "iso_text option"
  fh_currentLoad :: "int option"
  fh_maxConcurrentJobs :: "int option"
  fh_projectPaths :: "(string \<times> string) list option"
  fh_metadata :: "(string \<times> js_value) list option"
  fh_fields :: "(string \<times> js_value) list"

definition normalizeCapabilities :: "(string \<Rightarrow> string \<Rightarrow> int) \<Rightarrow> string list \<Rightarrow> string list" where
  "normalizeCapabilities collate values =
     js_sort collate (js_uniq (filter (\<lambda>v. v \<noteq> '''') (map (\<lambda>v. js_to_lower (js_trim v)) values)))"

definition hostSupports ::
  "(string \<Rightarrow> string \<Rightarrow> int) \<Rightarrow> 'a federated_host_scheme \<Rightarrow> string list \<Rightarrow> bool" where
  "hostSupports collate host required \<longleftrightarrow>
     list_all (\<lambda>c. c \<in> set (normalizeCapabilities collate (fh_capabilities host))) required"

definition hostHasCapacity :: "'a federated_host_scheme \<Rightarrow> bool" where
  "hostHasCapacity host \<longleftrightarrow>
     (case fh_currentLoad host of None \<Rightarrow> 0 | Some n \<Rightarrow> n)
       < (case fh_maxConcurrentJobs host of None \<Rightarrow> 1 | Some n \<Rightarrow> n)"

section \<open>The load of the hosts (\<open>applyActiveFederatedLeases\<close>)\<close>

definition occupies :: "millis \<Rightarrow> string \<Rightarrow> federated_job \<Rightarrow> bool" where
  "occupies now h job \<longleftrightarrow>
     federatedJobHoldsWorkerAttachment job \<and> js_set_text (fj_hostId job) \<and> fj_hostId job = Some h \<and>
     \<not> leaseExpired job now"

definition active_count :: "millis \<Rightarrow> federated_job list \<Rightarrow> string \<Rightarrow> nat" where
  "active_count now jobs h = length (filter (occupies now h) jobs)"

definition applyActiveFederatedLeases ::
  "millis \<Rightarrow> federated_job list \<Rightarrow> federated_host list \<Rightarrow> federated_host list" where
  "applyActiveFederatedLeases now jobs hosts =
     map (\<lambda>host. host\<lparr>fh_currentLoad :=
              Some (max (case fh_currentLoad host of None \<Rightarrow> 0 | Some n \<Rightarrow> n) (int (active_count now jobs (fh_id host)))),
            fh_maxConcurrentJobs := Some (case fh_maxConcurrentJobs host of None \<Rightarrow> 1 | Some n \<Rightarrow> n)\<rparr>)
       hosts"

section \<open>The listener registry\<close>

definition host_id_start :: "char \<Rightarrow> bool" where
  "host_id_start c \<longleftrightarrow> js_digit c \<or> js_upper_letter c \<or> js_lower_letter c"

definition LISTENER_HOST_ID_PATTERN :: "string \<Rightarrow> bool" where
  "LISTENER_HOST_ID_PATTERN s \<longleftrightarrow>
     (case s of
        [] \<Rightarrow> False
      | c # cs \<Rightarrow> host_id_start c \<and> length cs \<le> 127 \<and>
                  list_all (\<lambda>x. host_id_start x \<or> x \<in> set ''._-'') cs)"

record listener_record = federated_host +
  lr_registeredAt :: iso_text
  lr_updatedAt :: iso_text
  lr_registeredBy :: "string option"

datatype listener_error =
    ListenerReadError string string \<comment> \<open>file, issue code\<close>
  | ListenerTokenMismatch string "string option" \<comment> \<open>host, expected token\<close>
  | ListenerNotFound string
  | ListenerWriteRefused

type_synonym listener_files = "(string \<times> (string + listener_record)) list"

record registration_input =
  ri_hostId :: string
  ri_capabilities :: "string list"
  ri_projectPaths :: "(string \<times> string) list option"
  ri_maxConcurrentJobs :: "int option"
  ri_metadata :: "(string \<times> js_value) list option"
  ri_fields :: "(string \<times> js_value) list"

record heartbeat_input =
  hb_healthy :: bool
  hb_currentLoad :: "int option"
  hb_maxConcurrentJobs :: "int option"
  hb_capabilities :: "string list option"
  hb_projectPaths :: "(string \<times> string) list option"
  hb_metadata :: "(string \<times> js_value) list option"
  hb_fields :: "(string \<times> js_value) list"

text \<open>\<open>{ ...old, ...new }\<close>\<close>

definition spread :: "('k \<times> 'v) list \<Rightarrow> ('k \<times> 'v) list \<Rightarrow> ('k \<times> 'v) list" where
  "spread old new = fold (\<lambda>e. js_map_set (fst e) (snd e)) new old"

definition normalizeProjectPaths :: "(string \<times> string) list option \<Rightarrow> (string \<times> string) list option" where
  "normalizeProjectPaths value =
     (case value of
        None \<Rightarrow> None
      | Some kvs \<Rightarrow>
          let entries = filter (\<lambda>e. fst e \<noteq> '''' \<and> snd e \<noteq> '''') (map (\<lambda>e. (js_trim (fst e), js_trim (snd e))) kvs)
          in if entries = [] then None else Some (spread [] entries))"

text \<open>The schema a record is checked against before it is written and after it is read.\<close>

definition listener_valid :: "listener_record \<Rightarrow> bool" where
  "listener_valid r \<longleftrightarrow>
     LISTENER_HOST_ID_PATTERN (fh_id r) \<and>
     list_all (\<lambda>c. js_trim c \<noteq> '''') (fh_capabilities r) \<and>
     (case fh_lastHealthCheckAt r of None \<Rightarrow> True | Some t \<Rightarrow> date_parse t \<noteq> None) \<and>
     (case fh_currentLoad r of None \<Rightarrow> True | Some n \<Rightarrow> 0 \<le> n) \<and>
     (case fh_maxConcurrentJobs r of None \<Rightarrow> True | Some n \<Rightarrow> 0 < n) \<and>
     (case fh_projectPaths r of None \<Rightarrow> True | Some ps \<Rightarrow> list_all (\<lambda>e. js_trim (snd e) \<noteq> '''') ps) \<and>
     date_parse (lr_registeredAt r) \<noteq> None \<and> date_parse (lr_updatedAt r) \<noteq> None \<and>
     (case lr_registeredBy r of None \<Rightarrow> True | Some t \<Rightarrow> t \<noteq> '''')"

definition listener_get :: "listener_files \<Rightarrow> string \<Rightarrow> listener_error + listener_record option" where
  "listener_get files hostId =
     (if \<not> LISTENER_HOST_ID_PATTERN hostId then Inl (ListenerReadError (hostId @ ''.json'') ''invalid_record'')
      else case js_map_get files hostId of
        None \<Rightarrow> Inr None
      | Some (Inl code) \<Rightarrow> Inl (ListenerReadError (hostId @ ''.json'') code)
      | Some (Inr r) \<Rightarrow>
          if \<not> listener_valid r then Inl (ListenerReadError (hostId @ ''.json'') ''invalid_record'')
          else if fh_id r \<noteq> hostId then Inl (ListenerReadError (hostId @ ''.json'') ''identity_mismatch'')
          else Inr (Some r))"

definition listener_save :: "listener_files \<Rightarrow> listener_record \<Rightarrow> listener_error + listener_files" where
  "listener_save files r =
     (if listener_valid r then Inr (js_map_set (fh_id r) (Inr r) files) else Inl ListenerWriteRefused)"

definition registered_record ::
  "(string \<Rightarrow> string \<Rightarrow> int) \<Rightarrow> millis \<Rightarrow> registration_input \<Rightarrow> string option
     \<Rightarrow> listener_record option \<Rightarrow> listener_record" where
  "registered_record collate now input registeredBy existing =
     \<lparr>fh_id = ri_hostId input,
      fh_capabilities = normalizeCapabilities collate (ri_capabilities input),
      fh_enabled = (case existing of None \<Rightarrow> True | Some r \<Rightarrow> fh_enabled r),
      fh_healthy = True,
      fh_lastHealthCheckAt = Some (Iso now),
      fh_currentLoad = Some 0,
      fh_maxConcurrentJobs =
        or_else (ri_maxConcurrentJobs input) (or_else (Option.bind existing fh_maxConcurrentJobs) (Some 1)),
      fh_projectPaths = or_else (normalizeProjectPaths (ri_projectPaths input)) (Option.bind existing fh_projectPaths),
      fh_metadata = Some (spread (case Option.bind existing fh_metadata of None \<Rightarrow> [] | Some m \<Rightarrow> m)
                                 (case ri_metadata input of None \<Rightarrow> [] | Some m \<Rightarrow> m)),
      fh_fields = spread (case existing of None \<Rightarrow> [] | Some r \<Rightarrow> fh_fields r) (ri_fields input),
      lr_registeredAt = (case existing of None \<Rightarrow> Iso now | Some r \<Rightarrow> lr_registeredAt r),
      lr_updatedAt = Iso now,
      lr_registeredBy = or_else (Option.bind existing lr_registeredBy) registeredBy\<rparr>"

definition listener_register ::
  "(string \<Rightarrow> string \<Rightarrow> int) \<Rightarrow> millis \<Rightarrow> registration_input \<Rightarrow> string option \<Rightarrow> listener_files
     \<Rightarrow> listener_error + (listener_record \<times> listener_files)" where
  "listener_register collate now input registeredBy files =
     (case listener_get files (ri_hostId input) of
        Inl e \<Rightarrow> Inl e
      | Inr existing \<Rightarrow>
          if (case existing of None \<Rightarrow> False | Some r \<Rightarrow> lr_registeredBy r \<noteq> registeredBy)
          then Inl (ListenerTokenMismatch (ri_hostId input) (Option.bind existing lr_registeredBy))
          else let record = registered_record collate now input registeredBy existing in
            (case listener_save files record of Inl e \<Rightarrow> Inl e | Inr files' \<Rightarrow> Inr (record, files')))"

definition beaten_record ::
  "(string \<Rightarrow> string \<Rightarrow> int) \<Rightarrow> millis \<Rightarrow> heartbeat_input \<Rightarrow> listener_record \<Rightarrow> listener_record" where
  "beaten_record collate now input existing =
     existing\<lparr>fh_healthy := hb_healthy input,
       fh_lastHealthCheckAt := Some (Iso now),
       fh_currentLoad := or_else (hb_currentLoad input) (or_else (fh_currentLoad existing) (Some 0)),
       fh_maxConcurrentJobs := or_else (hb_maxConcurrentJobs input) (or_else (fh_maxConcurrentJobs existing) (Some 1)),
       fh_capabilities := (case hb_capabilities input of
          None \<Rightarrow> fh_capabilities existing | Some cs \<Rightarrow> normalizeCapabilities collate cs),
       fh_projectPaths := or_else (normalizeProjectPaths (hb_projectPaths input)) (fh_projectPaths existing),
       fh_metadata := Some (spread (case fh_metadata existing of None \<Rightarrow> [] | Some m \<Rightarrow> m)
                                   (case hb_metadata input of None \<Rightarrow> [] | Some m \<Rightarrow> m)),
       fh_fields := spread (fh_fields existing) (hb_fields input),
       lr_updatedAt := Iso now\<rparr>"

definition listener_heartbeat ::
  "(string \<Rightarrow> string \<Rightarrow> int) \<Rightarrow> millis \<Rightarrow> string \<Rightarrow> heartbeat_input \<Rightarrow> string option \<Rightarrow> listener_files
     \<Rightarrow> listener_error + (listener_record option \<times> listener_files)" where
  "listener_heartbeat collate now hostId input registeredBy files =
     (case listener_get files hostId of
        Inl e \<Rightarrow> Inl e
      | Inr None \<Rightarrow> Inr (None, files)
      | Inr (Some existing) \<Rightarrow>
          if lr_registeredBy existing \<noteq> registeredBy
          then Inl (ListenerTokenMismatch hostId (lr_registeredBy existing))
          else let record = beaten_record collate now input existing in
            (case listener_save files record of Inl e \<Rightarrow> Inl e | Inr files' \<Rightarrow> Inr (Some record, files')))"

definition assertTokenBinding :: "listener_files \<Rightarrow> string \<Rightarrow> string \<Rightarrow> listener_error + listener_record" where
  "assertTokenBinding files hostId tokenId =
     (case listener_get files hostId of
        Inl e \<Rightarrow> Inl e
      | Inr None \<Rightarrow> Inl (ListenerNotFound hostId)
      | Inr (Some r) \<Rightarrow>
          if \<not> js_set_text (lr_registeredBy r) \<or> lr_registeredBy r \<noteq> Some tokenId
          then Inl (ListenerTokenMismatch hostId (lr_registeredBy r)) else Inr r)"

text \<open>The default order of \<open>sort\<close>: by code units.\<close>

fun code_unit_compare :: "string \<Rightarrow> string \<Rightarrow> int" where
  "code_unit_compare [] [] = 0"
| "code_unit_compare [] (y # ys) = -1"
| "code_unit_compare (x # xs) [] = 1"
| "code_unit_compare (x # xs) (y # ys) =
     (if (of_char x :: nat) < of_char y then -1
      else if (of_char y :: nat) < of_char x then 1 else code_unit_compare xs ys)"

record registry_snapshot =
  rs_records :: "listener_record list"
  rs_issues :: "listener_error list"
  rs_unavailable :: bool
  rs_reservedHostIds :: "string list"

text \<open>\<open>None\<close> is a directory that cannot be read; a missing directory is an empty one.\<close>

definition listWithDiagnostics ::
  "(string \<Rightarrow> string \<Rightarrow> int) \<Rightarrow> listener_files option \<Rightarrow> registry_snapshot" where
  "listWithDiagnostics collate dir =
     (case dir of
        None \<Rightarrow> \<lparr>rs_records = [], rs_issues = [ListenerReadError ''listeners'' ''registry_unavailable''],
                 rs_unavailable = True, rs_reservedHostIds = []\<rparr>
      | Some files \<Rightarrow>
          let ids = js_sort code_unit_compare (js_map_keys files);
              results = map (listener_get files) ids
          in \<lparr>rs_records = js_sort (\<lambda>a b. collate (fh_id a) (fh_id b))
                (List.map_filter (\<lambda>r. case r of Inr x \<Rightarrow> x | Inl _ \<Rightarrow> None) results),
              rs_issues = List.map_filter (\<lambda>r. case r of Inl e \<Rightarrow> Some e | Inr _ \<Rightarrow> None) results,
              rs_unavailable = False, rs_reservedHostIds = ids\<rparr>)"

section \<open>The hosts a job can go to (\<open>defaultFederatedHosts\<close>)\<close>

record remote_instance =
  rm_id :: string
  rm_enabled :: "bool option"
  rm_fields :: "(string \<times> js_value) list"

definition remote_host :: "remote_instance \<Rightarrow> federated_host" where
  "remote_host remote =
     \<lparr>fh_id = rm_id remote, fh_capabilities = [''intake'', ''verify'', ''fix'', ''dispatch''],
      fh_enabled = (rm_enabled remote \<noteq> Some False), fh_healthy = (rm_enabled remote \<noteq> Some False),
      fh_lastHealthCheckAt = None, fh_currentLoad = Some 0, fh_maxConcurrentJobs = Some 1,
      fh_projectPaths = None, fh_metadata = None, fh_fields = rm_fields remote\<rparr>"

definition add_remote ::
  "registry_snapshot \<Rightarrow> remote_instance \<Rightarrow> (string \<times> federated_host) list \<Rightarrow> (string \<times> federated_host) list" where
  "add_remote snapshot remote byId =
     (if rs_unavailable snapshot \<or> rm_id remote \<in> set (rs_reservedHostIds snapshot) \<or>
         js_map_get byId (rm_id remote) \<noteq> None \<or> \<not> LISTENER_HOST_ID_PATTERN (rm_id remote)
      then byId else js_map_set (rm_id remote) (remote_host remote) byId)"

definition defaultFederatedHosts ::
  "millis \<Rightarrow> federated_job list \<Rightarrow> registry_snapshot \<Rightarrow> remote_instance list option \<Rightarrow> federated_host list" where
  "defaultFederatedHosts now jobs snapshot remotes =
     (let registered = fold (\<lambda>l. js_map_set (fh_id l) (federated_host.truncate l)) (rs_records snapshot) [];
          byId = (case remotes of None \<Rightarrow> registered | Some rs \<Rightarrow> fold (add_remote snapshot) rs registered)
      in applyActiveFederatedLeases now jobs (js_map_values byId))"

section \<open>The router\<close>

record route_request =
  rr_jobType :: job_type
  rr_requiredCapabilities :: "string list"
  rr_preferredHostId :: "string option"
  rr_hosts :: "federated_host list"

record route_assignment =
  ra_host :: federated_host
  ra_requiredCapabilities :: "string list"
  ra_fallbackUsed :: bool
  ra_decision :: "(string \<times> js_value) list"

record route_failure =
  rf_retryable :: bool
  rf_blockReasonCode :: block_reason
  rf_error :: string
  rf_requiredCapabilities :: "string list"
  rf_fallback :: "(string \<times> js_value) list"

definition route_decision :: "string \<Rightarrow> string list \<Rightarrow> (string \<times> js_value) list" where
  "route_decision reason considered =
     [(''reason'', JStr reason), (''candidatesConsidered'', js_strs considered)]"

definition route_fallback :: "string option \<Rightarrow> string list \<Rightarrow> string \<Rightarrow> (string \<times> js_value) list" where
  "route_fallback attempted considered reason =
     [(''attemptedHostId'', js_opt JStr attempted), (''candidatesConsidered'', js_strs considered),
      (''reason'', JStr reason)]"

definition healthy_other :: "federated_host list \<Rightarrow> federated_host \<Rightarrow> federated_host option" where
  "healthy_other candidates preferred =
     List.find (\<lambda>h. fh_healthy h \<and> fh_id h \<noteq> fh_id preferred) candidates"

definition route_preferred ::
  "string list \<Rightarrow> federated_host list \<Rightarrow> string \<Rightarrow> route_failure + route_assignment" where
  "route_preferred required capable p =
     (let candidates = filter hostHasCapacity capable; considered = map fh_id candidates in
      case List.find (\<lambda>h. fh_id h = p) capable of
        None \<Rightarrow>
          Inl \<lparr>rf_retryable = True, rf_blockReasonCode = PendingRemoteListener,
               rf_error = ''preferred_host_unavailable'', rf_requiredCapabilities = required,
               rf_fallback = route_fallback (Some p) considered
                 ''Preferred host is disabled or lacks required capabilities.''\<rparr>
      | Some preferredCapable \<Rightarrow>
          if \<not> hostHasCapacity preferredCapable then
            (case healthy_other candidates preferredCapable of
               Some f \<Rightarrow> Inr \<lparr>ra_host = f, ra_requiredCapabilities = required, ra_fallbackUsed = True,
                 ra_decision = route_decision (''Preferred host '' @ fh_id preferredCapable
                   @ '' is at capacity; assigned '' @ fh_id f @ ''.'') considered\<rparr>
             | None \<Rightarrow> Inl \<lparr>rf_retryable = True, rf_blockReasonCode = PendingRemoteListener,
                 rf_error = ''host_at_capacity'', rf_requiredCapabilities = required,
                 rf_fallback = route_fallback (Some (fh_id preferredCapable)) (map fh_id capable)
                   ''Preferred host is currently at capacity.''\<rparr>)
          else case List.find (\<lambda>h. fh_id h = p) candidates of
            None \<Rightarrow>
              Inl \<lparr>rf_retryable = True, rf_blockReasonCode = PendingRemoteListener,
                   rf_error = ''preferred_host_unavailable'', rf_requiredCapabilities = required,
                   rf_fallback = route_fallback (Some p) considered
                     ''Preferred host is unavailable after capacity filtering.''\<rparr>
          | Some preferred \<Rightarrow>
              if \<not> fh_healthy preferred then
                (case healthy_other candidates preferred of
                   Some f \<Rightarrow> Inr \<lparr>ra_host = f, ra_requiredCapabilities = required, ra_fallbackUsed = True,
                     ra_decision = route_decision (''Preferred host '' @ fh_id preferred
                       @ '' is unhealthy; assigned '' @ fh_id f @ ''.'') considered\<rparr>
                 | None \<Rightarrow> Inl \<lparr>rf_retryable = True, rf_blockReasonCode = HostUnhealthy,
                     rf_error = ''host_unhealthy'', rf_requiredCapabilities = required,
                     rf_fallback = route_fallback (Some (fh_id preferred)) considered
                       ''Preferred host is unhealthy and no healthy fallback exists.''\<rparr>)
              else Inr \<lparr>ra_host = preferred, ra_requiredCapabilities = required, ra_fallbackUsed = False,
                ra_decision = route_decision (''Assigned preferred host '' @ fh_id preferred @ ''.'') considered\<rparr>)"

definition route_any :: "string list \<Rightarrow> string option \<Rightarrow> federated_host list \<Rightarrow> route_failure + route_assignment" where
  "route_any required preferredHostId capable =
     (let candidates = filter hostHasCapacity capable; considered = map fh_id candidates in
      case List.find fh_healthy candidates of
        Some h \<Rightarrow> Inr \<lparr>ra_host = h, ra_requiredCapabilities = required, ra_fallbackUsed = False,
          ra_decision = route_decision (''Assigned first healthy capable host '' @ fh_id h @ ''.'') considered\<rparr>
      | None \<Rightarrow>
          if candidates = [] \<and> capable \<noteq> [] then
            Inl \<lparr>rf_retryable = True, rf_blockReasonCode = PendingRemoteListener, rf_error = ''host_at_capacity'',
                 rf_requiredCapabilities = required,
                 rf_fallback = route_fallback preferredHostId (map fh_id capable)
                   ''Capable hosts exist but are currently at capacity.''\<rparr>
          else
            Inl \<lparr>rf_retryable = (candidates \<noteq> []),
                 rf_blockReasonCode = (if candidates \<noteq> [] then HostUnhealthy else PendingRemoteListener),
                 rf_error = (if candidates \<noteq> [] then ''host_unhealthy'' else ''no_capable_listener''),
                 rf_requiredCapabilities = required,
                 rf_fallback = route_fallback preferredHostId considered
                   (if candidates \<noteq> [] then ''Capable hosts exist but all are unhealthy.''
                    else ''No enabled host advertises the required capabilities.'')\<rparr>)"

definition required_of :: "(string \<Rightarrow> string \<Rightarrow> int) \<Rightarrow> route_request \<Rightarrow> string list" where
  "required_of collate input =
     normalizeCapabilities collate
       (if rr_requiredCapabilities input \<noteq> [] then rr_requiredCapabilities input
        else [job_type_name (rr_jobType input)])"

definition routeFederatedJob ::
  "(string \<Rightarrow> string \<Rightarrow> int) \<Rightarrow> route_request \<Rightarrow> route_failure + route_assignment" where
  "routeFederatedJob collate input =
     (let required = required_of collate input;
          capable = filter (\<lambda>h. hostSupports collate h required) (filter fh_enabled (rr_hosts input))
      in case rr_preferredHostId input of
           Some p \<Rightarrow> if p \<noteq> '''' then route_preferred required capable p
                     else route_any required (Some p) capable
         | None \<Rightarrow> route_any required None capable)"

section \<open>Properties\<close>

definition suitable :: "(string \<Rightarrow> string \<Rightarrow> int) \<Rightarrow> route_request \<Rightarrow> federated_host \<Rightarrow> bool" where
  "suitable collate input h \<longleftrightarrow>
     h \<in> set (rr_hosts input) \<and> fh_enabled h \<and> hostSupports collate h (required_of collate input) \<and>
     hostHasCapacity h \<and> fh_healthy h"

lemma route_any_assigns:
  "route_any required p capable = Inr a \<Longrightarrow>
     ra_host a \<in> set capable \<and> hostHasCapacity (ra_host a) \<and> fh_healthy (ra_host a) \<and> \<not> ra_fallbackUsed a"
  by (auto simp: route_any_def Let_def split: option.splits if_splits dest!: find_SomeD)

lemma route_any_fails: "route_any required p capable = Inl f \<Longrightarrow> h \<in> set capable \<Longrightarrow> \<not> (hostHasCapacity h \<and> fh_healthy h)"
  by (auto simp: route_any_def Let_def find_None_iff_all split: option.splits if_splits)

lemma route_preferred_assigns:
  "route_preferred required capable p = Inr a \<Longrightarrow>
     ra_host a \<in> set capable \<and> hostHasCapacity (ra_host a) \<and> fh_healthy (ra_host a) \<and>
     (ra_fallbackUsed a \<longleftrightarrow> fh_id (ra_host a) \<noteq> p)"
  by (auto simp: route_preferred_def healthy_other_def Let_def split: option.splits if_splits dest!: find_SomeD)


definition admissible :: "(string \<Rightarrow> string \<Rightarrow> int) \<Rightarrow> route_request \<Rightarrow> federated_host list" where
  "admissible collate input =
     filter (\<lambda>h. hostSupports collate h (required_of collate input)) (filter fh_enabled (rr_hosts input))"

lemma suitable_admissible:
  "suitable collate input h \<longleftrightarrow> h \<in> set (admissible collate input) \<and> hostHasCapacity h \<and> fh_healthy h"
  by (auto simp: suitable_def admissible_def)

lemma route_split:
  "routeFederatedJob collate input =
     (if js_set_text (rr_preferredHostId input)
      then route_preferred (required_of collate input) (admissible collate input) (the (rr_preferredHostId input))
      else route_any (required_of collate input) (rr_preferredHostId input) (admissible collate input))"
  by (auto simp: routeFederatedJob_def admissible_def js_set_text_def Let_def split: option.splits)

lemma find_filter_distinct:
  "distinct (map f xs) \<Longrightarrow> List.find (\<lambda>h. f h = p) xs = Some x \<Longrightarrow> Q x \<Longrightarrow>
     List.find (\<lambda>h. f h = p) (filter Q xs) = Some x"
  by (induction xs) (auto split: if_splits dest!: find_SomeD)

lemma distinct_ids_eq: "distinct (map f xs) \<Longrightarrow> x \<in> set xs \<Longrightarrow> y \<in> set xs \<Longrightarrow> f x = f y \<Longrightarrow> x = y"
  by (induction xs) (auto simp: image_iff)

lemma route_preferred_fails:
  assumes "route_preferred required capable p = Inl f" and "distinct (map fh_id capable)"
    and "p \<in> fh_id ` set capable" and h: "h \<in> set capable"
  shows "\<not> (hostHasCapacity h \<and> fh_healthy h)"
proof -
  obtain q where q: "List.find (\<lambda>h. fh_id h = p) capable = Some q"
    using assms(3) by (cases "List.find (\<lambda>h. fh_id h = p) capable") (auto simp: find_None_iff_all)
  have qin: "q \<in> set capable" "fh_id q = p" using find_SomeD [OF q] by auto
  have same: "h = q" if "fh_id h = p" using distinct_ids_eq [OF assms(2) h qin(1)] that qin(2) by simp
  show ?thesis
  proof (cases "hostHasCapacity q")
    case False
    with assms(1) q have "healthy_other (filter hostHasCapacity capable) q = None"
      by (auto simp: route_preferred_def Let_def split: option.splits)
    then show ?thesis using False h same qin by (auto simp: healthy_other_def find_None_iff_all)
  next
    case True
    note f = find_filter_distinct [OF assms(2) q, of hostHasCapacity, OF True]
    with assms(1) q True have "\<not> fh_healthy q" "healthy_other (filter hostHasCapacity capable) q = None"
      by (auto simp: route_preferred_def Let_def split: option.splits if_splits)
    then show ?thesis using h same qin by (auto simp: healthy_other_def find_None_iff_all)
  qed
qed

lemma distinct_admissible: "distinct (map fh_id (rr_hosts input)) \<Longrightarrow> distinct (map fh_id (admissible collate input))"
  by (simp add: admissible_def distinct_map_filter)

lemma route_preferred_needs: "route_preferred required capable p = Inr a \<Longrightarrow> p \<in> fh_id ` set capable"
  by (auto simp: route_preferred_def Let_def split: option.splits dest!: find_SomeD)

text \<open>The load is applied to every host, so a host that is full by the ledger alone is full for the router.\<close>

lemma fh_id_applied: "map fh_id (applyActiveFederatedLeases now jobs hosts) = map fh_id hosts"
  by (simp add: applyActiveFederatedLeases_def)

lemma applied_capacity:
  assumes "h \<in> set (applyActiveFederatedLeases now jobs hosts)" and "hostHasCapacity h"
  shows "int (active_count now jobs (fh_id h)) < the (fh_maxConcurrentJobs h) \<and> fh_maxConcurrentJobs h \<noteq> None"
  using assms by (auto simp: applyActiveFederatedLeases_def hostHasCapacity_def)

text \<open>
  The router assigns a job to a host that is enabled, healthy, below its capacity and has every
  required capability, and it reports a fallback exactly when that host is not the preferred one.
  With distinct host ids it fails only if there is no such host, or the preferred host is disabled or
  lacks a capability.
\<close>

theorem routing_exact:
  assumes "distinct (map fh_id (rr_hosts input))"
  shows "case routeFederatedJob collate input of
      Inr a \<Rightarrow> suitable collate input (ra_host a) \<and>
        ra_requiredCapabilities a = required_of collate input \<and>
        (ra_fallbackUsed a \<longleftrightarrow> js_set_text (rr_preferredHostId input) \<and> rr_preferredHostId input \<noteq> Some (fh_id (ra_host a)))
    | Inl f \<Rightarrow> (\<nexists>h. suitable collate input h) \<or>
        js_set_text (rr_preferredHostId input) \<and>
          the (rr_preferredHostId input) \<notin> fh_id ` set (admissible collate input)"
proof (cases "routeFederatedJob collate input")
  case (Inl f)
  then show ?thesis
    using route_preferred_fails [OF _ distinct_admissible [OF assms]] route_any_fails
    by (simp add: route_split suitable_admissible split: if_splits) blast+
next
  case (Inr a)
  have "ra_requiredCapabilities a = required_of collate input"
    using Inr by (auto simp: route_split route_any_def route_preferred_def Let_def split: if_splits option.splits)
  then show ?thesis
    using Inr by (auto simp: route_split suitable_admissible js_set_text_def split: if_splits
        dest!: route_preferred_assigns route_any_assigns)
qed

definition demo_host :: "string \<Rightarrow> bool \<Rightarrow> int \<Rightarrow> federated_host" where
  "demo_host i healthy load =
     \<lparr>fh_id = i, fh_capabilities = [''dispatch''], fh_enabled = True, fh_healthy = healthy,
      fh_lastHealthCheckAt = None, fh_currentLoad = Some load, fh_maxConcurrentJobs = Some 1,
      fh_projectPaths = None, fh_metadata = None, fh_fields = []\<rparr>"

definition demo_request :: route_request where
  "demo_request =
     \<lparr>rr_jobType = JobDispatch, rr_requiredCapabilities = [], rr_preferredHostId = Some ''busy'',
      rr_hosts = [demo_host ''busy'' True 1, demo_host ''sick'' False 0, demo_host ''free'' True 0]\<rparr>"

lemma routing_exact_witness:
  "case routeFederatedJob code_unit_compare demo_request of
     Inr a \<Rightarrow> ra_host a = demo_host ''free'' True 0 \<and> ra_fallbackUsed a \<and> suitable code_unit_compare demo_request (ra_host a)
   | Inl f \<Rightarrow> False"
proof -
  have "distinct (map fh_id (rr_hosts demo_request))" by code_simp
  note r = routing_exact [OF this, of code_unit_compare]
  have "case routeFederatedJob code_unit_compare demo_request of
     Inr a \<Rightarrow> ra_host a = demo_host ''free'' True 0 \<and> ra_fallbackUsed a | Inl f \<Rightarrow> False"
    by code_simp
  with r show ?thesis by (auto split: sum.splits)
qed

section \<open>Token binding\<close>

text \<open>The calls that change the registry; a refused call leaves the files as they are.\<close>

datatype listener_call =
    CallRegister millis registration_input "string option"
  | CallHeartbeat millis string heartbeat_input "string option"

fun apply_call :: "(string \<Rightarrow> string \<Rightarrow> int) \<Rightarrow> listener_call \<Rightarrow> listener_files \<Rightarrow> listener_files" where
  "apply_call collate (CallRegister now input tok) files =
     (case listener_register collate now input tok files of Inl e \<Rightarrow> files | Inr (r, files') \<Rightarrow> files')"
| "apply_call collate (CallHeartbeat now h input tok) files =
     (case listener_heartbeat collate now h input tok files of Inl e \<Rightarrow> files | Inr (r, files') \<Rightarrow> files')"

definition bound_to :: "string \<Rightarrow> string option \<Rightarrow> listener_files \<Rightarrow> bool" where
  "bound_to h tok files \<longleftrightarrow> (\<exists>r. listener_get files h = Inr (Some r) \<and> lr_registeredBy r = tok)"

lemma listener_get_saved:
  assumes "listener_save files r = Inr files'" and "listener_valid r"
  shows "listener_get files' h = (if h = fh_id r then Inr (Some r) else listener_get files h)"
  using assms by (auto simp: listener_save_def listener_get_def js_map_laws listener_valid_def split: if_splits)

lemma listener_saved_valid: "listener_save files r = Inr files' \<Longrightarrow> listener_valid r"
  by (auto simp: listener_save_def split: if_splits)

lemma listener_get_id: "listener_get files h = Inr (Some r) \<Longrightarrow> fh_id r = h"
  by (auto simp: listener_get_def split: if_splits option.splits sum.splits)

lemma beaten_record_keeps [simp]:
  "fh_id (beaten_record collate now input r) = fh_id r"
  "lr_registeredBy (beaten_record collate now input r) = lr_registeredBy r"
  by (simp_all add: beaten_record_def)

lemma bound_to_call: "bound_to h tok files \<Longrightarrow> bound_to h tok (apply_call collate c files)"
proof (cases c)
  case (CallRegister now input t)
  assume b: "bound_to h tok files"
  show ?thesis
    unfolding CallRegister
    using b by (auto simp: bound_to_def listener_register_def Let_def listener_get_saved [OF _ listener_saved_valid]
        registered_record_def or_else_def split: sum.splits if_splits option.splits)
next
  case (CallHeartbeat now i input t)
  assume b: "bound_to h tok files"
  show ?thesis
    unfolding CallHeartbeat
    using b by (auto simp: bound_to_def listener_heartbeat_def Let_def listener_get_saved [OF _ listener_saved_valid]
        split: sum.splits if_splits option.splits) (metis listener_get_id sum.inject(2) option.inject)
qed

interpretation binding: invariant_machine "apply_call collate" "\<lambda>c f. True" "bound_to h tok"
  by unfold_locales (rule bound_to_call)

text \<open>
  C20: A host id belongs to the token that registered it. Whatever sequence of registrations and
  heartbeats follows, the record of the host keeps its token; a registration or a heartbeat with
  another token is refused and writes nothing; and the route guard accepts exactly that token.
\<close>

theorem token_binding_holds:
  assumes "listener_get files h = Inr (Some r)"
  shows "\<exists>r'. listener_get (run_steps (apply_call collate) calls files) h = Inr (Some r') \<and>
      lr_registeredBy r' = lr_registeredBy r \<and>
      (\<forall>tok. assertTokenBinding (run_steps (apply_call collate) calls files) h tok =
         (if lr_registeredBy r = Some tok \<and> tok \<noteq> '''' then Inr r' else Inl (ListenerTokenMismatch h (lr_registeredBy r)))) \<and>
      (\<forall>now input tok. tok = lr_registeredBy r \<or>
         listener_heartbeat collate now h input tok (run_steps (apply_call collate) calls files) =
           Inl (ListenerTokenMismatch h (lr_registeredBy r))) \<and>
      (\<forall>now input tok. ri_hostId input \<noteq> h \<or> tok = lr_registeredBy r \<or>
         listener_register collate now input tok (run_steps (apply_call collate) calls files) =
           Inl (ListenerTokenMismatch h (lr_registeredBy r)))"
proof -
  have "bound_to h (lr_registeredBy r) files" using assms by (simp add: bound_to_def)
  then have "bound_to h (lr_registeredBy r) (run_steps (apply_call collate) calls files)"
    by (rule binding.run_inv) (simp add: steps_ok_True)
  then obtain r' where r': "listener_get (run_steps (apply_call collate) calls files) h = Inr (Some r')"
    "lr_registeredBy r' = lr_registeredBy r" by (auto simp: bound_to_def)
  then show ?thesis
    by (intro exI [of _ r'])
      (auto simp: assertTokenBinding_def listener_heartbeat_def listener_register_def js_set_text_def)
qed

definition demo_registration :: "string \<Rightarrow> registration_input" where
  "demo_registration h =
     \<lparr>ri_hostId = h, ri_capabilities = [''dispatch''], ri_projectPaths = None,
      ri_maxConcurrentJobs = None, ri_metadata = None, ri_fields = []\<rparr>"

definition demo_files :: listener_files where
  "demo_files = apply_call code_unit_compare (CallRegister 5 (demo_registration ''h1'') (Some ''tok'')) []"

lemma token_binding_holds_witness:
  "\<exists>r'. listener_get (apply_call code_unit_compare (CallRegister 9 (demo_registration ''h1'') (Some ''evil'')) demo_files) ''h1'' = Inr (Some r') \<and>
     lr_registeredBy r' = Some ''tok''"
proof -
  have "case listener_get demo_files ''h1'' of Inr (Some r) \<Rightarrow> lr_registeredBy r = Some ''tok'' | _ \<Rightarrow> False"
    by code_simp
  then obtain r where r: "listener_get demo_files ''h1'' = Inr (Some r)" "lr_registeredBy r = Some ''tok''"
    by (auto split: sum.splits option.splits)
  from token_binding_holds [OF r(1), of code_unit_compare "[CallRegister 9 (demo_registration ''h1'') (Some ''evil'')]"] r(2)
  show ?thesis by auto
qed

end
