(* ===== verification/Federation_Store.thy ===== *)
theory Federation_Store
  imports Federation_Types
begin

text \<open>
  The ledger of federated jobs: the job ids it accepts (\<open>src/monitor/federation/job-id.ts\<close>) and
  reading, listing and updating records under the lock of one job
  (\<open>src/monitor/federation/store.ts\<close>). The directory is a map from file stem to what reading the file
  gives; \<open>None\<close> is a file that cannot be read or parsed. The lock makes one update atomic; its owner
  files, heartbeats and reclaim are file-system protocol and are not modelled.
\<close>

section \<open>Job ids\<close>

definition job_id_start :: "char \<Rightarrow> bool" where
  "job_id_start c \<longleftrightarrow> js_digit c \<or> js_upper_letter c \<or> js_lower_letter c \<or> c = CHR ''_''"

definition safe_job_id_char :: "char \<Rightarrow> bool" where
  "safe_job_id_char c \<longleftrightarrow> job_id_start c \<or> c = CHR ''.'' \<or> c = CHR ''-''"

text \<open>A Windows device name, alone or in front of a dot, in any case.\<close>

definition device_stems :: "string list" where
  "device_stems =
     [''con'', ''prn'', ''aux'', ''nul'']
       @ concat (map (\<lambda>p. map (\<lambda>d. p @ [d]) ''123456789'') [''com'', ''lpt''])"

definition windows_device :: "string \<Rightarrow> bool" where
  "windows_device s \<longleftrightarrow> js_to_lower (takeWhile (\<lambda>c. c \<noteq> CHR ''.'') s) \<in> set device_stems"

definition isSafeFederatedJobId :: "string \<Rightarrow> bool" where
  "isSafeFederatedJobId s \<longleftrightarrow>
     length s \<le> 96 \<and> (case s of [] \<Rightarrow> False | c # cs \<Rightarrow> job_id_start c) \<and>
     list_all safe_job_id_char s \<and> \<not> windows_device s"

datatype job_store_error = InvalidFederatedJobId | FederatedJobIdentityMismatch

definition assertFederatedJobIdentity :: "string \<Rightarrow> string \<Rightarrow> job_store_error option" where
  "assertFederatedJobIdentity value expected =
     (if \<not> isSafeFederatedJobId value then Some InvalidFederatedJobId
      else if value \<noteq> expected then Some FederatedJobIdentityMismatch else None)"

section \<open>Records\<close>

type_synonym job_files = "(string \<times> federated_job option) list"

definition loadFederatedJob :: "job_files \<Rightarrow> string \<Rightarrow> federated_job option" where
  "loadFederatedJob files jobId =
     (if \<not> isSafeFederatedJobId jobId then None
      else case js_map_get files jobId of
        Some (Some job) \<Rightarrow> if fj_jobId job = jobId then Some job else None
      | _ \<Rightarrow> None)"

definition listFederatedJobs :: "job_files \<Rightarrow> federated_job list" where
  "listFederatedJobs files = List.map_filter (loadFederatedJob files) (js_map_keys files)"

definition persistFederatedJob :: "federated_job \<Rightarrow> job_files \<Rightarrow> job_files" where
  "persistFederatedJob job files = js_map_set (fj_jobId job) (Some job) files"

text \<open>
  The result is the record now on file and whether it was written. The three update functions of the
  source differ in being synchronous or not and in the effect that runs after the write.
\<close>

definition updateFederatedJob ::
  "string \<Rightarrow> (federated_job \<Rightarrow> federated_job option) \<Rightarrow> job_files
     \<Rightarrow> job_store_error + ((federated_job option \<times> bool) \<times> job_files)" where
  "updateFederatedJob jobId update files =
     (if \<not> isSafeFederatedJobId jobId then Inl InvalidFederatedJobId
      else case loadFederatedJob files jobId of
        None \<Rightarrow> Inr ((None, False), files)
      | Some current \<Rightarrow>
          (case update current of
             None \<Rightarrow> Inr ((Some current, False), files)
           | Some next \<Rightarrow>
               (case assertFederatedJobIdentity (fj_jobId next) jobId of
                  Some e \<Rightarrow> Inl e
                | None \<Rightarrow> Inr ((Some next, True), persistFederatedJob next files))))"

section \<open>Laws of the ledger\<close>

lemma load_id: "loadFederatedJob files i = Some job \<Longrightarrow> fj_jobId job = i \<and> isSafeFederatedJobId i"
  by (auto simp: loadFederatedJob_def split: if_splits option.splits)

lemma load_persist:
  "isSafeFederatedJobId (fj_jobId job) \<Longrightarrow>
     loadFederatedJob (persistFederatedJob job files) i = (if i = fj_jobId job then Some job else loadFederatedJob files i)"
  by (auto simp: loadFederatedJob_def persistFederatedJob_def js_map_laws split: option.splits)

lemma update_other:
  assumes "updateFederatedJob jobId f files = Inr (r, files')" and "i \<noteq> jobId"
  shows "loadFederatedJob files' i = loadFederatedJob files i"
  using assms by (auto simp: updateFederatedJob_def assertFederatedJobIdentity_def load_persist
      split: if_splits option.splits)

lemma update_same:
  assumes "updateFederatedJob jobId f files = Inr (r, files')" and "loadFederatedJob files jobId = Some job"
  shows "loadFederatedJob files' jobId = (case f job of None \<Rightarrow> Some job | Some next \<Rightarrow> Some next)"
  using assms by (auto simp: updateFederatedJob_def assertFederatedJobIdentity_def load_persist
      split: if_splits option.splits)

lemma update_missing:
  assumes "updateFederatedJob jobId f files = Inr (r, files')" and "loadFederatedJob files jobId = None"
  shows "files' = files"
  using assms by (auto simp: updateFederatedJob_def split: if_splits)

lemma update_result:
  assumes "updateFederatedJob jobId f files = Inr ((record, changed), files')"
  shows "record = loadFederatedJob files' jobId \<and> (changed \<longleftrightarrow> Option.bind (loadFederatedJob files jobId) f \<noteq> None)"
  using assms by (auto simp: updateFederatedJob_def assertFederatedJobIdentity_def load_persist
      split: if_splits option.splits)

lemma in_map_filter: "x \<in> set (List.map_filter f xs) \<longleftrightarrow> (\<exists>k \<in> set xs. f k = Some x)"
  by (induction xs) (auto split: option.splits)

lemma loaded_key: "loadFederatedJob files i = Some job \<Longrightarrow> i \<in> set (js_map_keys files)"
  using js_map.get_None_iff [of files i] by (auto simp: loadFederatedJob_def split: if_splits option.splits)

lemma in_listFederatedJobs: "job \<in> set (listFederatedJobs files) \<longleftrightarrow> loadFederatedJob files (fj_jobId job) = Some job"
  by (auto simp: listFederatedJobs_def in_map_filter dest: load_id loaded_key intro: bexI)

end
