(* ===== verification/Federation_Pause.thy ===== *)
theory Federation_Pause
  imports Federation_Store
begin

text \<open>
  The handshake of a run that waits at a human gate (\<open>src/monitor/federation/pause-resume.ts\<close>):
  a worker reports the pause, releases it, an operator decides, the original host claims the resume,
  the head node issues one start grant, and the grant is consumed by the first report of the resumed
  session or by a terminal report. Random identifiers and the current time are arguments. A pure
  transition returns the new record or the error it throws.
\<close>

section \<open>Times and errors\<close>

definition DEFAULT_RELEASED_PAUSE_SWEEP_MS :: int where
  "DEFAULT_RELEASED_PAUSE_SWEEP_MS = 24 * 60 * 60 * 1000"

definition DEFAULT_RESUME_CLAIM_TTL_MS :: int where
  "DEFAULT_RESUME_CLAIM_TTL_MS = 10 * 60 * 1000"

definition DEFAULT_RESUME_START_GRANT_TTL_MS :: int where
  "DEFAULT_RESUME_START_GRANT_TTL_MS = 5 * 60 * 1000"

text \<open>\<open>PauseDate\<close> is the \<open>RangeError\<close> of \<open>toISOString\<close> on an invalid date.\<close>

datatype pause_error = PauseError string | PauseDate | PauseStore job_store_error

text \<open>Comparisons of numbers of which either may be \<open>NaN\<close> (\<open>None\<close>).\<close>

definition ms_le :: "millis option \<Rightarrow> millis option \<Rightarrow> bool" where
  "ms_le x y \<longleftrightarrow> (case (x, y) of (Some a, Some b) \<Rightarrow> a \<le> b | _ \<Rightarrow> False)"

definition ms_less :: "millis option \<Rightarrow> millis option \<Rightarrow> bool" where
  "ms_less x y \<longleftrightarrow> (case (x, y) of (Some a, Some b) \<Rightarrow> a < b | _ \<Rightarrow> False)"

definition iso_at :: "millis option \<Rightarrow> int \<Rightarrow> pause_error + iso_text" where
  "iso_at t d = (case t of None \<Rightarrow> Inl PauseDate | Some x \<Rightarrow> Inr (Iso (x + d)))"

definition isLaterFederatedPauseOccurrence :: "pause_state \<Rightarrow> pending_gate \<Rightarrow> bool" where
  "isLaterFederatedPauseOccurrence pause gate =
     ms_less (date_parse_opt (ps_resumedAt pause)) (date_parse_opt (pg_since gate))"

section \<open>A worker reports the pause\<close>

record pause_identity =
  pi_projectId :: "string option"
  pi_jobId :: string
  pi_taskId :: string
  pi_jobType :: job_type
  pi_hostId :: string
  pi_sessionId :: string

definition assertPauseIdentity :: "federated_job \<Rightarrow> pause_identity \<Rightarrow> pause_error option" where
  "assertPauseIdentity job identity =
     (if fj_jobId job \<noteq> pi_jobId identity \<or> fj_taskId job \<noteq> pi_taskId identity \<or>
         fj_jobType job \<noteq> pi_jobType identity \<or> fj_hostId job \<noteq> Some (pi_hostId identity) \<or>
         js_set_text (fj_projectId job) \<and> js_set_text (pi_projectId identity) \<and>
           fj_projectId job \<noteq> pi_projectId identity
      then Some (PauseError ''federated_pause_identity_mismatch'')
      else if fj_status job \<noteq> FsAwaitingApproval
      then Some (PauseError ''federated_pause_not_awaiting_approval'')
      else None)"

definition same_occurrence :: "pause_state \<Rightarrow> pause_identity \<Rightarrow> pending_gate \<Rightarrow> bool" where
  "same_occurrence existing identity gate \<longleftrightarrow>
     ps_sessionId existing = pi_sessionId identity \<and> ps_gate existing = pg_stage gate \<and>
     date_parse (ps_openedAt existing) \<noteq> None \<and>
     date_parse (ps_openedAt existing) = date_parse_opt (pg_since gate)"

definition consumed :: "start_grant option \<Rightarrow> bool" where
  "consumed g = js_set_stamp (Option.bind g sgr_consumedAt)"

definition can_advance :: "pause_state \<Rightarrow> pause_identity \<Rightarrow> pending_gate \<Rightarrow> bool" where
  "can_advance existing identity gate \<longleftrightarrow>
     consumed (ps_startGrant existing) \<and>
     js_set_text (Option.bind (ps_startGrant existing) sgr_resumedSessionId) \<and>
     Option.bind (ps_startGrant existing) sgr_resumedSessionId = Some (pi_sessionId identity) \<and>
     date_parse_opt (ps_resumedAt existing) \<noteq> None \<and>
     ms_less (date_parse_opt (ps_resumedAt existing)) (date_parse_opt (pg_since gate))"

definition new_pause :: "nat \<Rightarrow> pause_identity \<Rightarrow> pending_gate \<Rightarrow> iso_text \<Rightarrow> string \<Rightarrow> iso_text \<Rightarrow> pause_state" where
  "new_pause generation identity gate now nonce since =
     \<lparr>ps_generation = generation, ps_state = PauseAttached, ps_gate = pg_stage gate,
      ps_sessionId = pi_sessionId identity, ps_originalHostId = pi_hostId identity,
      ps_releaseNonce = nonce, ps_openedAt = since, ps_preparedAt = now,
      ps_releasedAt = None, ps_sweepAfter = None, ps_decision = None, ps_resumeRequestedAt = None,
      ps_claim = None, ps_startGrant = None, ps_approvedButNotStartedAt = None, ps_resumedAt = None,
      ps_recoveryReason = None\<rparr>"

definition transitionFederatedPause ::
  "pause_identity \<Rightarrow> pending_gate \<Rightarrow> iso_text \<Rightarrow> string \<Rightarrow> federated_job \<Rightarrow> pause_error + federated_job" where
  "transitionFederatedPause identity gate now nonce job =
     (case assertPauseIdentity job identity of
        Some e \<Rightarrow> Inl e
      | None \<Rightarrow>
          if date_parse_opt (pg_since gate) = None then Inl (PauseError ''invalid_federated_pause_occurrence'')
          else if \<not> js_set_text (fj_remoteSessionId job) \<or> fj_remoteSessionId job \<noteq> Some (pi_sessionId identity)
          then Inl (PauseError ''federated_pause_session_mismatch'')
          else case fj_pause job of
            Some existing \<Rightarrow>
              if same_occurrence existing identity gate then Inr job
              else if \<not> can_advance existing identity gate
              then Inl (PauseError ''stale_federated_pause_generation'')
              else Inr (job\<lparr>fj_pause := Some (new_pause (ps_generation existing + 1) identity gate now nonce (the (pg_since gate))),
                            fj_updatedAt := now\<rparr>)
          | None \<Rightarrow>
              Inr (job\<lparr>fj_pause := Some (new_pause (0 + 1) identity gate now nonce (the (pg_since gate))),
                       fj_updatedAt := now\<rparr>))"

section \<open>Release, decision and claim\<close>

text \<open>What names one generation of a pause in a request.\<close>

record pause_ref =
  pr_jobId :: string
  pr_hostId :: string
  pr_generation :: nat
  pr_releaseNonce :: string

definition assertGeneration :: "federated_job \<Rightarrow> pause_ref \<Rightarrow> pause_error + pause_state" where
  "assertGeneration job ref =
     (case fj_pause job of
        None \<Rightarrow> Inl (PauseError ''federated_pause_generation_mismatch'')
      | Some pause \<Rightarrow>
          if fj_hostId job \<noteq> Some (pr_hostId ref) \<or> ps_generation pause \<noteq> pr_generation ref \<or>
             ps_releaseNonce pause \<noteq> pr_releaseNonce ref \<or> ps_originalHostId pause \<noteq> pr_hostId ref
          then Inl (PauseError ''federated_pause_generation_mismatch'') else Inr pause)"

definition release_pause :: "pause_ref \<Rightarrow> iso_text \<Rightarrow> int option \<Rightarrow> federated_job \<Rightarrow> pause_error + federated_job" where
  "release_pause ref now sweepAfterMs job =
     (case assertGeneration job ref of
        Inl e \<Rightarrow> Inl e
      | Inr pause \<Rightarrow>
          if fj_status job \<noteq> FsAwaitingApproval then Inl (PauseError ''federated_pause_not_awaiting_approval'')
          else if ps_state pause = PauseReleased then Inr job
          else if ps_state pause \<noteq> PauseAttached then Inl (PauseError ''federated_pause_not_attached'')
          else case iso_at (date_parse now) (case sweepAfterMs of None \<Rightarrow> DEFAULT_RELEASED_PAUSE_SWEEP_MS | Some d \<Rightarrow> d) of
            Inl e \<Rightarrow> Inl e
          | Inr sweep \<Rightarrow>
              Inr (job\<lparr>fj_lease := None,
                fj_nextAction := Some (''decide_'' @ gate_stage_name (ps_gate pause) @ ''_gate:'' @ fj_taskId job),
                fj_pause := Some (pause\<lparr>ps_state := PauseReleased, ps_releasedAt := Some now, ps_sweepAfter := Some sweep\<rparr>),
                fj_updatedAt := now\<rparr>))"

definition request_resume ::
  "pause_ref \<Rightarrow> gate_action \<Rightarrow> string option \<Rightarrow> iso_text \<Rightarrow> federated_job \<Rightarrow> pause_error + federated_job" where
  "request_resume ref action reason now job =
     (case assertGeneration job ref of
        Inl e \<Rightarrow> Inl e
      | Inr pause \<Rightarrow>
          if fj_status job \<noteq> FsAwaitingApproval then Inl (PauseError ''federated_pause_not_awaiting_approval'')
          else if ps_state pause = ResumeRequested \<and> map_option pd_action (ps_decision pause) = Some action \<and>
                  Option.bind (ps_decision pause) pd_reason = reason
          then Inr job
          else if ps_state pause \<noteq> PauseReleased then Inl (PauseError ''federated_pause_not_released'')
          else Inr (job\<lparr>
            fj_nextAction := Some (''resume_'' @ gate_stage_name (ps_gate pause) @ ''_decision:'' @ fj_taskId job),
            fj_pause := Some (pause\<lparr>ps_state := ResumeRequested,
               ps_decision := Some \<lparr>pd_action = action, pd_reason = reason, pd_recordedAt = now\<rparr>,
               ps_resumeRequestedAt := Some now\<rparr>),
            fj_updatedAt := now\<rparr>))"

definition claim_resume ::
  "pause_ref \<Rightarrow> iso_text \<Rightarrow> string \<Rightarrow> int option \<Rightarrow> federated_job \<Rightarrow> pause_error + federated_job" where
  "claim_resume ref now token claimTtlMs job =
     (case assertGeneration job ref of
        Inl e \<Rightarrow> Inl e
      | Inr pause \<Rightarrow>
          if fj_status job \<noteq> FsAwaitingApproval \<or> ps_state pause \<noteq> ResumeRequested
          then Inl (PauseError ''federated_resume_not_claimable'')
          else case iso_at (date_parse now) (case claimTtlMs of None \<Rightarrow> DEFAULT_RESUME_CLAIM_TTL_MS | Some d \<Rightarrow> d) of
            Inl e \<Rightarrow> Inl e
          | Inr expires \<Rightarrow>
              (case createFederatedLease (fj_jobId job) (pr_hostId ref) now (fj_leaseTtlMs job) of
                 None \<Rightarrow> Inl PauseDate
               | Some lease \<Rightarrow>
                   Inr (job\<lparr>fj_lease := Some lease,
                     fj_nextAction := Some (''start_'' @ gate_stage_name (ps_gate pause) @ ''_resume:'' @ fj_taskId job),
                     fj_pause := Some (pause\<lparr>ps_state := ResumeClaimed,
                        ps_claim := Some \<lparr>rc_token = token, rc_hostId = pr_hostId ref, rc_claimedAt = now, rc_expiresAt = expires\<rparr>,
                        ps_startGrant := None\<rparr>),
                     fj_updatedAt := now\<rparr>)))"

section \<open>The start grant\<close>

record ack_input =
  ai_projectId :: string
  ai_jobId :: string
  ai_taskId :: string
  ai_jobType :: job_type
  ai_hostId :: string
  ai_originalSessionId :: string
  ai_generation :: nat
  ai_releaseNonce :: string
  ai_claimToken :: string
  ai_leaseId :: string

definition claim_expiry :: "federated_job \<Rightarrow> millis option" where
  "claim_expiry job = date_parse_opt (map_option rc_expiresAt (Option.bind (fj_pause job) ps_claim))"

definition lease_expiry :: "federated_job \<Rightarrow> millis option" where
  "lease_expiry job = date_parse_opt (map_option ls_expiresAt (fj_lease job))"

definition ack_current :: "ack_input \<Rightarrow> iso_text \<Rightarrow> federated_job \<Rightarrow> pause_state option" where
  "ack_current a now job =
     (case fj_pause job of
        None \<Rightarrow> None
      | Some pause \<Rightarrow>
          if date_parse now = None \<or> fj_projectId job \<noteq> Some (ai_projectId a) \<or> fj_jobId job \<noteq> ai_jobId a \<or>
             fj_taskId job \<noteq> ai_taskId a \<or> fj_jobType job \<noteq> ai_jobType a \<or>
             fj_status job \<noteq> FsAwaitingApproval \<or> fj_hostId job \<noteq> Some (ai_hostId a) \<or>
             ps_generation pause \<noteq> ai_generation a \<or> ps_originalHostId pause \<noteq> ai_hostId a \<or>
             ps_sessionId pause \<noteq> ai_originalSessionId a \<or> ps_releaseNonce pause \<noteq> ai_releaseNonce a \<or>
             map_option rc_token (ps_claim pause) \<noteq> Some (ai_claimToken a) \<or>
             map_option rc_hostId (ps_claim pause) \<noteq> Some (ai_hostId a) \<or>
             claim_expiry job = None \<or> ms_le (claim_expiry job) (date_parse now) \<or>
             map_option ls_leaseId (fj_lease job) \<noteq> Some (ai_leaseId a) \<or>
             map_option ls_hostId (fj_lease job) \<noteq> Some (ai_hostId a) \<or>
             lease_expiry job = None \<or> ms_le (lease_expiry job) (date_parse now) \<or>
             ps_state pause \<notin> {ResumeClaimed, ApprovedButNotStarted}
          then None else Some pause)"

definition grant_for_other_ack :: "ack_input \<Rightarrow> iso_text \<Rightarrow> start_grant \<Rightarrow> bool" where
  "grant_for_other_ack a now g \<longleftrightarrow>
     sgr_projectId g \<noteq> ai_projectId a \<or> sgr_jobId g \<noteq> ai_jobId a \<or> sgr_taskId g \<noteq> ai_taskId a \<or>
     sgr_jobType g \<noteq> ai_jobType a \<or> sgr_hostId g \<noteq> ai_hostId a \<or>
     sgr_originalSessionId g \<noteq> ai_originalSessionId a \<or> sgr_generation g \<noteq> ai_generation a \<or>
     sgr_releaseNonce g \<noteq> ai_releaseNonce a \<or> sgr_claimToken g \<noteq> ai_claimToken a \<or>
     sgr_leaseId g \<noteq> ai_leaseId a \<or> consumed (Some g) \<or>
     ms_le (date_parse (sgr_expiresAt g)) (date_parse now)"

definition new_grant :: "ack_input \<Rightarrow> iso_text \<Rightarrow> string \<Rightarrow> millis \<Rightarrow> start_grant" where
  "new_grant a now token expiresAtMs =
     \<lparr>sgr_token = token, sgr_projectId = ai_projectId a, sgr_jobId = ai_jobId a, sgr_taskId = ai_taskId a,
      sgr_jobType = ai_jobType a, sgr_hostId = ai_hostId a, sgr_originalSessionId = ai_originalSessionId a,
      sgr_generation = ai_generation a, sgr_releaseNonce = ai_releaseNonce a, sgr_claimToken = ai_claimToken a,
      sgr_leaseId = ai_leaseId a, sgr_issuedAt = now, sgr_expiresAt = Iso expiresAtMs,
      sgr_consumedAt = None, sgr_resumedSessionId = None\<rparr>"

definition acknowledge_start ::
  "ack_input \<Rightarrow> iso_text \<Rightarrow> string \<Rightarrow> int option \<Rightarrow> federated_job \<Rightarrow> pause_error + federated_job" where
  "acknowledge_start a now token startGrantTtlMs job =
     (case ack_current a now job of
        None \<Rightarrow> Inl (PauseError ''federated_resume_claim_mismatch'')
      | Some pause \<Rightarrow>
          (case ps_startGrant pause of
             Some g \<Rightarrow>
               if grant_for_other_ack a now g then Inl (PauseError ''federated_resume_grant_mismatch'') else Inr job
           | None \<Rightarrow>
               let nowMs = the (date_parse now);
                   ttlMs = max 1 (case startGrantTtlMs of None \<Rightarrow> DEFAULT_RESUME_START_GRANT_TTL_MS | Some t \<Rightarrow> t);
                   expiresAtMs = min (the (claim_expiry job)) (min (the (lease_expiry job)) (nowMs + ttlMs))
               in if expiresAtMs \<le> nowMs then Inl (PauseError ''federated_resume_grant_expired'')
                  else Inr (job\<lparr>
                    fj_nextAction := Some (''observe_'' @ gate_stage_name (ps_gate pause) @ ''_resume_start:'' @ fj_taskId job),
                    fj_pause := Some (pause\<lparr>ps_state := ApprovedButNotStarted,
                       ps_approvedButNotStartedAt := Some now,
                       ps_startGrant := Some (new_grant a now token expiresAtMs)\<rparr>),
                    fj_updatedAt := now\<rparr>)))"

definition exactStartGrantMatches :: "start_grant \<Rightarrow> start_grant \<Rightarrow> bool" where
  "exactStartGrantMatches stored supplied \<longleftrightarrow>
     sgr_token stored = sgr_token supplied \<and> sgr_projectId stored = sgr_projectId supplied \<and>
     sgr_jobId stored = sgr_jobId supplied \<and> sgr_taskId stored = sgr_taskId supplied \<and>
     sgr_jobType stored = sgr_jobType supplied \<and> sgr_hostId stored = sgr_hostId supplied \<and>
     sgr_originalSessionId stored = sgr_originalSessionId supplied \<and>
     sgr_generation stored = sgr_generation supplied \<and> sgr_releaseNonce stored = sgr_releaseNonce supplied \<and>
     sgr_claimToken stored = sgr_claimToken supplied \<and> sgr_leaseId stored = sgr_leaseId supplied \<and>
     sgr_issuedAt stored = sgr_issuedAt supplied \<and> sgr_expiresAt stored = sgr_expiresAt supplied \<and>
     sgr_consumedAt supplied = None \<and> sgr_resumedSessionId supplied = None"

definition startGrantStaticIdentityMatches :: "federated_job \<Rightarrow> start_grant \<Rightarrow> bool" where
  "startGrantStaticIdentityMatches job supplied \<longleftrightarrow>
     (case fj_pause job of
        None \<Rightarrow> False
      | Some pause \<Rightarrow>
          (case ps_startGrant pause of
             None \<Rightarrow> False
           | Some stored \<Rightarrow>
               exactStartGrantMatches stored supplied \<and> fj_projectId job = Some (sgr_projectId supplied) \<and>
               fj_jobId job = sgr_jobId supplied \<and> fj_taskId job = sgr_taskId supplied \<and>
               fj_jobType job = sgr_jobType supplied \<and> fj_hostId job = Some (sgr_hostId supplied) \<and>
               ps_originalHostId pause = sgr_hostId supplied \<and> ps_sessionId pause = sgr_originalSessionId supplied \<and>
               ps_generation pause = sgr_generation supplied \<and> ps_releaseNonce pause = sgr_releaseNonce supplied \<and>
               map_option rc_token (ps_claim pause) = Some (sgr_claimToken supplied) \<and>
               map_option rc_hostId (ps_claim pause) = Some (sgr_hostId supplied)))"

definition startGrantIdentityMatches :: "federated_job \<Rightarrow> start_grant \<Rightarrow> bool" where
  "startGrantIdentityMatches job supplied \<longleftrightarrow>
     startGrantStaticIdentityMatches job supplied \<and>
     map_option ls_leaseId (fj_lease job) = Some (sgr_leaseId supplied) \<and>
     map_option ls_hostId (fj_lease job) = Some (sgr_hostId supplied)"

section \<open>Consuming the grant\<close>

definition stored_grant :: "federated_job \<Rightarrow> start_grant option" where
  "stored_grant job = Option.bind (fj_pause job) ps_startGrant"

text \<open>A reservation the worker made locally must lie inside the window of the grant and the claim.\<close>

definition reservation_valid :: "federated_job \<Rightarrow> iso_text \<Rightarrow> iso_text \<Rightarrow> bool" where
  "reservation_valid job started now \<longleftrightarrow>
     (let issued = date_parse_opt (map_option sgr_issuedAt (stored_grant job));
          expires = date_parse_opt (map_option sgr_expiresAt (stored_grant job));
          t = date_parse started
      in t \<noteq> None \<and> issued \<noteq> None \<and> expires \<noteq> None \<and> claim_expiry job \<noteq> None \<and> date_parse now \<noteq> None \<and>
         ms_le issued t \<and> ms_le t expires \<and> ms_le t (claim_expiry job) \<and> ms_le t (date_parse now))"

definition lease_dead :: "federated_job \<Rightarrow> iso_text \<Rightarrow> bool" where
  "lease_dead job now \<longleftrightarrow>
     date_parse now = None \<or> lease_expiry job = None \<or> ms_le (lease_expiry job) (date_parse now)"

definition fresh_at :: "federated_job \<Rightarrow> iso_text \<Rightarrow> bool" where
  "fresh_at job now \<longleftrightarrow>
     ms_less (date_parse now) (claim_expiry job) \<and>
     ms_less (date_parse now) (date_parse_opt (map_option sgr_expiresAt (stored_grant job)))"

text \<open>The record after the first report of the resumed session.\<close>

definition resumed_record :: "federated_job \<Rightarrow> pause_state \<Rightarrow> start_grant \<Rightarrow> string \<Rightarrow> iso_text option \<Rightarrow> iso_text \<Rightarrow> federated_job" where
  "resumed_record job pause g session started now =
     job\<lparr>fj_status := FsRunning, fj_pendingGate := None, fj_remoteSessionId := Some session,
       fj_nextAction := Some (''run_'' @ job_type_name (fj_jobType job)),
       fj_pause := Some (pause\<lparr>ps_resumedAt := Some now,
          ps_startGrant := Some (g\<lparr>sgr_consumedAt := Some (case started of None \<Rightarrow> now | Some t \<Rightarrow> t),
                                   sgr_resumedSessionId := Some session\<rparr>)\<rparr>),
       fj_updatedAt := now\<rparr>"

definition transitionFederatedResumeRunning ::
  "start_grant \<Rightarrow> string \<Rightarrow> iso_text option \<Rightarrow> iso_text \<Rightarrow> federated_job \<Rightarrow> pause_error + federated_job" where
  "transitionFederatedResumeRunning supplied session started now job =
     (if \<not> startGrantStaticIdentityMatches job supplied \<or> js_trim session = ''''
      then Inl (PauseError ''federated_resume_grant_mismatch'')
      else case (fj_pause job, stored_grant job) of
        (Some pause, Some g) \<Rightarrow>
          if consumed (Some g) then
            (if \<not> startGrantIdentityMatches job supplied then Inl (PauseError ''federated_resume_grant_mismatch'')
             else if lease_dead job now then Inl (PauseError ''federated_resume_grant_expired'')
             else if sgr_resumedSessionId g = Some session \<and> fj_remoteSessionId job = Some session \<and>
                     fj_status job \<in> {FsRunning, FsVerifying, FsFixing}
             then Inr job
             else Inl (PauseError ''federated_resume_grant_replayed''))
          else if \<not> startGrantIdentityMatches job supplied then Inl (PauseError ''federated_resume_grant_mismatch'')
          else if js_set_stamp started \<and> \<not> reservation_valid job (the started) now
          then Inl (PauseError ''federated_resume_reservation_mismatch'')
          else if lease_dead job now then Inl (PauseError ''federated_resume_grant_expired'')
          else if \<not> fresh_at job now \<and> \<not> js_set_stamp started then Inl (PauseError ''federated_resume_grant_expired'')
          else if fj_status job \<noteq> FsAwaitingApproval \<or> ps_state pause \<noteq> ApprovedButNotStarted
          then Inl (PauseError ''federated_resume_not_startable'')
          else Inr (resumed_record job pause g session started now)
      | _ \<Rightarrow> Inl (PauseError ''federated_resume_grant_mismatch''))"

definition terminalFederatedResumeStatus :: "federated_status \<Rightarrow> bool" where
  "terminalFederatedResumeStatus st \<longleftrightarrow> st \<in> {FsCompleted, FsFailed, FsRejected, FsBlocked, FsCanceled}"

definition exactFederatedResumeTerminalReceiptMatches :: "start_grant \<Rightarrow> string option \<Rightarrow> federated_job \<Rightarrow> bool" where
  "exactFederatedResumeTerminalReceiptMatches supplied session job =
     (if \<not> terminalFederatedResumeStatus (fj_status job) \<or> \<not> consumed (stored_grant job) \<or>
         \<not> startGrantStaticIdentityMatches job supplied
      then False
      else case (fj_pause job, stored_grant job) of
        (Some pause, Some g) \<Rightarrow>
          if js_set_text (sgr_resumedSessionId g)
          then session = sgr_resumedSessionId g \<and> fj_remoteSessionId job = sgr_resumedSessionId g
          else fj_status job = FsRejected \<and> ps_gate pause = GateBlueprint \<and>
               map_option pd_action (ps_decision pause) = Some GateRejected \<and> \<not> js_set_text session
      | _ \<Rightarrow> False)"

definition transitionFederatedResumeTerminal ::
  "start_grant \<Rightarrow> iso_text option \<Rightarrow> iso_text \<Rightarrow> federated_job \<Rightarrow> pause_error + federated_job" where
  "transitionFederatedResumeTerminal supplied started now job =
     (if \<not> startGrantStaticIdentityMatches job supplied then Inl (PauseError ''federated_resume_grant_mismatch'')
      else case (fj_pause job, stored_grant job) of
        (Some pause, Some g) \<Rightarrow>
          if consumed (Some g) then
            (if ps_state pause = ApprovedButNotStarted \<and> \<not> js_set_text (sgr_resumedSessionId g) \<and>
                fj_status job = FsRejected
             then Inr job else Inl (PauseError ''federated_resume_grant_replayed''))
          else if \<not> startGrantIdentityMatches job supplied then Inl (PauseError ''federated_resume_grant_mismatch'')
          else if js_set_stamp started \<and> \<not> reservation_valid job (the started) now
          then Inl (PauseError ''federated_resume_reservation_mismatch'')
          else if lease_dead job now \<or> \<not> fresh_at job now \<and> \<not> js_set_stamp started \<or>
                  fj_status job \<noteq> FsAwaitingApproval \<or> ps_state pause \<noteq> ApprovedButNotStarted \<or>
                  ps_gate pause \<noteq> GateBlueprint \<or> map_option pd_action (ps_decision pause) \<noteq> Some GateRejected
          then Inl (PauseError ''federated_resume_terminal_not_startable'')
          else Inr (job\<lparr>fj_status := FsRejected, fj_pendingGate := None, fj_lease := None,
                 fj_nextAction := Some ''manual_handoff'',
                 fj_pause := Some (pause\<lparr>ps_resumedAt := Some now,
                   ps_startGrant := Some (g\<lparr>sgr_consumedAt := Some (case started of None \<Rightarrow> now | Some t \<Rightarrow> t)\<rparr>)\<rparr>),
                 fj_updatedAt := now\<rparr>)
      | _ \<Rightarrow> Inl (PauseError ''federated_resume_grant_mismatch''))"

section \<open>Manual recovery\<close>

definition mark_manual_recovery :: "pause_ref \<Rightarrow> string \<Rightarrow> iso_text \<Rightarrow> federated_job \<Rightarrow> pause_error + federated_job" where
  "mark_manual_recovery ref reason now job =
     (case assertGeneration job ref of
        Inl e \<Rightarrow> Inl e
      | Inr pause \<Rightarrow>
          if fj_status job \<noteq> FsAwaitingApproval \<or> ps_state pause \<noteq> ResumeRequested
          then Inl (PauseError ''federated_resume_not_recoverable'')
          else Inr (job\<lparr>fj_status := FsBlocked, fj_lease := None, fj_retryable := Some False,
            fj_blockReasonCode := Some PendingManualHandoff, fj_error := Some reason,
            fj_nextAction := Some ''recover_paused_worktree_on_original_host'',
            fj_pause := Some (pause\<lparr>ps_state := ManualRecovery, ps_recoveryReason := Some reason\<rparr>),
            fj_updatedAt := now\<rparr>))"

definition exact_lease_live :: "federated_job \<Rightarrow> pause_state \<Rightarrow> start_grant \<Rightarrow> millis \<Rightarrow> bool" where
  "exact_lease_live job pause g nowMs \<longleftrightarrow>
     (case fj_lease job of
        None \<Rightarrow> False
      | Some l \<Rightarrow>
          ls_leaseId l = sgr_leaseId g \<and> ls_hostId l = sgr_hostId g \<and> fj_hostId job = Some (sgr_hostId g) \<and>
          fj_projectId job = Some (sgr_projectId g) \<and> fj_jobId job = sgr_jobId g \<and> fj_taskId job = sgr_taskId g \<and>
          fj_jobType job = sgr_jobType g \<and> ps_originalHostId pause = sgr_hostId g \<and>
          ps_sessionId pause = sgr_originalSessionId g \<and> ps_generation pause = sgr_generation g \<and>
          ps_releaseNonce pause = sgr_releaseNonce g \<and>
          map_option rc_token (ps_claim pause) = Some (sgr_claimToken g) \<and>
          ms_less (Some nowMs) (date_parse (ls_expiresAt l)))"

definition pause_deadline :: "pause_state \<Rightarrow> iso_text option" where
  "pause_deadline pause =
     (case ps_startGrant pause of
        Some g \<Rightarrow> Some (sgr_expiresAt g)
      | None \<Rightarrow> (case ps_claim pause of Some c \<Rightarrow> Some (rc_expiresAt c) | None \<Rightarrow> ps_sweepAfter pause))"

definition releasedPauseNeedsRecovery :: "federated_job \<Rightarrow> millis \<Rightarrow> bool" where
  "releasedPauseNeedsRecovery job nowMs =
     (case fj_pause job of
        None \<Rightarrow> False
      | Some pause \<Rightarrow>
          if fj_status job \<noteq> FsAwaitingApproval then False
          else if ps_state pause \<notin> {PauseReleased, ResumeRequested, ResumeClaimed, ApprovedButNotStarted} then False
          else if \<not> js_set_stamp (pause_deadline pause) \<or>
                  ms_less (Some nowMs) (date_parse_opt (pause_deadline pause)) then False
          else (case ps_startGrant pause of
                  Some g \<Rightarrow> if ps_state pause \<noteq> ApprovedButNotStarted then True
                            else \<not> exact_lease_live job pause g nowMs
                | None \<Rightarrow> True))"

section \<open>The calls on the ledger\<close>

text \<open>
  The update runs under the lock of the job; an error of the transition is kept, leaves the record
  alone and is thrown after the update.
\<close>

definition pause_update ::
  "string \<Rightarrow> (federated_job \<Rightarrow> pause_error + federated_job) \<Rightarrow> job_files
     \<Rightarrow> (pause_error + federated_job) \<times> job_files" where
  "pause_update jobId f files =
     (let failure = Option.bind (loadFederatedJob files jobId) (\<lambda>j. case f j of Inl e \<Rightarrow> Some e | Inr _ \<Rightarrow> None) in
      case updateFederatedJob jobId (\<lambda>j. case f j of Inl _ \<Rightarrow> None | Inr n \<Rightarrow> Some n) files of
        Inl e \<Rightarrow> (Inl (PauseStore e), files)
      | Inr ((record, changed), files') \<Rightarrow>
          (case failure of
             Some e \<Rightarrow> (Inl e, files')
           | None \<Rightarrow> (case record of
               None \<Rightarrow> (Inl (PauseError ''federated_job_not_found''), files')
             | Some r \<Rightarrow> (Inr r, files'))))"

definition prepareFederatedPause ::
  "pause_identity \<Rightarrow> pending_gate \<Rightarrow> iso_text \<Rightarrow> string \<Rightarrow> job_files \<Rightarrow> (pause_error + federated_job) \<times> job_files" where
  "prepareFederatedPause identity gate now nonce =
     pause_update (pi_jobId identity) (transitionFederatedPause identity gate now nonce)"

definition releaseFederatedPause ::
  "pause_ref \<Rightarrow> iso_text \<Rightarrow> int option \<Rightarrow> job_files \<Rightarrow> (pause_error + federated_job) \<times> job_files" where
  "releaseFederatedPause ref now sweepAfterMs = pause_update (pr_jobId ref) (release_pause ref now sweepAfterMs)"

definition requestFederatedResume ::
  "pause_ref \<Rightarrow> gate_action \<Rightarrow> string option \<Rightarrow> iso_text \<Rightarrow> job_files \<Rightarrow> (pause_error + federated_job) \<times> job_files" where
  "requestFederatedResume ref action reason now = pause_update (pr_jobId ref) (request_resume ref action reason now)"

definition claimFederatedResume ::
  "pause_ref \<Rightarrow> iso_text \<Rightarrow> string \<Rightarrow> int option \<Rightarrow> job_files \<Rightarrow> (pause_error + federated_job) \<times> job_files" where
  "claimFederatedResume ref now token ttl = pause_update (pr_jobId ref) (claim_resume ref now token ttl)"

definition acknowledgeFederatedResumeStart ::
  "ack_input \<Rightarrow> iso_text \<Rightarrow> string \<Rightarrow> int option \<Rightarrow> job_files \<Rightarrow> (pause_error + federated_job) \<times> job_files" where
  "acknowledgeFederatedResumeStart a now token ttl = pause_update (ai_jobId a) (acknowledge_start a now token ttl)"

definition markFederatedPauseManualRecovery ::
  "pause_ref \<Rightarrow> string \<Rightarrow> iso_text \<Rightarrow> job_files \<Rightarrow> (pause_error + federated_job) \<times> job_files" where
  "markFederatedPauseManualRecovery ref reason now = pause_update (pr_jobId ref) (mark_manual_recovery ref reason now)"

end
