(* ===== verification/Federation_Scheduling.thy ===== *)
theory Federation_Scheduling
  imports Federation_Routing Federation_Pause Duplicate_Claimants
begin

text \<open>
  The swarm scheduler of the head node (\<open>src/monitor/federation/scheduling.ts\<close>): the admission gate of
  a queued job, which blocks may heal by themselves, release after a completed dependency, assignment,
  recovery of stale leases and the tick that runs them. What the surrounding services answer (the task
  service, the status table, the readiness service, the claimant scan, the listener registry) is a
  context record; the readiness service's answer carries whether its diagnostic prep parses. One call
  sees one context and one instant. Session writers and events are not modelled.
\<close>

section \<open>What the services answer\<close>

record prep_result =
  pp_schemaValid :: bool
  pp_depthReady :: bool
  pp_depthScore :: rat
  pp_outcome :: string
  pp_recommendDecomposition :: bool

record preflight_result =
  pf_gateSkipped :: bool
  pf_ready :: bool
  pf_score :: rat
  pf_recommendDecomposition :: bool

record readiness_state =
  rd_admissionPreflight :: "preflight_result option"
  rd_admissionPrep :: "prep_result option"
  rd_hasStalePrep :: bool
  rd_staleReasons :: "string list"
  rd_diagnosticPrepParses :: bool

record fed_task =
  ft_blockedBy :: "string list"
  ft_status :: string

record fed_task_service =
  fs_listed :: "string list"
  fs_tasks :: "(string \<times> fed_task) list"

record fed_context =
  fc_projectId :: "string option"
  fc_taskService :: "fed_task_service option"
  fc_statuses :: "(string \<times> string) list"
  fc_readiness :: "(string \<times> readiness_state) list"
  fc_claimants :: duplicate_claimant_index
  fc_registry :: registry_snapshot
  fc_remotes :: "remote_instance list option"
  fc_canDispatch :: bool
  fc_collate :: "string \<Rightarrow> string \<Rightarrow> int"

record scheduling_options =
  so_preferredHostId :: "string option"
  so_leaseTtlMs :: "int option"
  so_allowLowPreflight :: bool
  so_allowMissingPreflight :: bool
  so_bypassDependencyGate :: bool

definition no_bypass :: scheduling_options where
  "no_bypass = \<lparr>so_preferredHostId = None, so_leaseTtlMs = None, so_allowLowPreflight = False,
     so_allowMissingPreflight = False, so_bypassDependencyGate = False\<rparr>"

record scheduling_failure =
  sf_blockReasonCode :: block_reason
  sf_error :: string
  sf_nextAction :: string
  sf_retryable :: bool

definition handoff :: "string \<Rightarrow> string \<Rightarrow> bool \<Rightarrow> scheduling_failure" where
  "handoff err act retry =
     \<lparr>sf_blockReasonCode = PendingManualHandoff, sf_error = err, sf_nextAction = act, sf_retryable = retry\<rparr>"

section \<open>Duplicate claimants\<close>

definition duplicateIntegrityFailure :: "duplicate_claimant_index \<Rightarrow> string list \<Rightarrow> scheduling_failure option" where
  "duplicateIntegrityFailure index taskIds =
     (case List.map_filter (duplicateClaimantRefusalForIndex index) taskIds of
        [] \<Rightarrow> None
      | refusal # _ \<Rightarrow>
          Some (handoff
            (case index of
               DciUnavailable reason \<Rightarrow> ''duplicate_claimants_unavailable:'' @ reason
             | DciScanned _ \<Rightarrow> ''duplicate_claimants:'' @ ref_taskId refusal @ '':'' @ js_join '','' (ref_claimants refusal))
            ''resolve_duplicate_claimants''
            (case index of DciUnavailable _ \<Rightarrow> True | DciScanned _ \<Rightarrow> False)))"

section \<open>Dependencies\<close>

definition getFederatedDependencyStatus :: "fed_context \<Rightarrow> string \<Rightarrow> string option" where
  "getFederatedDependencyStatus p taskId =
     (let i = normalizeClaimantTaskId taskId; row = map_of (fc_statuses p) i in
      if js_set_text row then row
      else Option.bind (fc_taskService p) (\<lambda>s. map_option ft_status (map_of (fs_tasks s) i)))"

definition federated_dependency_done :: "fed_context \<Rightarrow> string \<Rightarrow> bool" where
  "federated_dependency_done p i \<longleftrightarrow>
     getFederatedDependencyStatus p i = Some ''COMPLETE'' \<or> getFederatedDependencyStatus p i = Some ''VERIFIED''"

definition known_task_ids :: "fed_context \<Rightarrow> string list" where
  "known_task_ids p =
     js_uniq (map normalizeClaimantTaskId (case fc_taskService p of None \<Rightarrow> [] | Some s \<Rightarrow> fs_listed s)
       @ map (normalizeClaimantTaskId \<circ> fst) (fc_statuses p))"

text \<open>What one dependency leaves unresolved and what satisfies it.\<close>

definition dependency_of :: "fed_context \<Rightarrow> string \<Rightarrow> string list \<times> string list" where
  "dependency_of p raw =
     (let i = normalizeClaimantTaskId raw;
          subtasks = filter (\<lambda>k. js_starts_with k (i @ ''-'')) (known_task_ids p);
          incomplete = filter (\<lambda>k. \<not> federated_dependency_done p k) subtasks
      in if federated_dependency_done p i then ([], [i])
         else if subtasks \<noteq> [] then (if incomplete = [] then ([], subtasks) else (incomplete, []))
         else ([i], []))"

definition resolveFederatedDependencyState :: "fed_context \<Rightarrow> string list \<Rightarrow> string list \<times> string list" where
  "resolveFederatedDependencyState p raws =
     (let rs = map (dependency_of p) raws in
      (js_uniq (concat (map fst rs)), js_uniq (concat (map snd rs))))"

section \<open>The scheduling gate\<close>

text \<open>\<open>x.toFixed(1)\<close>: the nearest tenth, ties upwards.\<close>

definition to_fixed1 :: "rat \<Rightarrow> string" where
  "to_fixed1 x =
     (let n = nat \<lfloor>\<bar>x\<bar> * 10 + 1 / 2\<rfloor>
      in (if x < 0 then ''-'' else []) @ digits_text (n div 10) @ ''.'' @ digits_text (n mod 10))"

definition prep_passes :: "prep_result \<Rightarrow> bool" where
  "prep_passes prep \<longleftrightarrow>
     pp_schemaValid prep \<and> pp_depthReady prep \<and> 47 / 10 \<le> pp_depthScore prep \<and> pp_outcome prep \<noteq> ''rejected''"

definition preflight_passes :: "preflight_result \<Rightarrow> bool" where
  "preflight_passes pf \<longleftrightarrow> \<not> pf_gateSkipped pf \<and> pf_ready pf \<and> 47 / 10 \<le> pf_score pf"

definition readiness_gate :: "scheduling_options \<Rightarrow> readiness_state option \<Rightarrow> scheduling_failure option" where
  "readiness_gate options state =
     (let preflight = Option.bind state rd_admissionPreflight;
          prep = Option.bind state rd_admissionPrep;
          valid = (case state of None \<Rightarrow> True | Some s \<Rightarrow> rd_diagnosticPrepParses s);
          stale = (case state of None \<Rightarrow> False | Some s \<Rightarrow> rd_hasStalePrep s);
          reasons = (case state of None \<Rightarrow> [] | Some s \<Rightarrow> rd_staleReasons s);
          step = (\<lambda>d. if d then ''decompose'' else ''enrich_and_reprep'')
      in if valid \<and> \<not> stale \<and> (case prep of None \<Rightarrow> False | Some x \<Rightarrow> prep_passes x) then None
         else if (case preflight of None \<Rightarrow> False | Some x \<Rightarrow> preflight_passes x) then None
         else case (case preflight of Some pf \<Rightarrow> if pf_gateSkipped pf then None else Some pf | None \<Rightarrow> None) of
           Some pf \<Rightarrow> Some (handoff (''preflight_gate_failed:'' @ to_fixed1 (pf_score pf)) (step (pf_recommendDecomposition pf)) True)
         | None \<Rightarrow>
             if \<not> valid then Some (handoff ''preflight_gate_invalid'' ''reprep'' True)
             else case (case prep of Some x \<Rightarrow> if prep_passes x then None else Some x | None \<Rightarrow> None) of
               Some x \<Rightarrow> Some (handoff (''preflight_gate_failed:'' @ to_fixed1 (pp_depthScore x)) (step (pp_recommendDecomposition x)) True)
             | None \<Rightarrow>
                 if list_ex (\<lambda>r. r = ''schema_policy_stale'' \<or> r = ''readiness_mode_stale'') reasons
                 then Some (handoff ''preflight_gate_stale'' ''reprep'' True)
                 else if stale then Some (handoff ''preflight_gate_stale'' ''reprep'' True)
                 else if prep = None \<and> \<not> so_allowMissingPreflight options
                 then Some (handoff ''preflight_gate_missing'' ''prep_or_preflight'' True)
                 else None)"

definition dependency_gate ::
  "fed_context \<Rightarrow> scheduling_options \<Rightarrow> duplicate_claimant_index \<Rightarrow> fed_task \<Rightarrow> scheduling_failure option" where
  "dependency_gate p options index task =
     (if ft_blockedBy task = [] then None
      else let (unresolved, satisfiers) = resolveFederatedDependencyState p (ft_blockedBy task) in
        case duplicateIntegrityFailure index satisfiers of
          Some f \<Rightarrow> Some f
        | None \<Rightarrow>
            if unresolved \<noteq> [] \<and> \<not> so_bypassDependencyGate options
            then Some (handoff (BLOCKED_PREFIX @ js_join '','' unresolved) ''wait_for_dependencies'' True)
            else None)"

definition evaluateFederatedSchedulingGate ::
  "fed_context \<Rightarrow> federated_job \<Rightarrow> scheduling_options \<Rightarrow> duplicate_claimant_index \<Rightarrow> scheduling_failure option" where
  "evaluateFederatedSchedulingGate p record options index =
     (case duplicateIntegrityFailure index [fj_taskId record] of
        Some f \<Rightarrow> Some f
      | None \<Rightarrow>
          (case fc_taskService p of
             None \<Rightarrow> Some (handoff ''duplicate_claimants_unavailable:TaskService is unavailable for duplicate claimant scan.''
                             ''restore_task_service'' True)
           | Some s \<Rightarrow>
               (case map_of (fs_tasks s) (normalizeClaimantTaskId (fj_taskId record)) of
                  None \<Rightarrow> Some (handoff ''task_not_found'' ''fix_task_spec'' False)
                | Some task \<Rightarrow>
                    (case dependency_gate p options index task of
                       Some f \<Rightarrow> Some f
                     | None \<Rightarrow>
                         if fj_jobType record = JobDispatch \<and> \<not> so_allowLowPreflight options
                         then readiness_gate options (map_of (fc_readiness p) (fj_taskId record))
                         else None))))"

section \<open>Blocks that may heal\<close>

definition isUnstartedFederatedSchedulingBlock :: "federated_job \<Rightarrow> bool" where
  "isUnstartedFederatedSchedulingBlock job \<longleftrightarrow>
     fj_status job = FsBlocked \<and> \<not> js_set_text (fj_hostId job) \<and> fj_lease job = None \<and>
     \<not> js_set_text (fj_remoteSessionId job) \<and> \<not> js_set_stamp (fj_assignedAt job) \<and> fj_pendingGate job = None \<and>
     fj_pause job = None \<and> \<not> js_set_stamp (fj_completedAt job) \<and> \<not> js_set_text (fj_canceledBy job) \<and>
     \<not> js_set_text (fj_verificationWorkflowId job) \<and> fj_mergeBinding job = None \<and>
     (case fj_evidence job of None \<Rightarrow> True | Some e \<Rightarrow> e = [])"

definition GATE_FAILED_PREFIX :: string where
  "GATE_FAILED_PREFIX = ''preflight_gate_failed:''"

text \<open>The regular expression \<open>/^preflight_gate_failed:(?:[0-4]\.[0-9]|5\.0)$/\<close>.\<close>

definition gate_failed_error :: "string \<Rightarrow> bool" where
  "gate_failed_error e \<longleftrightarrow>
     js_starts_with e GATE_FAILED_PREFIX \<and>
     (case drop (length GATE_FAILED_PREFIX) e of
        [a, b, c] \<Rightarrow> a \<in> set ''01234'' \<and> b = CHR ''.'' \<and> js_digit c \<or> [a, b, c] = ''5.0''
      | _ \<Rightarrow> False)"

definition error_text :: "federated_job \<Rightarrow> string" where
  "error_text job = (case fj_error job of None \<Rightarrow> '''' | Some e \<Rightarrow> e)"

definition isRecoverableFederatedSchedulingBlock :: "federated_job \<Rightarrow> bool" where
  "isRecoverableFederatedSchedulingBlock job =
     (if \<not> isUnstartedFederatedSchedulingBlock job then False
      else if fj_blockReasonCode job = Some PendingManualHandoff \<and> fj_retryable job = Some True then
        fj_error job = Some ''preflight_gate_missing'' \<and> fj_nextAction job = Some ''prep_or_preflight'' \<or>
        error_text job \<in> {''preflight_gate_stale'', ''preflight_gate_invalid''} \<and> fj_nextAction job = Some ''reprep'' \<or>
        gate_failed_error (error_text job) \<and> fj_nextAction job \<in> {Some ''enrich_and_reprep'', Some ''decompose''} \<or>
        js_starts_with (error_text job) BLOCKED_PREFIX \<and> fj_nextAction job = Some ''wait_for_dependencies''
      else if fj_blockReasonCode job = Some HostUnhealthy then
        fj_error job = Some ''host_unhealthy'' \<and> fj_retryable job = Some True \<and> fj_nextAction job = Some ''wait_for_listener''
      else
        fj_blockReasonCode job = Some PendingRemoteListener \<and>
        (fj_retryable job = Some True \<and> fj_nextAction job = Some ''wait_for_listener'' \<and>
           error_text job \<in> {''preferred_host_unavailable'', ''host_unhealthy''} \<or>
         fj_error job = Some ''no_capable_listener'' \<and>
           map_of (fj_decision job) ''schedulerBlock'' = Some (JStr ''listener'')))"

definition isDependencyCompletionReleaseCandidate :: "federated_job \<Rightarrow> bool" where
  "isDependencyCompletionReleaseCandidate job =
     (if \<not> isUnstartedFederatedSchedulingBlock job \<or> federatedDependencyBlockers job = [] then False
      else if isRecoverableFederatedSchedulingBlock job then True
      else if fj_blockReasonCode job = Some PendingManualHandoff \<and> fj_retryable job = None \<and>
              fj_nextAction job = Some ''wait_for_dependencies'' \<and> js_starts_with (error_text job) BLOCKED_PREFIX
      then True
      else if fj_blockReasonCode job = Some PendingManualHandoff \<and>
              fj_nextAction job = Some ''resolve_duplicate_claimants'' \<and>
              (js_starts_with (error_text job) ''duplicate_claimants:'' \<or>
               js_starts_with (error_text job) ''duplicate_claimants_unavailable:'')
      then True
      else fj_blockReasonCode job = None \<and> fj_retryable job \<noteq> Some False \<and>
           (fj_error job = None \<or> error_starts job BLOCKED_PREFIX) \<and>
           fj_nextAction job \<in> {None, Some ''schedule'', Some ''wait_for_dependencies''})"

section \<open>Release after a completed dependency\<close>

definition decide :: "(string \<times> js_value) list \<Rightarrow> federated_job \<Rightarrow> (string \<times> js_value) list" where
  "decide kvs job = spread (fj_decision job) kvs"

definition foreign :: "fed_context \<Rightarrow> federated_job \<Rightarrow> bool" where
  "foreign p job \<longleftrightarrow> fj_projectId job \<noteq> None \<and> fj_projectId job \<noteq> fc_projectId p"

text \<open>Back to the queue: whatever bound the job to a host or a block is cleared.\<close>

definition requeued :: "string \<Rightarrow> (string \<times> js_value) list \<Rightarrow> millis \<Rightarrow> federated_job \<Rightarrow> federated_job" where
  "requeued action kvs now job =
     job\<lparr>fj_status := FsQueued, fj_hostId := None, fj_lease := None, fj_blockReasonCode := None,
       fj_error := None, fj_retryable := None, fj_nextAction := Some action, fj_queuedAt := Some (Iso now),
       fj_updatedAt := Iso now, fj_decision := decide kvs job\<rparr>"

definition with_failure :: "scheduling_failure \<Rightarrow> federated_job \<Rightarrow> federated_job" where
  "with_failure f job =
     job\<lparr>fj_blockReasonCode := Some (sf_blockReasonCode f), fj_error := Some (sf_error f),
       fj_nextAction := Some (sf_nextAction f), fj_retryable := Some (sf_retryable f)\<rparr>"

definition release_dependency ::
  "fed_context \<Rightarrow> string \<Rightarrow> duplicate_claimant_index option \<Rightarrow> millis \<Rightarrow> federated_job \<Rightarrow> federated_job option" where
  "release_dependency p completed supplied now current =
     (let done = normalizeClaimantTaskId completed;
          blockers = federatedDependencyBlockers current;
          index = (case supplied of Some (DciUnavailable r) \<Rightarrow> DciUnavailable r | _ \<Rightarrow> fc_claimants p)
      in if \<not> isDependencyCompletionReleaseCandidate current \<or> foreign p current then None
         else if done \<notin> set (map normalizeClaimantTaskId blockers) then None
         else case (case duplicateIntegrityFailure index [done] of
                      Some f \<Rightarrow> Some f
                    | None \<Rightarrow> evaluateFederatedSchedulingGate p current no_bypass index) of
           Some f \<Rightarrow> Some ((with_failure f current)\<lparr>fj_decision := decide [(''dependencyBlockers'', js_strs blockers)] current,
                             fj_updatedAt := Iso now\<rparr>)
         | None \<Rightarrow> Some (requeued ''schedule_after_dependency_verified''
               [(''dependencyBlockers'', JUndef),
                (''reason'', JStr (''Dependency '' @ completed @ '' verified; job released for scheduling.'')),
                (''unblockedBy'', JStr completed)] now current))"

section \<open>Automatic recheck\<close>

definition hosts_now :: "fed_context \<Rightarrow> millis \<Rightarrow> federated_job list \<Rightarrow> federated_host list" where
  "hosts_now p now jobs = defaultFederatedHosts now jobs (fc_registry p) (fc_remotes p)"

definition route_job ::
  "fed_context \<Rightarrow> millis \<Rightarrow> federated_job list \<Rightarrow> string option \<Rightarrow> federated_job \<Rightarrow> route_failure + route_assignment" where
  "route_job p now jobs preferred job =
     routeFederatedJob (fc_collate p)
       \<lparr>rr_jobType = fj_jobType job, rr_requiredCapabilities = fj_requiredCapabilities job,
        rr_preferredHostId = preferred, rr_hosts = hosts_now p now jobs\<rparr>"

definition recheck_block :: "fed_context \<Rightarrow> federated_job list \<Rightarrow> millis \<Rightarrow> federated_job \<Rightarrow> federated_job option" where
  "recheck_block p jobs now current =
     (if \<not> isRecoverableFederatedSchedulingBlock current \<or> foreign p current then None
      else case evaluateFederatedSchedulingGate p current no_bypass (fc_claimants p) of
        Some f \<Rightarrow>
          if fj_error current = Some (sf_error f) \<and> fj_blockReasonCode current = Some (sf_blockReasonCode f) \<and>
             fj_nextAction current = Some (sf_nextAction f) \<and> fj_retryable current = Some (sf_retryable f)
          then None else Some ((with_failure f current)\<lparr>fj_updatedAt := Iso now\<rparr>)
      | None \<Rightarrow>
          let route = route_job p now jobs (fj_preferredHostId current) current;
              queue = Some (requeued ''schedule_after_prerequisites_ready''
                [(''dependencyBlockers'', JUndef),
                 (''reason'', JStr ''Current task identity, readiness and prerequisites passed automatic recheck.'')] now current)
          in (case route of
                Inr a \<Rightarrow> queue
              | Inl f \<Rightarrow>
                  if rf_error f = ''host_at_capacity'' then queue
                  else let act = (if rf_retryable f then ''wait_for_listener'' else ''manual_handoff'') in
                    if fj_error current = Some (rf_error f) \<and> fj_blockReasonCode current = Some (rf_blockReasonCode f) \<and>
                       fj_nextAction current = Some act
                    then None
                    else Some (current\<lparr>fj_error := Some (rf_error f), fj_blockReasonCode := Some (rf_blockReasonCode f),
                           fj_retryable := Some (rf_retryable f), fj_nextAction := Some act,
                           fj_decision := js_map_set ''schedulerBlock'' (JStr ''listener'') (rf_fallback f),
                           fj_updatedAt := Iso now\<rparr>)))"

section \<open>Assignment\<close>

definition listener_block :: "route_failure \<Rightarrow> millis \<Rightarrow> federated_job \<Rightarrow> federated_job" where
  "listener_block f now record =
     record\<lparr>fj_status := FsBlocked, fj_retryable := Some (rf_retryable f),
       fj_blockReasonCode := Some (rf_blockReasonCode f), fj_error := Some (rf_error f),
       fj_decision := js_map_set ''schedulerBlock'' (JStr ''listener'') (rf_fallback f),
       fj_nextAction := Some (if rf_retryable f then ''wait_for_listener'' else ''manual_handoff''),
       fj_updatedAt := Iso now\<rparr>"

definition assigned_record ::
  "route_assignment \<Rightarrow> federated_lease \<Rightarrow> millis \<Rightarrow> federated_job \<Rightarrow> federated_job" where
  "assigned_record a lease now record =
     record\<lparr>fj_status := FsAssigned, fj_requiredCapabilities := ra_requiredCapabilities a,
       fj_hostId := Some (fh_id (ra_host a)), fj_fallbackUsed := Some (ra_fallbackUsed a),
       fj_retryable := None, fj_blockReasonCode := None, fj_error := None, fj_decision := ra_decision a,
       fj_lease := Some lease, fj_nextAction := Some (''run_'' @ job_type_name (fj_jobType record)),
       fj_assignedAt := Some (Iso now), fj_updatedAt := Iso now\<rparr>"

definition prepareFederatedAssignment ::
  "fed_context \<Rightarrow> scheduling_options \<Rightarrow> duplicate_claimant_index \<Rightarrow> federated_job list \<Rightarrow> millis
     \<Rightarrow> federated_job \<Rightarrow> federated_job option" where
  "prepareFederatedAssignment p options index jobs now record =
     (case evaluateFederatedSchedulingGate p record options index of
        Some f \<Rightarrow>
          Some ((with_failure f record)\<lparr>fj_status := FsBlocked,
                  fj_decision := decide [(''schedulerBlock'', JStr ''readiness'')] record, fj_updatedAt := Iso now\<rparr>)
      | None \<Rightarrow>
          (case route_job p now jobs (or_else (so_preferredHostId options) (fj_preferredHostId record)) record of
             Inl f \<Rightarrow>
               if rf_error f = ''host_at_capacity''
               then Some (record\<lparr>fj_status := FsQueued, fj_retryable := Some True, fj_blockReasonCode := None,
                      fj_error := None, fj_decision := rf_fallback f, fj_nextAction := Some ''wait_for_capacity'',
                      fj_updatedAt := Iso now\<rparr>)
               else Some (listener_block f now record)
           | Inr a \<Rightarrow>
               if \<not> fc_canDispatch p then None
               else map_option (\<lambda>l. assigned_record a l now record)
                 (createFederatedLease (fj_jobId record) (fh_id (ra_host a)) (Iso now)
                    (or_else (so_leaseTtlMs options) (fj_leaseTtlMs record)))))"

definition assign_update ::
  "fed_context \<Rightarrow> scheduling_options \<Rightarrow> duplicate_claimant_index option \<Rightarrow> federated_job list \<Rightarrow> millis
     \<Rightarrow> federated_job \<Rightarrow> federated_job option" where
  "assign_update p options index jobs now current =
     (if fj_status current \<noteq> FsQueued \<or> foreign p current \<or> \<not> fc_canDispatch p then None
      else prepareFederatedAssignment p options
             (case index of Some i \<Rightarrow> i | None \<Rightarrow> fc_claimants p) jobs now current)"

section \<open>Stale leases\<close>

definition staleLeaseCanAutoRetry :: "federated_job \<Rightarrow> bool" where
  "staleLeaseCanAutoRetry job =
     (if fj_status job \<noteq> FsAssigned then False
      else if js_set_text (fj_remoteSessionId job) then False
      else if 0 < (case fj_eventCount job of None \<Rightarrow> 0 | Some n \<Rightarrow> n) then False
      else if 0 < length (case fj_evidence job of None \<Rightarrow> [] | Some e \<Rightarrow> e) then False
      else if js_set_stamp (fj_lastEventAt job) \<or> js_set_text (fj_lastEventStage job) then False
      else True)"

definition manual_pause_recovery :: "millis \<Rightarrow> federated_job \<Rightarrow> federated_job" where
  "manual_pause_recovery now job =
     job\<lparr>fj_status := FsBlocked, fj_lease := None, fj_staleAt := Some (Iso now), fj_retryable := Some False,
       fj_blockReasonCode := Some PendingManualHandoff,
       fj_error := Some ''released_pause_original_host_unavailable'',
       fj_nextAction := Some ''recover_paused_worktree_on_original_host'',
       fj_pause := map_option (\<lambda>p. p\<lparr>ps_state := ManualRecovery, ps_recoveryReason :=
         Some ''Released pause or resume claim expired; worktree transfer requires explicit operator recovery.''\<rparr>) (fj_pause job),
       fj_decision := decide [(''staleRecoveryMode'', JStr ''manual_recovery''),
         (''staleRecoveryReason'', JStr ''Released pause expired without a completed resume handshake; automatic reassignment is unsafe.''),
         (''staleRecoveryRecoveredFromStatus'', JStr (federated_status_name (fj_status job)))] job,
       fj_updatedAt := Iso now\<rparr>"

definition recover_stale :: "duplicate_claimant_index \<Rightarrow> millis \<Rightarrow> federated_job \<Rightarrow> federated_job option" where
  "recover_stale index now job =
     (if releasedPauseNeedsRecovery job now then Some (manual_pause_recovery now job)
      else if \<not> federatedJobHoldsWorkerAttachment job \<or> \<not> leaseExpired job now then None
      else
        let retryCount = (case fj_retryCount job of None \<Rightarrow> 0 | Some n \<Rightarrow> n) + 1;
            budget = (retryCount \<le> (case fj_maxRetries job of None \<Rightarrow> 2 | Some n \<Rightarrow> n));
            can = (budget \<and> staleLeaseCanAutoRetry job);
            integrity = (if can then duplicateIntegrityFailure index [fj_taskId job] else None);
            admitted = (can \<and> integrity = None);
            reason = (case integrity of
                Some f \<Rightarrow> ''Lease expired before worker activity was observed, but requeue was refused: '' @ sf_error f
              | None \<Rightarrow>
                  if \<not> admitted then
                    (if budget then ''Lease expired after worker activity was observed; blocked for manual recovery to avoid duplicate execution.''
                     else ''Lease expired after retry budget was exhausted; manual recovery is required.'')
                  else ''Lease expired before worker activity was observed; job requeued for scheduler retry.'')
        in Some (job\<lparr>fj_status := (if admitted then FsQueued else FsBlocked),
             fj_hostId := (if admitted then None else fj_hostId job),
             fj_lease := None, fj_staleAt := Some (Iso now), fj_retryCount := Some retryCount,
             fj_retryable := Some (case integrity of Some f \<Rightarrow> sf_retryable f | None \<Rightarrow> admitted),
             fj_blockReasonCode := (if admitted then None else Some PendingManualHandoff),
             fj_error := (if admitted then None else Some (case integrity of
                 Some f \<Rightarrow> sf_error f
               | None \<Rightarrow> if budget then ''lease_expired_after_worker_activity'' else ''lease_expired_retry_budget_exhausted'')),
             fj_nextAction := Some (if admitted then ''reschedule_after_stale_lease'' else (case integrity of
                 Some f \<Rightarrow> sf_nextAction f
               | None \<Rightarrow> if budget then ''investigate_stale_worker'' else ''manual_handoff'')),
             fj_decision := decide
               [(''staleRecoveryMode'', JStr (if admitted then ''auto_retry'' else ''manual_recovery'')),
                (''staleRecoveryReason'', JStr reason),
                (''staleRecoveryRecoveredFromStatus'', JStr (federated_status_name (fj_status job)))] job,
             fj_updatedAt := Iso now\<rparr>))"

section \<open>Passes over the ledger\<close>

text \<open>
  One update per job of a list, each under the lock of its job: the records now on file of the jobs
  that changed, and the ledger. A refused job id cannot occur, the list being read from the ledger.
\<close>

fun each_job ::
  "(job_files \<Rightarrow> federated_job \<Rightarrow> federated_job option) \<Rightarrow> federated_job list \<Rightarrow> job_files
     \<Rightarrow> federated_job list \<times> job_files" where
  "each_job f [] files = ([], files)"
| "each_job f (j # js) files =
     (case updateFederatedJob (fj_jobId j) (f files) files of
        Inl e \<Rightarrow> each_job f js files
      | Inr ((record, changed), files') \<Rightarrow>
          let (rest, files'') = each_job f js files' in
          (case record of Some r \<Rightarrow> if changed then (r # rest, files'') else (rest, files'') | None \<Rightarrow> (rest, files'')))"

definition releaseFederatedDependencyBlocks ::
  "fed_context \<Rightarrow> string \<Rightarrow> duplicate_claimant_index option \<Rightarrow> millis \<Rightarrow> job_files \<Rightarrow> federated_job list \<times> job_files" where
  "releaseFederatedDependencyBlocks p completed supplied now files =
     (let candidates = filter (\<lambda>j. normalizeClaimantTaskId completed
            \<in> set (map normalizeClaimantTaskId (federatedDependencyBlockers j))) (listFederatedJobs files);
          (changed, files') = each_job (\<lambda>_. release_dependency p completed supplied now) candidates files
      in (filter (\<lambda>j. fj_status j = FsQueued) changed, files'))"

definition recoverStaleFederatedLeases ::
  "duplicate_claimant_index \<Rightarrow> millis \<Rightarrow> job_files \<Rightarrow> federated_job list \<times> job_files" where
  "recoverStaleFederatedLeases index now files = each_job (\<lambda>_. recover_stale index now) (listFederatedJobs files) files"

definition recheckRecoverableFederatedBlocks ::
  "fed_context \<Rightarrow> string option \<Rightarrow> millis \<Rightarrow> job_files \<Rightarrow> federated_job list \<times> job_files" where
  "recheckRecoverableFederatedBlocks p taskId now files =
     each_job (\<lambda>fs. recheck_block p (listFederatedJobs fs) now)
       (filter (\<lambda>j. isRecoverableFederatedSchedulingBlock j \<and>
          (js_set_text taskId \<longrightarrow> normalizeClaimantTaskId (fj_taskId j) = normalizeClaimantTaskId (the taskId)))
         (listFederatedJobs files)) files"

fun assign_each ::
  "fed_context \<Rightarrow> scheduling_options \<Rightarrow> duplicate_claimant_index \<Rightarrow> millis \<Rightarrow> federated_job list \<Rightarrow> job_files
     \<Rightarrow> federated_job list \<times> job_files" where
  "assign_each p options index now [] files = ([], files)"
| "assign_each p options index now (j # js) files =
     (let opts = options\<lparr>so_leaseTtlMs := or_else (so_leaseTtlMs options) (fj_leaseTtlMs j)\<rparr> in
      case updateFederatedJob (fj_jobId j) (assign_update p opts (Some index) (listFederatedJobs files) now) files of
        Inl e \<Rightarrow> assign_each p options index now js files
      | Inr ((record, changed), files') \<Rightarrow>
          let (rest, files'') = assign_each p options index now js files' in
          (case record of Some r \<Rightarrow> (r # rest, files'') | None \<Rightarrow> (rest, files'')))"

record tick_result =
  tk_recovered :: "federated_job list"
  tk_reconciled :: "federated_job list"
  tk_assigned :: "federated_job list"
  tk_blocked :: "federated_job list"
  tk_queuedRemaining :: nat
  tk_unavailable :: "string option"

text \<open>\<open>reconcile\<close> is the optional \<open>reconcileJobs\<close> dependency. \<open>collate\<close> orders time stamps.\<close>

definition runSwarmSchedulerTick ::
  "(iso_text \<Rightarrow> iso_text \<Rightarrow> int) \<Rightarrow> fed_context \<Rightarrow> scheduling_options
     \<Rightarrow> (job_files \<Rightarrow> federated_job list \<times> job_files) option \<Rightarrow> millis \<Rightarrow> job_files \<Rightarrow> tick_result \<times> job_files" where
  "runSwarmSchedulerTick collate p options reconcile now files =
     (let index = fc_claimants p;
          (recovered, files1) = recoverStaleFederatedLeases index now files;
          (reconciled, files2) = (case (index, reconcile) of
              (DciScanned _, Some r) \<Rightarrow> r files1 | _ \<Rightarrow> ([], files1));
          (rechecked, files3) = recheckRecoverableFederatedBlocks p None now files2;
          queue = sortFederatedQueue collate (filter (\<lambda>j. fj_status j = FsQueued) (listFederatedJobs files3));
          (updated, files4) = assign_each p options index now queue files3
      in (\<lparr>tk_recovered = recovered, tk_reconciled = reconciled,
           tk_assigned = filter (\<lambda>j. fj_status j = FsAssigned) updated,
           tk_blocked = filter (\<lambda>j. fj_status j = FsBlocked) recovered @ filter (\<lambda>j. fj_status j = FsBlocked) updated,
           tk_queuedRemaining = length (filter (\<lambda>j. fj_status j = FsQueued) (listFederatedJobs files4)),
           tk_unavailable = (case index of DciUnavailable r \<Rightarrow> Some r | DciScanned _ \<Rightarrow> None)\<rparr>, files4))"

definition maybeRunSwarmSchedulerRefill ::
  "(iso_text \<Rightarrow> iso_text \<Rightarrow> int) \<Rightarrow> fed_context \<Rightarrow> scheduling_options
     \<Rightarrow> (job_files \<Rightarrow> federated_job list \<times> job_files) option \<Rightarrow> millis \<Rightarrow> job_files \<Rightarrow> tick_result option \<times> job_files" where
  "maybeRunSwarmSchedulerRefill collate p options reconcile now files =
     (if list_ex (\<lambda>j. fj_status j = FsQueued \<or> isRecoverableFederatedSchedulingBlock j) (listFederatedJobs files)
      then let (r, files') = runSwarmSchedulerTick collate p options reconcile now files in (Some r, files')
      else (None, files))"

end
