(* ===== verification/Federation_Events.thy ===== *)
theory Federation_Events
  imports Federation_Pause
begin

text \<open>
  What workers and operators report on a job (\<open>src/monitor/routes/federation.ts\<close>): the event route,
  lease renewal and cancellation, each the function that runs under the lock of the job, on a payload
  that has passed the request schema. The block reason a worker sends is taken to be one of the codes.
\<close>

section \<open>Which status may follow which\<close>

fun allowedFederatedStatusTransitions :: "federated_status \<Rightarrow> federated_status list" where
  "allowedFederatedStatusTransitions FsQueued =
     [FsQueued, FsAssigned, FsRunning, FsVerifying, FsFixing, FsAwaitingApproval, FsCompleted, FsFailed,
      FsRejected, FsBlocked, FsCanceled]"
| "allowedFederatedStatusTransitions FsAssigned =
     [FsAssigned, FsRunning, FsVerifying, FsFixing, FsAwaitingApproval, FsCompleted, FsFailed, FsRejected,
      FsBlocked, FsCanceled]"
| "allowedFederatedStatusTransitions FsRunning =
     [FsRunning, FsVerifying, FsFixing, FsAwaitingApproval, FsCompleted, FsFailed, FsRejected, FsBlocked, FsCanceled]"
| "allowedFederatedStatusTransitions FsVerifying =
     [FsVerifying, FsFixing, FsAwaitingApproval, FsCompleted, FsFailed, FsRejected, FsBlocked, FsCanceled]"
| "allowedFederatedStatusTransitions FsFixing =
     [FsFixing, FsVerifying, FsAwaitingApproval, FsCompleted, FsFailed, FsRejected, FsBlocked, FsCanceled]"
| "allowedFederatedStatusTransitions FsAwaitingApproval =
     [FsAwaitingApproval, FsRunning, FsVerifying, FsFixing, FsCompleted, FsFailed, FsRejected, FsBlocked, FsCanceled]"
| "allowedFederatedStatusTransitions FsCompleted = [FsCompleted]"
| "allowedFederatedStatusTransitions FsFailed = [FsFailed]"
| "allowedFederatedStatusTransitions FsRejected = [FsRejected]"
| "allowedFederatedStatusTransitions FsBlocked = [FsBlocked]"
| "allowedFederatedStatusTransitions FsCanceled = [FsCanceled]"

definition assertFederatedStatusTransition :: "federated_status \<Rightarrow> federated_status \<Rightarrow> pause_error option" where
  "assertFederatedStatusTransition current requested =
     (if requested \<in> set (allowedFederatedStatusTransitions current) then None
      else Some (PauseError ''federated_status_regression''))"

section \<open>The event route\<close>

record relay_event =
  re_stage :: string
  re_sessionId :: "string option"

record event_body =
  eb_hostId :: "string option"
  eb_leaseId :: "string option"
  eb_status :: "federated_status option"
  eb_remoteSessionId :: "string option"
  eb_resumeSessionId :: "string option"
  eb_resumeStartedAt :: "iso_text option"
  eb_message :: "string option"
  eb_blockReasonCode :: "block_reason option"
  eb_pendingGate :: "pending_gate option"
  eb_pauseIdentity :: "pause_identity option"
  eb_resumeGrant :: "start_grant option"
  eb_branchName :: "string option"
  eb_commitSha :: "string option"
  eb_targetBranch :: "string option"
  eb_reviewId :: "string option"
  eb_verificationReviewId :: "string option"
  eb_autoMerge :: bool
  eb_canonicalSessionId :: "string option"
  eb_mergeTargetBranch :: "string option"
  eb_events :: "relay_event list"
  eb_evidence :: "js_value list"

definition requested :: "event_body \<Rightarrow> federated_job \<Rightarrow> federated_status" where
  "requested body base = (case eb_status body of None \<Rightarrow> fj_status base | Some s \<Rightarrow> s)"

text \<open>Who reports: the identity and the host must be those of the record.\<close>

definition event_identity_error :: "event_body \<Rightarrow> federated_job \<Rightarrow> pause_error option" where
  "event_identity_error body current =
     (if (case eb_pauseIdentity body of
            None \<Rightarrow> False
          | Some i \<Rightarrow> pi_jobId i \<noteq> fj_jobId current \<or> pi_taskId i \<noteq> fj_taskId current \<or>
                      pi_jobType i \<noteq> fj_jobType current \<or> Some (pi_hostId i) \<noteq> fj_hostId current)
      then Some (PauseError ''federated_pause_identity_mismatch'')
      else if js_set_text (fj_hostId current) \<and> js_set_text (eb_hostId body) \<and> eb_hostId body \<noteq> fj_hostId current
      then Some (PauseError ''federated_job_host_mismatch'')
      else if eb_status body \<noteq> None \<and> map_option ps_state (fj_pause current) = Some ManualRecovery
      then Some (PauseError ''federated_pause_manual_recovery'')
      else None)"

text \<open>The same pause occurrence, reported again after its lease was given back.\<close>

definition pause_receipt :: "event_body \<Rightarrow> federated_job \<Rightarrow> bool" where
  "pause_receipt body base \<longleftrightarrow>
     requested body base = FsAwaitingApproval \<and> fj_status base = FsAwaitingApproval \<and>
     (case (eb_pauseIdentity body, eb_pendingGate body, fj_pause base) of
        (Some i, Some g, Some p) \<Rightarrow>
          ps_state p \<in> {PauseReleased, ResumeRequested, ResumeClaimed, ApprovedButNotStarted} \<and>
          ps_sessionId p = pi_sessionId i \<and> ps_gate p = pg_stage g \<and> Some (ps_openedAt p) = pg_since g
      | _ \<Rightarrow> False)"

text \<open>A report on a finished job: \<open>None\<close> accepts it as a receipt.\<close>

definition terminal_report :: "event_body \<Rightarrow> federated_job \<Rightarrow> pause_error option" where
  "terminal_report body base =
     (if eb_status body \<noteq> None \<and> requested body base \<noteq> fj_status base
      then Some (PauseError ''federated_status_regression'')
      else if consumed (stored_grant base) \<and>
              (case eb_resumeGrant body of
                 None \<Rightarrow> True
               | Some g \<Rightarrow> \<not> exactFederatedResumeTerminalReceiptMatches g (eb_resumeSessionId body) base)
      then Some (PauseError ''federated_resume_grant_mismatch'')
      else None)"

text \<open>A report that moves the job: the transition, the lease epoch and the pause epoch it needs.\<close>

definition moving_error :: "millis \<Rightarrow> event_body \<Rightarrow> federated_job \<Rightarrow> pause_error option" where
  "moving_error nowMs body base =
     (case (if eb_status body = None then None else assertFederatedStatusTransition (fj_status base) (requested body base)) of
        Some e \<Rightarrow> Some e
      | None \<Rightarrow>
          if eb_status body \<noteq> None \<and> requested body base \<in> {FsAssigned, FsRunning, FsVerifying, FsFixing} \<and>
             fj_pause base = None \<and> fj_lease base = None
          then Some (PauseError ''federated_lease_epoch_required'')
          else if requested body base = FsAwaitingApproval \<and>
             (case eb_pauseIdentity body of
                None \<Rightarrow> False
              | Some i \<Rightarrow>
                  fj_remoteSessionId base \<noteq> Some (pi_sessionId i) \<or>
                  (case fj_lease base of
                     None \<Rightarrow> True
                   | Some l \<Rightarrow> Some (ls_leaseId l) \<noteq> eb_leaseId body \<or> ls_hostId l \<noteq> pi_hostId i \<or>
                               \<not> ms_less (Some nowMs) (date_parse (ls_expiresAt l))))
          then Some (PauseError ''federated_pause_epoch_mismatch'')
          else None)"

text \<open>Leaving a pause: only with its grant.\<close>

definition resume_step :: "millis \<Rightarrow> event_body \<Rightarrow> federated_job \<Rightarrow> pause_error + federated_job" where
  "resume_step nowMs body base =
     (case eb_resumeGrant body of
        Some grant \<Rightarrow>
          let status = requested body base; already = consumed (stored_grant base) in
          if eb_status body = None \<or> status = FsAwaitingApproval \<or> fj_pause base = None
          then Inl (PauseError ''invalid_federated_resume_status'')
          else if already \<and> terminalFederatedStatus (fj_status base) \<and> status \<noteq> fj_status base
          then Inl (PauseError ''federated_resume_status_regression'')
          else if already \<and> (fj_status base = FsRunning \<and> status = FsAssigned \<or>
                  fj_status base \<in> {FsVerifying, FsFixing} \<and> status \<in> {FsAssigned, FsRunning})
          then Inl (PauseError ''federated_resume_status_regression'')
          else if status = FsRejected \<and>
                  (\<not> already \<or> \<not> js_set_text (Option.bind (stored_grant base) sgr_resumedSessionId))
          then transitionFederatedResumeTerminal grant (eb_resumeStartedAt body) (Iso nowMs) base
          else if \<not> js_set_text (eb_resumeSessionId body) then Inl (PauseError ''federated_resume_session_required'')
          else if \<not> already \<and> status \<noteq> FsRunning then Inl (PauseError ''federated_resume_running_required'')
          else transitionFederatedResumeRunning grant (the (eb_resumeSessionId body)) (eb_resumeStartedAt body)
                 (Iso nowMs) base
      | None \<Rightarrow>
          if eb_status body \<noteq> None \<and> fj_pause base \<noteq> None \<and> requested body base \<noteq> FsAwaitingApproval
          then Inl (PauseError ''federated_resume_grant_required'') else Inr base)"

section \<open>The new record\<close>

definition event_lease :: "millis \<Rightarrow> event_body \<Rightarrow> federated_status \<Rightarrow> federated_job \<Rightarrow> federated_lease option" where
  "event_lease nowMs body status base =
     (if eb_status body = None \<or>
         status = FsAwaitingApproval \<and> fj_pause base \<noteq> None \<and> \<not> federatedJobHoldsWorkerAttachment base
      then fj_lease base
      else if js_set_text (or_else (eb_hostId body) (fj_hostId base)) \<and> holdsWorkerAttachment status
      then map_option (\<lambda>l. l\<lparr>ls_expiresAt :=
             Iso (nowMs + (case fj_leaseTtlMs base of None \<Rightarrow> 30 * 60 * 1000 | Some t \<Rightarrow> t))\<rparr>) (fj_lease base)
      else None)"

definition event_next_action :: "event_body \<Rightarrow> federated_status \<Rightarrow> pending_gate option \<Rightarrow> federated_job \<Rightarrow> string option" where
  "event_next_action body status gate base =
     (if eb_status body = None then fj_nextAction base
      else Some
        (if status = FsAwaitingApproval
         then ''decide_'' @ (case gate of None \<Rightarrow> ''human'' | Some g \<Rightarrow> gate_stage_name (pg_stage g))
                @ ''_gate:'' @ fj_taskId base
         else if status = FsRunning \<and> eb_resumeGrant body \<noteq> None then ''run_'' @ job_type_name (fj_jobType base)
         else if status = FsFailed then ''investigate_failed_worker''
         else if status = FsRejected \<or> status = FsBlocked then ''manual_handoff''
         else if status = FsCanceled then ''canceled''
         else (case fj_nextAction base of None \<Rightarrow> ''run_'' @ job_type_name (fj_jobType base) | Some a \<Rightarrow> a)))"

definition publication_conflict :: "event_body \<Rightarrow> federated_job \<Rightarrow> bool" where
  "publication_conflict body base \<longleftrightarrow>
     (let differs = (\<lambda>norm existing reported. js_set_text existing \<and> js_set_text reported \<and>
                        norm (the existing) \<noteq> (norm (the reported) :: string))
      in differs (\<lambda>s. s) (fj_branchName base) (eb_branchName body) \<or>
         differs js_to_lower (fj_commitSha base) (eb_commitSha body) \<or>
         differs (\<lambda>s. s) (fj_targetBranch base) (or_else (eb_mergeTargetBranch body) (eb_targetBranch body)))"

definition event_record :: "millis \<Rightarrow> event_body \<Rightarrow> federated_job \<Rightarrow> federated_job" where
  "event_record nowMs body base =
     (let status = requested body base;
          gate = (if status = FsAwaitingApproval then or_else (eb_pendingGate body) (fj_pendingGate base) else None)
      in base\<lparr>
        fj_status := status,
        fj_hostId := or_else (eb_hostId body) (fj_hostId base),
        fj_remoteSessionId := or_else (eb_resumeSessionId body) (or_else (eb_canonicalSessionId body)
          (or_else (eb_remoteSessionId body)
             (or_else (Option.bind (List.find (\<lambda>e. js_set_text (re_sessionId e)) (eb_events body)) re_sessionId)
                (fj_remoteSessionId base)))),
        fj_branchName := or_else (fj_branchName base) (eb_branchName body),
        fj_commitSha := or_else (fj_commitSha base) (eb_commitSha body),
        fj_targetBranch := or_else (fj_targetBranch base) (or_else (eb_mergeTargetBranch body) (eb_targetBranch body)),
        fj_reviewId := or_else (eb_reviewId body) (or_else (eb_verificationReviewId body) (fj_reviewId base)),
        fj_autoMerge := (if eb_autoMerge body then Some True else fj_autoMerge base),
        fj_blockReasonCode := (if status = FsBlocked then or_else (eb_blockReasonCode body) (fj_blockReasonCode base) else None),
        fj_pendingGate := gate,
        fj_error := (if status \<in> {FsFailed, FsRejected, FsBlocked} then or_else (eb_message body) (fj_error base)
                     else fj_error base),
        fj_nextAction := event_next_action body status gate base,
        fj_lastEventAt := Some (Iso nowMs),
        fj_lastEventStage := (if eb_events body = [] then fj_lastEventStage base else Some (re_stage (last (eb_events body)))),
        fj_eventCount := Some ((case fj_eventCount base of None \<Rightarrow> 0 | Some n \<Rightarrow> n) + int (length (eb_events body))
          + (if eb_status body \<noteq> None then 1 else 0) + int (length (eb_evidence body))),
        fj_evidence := (if eb_evidence body \<noteq> []
          then Some ((case fj_evidence base of None \<Rightarrow> [] | Some e \<Rightarrow> e) @ eb_evidence body) else fj_evidence base),
        fj_completedAt := (if eb_status body \<noteq> None \<and> terminalFederatedStatus status
          then Some (case fj_completedAt base of None \<Rightarrow> Iso nowMs | Some t \<Rightarrow> t) else fj_completedAt base),
        fj_lease := event_lease nowMs body status base,
        fj_updatedAt := Iso nowMs\<rparr>)"

definition event_update ::
  "string option \<Rightarrow> millis \<Rightarrow> string \<Rightarrow> event_body \<Rightarrow> federated_job \<Rightarrow> pause_error + federated_job" where
  "event_update projectId nowMs nonce body base =
     (if eb_status body \<noteq> None \<and> holdsWorkerAttachment (requested body base) \<and>
         (case fj_lease base of None \<Rightarrow> False | Some l \<Rightarrow> \<not> ms_less (Some nowMs) (date_parse (ls_expiresAt l)))
      then Inl (PauseError ''federated_lease_expired'')
      else if publication_conflict body base then Inl (PauseError ''federated_publication_identity_mismatch'')
      else let nextRecord = event_record nowMs body base in
        case (eb_pauseIdentity body, fj_pendingGate nextRecord) of
          (Some i, Some gate) \<Rightarrow>
            if fj_status nextRecord = FsAwaitingApproval
            then transitionFederatedPause (i\<lparr>pi_projectId := projectId\<rparr>) gate (Iso nowMs) nonce nextRecord
            else Inr nextRecord
        | _ \<Rightarrow> Inr nextRecord)"

text \<open>The whole update: the new record, or the record itself for a receipt that changes nothing.\<close>

definition worker_event ::
  "string option \<Rightarrow> millis \<Rightarrow> string \<Rightarrow> event_body \<Rightarrow> federated_job \<Rightarrow> pause_error + federated_job" where
  "worker_event projectId nowMs nonce body current =
     (case event_identity_error body current of
        Some e \<Rightarrow> Inl e
      | None \<Rightarrow>
          if pause_receipt body current then Inr current
          else if terminalFederatedStatus (fj_status current) then
            (case terminal_report body current of Some e \<Rightarrow> Inl e | None \<Rightarrow> Inr current)
          else (case moving_error nowMs body current of
                  Some e \<Rightarrow> Inl e
                | None \<Rightarrow>
                    (case resume_step nowMs body current of
                       Inl e \<Rightarrow> Inl e
                     | Inr base \<Rightarrow> event_update projectId nowMs nonce body base)))"

section \<open>Renewal and cancellation\<close>

definition renew_lease ::
  "string option \<Rightarrow> string \<Rightarrow> string \<Rightarrow> int option \<Rightarrow> millis \<Rightarrow> federated_job \<Rightarrow> pause_error + federated_job" where
  "renew_lease projectId hostId leaseId ttl nowMs current =
     (if fj_status current = FsAwaitingApproval \<and>
         (case fj_pause current of None \<Rightarrow> False
          | Some p \<Rightarrow> ps_state p \<notin> {PauseAttached, ResumeClaimed, ApprovedButNotStarted})
      then Inl (PauseError ''federated_pause_released'')
      else case fj_lease current of
        None \<Rightarrow> Inl (PauseError ''federated_lease_epoch_mismatch'')
      | Some lease \<Rightarrow>
          if fj_hostId current \<noteq> Some hostId \<or> ls_hostId lease \<noteq> hostId \<or> ls_leaseId lease \<noteq> leaseId
          then Inl (PauseError ''federated_lease_epoch_mismatch'')
          else if \<not> ms_less (Some nowMs) (date_parse (ls_expiresAt lease))
          then Inl (PauseError ''federated_lease_expired'')
          else if terminalFederatedStatus (fj_status current) then Inl (PauseError ''federated_job_terminal'')
          else if \<not> federatedJobHoldsWorkerAttachment current then Inl (PauseError ''federated_job_not_attached'')
          else let ttlMs = max 1 (case ttl of Some t \<Rightarrow> t
                 | None \<Rightarrow> (case fj_leaseTtlMs current of Some t \<Rightarrow> t | None \<Rightarrow> 30 * 60 * 1000))
               in Inr (current\<lparr>fj_projectId := or_else (fj_projectId current) projectId,
                    fj_lease := Some (lease\<lparr>ls_expiresAt := Iso (nowMs + ttlMs)\<rparr>),
                    fj_nextAction := Some (case fj_nextAction current of Some a \<Rightarrow> a
                                           | None \<Rightarrow> ''run_'' @ job_type_name (fj_jobType current)),
                    fj_updatedAt := Iso nowMs\<rparr>))"

definition cancel_job :: "string option \<Rightarrow> string \<Rightarrow> millis \<Rightarrow> federated_job \<Rightarrow> pause_error + federated_job" where
  "cancel_job projectId tokenId nowMs current =
     (if fj_mergeStatus current = Some MergePublishing then Inl (PauseError ''federated_publication_in_progress'')
      else if fj_mergeStatus current = Some MergeMerged then Inl (PauseError ''federated_publication_committed'')
      else if fj_status current = FsCanceled then Inr current
      else Inr (current\<lparr>fj_projectId := or_else (fj_projectId current) projectId,
             fj_status := FsCanceled, fj_canceledBy := Some tokenId, fj_updatedAt := Iso nowMs\<rparr>))"

end
