(* ===== verification/Federation_Samples.thy ===== *)
theory Federation_Samples
  imports Federation_Scheduling Federation_Events
begin

text \<open>
  A small federation used as a concrete instance: one project with two tasks whose preparation passes,
  one listener with room for one job, and jobs queued for it.
\<close>

definition sample_job :: "string \<Rightarrow> string \<Rightarrow> federated_job" where
  "sample_job i task =
     \<lparr>fj_projectId = Some ''p'', fj_jobId = i, fj_taskId = task, fj_jobType = JobDispatch, fj_status = FsQueued,
      fj_correlationId = i, fj_requiredCapabilities = [''dispatch''], fj_parentJobId = None, fj_priority = None,
      fj_priorityLabel = None, fj_preferredHostId = None, fj_hostId = None, fj_fallbackUsed = None,
      fj_retryable = None, fj_blockReasonCode = None, fj_error = None, fj_decision = [], fj_lease = None,
      fj_leaseTtlMs = None, fj_remoteSessionId = None, fj_branchName = None, fj_commitSha = None,
      fj_targetBranch = None, fj_lastEventAt = None, fj_lastEventStage = None, fj_eventCount = None,
      fj_evidence = None, fj_retryCount = Some 0, fj_maxRetries = Some 2, fj_nextAction = Some ''schedule'',
      fj_queuedAt = Some (Iso 0), fj_assignedAt = None, fj_staleAt = None, fj_completedAt = None,
      fj_reviewId = None, fj_verificationWorkflowId = None, fj_autoMerge = None, fj_skipDecomposeCheck = None,
      fj_mergeStatus = None, fj_mergeBinding = None, fj_pendingGate = None, fj_pause = None,
      fj_createdAt = Iso 0, fj_updatedAt = Iso 0, fj_canceledBy = None, fj_provenance = None, fj_other = []\<rparr>"

definition sample_listener :: "string \<Rightarrow> bool \<Rightarrow> listener_record" where
  "sample_listener h healthy =
     \<lparr>fh_id = h, fh_capabilities = [''dispatch''], fh_enabled = True, fh_healthy = healthy,
      fh_lastHealthCheckAt = Some (Iso 0), fh_currentLoad = Some 0, fh_maxConcurrentJobs = Some 1,
      fh_projectPaths = None, fh_metadata = None, fh_fields = [],
      lr_registeredAt = Iso 0, lr_updatedAt = Iso 0, lr_registeredBy = Some ''tok''\<rparr>"

definition sample_readiness :: readiness_state where
  "sample_readiness =
     \<lparr>rd_admissionPreflight = None,
      rd_admissionPrep = Some \<lparr>pp_schemaValid = True, pp_depthReady = True, pp_depthScore = 5,
        pp_outcome = ''ready'', pp_recommendDecomposition = False\<rparr>,
      rd_hasStalePrep = False, rd_staleReasons = [], rd_diagnosticPrepParses = True\<rparr>"

definition sample_context :: "bool \<Rightarrow> fed_context" where
  "sample_context healthy =
     \<lparr>fc_projectId = Some ''p'',
      fc_taskService = Some \<lparr>fs_listed = [''TASK-1'', ''TASK-2''],
        fs_tasks = [(''TASK-1'', \<lparr>ft_blockedBy = [], ft_status = ''READY''\<rparr>),
                    (''TASK-2'', \<lparr>ft_blockedBy = [], ft_status = ''READY''\<rparr>)]\<rparr>,
      fc_statuses = [], fc_readiness = [(''TASK-1'', sample_readiness), (''TASK-2'', sample_readiness)],
      fc_claimants = DciScanned [],
      fc_registry = \<lparr>rs_records = [sample_listener ''h1'' healthy], rs_issues = [], rs_unavailable = False,
        rs_reservedHostIds = [''h1'']\<rparr>,
      fc_remotes = None, fc_canDispatch = True, fc_collate = code_unit_compare\<rparr>"

definition sample_ledger :: job_files where
  "sample_ledger =
     [(''fed-1'', Some (sample_job ''fed-1'' ''TASK-1'')), (''fed-2'', Some (sample_job ''fed-2'' ''TASK-2''))]"

definition stamp_order :: "iso_text \<Rightarrow> iso_text \<Rightarrow> int" where
  "stamp_order a b = (case (date_parse a, date_parse b) of (Some x, Some y) \<Rightarrow> x - y | _ \<Rightarrow> 0)"

end
