(* ===== verification/Federation_Capacity.thy ===== *)
theory Federation_Capacity
  imports Federation_Samples
begin

text \<open>
  The scheduler and the capacity of the hosts: how one update of the ledger changes the number of jobs
  attached to a host, and what a tick, run alone, keeps.
\<close>

section \<open>One update\<close>

lemma map_filter_update:
  assumes "distinct ks" and "k \<in> set ks" and "f k = Some old" and "\<And>i. g i = (if i = k then Some new else f i)"
    and "\<And>i x. i \<in> set ks \<Longrightarrow> f i = Some x \<Longrightarrow> ident x = i"
  shows "List.map_filter g ks = map (\<lambda>x. if ident x = k then new else x) (List.map_filter f ks)"
  using assms(1,2,5)
proof (induction ks)
  case Nil
  then show ?case by simp
next
  case (Cons a ks)
  show ?case
  proof (cases "a = k")
    case True
    then have "k \<notin> set ks" using Cons.prems(1) by simp
    then have *: "List.map_filter g ks = List.map_filter f ks"
      using assms(4) by (induction ks) (auto split: option.splits)
    have id: "x \<in> set (List.map_filter f ks) \<Longrightarrow> ident x \<noteq> k" for x
      using Cons.prems(3) \<open>k \<notin> set ks\<close> by (auto simp: in_map_filter)
    have "map (\<lambda>x. if ident x = k then new else x) (List.map_filter f ks) = List.map_filter f ks"
      using id by (simp add: map_idI)
    then show ?thesis using True * assms(3) assms(4) [of k] Cons.prems(3) [of k old] by simp
  next
    case False
    then have "k \<in> set ks" using Cons.prems(2) by simp
    then have IH: "List.map_filter g ks = map (\<lambda>x. if ident x = k then new else x) (List.map_filter f ks)"
      using Cons by simp
    show ?thesis using False IH assms(4) [of a] Cons.prems(3) by (auto split: option.splits)
  qed
qed

definition directory :: "job_files \<Rightarrow> bool" where
  "directory files \<longleftrightarrow> distinct (js_map_keys files)"

lemma list_persist:
  assumes "directory files" and "loadFederatedJob files (fj_jobId next) = Some old"
  shows "listFederatedJobs (persistFederatedJob next files) =
           map (\<lambda>j. if fj_jobId j = fj_jobId next then next else j) (listFederatedJobs files)"
proof -
  have safe: "isSafeFederatedJobId (fj_jobId next)" using assms(2) load_id by blast
  have key: "fj_jobId next \<in> set (js_map_keys files)" using loaded_key [OF assms(2)] .
  then have "js_map_keys (persistFederatedJob next files) = js_map_keys files"
    by (simp add: persistFederatedJob_def js_map.keys_put_present)
  then show ?thesis
    unfolding listFederatedJobs_def
    by (simp only:)
      (rule map_filter_update [where old = old], use assms key in \<open>auto simp: directory_def load_persist [OF safe] dest: load_id\<close>)
qed

lemma distinct_listed_ids: "directory files \<Longrightarrow> distinct (map fj_jobId (listFederatedJobs files))"
proof -
  assume d: "directory files"
  have "distinct ks \<Longrightarrow> (\<And>i x. i \<in> set ks \<Longrightarrow> f i = Some x \<Longrightarrow> fj_jobId x = i) \<Longrightarrow>
     distinct (map fj_jobId (List.map_filter f ks))" for ks and f :: "string \<Rightarrow> federated_job option"
  proof (induction ks)
    case (Cons a ks)
    have "f a = Some x \<Longrightarrow> fj_jobId x \<notin> fj_jobId ` set (List.map_filter f ks)" for x
      using Cons.prems by (auto simp: in_map_filter) (metis Cons.prems(2) list.set_intros)
    then show ?case using Cons by (auto split: option.splits)
  qed simp
  then show ?thesis using d by (simp add: listFederatedJobs_def directory_def load_id)
qed

lemma directory_persist: "directory files \<Longrightarrow> directory (persistFederatedJob job files)"
  by (simp add: directory_def persistFederatedJob_def js_map.distinct_put)

text \<open>Replacing one element of a list with distinct keys.\<close>

lemma count_replaced:
  assumes "distinct (map f xs)" and "old \<in> set xs" and "f old = k"
  shows "length (filter P (map (\<lambda>x. if f x = k then new else x) xs)) + (if P old then 1 else 0) =
           length (filter P xs) + (if P new then 1 else 0)"
  using assms
proof (induction xs)
  case Nil
  then show ?case by simp
next
  case (Cons x xs)
  show ?case
  proof (cases "x = old")
    case True
    then have "f y \<noteq> k" if "y \<in> set xs" for y using Cons.prems that by (auto simp: image_iff)
    then have "map (\<lambda>x. if f x = k then new else x) xs = xs" by (simp add: map_idI)
    then show ?thesis using True Cons.prems(3) by simp
  next
    case False
    then have "f x \<noteq> k" using Cons.prems by (auto simp: image_iff)
    then show ?thesis using Cons False by auto
  qed
qed

lemma count_persist:
  assumes "directory files" and "loadFederatedJob files (fj_jobId next) = Some old"
  shows "active_count now (listFederatedJobs (persistFederatedJob next files)) h + (if occupies now h old then 1 else 0) =
           active_count now (listFederatedJobs files) h + (if occupies now h next then 1 else 0)"
  unfolding active_count_def list_persist [OF assms]
  using load_id [OF assms(2)] assms(2)
  by (intro count_replaced distinct_listed_ids assms(1)) (simp_all add: in_listFederatedJobs)

text \<open>An update either leaves the ledger or writes one record.\<close>

lemma update_cases:
  assumes "updateFederatedJob jobId f files = Inr ((record, changed), files')"
  obtains (same) "files' = files"
  | (wrote) old new where "loadFederatedJob files jobId = Some old" "f old = Some new" "fj_jobId new = jobId"
      "files' = persistFederatedJob new files"
proof (cases "loadFederatedJob files jobId")
  case None
  then show ?thesis using assms same by (auto simp: updateFederatedJob_def split: if_splits)
next
  case (Some old)
  show ?thesis
  proof (cases "f old")
    case None
    then show ?thesis using assms Some same by (auto simp: updateFederatedJob_def split: if_splits)
  next
    case (Some new)
    have "fj_jobId new = jobId" "files' = persistFederatedJob new files"
      using assms Some \<open>loadFederatedJob files jobId = Some old\<close>
      by (auto simp: updateFederatedJob_def assertFederatedJobIdentity_def split: if_splits)
    then show ?thesis using wrote Some \<open>loadFederatedJob files jobId = Some old\<close> by blast
  qed
qed

section \<open>What a step may do to the load\<close>

definition load_within :: "fed_context \<Rightarrow> millis \<Rightarrow> job_files \<Rightarrow> job_files \<Rightarrow> bool" where
  "load_within p now files files' \<longleftrightarrow>
     (\<forall>h. active_count now (listFederatedJobs files') h \<le> active_count now (listFederatedJobs files) h \<or>
        (\<exists>x \<in> set (hosts_now p now []). fh_id x = h \<and>
           int (active_count now (listFederatedJobs files') h) \<le> the (fh_maxConcurrentJobs x)))"

lemma within_refl [simp]: "load_within p now files files"
  by (simp add: load_within_def)

lemma within_trans:
  assumes "load_within p now a b" and "load_within p now b c"
  shows "load_within p now a c"
  unfolding load_within_def
proof
  fix h
  let ?n = "\<lambda>fs. active_count now (listFederatedJobs fs) h"
  let ?cap = "\<lambda>n. \<exists>x \<in> set (hosts_now p now []). fh_id x = h \<and> int n \<le> the (fh_maxConcurrentJobs x)"
  have ab: "?n b \<le> ?n a \<or> ?cap (?n b)" and bc: "?n c \<le> ?n b \<or> ?cap (?n c)"
    using assms by (simp_all add: load_within_def)
  have mono: "?cap n \<Longrightarrow> m \<le> n \<Longrightarrow> ?cap m" for m n :: nat
    by (meson of_nat_mono order_trans)
  show "?n c \<le> ?n a \<or> ?cap (?n c)"
    using ab bc mono [of "?n b" "?n c"] by linarith
qed

lemma within_persist:
  assumes "directory files" and "loadFederatedJob files (fj_jobId new) = Some old"
    and "\<And>h. occupies now h new \<Longrightarrow> \<not> occupies now h old \<Longrightarrow>
           \<exists>x \<in> set (hosts_now p now []). fh_id x = h \<and>
             int (active_count now (listFederatedJobs files) h) < the (fh_maxConcurrentJobs x)"
  shows "load_within p now files (persistFederatedJob new files)"
  unfolding load_within_def
proof (intro allI)
  fix h
  note c = count_persist [OF assms(1,2), of now h]
  show "active_count now (listFederatedJobs (persistFederatedJob new files)) h \<le> active_count now (listFederatedJobs files) h \<or>
        (\<exists>x \<in> set (hosts_now p now []). fh_id x = h \<and>
           int (active_count now (listFederatedJobs (persistFederatedJob new files)) h) \<le> the (fh_maxConcurrentJobs x))"
    using c assms(3) [of h] by (auto split: if_splits)
qed

lemma capacity_of_hosts:
  "x \<in> set (hosts_now p now jobs) \<Longrightarrow>
     \<exists>y \<in> set (hosts_now p now []). fh_id y = fh_id x \<and> fh_maxConcurrentJobs y = fh_maxConcurrentJobs x"
  by (force simp: hosts_now_def defaultFederatedHosts_def applyActiveFederatedLeases_def Let_def)

section \<open>The passes of a tick\<close>

text \<open>An update that attaches nothing new.\<close>

definition quiet :: "millis \<Rightarrow> (federated_job \<Rightarrow> federated_job option) \<Rightarrow> bool" where
  "quiet now f \<longleftrightarrow> (\<forall>j j' h. f j = Some j' \<longrightarrow> occupies now h j' \<longrightarrow> occupies now h j)"

lemma quiet_update:
  assumes "quiet now f" and "directory files" and "updateFederatedJob i f files = Inr ((record, changed), files')"
  shows "load_within p now files files' \<and> directory files'"
  using assms(3)
proof (cases rule: update_cases)
  case same
  then show ?thesis using assms(2) by simp
next
  case (wrote old new)
  then show ?thesis
    using assms(1,2) by (auto simp: quiet_def intro!: within_persist directory_persist)
qed

lemma quiet_each_job:
  assumes "\<And>fs. quiet now (f fs)" and "directory files"
  shows "load_within p now files (snd (each_job f js files)) \<and> directory (snd (each_job f js files))"
  using assms(2)
proof (induction js arbitrary: files)
  case Nil
  then show ?case by simp
next
  case (Cons j js)
  show ?case
  proof (cases "updateFederatedJob (fj_jobId j) (f files) files")
    case (Inl e)
    then show ?thesis using Cons by simp
  next
    case (Inr r)
    then obtain rec ch files' where r: "updateFederatedJob (fj_jobId j) (f files) files = Inr ((rec, ch), files')"
      by (metis surj_pair)
    note q = quiet_update [OF assms(1) Cons.prems r]
    with Cons.IH [of files'] have "load_within p now files (snd (each_job f js files')) \<and> directory (snd (each_job f js files'))"
      using within_trans by blast
    then show ?thesis using r by (auto simp: Let_def split: prod.split option.split)
  qed
qed

lemma occupies_blocked: "fj_status j = FsBlocked \<Longrightarrow> \<not> occupies now h j"
  by (simp add: occupies_def federatedJobHoldsWorkerAttachment_def holdsWorkerAttachment_def workerAttachedFederatedStatuses_def)

lemma occupies_no_host: "fj_hostId j = None \<Longrightarrow> \<not> occupies now h j"
  by (simp add: occupies_def)

text \<open>The recovery of one stale lease, with its verdict named.\<close>

definition stale_budget :: "federated_job \<Rightarrow> bool" where
  "stale_budget job \<longleftrightarrow>
     (case fj_retryCount job of None \<Rightarrow> 0 | Some n \<Rightarrow> n) + 1 \<le> (case fj_maxRetries job of None \<Rightarrow> 2 | Some n \<Rightarrow> n)"

definition stale_admitted :: "duplicate_claimant_index \<Rightarrow> federated_job \<Rightarrow> bool" where
  "stale_admitted index job \<longleftrightarrow>
     stale_budget job \<and> staleLeaseCanAutoRetry job \<and> duplicateIntegrityFailure index [fj_taskId job] = None"

lemma recover_stale_outcome:
  assumes "\<not> releasedPauseNeedsRecovery job now" and "federatedJobHoldsWorkerAttachment job" and "leaseExpired job now"
  obtains j' where "recover_stale index now job = Some j'"
    "fj_status j' = (if stale_admitted index job then FsQueued else FsBlocked)"
    "fj_hostId j' = (if stale_admitted index job then None else fj_hostId job)"
    "fj_lease j' = None" "fj_pause j' = fj_pause job" "fj_jobId j' = fj_jobId job" "fj_assignedAt j' = fj_assignedAt job"
    "fj_retryCount j' = Some ((case fj_retryCount job of None \<Rightarrow> 0 | Some n \<Rightarrow> n) + 1)"
    "fj_maxRetries j' = fj_maxRetries job" "fj_preferredHostId j' = fj_preferredHostId job"
    "fj_taskId j' = fj_taskId job" "fj_jobType j' = fj_jobType job" "fj_projectId j' = fj_projectId job"
proof -
  have adm: "((stale_budget job \<and> staleLeaseCanAutoRetry job) \<and>
      (if stale_budget job \<and> staleLeaseCanAutoRetry job then duplicateIntegrityFailure index [fj_taskId job] else None) = None)
     = stale_admitted index job"
    by (auto simp: stale_admitted_def)
  show thesis
    by (rule that, simp only: recover_stale_def Let_def assms not_True_eq_False not_False_eq_True if_True if_False
        stale_budget_def [symmetric] adm option.inject simp_thms) simp_all
qed

lemma recover_stale_none:
  "\<not> releasedPauseNeedsRecovery job now \<Longrightarrow> \<not> federatedJobHoldsWorkerAttachment job \<or> \<not> leaseExpired job now \<Longrightarrow>
     recover_stale index now job = None"
  by (auto simp: recover_stale_def)

lemma recover_stale_pause:
  "releasedPauseNeedsRecovery job now \<Longrightarrow> recover_stale index now job = Some (manual_pause_recovery now job)"
  by (simp add: recover_stale_def)

lemma quiet_recover: "quiet now (recover_stale index now)"
  unfolding quiet_def
proof (intro allI impI)
  fix j j' h
  assume r: "recover_stale index now j = Some j'" and occ: "occupies now h j'"
  consider (pause) "releasedPauseNeedsRecovery j now"
    | (none) "\<not> releasedPauseNeedsRecovery j now" "\<not> federatedJobHoldsWorkerAttachment j \<or> \<not> leaseExpired j now"
    | (stale) "\<not> releasedPauseNeedsRecovery j now" "federatedJobHoldsWorkerAttachment j" "leaseExpired j now" by blast
  then have "fj_status j' = FsBlocked \<or> fj_hostId j' = None"
  proof cases
    case pause
    then show ?thesis using r by (auto simp: recover_stale_pause manual_pause_recovery_def)
  next
    case none
    then show ?thesis using r recover_stale_none by simp
  next
    case stale
    show ?thesis by (rule recover_stale_outcome [OF stale, of index]) (use r in auto)
  qed
  then show "occupies now h j" using occ occupies_blocked occupies_no_host by blast
qed

lemma with_failure_simps [simp]:
  "fj_status (with_failure f j) = fj_status j" "fj_hostId (with_failure f j) = fj_hostId j"
  "fj_lease (with_failure f j) = fj_lease j" "fj_pause (with_failure f j) = fj_pause j"
  "fj_jobId (with_failure f j) = fj_jobId j"
  by (simp_all add: with_failure_def)

lemma requeued_simps [simp]:
  "fj_status (requeued a kvs now j) = FsQueued" "fj_hostId (requeued a kvs now j) = None"
  "fj_jobId (requeued a kvs now j) = fj_jobId j"
  by (simp_all add: requeued_def)

lemma recoverable_blocked: "isRecoverableFederatedSchedulingBlock j \<Longrightarrow> fj_status j = FsBlocked"
  by (auto simp: isRecoverableFederatedSchedulingBlock_def isUnstartedFederatedSchedulingBlock_def split: if_splits)

lemma quiet_recheck: "quiet now (recheck_block p jobs now)"
proof -
  have "fj_status j' = FsBlocked \<or> fj_hostId j' = None" if "recheck_block p jobs now j = Some j'" for j j'
    using that recoverable_blocked [of j]
    by (auto simp: recheck_block_def Let_def split: if_splits option.splits sum.splits)
  then show ?thesis unfolding quiet_def using occupies_blocked occupies_no_host by blast
qed

text \<open>What an assignment may attach: one job more on a host with room.\<close>

lemma prepare_cases:
  assumes "prepareFederatedAssignment p options index jobs now job = Some new"
  obtains (blocked) "fj_status new = FsBlocked"
  | (waiting) "fj_status new = FsQueued" "fj_hostId new = fj_hostId job" "fj_lease new = fj_lease job"
  | (assigned) a l where "route_job p now jobs (or_else (so_preferredHostId options) (fj_preferredHostId job)) job = Inr a"
      "evaluateFederatedSchedulingGate p job options index = None" "fc_canDispatch p"
      "createFederatedLease (fj_jobId job) (fh_id (ra_host a)) (Iso now)
         (or_else (so_leaseTtlMs options) (fj_leaseTtlMs job)) = Some l"
      "new = assigned_record a l now job"
proof (cases "evaluateFederatedSchedulingGate p job options index")
  case (Some f)
  then show ?thesis using assms blocked by (auto simp: prepareFederatedAssignment_def)
next
  case gate: None
  show ?thesis
  proof (cases "route_job p now jobs (or_else (so_preferredHostId options) (fj_preferredHostId job)) job")
    case (Inl f)
    then show ?thesis using assms gate blocked waiting
      by (auto simp: prepareFederatedAssignment_def listener_block_def split: if_splits)
  next
    case (Inr a)
    then show ?thesis using assms gate assigned
      by (auto simp: prepareFederatedAssignment_def split: if_splits)
  qed
qed

lemma route_assigns:
  assumes "routeFederatedJob collate input = Inr a"
  shows "suitable collate input (ra_host a)"
  using assms by (auto simp: route_split suitable_admissible split: if_splits
      dest!: route_preferred_assigns route_any_assigns)

lemma occupies_host: "occupies now h j \<Longrightarrow> fj_hostId j = Some h"
  by (simp add: occupies_def)

lemma assign_within:
  assumes "directory files"
    and "updateFederatedJob i (assign_update p options index (listFederatedJobs files) now) files = Inr ((record, changed), files')"
  shows "load_within p now files files' \<and> directory files'"
  using assms(2)
proof (cases rule: update_cases)
  case same
  then show ?thesis using assms(1) by simp
next
  case (wrote old new)
  from wrote(2) have q: "fj_status old = FsQueued"
    and prep: "prepareFederatedAssignment p options (case index of Some i \<Rightarrow> i | None \<Rightarrow> fc_claimants p)
       (listFederatedJobs files) now old = Some new"
    by (auto simp: assign_update_def split: if_splits)
  have room: "\<exists>x \<in> set (hosts_now p now []). fh_id x = h \<and>
      int (active_count now (listFederatedJobs files) h) < the (fh_maxConcurrentJobs x)"
    if occ: "occupies now h new" "\<not> occupies now h old" for h
    using prep
  proof (cases rule: prepare_cases)
    case blocked
    then show ?thesis using occ occupies_blocked by blast
  next
    case waiting
    then show ?thesis using occ q
      by (auto simp: occupies_def federatedJobHoldsWorkerAttachment_def leaseExpired_def)
  next
    case (assigned a l)
    then have h: "h = fh_id (ra_host a)" using occupies_host [OF occ(1)] by (simp add: assigned_record_def)
    from assigned(1) have "suitable (fc_collate p)
       \<lparr>rr_jobType = fj_jobType old, rr_requiredCapabilities = fj_requiredCapabilities old,
        rr_preferredHostId = or_else (so_preferredHostId options) (fj_preferredHostId old),
        rr_hosts = hosts_now p now (listFederatedJobs files)\<rparr> (ra_host a)"
      unfolding route_job_def by (rule route_assigns)
    then have in_hosts: "ra_host a \<in> set (hosts_now p now (listFederatedJobs files))" and "hostHasCapacity (ra_host a)"
      by (simp_all add: suitable_def)
    then have "int (active_count now (listFederatedJobs files) h) < the (fh_maxConcurrentJobs (ra_host a))"
      unfolding h using applied_capacity by (auto simp: hosts_now_def defaultFederatedHosts_def Let_def)
    then show ?thesis using capacity_of_hosts [OF in_hosts] h by force
  qed
  show ?thesis
    using wrote assms(1) room by (auto intro!: within_persist directory_persist)
qed

lemma assign_each_within:
  assumes "directory files"
  shows "load_within p now files (snd (assign_each p options index now js files)) \<and>
           directory (snd (assign_each p options index now js files))"
  using assms
proof (induction js arbitrary: files)
  case Nil
  then show ?case by simp
next
  case (Cons j js)
  let ?o = "options\<lparr>so_leaseTtlMs := or_else (so_leaseTtlMs options) (fj_leaseTtlMs j)\<rparr>"
  show ?case
  proof (cases "updateFederatedJob (fj_jobId j) (assign_update p ?o (Some index) (listFederatedJobs files) now) files")
    case (Inl e)
    then show ?thesis using Cons by (simp add: Let_def)
  next
    case (Inr r)
    then obtain rec ch files' where
      r: "updateFederatedJob (fj_jobId j) (assign_update p ?o (Some index) (listFederatedJobs files) now) files = Inr ((rec, ch), files')"
      by (metis surj_pair)
    note q = assign_within [OF Cons.prems r]
    with Cons.IH [of files'] have "load_within p now files (snd (assign_each p options index now js files')) \<and>
        directory (snd (assign_each p options index now js files'))"
      using within_trans by blast
    then show ?thesis using r by (auto simp: Let_def split: prod.split option.split)
  qed
qed

text \<open>The ledger between the recovery of stale leases, the reconciliation, and the rest of the tick.\<close>

lemma tick_load_within:
  assumes "directory files" and "\<And>r f. reconcile = Some r \<Longrightarrow> directory f \<Longrightarrow> directory (snd (r f))"
  shows "\<exists>f1 f2. f1 = snd (recoverStaleFederatedLeases (fc_claimants p) now files) \<and>
           (f2 = f1 \<or> (\<exists>r. reconcile = Some r \<and> f2 = snd (r f1))) \<and> load_within p now files f1 \<and>
           load_within p now f2 (snd (runSwarmSchedulerTick collate p options reconcile now files))"
proof -
  let ?f1 = "snd (recoverStaleFederatedLeases (fc_claimants p) now files)"
  have f1: "?f1 = snd (each_job (\<lambda>_. recover_stale (fc_claimants p) now) (listFederatedJobs files) files)"
    by (simp add: recoverStaleFederatedLeases_def Let_def split: prod.split)
  have 1: "load_within p now files ?f1" "directory ?f1"
    unfolding f1 using quiet_each_job [OF quiet_recover assms(1)] by auto
  define f2 where "f2 = snd (case (fc_claimants p, reconcile) of
              (DciScanned _, Some r) \<Rightarrow> r ?f1 | _ \<Rightarrow> ([], ?f1))"
  have f2: "f2 = ?f1 \<or> (\<exists>r. reconcile = Some r \<and> f2 = snd (r ?f1))" "directory f2"
    using 1(2) assms(2) by (auto simp: f2_def split: duplicate_claimant_index.split option.split)
  let ?f3 = "snd (recheckRecoverableFederatedBlocks p None now f2)"
  have 2: "load_within p now f2 ?f3" "directory ?f3"
    unfolding recheckRecoverableFederatedBlocks_def using quiet_each_job [OF quiet_recheck f2(2)] by auto
  have "snd (runSwarmSchedulerTick collate p options reconcile now files) =
     snd (assign_each p options (fc_claimants p) now
       (sortFederatedQueue collate (filter (\<lambda>j. fj_status j = FsQueued) (listFederatedJobs ?f3))) ?f3)"
    by (simp add: runSwarmSchedulerTick_def f2_def Let_def case_prod_beta)
  then have "load_within p now f2 (snd (runSwarmSchedulerTick collate p options reconcile now files))"
    using within_trans [OF 2(1)] assign_each_within [OF 2(2)] by metis
  then show ?thesis using f2(1) 1(1) by blast
qed

text \<open>
  C21: The scheduler never overloads a host. Let a tick run alone, with any reconciliation of finished jobs
  that keeps one file per job. For every host the jobs attached to it afterwards are no more than its
  advertised capacity, or no more than before the tick, or no more than the reconciliation, which runs in
  the middle of the tick, left attached to it.
\<close>

theorem tick_respects_capacity:
  assumes "distinct (js_map_keys files)"
    and "case reconcile of None \<Rightarrow> True
         | Some r \<Rightarrow> (\<forall>f. distinct (js_map_keys f) \<longrightarrow> distinct (js_map_keys (snd (r f))))"
  shows "\<forall>h. let before = active_count now (listFederatedJobs files) h;
              after = active_count now (listFederatedJobs (snd (runSwarmSchedulerTick collate p options reconcile now files))) h
          in (\<exists>x \<in> set (hosts_now p now []). fh_id x = h \<and> int after \<le> the (fh_maxConcurrentJobs x)) \<or>
             after \<le> before \<or>
             (case reconcile of None \<Rightarrow> False
              | Some r \<Rightarrow> after \<le> active_count now (listFederatedJobs (snd (r (snd
                  (recoverStaleFederatedLeases (fc_claimants p) now files))))) h)"
proof
  fix h
  obtain f1 f2 where f: "f1 = snd (recoverStaleFederatedLeases (fc_claimants p) now files)"
      "f2 = f1 \<or> (\<exists>r. reconcile = Some r \<and> f2 = snd (r f1))"
    and w: "load_within p now files f1"
      "load_within p now f2 (snd (runSwarmSchedulerTick collate p options reconcile now files))"
    by (rule exE [OF tick_load_within [of files reconcile p now collate options]])
      (use assms in \<open>auto simp: directory_def\<close>)
  show "let before = active_count now (listFederatedJobs files) h;
              after = active_count now (listFederatedJobs (snd (runSwarmSchedulerTick collate p options reconcile now files))) h
          in (\<exists>x \<in> set (hosts_now p now []). fh_id x = h \<and> int after \<le> the (fh_maxConcurrentJobs x)) \<or>
             after \<le> before \<or>
             (case reconcile of None \<Rightarrow> False
              | Some r \<Rightarrow> after \<le> active_count now (listFederatedJobs (snd (r (snd
                  (recoverStaleFederatedLeases (fc_claimants p) now files))))) h)"
  proof (cases "f2 = f1")
    case True
    then have "load_within p now files (snd (runSwarmSchedulerTick collate p options reconcile now files))"
      using within_trans w by metis
    then show ?thesis by (auto simp: load_within_def Let_def)
  next
    case False
    then show ?thesis using f w(2) by (auto simp: load_within_def Let_def)
  qed
qed

lemma tick_respects_capacity_witness:
  "active_count 9 (listFederatedJobs (snd (runSwarmSchedulerTick stamp_order (sample_context True) no_bypass
      (Some (\<lambda>f. ([], f))) 9 sample_ledger))) ''h1'' = 1 \<and>
   (\<exists>x \<in> set (hosts_now (sample_context True) 9 []). fh_id x = ''h1'' \<and> 1 \<le> the (fh_maxConcurrentJobs x))"
proof -
  let ?r = "Some (\<lambda>f. ([], f)) :: (job_files \<Rightarrow> federated_job list \<times> job_files) option"
  have d: "distinct (js_map_keys sample_ledger)" by code_simp
  have before: "active_count 9 (listFederatedJobs sample_ledger) ''h1'' = 0" by code_simp
  have mid: "active_count 9 (listFederatedJobs (snd (recoverStaleFederatedLeases (fc_claimants (sample_context True)) 9 sample_ledger))) ''h1'' = 0"
    by code_simp
  have after: "active_count 9 (listFederatedJobs (snd (runSwarmSchedulerTick stamp_order (sample_context True) no_bypass ?r 9 sample_ledger))) ''h1'' = 1"
    by code_simp
  have keeps: "case ?r of None \<Rightarrow> True
      | Some r \<Rightarrow> (\<forall>f. distinct (js_map_keys f) \<longrightarrow> distinct (js_map_keys (snd (r f))))"
    by simp
  from spec [OF tick_respects_capacity [of sample_ledger ?r, OF d keeps, of 9 stamp_order "sample_context True" no_bypass], of "''h1''"]
  show ?thesis unfolding Let_def before after by (auto simp: mid)
qed

text \<open>
  The lock is per job, so two assignments that overlap read the same load: a host with room for one
  job gets two, each written by an update that was correct on the listing it read.
\<close>

lemma overlapping_assignments_overload:
  "\<exists>n1 n2. assign_update (sample_context True) no_bypass None (listFederatedJobs sample_ledger) 9 (sample_job ''fed-1'' ''TASK-1'') = Some n1 \<and>
     assign_update (sample_context True) no_bypass None (listFederatedJobs sample_ledger) 9 (sample_job ''fed-2'' ''TASK-2'') = Some n2 \<and>
     map fh_maxConcurrentJobs (hosts_now (sample_context True) 9 []) = [Some 1] \<and>
     active_count 9 (listFederatedJobs (persistFederatedJob n2 (persistFederatedJob n1 sample_ledger))) ''h1'' = 2"
proof -
  have "case (assign_update (sample_context True) no_bypass None (listFederatedJobs sample_ledger) 9 (sample_job ''fed-1'' ''TASK-1''),
         assign_update (sample_context True) no_bypass None (listFederatedJobs sample_ledger) 9 (sample_job ''fed-2'' ''TASK-2'')) of
      (Some n1, Some n2) \<Rightarrow> active_count 9 (listFederatedJobs (persistFederatedJob n2 (persistFederatedJob n1 sample_ledger))) ''h1'' = 2
    | _ \<Rightarrow> False"
    by code_simp
  moreover have "map fh_maxConcurrentJobs (hosts_now (sample_context True) 9 []) = [Some 1]" by code_simp
  ultimately show ?thesis by (auto split: option.splits)
qed

end
