(* ===== verification/Federation_Lifecycle.thy ===== *)
theory Federation_Lifecycle
  imports Federation_Capacity
begin

text \<open>
  The life of one federated job under every call modelled here: the pause handshake, worker events,
  lease renewal, cancellation, stale-lease recovery, release, recheck and assignment, in any order.
  A call that is refused leaves the record alone. The lemmas show, call by call, what keeps the pause
  record consistent, what happens to a consumed grant and to the retry budget.
\<close>

section \<open>The machine\<close>

datatype job_call =
    JcPause pause_identity pending_gate iso_text string
  | JcRelease pause_ref iso_text "int option"
  | JcRequest pause_ref gate_action "string option" iso_text
  | JcClaim pause_ref iso_text string "int option"
  | JcAcknowledge ack_input iso_text string "int option"
  | JcManual pause_ref string iso_text
  | JcEvent "string option" millis string event_body
  | JcRenew "string option" string string "int option" millis
  | JcCancel "string option" string millis
  | JcRecover duplicate_claimant_index millis
  | JcDependency fed_context string "duplicate_claimant_index option" millis
  | JcRecheck fed_context "federated_job list" millis
  | JcAssign fed_context scheduling_options "duplicate_claimant_index option" "federated_job list" millis

definition kept :: "federated_job \<Rightarrow> pause_error + federated_job \<Rightarrow> federated_job" where
  "kept job r = (case r of Inl e \<Rightarrow> job | Inr j \<Rightarrow> j)"

definition kept_opt :: "federated_job \<Rightarrow> federated_job option \<Rightarrow> federated_job" where
  "kept_opt job r = (case r of None \<Rightarrow> job | Some j \<Rightarrow> j)"

fun job_step :: "job_call \<Rightarrow> federated_job \<Rightarrow> federated_job" where
  "job_step (JcPause i g now nonce) job = kept job (transitionFederatedPause i g now nonce job)"
| "job_step (JcRelease r now d) job = kept job (release_pause r now d job)"
| "job_step (JcRequest r a why now) job = kept job (request_resume r a why now job)"
| "job_step (JcClaim r now tok ttl) job = kept job (claim_resume r now tok ttl job)"
| "job_step (JcAcknowledge a now tok ttl) job = kept job (acknowledge_start a now tok ttl job)"
| "job_step (JcManual r why now) job = kept job (mark_manual_recovery r why now job)"
| "job_step (JcEvent proj now nonce body) job = kept job (worker_event proj now nonce body job)"
| "job_step (JcRenew proj h l ttl now) job = kept job (renew_lease proj h l ttl now job)"
| "job_step (JcCancel proj tok now) job = kept job (cancel_job proj tok now job)"
| "job_step (JcRecover index now) job = kept_opt job (recover_stale index now job)"
| "job_step (JcDependency p done s now) job = kept_opt job (release_dependency p done s now job)"
| "job_step (JcRecheck p jobs now) job = kept_opt job (recheck_block p jobs now job)"
| "job_step (JcAssign p opts i jobs now) job = kept_opt job (assign_update p opts i jobs now job)"

text \<open>One call, its refusal apart, yields a record described by one of the transitions below.\<close>

lemma kept_induct: "P job \<Longrightarrow> (\<And>j. r = Inr j \<Longrightarrow> P j) \<Longrightarrow> P (kept job r)"
  by (cases r) (auto simp: kept_def)

lemma kept_opt_induct: "P job \<Longrightarrow> (\<And>j. r = Some j \<Longrightarrow> P j) \<Longrightarrow> P (kept_opt job r)"
  by (cases r) (auto simp: kept_opt_def)

section \<open>What each transition does to the record\<close>

lemma pause_outcome:
  assumes "transitionFederatedPause i g now nonce job = Inr j"
  shows "j = job \<or>
    fj_status job = FsAwaitingApproval \<and>
    (\<exists>n. j = job\<lparr>fj_pause := Some (new_pause n i g now nonce (the (pg_since g))), fj_updatedAt := now\<rparr> \<and>
       n = (case fj_pause job of None \<Rightarrow> 1 | Some p \<Rightarrow> ps_generation p + 1) \<and>
       (\<forall>p. fj_pause job = Some p \<longrightarrow> consumed (ps_startGrant p)))"
  using assms by (auto simp: transitionFederatedPause_def assertPauseIdentity_def can_advance_def
      split: option.splits if_splits)

lemma release_outcome:
  assumes "release_pause r now d job = Inr j"
  shows "j = job \<or> (\<exists>p sweep act. fj_pause job = Some p \<and> fj_status job = FsAwaitingApproval \<and> ps_state p = PauseAttached \<and>
    j = job\<lparr>fj_lease := None, fj_nextAction := act,
       fj_pause := Some (p\<lparr>ps_state := PauseReleased, ps_releasedAt := Some now, ps_sweepAfter := Some sweep\<rparr>),
       fj_updatedAt := now\<rparr>)"
  using assms by (auto simp: release_pause_def assertGeneration_def split: option.splits if_splits sum.splits)

lemma request_outcome:
  assumes "request_resume r a why now job = Inr j"
  shows "j = job \<or> (\<exists>p act d. fj_pause job = Some p \<and> fj_status job = FsAwaitingApproval \<and> ps_state p = PauseReleased \<and>
    j = job\<lparr>fj_nextAction := act,
       fj_pause := Some (p\<lparr>ps_state := ResumeRequested, ps_decision := d, ps_resumeRequestedAt := Some now\<rparr>),
       fj_updatedAt := now\<rparr>)"
  using assms by (auto simp: request_resume_def assertGeneration_def split: option.splits if_splits sum.splits)

lemma claim_outcome:
  assumes "claim_resume r now tok ttl job = Inr j"
  shows "\<exists>p act l e. fj_pause job = Some p \<and> fj_status job = FsAwaitingApproval \<and> ps_state p = ResumeRequested \<and>
    pr_hostId r = ps_originalHostId p \<and>
    j = job\<lparr>fj_lease := Some l, fj_nextAction := act,
       fj_pause := Some (p\<lparr>ps_state := ResumeClaimed,
          ps_claim := Some \<lparr>rc_token = tok, rc_hostId = pr_hostId r, rc_claimedAt = now, rc_expiresAt = e\<rparr>,
          ps_startGrant := None\<rparr>),
       fj_updatedAt := now\<rparr>"
  using assms by (auto simp: claim_resume_def assertGeneration_def split: option.splits if_splits sum.splits)

lemma acknowledge_outcome:
  assumes "acknowledge_start a now tok ttl job = Inr j"
  shows "j = job \<or> (\<exists>p c act e. fj_pause job = Some p \<and> fj_status job = FsAwaitingApproval \<and>
    ps_state p \<in> {ResumeClaimed, ApprovedButNotStarted} \<and> ps_startGrant p = None \<and> ps_claim p = Some c \<and>
    rc_token c = ai_claimToken a \<and> rc_hostId c = ai_hostId a \<and> ps_originalHostId p = ai_hostId a \<and>
    ps_generation p = ai_generation a \<and> ps_releaseNonce p = ai_releaseNonce a \<and> ps_sessionId p = ai_originalSessionId a \<and>
    fj_jobId job = ai_jobId a \<and> fj_taskId job = ai_taskId a \<and> fj_jobType job = ai_jobType a \<and>
    j = job\<lparr>fj_nextAction := act,
       fj_pause := Some (p\<lparr>ps_state := ApprovedButNotStarted, ps_approvedButNotStartedAt := Some now,
          ps_startGrant := Some (new_grant a now tok e)\<rparr>),
       fj_updatedAt := now\<rparr>)"
proof -
  from assms obtain p where cur: "ack_current a now job = Some p"
    by (auto simp: acknowledge_start_def split: option.splits)
  then have facts: "fj_pause job = Some p" "fj_status job = FsAwaitingApproval"
    "ps_state p \<in> {ResumeClaimed, ApprovedButNotStarted}"
    "map_option rc_token (ps_claim p) = Some (ai_claimToken a)" "map_option rc_hostId (ps_claim p) = Some (ai_hostId a)"
    "ps_originalHostId p = ai_hostId a" "ps_generation p = ai_generation a" "ps_releaseNonce p = ai_releaseNonce a"
    "ps_sessionId p = ai_originalSessionId a" "fj_jobId job = ai_jobId a" "fj_taskId job = ai_taskId a"
    "fj_jobType job = ai_jobType a"
    by (auto simp: ack_current_def split: option.splits if_splits)
  show ?thesis
  proof (cases "ps_startGrant p")
    case None
    with assms cur facts show ?thesis
      by (auto simp: acknowledge_start_def Let_def split: if_splits)
  next
    case (Some g)
    with assms cur show ?thesis by (auto simp: acknowledge_start_def split: if_splits)
  qed
qed

lemma manual_outcome:
  assumes "mark_manual_recovery r why now job = Inr j"
  shows "\<exists>p. fj_pause job = Some p \<and> fj_status job = FsAwaitingApproval \<and> ps_state p = ResumeRequested \<and>
    j = job\<lparr>fj_status := FsBlocked, fj_lease := None, fj_retryable := Some False,
            fj_blockReasonCode := Some PendingManualHandoff, fj_error := Some why,
            fj_nextAction := Some ''recover_paused_worktree_on_original_host'',
            fj_pause := Some (p\<lparr>ps_state := ManualRecovery, ps_recoveryReason := Some why\<rparr>),
            fj_updatedAt := now\<rparr>"
  using assms by (auto simp: mark_manual_recovery_def assertGeneration_def split: option.splits if_splits sum.splits)

lemma running_outcome:
  assumes "transitionFederatedResumeRunning sg s started now job = Inr j"
  shows "startGrantIdentityMatches job sg \<and> \<not> lease_dead job now \<and>
    (j = job \<and> consumed (stored_grant job) \<and> Option.bind (stored_grant job) sgr_resumedSessionId = Some s \<and>
       fj_remoteSessionId job = Some s \<and> fj_status job \<in> {FsRunning, FsVerifying, FsFixing} \<or>
     (\<exists>p g. fj_pause job = Some p \<and> ps_startGrant p = Some g \<and> \<not> consumed (Some g) \<and>
        fj_status job = FsAwaitingApproval \<and> ps_state p = ApprovedButNotStarted \<and>
        j = resumed_record job p g s started now))"
  using assms
  by (auto simp: transitionFederatedResumeRunning_def stored_grant_def split: if_splits option.splits)

lemma terminal_outcome:
  assumes "transitionFederatedResumeTerminal sg started now job = Inr j"
  shows "(j = job \<and> fj_status job = FsRejected) \<or>
    startGrantIdentityMatches job sg \<and> \<not> lease_dead job now \<and>
    (\<exists>p g t. fj_pause job = Some p \<and> ps_startGrant p = Some g \<and> \<not> consumed (Some g) \<and>
        fj_status job = FsAwaitingApproval \<and> ps_state p = ApprovedButNotStarted \<and> ps_gate p = GateBlueprint \<and>
        map_option pd_action (ps_decision p) = Some GateRejected \<and>
        j = job\<lparr>fj_status := FsRejected, fj_pendingGate := None, fj_lease := None,
                 fj_nextAction := Some ''manual_handoff'',
                 fj_pause := Some (p\<lparr>ps_resumedAt := Some now, ps_startGrant := Some (g\<lparr>sgr_consumedAt := Some t\<rparr>)\<rparr>),
                 fj_updatedAt := now\<rparr>)"
  using assms
  by (auto simp: transitionFederatedResumeTerminal_def stored_grant_def split: if_splits option.splits)

lemma resume_outcome:
  assumes "resume_step now body job = Inr base"
  shows "base = job \<and> (eb_resumeGrant body = None \<and> (eb_status body = None \<or> fj_pause job = None \<or> requested body job = FsAwaitingApproval))
    \<or> (\<exists>g s. eb_resumeGrant body = Some g \<and> transitionFederatedResumeRunning g s (eb_resumeStartedAt body) (Iso now) job = Inr base \<and>
         eb_status body \<noteq> None \<and> requested body job \<noteq> FsAwaitingApproval \<and> eb_resumeSessionId body = Some s \<and>
         (consumed (stored_grant job) \<or> requested body job = FsRunning))
    \<or> (\<exists>g. eb_resumeGrant body = Some g \<and> requested body job = FsRejected \<and> eb_status body \<noteq> None \<and>
         transitionFederatedResumeTerminal g (eb_resumeStartedAt body) (Iso now) job = Inr base)"
  using assms by (auto simp: resume_step_def Let_def js_set_text_def split: option.splits if_splits)

lemma event_record_simps [simp]:
  "fj_status (event_record now body base) = requested body base"
  "fj_pause (event_record now body base) = fj_pause base"
  "fj_lease (event_record now body base) = event_lease now body (requested body base) base"
  "fj_jobId (event_record now body base) = fj_jobId base"
  "fj_taskId (event_record now body base) = fj_taskId base"
  "fj_jobType (event_record now body base) = fj_jobType base"
  "fj_retryCount (event_record now body base) = fj_retryCount base"
  "fj_maxRetries (event_record now body base) = fj_maxRetries base"
  by (simp_all add: event_record_def Let_def)

lemma event_update_outcome:
  assumes "event_update proj now nonce body base = Inr j"
  shows "(j = event_record now body base \<or>
      (\<exists>i g. eb_pauseIdentity body \<noteq> None \<and> requested body base = FsAwaitingApproval \<and>
         transitionFederatedPause i g (Iso now) nonce (event_record now body base) = Inr j)) \<and>
    (eb_status body \<noteq> None \<and> holdsWorkerAttachment (requested body base) \<longrightarrow>
       (\<forall>l. fj_lease base = Some l \<longrightarrow> ms_less (Some now) (date_parse (ls_expiresAt l))))"
  using assms
  by (auto simp: event_update_def Let_def split: option.splits if_splits)

lemma worker_event_outcome:
  assumes "worker_event proj now nonce body job = Inr j"
  shows "j = job \<or> (\<exists>base. event_identity_error body job = None \<and> \<not> terminalFederatedStatus (fj_status job) \<and>
    moving_error now body job = None \<and> resume_step now body job = Inr base \<and>
    event_update proj now nonce body base = Inr j)"
  using assms by (auto simp: worker_event_def split: option.splits if_splits sum.splits)

lemma requested_after: "eb_status body = Some s \<Longrightarrow> requested body job = s"
  by (simp add: requested_def)

lemma requested_cong: "eb_status body \<noteq> None \<or> fj_status base = fj_status job \<Longrightarrow> requested body base = requested body job"
  by (cases "eb_status body") (auto simp: requested_def)

lemma moving_allowed:
  "moving_error now body job = None \<Longrightarrow> requested body job \<in> set (allowedFederatedStatusTransitions (fj_status job))"
  by (cases "eb_status body"; cases "fj_status job")
    (auto simp: moving_error_def assertFederatedStatusTransition_def requested_def split: if_splits option.splits)

lemma no_return_to_queue:
  "requested body job \<in> set (allowedFederatedStatusTransitions (fj_status job)) \<Longrightarrow>
     fj_status job \<notin> {FsQueued, FsAssigned} \<Longrightarrow> requested body job \<notin> {FsQueued, FsAssigned}"
  by (cases "fj_status job") auto

section \<open>The record of a pause stays consistent\<close>

definition claim_held :: "pause_state \<Rightarrow> bool" where
  "claim_held p \<longleftrightarrow> map_option rc_hostId (ps_claim p) = Some (ps_originalHostId p)"

definition grant_bound :: "federated_job \<Rightarrow> pause_state \<Rightarrow> bool" where
  "grant_bound job p \<longleftrightarrow>
     (case ps_startGrant p of
        None \<Rightarrow> False
      | Some g \<Rightarrow> sgr_jobId g = fj_jobId job \<and> sgr_taskId g = fj_taskId job \<and> sgr_jobType g = fj_jobType job \<and>
          sgr_hostId g = ps_originalHostId p \<and> sgr_originalSessionId g = ps_sessionId p \<and>
          sgr_generation g = ps_generation p \<and> sgr_releaseNonce g = ps_releaseNonce p \<and>
          map_option rc_token (ps_claim p) = Some (sgr_claimToken g))"

definition stage_ok :: "federated_job \<Rightarrow> pause_state \<Rightarrow> bool" where
  "stage_ok job p \<longleftrightarrow>
     (case ps_state p of
        ResumeClaimed \<Rightarrow> claim_held p \<and> ps_startGrant p = None
      | ApprovedButNotStarted \<Rightarrow> claim_held p \<and> grant_bound job p
      | ManualRecovery \<Rightarrow> fj_status job \<noteq> FsAwaitingApproval
      | _ \<Rightarrow> ps_claim p = None \<and> ps_startGrant p = None)"

definition handshake_ok :: "federated_job \<Rightarrow> bool" where
  "handshake_ok job \<longleftrightarrow>
     (case fj_pause job of
        None \<Rightarrow> True
      | Some p \<Rightarrow>
          fj_status job \<notin> {FsQueued, FsAssigned} \<and> stage_ok job p \<and>
          (fj_status job \<in> {FsRunning, FsVerifying, FsFixing} \<longrightarrow> ps_state p = ApprovedButNotStarted) \<and>
          (fj_status job = FsAwaitingApproval \<and> ps_state p \<in> {PauseReleased, ResumeRequested} \<longrightarrow> fj_lease job = None))"

lemmas handshake_defs = handshake_ok_def stage_ok_def claim_held_def grant_bound_def

lemma handshake_pause:
  "handshake_ok job \<Longrightarrow> transitionFederatedPause i g now nonce job = Inr j \<Longrightarrow> handshake_ok j"
  by (drule pause_outcome) (auto simp: handshake_defs new_pause_def)

lemma handshake_release: "handshake_ok job \<Longrightarrow> release_pause r now d job = Inr j \<Longrightarrow> handshake_ok j"
  by (drule release_outcome) (auto simp: handshake_defs)

lemma handshake_request: "handshake_ok job \<Longrightarrow> request_resume r a why now job = Inr j \<Longrightarrow> handshake_ok j"
  by (drule request_outcome) (auto simp: handshake_defs)

lemma handshake_claim: "handshake_ok job \<Longrightarrow> claim_resume r now tok ttl job = Inr j \<Longrightarrow> handshake_ok j"
  by (drule claim_outcome) (auto simp: handshake_defs)

lemma handshake_acknowledge: "handshake_ok job \<Longrightarrow> acknowledge_start a now tok ttl job = Inr j \<Longrightarrow> handshake_ok j"
  by (drule acknowledge_outcome) (auto simp: handshake_defs new_grant_def)

lemma handshake_manual: "handshake_ok job \<Longrightarrow> mark_manual_recovery r why now job = Inr j \<Longrightarrow> handshake_ok j"
  by (drule manual_outcome) (auto simp: handshake_defs)

lemma handshake_running:
  "handshake_ok job \<Longrightarrow> transitionFederatedResumeRunning g s t now job = Inr j \<Longrightarrow> handshake_ok j"
  by (drule running_outcome) (auto simp: handshake_defs resumed_record_def)

lemma handshake_terminal:
  "handshake_ok job \<Longrightarrow> transitionFederatedResumeTerminal g t now job = Inr j \<Longrightarrow> handshake_ok j"
  by (drule terminal_outcome) (auto simp: handshake_defs)

lemma handshake_resume: "handshake_ok job \<Longrightarrow> resume_step now body job = Inr base \<Longrightarrow> handshake_ok base"
  by (drule resume_outcome) (auto dest: handshake_running handshake_terminal)

text \<open>A grant that is accepted leaves the pause in the state the grant was issued in.\<close>

lemma resume_base:
  assumes "resume_step now body job = Inr base" and "fj_pause base = Some p"
  shows "eb_resumeGrant body = None \<and> base = job \<and> (eb_status body = None \<or> requested body job = FsAwaitingApproval)
    \<or> ps_state p = ApprovedButNotStarted \<and> requested body job \<noteq> FsAwaitingApproval \<and> fj_status base \<noteq> FsAwaitingApproval
    \<or> base = job \<and> fj_status job \<in> {FsRunning, FsVerifying, FsFixing, FsRejected} \<and> requested body job \<noteq> FsAwaitingApproval"
proof -
  from resume_outcome [OF assms(1)] consider
      (kept) "eb_resumeGrant body = None" "base = job" "eb_status body = None \<or> fj_pause job = None \<or> requested body job = FsAwaitingApproval"
    | (running) g s where "transitionFederatedResumeRunning g s (eb_resumeStartedAt body) (Iso now) job = Inr base"
        "requested body job \<noteq> FsAwaitingApproval"
    | (terminal) g where "transitionFederatedResumeTerminal g (eb_resumeStartedAt body) (Iso now) job = Inr base"
        "requested body job = FsRejected"
    by (elim disjE exE conjE) auto
  then show ?thesis
  proof cases
    case kept
    then show ?thesis using assms(2) by auto
  next
    case running
    from running_outcome [OF running(1)] running(2) assms(2) show ?thesis
      by (elim conjE disjE exE) (auto simp: resumed_record_def)
  next
    case terminal
    from terminal_outcome [OF terminal(1)] terminal(2) assms(2) show ?thesis
      by (elim conjE disjE exE) auto
  qed
qed

text \<open>What the invariant reads of a record.\<close>

lemma stage_ok_mono:
  assumes "stage_ok k p" and "fj_jobId j = fj_jobId k" and "fj_taskId j = fj_taskId k" and "fj_jobType j = fj_jobType k"
    and "ps_state p = ManualRecovery \<Longrightarrow> fj_status j = FsAwaitingApproval \<Longrightarrow> fj_status k = FsAwaitingApproval"
  shows "stage_ok j p"
  using assms by (cases "ps_state p") (auto simp: stage_ok_def grant_bound_def split: option.splits)

lemma handshake_keep:
  assumes "handshake_ok k" and "fj_pause j = fj_pause k"
    and "fj_jobId j = fj_jobId k" and "fj_taskId j = fj_taskId k" and "fj_jobType j = fj_jobType k"
    and "fj_status j = fj_status k \<or> terminalFederatedStatus (fj_status j)"
    and "fj_lease j = None \<or> fj_lease k \<noteq> None"
  shows "handshake_ok j"
proof (cases "fj_pause k")
  case None
  then show ?thesis using assms(2) by (simp add: handshake_ok_def)
next
  case (Some p)
  have "stage_ok j p"
    by (rule stage_ok_mono [where k = k])
      (use assms Some in \<open>auto simp: handshake_ok_def terminalFederatedStatus_def\<close>)
  moreover have "fj_status k \<notin> {FsQueued, FsAssigned}" using assms(1) Some by (simp add: handshake_ok_def)
  then have "fj_status j \<notin> {FsQueued, FsAssigned}"
    "fj_status j \<in> {FsRunning, FsVerifying, FsFixing} \<Longrightarrow> fj_status j = fj_status k"
    "fj_status j = FsAwaitingApproval \<Longrightarrow> fj_status k = FsAwaitingApproval"
    using assms(6) by (auto simp: terminalFederatedStatus_def)
  moreover have "fj_status k \<in> {FsRunning, FsVerifying, FsFixing} \<Longrightarrow> ps_state p = ApprovedButNotStarted"
    "fj_status k = FsAwaitingApproval \<Longrightarrow> ps_state p \<in> {PauseReleased, ResumeRequested} \<Longrightarrow> fj_lease k = None"
    using assms(1) Some by (simp_all add: handshake_ok_def)
  ultimately have "fj_status j \<in> {FsRunning, FsVerifying, FsFixing} \<Longrightarrow> ps_state p = ApprovedButNotStarted"
    "fj_status j = FsAwaitingApproval \<Longrightarrow> ps_state p \<in> {PauseReleased, ResumeRequested} \<Longrightarrow> fj_lease j = None"
    using assms(7) by auto
  then show ?thesis
    using \<open>stage_ok j p\<close> \<open>fj_status j \<notin> {FsQueued, FsAssigned}\<close> Some assms(2) by (simp add: handshake_ok_def)
qed

lemma handshake_event_record:
  assumes ok: "handshake_ok job" and live: "\<not> terminalFederatedStatus (fj_status job)"
    and ident: "event_identity_error body job = None" and mv: "moving_error now body job = None"
    and rs: "resume_step now body job = Inr base"
  shows "handshake_ok (event_record now body base)"
proof (cases "fj_pause base")
  case None
  then show ?thesis by (simp add: handshake_ok_def)
next
  case (Some p)
  have okb: "handshake_ok base" using handshake_resume [OF ok rs] .
  have kept: "requested body job \<notin> {FsQueued, FsAssigned}" if "fj_status job \<notin> {FsQueued, FsAssigned}"
    using no_return_to_queue [OF moving_allowed [OF mv] that] .
  have manual: "eb_status body = None" if "fj_pause job = Some q" "ps_state q = ManualRecovery" for q
    using ident that by (auto simp: event_identity_error_def split: if_splits)
  have same: "requested body base = requested body job" if "eb_status body \<noteq> None \<or> base = job"
    using that requested_cong by blast
  have stage: "stage_ok (event_record now body base) p" if "ps_state p = ManualRecovery \<Longrightarrow> fj_status base = requested body base"
  proof (rule stage_ok_mono [where k = base])
    show "stage_ok base p" using okb Some by (simp add: handshake_ok_def)
    show "fj_status base = FsAwaitingApproval" if "ps_state p = ManualRecovery"
      "fj_status (event_record now body base) = FsAwaitingApproval"
      using that \<open>ps_state p = ManualRecovery \<Longrightarrow> fj_status base = requested body base\<close> by simp
  qed simp_all
  from resume_base [OF rs Some] show ?thesis
  proof (elim disjE conjE)
    assume g: "base = job" and st: "eb_status body = None"
    then have "requested body base = fj_status job" by (simp add: requested_def)
    then show ?thesis using ok Some g st by (intro handshake_keep [OF ok]) (auto simp: event_lease_def)
  next
    assume g: "base = job" and st: "requested body job = FsAwaitingApproval"
    have lease: "fj_lease job = None \<longrightarrow> event_lease now body FsAwaitingApproval job = None"
      by (simp add: event_lease_def)
    have m: "ps_state p = ManualRecovery \<Longrightarrow> fj_status job = FsAwaitingApproval"
      using manual [of p] Some g st by (auto simp: requested_def)
    have r: "fj_status job = FsAwaitingApproval \<or> ps_state p = ApprovedButNotStarted"
      using ok Some g live by (cases "fj_status job") (auto simp: handshake_ok_def terminalFederatedStatus_def)
    have "stage_ok (event_record now body job) p" using stage m g st by simp
    then show ?thesis using ok Some g st lease r by (auto simp: handshake_ok_def)
  next
    assume a: "ps_state p = ApprovedButNotStarted" "requested body job \<noteq> FsAwaitingApproval" "fj_status base \<noteq> FsAwaitingApproval"
    have given: "eb_status body \<noteq> None \<or> base = job" using resume_outcome [OF rs] by blast
    have "fj_status job \<notin> {FsQueued, FsAssigned}"
    proof (cases "base = job")
      case True
      then show ?thesis using ok Some by (simp add: handshake_ok_def)
    next
      case False
      then show ?thesis using resume_outcome [OF rs] running_outcome terminal_outcome by fastforce
    qed
    with kept same [OF given] a Some stage show ?thesis by (simp add: handshake_ok_def)
  next
    assume g: "base = job" and st: "fj_status job \<in> {FsRunning, FsVerifying, FsFixing, FsRejected}" "requested body job \<noteq> FsAwaitingApproval"
    then have p: "ps_state p = ApprovedButNotStarted" using ok Some live by (auto simp: handshake_ok_def terminalFederatedStatus_def)
    have "requested body job \<notin> {FsQueued, FsAssigned}" by (rule kept) (use st in auto)
    with p Some g st same stage show ?thesis by (simp add: handshake_ok_def)
  qed
qed

lemma handshake_event:
  assumes "handshake_ok job" and "worker_event proj now nonce body job = Inr j"
  shows "handshake_ok j"
  using worker_event_outcome [OF assms(2)]
proof (elim disjE exE conjE)
  assume "j = job"
  then show ?thesis using assms(1) by simp
next
  fix base
  assume b: "event_identity_error body job = None" "\<not> terminalFederatedStatus (fj_status job)"
    "moving_error now body job = None" "resume_step now body job = Inr base" "event_update proj now nonce body base = Inr j"
  note rec = handshake_event_record [OF assms(1) b(2,1,3,4)]
  from event_update_outcome [OF b(5), THEN conjunct1] consider "j = event_record now body base"
    | i g where "transitionFederatedPause i g (Iso now) nonce (event_record now body base) = Inr j"
    by (elim disjE exE conjE)
  then show ?thesis by cases (simp_all add: rec handshake_pause [OF rec])
qed

lemma handshake_renew: "handshake_ok job \<Longrightarrow> renew_lease proj h l ttl now job = Inr j \<Longrightarrow> handshake_ok j"
  by (rule handshake_keep [where k = job]) (auto simp: renew_lease_def Let_def split: option.splits if_splits)

lemma handshake_cancel: "handshake_ok job \<Longrightarrow> cancel_job proj tok now job = Inr j \<Longrightarrow> handshake_ok j"
  by (rule handshake_keep [where k = job]) (auto simp: cancel_job_def terminalFederatedStatus_def split: if_splits)

lemma handshake_no_pause: "fj_pause j = None \<Longrightarrow> handshake_ok j"
  by (simp add: handshake_ok_def)

lemma handshake_recover: "handshake_ok job \<Longrightarrow> recover_stale index now job = Some j \<Longrightarrow> handshake_ok j"
proof -
  assume ok: "handshake_ok job" and r: "recover_stale index now job = Some j"
  consider (pause) "releasedPauseNeedsRecovery job now"
    | (stale) "\<not> releasedPauseNeedsRecovery job now" "federatedJobHoldsWorkerAttachment job" "leaseExpired job now"
    using r recover_stale_none by fastforce
  then show "handshake_ok j"
  proof cases
    case pause
    then have j: "j = manual_pause_recovery now job" using r by (simp add: recover_stale_pause)
    show ?thesis by (cases "fj_pause job") (simp_all add: j manual_pause_recovery_def handshake_ok_def stage_ok_def)
  next
    case stale
    have adm: "fj_pause job = None" if "stale_admitted index job"
      using that ok by (auto simp: stale_admitted_def staleLeaseCanAutoRetry_def handshake_ok_def split: if_splits option.splits)
    show ?thesis
    proof (rule recover_stale_outcome [OF stale, of index])
      fix j'
      assume o: "recover_stale index now job = Some j'"
        "fj_status j' = (if stale_admitted index job then FsQueued else FsBlocked)"
        "fj_lease j' = None" "fj_pause j' = fj_pause job" "fj_jobId j' = fj_jobId job" "fj_taskId j' = fj_taskId job"
        "fj_jobType j' = fj_jobType job"
      show ?thesis
      proof (cases "stale_admitted index job")
        case True
        then show ?thesis using adm o r by (simp add: handshake_ok_def)
      next
        case False
        then show ?thesis using o r by (intro handshake_keep [OF ok]) (auto simp: terminalFederatedStatus_def)
      qed
    qed
  qed
qed

text \<open>The scheduler's calls on queued and blocked jobs touch no pause.\<close>

lemma assign_outcome:
  assumes "assign_update p opts i jobs now job = Some j"
  shows "fj_status job = FsQueued \<and> fj_pause j = fj_pause job \<and> fj_retryCount j = fj_retryCount job \<and>
    fj_maxRetries j = fj_maxRetries job"
  using assms
  by (auto simp: assign_update_def prepareFederatedAssignment_def listener_block_def assigned_record_def with_failure_def
      split: if_splits option.splits sum.splits)

lemma unstarted_no_pause:
  "isRecoverableFederatedSchedulingBlock job \<Longrightarrow> fj_pause job = None"
  "isDependencyCompletionReleaseCandidate job \<Longrightarrow> fj_pause job = None"
  by (auto simp: isRecoverableFederatedSchedulingBlock_def isDependencyCompletionReleaseCandidate_def
      isUnstartedFederatedSchedulingBlock_def split: if_splits)

lemma requeued_more [simp]:
  "fj_pause (requeued a kvs now j) = fj_pause j" "fj_retryCount (requeued a kvs now j) = fj_retryCount j"
  "fj_maxRetries (requeued a kvs now j) = fj_maxRetries j"
  "fj_retryCount (with_failure f j) = fj_retryCount j" "fj_maxRetries (with_failure f j) = fj_maxRetries j"
  by (simp_all add: requeued_def with_failure_def)

lemma dependency_outcome:
  assumes "release_dependency p d s now job = Some j"
  shows "fj_pause job = None \<and> fj_pause j = None \<and> fj_retryCount j = fj_retryCount job \<and> fj_maxRetries j = fj_maxRetries job"
proof -
  have "isDependencyCompletionReleaseCandidate job"
    using assms by (auto simp: release_dependency_def Let_def split: if_splits)
  then show ?thesis using assms unstarted_no_pause(2) [of job]
    by (auto simp: release_dependency_def Let_def split: if_splits option.splits)
qed

lemma recheck_outcome:
  assumes "recheck_block p jobs now job = Some j"
  shows "fj_pause job = None \<and> fj_pause j = None \<and> fj_retryCount j = fj_retryCount job \<and> fj_maxRetries j = fj_maxRetries job"
proof -
  have "isRecoverableFederatedSchedulingBlock job"
    using assms by (auto simp: recheck_block_def split: if_splits)
  then show ?thesis using assms unstarted_no_pause(1) [of job]
    by (auto simp: recheck_block_def Let_def split: if_splits option.splits sum.splits)
qed

lemma handshake_step: "handshake_ok job \<Longrightarrow> handshake_ok (job_step c job)"
proof (cases c)
  case (JcAssign p opts i jobs now)
  assume ok: "handshake_ok job"
  have "handshake_ok j" if "assign_update p opts i jobs now job = Some j" for j
    using assign_outcome [OF that] ok by (auto simp: handshake_ok_def split: option.splits)
  then show ?thesis using ok JcAssign by (auto intro: kept_opt_induct)
next
  case (JcRecheck p jobs now)
  assume ok: "handshake_ok job"
  have "handshake_ok j" if "recheck_block p jobs now job = Some j" for j
    using recheck_outcome [OF that] by (simp add: handshake_no_pause)
  then show ?thesis using ok JcRecheck by (auto intro: kept_opt_induct)
next
  case (JcDependency p d s now)
  assume ok: "handshake_ok job"
  have "handshake_ok j" if "release_dependency p d s now job = Some j" for j
    using dependency_outcome [OF that] by (simp add: handshake_no_pause)
  then show ?thesis using ok JcDependency by (auto intro: kept_opt_induct)
qed (auto intro: kept_induct kept_opt_induct handshake_pause handshake_release handshake_request handshake_claim
      handshake_acknowledge handshake_manual handshake_event handshake_renew handshake_cancel handshake_recover)

interpretation handshake: invariant_machine job_step "\<lambda>c j. True" handshake_ok
  by unfold_locales (rule handshake_step)

end
