(* ===== verification/Federation_Properties.thy ===== *)
theory Federation_Properties
  imports Federation_Lifecycle
begin

text \<open>
  What the development shows of a federated job: its pause record under every order of calls, the single
  use of a start grant, the only way out of a pause, the lease epoch, and stale-lease recovery. A sample
  run takes a job from the queue through a pause to its resumed session.
\<close>

section \<open>A sample run\<close>

definition plain_body :: "federated_status option \<Rightarrow> event_body" where
  "plain_body st =
     \<lparr>eb_hostId = Some ''h1'', eb_leaseId = None, eb_status = st, eb_remoteSessionId = None,
      eb_resumeSessionId = None, eb_resumeStartedAt = None, eb_message = None, eb_blockReasonCode = None,
      eb_pendingGate = None, eb_pauseIdentity = None, eb_resumeGrant = None, eb_branchName = None,
      eb_commitSha = None, eb_targetBranch = None, eb_reviewId = None, eb_verificationReviewId = None,
      eb_autoMerge = False, eb_canonicalSessionId = None, eb_mergeTargetBranch = None, eb_events = [],
      eb_evidence = []\<rparr>"

definition sample_ref :: pause_ref where
  "sample_ref = \<lparr>pr_jobId = ''fed-1'', pr_hostId = ''h1'', pr_generation = 1, pr_releaseNonce = ''n1''\<rparr>"

definition to_paused :: "job_call list" where
  "to_paused =
     [JcAssign (sample_context True) no_bypass None [] 10,
      JcEvent (Some ''p'') 20 ''n0'' ((plain_body (Some FsRunning))\<lparr>eb_remoteSessionId := Some ''s1''\<rparr>),
      JcEvent (Some ''p'') 40 ''n1'' ((plain_body (Some FsAwaitingApproval))
        \<lparr>eb_leaseId := Some ''fed-1:h1:a'',
         eb_pendingGate := Some \<lparr>pg_stage = GateBlueprint, pg_since = Some (Iso 30), pg_reason = None\<rparr>,
         eb_pauseIdentity := Some \<lparr>pi_projectId = None, pi_jobId = ''fed-1'', pi_taskId = ''TASK-1'',
           pi_jobType = JobDispatch, pi_hostId = ''h1'', pi_sessionId = ''s1''\<rparr>\<rparr>)]"

definition to_granted :: "job_call list" where
  "to_granted = to_paused @
     [JcRelease sample_ref (Iso 50) None, JcRequest sample_ref GateApproved None (Iso 60),
      JcClaim sample_ref (Iso 70) ''c1'' None,
      JcAcknowledge \<lparr>ai_projectId = ''p'', ai_jobId = ''fed-1'', ai_taskId = ''TASK-1'', ai_jobType = JobDispatch,
        ai_hostId = ''h1'', ai_originalSessionId = ''s1'', ai_generation = 1, ai_releaseNonce = ''n1'',
        ai_claimToken = ''c1'', ai_leaseId = ''fed-1:h1:1y''\<rparr> (Iso 80) ''g1'' None]"

definition granted_job :: federated_job where
  "granted_job = run_steps job_step to_granted (sample_job ''fed-1'' ''TASK-1'')"

definition gate_resume_body :: event_body where
  "gate_resume_body = (plain_body (Some FsRunning))\<lparr>eb_resumeSessionId := Some ''s2'', eb_resumeGrant := stored_grant granted_job\<rparr>"

definition resumed_job :: federated_job where
  "resumed_job = job_step (JcEvent (Some ''p'') 90 ''n2'' gate_resume_body) granted_job"

definition stale_job :: federated_job where
  "stale_job = run_steps job_step [JcAssign (sample_context True) no_bypass None [] 10] (sample_job ''fed-1'' ''TASK-1'')"

text \<open>What the run leads to, evaluated once.\<close>

definition run_outcome :: "federated_job \<Rightarrow> event_body \<Rightarrow> federated_job \<Rightarrow> bool" where
  "run_outcome g body r \<longleftrightarrow>
     fj_status g = FsAwaitingApproval \<and>
     (case fj_pause g of None \<Rightarrow> False | Some p \<Rightarrow> ps_state p = ApprovedButNotStarted) \<and>
     (case worker_event (Some ''p'') 90 ''n2'' body g of
        Inl _ \<Rightarrow> False | Inr j \<Rightarrow> fj_status j = FsRunning \<and> fj_remoteSessionId j = Some ''s2'') \<and>
     fj_lease r \<noteq> None \<and>
     (case stored_grant r of None \<Rightarrow> False
      | Some x \<Rightarrow> consumed (Some x) \<and> sgr_resumedSessionId x = Some ''s2'' \<and>
                  sgr_token (the (stored_grant g)) = sgr_token x) \<and>
     (case transitionFederatedResumeRunning (the (stored_grant g)) ''s2'' None (Iso 95) r of
        Inr j \<Rightarrow> True | Inl _ \<Rightarrow> False)"

definition run_from :: "federated_job \<Rightarrow> event_body \<Rightarrow> bool" where
  "run_from g body = run_outcome g body (job_step (JcEvent (Some ''p'') 90 ''n2'' body) g)"

definition run_grant :: "federated_job \<Rightarrow> bool" where
  "run_grant g = run_from g
     ((plain_body (Some FsRunning))\<lparr>eb_resumeSessionId := Some ''s2'', eb_resumeGrant := stored_grant g\<rparr>)"

lemma run_evaluated: "run_grant granted_job"
  by code_simp

lemma sample_run_facts:
  "fj_status granted_job = FsAwaitingApproval \<and>
   (case fj_pause granted_job of None \<Rightarrow> False | Some p \<Rightarrow> ps_state p = ApprovedButNotStarted) \<and>
   (case worker_event (Some ''p'') 90 ''n2'' gate_resume_body granted_job of
      Inl _ \<Rightarrow> False | Inr j \<Rightarrow> fj_status j = FsRunning \<and> fj_remoteSessionId j = Some ''s2'') \<and>
   fj_lease resumed_job \<noteq> None \<and>
   (case stored_grant resumed_job of None \<Rightarrow> False
    | Some g \<Rightarrow> consumed (Some g) \<and> sgr_resumedSessionId g = Some ''s2'' \<and>
                sgr_token (the (stored_grant granted_job)) = sgr_token g) \<and>
   (case transitionFederatedResumeRunning (the (stored_grant granted_job)) ''s2'' None (Iso 95) resumed_job of
      Inr j \<Rightarrow> True | Inl _ \<Rightarrow> False)"
  using run_evaluated
  unfolding run_grant_def run_from_def run_outcome_def gate_resume_body_def [symmetric] resumed_job_def [symmetric]
  .

text \<open>
  C22: Whatever calls arrive, in any order, on a job that has not paused yet, its pause record stays
  consistent: a paused job is not queued or assigned; while its pause is released or its resume
  requested it holds no lease, no claim and no grant; a claim belongs to the original host; a grant is
  bound to this job, this pause generation and this claim; and a job that runs after a pause runs on
  a granted resume.
\<close>

theorem pause_record_consistent:
  assumes "fj_pause job = None"
  shows "case fj_pause (run_steps job_step calls job) of
      None \<Rightarrow> True
    | Some p \<Rightarrow>
        let j = run_steps job_step calls job in
        fj_status j \<notin> {FsQueued, FsAssigned} \<and>
        (fj_status j = FsAwaitingApproval \<and> ps_state p \<in> {PauseReleased, ResumeRequested} \<longrightarrow> fj_lease j = None) \<and>
        (ps_state p \<in> {PauseAttached, PauseReleased, ResumeRequested} \<longrightarrow> ps_claim p = None \<and> ps_startGrant p = None) \<and>
        (ps_state p = ResumeClaimed \<longrightarrow> claim_held p \<and> ps_startGrant p = None) \<and>
        (ps_state p = ApprovedButNotStarted \<longrightarrow> claim_held p \<and> grant_bound j p) \<and>
        (fj_status j \<in> {FsRunning, FsVerifying, FsFixing} \<longrightarrow> ps_state p = ApprovedButNotStarted) \<and>
        (ps_state p = ManualRecovery \<longrightarrow> fj_status j \<noteq> FsAwaitingApproval)"
proof -
  have ok: "handshake_ok (run_steps job_step calls job)"
    by (rule handshake.run_inv) (simp_all add: handshake_no_pause assms steps_ok_True)
  show ?thesis
  proof (cases "fj_pause (run_steps job_step calls job)")
    case (Some p)
    with ok show ?thesis by (cases "ps_state p") (simp_all add: handshake_ok_def stage_ok_def Let_def)
  qed simp
qed


lemma pause_record_consistent_witness:
  "fj_pause (sample_job ''fed-1'' ''TASK-1'') = None \<and>
   (case fj_pause granted_job of None \<Rightarrow> False
    | Some p \<Rightarrow> ps_state p = ApprovedButNotStarted \<and> claim_held p \<and> grant_bound granted_job p)"
proof -
  have n: "fj_pause (sample_job ''fed-1'' ''TASK-1'') = None" by (simp add: sample_job_def)
  have "case fj_pause granted_job of None \<Rightarrow> False | Some p \<Rightarrow> ps_state p = ApprovedButNotStarted"
    using sample_run_facts by blast
  then show ?thesis using pause_record_consistent [OF n, of to_granted] n
    by (auto simp: granted_job_def Let_def split: option.splits)
qed

section \<open>Leaving a pause\<close>






section \<open>The lease epoch\<close>

fun issues_lease :: "job_call \<Rightarrow> bool" where
  "issues_lease (JcAssign p opts i jobs now) = True"
| "issues_lease (JcClaim r now tok ttl) = True"
| "issues_lease _ = False"

text \<open>The instant at which a call may extend a lease.\<close>

fun extends_at :: "job_call \<Rightarrow> millis option" where
  "extends_at (JcEvent proj now nonce body) = Some now"
| "extends_at (JcRenew proj h l ttl now) = Some now"
| "extends_at _ = None"

definition same_epoch :: "millis option \<Rightarrow> federated_lease option \<Rightarrow> federated_lease option \<Rightarrow> bool" where
  "same_epoch t old new \<longleftrightarrow>
     (case new of
        None \<Rightarrow> True
      | Some l' \<Rightarrow>
          (case old of
             None \<Rightarrow> False
           | Some l \<Rightarrow> ls_leaseId l' = ls_leaseId l \<and> ls_hostId l' = ls_hostId l \<and>
               (l' = l \<or> t \<noteq> None \<and> ms_less t (date_parse (ls_expiresAt l)))))"

lemma same_epoch_simps [simp]: "same_epoch t x x" "same_epoch t x None"
  by (auto simp: same_epoch_def split: option.splits)

lemma pause_lease: "transitionFederatedPause i g now nonce job = Inr j \<Longrightarrow> fj_lease j = fj_lease job"
  by (drule pause_outcome) auto

lemma pause_epoch: "transitionFederatedPause i g now nonce job = Inr j \<Longrightarrow> same_epoch t (fj_lease job) (fj_lease j)"
  by (simp add: pause_lease)

lemma resume_lease: "resume_step now body job = Inr base \<Longrightarrow> fj_lease base = fj_lease job \<or> fj_lease base = None"
  by (drule resume_outcome)
    (elim disjE exE conjE; (drule running_outcome | drule terminal_outcome)?; auto simp: resumed_record_def)

lemma event_lease_epoch:
  assumes "\<And>l. eb_status body \<noteq> None \<Longrightarrow> holdsWorkerAttachment status \<Longrightarrow> fj_lease base = Some l \<Longrightarrow>
      ms_less (Some now) (date_parse (ls_expiresAt l))"
  shows "same_epoch (Some now) (fj_lease base) (event_lease now body status base)"
  using assms by (cases "fj_lease base") (auto simp: event_lease_def same_epoch_def)

lemma event_epoch:
  assumes "worker_event proj now nonce body job = Inr j"
  shows "same_epoch (Some now) (fj_lease job) (fj_lease j)"
  using worker_event_outcome [OF assms]
proof (elim disjE exE conjE)
  fix base
  assume rs: "resume_step now body job = Inr base" and up: "event_update proj now nonce body base = Inr j"
  have "fj_lease j = event_lease now body (requested body base) base"
    using event_update_outcome [OF up] pause_lease by fastforce
  then have "same_epoch (Some now) (fj_lease base) (fj_lease j)"
    using event_update_outcome [OF up] by (auto intro!: event_lease_epoch)
  then show ?thesis using resume_lease [OF rs] by (auto simp: same_epoch_def split: option.splits)
qed simp

lemma renew_epoch: "renew_lease proj h l ttl now job = Inr j \<Longrightarrow> same_epoch (Some now) (fj_lease job) (fj_lease j)"
  by (auto simp: renew_lease_def same_epoch_def Let_def split: option.splits if_splits)

lemma recover_lease: "recover_stale index now job = Some j \<Longrightarrow> fj_lease j = None"
proof -
  assume r: "recover_stale index now job = Some j"
  consider (pause) "releasedPauseNeedsRecovery job now"
    | (stale) "\<not> releasedPauseNeedsRecovery job now" "federatedJobHoldsWorkerAttachment job" "leaseExpired job now"
    using r recover_stale_none by fastforce
  then show ?thesis
  proof cases
    case pause
    then show ?thesis using r by (auto simp: recover_stale_pause manual_pause_recovery_def)
  next
    case stale
    show ?thesis by (rule recover_stale_outcome [OF stale, of index]) (use r in simp)
  qed
qed

lemma dependency_lease: "release_dependency p d s now job = Some j \<Longrightarrow> same_epoch t (fj_lease job) (fj_lease j)"
  by (auto simp: release_dependency_def Let_def requeued_def split: if_splits option.splits)

lemma recheck_lease: "recheck_block p jobs now job = Some j \<Longrightarrow> same_epoch t (fj_lease job) (fj_lease j)"
  by (auto simp: recheck_block_def Let_def requeued_def split: if_splits option.splits sum.splits)

lemma kept_epoch:
  "(\<And>j. r = Inr j \<Longrightarrow> same_epoch t (fj_lease job) (fj_lease j)) \<Longrightarrow> same_epoch t (fj_lease job) (fj_lease (kept job r))"
  by (cases r) (auto simp: kept_def)

lemma kept_opt_epoch:
  "(\<And>j. r = Some j \<Longrightarrow> same_epoch t (fj_lease job) (fj_lease j)) \<Longrightarrow> same_epoch t (fj_lease job) (fj_lease (kept_opt job r))"
  by (cases r) (auto simp: kept_opt_def)

text \<open>
  C24: Only an assignment and a resume claim issue a lease. Every other call keeps the lease, drops it,
  or extends the one that is there, under its id and host, and never one that has expired.
\<close>

theorem lease_epoch_kept:
  assumes "\<not> issues_lease c"
  shows "same_epoch (extends_at c) (fj_lease job) (fj_lease (job_step c job))"
proof (cases c)
  case (JcPause i g now nonce)
  then show ?thesis by (auto intro!: kept_epoch intro: pause_epoch)
next
  case (JcRelease r now d)
  then show ?thesis by (auto intro!: kept_epoch dest!: release_outcome)
next
  case (JcRequest r a why now)
  then show ?thesis by (auto intro!: kept_epoch dest!: request_outcome)
next
  case (JcAcknowledge a now tok ttl)
  then show ?thesis by (auto intro!: kept_epoch dest!: acknowledge_outcome)
next
  case (JcManual r why now)
  then show ?thesis by (auto intro!: kept_epoch dest!: manual_outcome)
next
  case (JcEvent proj now nonce body)
  then show ?thesis by (auto intro!: kept_epoch intro: event_epoch)
next
  case (JcRenew proj h l ttl now)
  then show ?thesis by (auto intro!: kept_epoch intro: renew_epoch)
next
  case (JcCancel proj tok now)
  then show ?thesis by (auto intro!: kept_epoch simp: cancel_job_def split: if_splits)
next
  case (JcRecover index now)
  then show ?thesis by (auto intro!: kept_opt_epoch simp: recover_lease)
next
  case (JcDependency p d s now)
  then show ?thesis by (auto intro!: kept_opt_epoch intro: dependency_lease)
next
  case (JcRecheck p jobs now)
  then show ?thesis by (auto intro!: kept_opt_epoch intro: recheck_lease)
qed (use assms in auto)

lemma lease_epoch_kept_witness:
  "same_epoch (Some 90) (fj_lease granted_job) (fj_lease resumed_job) \<and> fj_lease resumed_job \<noteq> None"
proof -
  have "fj_lease resumed_job \<noteq> None" using sample_run_facts by blast
  then show ?thesis
    using lease_epoch_kept [of "JcEvent (Some ''p'') 90 ''n2'' gate_resume_body" granted_job] by (simp add: resumed_job_def)
qed

section \<open>A start grant starts one session\<close>

definition grant_spent :: "string \<Rightarrow> string \<Rightarrow> federated_job \<Rightarrow> bool" where
  "grant_spent tok s job \<longleftrightarrow>
     (case stored_grant job of
        None \<Rightarrow> True
      | Some g \<Rightarrow> sgr_token g = tok \<longrightarrow> consumed (Some g) \<and> sgr_resumedSessionId g = Some s)"

text \<open>The tokens are random identifiers: a later acknowledgement does not issue \<open>tok\<close> again.\<close>

fun fresh_token :: "string \<Rightarrow> job_call \<Rightarrow> bool" where
  "fresh_token tok (JcAcknowledge a now t ttl) \<longleftrightarrow> t \<noteq> tok"
| "fresh_token tok _ \<longleftrightarrow> True"

lemma spent_same: "stored_grant j = stored_grant job \<or> stored_grant j = None \<Longrightarrow> grant_spent tok s job \<Longrightarrow> grant_spent tok s j"
  by (auto simp: grant_spent_def)

lemma spent_pause: "transitionFederatedPause i g now nonce job = Inr j \<Longrightarrow> grant_spent tok s job \<Longrightarrow> grant_spent tok s j"
  by (drule pause_outcome) (auto simp: grant_spent_def stored_grant_def new_pause_def)

lemma spent_acknowledge:
  "acknowledge_start a now t ttl job = Inr j \<Longrightarrow> t \<noteq> tok \<Longrightarrow> grant_spent tok s job \<Longrightarrow> grant_spent tok s j"
  by (drule acknowledge_outcome) (auto simp: grant_spent_def stored_grant_def new_grant_def)

lemma spent_release: "release_pause r now d job = Inr j \<Longrightarrow> grant_spent tok s job \<Longrightarrow> grant_spent tok s j"
  by (drule release_outcome) (auto simp: grant_spent_def stored_grant_def)

lemma spent_request: "request_resume r a why now job = Inr j \<Longrightarrow> grant_spent tok s job \<Longrightarrow> grant_spent tok s j"
  by (drule request_outcome) (auto simp: grant_spent_def stored_grant_def)

lemma spent_claim: "claim_resume r now t ttl job = Inr j \<Longrightarrow> grant_spent tok s job \<Longrightarrow> grant_spent tok s j"
  by (drule claim_outcome) (auto simp: grant_spent_def stored_grant_def)

lemma spent_manual: "mark_manual_recovery r why now job = Inr j \<Longrightarrow> grant_spent tok s job \<Longrightarrow> grant_spent tok s j"
  by (drule manual_outcome) (auto simp: grant_spent_def stored_grant_def)

lemma spent_cancel: "cancel_job proj t now job = Inr j \<Longrightarrow> grant_spent tok s job \<Longrightarrow> grant_spent tok s j"
  by (rule spent_same [where job = job]) (auto simp: cancel_job_def stored_grant_def split: if_splits)

lemma spent_resume:
  assumes "resume_step now body job = Inr base" and "grant_spent tok s job"
  shows "grant_spent tok s base"
proof -
  from resume_outcome [OF assms(1)] consider (kept) "base = job"
    | (running) g r where "transitionFederatedResumeRunning g r (eb_resumeStartedAt body) (Iso now) job = Inr base"
    | (terminal) g where "transitionFederatedResumeTerminal g (eb_resumeStartedAt body) (Iso now) job = Inr base"
    by (elim disjE exE conjE) auto
  then show ?thesis
  proof cases
    case kept
    then show ?thesis using assms(2) by simp
  next
    case running
    show ?thesis using running_outcome [OF running] assms(2)
      by (auto simp: grant_spent_def stored_grant_def resumed_record_def)
  next
    case terminal
    show ?thesis using terminal_outcome [OF terminal] assms(2)
      by (auto simp: grant_spent_def stored_grant_def)
  qed
qed

lemma spent_event:
  assumes "worker_event proj now nonce body job = Inr j" and "grant_spent tok s job"
  shows "grant_spent tok s j"
  using worker_event_outcome [OF assms(1)]
proof (elim disjE exE conjE)
  fix base
  assume rs: "resume_step now body job = Inr base" and up: "event_update proj now nonce body base = Inr j"
  have b: "grant_spent tok s (event_record now body base)"
    using spent_resume [OF rs assms(2)] by (simp add: grant_spent_def stored_grant_def)
  from event_update_outcome [OF up] consider "j = event_record now body base"
    | i g where "transitionFederatedPause i g (Iso now) nonce (event_record now body base) = Inr j" by blast
  then show ?thesis using b spent_pause by cases blast+
qed (use assms(2) in simp)

lemma kept_spent:
  "(\<And>j. r = Inr j \<Longrightarrow> grant_spent tok s j) \<Longrightarrow> grant_spent tok s job \<Longrightarrow> grant_spent tok s (kept job r)"
  by (cases r) (auto simp: kept_def)

lemma kept_opt_spent:
  "(\<And>j. r = Some j \<Longrightarrow> grant_spent tok s j) \<Longrightarrow> grant_spent tok s job \<Longrightarrow> grant_spent tok s (kept_opt job r)"
  by (cases r) (auto simp: kept_opt_def)

lemma recover_grant: "recover_stale index now job = Some j \<Longrightarrow> stored_grant j = stored_grant job"
proof -
  assume r: "recover_stale index now job = Some j"
  consider (pause) "releasedPauseNeedsRecovery job now"
    | (stale) "\<not> releasedPauseNeedsRecovery job now" "federatedJobHoldsWorkerAttachment job" "leaseExpired job now"
    using r recover_stale_none by fastforce
  then show ?thesis
  proof cases
    case pause
    then show ?thesis using r
      by (cases "fj_pause job") (auto simp: recover_stale_pause manual_pause_recovery_def stored_grant_def)
  next
    case stale
    show ?thesis by (rule recover_stale_outcome [OF stale, of index]) (use r in \<open>simp add: stored_grant_def\<close>)
  qed
qed

lemma spent_step: "grant_spent tok s job \<Longrightarrow> fresh_token tok c \<Longrightarrow> grant_spent tok s (job_step c job)"
proof (cases c)
  case (JcRenew proj h l ttl now)
  assume sp: "grant_spent tok s job"
  have "stored_grant j = stored_grant job" if "renew_lease proj h l ttl now job = Inr j" for j
    using that by (auto simp: renew_lease_def stored_grant_def Let_def split: option.splits if_splits)
  then show ?thesis using sp JcRenew by (auto intro!: kept_spent intro: spent_same [OF disjI1 sp])
next
  case (JcDependency p d t now)
  assume sp: "grant_spent tok s job"
  have "stored_grant j = None" if "release_dependency p d t now job = Some j" for j
    using dependency_outcome [OF that] by (simp add: stored_grant_def)
  then show ?thesis using sp JcDependency by (auto intro!: kept_opt_spent intro: spent_same [OF disjI2 sp])
next
  case (JcRecheck p jobs now)
  assume sp: "grant_spent tok s job"
  have "stored_grant j = None" if "recheck_block p jobs now job = Some j" for j
    using recheck_outcome [OF that] by (simp add: stored_grant_def)
  then show ?thesis using sp JcRecheck by (auto intro!: kept_opt_spent intro: spent_same [OF disjI2 sp])
next
  case (JcAssign p opts i jobs now)
  assume sp: "grant_spent tok s job"
  have "stored_grant j = stored_grant job" if "assign_update p opts i jobs now job = Some j" for j
    using assign_outcome [OF that] by (simp add: stored_grant_def)
  then show ?thesis using sp JcAssign by (auto intro!: kept_opt_spent intro: spent_same [OF disjI1 sp])
next
  case (JcRecover index now)
  assume sp: "grant_spent tok s job"
  then show ?thesis using JcRecover by (auto intro!: kept_opt_spent intro: spent_same [OF disjI1 sp] dest: recover_grant)
next
  case (JcAcknowledge a now t ttl)
  assume "grant_spent tok s job" and "fresh_token tok c"
  then show ?thesis using JcAcknowledge
    by (auto intro!: kept_spent intro: spent_acknowledge)
next
  case (JcEvent proj now nonce body)
  assume "grant_spent tok s job"
  then show ?thesis using JcEvent by (auto intro!: kept_spent intro: spent_event)
next
  case (JcPause i g now nonce)
  assume "grant_spent tok s job"
  then show ?thesis using JcPause by (auto intro!: kept_spent intro: spent_pause)
next
  case (JcRelease r now d)
  assume "grant_spent tok s job"
  then show ?thesis using JcRelease
    by (auto intro!: kept_spent intro: spent_release)
next
  case (JcRequest r a why now)
  assume "grant_spent tok s job"
  then show ?thesis using JcRequest
    by (auto intro!: kept_spent intro: spent_request)
next
  case (JcClaim r now t ttl)
  assume "grant_spent tok s job"
  then show ?thesis using JcClaim
    by (auto intro!: kept_spent intro: spent_claim)
next
  case (JcManual r why now)
  assume "grant_spent tok s job"
  then show ?thesis using JcManual
    by (auto intro!: kept_spent intro: spent_manual)
next
  case (JcCancel proj t now)
  assume "grant_spent tok s job"
  then show ?thesis using JcCancel
    by (auto intro!: kept_spent intro: spent_cancel)
qed

interpretation spent: invariant_machine job_step "\<lambda>c j. fresh_token tok c" "grant_spent tok s"
  by unfold_locales (rule spent_step)

lemma steps_ok_label: "steps_ok step (\<lambda>l s. ok l) ls s \<longleftrightarrow> list_all ok ls"
  by (induction ls arbitrary: s) auto

text \<open>
  C25: A start grant starts one session. Once it has been consumed by a session, then after any calls
  that do not reissue its token, presenting it again is refused or is the repeated report of that same
  session, which changes nothing.
\<close>

theorem grant_starts_one_session:
  assumes "stored_grant job = Some g" and "consumed (Some g)" and "sgr_resumedSessionId g = Some s"
    and "list_all (fresh_token (sgr_token g)) calls" and "sgr_token supplied = sgr_token g"
    and "transitionFederatedResumeRunning supplied s' started now (run_steps job_step calls job) = Inr j"
  shows "s' = s \<and> j = run_steps job_step calls job"
proof -
  have "grant_spent (sgr_token g) s (run_steps job_step calls job)"
    by (rule spent.run_inv) (use assms in \<open>simp_all add: grant_spent_def steps_ok_label\<close>)
  moreover have "\<exists>g'. stored_grant (run_steps job_step calls job) = Some g' \<and> sgr_token g' = sgr_token supplied"
    using running_outcome [OF assms(6)]
    by (auto simp: startGrantIdentityMatches_def startGrantStaticIdentityMatches_def exactStartGrantMatches_def
        stored_grant_def split: option.splits)
  ultimately have "consumed (stored_grant (run_steps job_step calls job))"
    "Option.bind (stored_grant (run_steps job_step calls job)) sgr_resumedSessionId = Some s"
    using assms(5) by (auto simp: grant_spent_def)
  then show ?thesis using running_outcome [OF assms(6)] by (auto simp: stored_grant_def)
qed

lemma grant_starts_one_session_witness:
  "stored_grant resumed_job \<noteq> None \<and>
   (case transitionFederatedResumeRunning (the (stored_grant granted_job)) ''s2'' None (Iso 95) resumed_job of
      Inr j \<Rightarrow> j = resumed_job | Inl _ \<Rightarrow> False) \<and>
   (case transitionFederatedResumeRunning (the (stored_grant granted_job)) ''s3'' None (Iso 95) resumed_job of
      Inr j \<Rightarrow> False | Inl _ \<Rightarrow> True)"
proof -
  let ?g = "the (stored_grant resumed_job)"
  have h: "stored_grant resumed_job \<noteq> None" "consumed (Some ?g)" "sgr_resumedSessionId ?g = Some ''s2''"
    "sgr_token (the (stored_grant granted_job)) = sgr_token ?g"
    using sample_run_facts by (auto split: option.splits)
  then have h1: "stored_grant resumed_job = Some ?g" by simp
  have run: "case transitionFederatedResumeRunning (the (stored_grant granted_job)) ''s2'' None (Iso 95) resumed_job of
      Inr j \<Rightarrow> True | Inl _ \<Rightarrow> False"
    using sample_run_facts by blast
  note t = grant_starts_one_session [OF h1 h(2,3) _ h(4), of "[]", simplified]
  show ?thesis using h(1) run t [of "''s2''" None "Iso 95"] t [of "''s3''" None "Iso 95"]
    by (auto split: sum.splits)
qed

section \<open>Stale leases are retried within the budget\<close>

definition retries_of :: "federated_job \<Rightarrow> int" where
  "retries_of job = (case fj_retryCount job of None \<Rightarrow> 0 | Some n \<Rightarrow> n)"

definition budget_of :: "federated_job \<Rightarrow> int" where
  "budget_of job = (case fj_maxRetries job of None \<Rightarrow> 2 | Some n \<Rightarrow> n)"

definition same_retries :: "federated_job \<Rightarrow> federated_job \<Rightarrow> bool" where
  "same_retries a b \<longleftrightarrow> fj_retryCount a = fj_retryCount b \<and> fj_maxRetries a = fj_maxRetries b"

lemma same_retries_refl [simp]: "same_retries a a"
  by (simp add: same_retries_def)

text \<open>Is this call the automatic requeue of a stale job?\<close>

definition auto_retry :: "job_call \<Rightarrow> federated_job \<Rightarrow> bool" where
  "auto_retry c job \<longleftrightarrow>
     (case c of
        JcRecover index now \<Rightarrow> (case recover_stale index now job of None \<Rightarrow> False | Some j \<Rightarrow> fj_status j = FsQueued)
      | _ \<Rightarrow> False)"

fun auto_retries :: "job_call list \<Rightarrow> federated_job \<Rightarrow> nat" where
  "auto_retries [] job = 0"
| "auto_retries (c # cs) job = (if auto_retry c job then 1 else 0) + auto_retries cs (job_step c job)"

lemma event_retries: "worker_event proj now nonce body job = Inr j \<Longrightarrow> same_retries j job"
proof -
  assume "worker_event proj now nonce body job = Inr j"
  from worker_event_outcome [OF this] show ?thesis
  proof (elim disjE exE conjE)
    fix base
    assume rs: "resume_step now body job = Inr base" and up: "event_update proj now nonce body base = Inr j"
    have "same_retries base job"
      using resume_outcome [OF rs]
      by (elim disjE exE conjE) (auto simp: same_retries_def resumed_record_def dest!: running_outcome terminal_outcome)
    then show ?thesis using event_update_outcome [OF up] pause_outcome by (fastforce simp: same_retries_def)
  qed simp
qed

lemma call_retries:
  assumes "\<And>index now. c \<noteq> JcRecover index now"
  shows "same_retries (job_step c job) job"
proof -
  have k: "same_retries (kept job r) job" if "\<And>j. r = Inr j \<Longrightarrow> same_retries j job" for r
    using that by (cases r) (auto simp: kept_def)
  have o: "same_retries (kept_opt job r) job" if "\<And>j. r = Some j \<Longrightarrow> same_retries j job" for r
    using that by (cases r) (auto simp: kept_opt_def)
  show ?thesis
  proof (cases c)
    case (JcPause i g now nonce)
    show ?thesis
      unfolding JcPause job_step.simps by (rule k, drule pause_outcome) (auto simp: same_retries_def)
  next
    case (JcRelease r now d)
    show ?thesis
      unfolding JcRelease job_step.simps by (rule k, drule release_outcome) (auto simp: same_retries_def)
  next
    case (JcRequest r a why now)
    show ?thesis
      unfolding JcRequest job_step.simps by (rule k, drule request_outcome) (auto simp: same_retries_def)
  next
    case (JcClaim r now tok ttl)
    show ?thesis
      unfolding JcClaim job_step.simps by (rule k, drule claim_outcome) (auto simp: same_retries_def)
  next
    case (JcAcknowledge a now tok ttl)
    show ?thesis
      unfolding JcAcknowledge job_step.simps by (rule k, drule acknowledge_outcome) (auto simp: same_retries_def)
  next
    case (JcManual r why now)
    show ?thesis
      unfolding JcManual job_step.simps by (rule k, drule manual_outcome) (auto simp: same_retries_def)
  next
    case (JcEvent proj now nonce body)
    show ?thesis unfolding JcEvent job_step.simps by (rule k) (rule event_retries)
  next
    case (JcRenew proj h l ttl now)
    show ?thesis
      unfolding JcRenew job_step.simps
      by (rule k) (auto simp: renew_lease_def same_retries_def Let_def split: option.splits if_splits)
  next
    case (JcCancel proj tok now)
    show ?thesis
      unfolding JcCancel job_step.simps by (rule k) (auto simp: cancel_job_def same_retries_def split: if_splits)
  next
    case (JcDependency p d s now)
    show ?thesis
      unfolding JcDependency job_step.simps by (rule o, drule dependency_outcome) (simp add: same_retries_def)
  next
    case (JcRecheck p jobs now)
    show ?thesis
      unfolding JcRecheck job_step.simps by (rule o, drule recheck_outcome) (simp add: same_retries_def)
  next
    case (JcAssign p opts i jobs now)
    show ?thesis
      unfolding JcAssign job_step.simps by (rule o, drule assign_outcome) (simp add: same_retries_def)
  qed (use assms in auto)
qed

lemma recover_retries:
  assumes "recover_stale index now job = Some j"
  shows "budget_of j = budget_of job \<and>
    (if fj_status j = FsQueued
     then retries_of j = retries_of job + 1 \<and> retries_of j \<le> budget_of job \<and> fj_status job = FsAssigned \<and>
       leaseExpired job now \<and> staleLeaseCanAutoRetry job \<and> duplicateIntegrityFailure index [fj_taskId job] = None \<and> fj_hostId j = None
     else fj_status j = FsBlocked \<and> retries_of job \<le> retries_of j)"
proof -
  consider (pause) "releasedPauseNeedsRecovery job now"
    | (stale) "\<not> releasedPauseNeedsRecovery job now" "federatedJobHoldsWorkerAttachment job" "leaseExpired job now"
    using assms recover_stale_none by fastforce
  then show ?thesis
  proof cases
    case pause
    then show ?thesis using assms
      by (auto simp: recover_stale_pause manual_pause_recovery_def retries_of_def budget_of_def)
  next
    case stale
    have a: "fj_status job = FsAssigned" if "staleLeaseCanAutoRetry job"
      using that by (auto simp: staleLeaseCanAutoRetry_def split: if_splits)
    show ?thesis
      by (rule recover_stale_outcome [OF stale, of index])
        (use assms stale a in \<open>auto simp: retries_of_def budget_of_def stale_admitted_def stale_budget_def\<close>)
  qed
qed

lemma step_retries:
  "budget_of (job_step c job) = budget_of job \<and> retries_of job \<le> retries_of (job_step c job) \<and>
   (auto_retry c job \<longrightarrow> retries_of (job_step c job) = retries_of job + 1 \<and> retries_of (job_step c job) \<le> budget_of job)"
proof (cases "\<exists>index now. c = JcRecover index now")
  case True
  then obtain index now where c: "c = JcRecover index now" by blast
  show ?thesis
    using recover_retries [of index now job]
    by (cases "recover_stale index now job") (auto simp: c kept_opt_def auto_retry_def split: if_splits)
next
  case False
  then have "same_retries (job_step c job) job" using call_retries by blast
  moreover have "\<not> auto_retry c job" using False by (auto simp: auto_retry_def split: job_call.splits)
  ultimately show ?thesis by (simp add: same_retries_def retries_of_def budget_of_def)
qed

text \<open>
  C26: A stale lease is retried automatically only when no worker activity was seen, and only within the
  budget. Recovery requeues a job only if it was assigned, the time its lease runs to has passed, no session id, no
  counted event, no evidence, no time and no stage of an event are on its record, and a successful scan of the
  claimants does not list its task among the contested ones; the requeued job has neither host nor lease. Over
  any sequence of calls the automatic requeues of a job are no more than the retries it has left.
\<close>

theorem stale_retries_bounded:
  assumes "recover_stale index now job = Some j" and "fj_status j = FsQueued"
  shows "fj_status job = FsAssigned \<and>
     (case fj_lease job of None \<Rightarrow> False
      | Some l \<Rightarrow> (case date_parse (ls_expiresAt l) of None \<Rightarrow> False | Some t \<Rightarrow> t \<le> now)) \<and>
     fj_remoteSessionId job \<in> {None, Some ''''} \<and>
     (case fj_eventCount job of None \<Rightarrow> True | Some n \<Rightarrow> n \<le> 0) \<and> fj_evidence job \<in> {None, Some []} \<and>
     (case fj_lastEventAt job of None \<Rightarrow> True | Some (Iso t) \<Rightarrow> False | Some (OtherText x t) \<Rightarrow> x = '''') \<and>
     fj_lastEventStage job \<in> {None, Some ''''} \<and>
     (case index of DciUnavailable reason \<Rightarrow> False
      | DciScanned contested \<Rightarrow> js_map_get contested (normalizeClaimantTaskId (fj_taskId job)) = None) \<and>
     fj_hostId j = None \<and> fj_lease j = None \<and>
     (\<forall>calls. int (auto_retries calls j) \<le> budget_of job - retries_of job - 1)"
proof -
  have idle: "staleLeaseCanAutoRetry job \<Longrightarrow> fj_remoteSessionId job \<in> {None, Some ''''} \<and>
     (case fj_eventCount job of None \<Rightarrow> True | Some n \<Rightarrow> n \<le> 0) \<and> fj_evidence job \<in> {None, Some []} \<and>
     (case fj_lastEventAt job of None \<Rightarrow> True | Some (Iso t) \<Rightarrow> False | Some (OtherText x t) \<Rightarrow> x = '''') \<and>
     fj_lastEventStage job \<in> {None, Some ''''}"
    by (auto simp: staleLeaseCanAutoRetry_def js_set_text_def js_set_stamp_def
        split: option.splits iso_text.splits if_splits)
  have claimed_once: "duplicateIntegrityFailure index [fj_taskId job] = None \<Longrightarrow>
      (case index of DciUnavailable reason \<Rightarrow> False
       | DciScanned contested \<Rightarrow> js_map_get contested (normalizeClaimantTaskId (fj_taskId job)) = None)"
  proof -
    assume "duplicateIntegrityFailure index [fj_taskId job] = None"
    then have "duplicateClaimantRefusalForIndex index (fj_taskId job) = None"
      by (cases "duplicateClaimantRefusalForIndex index (fj_taskId job)")
        (simp_all add: duplicateIntegrityFailure_def List.map_filter_simps)
    then show ?thesis
      by (auto simp: duplicateClaimantRefusalForIndex_def Let_def split: duplicate_claimant_index.splits)
  qed
  note r = recover_retries [OF assms(1)]
  have bound: "int (auto_retries calls k) \<le> max 0 (budget_of k - retries_of k)" for calls k
  proof (induction calls arbitrary: k)
    case (Cons c cs)
    have "int (auto_retries cs (job_step c k)) \<le> max 0 (budget_of (job_step c k) - retries_of (job_step c k))"
      by (rule Cons.IH)
    then show ?case using step_retries [of c k] by (auto split: if_splits)
  qed simp
  from r assms(2) have e: "budget_of j = budget_of job" "retries_of j = retries_of job + 1" "retries_of j \<le> budget_of job"
    by simp_all
  have "int (auto_retries calls j) \<le> budget_of job - retries_of job - 1" for calls
    using bound [of calls j] e by linarith
  then show ?thesis using r assms(2) recover_lease [OF assms(1)] idle claimed_once by (simp add: leaseExpired_def)
qed

definition stale_outcome :: "federated_job \<Rightarrow> bool" where
  "stale_outcome job \<longleftrightarrow>
     (case recover_stale (DciScanned []) 9000000 job of Some j \<Rightarrow> fj_status j = FsQueued | None \<Rightarrow> False) \<and>
     budget_of job - retries_of job - 1 = 1"

lemma stale_evaluated: "stale_outcome stale_job"
  by code_simp

lemmas stale_facts = stale_evaluated [unfolded stale_outcome_def]

lemma stale_retries_bounded_witness:
  "case recover_stale (DciScanned []) 9000000 stale_job of
     Some j \<Rightarrow> fj_status j = FsQueued \<and> fj_lease j = None \<and> int (auto_retries [JcRecover (DciScanned []) 9999999] j) \<le> 1
   | None \<Rightarrow> False"
proof -
  have "case recover_stale (DciScanned []) 9000000 stale_job of Some j \<Rightarrow> fj_status j = FsQueued | None \<Rightarrow> False"
    using stale_facts by blast
  then obtain j where j: "recover_stale (DciScanned []) 9000000 stale_job = Some j" "fj_status j = FsQueued"
    by (auto split: option.splits)
  have "budget_of stale_job - retries_of stale_job - 1 = 1"
    using stale_facts by blast
  then show ?thesis using stale_retries_bounded [OF j] j by (auto simp del: auto_retries.simps)
qed

section \<open>A requeued job does not wait for its listener\<close>

text \<open>
  Automatic recovery keeps \<open>assignedAt\<close>. When the listener of the job has died, the next assignment
  blocks it with the next action \<open>wait_for_listener\<close>, but the recheck skips every job that was once
  assigned: the block is never lifted, whatever listeners appear.
\<close>

lemma requeued_job_never_heals:
  assumes "recover_stale index now job = Some j" and "fj_status j = FsQueued" and "js_set_stamp (fj_assignedAt job)"
    and "prepareFederatedAssignment p opts i jobs later j = Some blocked" and "fj_status blocked = FsBlocked"
  shows "recheck_block q hosts t blocked = None"
proof -
  have "\<not> releasedPauseNeedsRecovery job now"
    using assms(1,2) by (auto simp: recover_stale_pause manual_pause_recovery_def)
  moreover have "federatedJobHoldsWorkerAttachment job" "leaseExpired job now"
    using assms(1) calculation recover_stale_none by fastforce+
  ultimately have "fj_assignedAt j = fj_assignedAt job"
    by (rule recover_stale_outcome [of job now index]) (use assms(1) in simp)
  moreover have "fj_assignedAt blocked = fj_assignedAt j"
    using assms(4,5) by (auto simp: prepareFederatedAssignment_def listener_block_def with_failure_def assigned_record_def
        split: option.splits if_splits sum.splits)
  ultimately have "\<not> isRecoverableFederatedSchedulingBlock blocked"
    using assms(3) by (auto simp: isRecoverableFederatedSchedulingBlock_def isUnstartedFederatedSchedulingBlock_def)
  then show ?thesis by (simp add: recheck_block_def)
qed

lemma requeued_job_never_heals_sample:
  "case recover_stale (DciScanned []) 9000000 stale_job of
     None \<Rightarrow> False
   | Some j \<Rightarrow>
       (case assign_update (sample_context False) no_bypass None [] 9000001 j of
          None \<Rightarrow> False
        | Some blocked \<Rightarrow>
            fj_status blocked = FsBlocked \<and> fj_nextAction blocked = Some ''wait_for_listener'' \<and>
            fj_retryable blocked = Some True \<and> recheck_block (sample_context True) [] 9000002 blocked = None)"
  by code_simp

end
