(* ===== verification/Federation_Admission.thy ===== *)
theory Federation_Admission
  imports Federation_Capacity
begin

text \<open>
  How a job enters the queue (\<open>src/monitor/federation/jobs.ts\<close>, \<open>queue-admission.ts\<close>): its priority, the
  record that is minted, and the admission that keeps one unfinished job per task and type. An admission
  runs under the lock of its key; here nothing else touches the ledger between its listing and its
  write. The current time and the random suffix of a job id are arguments.
\<close>

section \<open>Priorities\<close>

datatype priority_input = PriorityNumber rat | PriorityText string

text \<open>\<open>/^P([0-4])(?:\b|-|_)/\<close> or \<open>/^P([0-4])$/\<close>: the digit.\<close>

definition priority_digit :: "string \<Rightarrow> char option" where
  "priority_digit label =
     (case label of
        p # d # rest \<Rightarrow>
          if p = CHR ''P'' \<and> d \<in> set ''01234'' \<and>
             (case rest of [] \<Rightarrow> True | c # _ \<Rightarrow> \<not> js_word_char c \<or> c = CHR ''-'' \<or> c = CHR ''_'')
          then Some d else None
      | _ \<Rightarrow> None)"

definition rankByPriority :: "char \<Rightarrow> rat" where
  "rankByPriority d =
     (if d = CHR ''0'' then 1000 else if d = CHR ''1'' then 800 else if d = CHR ''2'' then 600
      else if d = CHR ''3'' then 400 else 200)"

text \<open>\<open>Number.parseInt(s, 10)\<close> on a trimmed text; \<open>None\<close> is \<open>NaN\<close>.\<close>

definition parse_int10 :: "string \<Rightarrow> int option" where
  "parse_int10 s =
     (let (neg, body) = (case s of
            c # cs \<Rightarrow> if c = CHR ''-'' then (True, cs) else if c = CHR ''+'' then (False, cs) else (False, s)
          | [] \<Rightarrow> (False, s));
          ds = takeWhile js_digit body;
          n = int (foldl (\<lambda>n c. 10 * n + (of_char c - 48)) 0 ds)
      in if ds = [] then None else Some (if neg then - n else n))"

definition normalizeFederatedPriority :: "priority_input option \<Rightarrow> rat option \<times> string option" where
  "normalizeFederatedPriority value =
     (case value of
        None \<Rightarrow> (None, None)
      | Some (PriorityNumber n) \<Rightarrow> (Some n, None)
      | Some (PriorityText s) \<Rightarrow>
          if s = '''' then (None, None)
          else let label = js_to_upper (js_trim s) in
            (case priority_digit label of
               Some d \<Rightarrow> (Some (rankByPriority d), Some label)
             | None \<Rightarrow> (Some (case parse_int10 label of Some n \<Rightarrow> of_int n | None \<Rightarrow> 0), Some label)))"

section \<open>Minting\<close>

definition federatedJobId :: "string \<Rightarrow> millis \<Rightarrow> string \<Rightarrow> string" where
  "federatedJobId taskId now suffix = ''fed-'' @ js_to_lower taskId @ ''-'' @ base36 (Some now) @ ''-'' @ suffix"

record mint_input =
  mi_projectId :: "string option"
  mi_taskId :: string
  mi_jobType :: job_type
  mi_requiredCapabilities :: "string list"
  mi_provenance :: js_value
  mi_status :: federated_status
  mi_jobId :: "string option"
  mi_correlationId :: "string option"

text \<open>A record with only its core fields; \<open>extra\<close> sets optional ones and cannot override the core.\<close>

definition core_record :: "mint_input \<Rightarrow> string \<Rightarrow> millis \<Rightarrow> federated_job" where
  "core_record input jobId now =
     \<lparr>fj_projectId = mi_projectId input, fj_jobId = jobId, fj_taskId = mi_taskId input,
      fj_jobType = mi_jobType input, fj_status = mi_status input,
      fj_correlationId = (case mi_correlationId input of None \<Rightarrow> jobId | Some c \<Rightarrow> c),
      fj_requiredCapabilities = mi_requiredCapabilities input, fj_parentJobId = None, fj_priority = None,
      fj_priorityLabel = None, fj_preferredHostId = None, fj_hostId = None, fj_fallbackUsed = None,
      fj_retryable = None, fj_blockReasonCode = None, fj_error = None, fj_decision = [], fj_lease = None,
      fj_leaseTtlMs = None, fj_remoteSessionId = None, fj_branchName = None, fj_commitSha = None,
      fj_targetBranch = None, fj_lastEventAt = None, fj_lastEventStage = None, fj_eventCount = None,
      fj_evidence = None, fj_retryCount = None, fj_maxRetries = None, fj_nextAction = None,
      fj_queuedAt = None, fj_assignedAt = None, fj_staleAt = None, fj_completedAt = None,
      fj_reviewId = None, fj_verificationWorkflowId = None, fj_autoMerge = None, fj_skipDecomposeCheck = None,
      fj_mergeStatus = None, fj_mergeBinding = None, fj_pendingGate = None, fj_pause = None,
      fj_createdAt = Iso now, fj_updatedAt = Iso now, fj_canceledBy = None,
      fj_provenance = Some (mi_provenance input), fj_other = []\<rparr>"

definition mintFederatedJobRecord ::
  "mint_input \<Rightarrow> (federated_job \<Rightarrow> federated_job) \<Rightarrow> millis \<Rightarrow> string \<Rightarrow> federated_job" where
  "mintFederatedJobRecord input extra now suffix =
     (let jobId = (case mi_jobId input of None \<Rightarrow> federatedJobId (mi_taskId input) now suffix | Some i \<Rightarrow> i);
          core = core_record input jobId now
      in (extra core)\<lparr>fj_projectId := fj_projectId core, fj_jobId := fj_jobId core, fj_taskId := fj_taskId core,
           fj_jobType := fj_jobType core, fj_status := fj_status core, fj_correlationId := fj_correlationId core,
           fj_requiredCapabilities := fj_requiredCapabilities core, fj_provenance := fj_provenance core,
           fj_createdAt := fj_createdAt core, fj_updatedAt := fj_updatedAt core\<rparr>)"

record queue_input =
  qn_projectId :: "string option"
  qn_taskId :: string
  qn_jobType :: job_type
  qn_requiredCapabilities :: "string list"
  qn_provenance :: js_value
  qn_correlationId :: "string option"
  qn_parentJobId :: "string option"
  qn_preferredHostId :: "string option"
  qn_priority :: "priority_input option"
  qn_leaseTtlMs :: "int option"
  qn_maxRetries :: "int option"
  qn_branchName :: "string option"
  qn_commitSha :: "string option"
  qn_targetBranch :: "string option"
  qn_reviewId :: "string option"
  qn_autoMerge :: "bool option"
  qn_skipDecomposeCheck :: "bool option"
  qn_decision :: "(string \<times> js_value) list option"

definition queueFederatedJobRecord :: "queue_input \<Rightarrow> millis \<Rightarrow> string \<Rightarrow> federated_job" where
  "queueFederatedJobRecord input now suffix =
     (let priority = normalizeFederatedPriority (qn_priority input);
          record = mintFederatedJobRecord
            \<lparr>mi_projectId = qn_projectId input, mi_taskId = qn_taskId input, mi_jobType = qn_jobType input,
             mi_requiredCapabilities = qn_requiredCapabilities input, mi_provenance = qn_provenance input,
             mi_status = FsQueued, mi_jobId = None, mi_correlationId = qn_correlationId input\<rparr>
            (\<lambda>j. j\<lparr>fj_parentJobId := qn_parentJobId input, fj_preferredHostId := qn_preferredHostId input,
               fj_priority := fst priority, fj_priorityLabel := snd priority,
               fj_leaseTtlMs := qn_leaseTtlMs input, fj_retryCount := Some 0,
               fj_maxRetries := Some (max 0 (case qn_maxRetries input of None \<Rightarrow> 2 | Some n \<Rightarrow> n)),
               fj_branchName := qn_branchName input, fj_commitSha := qn_commitSha input,
               fj_targetBranch := qn_targetBranch input, fj_reviewId := qn_reviewId input,
               fj_autoMerge := qn_autoMerge input, fj_skipDecomposeCheck := qn_skipDecomposeCheck input,
               fj_mergeStatus := (if qn_autoMerge input = Some True then Some MergeNotRequested else None),
               fj_decision := (case qn_decision input of
                   Some d \<Rightarrow> d
                 | None \<Rightarrow> [(''reason'', JStr (if js_set_text (qn_preferredHostId input)
                     then ''Queued for preferred host '' @ the (qn_preferredHostId input) @ ''.''
                     else ''Queued for swarm scheduler assignment.''))]),
               fj_nextAction := Some ''schedule''\<rparr>) now suffix
      in record\<lparr>fj_queuedAt := Some (fj_createdAt record)\<rparr>)"

section \<open>Admission\<close>

text \<open>
  What two requests must agree on to be the same request; the source compares the JSON text of this
  tuple of fields.
\<close>

record execution_intent =
  ei_capabilities :: "string list"
  ei_parentJobId :: "string option"
  ei_preferredHostId :: "string option"
  ei_priority :: rat
  ei_leaseTtlMs :: "int option"
  ei_maxRetries :: int
  ei_branchName :: "string option"
  ei_commitSha :: "string option"
  ei_targetBranch :: "string option"
  ei_reviewId :: "string option"
  ei_autoMerge :: bool
  ei_skipDecomposeCheck :: bool

definition executionIntent :: "federated_job \<Rightarrow> execution_intent" where
  "executionIntent job =
     \<lparr>ei_capabilities = js_sort code_unit_compare (js_uniq (fj_requiredCapabilities job)),
      ei_parentJobId = fj_parentJobId job, ei_preferredHostId = fj_preferredHostId job,
      ei_priority = (case fj_priority job of None \<Rightarrow> 0 | Some p \<Rightarrow> p), ei_leaseTtlMs = fj_leaseTtlMs job,
      ei_maxRetries = (case fj_maxRetries job of None \<Rightarrow> 2 | Some n \<Rightarrow> n), ei_branchName = fj_branchName job,
      ei_commitSha = fj_commitSha job, ei_targetBranch = fj_targetBranch job, ei_reviewId = fj_reviewId job,
      ei_autoMerge = (fj_autoMerge job = Some True), ei_skipDecomposeCheck = (fj_skipDecomposeCheck job = Some True)\<rparr>"

definition unfinished :: "federated_job \<Rightarrow> bool" where
  "unfinished job \<longleftrightarrow> fj_status job \<notin> {FsCompleted, FsFailed, FsRejected, FsCanceled}"

definition unfinished_for :: "string \<Rightarrow> job_type \<Rightarrow> federated_job \<Rightarrow> bool" where
  "unfinished_for taskId ty job \<longleftrightarrow> normalizeClaimantTaskId (fj_taskId job) = taskId \<and> fj_jobType job = ty \<and> unfinished job"

datatype queue_admission =
    AdmissionOk federated_job bool
  | AdmissionDuplicate duplicate_claimant_refusal
  | AdmissionConflict "string list"
  | AdmissionThrows string

definition admit_existing :: "fed_context \<Rightarrow> federated_job \<Rightarrow> job_files \<Rightarrow> string \<Rightarrow> queue_admission option" where
  "admit_existing p proposed files jobId =
     (case loadFederatedJob files jobId of
        None \<Rightarrow> None
      | Some current \<Rightarrow>
          if \<not> unfinished current then None
          else if fj_projectId current \<noteq> fc_projectId p \<or> executionIntent current \<noteq> executionIntent proposed \<or>
                  fj_status current = FsBlocked \<and> \<not> isRecoverableFederatedSchedulingBlock current
          then Some (AdmissionConflict [fj_jobId current])
          else Some (AdmissionOk current False))"

definition admitFederatedQueueRecord ::
  "fed_context \<Rightarrow> queue_input \<Rightarrow> millis \<Rightarrow> string \<Rightarrow> job_files \<Rightarrow> queue_admission \<times> job_files" where
  "admitFederatedQueueRecord p input now suffix files =
     (if qn_projectId input \<noteq> fc_projectId p
      then (AdmissionThrows ''Queue admission requires a canonical project'', files)
      else let taskId = normalizeClaimantTaskId (qn_taskId input) in
        case duplicateClaimantRefusalForIndex (fc_claimants p) taskId of
          Some refusal \<Rightarrow> (AdmissionDuplicate refusal, files)
        | None \<Rightarrow>
            let proposed = queueFederatedJobRecord (input\<lparr>qn_taskId := taskId\<rparr>) now suffix;
                candidates = filter (unfinished_for taskId (qn_jobType input)) (listFederatedJobs files);
                create = (if isSafeFederatedJobId (fj_jobId proposed)
                          then (AdmissionOk proposed True, persistFederatedJob proposed files)
                          else (AdmissionThrows ''InvalidFederatedJobIdError'', files))
            in (case candidates of
                  [] \<Rightarrow> create
                | [c] \<Rightarrow> (case admit_existing p proposed files (fj_jobId c) of Some r \<Rightarrow> (r, files) | None \<Rightarrow> create)
                | _ \<Rightarrow> (AdmissionConflict (map fj_jobId candidates), files)))"

section \<open>One unfinished job per task and type\<close>

lemma queued_record_simps:
  "fj_projectId (queueFederatedJobRecord input now suffix) = qn_projectId input"
  "fj_taskId (queueFederatedJobRecord input now suffix) = qn_taskId input"
  "fj_jobType (queueFederatedJobRecord input now suffix) = qn_jobType input"
  "fj_status (queueFederatedJobRecord input now suffix) = FsQueued"
  by (simp_all add: queueFederatedJobRecord_def mintFederatedJobRecord_def core_record_def Let_def)

text \<open>What is asked for depends on the request only, not on the time or the identifier.\<close>

lemma intent_of_request:
  "executionIntent (queueFederatedJobRecord input now suffix) = executionIntent (queueFederatedJobRecord input now' suffix')"
  by (simp add: executionIntent_def queueFederatedJobRecord_def mintFederatedJobRecord_def core_record_def Let_def)

lemma candidate_loads:
  "filter P (listFederatedJobs files) = [c] \<Longrightarrow> loadFederatedJob files (fj_jobId c) = Some c \<and> P c"
proof -
  assume f: "filter P (listFederatedJobs files) = [c]"
  then have "c \<in> set (filter P (listFederatedJobs files))" by simp
  then show ?thesis by (simp add: in_listFederatedJobs)
qed

lemma list_new_record:
  assumes "js_map_get files (fj_jobId job) = None" and "isSafeFederatedJobId (fj_jobId job)"
  shows "listFederatedJobs (persistFederatedJob job files) = listFederatedJobs files @ [job]"
proof -
  let ?i = "fj_jobId job"
  have keys: "js_map_keys (persistFederatedJob job files) = js_map_keys files @ [?i]" and new: "?i \<notin> set (js_map_keys files)"
  proof -
    show "?i \<notin> set (js_map_keys files)" using assms(1) by (simp add: js_map_laws)
    then show "js_map_keys (persistFederatedJob job files) = js_map_keys files @ [?i]"
      unfolding persistFederatedJob_def js_map_keys_def js_map_set_def by (induction files) auto
  qed
  have "List.map_filter (loadFederatedJob (persistFederatedJob job files)) ks = List.map_filter (loadFederatedJob files) ks"
    if "?i \<notin> set ks" for ks
    using that by (induction ks) (auto simp: load_persist [OF assms(2)] split: option.splits)
  note same = this [OF new]
  have append: "List.map_filter f (xs @ [x]) = List.map_filter f xs @ (case f x of None \<Rightarrow> [] | Some y \<Rightarrow> [y])"
    for f :: "string \<Rightarrow> federated_job option" and xs x
    by (induction xs) (auto split: option.splits)
  from same show ?thesis
    by (simp add: listFederatedJobs_def keys load_persist [OF assms(2)] append)
qed

lemma admission_outcome:
  assumes "admitFederatedQueueRecord p input now suffix files = (AdmissionOk r created, files')"
  defines "task \<equiv> normalizeClaimantTaskId (qn_taskId input)"
  defines "proposed \<equiv> queueFederatedJobRecord (input\<lparr>qn_taskId := task\<rparr>) now suffix"
  shows "qn_projectId input = fc_projectId p \<and> duplicateClaimantRefusalForIndex (fc_claimants p) task = None \<and>
    (if created then filter (unfinished_for task (qn_jobType input)) (listFederatedJobs files) = [] \<and> r = proposed \<and>
        isSafeFederatedJobId (fj_jobId proposed) \<and> files' = persistFederatedJob proposed files
     else filter (unfinished_for task (qn_jobType input)) (listFederatedJobs files) = [r] \<and> files' = files \<and>
        admit_existing p proposed files (fj_jobId r) = Some (AdmissionOk r False))"
proof (cases "filter (unfinished_for task (qn_jobType input)) (listFederatedJobs files)")
  case Nil
  then show ?thesis using assms(1)
    by (auto simp: admitFederatedQueueRecord_def task_def proposed_def Let_def split: if_splits option.splits)
next
  case (Cons c cs)
  have c: "loadFederatedJob files (fj_jobId c) = Some c \<and> unfinished c" if "cs = []"
    using candidate_loads [of "unfinished_for task (qn_jobType input)" files c] Cons that by (simp add: unfinished_for_def)
  then have e: "admit_existing p proposed files (fj_jobId c) = Some (AdmissionOk c False) \<or>
      admit_existing p proposed files (fj_jobId c) = Some (AdmissionConflict [fj_jobId c])" if "cs = []"
    using that by (simp add: admit_existing_def)
  show ?thesis
  proof (cases cs)
    case Nil
    then show ?thesis using assms(1) Cons e [OF Nil]
      by (auto simp: admitFederatedQueueRecord_def task_def [symmetric] proposed_def [symmetric] Let_def
          split: if_splits option.splits)
  next
    case (Cons d ds)
    then show ?thesis using assms(1) \<open>filter (unfinished_for task (qn_jobType input)) (listFederatedJobs files) = c # cs\<close>
      by (auto simp: admitFederatedQueueRecord_def task_def [symmetric] proposed_def [symmetric] Let_def
          split: if_splits option.splits)
  qed
qed

text \<open>
  C27: Enqueueing is idempotent. Let the request name its task by an id of the form \<open>TASK-n\<close>, up to
  normalisation, and let the job id drawn for it be new. After it is accepted, the job it returned is the one
  job of its task and type on the ledger that is not completed, failed, rejected or cancelled. The same request
  later, at any time and on any ledger where the record of that job is as it was and no other unfinished job of
  the task and type has appeared, returns that job, creates nothing and leaves the ledger as it is.
\<close>

theorem enqueue_idempotent:
  assumes "admitFederatedQueueRecord p input now suffix files = (AdmissionOk r created, files')"
    and "canonical_task_id (normalizeClaimantTaskId (qn_taskId input))"
    and "js_map_get files (federatedJobId (normalizeClaimantTaskId (qn_taskId input)) now suffix) = None"
  defines "task \<equiv> normalizeClaimantTaskId (qn_taskId input)"
  defines "live \<equiv> \<lambda>job. normalizeClaimantTaskId (fj_taskId job) = task \<and> fj_jobType job = qn_jobType input \<and>
     fj_status job \<notin> {FsCompleted, FsFailed, FsRejected, FsCanceled}"
  shows "filter live (listFederatedJobs files') = [r] \<and>
     (filter live (listFederatedJobs later) = [r] \<longrightarrow>
        admitFederatedQueueRecord p input now' suffix' later = (AdmissionOk r False, later))"
proof -
  have live: "live = unfinished_for task (qn_jobType input)"
    by (intro ext) (simp add: live_def unfinished_for_def unfinished_def)
  let ?prop0 = "\<lambda>n s. queueFederatedJobRecord (input\<lparr>qn_taskId := task\<rparr>) n s"
  note out = admission_outcome [OF assms(1), folded task_def]
  have same_intent: "executionIntent (?prop0 now' suffix') = executionIntent (?prop0 now suffix)"
    by (rule intent_of_request)
  have one: "filter (unfinished_for task (qn_jobType input)) (listFederatedJobs files') = [r]"
    and existing: "filter (unfinished_for task (qn_jobType input)) (listFederatedJobs later) = [r] \<Longrightarrow>
      admit_existing p (?prop0 now' suffix') later (fj_jobId r) = Some (AdmissionOk r False)"
  proof -
    show one: "filter (unfinished_for task (qn_jobType input)) (listFederatedJobs files') = [r]"
    proof (cases created)
      case True
      with out have r: "r = ?prop0 now suffix" "files' = persistFederatedJob r files" "isSafeFederatedJobId (fj_jobId r)"
        "filter (unfinished_for task (qn_jobType input)) (listFederatedJobs files) = []" by auto
      have "js_map_get files (fj_jobId r) = None"
        using assms(3) by (simp add: r(1) queueFederatedJobRecord_def mintFederatedJobRecord_def core_record_def Let_def task_def)
      then have "listFederatedJobs files' = listFederatedJobs files @ [r]" using list_new_record r(2,3) by blast
      moreover have "unfinished_for task (qn_jobType input) r"
        using normalizeClaimantTaskId_canonical [OF assms(2)]
        by (simp add: unfinished_for_def unfinished_def r(1) queued_record_simps task_def)
      ultimately show ?thesis using r(4) by simp
    next
      case False
      with out show ?thesis by auto
    qed
    assume still: "filter (unfinished_for task (qn_jobType input)) (listFederatedJobs later) = [r]"
    note c = candidate_loads [OF still] and c0 = candidate_loads [OF one]
    show "admit_existing p (?prop0 now' suffix') later (fj_jobId r) = Some (AdmissionOk r False)"
    proof (cases created)
      case True
      with out have r: "r = ?prop0 now suffix" "qn_projectId input = fc_projectId p" by auto
      then show ?thesis using c same_intent
        by (auto simp: admit_existing_def unfinished_for_def queued_record_simps)
    next
      case False
      with out have "admit_existing p (?prop0 now suffix) files' (fj_jobId r) = Some (AdmissionOk r False)" by auto
      then show ?thesis using c c0 unfolding admit_existing_def same_intent by simp
    qed
  qed
  have "admitFederatedQueueRecord p input now' suffix' later = (AdmissionOk r False, later)"
    if "filter (unfinished_for task (qn_jobType input)) (listFederatedJobs later) = [r]"
    using out that existing [OF that] by (simp add: admitFederatedQueueRecord_def Let_def task_def [symmetric])
  then show ?thesis using one by (simp add: live)
qed

definition sample_request :: queue_input where
  "sample_request =
     \<lparr>qn_projectId = Some ''p'', qn_taskId = '' task-7 '', qn_jobType = JobDispatch,
      qn_requiredCapabilities = [''dispatch''], qn_provenance = JStr ''cli'', qn_correlationId = None,
      qn_parentJobId = None, qn_preferredHostId = None, qn_priority = Some (PriorityText ''p1-high''),
      qn_leaseTtlMs = None, qn_maxRetries = None, qn_branchName = None, qn_commitSha = None,
      qn_targetBranch = None, qn_reviewId = None, qn_autoMerge = None, qn_skipDecomposeCheck = None,
      qn_decision = None\<rparr>"

lemma enqueue_idempotent_witness:
  "case admitFederatedQueueRecord (sample_context True) sample_request 5 ''abc'' sample_ledger of
     (AdmissionOk r created, files) \<Rightarrow>
       created \<and> fj_priority r = Some 800 \<and>
       admitFederatedQueueRecord (sample_context True) sample_request 9 ''xyz'' files = (AdmissionOk r False, files)
   | _ \<Rightarrow> False"
proof -
  have "case admitFederatedQueueRecord (sample_context True) sample_request 5 ''abc'' sample_ledger of
     (AdmissionOk r created, files) \<Rightarrow> created \<and> fj_priority r = Some 800 | _ \<Rightarrow> False"
    by code_simp
  then obtain r files where a: "admitFederatedQueueRecord (sample_context True) sample_request 5 ''abc'' sample_ledger
      = (AdmissionOk r True, files)" "fj_priority r = Some 800"
    by (cases "admitFederatedQueueRecord (sample_context True) sample_request 5 ''abc'' sample_ledger")
      (auto split: queue_admission.splits)
  have n: "normalizeClaimantTaskId (qn_taskId sample_request) = ''TASK-'' @ ''7'' @ []" by code_simp
  have "list_all js_digit ''7''" by code_simp
  then have "canonical_task_id (normalizeClaimantTaskId (qn_taskId sample_request))"
    unfolding n canonical_task_id_def by blast
  moreover have "js_map_get sample_ledger (federatedJobId (normalizeClaimantTaskId (qn_taskId sample_request)) 5 ''abc'') = None"
    by code_simp
  ultimately show ?thesis using enqueue_idempotent [OF a(1)] a by simp
qed

end
