(* ===== verification/Judgment_Adapters.thy ===== *)
theory Judgment_Adapters
  imports Judgment_Reducer Judge_Verdict
begin

text \<open>
  How the result of each stage becomes a judgment decision (\<open>src/judgment/judgment-adapters.ts\<close>), and
  the containment of a projection that fails (\<open>src/judgment/judgment-events.ts\<close>). The reviewer's
  results are those of \<open>src/review/reviewer-types.ts\<close>. Of a gate result the tasks it carries are left
  out; a judge result is taken here with its lists checked to be lists of strings.
\<close>

section \<open>Review results\<close>

datatype review_verdict = Ship | Amend | FixFirst

fun review_verdict_name :: "review_verdict \<Rightarrow> string" where
  "review_verdict_name Ship = ''SHIP''"
| "review_verdict_name Amend = ''AMEND''"
| "review_verdict_name FixFirst = ''FIX_FIRST''"

datatype reviewer_kind = ClaudeSdk | CodexCli

datatype review_error_kind =
    ReviewUnavailable | ReviewSpawnFailed | ReviewTimeout | ReviewSessionError | ReviewParseFailed | ReviewGroundingFailed

fun review_error_name :: "review_error_kind \<Rightarrow> string" where
  "review_error_name ReviewUnavailable = ''unavailable''"
| "review_error_name ReviewSpawnFailed = ''spawn_failed''"
| "review_error_name ReviewTimeout = ''timeout''"
| "review_error_name ReviewSessionError = ''session_error''"
| "review_error_name ReviewParseFailed = ''parse_failed''"
| "review_error_name ReviewGroundingFailed = ''grounding_failed''"

record model_provenance =
  mp_runner :: reviewer_kind
  mp_provider :: "string option"
  mp_model :: "string option"

datatype cross_model_status = CrossSatisfied | CrossSame | CrossUnknown

record cross_model_evidence =
  xm_status :: cross_model_status
  xm_basis :: string
  xm_producer :: "model_provenance option"
  xm_reviewer :: model_provenance

record review_anchors =
  ra_total :: nat
  ra_missing :: "string list"

record review_completed =
  rv_verdict :: review_verdict
  rv_findings :: "(string \<times> string) list" \<comment> \<open>severity and summary\<close>
  rv_confidence :: "rat option"
  rv_summary :: string
  rv_runner :: reviewer_kind
  rv_model :: "string option"
  rv_anchorsAudit :: "review_anchors option"
  rv_treeDirtyAfterReview :: "bool option"

record review_failure =
  rx_errorKind :: review_error_kind
  rx_message :: string
  rx_runner :: reviewer_kind

datatype review_result = ReviewCompleted review_completed | ReviewRunnerError review_failure

text \<open>The facts a loop review leaves (\<open>LoopReviewGateFacts\<close> in \<open>src/review/loop-gate.ts\<close>).\<close>

record loop_facts =
  lf_crossModelSatisfied :: bool
  lf_crossModelEvidence :: "cross_model_evidence option"
  lf_anchorAuditPassed :: bool
  lf_treeClean :: bool
  lf_fidelityPassed :: bool
  lf_eligibleForAutoApproval :: bool
  lf_reasons :: "string list"

section \<open>Gate, judge and verification results\<close>

record schema_check =
  sc_valid :: bool
  sc_missing :: "string list"
  sc_warnings :: "string list"

record depth_eval =
  de_taskType :: string
  de_threshold :: rat
  de_ready :: bool
  de_overallScore :: rat
  de_scores :: "(string \<times> rat) list"
  de_deficiencies :: "string list"
  de_enrichmentSuggestions :: "string list"

datatype gate_details = SchemaDetails schema_check | DepthDetails depth_eval

datatype gate_result =
    GatePass "string list option"
  | GateEnriched "string list option"
  | GateRefused string gate_details

record docs_issue =
  di_code :: string
  di_message :: string
  di_blocking :: bool
  di_field :: "string option"
  di_blockReasonCode :: "string option"

record enforcement_demotion =
  ed_criterion :: string
  ed_rule :: string
  ed_detail :: string

record judged_criterion =
  jc_criterion :: string
  jc_status :: criterion_status
  jc_enforcement :: enforcement_type

record judged =
  jg_verdict :: judge_verdict
  jg_confidence :: rat
  jg_feedback :: string
  jg_criteriaEvaluation :: "judged_criterion list option"
  jg_scopeViolations :: "string list"
  jg_criteriaGaps :: "string list"
  jg_qualityIssues :: "string list"
  jg_enforcementDemotions :: "enforcement_demotion list option"

record path_audit =
  pa_total :: nat
  pa_valid :: "string list"
  pa_hallucinated :: "string list"
  pa_rate :: string \<comment> \<open>the rate as a template literal prints it\<close>
  pa_overridden :: bool

datatype finding_status = FindingPass | FindingFail | FindingWarn

fun finding_status_name :: "finding_status \<Rightarrow> string" where
  "finding_status_name FindingPass = ''pass''"
| "finding_status_name FindingFail = ''fail''"
| "finding_status_name FindingWarn = ''warn''"

record verification_finding =
  vf_criterion :: string
  vf_status :: finding_status
  vf_evidence :: string

record post_judge_result =
  pj_verified :: bool
  pj_findings :: "verification_finding list"
  pj_needsReview :: bool

section \<open>Projections\<close>

definition signal :: "string \<Rightarrow> string \<Rightarrow> string \<Rightarrow> string \<Rightarrow> bool \<Rightarrow> judgment_signal" where
  "signal source code disposition message deterministic =
     \<lparr>sg_source = source, sg_code = code, sg_disposition = disposition, sg_message = message,
      sg_deterministic = deterministic, sg_evidence = None, sg_safetyCode = None\<rparr>"

definition legacy_policy :: "string \<Rightarrow> string list \<Rightarrow> intent_judgment" where
  "legacy_policy action rationale =
     \<lparr>ij_source = ''legacy_policy'', ij_action = action, ij_rationale = rationale\<rparr>"

definition bool_text :: "bool \<Rightarrow> string" where
  "bool_text b = (if b then ''true'' else ''false'')"

fun verdictAction :: "judge_verdict \<Rightarrow> string" where
  "verdictAction Approve = ''continue''"
| "verdictAction Revise = ''repair''"
| "verdictAction Reject = ''human_review''"

fun verdict_name :: "judge_verdict \<Rightarrow> string" where
  "verdict_name Approve = ''APPROVE''"
| "verdict_name Revise = ''REVISE''"
| "verdict_name Reject = ''REJECT''"

definition evidence_of :: "string option list \<Rightarrow> string list option" where
  "evidence_of values =
     (let present = filter (\<lambda>v. js_trim v \<noteq> '''') (List.map_filter id values) in
      if present \<noteq> [] then Some present else None)"

text \<open>Readiness: the advisories of a gate that let the task through, then the outcome.\<close>

definition advisory_signal :: "string \<Rightarrow> judgment_signal" where
  "advisory_signal advisory =
     signal ''readiness'' (if js_starts_with advisory ''ADVISORY:'' then ''depth_advisory'' else ''gate_advisory'')
       ''advisory'' advisory False"

definition is_blocking :: "string \<Rightarrow> bool" where
  "is_blocking item = js_starts_with (js_to_upper item) ''BLOCKING''"

definition gate_outcome_name :: "gate_result \<Rightarrow> string" where
  "gate_outcome_name r = (case r of GatePass _ \<Rightarrow> ''pass'' | GateEnriched _ \<Rightarrow> ''enriched'' | GateRefused _ _ \<Rightarrow> ''rejected'')"

definition gate_advisories :: "gate_result \<Rightarrow> string list" where
  "gate_advisories r = (case r of
       GatePass a \<Rightarrow> (case a of None \<Rightarrow> [] | Some xs \<Rightarrow> xs)
     | GateEnriched a \<Rightarrow> (case a of None \<Rightarrow> [] | Some xs \<Rightarrow> xs)
     | GateRefused _ _ \<Rightarrow> [])"

definition depth_signals :: "depth_eval \<Rightarrow> judgment_signal list" where
  "depth_signals d =
     (let blocking = filter is_blocking (de_deficiencies d) in
      map (\<lambda>x. signal ''readiness'' (if blocking \<noteq> [] then ''depth_blocking_claim'' else ''depth_not_ready'')
                 (if blocking \<noteq> [] then ''human_review'' else ''repair'') x False)
        (if blocking \<noteq> [] then blocking else de_deficiencies d))"

definition outcome_signals :: "gate_result \<Rightarrow> judgment_signal list" where
  "outcome_signals r = (case r of
       GatePass _ \<Rightarrow> []
     | GateEnriched _ \<Rightarrow> [signal ''readiness'' ''task_enriched'' ''human_review'' ''Task was enriched and awaits approval'' False]
     | GateRefused reason (SchemaDetails s) \<Rightarrow>
         [(signal ''readiness'' ''missing_required_schema'' ''safety'' reason True)
            \<lparr>sg_evidence := Some (sc_missing s), sg_safetyCode := Some ''missing_required_schema''\<rparr>]
     | GateRefused reason (DepthDetails d) \<Rightarrow> depth_signals d)"

definition readiness_action :: "gate_result \<Rightarrow> string" where
  "readiness_action r = (case r of
       GatePass _ \<Rightarrow> ''continue''
     | GateEnriched _ \<Rightarrow> ''human_review''
     | GateRefused _ (SchemaDetails _) \<Rightarrow> ''repair''
     | GateRefused _ (DepthDetails d) \<Rightarrow>
         (if filter is_blocking (de_deficiencies d) \<noteq> [] then ''human_review'' else ''repair''))"

definition projectReadinessDecision :: "gate_result \<Rightarrow> contract_error + judgment_decision" where
  "projectReadinessDecision r =
     reduceJudgment ''readiness'' (map advisory_signal (gate_advisories r) @ outcome_signals r)
       (legacy_policy (readiness_action r) [''legacy_readiness:'' @ gate_outcome_name r])"

definition docs_signal :: "docs_issue \<Rightarrow> judgment_signal" where
  "docs_signal issue =
     (signal ''docs_review'' (di_code issue) (if di_blocking issue then ''human_review'' else ''advisory'') (di_message issue) True)
       \<lparr>sg_evidence := evidence_of [di_field issue, di_blockReasonCode issue]\<rparr>"

definition projectDocsReviewDecision :: "docs_issue list \<Rightarrow> bool \<Rightarrow> contract_error + judgment_decision" where
  "projectDocsReviewDecision issues mergeReady =
     reduceJudgment ''docs_review'' (map docs_signal issues)
       (legacy_policy (if mergeReady then ''continue'' else ''human_review'')
          [''legacy_merge_ready:'' @ bool_text mergeReady])"

definition review_signals :: "string \<Rightarrow> review_result \<Rightarrow> judgment_signal list" where
  "review_signals stage r = (case r of
       ReviewRunnerError x \<Rightarrow>
         [(signal stage ''review_runner_error'' ''human_review'' (rx_message x) False)
            \<lparr>sg_evidence := Some [review_error_name (rx_errorKind x)]\<rparr>]
     | ReviewCompleted c \<Rightarrow>
         (if rv_verdict c \<noteq> Ship
          then [signal stage ''review_non_ship'' ''human_review'' (''Review verdict is '' @ review_verdict_name (rv_verdict c)) False]
          else []) @
         map (\<lambda>m. (signal stage ''review_anchor_missing'' ''human_review'' ''Review evidence anchor is missing'' True)
                     \<lparr>sg_evidence := Some [m]\<rparr>)
           (case rv_anchorsAudit c of None \<Rightarrow> [] | Some a \<Rightarrow> ra_missing a) @
         (if rv_treeDirtyAfterReview c = Some True
          then [signal stage ''review_tree_dirty'' ''human_review'' ''Review left the project tree dirty'' True] else []))"

definition projectLoopReviewDecision ::
  "string \<Rightarrow> review_result \<Rightarrow> loop_facts \<Rightarrow> judgment_signal list \<Rightarrow> contract_error + judgment_decision" where
  "projectLoopReviewDecision stage result facts extraSignals =
     reduceJudgment stage
       (extraSignals @ review_signals stage result @
        (if \<not> lf_crossModelSatisfied facts
         then [signal stage ''cross_model_unsatisfied''
                 (if lf_eligibleForAutoApproval facts then ''advisory'' else ''human_review'')
                 ''Configured review did not provide cross-model evidence'' True]
         else []))
       (legacy_policy (if lf_eligibleForAutoApproval facts then ''continue'' else ''human_review'')
          ((''legacy_auto_approval_eligible:'' @ bool_text (lf_eligibleForAutoApproval facts)) # lf_reasons facts))"

definition demotionSignal :: "enforcement_demotion \<Rightarrow> judgment_signal" where
  "demotionSignal d =
     (signal ''judge'' ''enforcement_demotion'' ''repair'' (ed_detail d) True)
       \<lparr>sg_evidence := Some [ed_criterion d, ed_rule d, ''PASS->PARTIAL'']\<rparr>"

definition audit_signal :: "path_audit \<Rightarrow> judgment_signal" where
  "audit_signal a =
     (signal ''judge'' (if pa_overridden a then ''path_audit_override'' else ''path_audit'')
        (if pa_overridden a then ''repair'' else ''advisory'')
        (if pa_overridden a then ''Judge path citations exceeded the hallucination threshold''
         else ''Judge path citations were audited'') True)
       \<lparr>sg_evidence := Some [''total='' @ digits_text (pa_total a), ''valid='' @ digits_text (length (pa_valid a)),
          ''hallucinated='' @ digits_text (length (pa_hallucinated a)), ''rate='' @ pa_rate a]\<rparr>"

definition judge_signals :: "judged \<Rightarrow> path_audit option \<Rightarrow> judgment_signal list" where
  "judge_signals r audit =
     map demotionSignal (case jg_enforcementDemotions r of None \<Rightarrow> [] | Some ds \<Rightarrow> ds) @
     map (\<lambda>v. signal ''judge'' ''scope_violation'' ''human_review'' v False) (jg_scopeViolations r) @
     map (\<lambda>g. signal ''judge'' ''criteria_gap'' ''repair'' g False) (jg_criteriaGaps r) @
     map (\<lambda>q. signal ''judge'' ''quality_issue'' ''repair'' q False) (jg_qualityIssues r) @
     (case audit of None \<Rightarrow> [] | Some a \<Rightarrow> [audit_signal a])"

definition judge_action :: "judged \<Rightarrow> path_audit option \<Rightarrow> string" where
  "judge_action r audit =
     (if (case audit of None \<Rightarrow> False | Some a \<Rightarrow> pa_overridden a) then ''repair'' else verdictAction (jg_verdict r))"

definition projectJudgeDecision ::
  "judged \<Rightarrow> string option \<Rightarrow> path_audit option \<Rightarrow> judgment_signal list \<Rightarrow> contract_error + judgment_decision" where
  "projectJudgeDecision r phase audit extraSignals =
     reduceJudgment ''judge'' (extraSignals @ judge_signals r audit)
       (legacy_policy (judge_action r audit)
          ((''legacy_judge_verdict:'' @ verdict_name (jg_verdict r)) #
           (case phase of None \<Rightarrow> [] | Some p \<Rightarrow> if p = '''' then [] else [''judge_trace_phase:'' @ p])))"

definition finding_signal :: "bool \<Rightarrow> verification_finding \<Rightarrow> judgment_signal" where
  "finding_signal needsReview f =
     (signal ''post_judge'' (''verification_'' @ finding_status_name (vf_status f))
        (if vf_status f = FindingFail then (if needsReview then ''human_review'' else ''repair'') else ''advisory'')
        (vf_criterion f) (\<not> needsReview))\<lparr>sg_evidence := Some [vf_evidence f]\<rparr>"

definition post_judge_action :: "post_judge_result \<Rightarrow> judge_verdict \<Rightarrow> string" where
  "post_judge_action r prior =
     (if prior = Reject \<or> pj_needsReview r then ''human_review''
      else if \<not> pj_verified r then ''repair'' else ''continue'')"

definition projectPostJudgeDecision :: "post_judge_result \<Rightarrow> judge_verdict \<Rightarrow> contract_error + judgment_decision" where
  "projectPostJudgeDecision r prior =
     reduceJudgment ''post_judge'' (map (finding_signal (pj_needsReview r)) (pj_findings r))
       (legacy_policy (post_judge_action r prior)
          [''legacy_post_judge_verified:'' @ bool_text (pj_verified r), ''legacy_judge_verdict:'' @ verdict_name prior])"

definition projectPostJudgeErrorDecision :: "string \<Rightarrow> contract_error + judgment_decision" where
  "projectPostJudgeErrorDecision message =
     reduceJudgment ''post_judge''
       [signal ''post_judge'' ''post_judge_verification_error'' ''human_review'' message False]
       (legacy_policy ''human_review'' [''legacy_authority_inversion_fell_through_to_reject''])"

datatype review_kind = ReviewBrief | ReviewDiff

fun stageForReviewKind :: "review_kind \<Rightarrow> string" where
  "stageForReviewKind ReviewBrief = ''loop_brief''"
| "stageForReviewKind ReviewDiff = ''loop_diff''"

section \<open>Containment\<close>

fun contract_error_name :: "contract_error_code \<Rightarrow> string" where
  "contract_error_name InvalidStage = ''invalid_stage''"
| "contract_error_name InvalidSignalCode = ''invalid_signal_code''"
| "contract_error_name InvalidSignalMessage = ''invalid_signal_message''"
| "contract_error_name InvalidSignalDisposition = ''invalid_signal_disposition''"
| "contract_error_name InvalidJudgmentSource = ''invalid_judgment_source''"
| "contract_error_name InvalidJudgmentAction = ''invalid_judgment_action''"
| "contract_error_name SafetyCodeRequired = ''safety_code_required''"
| "contract_error_name SafetyCodeForbidden = ''safety_code_forbidden''"
| "contract_error_name InvalidSafetyCode = ''invalid_safety_code''"

record projection_failure =
  pjf_errorCode :: string
  pjf_message :: string

definition MAX_ERROR_MESSAGE_LENGTH :: nat where
  "MAX_ERROR_MESSAGE_LENGTH = 500"

definition containJudgmentProjection :: "contract_error + judgment_decision \<Rightarrow> projection_failure + judgment_decision" where
  "containJudgmentProjection projected = (case projected of
       Inr d \<Rightarrow> Inr d
     | Inl (JudgmentContractError code message) \<Rightarrow>
         Inl \<lparr>pjf_errorCode = contract_error_name code, pjf_message = take MAX_ERROR_MESSAGE_LENGTH message\<rparr>)"

section \<open>Lemmas\<close>

text \<open>A signal that can only be refused for its message.\<close>

definition plain_signal :: "judgment_signal \<Rightarrow> bool" where
  "plain_signal s \<longleftrightarrow> sg_source s \<in> set JUDGMENT_STAGES \<and> js_trim (sg_code s) \<noteq> '''' \<and>
     sg_disposition s \<in> set JUDGMENT_SIGNAL_DISPOSITIONS \<and> sg_disposition s \<noteq> ''safety'' \<and> sg_safetyCode s = None"

lemma validate_plain:
  "plain_signal s \<Longrightarrow> validateSignal s i =
     (if js_trim (sg_message s) = '''' then Inl (JudgmentContractError InvalidSignalMessage (indexed i ''.message must not be empty''))
      else Inr ())"
  by (simp add: plain_signal_def validateSignal_def)

lemma validate_plains:
  assumes "list_all plain_signal ss"
  shows "case validateSignals i ss of
      Inl e \<Rightarrow> \<not> list_all (\<lambda>s. js_trim (sg_message s) \<noteq> '''') ss \<and> (\<exists>m. e = JudgmentContractError InvalidSignalMessage m)
    | Inr _ \<Rightarrow> list_all (\<lambda>s. js_trim (sg_message s) \<noteq> '''') ss"
  using assms
proof (induction ss arbitrary: i)
  case (Cons s ss)
  then have p: "plain_signal s" "list_all plain_signal ss" by simp_all
  note ih = Cons.IH [OF p(2), of "Suc i"]
  show ?case using p(1) ih by (cases "validateSignals (Suc i) ss") (auto simp: validate_plain)
qed simp

lemma reduce_plain:
  assumes "list_all plain_signal ss" and "st \<in> set JUDGMENT_STAGES" and "ij_source j \<in> set JUDGMENT_SOURCES"
    and "ij_action j \<in> set INTENT_JUDGMENT_ACTIONS"
  shows "case containJudgmentProjection (reduceJudgment st ss j) of
      Inl f \<Rightarrow> \<not> list_all (\<lambda>s. js_trim (sg_message s) \<noteq> '''') ss \<and> pjf_errorCode f = ''invalid_signal_message''
    | Inr d \<Rightarrow> list_all (\<lambda>s. js_trim (sg_message s) \<noteq> '''') ss \<and> jd_action d = ij_action j \<and> jd_signals d = ss"
proof -
  have "filter is_safety ss = []"
    using assms(1) by (auto simp: filter_empty_conv list_all_iff plain_signal_def is_safety_def)
  then show ?thesis
    using validate_plains [OF assms(1), of 0] assms(2-4)
    by (auto simp: reduceJudgment_def containJudgmentProjection_def split: sum.splits)
qed

text \<open>The texts of a judge's answer that become messages.\<close>

definition judge_texts :: "judged \<Rightarrow> string list" where
  "judge_texts r = map ed_detail (case jg_enforcementDemotions r of None \<Rightarrow> [] | Some ds \<Rightarrow> ds) @
     jg_scopeViolations r @ jg_criteriaGaps r @ jg_qualityIssues r"

lemma signal_simps [simp]:
  "sg_source (signal so co di me de) = so" "sg_code (signal so co di me de) = co"
  "sg_disposition (signal so co di me de) = di" "sg_message (signal so co di me de) = me"
  "sg_safetyCode (signal so co di me de) = None"
  by (simp_all add: signal_def)

lemma plain_judge_signal:
  "js_trim code \<noteq> '''' \<Longrightarrow> d \<in> {''advisory'', ''repair'', ''human_review''} \<Longrightarrow>
     plain_signal (signal ''judge'' code d m b) \<and> plain_signal ((signal ''judge'' code d m b)\<lparr>sg_evidence := ev\<rparr>)"
  by (auto simp: plain_signal_def JUDGMENT_STAGES_def JUDGMENT_SIGNAL_DISPOSITIONS_def)

lemma judge_codes_nonblank:
  "js_trim ''enforcement_demotion'' \<noteq> ''''" "js_trim ''scope_violation'' \<noteq> ''''" "js_trim ''criteria_gap'' \<noteq> ''''"
  "js_trim ''quality_issue'' \<noteq> ''''" "js_trim ''path_audit'' \<noteq> ''''" "js_trim ''path_audit_override'' \<noteq> ''''"
  by (simp_all add: js_trim_eq_Nil_iff is_js_space_def)

lemma judge_signals_plain: "list_all plain_signal (judge_signals r audit)"
  by (simp add: judge_signals_def list.pred_map comp_def demotionSignal_def audit_signal_def plain_judge_signal
      judge_codes_nonblank list.pred_True split: option.split)

lemma judge_signals_messages:
  "list_all (\<lambda>s. js_trim (sg_message s) \<noteq> '''') (judge_signals r audit) = list_all (\<lambda>m. js_trim m \<noteq> '''') (judge_texts r)"
proof -
  have "js_trim (sg_message (audit_signal a)) \<noteq> ''''" for a
    by (simp add: audit_signal_def js_trim_eq_Nil_iff is_js_space_def)
  then show ?thesis
    by (simp add: judge_signals_def judge_texts_def list.pred_map comp_def demotionSignal_def split: option.split)
qed

section \<open>Properties\<close>

text \<open>
  How a judge result is recorded. Its projection succeeds if and only if no violation, gap, issue
  or demotion of the result is blank; the action of the decision is then the one the legacy policy
  takes (repair when the audit of the cited paths overrode the verdict, and otherwise continue,
  repair or human review for APPROVE, REVISE and REJECT), never a stop. A failure is contained, with
  the code \<open>invalid_signal_message\<close>.
\<close>

theorem judge_projection_exact:
  "case containJudgmentProjection (projectJudgeDecision r phase audit []) of
     Inl f \<Rightarrow> \<not> list_all (\<lambda>m. js_trim m \<noteq> '''') (judge_texts r) \<and> pjf_errorCode f = ''invalid_signal_message''
   | Inr d \<Rightarrow> list_all (\<lambda>m. js_trim m \<noteq> '''') (judge_texts r) \<and>
       jd_action d = (if (case audit of None \<Rightarrow> False | Some a \<Rightarrow> pa_overridden a) then ''repair''
                      else case jg_verdict r of Approve \<Rightarrow> ''continue'' | Revise \<Rightarrow> ''repair'' | Reject \<Rightarrow> ''human_review'')"
proof -
  have ok: "judge_action r audit \<in> set INTENT_JUDGMENT_ACTIONS"
    by (cases "jg_verdict r") (auto simp: judge_action_def INTENT_JUDGMENT_ACTIONS_def)
  have act: "judge_action r audit = (if (case audit of None \<Rightarrow> False | Some a \<Rightarrow> pa_overridden a) then ''repair''
      else case jg_verdict r of Approve \<Rightarrow> ''continue'' | Revise \<Rightarrow> ''repair'' | Reject \<Rightarrow> ''human_review'')"
    by (cases "jg_verdict r") (simp_all add: judge_action_def)
  have "case containJudgmentProjection (projectJudgeDecision r phase audit []) of
     Inl f \<Rightarrow> \<not> list_all (\<lambda>m. js_trim m \<noteq> '''') (judge_texts r) \<and> pjf_errorCode f = ''invalid_signal_message''
   | Inr d \<Rightarrow> list_all (\<lambda>m. js_trim m \<noteq> '''') (judge_texts r) \<and> jd_action d = judge_action r audit"
    using reduce_plain [OF judge_signals_plain [of r audit], of "''judge''"
        "legacy_policy (judge_action r audit) ((''legacy_judge_verdict:'' @ verdict_name (jg_verdict r)) #
           (case phase of None \<Rightarrow> [] | Some p \<Rightarrow> if p = '''' then [] else [''judge_trace_phase:'' @ p]))"]
      ok
    by (auto simp: projectJudgeDecision_def judge_signals_messages legacy_policy_def JUDGMENT_STAGES_def
        JUDGMENT_SOURCES_def split: sum.splits)
  then show ?thesis unfolding act .
qed

end
