(* ===== verification/Intent_Request.thy ===== *)
theory Intent_Request
  imports Judgment_Adapters Judgment_Orchestrator
begin

text \<open>
  What the intent model is asked and how its answer is read: the sections of a task specification
  (\<open>src/judgment/intent-request.ts\<close>), the request built from them at each stage, the references
  given to the signals and the parser of the structured answer
  (\<open>src/judgment/runner/intent-judgment-prompt.ts\<close>). The regular expressions of the sources are
  written out as functions on strings. The text of the prompt is not modelled.
\<close>

section \<open>Sections of a specification\<close>

definition INTENT_SECTION_NAMES :: "string list" where
  "INTENT_SECTION_NAMES = [''Intent'', ''Problem Statement'', ''Success Criteria'', ''Scope Boundaries'']"

text \<open>\<open>##\s+NAME[^\n]*\n\<close> matched at the front, letters compared without case; the text after it.
  A name starts with a letter, so \<open>\s+\<close> takes all the white space there is.\<close>

definition heading_here :: "string \<Rightarrow> string \<Rightarrow> string option" where
  "heading_here name s =
     (let r = drop 2 s; t = dropWhile is_js_space r in
      if js_starts_with s ''##'' \<and> takeWhile is_js_space r \<noteq> [] \<and>
         map js_upper_char (take (length name) t) = map js_upper_char name
      then (case dropWhile (\<lambda>c. c \<noteq> CHR 0x0A) (drop (length name) t) of [] \<Rightarrow> None | _ # rest \<Rightarrow> Some rest)
      else None)"

fun find_heading :: "string \<Rightarrow> string \<Rightarrow> string option" where
  "find_heading name [] = None"
| "find_heading name (c # cs) =
     (case heading_here name (c # cs) of Some rest \<Rightarrow> Some rest | None \<Rightarrow> find_heading name cs)"

text \<open>\<open>([\s\S]*?)(?=\n##\s+|$)\<close>: up to the next heading, or to the end.\<close>

definition next_heading :: "string \<Rightarrow> bool" where
  "next_heading s \<longleftrightarrow> js_starts_with s ''##'' \<and> (case drop 2 s of [] \<Rightarrow> False | d # _ \<Rightarrow> is_js_space d)"

fun section_body :: "string \<Rightarrow> string" where
  "section_body [] = []"
| "section_body (c # cs) = (if c = CHR 0x0A \<and> next_heading cs then [] else c # section_body cs)"

definition extractSection :: "string \<Rightarrow> string \<Rightarrow> string" where
  "extractSection content sectionName =
     (case find_heading sectionName content of None \<Rightarrow> '''' | Some rest \<Rightarrow> section_body rest)"

text \<open>The text after \<open>^(?:[-*+] |\d+[.)] )\<close>, when the line has such a marker.\<close>

definition item_text :: "string \<Rightarrow> string option" where
  "item_text line =
     (case line of
        c # d # rest \<Rightarrow>
          if c \<in> {CHR ''-'', CHR ''*'', CHR ''+''} \<and> d = CHR '' '' then Some rest
          else if takeWhile js_digit line = [] then None
          else (case dropWhile js_digit line of
                  p # q # body \<Rightarrow> if p \<in> {CHR ''.'', CHR '')''} \<and> q = CHR '' '' then Some body else None
                | _ \<Rightarrow> None)
      | _ \<Rightarrow> None)"

definition sectionItems :: "string \<Rightarrow> string list" where
  "sectionItems section =
     filter (\<lambda>i. i \<noteq> '''') (map js_trim (List.map_filter item_text (map js_trim (split_lines section))))"

record intent_sections =
  is_intent :: string
  is_problem :: string
  is_success :: string
  is_scope :: string
  is_presentSections :: "string list"
  is_missingSections :: "string list"
  is_empty :: bool

definition extractIntentSections :: "string \<Rightarrow> intent_sections" where
  "extractIntentSections content =
     (let intent = js_trim (extractSection content ''Intent'');
          problem = js_trim (extractSection content ''Problem Statement'');
          success = js_trim (extractSection content ''Success Criteria'');
          bounds = extractSection content ''Scope Boundaries'';
          scope = js_trim (if bounds \<noteq> '''' then bounds else extractSection content ''Scope'');
          named = zip INTENT_SECTION_NAMES [intent, problem, success, scope];
          present = map fst (filter (\<lambda>x. snd x \<noteq> '''') named);
          missing = map fst (filter (\<lambda>x. snd x = '''') named)
      in \<lparr>is_intent = intent, is_problem = problem, is_success = success, is_scope = scope,
          is_presentSections = present, is_missingSections = missing, is_empty = (present = [])\<rparr>)"

section \<open>Signal references\<close>

definition signal_ref :: "string \<Rightarrow> nat \<Rightarrow> string" where
  "signal_ref code n = code @ ''#'' @ digits_text n"

text \<open>The map of \<open>occurrences\<close> is threaded through the signals.\<close>

fun assign_refs :: "(string \<times> nat) list \<Rightarrow> judgment_signal list \<Rightarrow> signal_input list" where
  "assign_refs occ [] = []"
| "assign_refs occ (s # ss) =
     (let n = (case js_map_get occ (sg_code s) of None \<Rightarrow> 0 | Some k \<Rightarrow> k) + 1 in
      \<lparr>si_ref = signal_ref (sg_code s) n, si_signal = s\<rparr> # assign_refs (js_map_set (sg_code s) n occ) ss)"

definition assignIntentSignalRefs :: "judgment_signal list \<Rightarrow> signal_input list" where
  "assignIntentSignalRefs signals = assign_refs [] signals"

section \<open>Requests\<close>

definition boundedText :: "string \<Rightarrow> nat \<Rightarrow> string" where
  "boundedText value maxChars =
     (if length value \<le> maxChars then value else take maxChars value @ ''[TRUNCATED]'')"

definition boundedItems :: "string list \<Rightarrow> nat \<Rightarrow> string list" where
  "boundedItems values maxItems =
     (if length values \<le> maxItems then map (\<lambda>v. boundedText v 600) values
      else map (\<lambda>v. boundedText v 600) (take maxItems values) @
           [''[TRUNCATED:'' @ digits_text (length values - maxItems) @ ''-more]''])"

text \<open>The part the three builders share; \<open>taskId\<close>, the texts and the context in the order of the object.\<close>

definition intent_request_of ::
  "string \<Rightarrow> string \<Rightarrow> intent_sections \<Rightarrow> (string \<times> js_value) list \<Rightarrow> judgment_decision \<Rightarrow> intent_request" where
  "intent_request_of stage taskId sections context legacy =
     \<lparr>ir_stage = stage, ir_signals = assignIntentSignalRefs (jd_signals legacy),
      ir_other =
        [(''taskId'', JStr taskId),
         (''taskIntent'', JStr (js_join [CHR 0x0A, CHR 0x0A]
            (filter (\<lambda>s. s \<noteq> '''') [is_intent sections, is_problem sections]))),
         (''successCriteria'', js_strs (sectionItems (is_success sections))),
         (''scopeBoundaries'', js_strs (sectionItems (is_scope sections))),
         (''stageContext'', JObj context),
         (''contextMetadata'', JObj
            [(''presentSections'', js_strs (is_presentSections sections)),
             (''missingSections'', js_strs (is_missingSections sections))])]\<rparr>"

record readiness_evidence =
  re_schemaWarnings :: "string list"
  re_advisorySuggestedMinScore :: rat
  re_collisionDeficiencies :: "string list"
  re_depthResult :: "depth_eval option"

definition depth_deficiencies :: "readiness_evidence \<Rightarrow> string list" where
  "depth_deficiencies ev = (case re_depthResult ev of None \<Rightarrow> [] | Some d \<Rightarrow> de_deficiencies d)"

definition readiness_context :: "gate_result \<Rightarrow> readiness_evidence \<Rightarrow> (string \<times> js_value) list" where
  "readiness_context r ev =
     [(''outcome'', JStr (gate_outcome_name r)),
      (''reason'', (case r of GateRefused reason _ \<Rightarrow> JStr reason | _ \<Rightarrow> JUndef)),
      (''depthOverallScore'', js_opt (\<lambda>d. JNum (de_overallScore d)) (re_depthResult ev)),
      (''depthDeficiencies'', js_strs (depth_deficiencies ev)),
      (''advisorySuggestedMinScore'', JNum (re_advisorySuggestedMinScore ev)),
      (''collisionDeficiencies'', js_strs (re_collisionDeficiencies ev)),
      (''schemaWarnings'', js_strs (re_schemaWarnings ev)),
      (''advisories'', js_strs (case r of
          GateRefused _ _ \<Rightarrow> filter (\<lambda>d. js_starts_with d ''ADVISORY:'') (depth_deficiencies ev)
        | _ \<Rightarrow> gate_advisories r))]"

definition buildReadinessIntentRequest ::
  "string \<Rightarrow> string \<Rightarrow> gate_result \<Rightarrow> judgment_decision \<Rightarrow> readiness_evidence \<Rightarrow> intent_request option" where
  "buildReadinessIntentRequest taskId rawContent r legacy ev =
     (let sections = extractIntentSections rawContent in
      if is_empty sections then None
      else Some (intent_request_of ''readiness'' taskId sections (readiness_context r ev) legacy))"

fun runner_kind_name :: "reviewer_kind \<Rightarrow> string" where
  "runner_kind_name ClaudeSdk = ''claude-sdk''"
| "runner_kind_name CodexCli = ''codex-cli''"

definition review_context :: "review_result \<Rightarrow> (string \<times> js_value) list" where
  "review_context r = (case r of
       ReviewCompleted c \<Rightarrow>
         [(''reviewStatus'', JStr ''completed''),
          (''reviewVerdict'', JStr (review_verdict_name (rv_verdict c))),
          (''reviewSummary'', JStr (boundedText (rv_summary c) 2000)),
          (''reviewConfidence'', js_opt JNum (rv_confidence c)),
          (''findingCount'', JNum (of_nat (length (rv_findings c)))),
          (''blockingFindingCount'', JNum (of_nat (length (filter (\<lambda>f. fst f = ''blocking'') (rv_findings c))))),
          (''findings'', js_strs (boundedItems (map (\<lambda>f. fst f @ '': '' @ snd f) (rv_findings c)) 20)),
          (''anchorsMissing'', js_strs (case rv_anchorsAudit c of None \<Rightarrow> [] | Some a \<Rightarrow> ra_missing a)),
          (''treeDirtyAfterReview'', JBool (rv_treeDirtyAfterReview c = Some True))]
     | ReviewRunnerError x \<Rightarrow>
         [(''reviewStatus'', JStr ''runner_error''),
          (''runnerErrorKind'', JStr (review_error_name (rx_errorKind x))),
          (''reviewSummary'', JStr (boundedText (rx_message x) 2000))])"

definition review_runner :: "review_result \<Rightarrow> reviewer_kind" where
  "review_runner r = (case r of ReviewCompleted c \<Rightarrow> rv_runner c | ReviewRunnerError x \<Rightarrow> rx_runner x)"

definition buildLoopIntentRequest ::
  "string \<Rightarrow> string \<Rightarrow> string \<Rightarrow> review_result \<Rightarrow> loop_facts \<Rightarrow> judgment_decision \<Rightarrow> intent_request option" where
  "buildLoopIntentRequest stage taskId taskSpec review facts legacy =
     (let sections = extractIntentSections taskSpec in
      if is_empty sections then None
      else Some (intent_request_of stage taskId sections
        ([(''reviewKind'', JStr (if stage = ''loop_brief'' then ''brief'' else ''diff'')),
          (''reviewRunner'', JStr (runner_kind_name (review_runner review)))] @
         review_context review @
         [(''eligibleForAutoApproval'', JBool (lf_eligibleForAutoApproval facts)),
          (''crossModelSatisfied'', JBool (lf_crossModelSatisfied facts)),
          (''anchorAuditPassed'', JBool (lf_anchorAuditPassed facts)),
          (''treeClean'', JBool (lf_treeClean facts)),
          (''gateReasons'', js_strs (boundedItems (lf_reasons facts) 20))])
        legacy))"

fun criterion_status_name :: "criterion_status \<Rightarrow> string" where
  "criterion_status_name CritPass = ''PASS''"
| "criterion_status_name CritFail = ''FAIL''"
| "criterion_status_name CritPartial = ''PARTIAL''"

fun enforcement_name :: "enforcement_type \<Rightarrow> string" where
  "enforcement_name DeterministicCode = ''deterministic_code''"
| "enforcement_name LlmInstructionOnly = ''llm_instruction_only''"
| "enforcement_name NotImplemented = ''not_implemented''"

definition judge_context :: "judged \<Rightarrow> (string \<times> js_value) list" where
  "judge_context j =
     [(''verdict'', JStr (verdict_name (jg_verdict j))),
      (''confidence'', JNum (jg_confidence j)),
      (''feedback'', JStr (boundedText (jg_feedback j) 2000)),
      (''scopeViolations'', js_strs (boundedItems (jg_scopeViolations j) 20)),
      (''criteriaGaps'', js_strs (boundedItems (jg_criteriaGaps j) 20)),
      (''qualityIssues'', js_strs (boundedItems (jg_qualityIssues j) 20)),
      (''criteriaEvaluation'', js_strs (boundedItems
         (map (\<lambda>e. criterion_status_name (jc_status e) @ '' ['' @ enforcement_name (jc_enforcement e) @ ''] '' @
               jc_criterion e) (case jg_criteriaEvaluation j of None \<Rightarrow> [] | Some es \<Rightarrow> es)) 30)),
      (''enforcementDemotions'', js_strs (boundedItems
         (map (\<lambda>d. ed_criterion d @ '': PASS->PARTIAL ('' @ ed_rule d @ '')'')
            (case jg_enforcementDemotions j of None \<Rightarrow> [] | Some ds \<Rightarrow> ds)) 20))]"

definition buildJudgeIntentRequest ::
  "string \<Rightarrow> string \<Rightarrow> judged \<Rightarrow> judgment_decision \<Rightarrow> intent_request option" where
  "buildJudgeIntentRequest taskId taskSpec j legacy =
     (let sections = extractIntentSections taskSpec in
      if is_empty sections then None
      else Some (intent_request_of ''judge'' taskId sections (judge_context j) legacy))"

section \<open>The structured answer\<close>

record intent_answer =
  ia_action :: string
  ia_rationale :: "string list"
  ia_consideredSignalRefs :: "string list"

text \<open>\<open>z.string().trim().min(1).max(n)\<close>\<close>

definition trimmed_text :: "nat \<Rightarrow> js_value \<Rightarrow> string option" where
  "trimmed_text n v = (case v of
       JStr s \<Rightarrow> (let t = js_trim s in if t \<noteq> '''' \<and> length t \<le> n then Some t else None)
     | _ \<Rightarrow> None)"

fun option_map_list :: "('a \<Rightarrow> 'b option) \<Rightarrow> 'a list \<Rightarrow> 'b list option" where
  "option_map_list f [] = Some []"
| "option_map_list f (x # xs) = (case f x of None \<Rightarrow> None
     | Some y \<Rightarrow> (case option_map_list f xs of None \<Rightarrow> None | Some ys \<Rightarrow> Some (y # ys)))"

definition intent_response :: "js_value \<Rightarrow> intent_answer option" where
  "intent_response v = (case v of
       JObj m \<Rightarrow>
         if \<not> list_all (\<lambda>p. fst p \<in> {''action'', ''rationale'', ''consideredSignalRefs''}) m then None
         else (case (js_get v ''action'', js_get v ''rationale'', js_get v ''consideredSignalRefs'') of
             (JStr action, JArr rationale, JArr refs) \<Rightarrow>
               if action \<in> set INTENT_JUDGMENT_ACTIONS \<and> 1 \<le> length rationale \<and> length rationale \<le> 8
               then (case (option_map_list (trimmed_text 500) rationale, option_map_list (trimmed_text 200) refs) of
                   (Some rs, Some cs) \<Rightarrow> Some \<lparr>ia_action = action, ia_rationale = rs, ia_consideredSignalRefs = cs\<rparr>
                 | _ \<Rightarrow> None)
               else None
           | _ \<Rightarrow> None)
     | _ \<Rightarrow> None)"

text \<open>The candidate is the value itself, or what \<open>JSON.parse\<close> returned for a text (\<open>None\<close> when it threw).\<close>

definition parseIntentJudgmentResponse :: "js_value option \<Rightarrow> string list \<Rightarrow> intent_answer option" where
  "parseIntentJudgmentResponse candidate expectedRefs =
     (case candidate of None \<Rightarrow> None
      | Some v \<Rightarrow> (case intent_response v of None \<Rightarrow> None
          | Some a \<Rightarrow>
              let actual = ia_consideredSignalRefs a in
              if length (js_uniq actual) \<noteq> length actual then None
              else if length actual \<noteq> length expectedRefs then None
              else if list_ex (\<lambda>r. r \<notin> set expectedRefs) actual then None
              else Some a))"

section \<open>Lemmas\<close>

lemma append_separator:
  assumes "a @ c # b = a' @ c # b'" and "c \<notin> set b" and "c \<notin> set b'"
  shows "a = a' \<and> b = b'"
proof -
  have drop: "takeWhile (\<lambda>x. x \<noteq> c) (rev (x @ c # y)) = rev y" if "c \<notin> set y" for x y
    using that by (simp add: takeWhile_append2 takeWhile_eq_all_conv) (metis (mono_tags) takeWhile_append2 takeWhile.simps(2) append_Nil2 set_rev)
  have "b = b'" using drop [OF assms(2), of a] drop [OF assms(3), of a'] assms(1) by simp
  then show ?thesis using assms(1) by simp
qed

lemma signal_ref_inj: "signal_ref c m = signal_ref d n \<longleftrightarrow> c = d \<and> m = n"
  using append_separator [of c "CHR ''#''" "digits_text m" d "digits_text n"] digits_text_no_hash digits_text_inj
  by (auto simp: signal_ref_def)

subsection \<open>References\<close>

definition occurrences :: "string \<Rightarrow> judgment_signal list \<Rightarrow> nat" where
  "occurrences code signals = length (filter (\<lambda>s. sg_code s = code) signals)"

definition seen :: "(string \<times> nat) list \<Rightarrow> string \<Rightarrow> nat" where
  "seen occ code = (case js_map_get occ code of None \<Rightarrow> 0 | Some k \<Rightarrow> k)"

lemma seen_set: "seen (js_map_set c n occ) d = (if d = c then n else seen occ d)"
  by (simp add: seen_def js_map.get_put)

lemma assign_refs_nth:
  "i < length ss \<Longrightarrow> assign_refs occ ss ! i =
     \<lparr>si_ref = signal_ref (sg_code (ss ! i)) (seen occ (sg_code (ss ! i)) + occurrences (sg_code (ss ! i)) (take (Suc i) ss)),
      si_signal = ss ! i\<rparr>"
proof (induction ss arbitrary: occ i)
  case (Cons s ss)
  then show ?case
    by (cases i) (auto simp: seen_set Let_def occurrences_def simp flip: seen_def)
qed simp

lemma length_assign_refs [simp]: "length (assign_refs occ ss) = length ss"
  by (induction ss arbitrary: occ) (auto simp: Let_def)

lemma assign_nth:
  "i < length ss \<Longrightarrow> assignIntentSignalRefs ss ! i =
     \<lparr>si_ref = signal_ref (sg_code (ss ! i)) (occurrences (sg_code (ss ! i)) (take (Suc i) ss)), si_signal = ss ! i\<rparr>"
  by (simp add: assignIntentSignalRefs_def assign_refs_nth) (simp add: seen_def js_map_get_def)

lemma length_assign [simp]: "length (assignIntentSignalRefs ss) = length ss"
  by (simp add: assignIntentSignalRefs_def)

lemma occurrences_take_less:
  assumes "i < j" and "j < length ss" and "sg_code (ss ! j) = code"
  shows "occurrences code (take (Suc i) ss) < occurrences code (take (Suc j) ss)"
proof -
  have "take (Suc j) ss = take j ss @ [ss ! j]" using assms(2) by (rule take_Suc_conv_app_nth)
  moreover have "take j ss = take (Suc i) ss @ drop (Suc i) (take j ss)"
    using assms(1) by (metis append_take_drop_id min.absorb1 take_take Suc_leI)
  ultimately show ?thesis using assms(3) by (simp add: occurrences_def) (metis filter_append le_add1 length_append less_Suc_eq_le)
qed

lemma distinct_refs: "distinct (map si_ref (assignIntentSignalRefs ss))"
proof -
  have "si_ref (assignIntentSignalRefs ss ! i) \<noteq> si_ref (assignIntentSignalRefs ss ! j)"
    if "i < j" "j < length ss" for i j
    using that occurrences_take_less [of i j ss "sg_code (ss ! j)"] by (auto simp: assign_nth signal_ref_inj)
  then have "\<forall>i j. i < length ss \<and> j < length ss \<and> i \<noteq> j \<longrightarrow>
      si_ref (assignIntentSignalRefs ss ! i) \<noteq> si_ref (assignIntentSignalRefs ss ! j)"
    by (metis linorder_neqE_nat)
  then show ?thesis by (simp add: distinct_conv_nth)
qed

lemma signals_of_refs: "map si_signal (assignIntentSignalRefs ss) = ss"
  by (rule nth_equalityI) (simp_all add: assign_nth)

text \<open>A list without repetition, as long as a duplicate-free list and drawn from it, is a permutation of it.\<close>

lemma exact_refs_mset:
  assumes "distinct es"
  shows "(length (js_uniq rs) = length rs \<and> length rs = length es \<and> list_all (\<lambda>r. r \<in> set es) rs) = (mset rs = mset es)"
proof
  assume l: "length (js_uniq rs) = length rs \<and> length rs = length es \<and> list_all (\<lambda>r. r \<in> set es) rs"
  then have "distinct rs" by (simp add: length_js_uniq_distinct)
  moreover have "set rs = set es"
    using l \<open>distinct rs\<close> assms by (intro card_subset_eq) (auto simp: list_all_iff distinct_card)
  ultimately show "mset rs = mset es" using assms by (simp add: set_eq_iff_mset_eq_distinct)
next
  assume m: "mset rs = mset es"
  then have "distinct rs" using assms by (metis mset_eq_imp_distinct_iff)
  then show "length (js_uniq rs) = length rs \<and> length rs = length es \<and> list_all (\<lambda>r. r \<in> set es) rs"
    using m by (auto simp: length_js_uniq_distinct list_all_iff dest: mset_eq_length mset_eq_setD)
qed

lemma has_exact_refs:
  "distinct (map si_ref (ir_signals req)) \<Longrightarrow>
     hasExactSignalRefs (RunCompleted j refs m) req = (mset refs = mset (map si_ref (ir_signals req)))"
  using exact_refs_mset [of "map si_ref (ir_signals req)" refs] by (simp add: hasExactSignalRefs_def Let_def)

lemma parse_exact:
  assumes "distinct es"
  shows "parseIntentJudgmentResponse candidate es =
     (case candidate of None \<Rightarrow> None
      | Some v \<Rightarrow> (case intent_response v of None \<Rightarrow> None
          | Some a \<Rightarrow> if mset (ia_consideredSignalRefs a) = mset es then Some a else None))"
proof -
  have "list_ex (\<lambda>r. r \<notin> set es) rs \<longleftrightarrow> \<not> list_all (\<lambda>r. r \<in> set es) rs" for rs
    by (auto simp: list_ex_iff list_all_iff)
  then show ?thesis
    unfolding parseIntentJudgmentResponse_def Let_def exact_refs_mset [OF assms, symmetric]
    by (simp split: option.split)
qed

subsection \<open>A section without text\<close>

text \<open>
  A heading whose section is empty, the next heading following on the next line, is given the next
  heading and the text under it: the newline the lookahead needs has been consumed.
\<close>

lemma empty_section_takes_next:
  "extractSection (''## Intent'' @ CHR 0x0A # ''## Notes'' @ CHR 0x0A # rest) ''Intent'' =
     ''## Notes'' @ section_body (CHR 0x0A # rest)"
proof -
  have "heading_here ''Intent'' (''## Intent'' @ CHR 0x0A # t) = Some t" for t
    by (simp add: heading_here_def js_starts_with_def is_js_space_def)
  then have "find_heading ''Intent'' (''## Intent'' @ CHR 0x0A # t) = Some t" for t
    by simp
  then show ?thesis by (simp add: extractSection_def)
qed

section \<open>Properties\<close>

text \<open>
  Every signal is accounted for exactly once. The references a request gives its signals are
  distinct, the occurrences of a code numbered from one, and an answer that has the right shape is
  accepted if and only if the references it names are those of the request, each once, in any order.
\<close>

theorem answer_accounts_for_signals:
  "map si_signal (assignIntentSignalRefs ss) = ss \<and> distinct (map si_ref (assignIntentSignalRefs ss)) \<and>
   parseIntentJudgmentResponse candidate (map si_ref (assignIntentSignalRefs ss)) =
     (case candidate of None \<Rightarrow> None
      | Some v \<Rightarrow> (case intent_response v of None \<Rightarrow> None
          | Some a \<Rightarrow> if mset (ia_consideredSignalRefs a) = mset (map si_ref (assignIntentSignalRefs ss))
                       then Some a else None))"
  using parse_exact [OF distinct_refs] signals_of_refs distinct_refs by blast

end
