(* ===== verification/Review_Gate.thy ===== *)
theory Review_Gate
  imports Intent_Request
begin

text \<open>
  The gate of a loop review (\<open>src/review/loop-gate.ts\<close>): the comparison of the producer's and the
  reviewer's identity, the facts that decide whether a review may approve automatically, and the
  intent judgment that may withdraw that approval. What the reviewer answers, the configuration and
  the intent runner are inputs. A rejected orchestration is the left of a sum.
\<close>

section \<open>Cross-model evidence\<close>

definition normalized :: "string option \<Rightarrow> string option" where
  "normalized value = (case value of None \<Rightarrow> None
     | Some v \<Rightarrow> (let t = js_to_lower (js_trim v) in if t = '''' then None else Some t))"

record reviewer_config =
  rc_model :: "string option"
  rc_codexProvider :: "string option"

definition nonblank :: "string option \<Rightarrow> string option" where
  "nonblank v = (case v of None \<Rightarrow> None | Some s \<Rightarrow> if s = '''' then None else Some s)"

definition reviewerProvenance :: "reviewer_config \<Rightarrow> reviewer_kind \<Rightarrow> review_result \<Rightarrow> model_provenance" where
  "reviewerProvenance config kind result =
     (let model = (case result of
            ReviewCompleted c \<Rightarrow> (case rv_model c of None \<Rightarrow> rc_model config | Some m \<Rightarrow> Some m)
          | ReviewRunnerError _ \<Rightarrow> rc_model config)
      in \<lparr>mp_runner = kind,
          mp_provider = (case kind of ClaudeSdk \<Rightarrow> Some ''anthropic'' | CodexCli \<Rightarrow> nonblank (rc_codexProvider config)),
          mp_model = nonblank model\<rparr>)"

definition evidence_with ::
  "cross_model_status \<Rightarrow> string \<Rightarrow> model_provenance \<Rightarrow> model_provenance \<Rightarrow> cross_model_evidence" where
  "evidence_with status basis producer reviewer =
     \<lparr>xm_status = status, xm_basis = basis, xm_producer = Some producer, xm_reviewer = reviewer\<rparr>"

definition known_different :: "string option \<Rightarrow> string option \<Rightarrow> bool" where
  "known_different a b = (case (a, b) of (Some x, Some y) \<Rightarrow> x \<noteq> y | _ \<Rightarrow> False)"

definition assessCrossModelEvidence :: "model_provenance option \<Rightarrow> model_provenance \<Rightarrow> cross_model_evidence" where
  "assessCrossModelEvidence producer reviewer = (case producer of
       None \<Rightarrow> \<lparr>xm_status = CrossUnknown, xm_basis = ''producer_unknown'', xm_producer = None, xm_reviewer = reviewer\<rparr>
     | Some p \<Rightarrow>
         let pProvider = normalized (mp_provider p); rProvider = normalized (mp_provider reviewer);
             pModel = normalized (mp_model p); rModel = normalized (mp_model reviewer) in
         if mp_runner p \<noteq> mp_runner reviewer then evidence_with CrossSatisfied ''different_runner'' p reviewer
         else if known_different pProvider rProvider then evidence_with CrossSatisfied ''different_provider'' p reviewer
         else if known_different pModel rModel then evidence_with CrossSatisfied ''different_model'' p reviewer
         else if pProvider = None \<or> pModel = None then evidence_with CrossUnknown ''producer_incomplete'' p reviewer
         else if rProvider = None \<or> rModel = None then evidence_with CrossUnknown ''reviewer_incomplete'' p reviewer
         else evidence_with CrossSame ''same_identity'' p reviewer)"

definition mayReuseLoopReviewApproval :: "loop_facts \<Rightarrow> bool \<Rightarrow> bool \<Rightarrow> bool" where
  "mayReuseLoopReviewApproval gate requireCrossModel humanApproved \<longleftrightarrow>
     humanApproved \<or> \<not> requireCrossModel \<or>
     (lf_crossModelSatisfied gate \<and>
      (case lf_crossModelEvidence gate of None \<Rightarrow> False | Some e \<Rightarrow> xm_status e = CrossSatisfied))"

section \<open>The facts of a review\<close>

record brief_fidelity =
  bf_failed :: bool
  bf_details :: "string list"

record review_request =
  rq_kind :: review_kind
  rq_taskId :: string
  rq_taskSpec :: string

definition injected_safety :: "judgment_signal list \<Rightarrow> bool" where
  "injected_safety signals = list_ex (\<lambda>s. sg_disposition s = ''safety'') signals"

definition fidelity_passed :: "brief_fidelity option \<Rightarrow> bool" where
  "fidelity_passed fidelity = (case fidelity of None \<Rightarrow> True | Some f \<Rightarrow> \<not> bf_failed f)"

definition fidelity_reason :: "brief_fidelity option \<Rightarrow> string" where
  "fidelity_reason fidelity =
     (let summary = js_join ''; '' (take 3 (case fidelity of None \<Rightarrow> [] | Some f \<Rightarrow> bf_details f)) in
      ''brief failed the deterministic fidelity audit'' @ (if summary = '''' then '''' else '': '' @ summary))"

definition cross_reason :: "bool \<Rightarrow> cross_model_evidence \<Rightarrow> string list" where
  "cross_reason required ev =
     (if xm_status ev = CrossSatisfied then []
      else [if required
            then (if xm_status ev = CrossSame
                  then ''reviewer identity matches the artifact producer; required cross-model review is not satisfied''
                  else ''cross-model provenance is incomplete; required cross-model review cannot be verified'')
            else (if xm_status ev = CrossSame then ''same-provider review allowed by configuration''
                  else ''unverified cross-model provenance allowed by configuration'')])"

text \<open>The facts before the intent judgment: of a review that failed to run, and of a completed one.\<close>

definition error_facts ::
  "cross_model_evidence \<Rightarrow> judgment_signal list \<Rightarrow> brief_fidelity option \<Rightarrow> review_failure \<Rightarrow> loop_facts" where
  "error_facts ev injected fidelity x =
     \<lparr>lf_crossModelSatisfied = (xm_status ev = CrossSatisfied), lf_crossModelEvidence = Some ev,
      lf_anchorAuditPassed = False, lf_treeClean = False, lf_fidelityPassed = fidelity_passed fidelity,
      lf_eligibleForAutoApproval = False,
      lf_reasons = [''review runner failed: '' @ review_error_name (rx_errorKind x)] @
        (if fidelity_passed fidelity then [] else [''brief failed the deterministic fidelity audit'']) @
        (if injected_safety injected then [''producer safety signal present''] else [])\<rparr>"

definition completed_facts ::
  "bool \<Rightarrow> cross_model_evidence \<Rightarrow> judgment_signal list \<Rightarrow> brief_fidelity option \<Rightarrow> review_completed \<Rightarrow> loop_facts" where
  "completed_facts requireCrossModel ev injected fidelity c =
     (let satisfied = (xm_status ev = CrossSatisfied);
          anchors = (case rv_anchorsAudit c of None \<Rightarrow> True | Some a \<Rightarrow> ra_missing a = []);
          tree = (rv_treeDirtyAfterReview c \<noteq> Some True)
      in \<lparr>lf_crossModelSatisfied = satisfied, lf_crossModelEvidence = Some ev,
          lf_anchorAuditPassed = anchors, lf_treeClean = tree, lf_fidelityPassed = fidelity_passed fidelity,
          lf_eligibleForAutoApproval =
            (rv_verdict c = Ship \<and> anchors \<and> tree \<and> fidelity_passed fidelity \<and> \<not> injected_safety injected \<and>
             (\<not> requireCrossModel \<or> satisfied)),
          lf_reasons =
            (if rv_verdict c \<noteq> Ship then [''review verdict is '' @ review_verdict_name (rv_verdict c)] else []) @
            (if \<not> anchors then [''review evidence contains missing anchors''] else []) @
            (if \<not> tree then [''review left the project tree dirty''] else []) @
            cross_reason requireCrossModel ev @
            (if injected_safety injected then [''producer safety signal present''] else []) @
            (if \<not> fidelity_passed fidelity then [fidelity_reason fidelity] else [])\<rparr>)"

section \<open>The evaluation\<close>

record loop_evaluation =
  le_runnerKind :: reviewer_kind
  le_result :: review_result
  le_reviewGate :: loop_facts
  le_judgmentDecision :: "judgment_decision option"
  le_judgmentProjectionFailure :: "projection_failure option"
  le_judgmentOrchestration :: "orchestration_result option"

record loop_input =
  li_config :: reviewer_config
  li_requireCrossModel :: bool
  li_request :: review_request
  li_runnerKind :: reviewer_kind
  li_result :: review_result \<comment> \<open>what the reviewer answers\<close>
  li_injectedSignals :: "judgment_signal list"
  li_mode :: "rollout_mode option" \<comment> \<open>\<open>cutover?.mode\<close>\<close>
  li_intentRunner :: "intent_request \<Rightarrow> string + run_result"
  li_briefFidelity :: "brief_fidelity option"
  li_producer :: "model_provenance option"

definition loop_mode :: "loop_input \<Rightarrow> rollout_mode" where
  "loop_mode i = (case li_mode i of None \<Rightarrow> ModeOff | Some m \<Rightarrow> m)"

definition loop_stage :: "loop_input \<Rightarrow> string" where
  "loop_stage i = stageForReviewKind (rq_kind (li_request i))"

definition gate_facts :: "loop_input \<Rightarrow> loop_facts" where
  "gate_facts i =
     (let ev = assessCrossModelEvidence (li_producer i)
                 (reviewerProvenance (li_config i) (li_runnerKind i) (li_result i)) in
      case li_result i of
        ReviewRunnerError x \<Rightarrow> error_facts ev (li_injectedSignals i) (li_briefFidelity i) x
      | ReviewCompleted c \<Rightarrow>
          completed_facts (li_requireCrossModel i) ev (li_injectedSignals i) (li_briefFidelity i) c)"

definition evaluation :: "loop_input \<Rightarrow> loop_facts \<Rightarrow> loop_evaluation" where
  "evaluation i facts =
     \<lparr>le_runnerKind = li_runnerKind i, le_result = li_result i, le_reviewGate = facts,
      le_judgmentDecision = None, le_judgmentProjectionFailure = None, le_judgmentOrchestration = None\<rparr>"

definition loop_orchestration :: "loop_input \<Rightarrow> loop_facts \<Rightarrow> judgment_decision \<Rightarrow> orchestrate_input" where
  "loop_orchestration i facts legacy =
     (let request = buildLoopIntentRequest (loop_stage i) (rq_taskId (li_request i)) (rq_taskSpec (li_request i))
                      (li_result i) facts legacy
      in \<lparr>oi_mode = loop_mode i, oi_legacyDecision = legacy, oi_request = request,
          oi_runner = (if request = None then None else Some (li_intentRunner i)),
          oi_preserveLegacy = True, oi_monotonic = True, oi_alwaysEvaluate = True\<rparr>)"

definition intent_demotes :: "loop_input \<Rightarrow> orchestration_result \<Rightarrow> bool" where
  "intent_demotes i res \<longleftrightarrow>
     loop_mode i = ModeEnforce \<and> or_reason res = REnforcedCandidate \<and>
     jd_action (or_activeDecision res) = ''human_review''"

definition demoted_facts :: "loop_facts \<Rightarrow> judgment_decision \<Rightarrow> loop_facts" where
  "demoted_facts facts act =
     facts\<lparr>lf_eligibleForAutoApproval := False,
           lf_reasons := lf_reasons facts @ map (\<lambda>line. ''INTENT HOLD: '' @ line) (jd_rationale act)\<rparr>"

definition is_runner_error :: "review_result \<Rightarrow> bool" where
  "is_runner_error r = (case r of ReviewRunnerError _ \<Rightarrow> True | ReviewCompleted _ \<Rightarrow> False)"

definition finalize :: "loop_input \<Rightarrow> loop_facts \<Rightarrow> contract_error + loop_evaluation" where
  "finalize i facts =
     (case containJudgmentProjection
             (projectLoopReviewDecision (loop_stage i) (li_result i) facts (li_injectedSignals i)) of
        Inl failure \<Rightarrow> Inr ((evaluation i facts)\<lparr>le_judgmentProjectionFailure := Some failure\<rparr>)
      | Inr legacy \<Rightarrow>
          if loop_mode i = ModeOff \<or> is_runner_error (li_result i)
          then Inr ((evaluation i facts)\<lparr>le_judgmentDecision := Some legacy\<rparr>)
          else (case orchestrateJudgment (loop_orchestration i facts legacy) of
              Inl err \<Rightarrow> Inl err
            | Inr res \<Rightarrow>
                let act = or_activeDecision res in
                Inr ((evaluation i (if intent_demotes i res then demoted_facts facts act else facts))
                  \<lparr>le_judgmentDecision := Some act, le_judgmentOrchestration := Some res\<rparr>)))"

definition evaluateLoopReview :: "loop_input \<Rightarrow> contract_error + loop_evaluation" where
  "evaluateLoopReview i = finalize i (gate_facts i)"

section \<open>Lemmas\<close>

lemma reduce_accepts:
  assumes "st \<in> set JUDGMENT_STAGES" and "ij_source j \<in> set JUDGMENT_SOURCES"
    and "ij_action j \<in> set INTENT_JUDGMENT_ACTIONS"
  shows "(\<exists>d. reduceJudgment st ss j = Inr d) \<longleftrightarrow> list_all valid_signal ss"
  using assms validateSignals_ok [of 0 ss]
  by (cases "validateSignals 0 ss") (auto simp: reduceJudgment_def Let_def)

text \<open>Two identities known to differ: in runner, or in a provider or a model both sides name.\<close>

definition different_models :: "model_provenance \<Rightarrow> model_provenance \<Rightarrow> bool" where
  "different_models p r \<longleftrightarrow>
     mp_runner p \<noteq> mp_runner r \<or> known_different (normalized (mp_provider p)) (normalized (mp_provider r)) \<or>
     known_different (normalized (mp_model p)) (normalized (mp_model r))"

lemma cross_satisfied_iff:
  "xm_status (assessCrossModelEvidence producer r) = CrossSatisfied \<longleftrightarrow>
     (case producer of None \<Rightarrow> False | Some p \<Rightarrow> different_models p r)"
  by (auto simp: assessCrossModelEvidence_def Let_def evidence_with_def different_models_def split: option.split)

text \<open>A review that the deterministic gate lets through.\<close>

definition clean_review :: "loop_input \<Rightarrow> bool" where
  "clean_review i = (case li_result i of
       ReviewRunnerError _ \<Rightarrow> False
     | ReviewCompleted c \<Rightarrow>
         rv_verdict c = Ship \<and> (case rv_anchorsAudit c of None \<Rightarrow> True | Some a \<Rightarrow> ra_missing a = []) \<and>
         rv_treeDirtyAfterReview c \<noteq> Some True \<and>
         (case li_briefFidelity i of None \<Rightarrow> True | Some f \<Rightarrow> \<not> bf_failed f) \<and>
         \<not> list_ex is_safety (li_injectedSignals i) \<and>
         (li_requireCrossModel i \<longrightarrow>
            (case li_producer i of None \<Rightarrow> False
             | Some p \<Rightarrow> different_models p (reviewerProvenance (li_config i) (li_runnerKind i) (li_result i)))))"

lemma gate_facts_eligible: "lf_eligibleForAutoApproval (gate_facts i) = clean_review i"
proof (cases "li_result i")
  case (ReviewCompleted c)
  then show ?thesis
    by (simp add: gate_facts_def completed_facts_def Let_def clean_review_def cross_satisfied_iff
        fidelity_passed_def injected_safety_def is_safety_def [abs_def] conj_ac
        split: option.split)
next
  case (ReviewRunnerError x)
  then show ?thesis by (simp add: gate_facts_def error_facts_def Let_def clean_review_def)
qed

text \<open>The decision of the deterministic gate, as \<open>finalize\<close> projects it.\<close>

definition loop_legacy :: "loop_input \<Rightarrow> contract_error + judgment_decision" where
  "loop_legacy i = projectLoopReviewDecision (loop_stage i) (li_result i) (gate_facts i) (li_injectedSignals i)"

lemma loop_stage_valid: "loop_stage i \<in> set JUDGMENT_STAGES"
  by (cases "rq_kind (li_request i)") (simp_all add: loop_stage_def JUDGMENT_STAGES_def)

lemma nonblank_text: "c \<in> set s \<Longrightarrow> \<not> is_js_space c \<Longrightarrow> js_trim s \<noteq> ''''"
  by (auto simp: js_trim_eq_Nil_iff)

lemma cross_signal_valid:
  "st \<in> set JUDGMENT_STAGES \<Longrightarrow> valid_signal (signal st ''cross_model_unsatisfied'' ''advisory''
     ''Configured review did not provide cross-model evidence'' True)"
  by (simp add: valid_signal_def signal_def is_safety_def JUDGMENT_SIGNAL_DISPOSITIONS_def js_trim_eq_Nil_iff is_js_space_def)

lemma clean_signals:
  assumes "clean_review i"
  shows "review_signals (loop_stage i) (li_result i) = []"
  using assms by (auto simp: clean_review_def review_signals_def split: review_result.splits option.splits)

lemma clean_legacy:
  assumes "clean_review i"
  shows "(case loop_legacy i of
      Inl _ \<Rightarrow> \<not> list_all valid_signal (li_injectedSignals i)
    | Inr d \<Rightarrow> list_all valid_signal (li_injectedSignals i) \<and> jd_action d = ''continue'' \<and>
        sf_passed (jd_safetyFloor d))"
proof -
  have c: "\<not> list_ex is_safety (li_injectedSignals i)"
    using assms by (auto simp: clean_review_def split: review_result.splits)
  let ?x = "if \<not> lf_crossModelSatisfied (gate_facts i)
         then [signal (loop_stage i) ''cross_model_unsatisfied'' ''advisory''
                 ''Configured review did not provide cross-model evidence'' True] else []"
  have x: "list_all valid_signal ?x" "\<not> list_ex is_safety ?x"
    using cross_signal_valid [OF loop_stage_valid [of i]] by (simp_all add: is_safety_def signal_def)
  have pol: "ij_source (legacy_policy ''continue'' r) \<in> set JUDGMENT_SOURCES"
    "ij_action (legacy_policy ''continue'' r) \<in> set INTENT_JUDGMENT_ACTIONS"
    "ij_action (legacy_policy ''continue'' r) = ''continue''" for r
    by (simp_all add: legacy_policy_def JUDGMENT_SOURCES_def INTENT_JUDGMENT_ACTIONS_def)
  let ?j = "legacy_policy ''continue'' ((''legacy_auto_approval_eligible:'' @ bool_text True) # lf_reasons (gate_facts i))"
  have l: "loop_legacy i = reduceJudgment (loop_stage i) (li_injectedSignals i @ ?x) ?j"
    by (simp add: loop_legacy_def projectLoopReviewDecision_def gate_facts_eligible assms clean_signals)
  have none: "filter is_safety (li_injectedSignals i @ ?x) = []"
    using c x(2) by (simp only: filter_empty_conv list_ex_iff set_append Un_iff) blast
  have acc: "(\<exists>d. loop_legacy i = Inr d) \<longleftrightarrow> list_all valid_signal (li_injectedSignals i)"
    unfolding l reduce_accepts [OF loop_stage_valid pol(1,2)] using x(1) by simp
  show ?thesis
  proof (cases "loop_legacy i")
    case (Inl e)
    then show ?thesis using acc by simp
  next
    case (Inr d)
    then have "jd_action d = ''continue'' \<and> sf_passed (jd_safetyFloor d)"
      using none pol(3) unfolding l reduceJudgment_ok by simp
    then show ?thesis using acc Inr by auto
  qed
qed

text \<open>What the type of a runner's answer promises.\<close>

definition canonical_runner :: "(intent_request \<Rightarrow> string + run_result) \<Rightarrow> bool" where
  "canonical_runner run \<longleftrightarrow> (\<forall>req j refs m. run req = Inr (RunCompleted j refs m) \<longrightarrow>
     ij_source j \<in> set JUDGMENT_SOURCES \<and> ij_action j \<in> set INTENT_JUDGMENT_ACTIONS)"

lemma run_intent_completed:
  "distinct (map si_ref (ir_signals req)) \<Longrightarrow>
     run_intent (Some run) req = RunCompleted j refs m \<longleftrightarrow>
     run req = Inr (RunCompleted j refs m) \<and> mset refs = mset (map si_ref (ir_signals req))"
  using has_exact_refs [of req j refs m]
  by (auto simp: run_intent_def Let_def unhandledRunnerRejection_def invalidRefs_def split: sum.splits if_splits)

lemma request_refs:
  "buildLoopIntentRequest st tid spec r facts legacy = Some req \<Longrightarrow>
     ir_signals req = assignIntentSignalRefs (jd_signals legacy)"
  by (auto simp: buildLoopIntentRequest_def Let_def intent_request_of_def split: if_splits)

text \<open>The intent model holds the review: asked in enforce mode, it accounts for every signal and asks for a human.\<close>

definition intent_hold :: "loop_input \<Rightarrow> bool" where
  "intent_hold i \<longleftrightarrow> loop_mode i = ModeEnforce \<and>
     (case loop_legacy i of Inl _ \<Rightarrow> False
      | Inr legacy \<Rightarrow>
          (case buildLoopIntentRequest (loop_stage i) (rq_taskId (li_request i)) (rq_taskSpec (li_request i))
                  (li_result i) (gate_facts i) legacy of
             None \<Rightarrow> False
           | Some req \<Rightarrow>
               (case li_intentRunner i req of
                  Inl _ \<Rightarrow> False
                | Inr (RunError _ _ _) \<Rightarrow> False
                | Inr (RunCompleted j refs _) \<Rightarrow>
                    ij_action j = ''human_review'' \<and> mset refs = mset (map si_ref (ir_signals req)))))"

text \<open>The orchestration of a legacy decision the reducer accepts, asking a canonical runner.\<close>

lemma orchestrate_total:
  assumes "loop_legacy i = Inr legacy" and "canonical_runner (li_intentRunner i)"
  shows "\<exists>res. orchestrateJudgment (loop_orchestration i (gate_facts i) legacy) = Inr res"
proof -
  obtain st ss j where red: "reduceJudgment st ss j = Inr legacy"
    using assms(1) by (auto simp: loop_legacy_def projectLoopReviewDecision_def)
  have val: "validatedLegacyDecision legacy = Inr legacy"
    using reducer.revalidate [OF red] by (simp add: validatedLegacyDecision_def)
  have "jd_stage legacy \<in> set JUDGMENT_STAGES" "list_all valid_signal (jd_signals legacy)"
    using red by (auto simp: reduceJudgment_ok validateSignals_ok)
  then have acc: "\<exists>d. reduceJudgment (jd_stage legacy) (jd_signals legacy) j = Inr d"
    if "li_intentRunner i req = Inr (RunCompleted j refs m)" for j req refs m
    using that assms(2) reduce_accepts [of "jd_stage legacy" j "jd_signals legacy"]
    unfolding canonical_runner_def by blast
  show ?thesis
  proof (cases "oi_request (loop_orchestration i (gate_facts i) legacy)")
    case None
    then show ?thesis by (simp add: orchestrateJudgment_def loop_orchestration_def Let_def val)
  next
    case (Some req)
    let ?in = "loop_orchestration i (gate_facts i) legacy" and ?run = "run_intent (Some (li_intentRunner i)) req"
    have "distinct (map si_ref (ir_signals req))"
      using Some distinct_refs by (auto simp: loop_orchestration_def Let_def dest: request_refs)
    then have "\<exists>res. apply_run_result ?in legacy ?run = Inr res"
    proof (cases ?run)
      case (RunCompleted j refs m)
      then obtain d where "reduceJudgment (jd_stage legacy) (jd_signals legacy) j = Inr d"
        using run_intent_completed [of req "li_intentRunner i"] acc \<open>distinct _\<close> by blast
      then show ?thesis using RunCompleted by (simp add: apply_run_result_def Let_def)
    next
      case (RunError c msg m)
      then show ?thesis by (simp add: apply_run_result_def loop_orchestration_def Let_def)
    qed
    then show ?thesis
      using Some by (auto simp: orchestrateJudgment_def loop_orchestration_def Let_def val)
  qed
qed

text \<open>When the deterministic gate lets the review through, the intent judgment demotes exactly on a hold.\<close>

lemma clean_demotion:
  assumes "clean_review i" and legacy: "loop_legacy i = Inr legacy" and mode: "loop_mode i \<noteq> ModeOff"
    and res: "orchestrateJudgment (loop_orchestration i (gate_facts i) legacy) = Inr res"
  shows "intent_demotes i res = intent_hold i"
proof -
  let ?in = "loop_orchestration i (gate_facts i) legacy"
  obtain st ss j where red: "reduceJudgment st ss j = Inr legacy"
    using legacy by (auto simp: loop_legacy_def projectLoopReviewDecision_def)
  have val: "validatedLegacyDecision legacy = Inr legacy"
    using reducer.revalidate [OF red] by (simp add: validatedLegacyDecision_def)
  have act: "jd_action legacy = ''continue''" "sf_passed (jd_safetyFloor legacy)"
    using clean_legacy [OF assms(1)] legacy by auto
  have none: "filter is_safety (jd_signals legacy) = []"
    using red act(2) by (auto simp: reduceJudgment_ok)
  show ?thesis
  proof (cases "oi_request ?in")
    case None
    then show ?thesis
      using res act legacy
      by (auto simp: orchestrateJudgment_def loop_orchestration_def Let_def val intent_demotes_def intent_hold_def
          split: if_splits)
  next
    case (Some req)
    then have req: "buildLoopIntentRequest (loop_stage i) (rq_taskId (li_request i)) (rq_taskSpec (li_request i))
        (li_result i) (gate_facts i) legacy = Some req"
      by (simp add: loop_orchestration_def Let_def)
    let ?run = "run_intent (Some (li_intentRunner i)) req"
    have refs: "distinct (map si_ref (ir_signals req))"
      using request_refs [OF req] distinct_refs by simp
    have app: "apply_run_result ?in legacy ?run = Inr res"
      using res act mode req by (simp add: orchestrateJudgment_def loop_orchestration_def Let_def val)
    have in_simps: "oi_mode ?in = loop_mode i" "oi_monotonic ?in" "oi_preserveLegacy ?in"
      by (simp_all add: loop_orchestration_def Let_def)
    show ?thesis
    proof (cases ?run)
      case (RunError c msg m)
      then have "\<not> intent_demotes i res"
        using app in_simps by (auto simp: apply_run_result_def intent_demotes_def split: if_splits)
      moreover have "\<not> intent_hold i"
        using RunError run_intent_completed [OF refs, of "li_intentRunner i"] legacy req
        by (auto simp: intent_hold_def split: sum.splits run_result.splits)
      ultimately show ?thesis by simp
    next
      case (RunCompleted j refs' m)
      then have run: "li_intentRunner i req = Inr (RunCompleted j refs' m)" "mset refs' = mset (map si_ref (ir_signals req))"
        using run_intent_completed [OF refs] by blast+
      obtain d where d: "reduceJudgment (jd_stage legacy) (jd_signals legacy) j = Inr d"
        using app RunCompleted by (auto simp: apply_run_result_def split: sum.splits)
      then have da: "jd_action d = ij_action j" using none by (auto simp: reduceJudgment_ok)
      have "\<not> isLessRestrictive d legacy"
        using act(1) by (auto simp: isLessRestrictive_def ACTION_RESTRICTIVENESS_def split: option.split)
      then have "res = attempted (loop_mode i) (if loop_mode i = ModeEnforce then REnforcedCandidate else RShadowCandidate)
          legacy (if loop_mode i = ModeEnforce then d else legacy) (Some d) ?run (\<not> sameDecisionAction legacy d)"
        using app RunCompleted d in_simps by (simp add: apply_run_result_def Let_def)
      then show ?thesis
        using run da legacy req by (auto simp: intent_demotes_def intent_hold_def)
    qed
  qed
qed

section \<open>Properties\<close>

text \<open>A brief review that ships, of a specification with an intent, answered by a given intent model.\<close>

definition shipping_review :: review_result where
  "shipping_review = ReviewCompleted
     \<lparr>rv_verdict = Ship, rv_findings = [], rv_confidence = None, rv_summary = ''fine'', rv_runner = CodexCli,
      rv_model = Some ''reviewer'', rv_anchorsAudit = None, rv_treeDirtyAfterReview = None\<rparr>"

definition answering :: "string \<Rightarrow> intent_request \<Rightarrow> string + run_result" where
  "answering action request =
     Inr (RunCompleted \<lparr>ij_source = ''intent_model'', ij_action = action, ij_rationale = [''because'']\<rparr>
       (map si_ref (ir_signals request))
       \<lparr>rm_model = ''model'', rm_durationMs = 1, rm_sessionId = None, rm_truncatedFields = []\<rparr>)"

definition sample_loop :: "(intent_request \<Rightarrow> string + run_result) \<Rightarrow> loop_input" where
  "sample_loop runner =
     \<lparr>li_config = \<lparr>rc_model = None, rc_codexProvider = None\<rparr>, li_requireCrossModel = True,
      li_request = \<lparr>rq_kind = ReviewBrief, rq_taskId = ''T-1'', rq_taskSpec = ''## Intent'' @ CHR 0x0A # ''Do it''\<rparr>,
      li_runnerKind = CodexCli, li_result = shipping_review,
      li_injectedSignals = [signal ''loop_brief'' ''note'' ''advisory'' ''a note'' False],
      li_mode = Some ModeEnforce, li_intentRunner = runner, li_briefFidelity = None,
      li_producer = Some \<lparr>mp_runner = ClaudeSdk, mp_provider = None, mp_model = None\<rparr>\<rparr>"

text \<open>
  C15: What a loop review may approve by itself. Whatever the intent model answers, the evaluation
  returns, and it grants automatic approval if and only if the deterministic gate does (the reviewer
  says SHIP, no anchor is missing, the tree is clean, the brief passed its fidelity audit, no
  injected signal is a safety signal, and a required cross-model review was made by an identity
  known to differ from the producer's) and the intent model, asked in enforce mode, does not hold
  it by a complete answer. An absent, failing or incomplete answer takes nothing away, and no answer
  grants anything.
\<close>

theorem loop_approval_exact:
  assumes "canonical_runner (li_intentRunner i)"
  shows "\<exists>e. evaluateLoopReview i = Inr e \<and>
    lf_eligibleForAutoApproval (le_reviewGate e) = (clean_review i \<and> \<not> intent_hold i)"
proof (cases "loop_legacy i")
  case (Inl err)
  then have "\<not> intent_hold i" by (simp add: intent_hold_def)
  moreover obtain code msg where "err = JudgmentContractError code msg" by (cases err)
  ultimately show ?thesis using Inl
    by (simp add: evaluateLoopReview_def finalize_def loop_legacy_def containJudgmentProjection_def evaluation_def
        gate_facts_eligible)
next
  case (Inr legacy)
  note fin = evaluateLoopReview_def finalize_def Inr [unfolded loop_legacy_def] containJudgmentProjection_def
    evaluation_def Let_def
  show ?thesis
  proof (cases "loop_mode i = ModeOff \<or> is_runner_error (li_result i)")
    case True
    then have "clean_review i \<longrightarrow> \<not> intent_hold i"
      by (auto simp: intent_hold_def clean_review_def is_runner_error_def split: review_result.splits)
    then show ?thesis using True by (auto simp: fin gate_facts_eligible)
  next
    case False
    then have mode: "loop_mode i \<noteq> ModeOff" by simp
    obtain res where res: "orchestrateJudgment (loop_orchestration i (gate_facts i) legacy) = Inr res"
      using orchestrate_total [OF Inr assms] by blast
    show ?thesis
      using False res clean_demotion [OF _ Inr mode res]
      by (auto simp: fin demoted_facts_def gate_facts_eligible)
  qed
qed

lemma loop_approval_exact_witness:
  "\<exists>e. evaluateLoopReview (sample_loop (answering ''human_review'')) = Inr e \<and>
     \<not> lf_eligibleForAutoApproval (le_reviewGate e)"
proof -
  have "canonical_runner (answering ''human_review'')"
    by (auto simp: canonical_runner_def answering_def JUDGMENT_SOURCES_def INTENT_JUDGMENT_ACTIONS_def)
  then have c: "canonical_runner (li_intentRunner (sample_loop (answering ''human_review'')))"
    by (simp add: sample_loop_def)
  have "clean_review (sample_loop (answering ''human_review'')) \<and> intent_hold (sample_loop (answering ''human_review''))"
    by code_simp
  then show ?thesis using loop_approval_exact [OF c] by auto
qed

end
