(* ===== verification/Advisory_Override.thy ===== *)
theory Advisory_Override
  imports Review_Gate
begin

text \<open>
  Approvals given against advice (\<open>src/judgment/advisory-override.ts\<close>): which advice a decision
  contradicts is read from the stored evidence, and a decision that contradicts some is refused,
  recorded or passed according to the mode. The facts of a stored gate may each be absent.
\<close>

datatype override_surface = BlueprintApproval | JudgeApproval

datatype override_mode = OverrideOff | OverrideWarn | OverrideEnforce

definition UNEXPLAINED_OVERRIDE_REASON :: string where
  "UNEXPLAINED_OVERRIDE_REASON = ''(none given)''"

definition UNATTRIBUTED_ACTOR :: string where
  "UNATTRIBUTED_ACTOR = ''unattributed''"

definition AUTO_POLICY_ACTOR :: string where
  "AUTO_POLICY_ACTOR = ''auto_policy''"

record advisory_override =
  ao_surface :: override_surface
  ao_actor :: string
  ao_reason :: string
  ao_advisories :: "string list"
  ao_at :: millis

text \<open>A review gate as a record holds it.\<close>

record stored_gate =
  sg_crossModelSatisfied :: "bool option"
  sg_crossModelEvidence :: "cross_model_evidence option"
  sg_anchorAuditPassed :: "bool option"
  sg_treeClean :: "bool option"
  sg_fidelityPassed :: "bool option"
  sg_eligibleForAutoApproval :: "bool option"
  sg_reasons :: "string list"

definition stored_facts :: "loop_facts \<Rightarrow> stored_gate" where
  "stored_facts g = \<lparr>sg_crossModelSatisfied = Some (lf_crossModelSatisfied g),
     sg_crossModelEvidence = lf_crossModelEvidence g, sg_anchorAuditPassed = Some (lf_anchorAuditPassed g),
     sg_treeClean = Some (lf_treeClean g), sg_fidelityPassed = Some (lf_fidelityPassed g),
     sg_eligibleForAutoApproval = Some (lf_eligibleForAutoApproval g), sg_reasons = lf_reasons g\<rparr>"

record intent_hold_record =
  ih_rationale :: "string list"
  ih_diffFingerprint :: string
  ih_heldAt :: millis
  ih_action :: "string option"

record advisory_evidence =
  ae_review :: "review_result option"
  ae_reviewGate :: "stored_gate option"
  ae_intentHold :: "intent_hold_record option"
  ae_verificationPassed :: "bool option"
  ae_recommendsDecomposition :: "bool option"

section \<open>Detection\<close>

text \<open>The non-blank texts, trimmed, each behind a prefix.\<close>

definition prefixed_texts :: "string \<Rightarrow> string list \<Rightarrow> string list" where
  "prefixed_texts label texts = map (\<lambda>t. label @ t) (filter (\<lambda>t. t \<noteq> '''') (map js_trim texts))"

definition review_advisories :: "review_result option \<Rightarrow> string list" where
  "review_advisories review = (case review of
       Some (ReviewCompleted c) \<Rightarrow>
         if rv_verdict c = Ship then []
         else [''reviewer verdict '' @ review_verdict_name (rv_verdict c) @
               (if js_trim (rv_summary c) = '''' then '''' else '': '' @ js_trim (rv_summary c))]
     | _ \<Rightarrow> [])"

definition gateAdvisories :: "stored_gate option \<Rightarrow> string list" where
  "gateAdvisories gate = (case gate of
       None \<Rightarrow> []
     | Some g \<Rightarrow>
         let advisories =
           (if sg_crossModelSatisfied g = Some False then [''gate: cross-model review requirement not satisfied''] else []) @
           (if sg_anchorAuditPassed g = Some False then [''gate: reviewer finding anchors failed the on-disk audit''] else []) @
           (if sg_treeClean g = Some False then [''gate: working tree was dirty after a read-only review''] else [])
         in if advisories \<noteq> [] then advisories @ prefixed_texts ''gate reason: '' (sg_reasons g) else [])"

definition intentHoldAdvisories :: "intent_hold_record option \<Rightarrow> string list" where
  "intentHoldAdvisories hold = (case hold of
       None \<Rightarrow> []
     | Some h \<Rightarrow>
         let action = (case ih_action h of None \<Rightarrow> ''human_review'' | Some a \<Rightarrow> a) in
         if action = ''human_review'' then []
         else prefixed_texts (''intent hold ('' @ action @ ''): '') (ih_rationale h))"

definition detectOverriddenAdvisories :: "advisory_evidence \<Rightarrow> string list" where
  "detectOverriddenAdvisories ev =
     review_advisories (ae_review ev) @ gateAdvisories (ae_reviewGate ev) @
     (if ae_verificationPassed ev = Some False then [''verification did not pass''] else []) @
     (if ae_recommendsDecomposition ev = Some True
      then [''preflight recommends decomposing this task before building it''] else []) @
     intentHoldAdvisories (ae_intentHold ev)"

section \<open>The record of an override\<close>

datatype missing_field = MissingActor | MissingReason

datatype override_build =
    OverrideBuilt advisory_override
  | OverrideMissing "missing_field list" "string list"

definition trimmed :: "string option \<Rightarrow> string" where
  "trimmed v = (case v of None \<Rightarrow> '''' | Some s \<Rightarrow> js_trim s)"

text \<open>Called without advisories it throws, which is \<open>None\<close>.\<close>

definition buildAdvisoryOverride ::
  "override_surface \<Rightarrow> string option \<Rightarrow> string option \<Rightarrow> string list \<Rightarrow> millis \<Rightarrow> override_build option" where
  "buildAdvisoryOverride surface actor reason advisories instant =
     (if advisories = [] then None
      else
        let missing = (if trimmed actor = '''' then [MissingActor] else []) @
                      (if trimmed reason = '''' then [MissingReason] else []) in
        if missing \<noteq> [] then Some (OverrideMissing missing advisories)
        else Some (OverrideBuilt \<lparr>ao_surface = surface, ao_actor = trimmed actor, ao_reason = trimmed reason,
               ao_advisories = advisories, ao_at = instant\<rparr>))"

definition buildDirectWriteOverride ::
  "override_surface \<Rightarrow> bool \<Rightarrow> advisory_evidence \<Rightarrow> override_mode option \<Rightarrow> millis \<Rightarrow> advisory_override option" where
  "buildDirectWriteOverride surface automatic ev mode instant =
     (if mode = Some OverrideOff then None
      else let advisories = detectOverriddenAdvisories ev in
        if advisories = [] then None
        else Some \<lparr>ao_surface = surface,
          ao_actor = (if automatic then AUTO_POLICY_ACTOR else UNATTRIBUTED_ACTOR),
          ao_reason = (if automatic
            then ''auto-approved by policy despite the advice above; no human was asked''
            else ''approved by a direct record write that bypassed the decision boundary; no actor or reason was supplied''),
          ao_advisories = advisories, ao_at = instant\<rparr>)"

section \<open>The decision\<close>

record decision_options =
  do_actor :: "string option"
  do_reason :: "string option"
  do_mode :: "override_mode option"
  do_now :: "millis option"

record decision_result =
  dr_actor :: "string option"
  dr_override :: "advisory_override option"
  dr_unexplained :: bool
  dr_advisories :: "string list"

text \<open>\<open>AdvisoryOverrideRequiredError\<close>\<close>

datatype override_required = OverrideRequired override_surface "string list" "missing_field list"

definition resolveApprovalDecision ::
  "override_surface \<Rightarrow> bool \<Rightarrow> advisory_evidence \<Rightarrow> decision_options \<Rightarrow> millis \<Rightarrow> override_required + decision_result" where
  "resolveApprovalDecision surface isApproval ev options clock =
     (let mode = (case do_mode options of None \<Rightarrow> OverrideWarn | Some m \<Rightarrow> m);
          actor = (if trimmed (do_actor options) = '''' then None else Some (trimmed (do_actor options)));
          plain = (\<lambda>advisories. \<lparr>dr_actor = actor, dr_override = None, dr_unexplained = False, dr_advisories = advisories\<rparr>)
      in
      if mode = OverrideOff \<or> \<not> isApproval then Inr (plain [])
      else
        let advisories = detectOverriddenAdvisories ev in
        if advisories = [] then Inr (plain [])
        else
          let instant = (case do_now options of None \<Rightarrow> clock | Some t \<Rightarrow> t) in
          (case buildAdvisoryOverride surface actor (do_reason options) advisories instant of
             Some (OverrideBuilt ov) \<Rightarrow>
               Inr \<lparr>dr_actor = Some (ao_actor ov), dr_override = Some ov, dr_unexplained = False, dr_advisories = advisories\<rparr>
           | Some (OverrideMissing missing _) \<Rightarrow>
               if mode = OverrideEnforce then Inl (OverrideRequired surface advisories missing)
               else
                 let who = (case actor of None \<Rightarrow> UNATTRIBUTED_ACTOR | Some a \<Rightarrow> a) in
                 Inr \<lparr>dr_actor = Some who,
                      dr_override = Some \<lparr>ao_surface = surface, ao_actor = who,
                        ao_reason = (if trimmed (do_reason options) = '''' then UNEXPLAINED_OVERRIDE_REASON
                                     else trimmed (do_reason options)),
                        ao_advisories = advisories, ao_at = instant\<rparr>,
                      dr_unexplained = True, dr_advisories = advisories\<rparr>
           | None \<Rightarrow> Inl (OverrideRequired surface [] [])))"

section \<open>Lemmas\<close>

text \<open>A decision that contradicts stored advice, and one that says by whom and why.\<close>

definition contradicts :: "bool \<Rightarrow> advisory_evidence \<Rightarrow> decision_options \<Rightarrow> bool" where
  "contradicts isApproval ev options \<longleftrightarrow>
     isApproval \<and> do_mode options \<noteq> Some OverrideOff \<and> detectOverriddenAdvisories ev \<noteq> []"

definition explained :: "decision_options \<Rightarrow> bool" where
  "explained options \<longleftrightarrow> trimmed (do_actor options) \<noteq> '''' \<and> trimmed (do_reason options) \<noteq> ''''"

text \<open>An override that says what was contradicted, by whom and why.\<close>

definition names_advice :: "override_surface \<Rightarrow> advisory_evidence \<Rightarrow> advisory_override \<Rightarrow> bool" where
  "names_advice surface ev ov \<longleftrightarrow> ao_surface ov = surface \<and> ao_advisories ov = detectOverriddenAdvisories ev \<and>
     ao_actor ov \<noteq> '''' \<and> ao_reason ov \<noteq> ''''"

lemma trimmed_again: "trimmed (Some (trimmed v)) = trimmed v"
  by (simp add: trimmed_def js_trim_idem split: option.split)

lemma resolve_agreeing:
  "\<not> contradicts a ev opts \<Longrightarrow> \<exists>r. resolveApprovalDecision surface a ev opts clock = Inr r \<and> dr_override r = None \<and>
     \<not> dr_unexplained r"
  by (auto simp: contradicts_def resolveApprovalDecision_def Let_def split: option.split)

lemma resolve_explained:
  "contradicts a ev opts \<Longrightarrow> explained opts \<Longrightarrow>
     \<exists>r ov. resolveApprovalDecision surface a ev opts clock = Inr r \<and> dr_override r = Some ov \<and>
       names_advice surface ev ov \<and> dr_actor r = Some (ao_actor ov) \<and> \<not> dr_unexplained r"
  by (auto simp: contradicts_def explained_def names_advice_def resolveApprovalDecision_def Let_def
      buildAdvisoryOverride_def trimmed_again split: option.split)

lemma resolve_refused:
  "contradicts a ev opts \<Longrightarrow> \<not> explained opts \<Longrightarrow> do_mode opts = Some OverrideEnforce \<Longrightarrow>
     \<exists>missing. missing \<noteq> [] \<and> resolveApprovalDecision surface a ev opts clock =
       Inl (OverrideRequired surface (detectOverriddenAdvisories ev) missing)"
  by (auto simp: contradicts_def explained_def resolveApprovalDecision_def Let_def
      buildAdvisoryOverride_def trimmed_again trimmed_def [of None])

lemma resolve_unexplained:
  "contradicts a ev opts \<Longrightarrow> \<not> explained opts \<Longrightarrow> do_mode opts \<noteq> Some OverrideEnforce \<Longrightarrow>
     \<exists>r ov. resolveApprovalDecision surface a ev opts clock = Inr r \<and> dr_override r = Some ov \<and>
       names_advice surface ev ov \<and> dr_actor r = Some (ao_actor ov) \<and> dr_unexplained r"
  by (cases "do_mode opts")
     (auto simp: contradicts_def explained_def names_advice_def resolveApprovalDecision_def Let_def
      buildAdvisoryOverride_def trimmed_again trimmed_def [of None] UNATTRIBUTED_ACTOR_def UNEXPLAINED_OVERRIDE_REASON_def)

text \<open>What a loop evaluation stores keeps the facts of the gate.\<close>

lemma evaluation_facts:
  assumes "evaluateLoopReview i = Inr e"
  shows "le_result e = li_result i" and "lf_crossModelSatisfied (le_reviewGate e) = lf_crossModelSatisfied (gate_facts i)"
    and "lf_anchorAuditPassed (le_reviewGate e) = lf_anchorAuditPassed (gate_facts i)"
    and "lf_treeClean (le_reviewGate e) = lf_treeClean (gate_facts i)"
  using assms
  by (auto simp: evaluateLoopReview_def finalize_def evaluation_def demoted_facts_def Let_def
      split: sum.splits if_splits)

lemma clean_gate_facts:
  assumes "clean_review i"
  shows "lf_anchorAuditPassed (gate_facts i)" and "lf_treeClean (gate_facts i)"
    and "review_advisories (Some (li_result i)) = []"
    and "lf_crossModelSatisfied (gate_facts i) =
      (case li_producer i of None \<Rightarrow> False
       | Some p \<Rightarrow> different_models p (reviewerProvenance (li_config i) (li_runnerKind i) (li_result i)))"
proof -
  obtain c where c: "li_result i = ReviewCompleted c" "rv_verdict c = Ship"
    "case rv_anchorsAudit c of None \<Rightarrow> True | Some a \<Rightarrow> ra_missing a = []" "rv_treeDirtyAfterReview c \<noteq> Some True"
    using assms by (auto simp: clean_review_def split: review_result.splits)
  show "lf_anchorAuditPassed (gate_facts i)" "lf_treeClean (gate_facts i)"
    using c by (simp_all add: gate_facts_def completed_facts_def Let_def)
  show "review_advisories (Some (li_result i)) = []" using c by (simp add: review_advisories_def)
  show "lf_crossModelSatisfied (gate_facts i) =
      (case li_producer i of None \<Rightarrow> False
       | Some p \<Rightarrow> different_models p (reviewerProvenance (li_config i) (li_runnerKind i) (li_result i)))"
    using c by (simp add: gate_facts_def completed_facts_def Let_def cross_satisfied_iff split: option.split)
qed

section \<open>Properties\<close>

text \<open>
  No decision hides the advice it contradicts. A decision is refused exactly when, in enforce
  mode, it approves against stored advice without an actor or a reason, and the refusal names the
  advice; otherwise it carries an override exactly when it approves against advice and the mode is not
  off, naming all of the advice, an actor and a reason, and is marked unexplained exactly when the
  caller gave no actor or no reason. A decision that contradicts nothing needs nothing.
\<close>

theorem override_decision_exact:
  "case resolveApprovalDecision surface isApproval ev opts clock of
     Inl e \<Rightarrow> contradicts isApproval ev opts \<and> \<not> explained opts \<and> do_mode opts = Some OverrideEnforce \<and>
       (\<exists>missing. missing \<noteq> [] \<and> e = OverrideRequired surface (detectOverriddenAdvisories ev) missing)
   | Inr r \<Rightarrow> \<not> (contradicts isApproval ev opts \<and> \<not> explained opts \<and> do_mode opts = Some OverrideEnforce) \<and>
       dr_unexplained r = (contradicts isApproval ev opts \<and> \<not> explained opts) \<and>
       (case dr_override r of None \<Rightarrow> \<not> contradicts isApproval ev opts
        | Some ov \<Rightarrow> contradicts isApproval ev opts \<and> names_advice surface ev ov \<and> dr_actor r = Some (ao_actor ov))"
proof -
  consider "\<not> contradicts isApproval ev opts" | "contradicts isApproval ev opts" "explained opts"
    | "contradicts isApproval ev opts" "\<not> explained opts" "do_mode opts = Some OverrideEnforce"
    | "contradicts isApproval ev opts" "\<not> explained opts" "do_mode opts \<noteq> Some OverrideEnforce"
    by blast
  then show ?thesis
  proof cases
    case 1
    show ?thesis using resolve_agreeing [OF 1, of surface clock] 1 by auto
  next
    case 2
    show ?thesis using resolve_explained [OF 2, of surface clock] 2 by auto
  next
    case 3
    show ?thesis using resolve_refused [OF 3, of surface clock] 3 by auto
  next
    case 4
    show ?thesis using resolve_unexplained [OF 4, of surface clock] 4 by auto
  qed
qed

text \<open>
  When approving a clean loop review needs a reason. A review the deterministic gate lets through
  contains advice against its approval exactly when the reviewer's identity is not known to differ
  from the producer's, whether or not a cross-model review was required.
\<close>

theorem clean_review_advice:
  assumes "evaluateLoopReview i = Inr e" and "clean_review i"
  shows "detectOverriddenAdvisories
      \<lparr>ae_review = Some (le_result e), ae_reviewGate = Some (stored_facts (le_reviewGate e)), ae_intentHold = None,
       ae_verificationPassed = None, ae_recommendsDecomposition = None\<rparr> = [] \<longleftrightarrow>
    (case li_producer i of None \<Rightarrow> False
     | Some p \<Rightarrow> different_models p (reviewerProvenance (li_config i) (li_runnerKind i) (li_result i)))"
  using clean_gate_facts [OF assms(2)] evaluation_facts [OF assms(1)]
  by (simp add: detectOverriddenAdvisories_def gateAdvisories_def intentHoldAdvisories_def stored_facts_def Let_def)

definition optional_loop :: loop_input where
  "optional_loop = (sample_loop (answering ''continue''))\<lparr>li_requireCrossModel := False, li_producer := None\<rparr>"

lemma clean_review_advice_witness:
  "\<exists>e. evaluateLoopReview optional_loop = Inr e \<and> lf_eligibleForAutoApproval (le_reviewGate e) \<and>
     \<not> li_requireCrossModel optional_loop \<and>
     detectOverriddenAdvisories
      \<lparr>ae_review = Some (le_result e), ae_reviewGate = Some (stored_facts (le_reviewGate e)), ae_intentHold = None,
       ae_verificationPassed = None, ae_recommendsDecomposition = None\<rparr> \<noteq> []"
proof -
  have c: "clean_review optional_loop \<and> li_producer optional_loop = None \<and> \<not> li_requireCrossModel optional_loop \<and>
      (case evaluateLoopReview optional_loop of Inl _ \<Rightarrow> False | Inr e \<Rightarrow> lf_eligibleForAutoApproval (le_reviewGate e))"
    by code_simp
  then obtain e where e: "evaluateLoopReview optional_loop = Inr e" "lf_eligibleForAutoApproval (le_reviewGate e)"
    by (auto split: sum.splits)
  show ?thesis using clean_review_advice [OF e(1)] c e by auto
qed

end
