(* ===== verification/Spec_Identity.thy ===== *)
theory Spec_Identity
  imports Judge_Verdict
begin

text \<open>
  Which specification an approval was made for (\<open>src/core/spec-identity.ts\<close>): the contract of a
  specification, which leaves out the lines the harness itself rewrites, its identity, the comparison
  of a stored identity with the current one, and the markers of a refusal. A stored identity is
  unvalidated JSON, so it is a dynamically typed value, with \<open>JUndef\<close> when the field is absent.
  SHA-256 is an argument of the definitions. How the current file is found on disk is not modelled.
\<close>

section \<open>The contract of a specification\<close>

text \<open>\<open>^\s*(?:```|~~~)\<close>\<close>

definition fence_line :: "string \<Rightarrow> bool" where
  "fence_line l = (let t = dropWhile is_js_space l in js_starts_with t ''```'' \<or> js_starts_with t ''~~~'')"

text \<open>\<open>^\s*#{1,6}\s+\<close>, and the text after it.\<close>

definition heading_text :: "string \<Rightarrow> string option" where
  "heading_text l =
     (let t = dropWhile is_js_space l; n = length (takeWhile (\<lambda>c. c = CHR ''#'') t); r = drop n t in
      if 1 \<le> n \<and> n \<le> 6 \<and> takeWhile is_js_space r \<noteq> [] then Some (dropWhile is_js_space r) else None)"

definition any_heading :: "string \<Rightarrow> bool" where
  "any_heading l = (heading_text l \<noteq> None)"

text \<open>\<open>^\s*#{1,6}\s+Metadata\s*$\<close>, letters compared without case.\<close>

definition metadata_heading :: "string \<Rightarrow> bool" where
  "metadata_heading l = (case heading_text l of None \<Rightarrow> False
     | Some t \<Rightarrow> map js_upper_char (take 8 t) = map js_upper_char ''Metadata'' \<and> list_all is_js_space (drop 8 t))"

definition OPERATIONAL_METADATA_FIELDS :: "string list" where
  "OPERATIONAL_METADATA_FIELDS = [''Status'', ''Status-Note'', ''Repaired'']"

text \<open>\<open>^\s*-?\s*\*\*(Status|Status-Note|Repaired):\*\*\<close>\<close>

definition operational_line :: "string \<Rightarrow> bool" where
  "operational_line l =
     (let t = dropWhile is_js_space l;
          u = (if js_starts_with t ''-'' then dropWhile is_js_space (drop 1 t) else t)
      in list_ex (\<lambda>f. js_starts_with u (''**'' @ f @ '':**'')) OPERATIONAL_METADATA_FIELDS)"

text \<open>\<open>replace(/[ \t]+$/, "")\<close>\<close>

definition trim_end :: "string \<Rightarrow> string" where
  "trim_end l = rev (dropWhile (\<lambda>c. c = CHR '' '' \<or> c = CHR 0x09) (rev l))"

text \<open>The loop over the lines, with \<open>inMetadata\<close> and \<open>inFence\<close>.\<close>

fun contract_lines :: "bool \<Rightarrow> bool \<Rightarrow> string list \<Rightarrow> string list" where
  "contract_lines m f [] = []"
| "contract_lines m f (l # ls) =
     (let f' = (if fence_line l then \<not> f else f) in
      if \<not> f' \<and> metadata_heading l then trim_end l # contract_lines True f' ls
      else
        let m' = (if \<not> f' \<and> m \<and> any_heading l then False else m) in
        if \<not> f' \<and> m' \<and> operational_line l then contract_lines m' f' ls
        else trim_end l # contract_lines m' f' ls)"

definition drop_blank_end :: "string list \<Rightarrow> string list" where
  "drop_blank_end kept = rev (dropWhile (\<lambda>l. l = '''') (rev kept))"

definition extractContract :: "string \<Rightarrow> string" where
  "extractContract specContent =
     js_join [CHR 0x0A] (drop_blank_end (contract_lines False False (split_lines specContent)))"

section \<open>Identities\<close>

record spec_identity =
  si_contractHash :: string
  si_auditHash :: string
  si_effectiveContractHash :: "string option"
  si_enrichedContractHash :: "string option"
  si_taskSpecRelativePath :: "string option"
  si_sourceRef :: "string option"
  si_stampedAt :: string

definition computeAuditHash :: "(string \<Rightarrow> string) \<Rightarrow> string \<Rightarrow> string" where
  "computeAuditHash sha specContent = sha specContent"

definition computeContractHash :: "(string \<Rightarrow> string) \<Rightarrow> string \<Rightarrow> string" where
  "computeContractHash sha specContent = sha (extractContract specContent)"

record identity_meta =
  im_taskSpecRelativePath :: "string option"
  im_sourceRef :: "string option"
  im_effectiveSpecContent :: "string option"
  im_enrichedSpecContent :: "string option"

text \<open>\<open>...(x ? { k: x } : {})\<close> drops an empty string.\<close>

definition nonempty :: "string option \<Rightarrow> string option" where
  "nonempty v = (case v of None \<Rightarrow> None | Some s \<Rightarrow> if s = '''' then None else Some s)"

definition computeSpecIdentity ::
  "(string \<Rightarrow> string) \<Rightarrow> string \<Rightarrow> string \<Rightarrow> identity_meta \<Rightarrow> spec_identity" where
  "computeSpecIdentity sha now specContent meta =
     \<lparr>si_contractHash = computeContractHash sha specContent,
      si_auditHash = computeAuditHash sha specContent,
      si_effectiveContractHash = nonempty (map_option (computeContractHash sha) (im_effectiveSpecContent meta)),
      si_enrichedContractHash = nonempty (map_option (computeContractHash sha) (im_enrichedSpecContent meta)),
      si_taskSpecRelativePath = nonempty (im_taskSpecRelativePath meta),
      si_sourceRef = nonempty (im_sourceRef meta),
      si_stampedAt = now\<rparr>"

text \<open>The object, as it is written to and read back from a record.\<close>

definition identity_value :: "spec_identity \<Rightarrow> js_value" where
  "identity_value s = JObj
     [(''contractHash'', JStr (si_contractHash s)), (''auditHash'', JStr (si_auditHash s)),
      (''effectiveContractHash'', js_opt JStr (si_effectiveContractHash s)),
      (''enrichedContractHash'', js_opt JStr (si_enrichedContractHash s)),
      (''taskSpecRelativePath'', js_opt JStr (si_taskSpecRelativePath s)),
      (''sourceRef'', js_opt JStr (si_sourceRef s)), (''stampedAt'', JStr (si_stampedAt s))]"

datatype resolved_identity =
    FoundIdentity spec_identity
  | ContestedIdentity string "string list" \<comment> \<open>reason and claimants\<close>
  | UnresolvedIdentity

definition foundSpecIdentity :: "resolved_identity \<Rightarrow> spec_identity option" where
  "foundSpecIdentity r = (case r of FoundIdentity s \<Rightarrow> Some s | _ \<Rightarrow> None)"

section \<open>Comparison\<close>

datatype identity_verdict =
    IdMatch | IdStale | IdUnknownLegacy | IdUnverifiable | IdDiverged | IdContested

definition mayConsume :: "identity_verdict \<Rightarrow> bool" where
  "mayConsume v \<longleftrightarrow> v = IdMatch \<or> v = IdUnknownLegacy"

definition SPEC_IDENTITY_VERSION :: nat where
  "SPEC_IDENTITY_VERSION = 1"

record identity_comparison =
  ic_verdict :: identity_verdict
  ic_reason :: string
  ic_operationalOnlyChange :: "bool option"

definition wellFormed :: "js_value \<Rightarrow> bool" where
  "wellFormed identity \<longleftrightarrow>
     (case js_get identity ''contractHash'' of JStr h \<Rightarrow> h \<noteq> '''' | _ \<Rightarrow> False) \<and>
     (case js_get identity ''effectiveContractHash'' of JUndef \<Rightarrow> True | JStr _ \<Rightarrow> True | _ \<Rightarrow> False)"

definition js_text :: "js_value \<Rightarrow> string" where
  "js_text v = (case v of JStr s \<Rightarrow> s | _ \<Rightarrow> '''')"

definition verdict_of :: "identity_verdict \<Rightarrow> string \<Rightarrow> identity_comparison" where
  "verdict_of v reason = \<lparr>ic_verdict = v, ic_reason = reason, ic_operationalOnlyChange = None\<rparr>"

text \<open>\<open>recordVersion\<close> is the \<open>specIdentityVersion\<close> of the stored record.\<close>

definition compareSpecIdentity :: "js_value \<Rightarrow> js_value \<Rightarrow> js_value \<Rightarrow> identity_comparison" where
  "compareSpecIdentity stored current recordVersion =
     (let contract = js_get stored ''contractHash''; effective = js_get stored ''effectiveContractHash'';
          now = js_get current ''contractHash'' in
      if stored = JUndef \<and> recordVersion \<noteq> JUndef then
        verdict_of IdUnverifiable
          (''this record was created by stamping-aware code but carries no spec identity, so the '' @
           ''authoritative spec could not be resolved when it was written; it is NOT a pre-TASK-1332 '' @
           ''record and must not be grandfathered'')
      else if stored = JUndef then
        verdict_of IdUnknownLegacy
          (''this approval record carries no spec identity (written before TASK-1332), so it is '' @
           ''grandfathered rather than checked'')
      else if \<not> wellFormed stored then
        verdict_of IdUnverifiable
          (''this approval record's spec identity is malformed, so it cannot be checked against the '' @
           ''current spec'')
      else if \<not> wellFormed current then
        verdict_of IdUnverifiable
          (''the current authoritative spec could not be read, so a record that claims a spec identity '' @
           ''cannot be checked against it'')
      else if effective \<noteq> JUndef \<and> effective \<noteq> contract then
        verdict_of IdDiverged
          (''this artifact was built from a spec that was not the authoritative one at the time it was '' @
           ''stamped (built from '' @ take 12 (js_text effective) @ '', stamped against '' @
           take 12 (js_text contract) @ '')'')
      else if contract \<noteq> now then
        verdict_of IdStale
          (''the spec's contract has changed since this artifact was built (contract '' @
           take 12 (js_text contract) @ '' -> '' @ take 12 (js_text now) @ '')'')
      else
        let storedAudit = js_get stored ''auditHash''; currentAudit = js_get current ''auditHash'';
            opOnly = js_truthy storedAudit \<and> js_truthy currentAudit \<and> storedAudit \<noteq> currentAudit in
        \<lparr>ic_verdict = IdMatch,
         ic_reason = (if opOnly
           then ''the spec's contract is unchanged; only operational metadata (the Status line) moved''
           else ''the spec is byte-identical to the one this artifact was built from''),
         ic_operationalOnlyChange = (if opOnly then Some True else None)\<rparr>)"

definition compareResolvedSpecIdentity :: "js_value \<Rightarrow> resolved_identity \<Rightarrow> js_value \<Rightarrow> identity_comparison" where
  "compareResolvedSpecIdentity stored current recordVersion = (case current of
       ContestedIdentity reason _ \<Rightarrow> verdict_of IdContested reason
     | FoundIdentity s \<Rightarrow> compareSpecIdentity stored (identity_value s) recordVersion
     | UnresolvedIdentity \<Rightarrow> compareSpecIdentity stored JUndef recordVersion)"

text \<open>The check before the gate: the hashes of the authority and of what the run has in hand, when they differ.\<close>

definition detectInHandDivergence ::
  "(string \<Rightarrow> string) \<Rightarrow> string \<Rightarrow> spec_identity option \<Rightarrow> (string \<times> string) option" where
  "detectInHandDivergence sha inHand authoritative = (case authoritative of
       None \<Rightarrow> None
     | Some s \<Rightarrow>
         if si_contractHash s = '''' then None
         else let h = computeContractHash sha inHand in
              if h = si_contractHash s then None else Some (si_contractHash s, h))"

section \<open>Refusal markers\<close>

definition MARKER_FUTURE_SKEW_MS :: millis where
  "MARKER_FUTURE_SKEW_MS = 5 * 60 * 1000"

text \<open>The file is what \<open>JSON.parse\<close> made of it (\<open>None\<close> when it is missing or unreadable);
  \<open>instant\<close> is \<open>new Date(s).getTime()\<close>, with \<open>None\<close> for \<open>NaN\<close>.\<close>

definition readSpecStaleMarker ::
  "(string \<Rightarrow> millis option) \<Rightarrow> millis \<Rightarrow> js_value option \<Rightarrow> string \<Rightarrow> string \<Rightarrow> js_value option" where
  "readSpecStaleMarker instant now file taskId afterTimestamp = (case file of
       None \<Rightarrow> None
     | Some parsed \<Rightarrow>
         (case (js_get parsed ''refusedAt'', js_get parsed ''reason'') of
            (JStr refusedAt, JStr _) \<Rightarrow>
              if js_get parsed ''taskId'' \<noteq> JStr taskId then None
              else (case (instant refusedAt, instant afterTimestamp) of
                  (Some refused, Some after) \<Rightarrow>
                    if refused < after then None
                    else if refused > now + MARKER_FUTURE_SKEW_MS then None
                    else Some parsed
                | _ \<Rightarrow> None)
          | _ \<Rightarrow> None))"

section \<open>Lemmas\<close>

subsection \<open>Lines\<close>

abbreviation newline :: char where "newline \<equiv> CHR 0x0A"

lemma first_separator:
  "x @ c # u = y @ c # v \<Longrightarrow> c \<notin> set x \<Longrightarrow> c \<notin> set y \<Longrightarrow> x = y \<and> u = v"
proof (induction x arbitrary: y)
  case Nil
  then show ?case by (cases y) auto
next
  case (Cons a x)
  then show ?case by (cases y) auto
qed

lemma join_Cons: "js_join sep (x # xs) = (if xs = [] then x else x @ sep @ js_join sep xs)"
  by (cases xs) simp_all

lemma join_newline_inj:
  assumes "list_all (\<lambda>l. newline \<notin> set l) xs" and "list_all (\<lambda>l. newline \<notin> set l) ys"
    and "xs \<noteq> []" and "ys \<noteq> []" and "js_join [newline] xs = js_join [newline] ys"
  shows "xs = ys"
  using assms
proof (induction xs arbitrary: ys)
  case (Cons x xs)
  then obtain y ys' where ys: "ys = y # ys'" by (cases ys) auto
  have nl: "newline \<notin> set x" "newline \<notin> set y" using Cons.prems ys by auto
  show ?case
  proof (cases "xs = [] \<or> ys' = []")
    case True
    then show ?thesis using Cons.prems(5) nl ys by (auto simp: join_Cons split: if_splits)
  next
    case False
    then have "x @ newline # js_join [newline] xs = y @ newline # js_join [newline] ys'"
      using Cons.prems(5) ys by (simp add: join_Cons)
    from first_separator [OF this nl] have "x = y" "js_join [newline] xs = js_join [newline] ys'" by simp_all
    then show ?thesis using Cons.IH [of ys'] Cons.prems False ys by simp
  qed
qed simp

lemma join_newline_eq:
  assumes "list_all (\<lambda>l. newline \<notin> set l) xs" and "list_all (\<lambda>l. newline \<notin> set l) ys"
    and "xs \<noteq> ['''']" and "ys \<noteq> ['''']"
  shows "js_join [newline] xs = js_join [newline] ys \<longleftrightarrow> xs = ys"
proof -
  have empty: "js_join [newline] zs = '''' \<longleftrightarrow> zs = []" if "zs \<noteq> ['''']" for zs
    using that by (cases zs) (auto simp: join_Cons)
  show ?thesis
    using join_newline_inj [OF assms(1,2)] empty [OF assms(3)] empty [OF assms(4)] by fastforce
qed

lemma split_acc_no_newline:
  "newline \<notin> set acc \<Longrightarrow> list_all (\<lambda>l. newline \<notin> set l) (split_lines_acc acc s)"
  by (induction acc s rule: split_lines_acc.induct) auto

lemma split_no_newline: "list_all (\<lambda>l. newline \<notin> set l) (split_lines s)"
  by (simp add: split_lines_def split_acc_no_newline)

definition clean_line :: "string \<Rightarrow> bool" where
  "clean_line l \<longleftrightarrow> newline \<notin> set l \<and> CHR 0x0D \<notin> set l"

lemma split_acc_clean:
  "clean_line l \<Longrightarrow> split_lines_acc acc (l @ newline # rest) = (rev acc @ l) # split_lines_acc [] rest"
  by (induction l arbitrary: acc) (auto simp: clean_line_def)

lemma split_acc_last: "clean_line l \<Longrightarrow> split_lines_acc acc l = [rev acc @ l]"
  by (induction l arbitrary: acc) (auto simp: clean_line_def)

lemma split_join: "list_all clean_line ls \<Longrightarrow> ls \<noteq> [] \<Longrightarrow> split_lines (js_join [newline] ls) = ls"
proof (induction ls)
  case (Cons l ls)
  then show ?case
    by (cases "ls = []") (simp_all add: join_Cons split_lines_def split_acc_clean split_acc_last)
qed simp

subsection \<open>The contract\<close>

lemma set_trim_end: "c \<in> set (trim_end l) \<Longrightarrow> c \<in> set l"
  by (auto simp: trim_end_def dest: set_dropWhileD)

lemma contract_no_newline:
  "list_all (\<lambda>l. newline \<notin> set l) ls \<Longrightarrow> list_all (\<lambda>l. newline \<notin> set l) (contract_lines m f ls)"
  by (induction m f ls rule: contract_lines.induct) (auto simp: Let_def dest: set_trim_end)

lemma drop_blank_end_simps:
  "list_all P ls \<Longrightarrow> list_all P (drop_blank_end ls)" "drop_blank_end ls \<noteq> ['''']"
proof -
  show "list_all P ls \<Longrightarrow> list_all P (drop_blank_end ls)"
    by (auto simp: drop_blank_end_def list_all_iff dest: set_dropWhileD)
  show "drop_blank_end ls \<noteq> ['''']"
    by (simp add: drop_blank_end_def rev_singleton_conv dropWhile_eq_Cons_conv)
qed

text \<open>Two specifications have the same contract exactly when they keep the same lines.\<close>

lemma contract_eq_iff:
  "extractContract a = extractContract b \<longleftrightarrow>
     drop_blank_end (contract_lines False False (split_lines a)) =
     drop_blank_end (contract_lines False False (split_lines b))"
  unfolding extractContract_def
  by (intro join_newline_eq drop_blank_end_simps contract_no_newline split_no_newline)

fun contract_state :: "bool \<Rightarrow> bool \<Rightarrow> string list \<Rightarrow> bool \<times> bool" where
  "contract_state m f [] = (m, f)"
| "contract_state m f (l # ls) =
     (let f' = (if fence_line l then \<not> f else f) in
      contract_state (if \<not> f' \<and> metadata_heading l then True
                      else if \<not> f' \<and> m \<and> any_heading l then False else m) f' ls)"

lemma contract_lines_append:
  "contract_lines m f (xs @ ys) =
     contract_lines m f xs @ contract_lines (fst (contract_state m f xs)) (snd (contract_state m f xs)) ys"
  by (induction xs arbitrary: m f) (simp_all add: Let_def)

lemma operational_start:
  assumes "operational_line l"
  shows "\<exists>c r. dropWhile is_js_space l = c # r \<and> (c = CHR ''-'' \<or> c = CHR ''*'')"
proof -
  let ?t = "dropWhile is_js_space l"
  have "js_starts_with u (''**'' @ f @ '':**'') \<Longrightarrow> \<exists>r. u = CHR ''*'' # r" for u f
    by (cases u) (auto simp: js_starts_with_def)
  then have "js_starts_with ?t ''-'' \<or> (\<exists>r. ?t = CHR ''*'' # r)"
    using assms by (auto simp: operational_line_def Let_def list_ex_iff split: if_splits)
  then show ?thesis by (cases ?t) (auto simp: js_starts_with_def)
qed

lemma operational_plain:
  assumes "operational_line l"
  shows "\<not> fence_line l" "heading_text l = None"
proof -
  obtain c r where "dropWhile is_js_space l = c # r" "c = CHR ''-'' \<or> c = CHR ''*''"
    using operational_start [OF assms] by blast
  then show "\<not> fence_line l" "heading_text l = None"
    by (auto simp: fence_line_def heading_text_def js_starts_with_def Let_def)
qed

lemma operational_skipped:
  "operational_line l \<Longrightarrow> contract_lines True False (l # ls) = contract_lines True False ls"
  by (simp add: operational_plain any_heading_def metadata_heading_def)

text \<open>A line that gives a field a value.\<close>

lemma field_line_text:
  assumes "list_all is_js_space indent" and "bullet \<in> {'''', ''-'', ''- ''}"
  shows "dropWhile is_js_space (indent @ bullet @ ''**'' @ r) = bullet @ ''**'' @ r"
proof -
  have "dropWhile is_js_space (indent @ x) = dropWhile is_js_space x" for x
    using assms(1) by (intro dropWhile_append2) (simp add: list_all_iff)
  moreover have "\<not> is_js_space CHR ''*''" "\<not> is_js_space CHR ''-''" by (simp_all add: is_js_space_def)
  ultimately show ?thesis using assms(2) by auto
qed

lemma field_start: "CHR '':'' \<notin> set f \<Longrightarrow> CHR '':'' \<notin> set g \<Longrightarrow>
    js_starts_with (f @ '':**'' @ v) (g @ '':**'') \<longleftrightarrow> f = g"
proof (induction g arbitrary: f)
  case Nil
  then show ?case by (cases f) (auto simp: js_starts_with_def)
next
  case (Cons c g)
  then show ?case by (cases f) (auto simp: js_starts_with_def)
qed

lemma field_line_operational:
  assumes "list_all is_js_space indent" and "bullet \<in> {'''', ''-'', ''- ''}" and "CHR '':'' \<notin> set field"
  shows "operational_line (indent @ bullet @ ''**'' @ field @ '':**'' @ u) \<longleftrightarrow>
           field \<in> {''Status'', ''Status-Note'', ''Repaired''}"
proof -
  let ?t = "bullet @ ''**'' @ field @ '':**'' @ u"
  have "(if js_starts_with ?t ''-'' then dropWhile is_js_space (drop 1 ?t) else ?t) = ''**'' @ field @ '':**'' @ u"
    using assms(2) by (auto simp: js_starts_with_def is_js_space_def)
  moreover have "js_starts_with (''**'' @ field @ '':**'' @ u) (''**'' @ g @ '':**'') \<longleftrightarrow> field = g"
    if "CHR '':'' \<notin> set g" for g
    using field_start [OF assms(3) that] by (simp add: js_starts_with_def)
  moreover from this [of "''Status''"] this [of "''Status-Note''"] this [of "''Repaired''"] have
    "list_ex (\<lambda>f. js_starts_with (''**'' @ field @ '':**'' @ u) (''**'' @ f @ '':**'')) OPERATIONAL_METADATA_FIELDS \<longleftrightarrow>
       field \<in> {''Status'', ''Status-Note'', ''Repaired''}"
    by (simp add: OPERATIONAL_METADATA_FIELDS_def)
  ultimately show ?thesis
    unfolding operational_line_def Let_def field_line_text [OF assms(1,2)] by simp
qed

lemma field_line_plain:
  assumes "list_all is_js_space indent" and "bullet \<in> {'''', ''-'', ''- ''}"
  shows "\<not> fence_line (indent @ bullet @ ''**'' @ field @ '':**'' @ u)"
    "heading_text (indent @ bullet @ ''**'' @ field @ '':**'' @ u) = None"
  unfolding fence_line_def heading_text_def Let_def field_line_text [OF assms]
  using assms(2) by (auto simp: js_starts_with_def)

lemma trim_end_star: "trim_end (a @ ''**'' @ b) \<noteq> ''''"
  by (auto simp: trim_end_def)

lemma drop_blank_end_kept: "x \<noteq> '''' \<Longrightarrow> drop_blank_end (a @ x # b) = a @ x # drop_blank_end b"
proof -
  assume x: "x \<noteq> ''''"
  show ?thesis
  proof (cases "list_all (\<lambda>l. l = '''') (rev b)")
    case True
    then have "dropWhile (\<lambda>l. l = '''') (rev b @ c) = dropWhile (\<lambda>l. l = '''') c" for c
      by (intro dropWhile_append2) (simp add: list_all_iff)
    from this [of "[]"] this [of "x # rev a"] show ?thesis using x by (simp add: drop_blank_end_def)
  next
    case False
    then obtain y where "y \<in> set (rev b)" "y \<noteq> ''''" by (auto simp: list_all_iff)
    then have "dropWhile (\<lambda>l. l = '''') (rev b @ c) = dropWhile (\<lambda>l. l = '''') (rev b) @ c" for c
      by (intro dropWhile_append1)
    then show ?thesis by (simp add: drop_blank_end_def)
  qed
qed

lemma drop_blank_end_shorter: "drop_blank_end (a @ b) \<noteq> a @ x # drop_blank_end b"
proof
  assume e: "drop_blank_end (a @ b) = a @ x # drop_blank_end b"
  show False
  proof (cases "list_all (\<lambda>l. l = '''') (rev b)")
    case True
    then have "dropWhile (\<lambda>l. l = '''') (rev b @ c) = dropWhile (\<lambda>l. l = '''') c" for c
      by (intro dropWhile_append2) (simp add: list_all_iff)
    then have "length (drop_blank_end (a @ b)) \<le> length a"
      by (simp add: drop_blank_end_def) (metis length_dropWhile_le length_rev)
    with e show False by simp
  next
    case False
    then obtain y where "y \<in> set (rev b)" "y \<noteq> ''''" by (auto simp: list_all_iff)
    then have "dropWhile (\<lambda>l. l = '''') (rev b @ c) = dropWhile (\<lambda>l. l = '''') (rev b) @ c" for c
      by (intro dropWhile_append1)
    then have "drop_blank_end (a @ b) = a @ drop_blank_end b" by (simp add: drop_blank_end_def)
    with e show False by simp
  qed
qed

subsection \<open>Comparison\<close>

lemma consume_iff:
  "mayConsume (ic_verdict (compareSpecIdentity stored current recordVersion)) \<longleftrightarrow>
     stored = JUndef \<and> recordVersion = JUndef \<or>
     wellFormed stored \<and> wellFormed current \<and>
     js_get stored ''contractHash'' = js_get current ''contractHash'' \<and>
     (js_get stored ''effectiveContractHash'' = JUndef \<or>
      js_get stored ''effectiveContractHash'' = js_get stored ''contractHash'')"
proof -
  have "\<not> wellFormed JUndef" by (simp add: wellFormed_def js_get_def)
  then show ?thesis
    by (auto simp: compareSpecIdentity_def Let_def mayConsume_def verdict_of_def)
qed

lemma identity_value_get:
  "js_get (identity_value s) ''contractHash'' = JStr (si_contractHash s)"
  "js_get (identity_value s) ''effectiveContractHash'' = js_opt JStr (si_effectiveContractHash s)"
  by (simp_all add: identity_value_def js_get_def)

lemma wellFormed_identity: "wellFormed (identity_value s) \<longleftrightarrow> si_contractHash s \<noteq> ''''"
  by (simp add: wellFormed_def identity_value_get js_opt_def split: option.split)

section \<open>Properties\<close>

text \<open>
  C18: What an edit of the metadata does to the contract. Take a line of the metadata section outside a code
  fence that gives a field a value, as \<open>- **Field:** value\<close> with any indentation and with or without the dash.
  Giving it another value leaves the contract as it was exactly when the field is the status, its note or the
  repair stamp, or the two lines differ in trailing blanks only; removing the line leaves the contract as it was
  exactly for those three fields. So bookkeeping never retires a decision, and an edit of any other field does.
\<close>

theorem operational_edit_invisible:
  assumes "list_all clean_line (pre @ line v # line v' # post)" and "contract_state False False pre = (True, False)"
    and "line = (\<lambda>v. indent @ bullet @ ''**'' @ field @ '':**'' @ v)"
    and "list_all is_js_space indent" and "bullet \<in> {'''', ''-'', ''- ''}" and "CHR '':'' \<notin> set field"
  shows "(extractContract (js_join [newline] (pre @ line v # post)) =
            extractContract (js_join [newline] (pre @ line v' # post))) =
           (field \<in> {''Status'', ''Status-Note'', ''Repaired''} \<or> trim_end (line v) = trim_end (line v')) \<and>
         (extractContract (js_join [newline] (pre @ line v # post)) =
            extractContract (js_join [newline] (pre @ post))) =
           (field \<in> {''Status'', ''Status-Note'', ''Repaired''})"
proof -
  have "pre \<noteq> []" using assms(2) by auto
  then have lines: "split_lines (js_join [newline] (pre @ xs)) = pre @ xs" if "list_all clean_line xs" for xs
    using assms(1) that by (intro split_join) auto
  have op: "operational_line (line u) \<longleftrightarrow> field \<in> {''Status'', ''Status-Note'', ''Repaired''}" for u
    unfolding assms(3) by (rule field_line_operational [OF assms(4-6)])
  show ?thesis
  proof (cases "field \<in> {''Status'', ''Status-Note'', ''Repaired''}")
    case True
    then show ?thesis
      using assms(1) op by (simp add: contract_eq_iff lines contract_lines_append assms(2) operational_skipped del: contract_lines.simps)
  next
    case False
    have kept: "contract_lines True False (line u # post) = trim_end (line u) # contract_lines True False post" for u
      using op False field_line_plain [OF assms(4,5), of field u] by (simp add: assms(3) any_heading_def metadata_heading_def)
    have "trim_end (line u) \<noteq> ''''" for u
      using trim_end_star [of "indent @ bullet" "field @ '':**'' @ u"] by (simp add: assms(3))
    then show ?thesis
      using assms(1) False by (simp add: contract_eq_iff lines contract_lines_append assms(2) kept drop_blank_end_kept
        drop_blank_end_shorter not_sym [OF drop_blank_end_shorter] del: contract_lines.simps)
  qed
qed

lemma operational_edit_invisible_witness:
  "extractContract (js_join [newline] [''## Metadata'', ''- **Status:** Open'', ''## Intent'', ''Do it'']) =
     extractContract (js_join [newline] [''## Metadata'', ''- **Status:** Complete'', ''## Intent'', ''Do it'']) \<and>
   extractContract (js_join [newline] [''## Metadata'', ''- **Effort:** 2h'', ''## Intent'', ''Do it'']) \<noteq>
     extractContract (js_join [newline] [''## Metadata'', ''- **Effort:** 3h'', ''## Intent'', ''Do it''])"
proof -
  have "list_all clean_line ([''## Metadata''] @ ''- **Status:** Open'' # ''- **Status:** Complete'' # [''## Intent'', ''Do it''])"
    "list_all clean_line ([''## Metadata''] @ ''- **Effort:** 2h'' # ''- **Effort:** 3h'' # [''## Intent'', ''Do it''])"
    "contract_state False False [''## Metadata''] = (True, False)"
    "trim_end ''- **Effort:** 2h'' \<noteq> trim_end ''- **Effort:** 3h''"
    by code_simp+
  then show ?thesis
    using operational_edit_invisible [of "[''## Metadata'']" "\<lambda>v. '''' @ ''- '' @ ''**'' @ ''Status'' @ '':**'' @ v"
        "'' Open''" "'' Complete''" "[''## Intent'', ''Do it'']" "''''" "''- ''" "''Status''"]
      operational_edit_invisible [of "[''## Metadata'']" "\<lambda>v. '''' @ ''- '' @ ''**'' @ ''Effort'' @ '':**'' @ v"
        "'' 2h''" "'' 3h''" "[''## Intent'', ''Do it'']" "''''" "''- ''" "''Effort''"] by simp
qed

text \<open>
  C17: What a stamped approval is good for. When the hash tells the contracts involved apart, an approval stamped from one
  specification may be consumed under another exactly when the two have the same contract and the
  source the run had in hand, when it was recorded, had that contract too.
\<close>

theorem spec_consumable_exact:
  assumes "inj_on sha ({extractContract stamped, extractContract current} \<union>
      extractContract ` set_option (im_effectiveSpecContent meta))"
    and "\<And>x. sha x \<noteq> ''''"
  shows "mayConsume (ic_verdict (compareResolvedSpecIdentity (identity_value (computeSpecIdentity sha t stamped meta))
            (FoundIdentity (computeSpecIdentity sha t' current meta')) recordVersion)) \<longleftrightarrow>
         extractContract stamped = extractContract current \<and>
         (case im_effectiveSpecContent meta of None \<Rightarrow> True | Some e \<Rightarrow> extractContract e = extractContract stamped)"
proof -
  have h: "computeContractHash sha a = computeContractHash sha b \<longleftrightarrow> extractContract a = extractContract b"
    if "a \<in> {stamped, current} \<union> set_option (im_effectiveSpecContent meta)"
      "b \<in> {stamped, current} \<union> set_option (im_effectiveSpecContent meta)" for a b
    unfolding computeContractHash_def using that by (intro inj_on_eq_iff [OF assms(1)]) auto
  have ne: "computeContractHash sha a \<noteq> ''''" for a by (simp add: computeContractHash_def assms(2))
  let ?m = "im_effectiveSpecContent meta" and ?s = "computeSpecIdentity sha t stamped meta"
    and ?c = "computeSpecIdentity sha t' current meta'"
  have undef: "identity_value s \<noteq> JUndef" for s by (simp add: identity_value_def)
  have eff: "js_opt JStr (si_effectiveContractHash ?s) =
      (case ?m of None \<Rightarrow> JUndef | Some e \<Rightarrow> JStr (computeContractHash sha e))"
    by (cases ?m) (simp_all add: computeSpecIdentity_def nonempty_def js_opt_def ne)
  have hash: "si_contractHash ?s = computeContractHash sha stamped" "si_contractHash ?c = computeContractHash sha current"
    by (simp_all add: computeSpecIdentity_def)
  have "mayConsume (ic_verdict (compareSpecIdentity (identity_value ?s) (identity_value ?c) recordVersion)) \<longleftrightarrow>
      extractContract stamped = extractContract current \<and>
      (js_opt JStr (si_effectiveContractHash ?s) = JUndef \<or>
       js_opt JStr (si_effectiveContractHash ?s) = JStr (computeContractHash sha stamped))"
    unfolding consume_iff wellFormed_identity identity_value_get hash by (simp add: undef h ne)
  then show ?thesis
    unfolding compareResolvedSpecIdentity_def resolved_identity.case eff by (cases ?m) (simp_all add: h)
qed

definition stamping_nothing :: identity_meta where
  "stamping_nothing = \<lparr>im_taskSpecRelativePath = None, im_sourceRef = None, im_effectiveSpecContent = None,
     im_enrichedSpecContent = None\<rparr>"

lemma spec_consumable_exact_witness:
  "\<not> mayConsume (ic_verdict (compareResolvedSpecIdentity
       (identity_value (computeSpecIdentity (\<lambda>x. CHR ''h'' # x) ''t'' ''Do this'' stamping_nothing))
       (FoundIdentity (computeSpecIdentity (\<lambda>x. CHR ''h'' # x) ''u'' ''Do that'' stamping_nothing)) (JNum 1)))"
proof -
  have i: "inj_on (\<lambda>x. CHR ''h'' # x) A" for A by (simp add: inj_on_def)
  have "extractContract ''Do this'' \<noteq> extractContract ''Do that''" by code_simp
  then show ?thesis using spec_consumable_exact [OF i] by simp
qed

end
