(* ===== verification/Approval_Gates.thy ===== *)
theory Approval_Gates
  imports Advisory_Override Spec_Identity
begin

text \<open>
  The approval gates before the build (\<open>src/dispatcher/blueprint-approval.ts\<close>) and before the judge
  (\<open>src/dispatcher/judge-approval.ts\<close>): the records, the rules of automatic approval, and the
  functions that save, re-save, load, decide and delete a record. The approvals directory is a pair
  of maps, one for the files \<open>ID.json\<close> and one for \<open>ID-judge.json\<close>; the files are those these
  functions wrote, so that one that exists can be read, no task id ends in \<open>-judge\<close>, and two calls on one record do not overlap. Of a
  blueprint and a preflight result the parts the code reads are kept. The digest of the written
  bytes is left out.
\<close>

datatype approval_state = ApPending | ApApproved | ApRejected | ApAutoApproved

definition approving :: "approval_state \<Rightarrow> bool" where
  "approving s \<longleftrightarrow> s = ApApproved \<or> s = ApAutoApproved"

record brief =
  br_fidelity :: "brief_fidelity option"
  br_fileAnalyses :: "js_value list"
  br_verificationPatterns :: "js_value list"

text \<open>\<open>pf_complexity\<close> is \<open>recommendDecomposition\<close>, absent with the complexity of an older result.\<close>

record preflight_facts =
  pf_score :: rat
  pf_complexity :: "bool option"

record review_evidence =
  ev_review :: review_result
  ev_reviewedAt :: millis
  ev_reviewGate :: stored_gate

record blueprint_approval =
  ba_taskId :: task_id
  ba_state :: approval_state
  ba_blueprint :: brief
  ba_preflightResult :: "preflight_facts option"
  ba_approvedBy :: "string option"
  ba_rejectionReason :: "string option"
  ba_decidedAt :: "millis option"
  ba_createdAt :: millis
  ba_executionModeLoop :: bool
  ba_review :: "review_result option"
  ba_reviewedAt :: "millis option"
  ba_reviewGate :: "stored_gate option"
  ba_override :: "advisory_override option"
  ba_specIdentity :: js_value
  ba_specIdentityVersion :: js_value

record judge_approval =
  ja_taskId :: task_id
  ja_state :: approval_state
  ja_diff :: string
  ja_filesModified :: "string list"
  ja_filesCreated :: "string list"
  ja_verificationPassed :: bool
  ja_approvedBy :: "string option"
  ja_rejectionReason :: "string option"
  ja_decidedAt :: "millis option"
  ja_createdAt :: millis
  ja_executionModeLoop :: bool
  ja_review :: "review_result option"
  ja_reviewedAt :: "millis option"
  ja_reviewGate :: "stored_gate option"
  ja_agentSessionId :: "string option"
  ja_intentHold :: "intent_hold_record option"
  ja_override :: "advisory_override option"
  ja_specIdentity :: js_value
  ja_specIdentityVersion :: js_value

record approvals_dir =
  ad_blueprint :: "task_id \<Rightarrow> blueprint_approval option"
  ad_judge :: "task_id \<Rightarrow> judge_approval option"

datatype approval_error =
    NoPendingApproval task_id
  | AdviceNeedsReason override_required
  | StaleJudgeApproval task_id string identity_comparison

section \<open>Automatic approval\<close>

record auto_rules =
  ar_maxFiles :: nat
  ar_maxCriteria :: nat
  ar_minBlueprintScore :: rat
  ar_requireDecomposition :: bool

text \<open>Reading \<open>recommendDecomposition\<close> of an absent complexity throws, which is \<open>None\<close>.\<close>

definition evaluateAutoApprove :: "brief \<Rightarrow> preflight_facts option \<Rightarrow> auto_rules \<Rightarrow> bool option" where
  "evaluateAutoApprove b preflight rules =
     (if (case br_fidelity b of None \<Rightarrow> False | Some f \<Rightarrow> bf_failed f) then Some False
      else if length (br_fileAnalyses b) > ar_maxFiles rules then Some False
      else if length (br_verificationPatterns b) > ar_maxCriteria rules then Some False
      else (case preflight of None \<Rightarrow> Some True
        | Some p \<Rightarrow>
            if pf_score p / 10 < ar_minBlueprintScore rules then Some False
            else if ar_requireDecomposition rules
            then (case pf_complexity p of None \<Rightarrow> None | Some recommend \<Rightarrow> Some (\<not> recommend))
            else Some True))"

record judge_auto_rules =
  jr_requireVerificationPass :: bool
  jr_maxFilesChanged :: nat
  jr_maxDiffLines :: nat

definition evaluateJudgeAutoApprove :: "string \<Rightarrow> nat \<Rightarrow> bool \<Rightarrow> judge_auto_rules \<Rightarrow> bool" where
  "evaluateJudgeAutoApprove diff filesChanged verificationPassed rules =
     (if jr_requireVerificationPass rules \<and> \<not> verificationPassed then False
      else if filesChanged > jr_maxFilesChanged rules then False
      else Suc (length (filter (\<lambda>c. c = CHR 0x0A) diff)) \<le> jr_maxDiffLines rules)"

section \<open>The blueprint gate\<close>

definition blueprint_evidence :: "blueprint_approval \<Rightarrow> advisory_evidence" where
  "blueprint_evidence a =
     \<lparr>ae_review = ba_review a, ae_reviewGate = ba_reviewGate a, ae_intentHold = None, ae_verificationPassed = None,
      ae_recommendsDecomposition = (case ba_preflightResult a of None \<Rightarrow> None | Some p \<Rightarrow> pf_complexity p)\<rparr>"

text \<open>The identity is \<open>JUndef\<close> when there is none, and left out when it is falsy; the version is the number minted, or the one of the
  record that is saved again.\<close>

definition minted_version :: "js_value option \<Rightarrow> js_value" where
  "minted_version override = (case override of None \<Rightarrow> JNum (of_nat SPEC_IDENTITY_VERSION) | Some v \<Rightarrow> v)"

definition kept_identity :: "js_value \<Rightarrow> js_value" where
  "kept_identity identity = (if js_truthy identity then identity else JUndef)"

definition blueprint_record ::
  "millis \<Rightarrow> task_id \<Rightarrow> brief \<Rightarrow> preflight_facts option \<Rightarrow> approval_state \<Rightarrow> review_evidence option
     \<Rightarrow> js_value \<Rightarrow> js_value option \<Rightarrow> blueprint_approval" where
  "blueprint_record now tid b preflight state ev identity versionOverride =
     (let a = \<lparr>ba_taskId = tid, ba_state = state, ba_blueprint = b, ba_preflightResult = preflight,
            ba_approvedBy = None, ba_rejectionReason = None, ba_decidedAt = None, ba_createdAt = now,
            ba_executionModeLoop = (ev \<noteq> None), ba_review = map_option ev_review ev,
            ba_reviewedAt = map_option ev_reviewedAt ev, ba_reviewGate = map_option ev_reviewGate ev,
            ba_override = None, ba_specIdentity = kept_identity identity,
            ba_specIdentityVersion = minted_version versionOverride\<rparr>
      in if approving state
         then a\<lparr>ba_override := buildDirectWriteOverride BlueprintApproval (state = ApAutoApproved)
                                 (blueprint_evidence a) None now\<rparr>
         else a)"

definition write_blueprint :: "blueprint_approval \<Rightarrow> approvals_dir \<Rightarrow> approvals_dir" where
  "write_blueprint a d = d\<lparr>ad_blueprint := (ad_blueprint d)(ba_taskId a \<mapsto> a)\<rparr>"

definition saveBlueprintApproval ::
  "millis \<Rightarrow> task_id \<Rightarrow> brief \<Rightarrow> preflight_facts option \<Rightarrow> approval_state \<Rightarrow> review_evidence option
     \<Rightarrow> js_value \<Rightarrow> js_value option \<Rightarrow> approvals_dir \<Rightarrow> approvals_dir" where
  "saveBlueprintApproval now tid b preflight state ev identity versionOverride d =
     write_blueprint (blueprint_record now tid b preflight state ev identity versionOverride) d"

definition savePendingApproval ::
  "millis \<Rightarrow> task_id \<Rightarrow> brief \<Rightarrow> preflight_facts option \<Rightarrow> js_value \<Rightarrow> approvals_dir \<Rightarrow> approvals_dir" where
  "savePendingApproval now tid b preflight identity d =
     saveBlueprintApproval now tid b preflight ApPending None identity None d"

text \<open>The review evidence a re-save carries over.\<close>

definition kept_evidence ::
  "bool \<Rightarrow> review_result option \<Rightarrow> millis option \<Rightarrow> stored_gate option \<Rightarrow> millis \<Rightarrow> review_evidence option" where
  "kept_evidence loop review reviewedAt gate createdAt =
     (if \<not> loop then None
      else (case (review, gate) of
          (Some r, Some g) \<Rightarrow> Some \<lparr>ev_review = r,
             ev_reviewedAt = (case reviewedAt of None \<Rightarrow> createdAt | Some t \<Rightarrow> t), ev_reviewGate = g\<rparr>
        | _ \<Rightarrow> None))"

definition resavePendingApproval :: "millis \<Rightarrow> blueprint_approval \<Rightarrow> approvals_dir \<Rightarrow> approvals_dir" where
  "resavePendingApproval now e d =
     saveBlueprintApproval now (ba_taskId e) (ba_blueprint e) (ba_preflightResult e) ApPending
       (kept_evidence (ba_executionModeLoop e) (ba_review e) (ba_reviewedAt e) (ba_reviewGate e) (ba_createdAt e))
       (ba_specIdentity e) (Some (ba_specIdentityVersion e)) d"

definition loadApproval :: "task_id \<Rightarrow> approvals_dir \<Rightarrow> blueprint_approval option" where
  "loadApproval tid d = ad_blueprint d tid"

definition DEFAULT_APPROVAL_TIMEOUT_MS :: millis where
  "DEFAULT_APPROVAL_TIMEOUT_MS = 24 * 60 * 60 * 1000"

definition isApprovalExpired :: "blueprint_approval \<Rightarrow> millis \<Rightarrow> millis \<Rightarrow> bool" where
  "isApprovalExpired a timeoutMs now \<longleftrightarrow> ba_state a = ApPending \<and> now - ba_createdAt a \<ge> timeoutMs"

text \<open>\<open>decision?.actor ?? approvedBy\<close>, and the actor and reason a decision writes when they are not empty.\<close>

definition decision_actor :: "decision_options option \<Rightarrow> string option \<Rightarrow> decision_options" where
  "decision_actor decision approvedBy =
     (let options = (case decision of
            None \<Rightarrow> \<lparr>do_actor = None, do_reason = None, do_mode = None, do_now = None\<rparr> | Some o' \<Rightarrow> o')
      in options\<lparr>do_actor := (case do_actor options of None \<Rightarrow> approvedBy | Some a \<Rightarrow> Some a)\<rparr>)"

definition written_text :: "string option \<Rightarrow> string option \<Rightarrow> string option" where
  "written_text new old = (case nonempty new of None \<Rightarrow> old | Some s \<Rightarrow> Some s)"

definition decided_blueprint ::
  "millis \<Rightarrow> approval_state \<Rightarrow> string option \<Rightarrow> string option \<Rightarrow> decision_result \<Rightarrow> blueprint_approval \<Rightarrow> blueprint_approval" where
  "decided_blueprint now state approvedBy rejectionReason r a =
     a\<lparr>ba_state := state, ba_decidedAt := Some now,
       ba_approvedBy := written_text (or_else (dr_actor r) approvedBy) (ba_approvedBy a),
       ba_rejectionReason := written_text rejectionReason (ba_rejectionReason a),
       ba_override := or_else (dr_override r) (ba_override a)\<rparr>"

definition updateApprovalState ::
  "millis \<Rightarrow> task_id \<Rightarrow> approval_state \<Rightarrow> string option \<Rightarrow> string option \<Rightarrow> decision_options option
     \<Rightarrow> approvals_dir \<Rightarrow> (approval_error + decision_result) \<times> approvals_dir" where
  "updateApprovalState now tid state approvedBy rejectionReason decision d =
     (case loadApproval tid d of
        None \<Rightarrow> (Inl (NoPendingApproval tid), d)
      | Some a \<Rightarrow>
          (case resolveApprovalDecision BlueprintApproval (approving state) (blueprint_evidence a)
                  (decision_actor decision approvedBy) now of
             Inl e \<Rightarrow> (Inl (AdviceNeedsReason e), d)
           | Inr r \<Rightarrow> (Inr r, d\<lparr>ad_blueprint := (ad_blueprint d)(tid \<mapsto>
               decided_blueprint now state approvedBy rejectionReason r a)\<rparr>)))"

section \<open>The judge gate\<close>

definition compareJudgeApprovalSpecIdentity :: "judge_approval \<Rightarrow> resolved_identity \<Rightarrow> identity_comparison" where
  "compareJudgeApprovalSpecIdentity a current =
     compareResolvedSpecIdentity (ja_specIdentity a) current (ja_specIdentityVersion a)"

definition judge_evidence :: "judge_approval \<Rightarrow> advisory_evidence" where
  "judge_evidence a =
     \<lparr>ae_review = ja_review a, ae_reviewGate = ja_reviewGate a, ae_intentHold = ja_intentHold a,
      ae_verificationPassed = Some (ja_verificationPassed a), ae_recommendsDecomposition = None\<rparr>"

definition created_marker :: "string \<Rightarrow> bool" where
  "created_marker f \<longleftrightarrow> js_starts_with f ''new:'' \<or> js_starts_with f ''created:''"

text \<open>\<open>replace(/^(new:|created:)\s*/, "")\<close>\<close>

definition strip_marker :: "string \<Rightarrow> string" where
  "strip_marker f =
     (if js_starts_with f ''new:'' then dropWhile is_js_space (drop 4 f)
      else if js_starts_with f ''created:'' then dropWhile is_js_space (drop 8 f) else f)"

text \<open>The form a re-save reconstructs for the files it splits again.\<close>

definition mark_created :: "string \<Rightarrow> string" where
  "mark_created f = ''new: '' @ f"

record judge_review_evidence = review_evidence +
  ev_agentSessionId :: "string option"

definition judge_record ::
  "millis \<Rightarrow> task_id \<Rightarrow> string \<Rightarrow> string list \<Rightarrow> bool \<Rightarrow> approval_state \<Rightarrow> judge_review_evidence option
     \<Rightarrow> intent_hold_record option \<Rightarrow> js_value \<Rightarrow> js_value option \<Rightarrow> judge_approval" where
  "judge_record now tid diff filesChanged verificationPassed state ev hold identity versionOverride =
     (let a = \<lparr>ja_taskId = tid, ja_state = state, ja_diff = diff,
            ja_filesModified = filter (\<lambda>f. \<not> created_marker f) filesChanged,
            ja_filesCreated = map strip_marker (filter created_marker filesChanged),
            ja_verificationPassed = verificationPassed, ja_approvedBy = None, ja_rejectionReason = None,
            ja_decidedAt = None, ja_createdAt = now, ja_executionModeLoop = (ev \<noteq> None),
            ja_review = map_option ev_review ev, ja_reviewedAt = map_option ev_reviewedAt ev,
            ja_reviewGate = map_option ev_reviewGate ev,
            ja_agentSessionId = (case ev of None \<Rightarrow> None | Some e \<Rightarrow> ev_agentSessionId e),
            ja_intentHold = hold, ja_override = None, ja_specIdentity = kept_identity identity,
            ja_specIdentityVersion = minted_version versionOverride\<rparr>
      in if approving state
         then a\<lparr>ja_override := buildDirectWriteOverride JudgeApproval (state = ApAutoApproved) (judge_evidence a) None now\<rparr>
         else a)"

definition write_judge :: "judge_approval \<Rightarrow> approvals_dir \<Rightarrow> approvals_dir" where
  "write_judge a d = d\<lparr>ad_judge := (ad_judge d)(ja_taskId a \<mapsto> a)\<rparr>"

definition saveJudgeApproval ::
  "millis \<Rightarrow> task_id \<Rightarrow> string \<Rightarrow> string list \<Rightarrow> bool \<Rightarrow> approval_state \<Rightarrow> judge_review_evidence option
     \<Rightarrow> intent_hold_record option \<Rightarrow> js_value \<Rightarrow> js_value option \<Rightarrow> approvals_dir \<Rightarrow> approvals_dir" where
  "saveJudgeApproval now tid diff filesChanged verificationPassed state ev hold identity versionOverride d =
     write_judge (judge_record now tid diff filesChanged verificationPassed state ev hold identity versionOverride) d"

definition savePendingJudgeApproval ::
  "millis \<Rightarrow> task_id \<Rightarrow> string \<Rightarrow> string list \<Rightarrow> bool \<Rightarrow> js_value \<Rightarrow> approvals_dir \<Rightarrow> approvals_dir" where
  "savePendingJudgeApproval now tid diff filesChanged verificationPassed identity d =
     saveJudgeApproval now tid diff filesChanged verificationPassed ApPending None None identity None d"

definition with_session :: "string option \<Rightarrow> review_evidence \<Rightarrow> judge_review_evidence" where
  "with_session sid e = review_evidence.extend e \<lparr>ev_agentSessionId = sid\<rparr>"

definition resaved_judge :: "millis \<Rightarrow> judge_approval \<Rightarrow> judge_approval" where
  "resaved_judge now e =
     judge_record now (ja_taskId e) (ja_diff e) (ja_filesModified e @ map mark_created (ja_filesCreated e))
       (ja_verificationPassed e) ApPending
       (map_option (with_session (ja_agentSessionId e))
          (kept_evidence (ja_executionModeLoop e) (ja_review e) (ja_reviewedAt e) (ja_reviewGate e) (ja_createdAt e)))
       (ja_intentHold e) (ja_specIdentity e) (Some (ja_specIdentityVersion e))"

definition resavePendingJudgeApproval :: "millis \<Rightarrow> judge_approval \<Rightarrow> approvals_dir \<Rightarrow> approvals_dir" where
  "resavePendingJudgeApproval now e d = write_judge (resaved_judge now e) d"

definition loadJudgeApproval :: "task_id \<Rightarrow> approvals_dir \<Rightarrow> judge_approval option" where
  "loadJudgeApproval tid d = ad_judge d tid"

definition isJudgeApprovalExpired :: "judge_approval \<Rightarrow> millis \<Rightarrow> millis \<Rightarrow> bool" where
  "isJudgeApprovalExpired a timeoutMs now \<longleftrightarrow> ja_state a = ApPending \<and> now - ja_createdAt a \<ge> timeoutMs"

definition deleteJudgeApproval :: "task_id \<Rightarrow> approvals_dir \<Rightarrow> bool \<times> approvals_dir" where
  "deleteJudgeApproval tid d = (ad_judge d tid \<noteq> None, d\<lparr>ad_judge := (ad_judge d)(tid := None)\<rparr>)"

definition decided_judge ::
  "millis \<Rightarrow> approval_state \<Rightarrow> string option \<Rightarrow> string option \<Rightarrow> decision_result \<Rightarrow> judge_approval \<Rightarrow> judge_approval" where
  "decided_judge now state approvedBy rejectionReason r a =
     a\<lparr>ja_state := state, ja_decidedAt := Some now,
       ja_approvedBy := written_text (or_else (dr_actor r) approvedBy) (ja_approvedBy a),
       ja_rejectionReason := written_text rejectionReason (ja_rejectionReason a),
       ja_override := or_else (dr_override r) (ja_override a)\<rparr>"

definition updateJudgeApprovalState ::
  "millis \<Rightarrow> task_id \<Rightarrow> approval_state \<Rightarrow> string option \<Rightarrow> string option \<Rightarrow> decision_options option
     \<Rightarrow> resolved_identity \<Rightarrow> approvals_dir \<Rightarrow> (approval_error + decision_result) \<times> approvals_dir" where
  "updateJudgeApprovalState now tid state approvedBy rejectionReason decision current d =
     (case loadJudgeApproval tid d of
        None \<Rightarrow> (Inl (NoPendingApproval tid), d)
      | Some a \<Rightarrow>
          let comparison = compareJudgeApprovalSpecIdentity a current in
          if approving state \<and> \<not> mayConsume (ic_verdict comparison)
          then (Inl (StaleJudgeApproval tid ''judge approval write'' comparison), d)
          else (case resolveApprovalDecision JudgeApproval (approving state) (judge_evidence a)
                       (decision_actor decision approvedBy) now of
             Inl e \<Rightarrow> (Inl (AdviceNeedsReason e), d)
           | Inr r \<Rightarrow> (Inr r, d\<lparr>ad_judge := (ad_judge d)(tid \<mapsto>
               decided_judge now state approvedBy rejectionReason r a)\<rparr>)))"

section \<open>The calls as a machine\<close>

datatype approval_call =
    SaveBlueprint millis task_id brief "preflight_facts option" approval_state "review_evidence option" js_value
  | ResaveBlueprint millis blueprint_approval
  | DecideBlueprint millis task_id approval_state "string option" "string option" "decision_options option"
  | SaveJudge millis task_id string "string list" bool approval_state "judge_review_evidence option"
      "intent_hold_record option" js_value
  | ResaveJudge millis judge_approval
  | DecideJudge millis task_id approval_state "string option" "string option" "decision_options option" resolved_identity
  | DeleteJudge task_id

fun approval_step :: "approval_call \<Rightarrow> approvals_dir \<Rightarrow> approvals_dir" where
  "approval_step (SaveBlueprint now tid b p st ev si) d = saveBlueprintApproval now tid b p st ev si None d"
| "approval_step (ResaveBlueprint now e) d = resavePendingApproval now e d"
| "approval_step (DecideBlueprint now tid st who why dec) d = snd (updateApprovalState now tid st who why dec d)"
| "approval_step (SaveJudge now tid diff fs vp st ev hold si) d = saveJudgeApproval now tid diff fs vp st ev hold si None d"
| "approval_step (ResaveJudge now e) d = resavePendingJudgeApproval now e d"
| "approval_step (DecideJudge now tid st who why dec cur) d = snd (updateJudgeApprovalState now tid st who why dec cur d)"
| "approval_step (DeleteJudge tid) d = snd (deleteJudgeApproval tid d)"

definition no_approvals :: approvals_dir where
  "no_approvals = \<lparr>ad_blueprint = (\<lambda>_. None), ad_judge = (\<lambda>_. None)\<rparr>"

text \<open>A call that does not switch the recording of overrides off.\<close>

fun recording :: "approval_call \<Rightarrow> bool" where
  "recording (DecideBlueprint now tid st who why dec) = (case dec of None \<Rightarrow> True | Some x \<Rightarrow> do_mode x \<noteq> Some OverrideOff)"
| "recording (DecideJudge now tid st who why dec cur) = (case dec of None \<Rightarrow> True | Some x \<Rightarrow> do_mode x \<noteq> Some OverrideOff)"
| "recording c = True"

section \<open>Lemmas\<close>

text \<open>A record that agrees with its advice, or says what it contradicts.\<close>

definition accounted :: "override_surface \<Rightarrow> approval_state \<Rightarrow> advisory_evidence \<Rightarrow> advisory_override option \<Rightarrow> bool" where
  "accounted surface state ev ov \<longleftrightarrow>
     (if approving state \<and> detectOverriddenAdvisories ev \<noteq> []
      then (case ov of None \<Rightarrow> False | Some x \<Rightarrow> names_advice surface ev x) else True)"

lemma accounted_iff:
  "accounted surface state ev ov =
     (if approving state \<and> detectOverriddenAdvisories ev \<noteq> [] then \<exists>x. ov = Some x \<and> names_advice surface ev x else True)"
  by (cases ov) (simp_all add: accounted_def)

definition blueprint_accounted :: "blueprint_approval \<Rightarrow> bool" where
  "blueprint_accounted a = accounted BlueprintApproval (ba_state a) (blueprint_evidence a) (ba_override a)"

definition judge_accounted :: "judge_approval \<Rightarrow> bool" where
  "judge_accounted a = accounted JudgeApproval (ja_state a) (judge_evidence a) (ja_override a)"

definition dir_accounted :: "approvals_dir \<Rightarrow> bool" where
  "dir_accounted d \<longleftrightarrow> (\<forall>tid a. ad_blueprint d tid = Some a \<longrightarrow> blueprint_accounted a) \<and>
     (\<forall>tid a. ad_judge d tid = Some a \<longrightarrow> judge_accounted a)"

lemma direct_accounted:
  "approving st \<Longrightarrow> accounted surface st ev (buildDirectWriteOverride surface auto ev None now)"
  by (auto simp: accounted_def buildDirectWriteOverride_def Let_def names_advice_def AUTO_POLICY_ACTOR_def
      UNATTRIBUTED_ACTOR_def)

lemma blueprint_record_accounted: "blueprint_accounted (blueprint_record now tid b p st ev si v)"
proof (cases "approving st")
  case True
  then show ?thesis
    using direct_accounted [OF True]
    by (simp add: blueprint_accounted_def blueprint_record_def Let_def blueprint_evidence_def)
qed (simp add: blueprint_accounted_def blueprint_record_def Let_def accounted_def)

lemma judge_record_accounted: "judge_accounted (judge_record now tid diff fs vp st ev hold si v)"
proof (cases "approving st")
  case True
  then show ?thesis
    using direct_accounted [OF True]
    by (simp add: judge_accounted_def judge_record_def Let_def judge_evidence_def)
qed (simp add: judge_accounted_def judge_record_def Let_def accounted_def)

lemma resolved_accounted:
  assumes "resolveApprovalDecision surface (approving st) ev opts clock = Inr r" and "do_mode opts \<noteq> Some OverrideOff"
  shows "accounted surface st ev (or_else (dr_override r) old)"
proof (cases "contradicts (approving st) ev opts")
  case True
  then obtain ov where "dr_override r = Some ov" "names_advice surface ev ov"
    using resolve_explained [OF True, of surface clock] resolve_refused [OF True, of surface clock]
      resolve_unexplained [OF True, of surface clock] assms(1)
    by (cases "explained opts"; cases "do_mode opts = Some OverrideEnforce") auto
  then show ?thesis by (simp add: accounted_def or_else_def)
next
  case False
  then show ?thesis using assms(2) by (auto simp: contradicts_def accounted_def)
qed

lemma decision_mode:
  "do_mode (decision_actor dec who) = (case dec of None \<Rightarrow> None | Some x \<Rightarrow> do_mode x)"
  by (simp add: decision_actor_def Let_def split: option.split)

lemma decided_evidence [simp]:
  "blueprint_evidence (decided_blueprint now st who why r a) = blueprint_evidence a"
  "judge_evidence (decided_judge now st who why r a') = judge_evidence a'"
  by (simp_all add: blueprint_evidence_def decided_blueprint_def judge_evidence_def decided_judge_def)

lemma written_accounted:
  "dir_accounted d \<Longrightarrow> blueprint_accounted a \<Longrightarrow> dir_accounted (d\<lparr>ad_blueprint := (ad_blueprint d)(tid \<mapsto> a)\<rparr>)"
  "dir_accounted d \<Longrightarrow> judge_accounted a' \<Longrightarrow> dir_accounted (d\<lparr>ad_judge := (ad_judge d)(tid \<mapsto> a')\<rparr>)"
  by (auto simp: dir_accounted_def)

lemma approval_step_accounted:
  assumes "dir_accounted d" and "recording c"
  shows "dir_accounted (approval_step c d)"
proof (cases c)
  case (DecideBlueprint now tid st who why dec)
  have mode: "do_mode (decision_actor dec who) \<noteq> Some OverrideOff"
    using assms(2) DecideBlueprint by (auto simp: decision_mode split: option.splits)
  have "blueprint_accounted (decided_blueprint now st who why r a)"
    if "resolveApprovalDecision BlueprintApproval (approving st) (blueprint_evidence a) (decision_actor dec who) now = Inr r" for r a
    unfolding blueprint_accounted_def decided_evidence
    using resolved_accounted [OF that mode] by (simp add: decided_blueprint_def)
  then show ?thesis
    using assms(1) DecideBlueprint
    by (auto simp: updateApprovalState_def intro!: written_accounted split: option.split sum.split)
next
  case (DecideJudge now tid st who why dec cur)
  have mode: "do_mode (decision_actor dec who) \<noteq> Some OverrideOff"
    using assms(2) DecideJudge by (auto simp: decision_mode split: option.splits)
  have "judge_accounted (decided_judge now st who why r a)"
    if "resolveApprovalDecision JudgeApproval (approving st) (judge_evidence a) (decision_actor dec who) now = Inr r" for r a
    unfolding judge_accounted_def decided_evidence
    using resolved_accounted [OF that mode] by (simp add: decided_judge_def)
  then show ?thesis
    using assms(1) DecideJudge
    by (auto simp: updateJudgeApprovalState_def Let_def intro!: written_accounted split: option.split sum.split)
next
  case (DeleteJudge tid)
  then show ?thesis using assms(1) by (auto simp: deleteJudgeApproval_def dir_accounted_def)
qed (simp_all add: saveBlueprintApproval_def resavePendingApproval_def write_blueprint_def saveJudgeApproval_def
    resavePendingJudgeApproval_def resaved_judge_def write_judge_def written_accounted blueprint_record_accounted
    judge_record_accounted assms(1))

interpretation approvals: invariant_machine approval_step "\<lambda>c d. recording c" dir_accounted
  by unfold_locales (rule approval_step_accounted)

lemma no_approvals_accounted: "dir_accounted no_approvals"
  by (simp add: dir_accounted_def no_approvals_def)

text \<open>The markers of created files.\<close>

lemma strip_mark [simp]: "strip_marker (mark_created f) = dropWhile is_js_space f"
  by (simp add: strip_marker_def mark_created_def js_starts_with_def is_js_space_def)

lemma created_mark [simp]: "created_marker (mark_created f)"
  by (simp add: created_marker_def mark_created_def js_starts_with_def)

lemma strip_idem: "created_marker f \<Longrightarrow> dropWhile is_js_space (strip_marker f) = strip_marker f"
  by (auto simp: strip_marker_def created_marker_def dropWhile_idem)

lemma kept_identity_idem: "kept_identity (kept_identity v) = kept_identity v"
  by (simp add: kept_identity_def)

lemma with_session_same:
  fixes e :: judge_review_evidence
  shows "with_session (ev_agentSessionId e) \<lparr>ev_review = ev_review e, ev_reviewedAt = ev_reviewedAt e,
     ev_reviewGate = ev_reviewGate e\<rparr> = e"
  by (cases e) (simp add: with_session_def review_evidence.defs judge_review_evidence.defs)

lemma kept_judge_evidence:
  fixes ev :: "judge_review_evidence option"
  shows "map_option (with_session (case ev of None \<Rightarrow> None | Some e \<Rightarrow> ev_agentSessionId e))
     (kept_evidence (ev \<noteq> None) (map_option ev_review ev) (map_option ev_reviewedAt ev) (map_option ev_reviewGate ev) t) = ev"
  by (cases ev) (simp_all add: kept_evidence_def with_session_same)

lemma resaved_files:
  "filter (\<lambda>f. \<not> created_marker f) (map mark_created gs) = []"
  "map strip_marker (filter created_marker (map mark_created (map strip_marker (filter created_marker fs)))) =
     map strip_marker (filter created_marker fs)"
  "map strip_marker (map mark_created (map strip_marker (filter created_marker fs))) = map strip_marker (filter created_marker fs)"
  by (simp_all add: filter_empty_conv filter_map comp_def) (simp_all add: strip_idem)

text \<open>A record whose stored identity is a falsy value claims an identity that cannot be checked; saving it
  again drops the value, and the record counts as one written before identities existed.\<close>

lemma resave_forgets_falsy_identity:
  assumes "ja_specIdentity a = JNull" and "ja_specIdentityVersion a = JUndef"
  shows "\<not> mayConsume (ic_verdict (compareJudgeApprovalSpecIdentity a (FoundIdentity s)))"
    and "mayConsume (ic_verdict (compareJudgeApprovalSpecIdentity (resaved_judge now a) (FoundIdentity s)))"
  using assms
  by (simp_all add: compareJudgeApprovalSpecIdentity_def compareResolvedSpecIdentity_def consume_iff wellFormed_def
      js_get_def resaved_judge_def judge_record_def Let_def kept_identity_def minted_version_def approving_def)

text \<open>An override recorded by an approval stays on the record when it is rejected later.\<close>

lemma override_survives_rejection:
  assumes "ad_blueprint d tid = Some a" and "ba_override a = Some ov"
  shows "\<exists>b. ad_blueprint (snd (updateApprovalState now tid ApRejected who why dec d)) tid = Some b \<and>
           ba_state b = ApRejected \<and> ba_override b = Some ov"
proof -
  let ?r = "resolveApprovalDecision BlueprintApproval False (blueprint_evidence a) (decision_actor dec who) now"
  have "\<not> contradicts False (blueprint_evidence a) (decision_actor dec who)" by (simp add: contradicts_def)
  then obtain r where "?r = Inr r" "dr_override r = None" using resolve_agreeing by blast
  then show ?thesis using assms
    by (simp add: updateApprovalState_def loadApproval_def approving_def decided_blueprint_def or_else_def)
qed

section \<open>Properties\<close>

text \<open>A blueprint review that did not ship, and a run that pends it and approves it without a reason.\<close>

definition unready_review :: review_result where
  "unready_review = ReviewCompleted
     \<lparr>rv_verdict = FixFirst, rv_findings = [], rv_confidence = None, rv_summary = ''wrong'', rv_runner = CodexCli,
      rv_model = None, rv_anchorsAudit = None, rv_treeDirtyAfterReview = None\<rparr>"

definition unready_evidence :: review_evidence where
  "unready_evidence = \<lparr>ev_review = unready_review, ev_reviewedAt = 1,
     ev_reviewGate = \<lparr>sg_crossModelSatisfied = None, sg_crossModelEvidence = None, sg_anchorAuditPassed = None,
       sg_treeClean = None, sg_fidelityPassed = None, sg_eligibleForAutoApproval = None, sg_reasons = []\<rparr>\<rparr>"

definition approved_over_advice :: "approval_call list" where
  "approved_over_advice =
     [SaveBlueprint 1 ''T'' \<lparr>br_fidelity = None, br_fileAnalyses = [], br_verificationPatterns = []\<rparr> None ApPending
        (Some unready_evidence) JUndef,
      DecideBlueprint 2 ''T'' ApApproved (Some ''kim'') None None]"

text \<open>
  C16: Every approval on disk accounts for the advice it contradicts. After any sequence of saves,
  re-saves, decisions and deletions at either gate that does not switch recording off, a record in an
  approved state, automatic or not, whose stored evidence contains advice against it carries an
  override that names all of that advice, an actor and a reason.
\<close>

theorem approvals_account_for_advice:
  assumes "steps_ok approval_step (\<lambda>c d. recording c) calls no_approvals"
  shows "case run_steps approval_step calls no_approvals of d \<Rightarrow>
     (case ad_blueprint d tid of None \<Rightarrow> True
      | Some a \<Rightarrow> if approving (ba_state a) \<and> detectOverriddenAdvisories (blueprint_evidence a) \<noteq> []
                   then \<exists>ov. ba_override a = Some ov \<and> names_advice BlueprintApproval (blueprint_evidence a) ov else True) \<and>
     (case ad_judge d tid of None \<Rightarrow> True
      | Some a \<Rightarrow> if approving (ja_state a) \<and> detectOverriddenAdvisories (judge_evidence a) \<noteq> []
                   then \<exists>ov. ja_override a = Some ov \<and> names_advice JudgeApproval (judge_evidence a) ov else True)"
  using approvals.run_inv [OF no_approvals_accounted assms]
  by (simp add: dir_accounted_def blueprint_accounted_def judge_accounted_def accounted_iff split: option.split)

lemma approvals_account_for_advice_witness:
  "\<exists>b ov. ad_blueprint (run_steps approval_step approved_over_advice no_approvals) ''T'' = Some b \<and>
     ba_override b = Some ov \<and> names_advice BlueprintApproval (blueprint_evidence b) ov"
proof -
  let ?d = "run_steps approval_step approved_over_advice no_approvals"
  have c: "steps_ok approval_step (\<lambda>c d. recording c) approved_over_advice no_approvals
      \<and> (case ad_blueprint ?d ''T'' of None \<Rightarrow> False
         | Some b \<Rightarrow> approving (ba_state b) \<and> detectOverriddenAdvisories (blueprint_evidence b) \<noteq> [])"
    by code_simp
  show ?thesis
    using approvals_account_for_advice [OF c [THEN conjunct1], of "''T''", THEN conjunct1] c [THEN conjunct2]
    by (cases "ad_blueprint ?d ''T''") auto
qed

text \<open>
  When a judge gate is cleared. A decision succeeds exactly when the record exists, an approval may
  be consumed under the current specification, and the decision is not one that enforce mode refuses
  for want of an actor or a reason. A refused decision leaves both directories as they were; a
  successful one writes that record alone, in the requested state.
\<close>

theorem judge_clearance_exact:
  "case updateJudgeApprovalState now tid state who why dec current d of
     (res, d') \<Rightarrow>
       (case ad_judge d tid of
          None \<Rightarrow> res = Inl (NoPendingApproval tid) \<and> d' = d
        | Some a \<Rightarrow>
            let stale = (approving state \<and> \<not> mayConsume (ic_verdict (compareJudgeApprovalSpecIdentity a current)));
                refused = (contradicts (approving state) (judge_evidence a) (decision_actor dec who) \<and>
                  \<not> explained (decision_actor dec who) \<and> do_mode (decision_actor dec who) = Some OverrideEnforce)
            in if stale \<or> refused then isl res \<and> d' = d
               else \<not> isl res \<and> ad_blueprint d' = ad_blueprint d \<and>
                 (\<exists>b. ad_judge d' = (ad_judge d)(tid \<mapsto> b) \<and> ja_state b = state \<and> ja_diff b = ja_diff a \<and>
                    ja_specIdentity b = ja_specIdentity a))"
proof (cases "ad_judge d tid")
  case None
  then show ?thesis by (simp add: updateJudgeApprovalState_def loadJudgeApproval_def)
next
  case (Some a)
  let ?ev = "judge_evidence a" and ?o = "decision_actor dec who"
  let ?refused = "contradicts (approving state) ?ev ?o \<and> \<not> explained ?o \<and> do_mode ?o = Some OverrideEnforce"
  have "isl (resolveApprovalDecision JudgeApproval (approving state) ?ev ?o now) = ?refused"
    using resolve_agreeing [of "approving state" ?ev ?o JudgeApproval now]
      resolve_explained [of "approving state" ?ev ?o JudgeApproval now]
      resolve_refused [of "approving state" ?ev ?o JudgeApproval now]
      resolve_unexplained [of "approving state" ?ev ?o JudgeApproval now]
    by (cases "contradicts (approving state) ?ev ?o"; cases "explained ?o"; cases "do_mode ?o = Some OverrideEnforce") auto
  then show ?thesis
    using Some
    by (cases "resolveApprovalDecision JudgeApproval (approving state) ?ev ?o now")
       (auto simp: updateJudgeApprovalState_def loadJudgeApproval_def Let_def decided_judge_def)
qed

text \<open>
  Meeting a pending judge gate again changes nothing but its clock. Saving again a record that was
  saved as pending, at any later time, yields the same record, its files, review evidence, session,
  intent hold, specification identity and version included, with a new creation time.
\<close>

theorem resave_keeps_record:
  "resaved_judge t' (judge_record t tid diff files passed ApPending ev hold identity version) =
     (judge_record t tid diff files passed ApPending ev hold identity version)\<lparr>ja_createdAt := t'\<rparr>"
  using kept_judge_evidence [of ev t]
  by (simp add: resaved_judge_def judge_record_def Let_def approving_def resaved_files kept_identity_idem
      minted_version_def del: map_map not_None_eq)

end
