(* ===== verification/Fleet_Keys.thy ===== *)
theory Fleet_Keys
  imports Harness_Prelude
begin

text \<open>
  The pool of API keys (\<open>src/dispatcher/key-manager.ts\<close>): loading it from the environment, choosing the
  next key, rate limits and their expiry, costs, and the recognition of rate-limit errors in the
  output of a child process. The environment is a list of names and values; the clock is an
  argument. The regular expressions are written out.
\<close>

section \<open>State\<close>

record api_key =
  ak_id :: string
  ak_envVar :: string
  ak_isAvailable :: bool
  ak_rateLimitedUntil :: "millis option"
  ak_totalSpendUsd :: usd
  ak_requestCount :: nat
  ak_lastUsed :: millis

text \<open>Any other value of the setting takes the switch's \<open>default\<close>.\<close>

datatype key_strategy = RoundRobin | LeastUsed | LeastCost | OtherStrategy string

record key_config =
  kc_pool :: "string list option"
  kc_strategy :: key_strategy
  kc_cooldownMs :: millis

record key_manager =
  km_keys :: "(string \<times> api_key) list"
  km_lastUsedIndex :: int
  km_config :: key_config

type_synonym environment = "(string \<times> string) list"

definition fresh_key :: "string \<Rightarrow> string \<Rightarrow> api_key" where
  "fresh_key kid envVar =
     \<lparr>ak_id = kid, ak_envVar = envVar, ak_isAvailable = True, ak_rateLimitedUntil = None,
      ak_totalSpendUsd = 0, ak_requestCount = 0, ak_lastUsed = 0\<rparr>"

definition key_id :: "nat \<Rightarrow> string" where
  "key_id n = ''key-'' @ digits_text n"

section \<open>Loading\<close>

definition PRIMARY_KEY :: string where
  "PRIMARY_KEY = ''ANTHROPIC_API_KEY''"

text \<open>\<open>^env:ANTHROPIC_API_KEY(?:_\d+)?$\<close>\<close>

definition pool_entry :: "string \<Rightarrow> bool" where
  "pool_entry e \<longleftrightarrow>
     (let p = ''env:'' @ PRIMARY_KEY; rest = drop (length p) e in
      js_starts_with e p \<and>
      (rest = '''' \<or> (hd rest = CHR ''_'' \<and> tl rest \<noteq> '''' \<and> list_all js_digit (tl rest))))"

definition pool_names :: "string list \<Rightarrow> string list" where
  "pool_names pool = js_uniq (map (drop 4) pool)"

definition env_set :: "environment \<Rightarrow> string \<Rightarrow> bool" where
  "env_set env name = (case map_of env name of None \<Rightarrow> False | Some v \<Rightarrow> v \<noteq> '''')"

definition pool_keys :: "environment \<Rightarrow> string list \<Rightarrow> (string \<times> api_key) list" where
  "pool_keys env names =
     List.map_filter (\<lambda>(index, envVar).
        (case map_of env envVar of None \<Rightarrow> None
         | Some v \<Rightarrow> if js_trim v = '''' then None
                     else Some (key_id (index + 1), fresh_key (key_id (index + 1)) envVar)))
       (zip [0..<length names] names)"

definition numbered_name :: "nat \<Rightarrow> string" where
  "numbered_name n = PRIMARY_KEY @ ''_'' @ digits_text n"

text \<open>The loop over \<open>_2\<close>, \<open>_3\<close>, ... ends because the environment is finite.\<close>

lemma numbered_name_inj: "numbered_name m = numbered_name n \<Longrightarrow> m = n"
  by (auto simp: numbered_name_def dest: digits_text_inj)

lemma numbered_names_finite: "finite {n. n \<ge> k \<and> numbered_name n \<in> fst ` set env}"
proof -
  have "{n. n \<ge> k \<and> numbered_name n \<in> fst ` set env} \<subseteq> numbered_name -` (fst ` set env)" by auto
  moreover have "finite (numbered_name -` (fst ` set env))"
    by (intro finite_vimageI injI) (auto dest: numbered_name_inj)
  ultimately show ?thesis by (rule finite_subset)
qed

function numbered_keys :: "environment \<Rightarrow> nat \<Rightarrow> (string \<times> api_key) list" where
  "numbered_keys env n =
     (if env_set env (numbered_name n)
      then (key_id n, fresh_key (key_id n) (numbered_name n)) # numbered_keys env (Suc n)
      else [])"
  by pat_completeness auto

termination
proof (relation "measure (\<lambda>(env, n). card {k. k \<ge> n \<and> numbered_name k \<in> fst ` set env})")
  fix env n
  assume "env_set env (numbered_name n)"
  then have "numbered_name n \<in> fst ` set env"
    by (force simp: env_set_def dest: map_of_SomeD split: option.splits)
  then have "n \<in> {k. k \<ge> n \<and> numbered_name k \<in> fst ` set env} - {k. k \<ge> Suc n \<and> numbered_name k \<in> fst ` set env}"
    by simp
  moreover have "{k. k \<ge> Suc n \<and> numbered_name k \<in> fst ` set env} \<subseteq> {k. k \<ge> n \<and> numbered_name k \<in> fst ` set env}"
    by auto
  ultimately have "{k. k \<ge> Suc n \<and> numbered_name k \<in> fst ` set env} \<subset> {k. k \<ge> n \<and> numbered_name k \<in> fst ` set env}"
    by blast
  then show "((env, Suc n), env, n) \<in> measure (\<lambda>(env, n). card {k. k \<ge> n \<and> numbered_name k \<in> fst ` set env})"
    unfolding in_measure split by (rule psubset_card_mono [OF numbered_names_finite])
qed simp

declare numbered_keys.simps [simp del]

text \<open>A pool that does not name environment references makes the constructor throw, which is \<open>None\<close>.\<close>

definition loadKeysFromEnv :: "environment \<Rightarrow> key_config \<Rightarrow> (string \<times> api_key) list option" where
  "loadKeysFromEnv env config = (case kc_pool config of
       Some pool \<Rightarrow>
         if pool = [] \<or> \<not> list_all pool_entry pool then None
         else Some (pool_keys env (pool_names pool))
     | None \<Rightarrow>
         Some ((if env_set env PRIMARY_KEY then [(key_id 1, fresh_key (key_id 1) PRIMARY_KEY)] else []) @
               numbered_keys env 2))"

definition new_key_manager :: "environment \<Rightarrow> key_config \<Rightarrow> key_manager option" where
  "new_key_manager env config =
     map_option (\<lambda>ks. \<lparr>km_keys = ks, km_lastUsedIndex = -1, km_config = config\<rparr>) (loadKeysFromEnv env config)"

section \<open>Choosing a key\<close>

definition refreshed_key :: "millis \<Rightarrow> api_key \<Rightarrow> api_key" where
  "refreshed_key now k =
     (case ak_rateLimitedUntil k of
        None \<Rightarrow> k
      | Some t \<Rightarrow> if \<not> ak_isAvailable k \<and> t \<noteq> 0 \<and> t \<le> now
                  then k\<lparr>ak_isAvailable := True, ak_rateLimitedUntil := None\<rparr> else k)"

definition map_keys :: "(api_key \<Rightarrow> api_key) \<Rightarrow> key_manager \<Rightarrow> key_manager" where
  "map_keys f km = km\<lparr>km_keys := map (map_prod id f) (km_keys km)\<rparr>"

definition updateKeyAvailability :: "millis \<Rightarrow> key_manager \<Rightarrow> key_manager" where
  "updateKeyAvailability now km = map_keys (refreshed_key now) km"

fun js_find_index :: "('a \<Rightarrow> bool) \<Rightarrow> 'a list \<Rightarrow> int" where
  "js_find_index P [] = -1"
| "js_find_index P (x # xs) = (if P x then 0 else (let i = js_find_index P xs in if i < 0 then i else i + 1))"

definition selectRoundRobin :: "api_key list \<Rightarrow> key_manager \<Rightarrow> api_key \<times> key_manager" where
  "selectRoundRobin available km =
     (let allKeys = js_map_values (km_keys km);
          indices = filter (\<lambda>i. i \<ge> 0) (map (\<lambda>k. js_find_index (\<lambda>ak. ak_id ak = ak_id k) allKeys) available);
          selected = (case List.find (\<lambda>i. i > km_lastUsedIndex km) indices of
                        None \<Rightarrow> hd indices | Some i \<Rightarrow> i)
      in (allKeys ! nat selected, km\<lparr>km_lastUsedIndex := selected\<rparr>))"

text \<open>\<open>reduce\<close> with a strict comparison keeps the first of the least.\<close>

fun least_by :: "('a \<Rightarrow> 'b::linorder) \<Rightarrow> 'a \<Rightarrow> 'a list \<Rightarrow> 'a" where
  "least_by f m [] = m"
| "least_by f m (k # ks) = least_by f (if f k < f m then k else m) ks"

definition getNextKey :: "millis \<Rightarrow> key_manager \<Rightarrow> api_key option \<times> key_manager" where
  "getNextKey now km0 =
     (let km = updateKeyAvailability now km0;
          available = filter ak_isAvailable (js_map_values (km_keys km)) in
      case available of
        [] \<Rightarrow> (None, km)
      | k # ks \<Rightarrow>
          (case kc_strategy (km_config km) of
             LeastUsed \<Rightarrow> (Some (least_by ak_requestCount k ks), km)
           | LeastCost \<Rightarrow> (Some (least_by ak_totalSpendUsd k ks), km)
           | _ \<Rightarrow> (case selectRoundRobin available km of (key, km') \<Rightarrow> (Some key, km'))))"

definition getKeyValue :: "environment \<Rightarrow> string \<Rightarrow> key_manager \<Rightarrow> string option" where
  "getKeyValue env kid km = (case js_map_get (km_keys km) kid of
       None \<Rightarrow> None
     | Some k \<Rightarrow> if ak_isAvailable k then map_of env (ak_envVar k) else None)"

definition getEnvironmentNames :: "key_manager \<Rightarrow> string list" where
  "getEnvironmentNames km = (case kc_pool (km_config km) of
       Some pool \<Rightarrow> pool_names pool
     | None \<Rightarrow> map ak_envVar (js_map_values (km_keys km)))"

definition hasExplicitPool :: "key_manager \<Rightarrow> bool" where
  "hasExplicitPool km = (case kc_pool (km_config km) of None \<Rightarrow> False | Some pool \<Rightarrow> pool \<noteq> [])"

definition update_key :: "string \<Rightarrow> (api_key \<Rightarrow> api_key) \<Rightarrow> key_manager \<Rightarrow> key_manager" where
  "update_key kid f km = (case js_map_get (km_keys km) kid of
       None \<Rightarrow> km
     | Some k \<Rightarrow> km\<lparr>km_keys := js_map_set kid (f k) (km_keys km)\<rparr>)"

definition markRateLimited :: "millis \<Rightarrow> string \<Rightarrow> millis option \<Rightarrow> key_manager \<Rightarrow> key_manager" where
  "markRateLimited now kid retryAfterMs km =
     (let cooldown = (case retryAfterMs of None \<Rightarrow> kc_cooldownMs (km_config km) | Some t \<Rightarrow> t) in
      update_key kid (\<lambda>k. k\<lparr>ak_isAvailable := False, ak_rateLimitedUntil := Some (now + cooldown)\<rparr>) km)"

definition recordCost :: "millis \<Rightarrow> string \<Rightarrow> usd \<Rightarrow> key_manager \<Rightarrow> key_manager" where
  "recordCost now kid costUsd km =
     update_key kid (\<lambda>k. k\<lparr>ak_totalSpendUsd := ak_totalSpendUsd k + costUsd,
        ak_requestCount := Suc (ak_requestCount k), ak_lastUsed := now\<rparr>) km"

text \<open>What \<open>getKeyHealth\<close> leaves out is the environment variable.\<close>

definition getKeyHealth :: "millis \<Rightarrow> key_manager \<Rightarrow> (string \<times> bool \<times> millis option \<times> usd \<times> nat \<times> millis) list \<times> key_manager" where
  "getKeyHealth now km0 =
     (let km = updateKeyAvailability now km0 in
      (map (\<lambda>k. (ak_id k, ak_isAvailable k, ak_rateLimitedUntil k, ak_totalSpendUsd k, ak_requestCount k, ak_lastUsed k))
         (js_map_values (km_keys km)), km))"

definition hasAvailableKeys :: "millis \<Rightarrow> key_manager \<Rightarrow> bool \<times> key_manager" where
  "hasAvailableKeys now km0 =
     (let km = updateKeyAvailability now km0 in (list_ex ak_isAvailable (js_map_values (km_keys km)), km))"

section \<open>Rate-limit errors\<close>

definition isRateLimitError :: "int option \<Rightarrow> string list \<Rightarrow> bool" where
  "isRateLimitError exitCode output =
     (if exitCode = Some 0 then False
      else let combined = js_to_lower (js_join [CHR 0x0A] output) in
        js_includes combined ''429'' \<or> js_includes combined ''rate_limit_error'' \<or>
        js_includes combined ''rate limit'' \<or> js_includes combined ''too many requests'' \<or>
        js_includes combined ''overloaded_error'')"

text \<open>\<open>retry[_-]after[:\s]+(\d+)\<close>: no character of a run also starts what follows it, so a greedy run
  needs no backtracking.\<close>

definition retry_header :: "string \<Rightarrow> string option" where
  "retry_header s = (case word_here ''retry'' s of
       Some (c # t) \<Rightarrow>
         if c = CHR ''_'' \<or> c = CHR ''-''
         then (case word_here ''after'' t of
             Some u \<Rightarrow> (case run_of (\<lambda>d. d = CHR '':'' \<or> is_js_space d) u of
                 Some (_, v) \<Rightarrow> map_option fst (run_of js_digit v)
               | None \<Rightarrow> None)
           | None \<Rightarrow> None)
         else None
     | _ \<Rightarrow> None)"

text \<open>\<open>retry\s+after\s+(\d+)\s*(?:second|sec|s\b)\<close>\<close>

definition retry_prose :: "string \<Rightarrow> string option" where
  "retry_prose s = (case word_here ''retry'' s of
       Some t \<Rightarrow> (case run_of is_js_space t of
           Some (_, u) \<Rightarrow> (case word_here ''after'' u of
               Some v \<Rightarrow> (case run_of is_js_space v of
                   Some (_, w) \<Rightarrow> (case run_of js_digit w of
                       Some (ds, x) \<Rightarrow>
                         let y = dropWhile is_js_space x in
                         if word_here ''sec'' y \<noteq> None
                            \<or> (case word_here ''s'' y of None \<Rightarrow> False
                               | Some z \<Rightarrow> (case z of [] \<Rightarrow> True | c # _ \<Rightarrow> \<not> js_word_char c))
                         then Some ds else None
                     | None \<Rightarrow> None)
                 | None \<Rightarrow> None)
             | None \<Rightarrow> None)
         | None \<Rightarrow> None)
     | None \<Rightarrow> None)"

definition positive_seconds :: "string option \<Rightarrow> millis option" where
  "positive_seconds m = (case m of None \<Rightarrow> None
     | Some ds \<Rightarrow> (let n = read_digits 0 ds in if n > 0 then Some (int n * 1000) else None))"

definition parseRetryAfter :: "string list \<Rightarrow> millis option" where
  "parseRetryAfter output =
     (let combined = js_join [CHR 0x0A] output in
      case positive_seconds (first_match retry_header combined) of
        Some t \<Rightarrow> Some t
      | None \<Rightarrow> positive_seconds (first_match retry_prose combined))"

section \<open>What holds of the pool\<close>

definition keys_wf :: "key_manager \<Rightarrow> bool" where
  "keys_wf km \<longleftrightarrow>
     distinct (js_map_keys (km_keys km)) \<and>
     (\<forall>(kid, k) \<in> set (km_keys km). ak_id k = kid \<and> (ak_isAvailable k \<longleftrightarrow> ak_rateLimitedUntil k = None)) \<and>
     -1 \<le> km_lastUsedIndex km \<and> km_lastUsedIndex km < max 1 (int (length (km_keys km)))"

lemma key_id_inj: "key_id m = key_id n \<Longrightarrow> m = n"
  by (auto simp: key_id_def dest: digits_text_inj)

lemma numbered_keys_shape:
  "(\<forall>(kid, k) \<in> set (numbered_keys env n). \<exists>m \<ge> n. kid = key_id m \<and> k = fresh_key kid (numbered_name m)) \<and>
   distinct (js_map_keys (numbered_keys env n))"
proof (induction env n rule: numbered_keys.induct)
  case (1 env n)
  show ?case
  proof (cases "env_set env (numbered_name n)")
    case True
    have "key_id n \<notin> fst ` set (numbered_keys env (Suc n))"
      using 1 [OF True] by (fastforce dest: key_id_inj)
    with 1 [OF True] show ?thesis
      by (subst (1 2) numbered_keys.simps) (fastforce simp: True js_map_keys_def dest: Suc_leD)
  qed (subst (1 2) numbered_keys.simps, simp add: js_map_keys_def)
qed

lemma pool_keys_ids:
  "js_map_keys (List.map_filter (\<lambda>(index, envVar).
        (case map_of env envVar of None \<Rightarrow> None
         | Some v \<Rightarrow> if js_trim v = '''' then None
                     else Some (key_id (index + 1), fresh_key (key_id (index + 1)) envVar))) ixs)
   = map (\<lambda>(i, e). key_id (i + 1)) (filter (\<lambda>(i, e). case map_of env e of None \<Rightarrow> False | Some v \<Rightarrow> js_trim v \<noteq> '''') ixs)"
  by (induction ixs) (auto simp: js_map_keys_def split: option.splits)

lemma distinct_pool_keys: "distinct (js_map_keys (pool_keys env names))"
proof -
  let ?P = "\<lambda>(i, e). case map_of env e of None \<Rightarrow> False | Some v \<Rightarrow> js_trim v \<noteq> ''''"
  let ?ixs = "zip [0..<length names] names"
  have "distinct (map fst ?ixs)" by simp
  then have "distinct (map fst (filter ?P ?ixs))" by (rule distinct_map_filter)
  moreover have "inj (\<lambda>i. key_id (i + 1))" by (rule injI) (auto dest: key_id_inj)
  ultimately have "distinct (map (\<lambda>i. key_id (i + 1)) (map fst (filter ?P ?ixs)))"
    unfolding distinct_map [of "\<lambda>i. key_id (i + 1)"] by (auto intro: inj_on_subset)
  then show ?thesis unfolding pool_keys_def pool_keys_ids by (simp add: comp_def case_prod_unfold)
qed

lemma pool_keys_fresh: "(kid, k) \<in> set (pool_keys env names) \<Longrightarrow> \<exists>e. k = fresh_key kid e"
  by (auto simp: pool_keys_def List.map_filter_def split: option.splits if_splits)

lemma keys_wf_new: "new_key_manager env config = Some km \<Longrightarrow> keys_wf km"
proof -
  assume "new_key_manager env config = Some km"
  then obtain ks where ks: "loadKeysFromEnv env config = Some ks"
    and km: "km = \<lparr>km_keys = ks, km_lastUsedIndex = -1, km_config = config\<rparr>"
    by (auto simp: new_key_manager_def)
  have "distinct (js_map_keys ks) \<and> (\<forall>(kid, k) \<in> set ks. \<exists>e. k = fresh_key kid e)"
  proof (cases "kc_pool config")
    case None
    have "key_id 1 \<notin> fst ` set (numbered_keys env 2)"
      using numbered_keys_shape [of env 2] by (fastforce dest: key_id_inj)
    with numbered_keys_shape [of env 2] show ?thesis
      using ks None by (fastforce simp: loadKeysFromEnv_def js_map_keys_def split: if_splits)
  next
    case (Some pool)
    with ks show ?thesis
      by (auto simp: loadKeysFromEnv_def distinct_pool_keys dest: pool_keys_fresh split: if_splits)
  qed
  then show ?thesis by (fastforce simp: keys_wf_def km fresh_key_def)
qed

subsection \<open>Choosing\<close>

lemma config_refreshed [simp]: "km_config (updateKeyAvailability now km) = km_config km"
  by (simp add: updateKeyAvailability_def map_keys_def)

lemma length_map_keys [simp]: "length (km_keys (map_keys f km)) = length (km_keys km)"
  by (simp add: map_keys_def)

lemma map_keys_fields [simp]:
  "js_map_keys (km_keys (map_keys f km)) = js_map_keys (km_keys km)"
  "js_map_values (km_keys (map_keys f km)) = map f (js_map_values (km_keys km))"
  "km_lastUsedIndex (map_keys f km) = km_lastUsedIndex km"
  "km_config (map_keys f km) = km_config km"
  by (auto simp: map_keys_def js_map_keys_def js_map_values_def)

lemma keys_wf_refresh: "keys_wf km \<Longrightarrow> keys_wf (updateKeyAvailability now km)"
  by (fastforce simp: keys_wf_def updateKeyAvailability_def map_keys_def js_map_keys_def refreshed_key_def
        comp_def split: option.splits)

lemma find_index_distinct:
  "distinct (map f vs) \<Longrightarrow> i < length vs \<Longrightarrow> js_find_index (\<lambda>x. f x = f (vs ! i)) vs = int i"
proof (induction vs arbitrary: i)
  case (Cons v vs)
  then show ?case by (cases i) (auto simp: Let_def dest: nth_mem)
qed simp

lemma filter_as_indices: "filter P vs = map ((!) vs) (filter (\<lambda>i. P (vs ! i)) [0..<length vs])"
  by (simp add: filter_map [symmetric, unfolded comp_def] map_nth)

lemma available_indices:
  assumes "distinct (map ak_id vs)"
  shows "filter (\<lambda>i. i \<ge> 0) (map (\<lambda>k. js_find_index (\<lambda>ak. ak_id ak = ak_id k) vs) (filter P vs))
     = map int (filter (\<lambda>i. P (vs ! i)) [0..<length vs])"
proof -
  have "map (\<lambda>k. js_find_index (\<lambda>ak. ak_id ak = ak_id k) vs) (filter P vs)
      = map int (filter (\<lambda>i. P (vs ! i)) [0..<length vs])"
    unfolding filter_as_indices [of P vs] map_map comp_def
    by (rule map_cong [OF refl]) (simp add: find_index_distinct [OF assms])
  then show ?thesis by (simp add: filter_map comp_def)
qed

definition next_after :: "int \<Rightarrow> int list \<Rightarrow> int" where
  "next_after l is' = (case List.find (\<lambda>i. i > l) is' of None \<Rightarrow> hd is' | Some i \<Rightarrow> i)"

text \<open>The first index after the last one used, or the first of all when none follows.\<close>

lemma next_after_cyclic:
  assumes "sorted js" "js \<noteq> []"
  shows "next_after l js \<in> set js \<and>
     (\<forall>i \<in> set js. if l < next_after l js then l < i \<longrightarrow> next_after l js \<le> i
                   else i \<le> l \<and> next_after l js \<le> i)"
proof (cases "List.find (\<lambda>i. i > l) js")
  case None
  then have "\<forall>i \<in> set js. i \<le> l" by (auto simp: find_None_iff)
  moreover have "\<forall>i \<in> set js. hd js \<le> i" using assms by (cases js) auto
  ultimately show ?thesis using None assms by (auto simp: next_after_def)
next
  case (Some a)
  then obtain n where n: "n < length js" "js ! n = a" "l < a" "\<forall>m < n. \<not> l < js ! m"
    by (auto simp: find_Some_iff)
  have "a \<le> i" if "i \<in> set js" "l < i" for i
  proof -
    from that obtain m where "m < length js" "js ! m = i" by (auto simp: in_set_conv_nth)
    with n that have "n \<le> m" by (meson not_le)
    with assms(1) \<open>m < length js\<close> \<open>js ! m = i\<close> n(2) show ?thesis by (auto dest: sorted_nth_mono)
  qed
  with Some n show ?thesis by (auto simp: next_after_def)
qed

lemma selectRoundRobin_next:
  assumes "distinct (map ak_id (js_map_values (km_keys km)))"
  shows "selectRoundRobin (filter ak_isAvailable (js_map_values (km_keys km))) km =
     (let vs = js_map_values (km_keys km);
          i = next_after (km_lastUsedIndex km) (map int (filter (\<lambda>i. ak_isAvailable (vs ! i)) [0..<length vs]))
      in (vs ! nat i, km\<lparr>km_lastUsedIndex := i\<rparr>))"
  unfolding selectRoundRobin_def Let_def available_indices [OF assms] next_after_def by (rule refl)

lemma least_by_least:
  "least_by f m ks \<in> insert m (set ks) \<and> (\<forall>k \<in> insert m (set ks). f (least_by f m ks) \<le> f k)"
  by (induction f m ks rule: least_by.induct) (auto intro: order_trans less_imp_le simp: not_less split: if_splits)

lemma getNextKey_rotating:
  assumes "keys_wf km0" "kc_strategy (km_config km0) \<notin> {LeastUsed, LeastCost}"
  shows "getNextKey now km0 =
     (let km = updateKeyAvailability now km0; vs = js_map_values (km_keys km);
          js = filter (\<lambda>i. ak_isAvailable (vs ! i)) [0..<length vs];
          i = next_after (km_lastUsedIndex km) (map int js)
      in if js = [] then (None, km) else (Some (vs ! nat i), km\<lparr>km_lastUsedIndex := i\<rparr>))"
proof -
  let ?km = "updateKeyAvailability now km0"
  let ?vs = "js_map_values (km_keys ?km)"
  have "map ak_id ?vs = js_map_keys (km_keys ?km)"
    using keys_wf_refresh [OF assms(1), of now]
    by (auto simp: keys_wf_def js_map_values_def js_map_keys_def comp_def)
  then have d: "distinct (map ak_id ?vs)"
    using keys_wf_refresh [OF assms(1), of now] by (simp add: keys_wf_def)
  have none: "filter ak_isAvailable ?vs = [] \<longleftrightarrow> filter (\<lambda>i. ak_isAvailable (?vs ! i)) [0..<length ?vs] = []"
    by (subst filter_as_indices) simp
  show ?thesis
  proof (cases "filter ak_isAvailable ?vs")
    case Nil
    with none show ?thesis by (simp add: getNextKey_def Let_def)
  next
    case (Cons k ks)
    have "getNextKey now km0 = (case selectRoundRobin (filter ak_isAvailable ?vs) ?km of (key, km') \<Rightarrow> (Some key, km'))"
      using assms(2) by (cases "kc_strategy (km_config km0)") (simp_all add: getNextKey_def Let_def Cons)
    also have "\<dots> = (let i = next_after (km_lastUsedIndex ?km)
          (map int (filter (\<lambda>i. ak_isAvailable (?vs ! i)) [0..<length ?vs]))
        in (Some (?vs ! nat i), ?km\<lparr>km_lastUsedIndex := i\<rparr>))"
      by (simp add: selectRoundRobin_next [OF d] Let_def)
    finally show ?thesis using Cons none by (simp add: Let_def)
  qed
qed

definition usable :: "millis \<Rightarrow> api_key \<Rightarrow> bool" where
  "usable now k \<longleftrightarrow> ak_isAvailable k \<or>
     (case ak_rateLimitedUntil k of None \<Rightarrow> False | Some t \<Rightarrow> t \<noteq> 0 \<and> t \<le> now)"

lemma available_refreshed: "ak_isAvailable (refreshed_key now k) \<longleftrightarrow> usable now k"
  by (auto simp: refreshed_key_def usable_def split: option.splits)

lemma refreshed_key_counts [simp]:
  "ak_id (refreshed_key now k) = ak_id k"
  "ak_requestCount (refreshed_key now k) = ak_requestCount k"
  "ak_totalSpendUsd (refreshed_key now k) = ak_totalSpendUsd k"
  by (auto simp: refreshed_key_def split: option.splits)

text \<open>The pool a caller reaches from the constructor.\<close>

inductive keys_reach :: "environment \<Rightarrow> key_config \<Rightarrow> key_manager \<Rightarrow> bool" for env config where
  built: "new_key_manager env config = Some km \<Longrightarrow> keys_reach env config km"
| chosen: "keys_reach env config km \<Longrightarrow> keys_reach env config (snd (getNextKey now km))"
| limited: "keys_reach env config km \<Longrightarrow> keys_reach env config (markRateLimited now kid retryAfterMs km)"
| charged: "keys_reach env config km \<Longrightarrow> keys_reach env config (recordCost now kid costUsd km)"
| examined: "keys_reach env config km \<Longrightarrow> keys_reach env config (updateKeyAvailability now km)"

lemma js_map_set_in: "(j, w) \<in> set (js_map_set k v m) \<Longrightarrow> (j, w) \<in> set m \<or> (j, w) = (k, v)"
  unfolding js_map_set_def by (induction m) (auto split: if_splits)

lemma keys_wf_update_key:
  assumes "keys_wf km" "\<And>k. ak_id (f k) = ak_id k"
    "\<And>k. (ak_isAvailable k \<longleftrightarrow> ak_rateLimitedUntil k = None) \<Longrightarrow> (ak_isAvailable (f k) \<longleftrightarrow> ak_rateLimitedUntil (f k) = None)"
  shows "keys_wf (update_key kid f km)"
proof (cases "js_map_get (km_keys km) kid")
  case (Some k)
  have "(kid, k) \<in> set (km_keys km)" using Some by (rule js_map_get_in)
  moreover have "js_map_keys (js_map_set kid (f k) (km_keys km)) = js_map_keys (km_keys km)"
    using \<open>(kid, k) \<in> set (km_keys km)\<close>
    by (intro js_map.keys_put_present) (force simp: js_map_keys_def)
  moreover from this have "length (js_map_set kid (f k) (km_keys km)) = length (km_keys km)"
    unfolding js_map_keys_def by (rule map_eq_imp_length_eq)
  ultimately show ?thesis
    using assms Some by (fastforce simp: keys_wf_def update_key_def dest!: js_map_set_in)
qed (simp add: update_key_def assms)

lemma keys_wf_index: "keys_wf km \<Longrightarrow> i < length (km_keys km) \<Longrightarrow> keys_wf (km\<lparr>km_lastUsedIndex := int i\<rparr>)"
  by (simp add: keys_wf_def)

lemma next_after_nats:
  assumes "sorted js" "js \<noteq> []"
  shows "\<exists>j \<in> set js. next_after l (map int js) = int j"
  using next_after_cyclic [of "map int js" l] assms by (auto simp: sorted_map)

lemma keys_wf_next: "keys_wf km \<Longrightarrow> keys_wf (snd (getNextKey now km))"
proof (cases "kc_strategy (km_config km) \<in> {LeastUsed, LeastCost}")
  case True
  assume "keys_wf km"
  then have "keys_wf (updateKeyAvailability now km)" by (rule keys_wf_refresh)
  with True show ?thesis by (auto simp: getNextKey_def Let_def split: list.split)
next
  case False
  assume wf: "keys_wf km"
  let ?vs = "js_map_values (km_keys (updateKeyAvailability now km))"
  let ?js = "filter (\<lambda>i. ak_isAvailable (?vs ! i)) [0..<length ?vs]"
  show ?thesis
  proof (cases "?js = []")
    case True
    with getNextKey_rotating [OF wf False, of now] keys_wf_refresh [OF wf, of now]
    show ?thesis by (simp add: Let_def)
  next
    case js: False
    have "sorted ?js" by (simp add: sorted_wrt_filter)
    then obtain j where j: "j \<in> set ?js"
      "next_after (km_lastUsedIndex (updateKeyAvailability now km)) (map int ?js) = int j"
      using js next_after_nats by blast
    then have "j < length (km_keys (updateKeyAvailability now km))" by (simp add: js_map_values_def)
    with keys_wf_refresh [OF wf, of now] j(2) js show ?thesis
      unfolding getNextKey_rotating [OF wf False, of now] by (simp add: Let_def keys_wf_index)
  qed
qed

lemma keys_reach_wf: "keys_reach env config km \<Longrightarrow> keys_wf km"
proof (induction rule: keys_reach.induct)
  case (limited km now kid retryAfterMs)
  then show ?case by (simp add: markRateLimited_def Let_def keys_wf_update_key)
next
  case (charged km now kid costUsd)
  then show ?case by (simp add: recordCost_def keys_wf_update_key)
qed (auto intro: keys_wf_new keys_wf_next keys_wf_refresh)

lemma least_choice:
  assumes "filter ak_isAvailable ks = a # as"
  shows "least_by f a as \<in> set ks \<and> ak_isAvailable (least_by f a as) \<and>
    (\<forall>k \<in> set ks. if ak_isAvailable k then f (least_by f a as) \<le> f k else True)"
proof -
  have "set (a # as) = {k \<in> set ks. ak_isAvailable k}" by (simp flip: assms)
  with least_by_least [of f a as] show ?thesis by auto
qed

lemma getNextKey_least:
  assumes "kc_strategy (km_config km) = LeastUsed \<or> kc_strategy (km_config km) = LeastCost"
  shows "let km' = updateKeyAvailability now km; vs = js_map_values (km_keys km') in
     case getNextKey now km of
       (None, km'') \<Rightarrow> km'' = km' \<and> filter ak_isAvailable vs = []
     | (Some key, km'') \<Rightarrow> km'' = km' \<and> key \<in> set vs \<and> ak_isAvailable key \<and>
         (\<forall>k \<in> set vs. if ak_isAvailable k
            then (if kc_strategy (km_config km) = LeastUsed then ak_requestCount key \<le> ak_requestCount k
                  else ak_totalSpendUsd key \<le> ak_totalSpendUsd k)
            else True)"
proof (cases "filter ak_isAvailable (js_map_values (km_keys (updateKeyAvailability now km)))")
  case (Cons a as)
  with assms least_choice [OF Cons, of ak_requestCount] least_choice [OF Cons, of ak_totalSpendUsd]
  show ?thesis by (auto simp: getNextKey_def Let_def)
qed (simp add: getNextKey_def Let_def)

lemma getNextKey_none: "fst (getNextKey now km) = None \<longleftrightarrow>
    filter ak_isAvailable (js_map_values (km_keys (updateKeyAvailability now km))) = []"
  by (auto simp: getNextKey_def Let_def split: list.split key_strategy.split prod.split)

text \<open>
  The key at \<open>i\<close> is available and the first such after \<open>l\<close>; at or before \<open>l\<close> only when no available key
  follows \<open>l\<close>, and then it is the first of all.
\<close>

definition first_free_after :: "api_key list \<Rightarrow> int \<Rightarrow> nat \<Rightarrow> bool" where
  "first_free_after vs l i \<longleftrightarrow> ak_isAvailable (vs ! i) \<and>
     (\<forall>j < length vs. if \<not> ak_isAvailable (vs ! j) then True
        else if l < int i then \<not> (l < int j \<and> j < i) else int j \<le> l \<and> i \<le> j)"

lemma rotating_choice:
  assumes "keys_wf km" "kc_strategy (km_config km) \<notin> {LeastUsed, LeastCost}"
  shows "let km' = updateKeyAvailability now km; vs = js_map_values (km_keys km'); l = km_lastUsedIndex km in
     case getNextKey now km of
       (None, km'') \<Rightarrow> km'' = km' \<and> filter ak_isAvailable vs = []
     | (Some key, km'') \<Rightarrow>
         \<exists>i < length vs. key = vs ! i \<and> km'' = km'\<lparr>km_lastUsedIndex := int i\<rparr> \<and> first_free_after vs l i"
proof -
  let ?km = "updateKeyAvailability now km"
  let ?vs = "js_map_values (km_keys ?km)"
  let ?js = "filter (\<lambda>i. ak_isAvailable (?vs ! i)) [0..<length ?vs]"
  have last: "km_lastUsedIndex ?km = km_lastUsedIndex km" by (simp add: updateKeyAvailability_def)
  show ?thesis
  proof (cases "?js = []")
    case True
    then have "filter ak_isAvailable ?vs = []" by (subst filter_as_indices) simp
    with True show ?thesis unfolding getNextKey_rotating [OF assms] by (simp add: Let_def)
  next
    case False
    let ?n = "next_after (km_lastUsedIndex km) (map int ?js)"
    have sorted: "sorted ?js" by (simp add: sorted_wrt_filter)
    then have cyclic: "\<forall>i \<in> set (map int ?js). if km_lastUsedIndex km < ?n
          then km_lastUsedIndex km < i \<longrightarrow> ?n \<le> i else i \<le> km_lastUsedIndex km \<and> ?n \<le> i"
      using next_after_cyclic [of "map int ?js"] False by (simp add: sorted_map)
    obtain i where i: "i \<in> set ?js" "?n = int i" using next_after_nats [OF sorted False] by blast
    have "getNextKey now km = (Some (?vs ! i), ?km\<lparr>km_lastUsedIndex := int i\<rparr>)"
      unfolding getNextKey_rotating [OF assms] using False i(2) by (simp add: Let_def last)
    moreover have "first_free_after ?vs (km_lastUsedIndex km) i"
      using cyclic i(1) unfolding i(2) first_free_after_def by (force split: if_splits)
    ultimately show ?thesis using i(1) by (auto simp: Let_def)
  qed
qed

text \<open>In a pool reached from the constructor, whether a key is available can be read off its cooldown alone.\<close>

lemma refreshed_by_cooldown:
  assumes "ak_isAvailable k \<longleftrightarrow> ak_rateLimitedUntil k = None"
  shows "refreshed_key now k =
     (if (case ak_rateLimitedUntil k of None \<Rightarrow> True | Some t \<Rightarrow> t \<noteq> 0 \<and> t \<le> now)
      then k\<lparr>ak_isAvailable := True, ak_rateLimitedUntil := None\<rparr> else k)"
  using assms by (cases k) (auto simp: refreshed_key_def split: option.split)

lemma keys_wf_cooldown:
  "keys_wf km \<Longrightarrow> k \<in> set (js_map_values (km_keys km)) \<Longrightarrow> ak_isAvailable k \<longleftrightarrow> ak_rateLimitedUntil k = None"
  by (fastforce simp: keys_wf_def js_map_values_def)

lemma first_free_exact:
  assumes "first_free_after vs l i" "i < length vs" "\<And>j. j < length vs \<Longrightarrow> ak_isAvailable (vs ! j) \<longleftrightarrow> P j"
  shows "if \<exists>j < length vs. P j \<and> l < int j
     then l < int i \<and> (\<forall>j < i. if P j then int j \<le> l else True)
     else (\<forall>j < i. \<not> P j)"
proof -
  have free: "\<And>j. j < length vs \<Longrightarrow> P j \<Longrightarrow>
      if l < int i then \<not> (l < int j \<and> j < i) else int j \<le> l \<and> i \<le> j"
    and i: "P i"
    using assms unfolding first_free_after_def by (auto split: if_splits)
  show ?thesis
  proof (cases "l < int i")
    case True
    have "if P j then int j \<le> l else True" if "j < i" for j
      using free [of j] that True assms(2) by auto
    with True i assms(2) show ?thesis by auto
  next
    case False
    with free have "\<not> (\<exists>j < length vs. P j \<and> l < int j)" by fastforce
    moreover have "\<not> P j" if "j < i" for j
      using free [of j] False assms(2) that by auto
    ultimately show ?thesis by auto
  qed
qed

lemma getNextKey_pool: "js_map_values (km_keys (snd (getNextKey now km))) =
    map (refreshed_key now) (js_map_values (km_keys km))"
proof -
  have "km_keys (snd (getNextKey now km)) = km_keys (updateKeyAvailability now km)"
    by (auto simp: getNextKey_def Let_def selectRoundRobin_def split: list.split key_strategy.split)
  then show ?thesis by (simp add: updateKeyAvailability_def)
qed

text \<open>
  C30: \<open>getNextKey\<close> on any pool reached from the constructor. A key is free when it has no recorded cooldown
  or its cooldown ended by now (an end recorded as instant 0 counts as none recorded by the code's truthiness
  test, and keeps the key out). No key is returned exactly when none is free. A returned key is a free one, and
  under \<open>least-used\<close> (\<open>least-cost\<close>) no free key has served fewer requests (spent less); under any other
  strategy it is the first free key after the one used last, and the first of all only when none follows. In
  the pool left behind every free key is available without a cooldown and every other key is untouched.
\<close>

theorem key_choice_exact:
  fixes now :: millis
  assumes "keys_reach env config km"
  defines "old \<equiv> js_map_values (km_keys km)"
    and "free \<equiv> \<lambda>k. case ak_rateLimitedUntil k of None \<Rightarrow> True | Some t \<Rightarrow> t \<noteq> 0 \<and> t \<le> now"
  defines "lifted \<equiv> \<lambda>k. if free k then k\<lparr>ak_isAvailable := True, ak_rateLimitedUntil := None\<rparr> else k"
  shows "js_map_values (km_keys (snd (getNextKey now km))) = map lifted old \<and>
     (case fst (getNextKey now km) of
        None \<Rightarrow> list_all (\<lambda>k. \<not> free k) old
      | Some key \<Rightarrow> \<exists>i < length old. free (old ! i) \<and> key = lifted (old ! i) \<and>
          (case kc_strategy (km_config km) of
             LeastUsed \<Rightarrow> list_all (\<lambda>k. ak_requestCount (old ! i) \<le> ak_requestCount k) (filter free old)
           | LeastCost \<Rightarrow> list_all (\<lambda>k. ak_totalSpendUsd (old ! i) \<le> ak_totalSpendUsd k) (filter free old)
           | _ \<Rightarrow> km_lastUsedIndex (snd (getNextKey now km)) = int i \<and>
               (if \<exists>j < length old. free (old ! j) \<and> km_lastUsedIndex km < int j
                then km_lastUsedIndex km < int i \<and>
                  (\<forall>j < i. if free (old ! j) then int j \<le> km_lastUsedIndex km else True)
                else (\<forall>j < i. \<not> free (old ! j)))))"
proof -
  have wf: "keys_wf km" using assms(1) by (rule keys_reach_wf)
  have r: "refreshed_key now k = lifted k" if "k \<in> set old" for k
    using refreshed_by_cooldown [OF keys_wf_cooldown [OF wf that [unfolded old_def]], of now]
    unfolding lifted_def free_def .
  have a: "ak_isAvailable (lifted k) \<longleftrightarrow> free k" if "k \<in> set old" for k
    using keys_wf_cooldown [OF wf that [unfolded old_def]] by (auto simp: lifted_def free_def split: option.splits)
  have counts: "ak_requestCount (lifted k) = ak_requestCount k" "ak_totalSpendUsd (lifted k) = ak_totalSpendUsd k" for k
    by (simp_all add: lifted_def)
  have pool: "js_map_values (km_keys (updateKeyAvailability now km)) = map lifted old"
    using r by (simp add: updateKeyAvailability_def old_def)
  have left: "js_map_values (km_keys (snd (getNextKey now km))) = map lifted old"
    using r by (simp add: getNextKey_pool old_def)
  have none: "filter ak_isAvailable (map lifted old) = [] \<longleftrightarrow> list_all (\<lambda>k. \<not> free k) old"
    using a by (simp add: filter_empty_conv list_all_iff)
  show ?thesis
  proof (cases "fst (getNextKey now km)")
    case None
    then have "filter ak_isAvailable (map lifted old) = []"
      using getNextKey_none [of now km] by (simp add: pool)
    with None none left show ?thesis by simp
  next
    case (Some key)
    show ?thesis
    proof (cases "kc_strategy (km_config km) \<in> {LeastUsed, LeastCost}")
      case True
      then have "key \<in> set (map lifted old) \<and> ak_isAvailable key \<and>
         (\<forall>k \<in> set (map lifted old). if ak_isAvailable k
            then (if kc_strategy (km_config km) = LeastUsed then ak_requestCount key \<le> ak_requestCount k
                  else ak_totalSpendUsd key \<le> ak_totalSpendUsd k) else True)"
        using getNextKey_least [of km now] Some by (auto simp: Let_def pool split: prod.splits option.splits)
      moreover from this obtain k where k: "k \<in> set old" "key = lifted k" by auto
      ultimately have "free k" and least: "\<And>k'. k' \<in> set old \<Longrightarrow> free k' \<Longrightarrow>
          if kc_strategy (km_config km) = LeastUsed then ak_requestCount k \<le> ak_requestCount k'
          else ak_totalSpendUsd k \<le> ak_totalSpendUsd k'"
        using a by (auto simp: counts)
      with k obtain i where "i < length old" "k = old ! i" "key = lifted k" "free k" by (auto simp: in_set_conv_nth)
      with True left Some k least show ?thesis by (auto simp: list_all_iff split: if_splits)
    next
      case False
      then obtain i where i: "i < length old" "key = lifted (old ! i)"
        "km_lastUsedIndex (snd (getNextKey now km)) = int i"
        "first_free_after (map lifted old) (km_lastUsedIndex km) i"
        using rotating_choice [OF wf False, of now] Some by (auto simp: Let_def pool split: prod.splits)

      have same: "ak_isAvailable (map lifted old ! j) \<longleftrightarrow> free (old ! j)" if "j < length (map lifted old)" for j
        using that a by simp
      have free: "free (old ! i)" using same [of i] i by (simp add: first_free_after_def)
      have first: "if \<exists>j < length old. free (old ! j) \<and> km_lastUsedIndex km < int j
         then km_lastUsedIndex km < int i \<and> (\<forall>j < i. if free (old ! j) then int j \<le> km_lastUsedIndex km else True)
         else (\<forall>j < i. \<not> free (old ! j))"
        by (rule first_free_exact [OF i(4) _ same, unfolded length_map]) (use i(1) in simp_all)
      have rotating: "(case kc_strategy (km_config km) of LeastUsed \<Rightarrow> A | LeastCost \<Rightarrow> B | _ \<Rightarrow> C) = C" for A B C :: bool
        using False by (cases "kc_strategy (km_config km)") simp_all
      show ?thesis
        unfolding Some option.case rotating
        by (intro conjI left exI [of _ i] i(1,2,3) free first)
    qed
  qed
qed

subsection \<open>Runs of requests\<close>

text \<open>The ids a sequence of calls is given, at the given instants.\<close>

fun serve_keys :: "millis list \<Rightarrow> key_manager \<Rightarrow> string option list \<times> key_manager" where
  "serve_keys [] km = ([], km)"
| "serve_keys (t # ts) km =
     (case getNextKey t km of (k, km') \<Rightarrow>
        (case serve_keys ts km' of (ids, km'') \<Rightarrow> (map_option ak_id k # ids, km'')))"

abbreviation all_available :: "key_manager \<Rightarrow> bool" where
  "all_available km \<equiv> list_all ak_isAvailable (js_map_values (km_keys km))"

lemma refresh_all_available: "all_available km \<Longrightarrow> updateKeyAvailability t km = km"
  by (cases km)
    (auto simp: updateKeyAvailability_def map_keys_def js_map_values_def list_all_iff refreshed_key_def
      intro!: map_idI split: option.split)

lemma next_after_all:
  assumes "0 < n" "-1 \<le> l" "l < int n"
  shows "next_after l (map int [0..<n]) = int (nat (l + 1) mod n)"
proof -
  let ?i = "next_after l (map int [0..<n])"
  have i: "?i \<in> set (map int [0..<n]) \<and>
     (\<forall>i \<in> set (map int [0..<n]). if l < ?i then l < i \<longrightarrow> ?i \<le> i else i \<le> l \<and> ?i \<le> i)"
    using assms by (intro next_after_cyclic) (auto simp: sorted_map)
  show ?thesis
  proof (cases "l + 1 = int n")
    case True
    have "int 0 \<in> set (map int [0..<n])" using assms(1) by simp
    moreover have "\<not> l < ?i" using i True by auto
    ultimately have "?i \<le> int 0" using i by (metis (no_types, lifting))
    with i True show ?thesis by auto
  next
    case False
    with assms have m: "int (nat (l + 1)) \<in> set (map int [0..<n])"
      unfolding set_map by (intro imageI) simp
    with i have "l < ?i" using assms(2) by (force split: if_splits)
    with i m assms(2) have "?i = l + 1" by (force split: if_splits)
    with False assms show ?thesis by simp
  qed
qed

lemma rotating_step:
  assumes "keys_wf km" "kc_strategy (km_config km) \<notin> {LeastUsed, LeastCost}" "all_available km" "km_keys km \<noteq> []"
  shows "\<exists>k. getNextKey t km =
       (Some k, km\<lparr>km_lastUsedIndex := int (nat (km_lastUsedIndex km + 1) mod length (km_keys km))\<rparr>) \<and>
     ak_id k = js_map_keys (km_keys km) ! (nat (km_lastUsedIndex km + 1) mod length (km_keys km))"
proof -
  let ?vs = "js_map_values (km_keys km)" and ?n = "length (km_keys km)"
  let ?i = "nat (km_lastUsedIndex km + 1) mod ?n"
  have n: "length ?vs = ?n" "0 < ?n" using assms(4) by (simp_all add: js_map_values_def)
  have js: "filter (\<lambda>i. ak_isAvailable (?vs ! i)) [0..<length ?vs] = [0..<?n]"
    using assms(3) n(1) by (simp add: list_all_length)
  have "next_after (km_lastUsedIndex km) (map int [0..<?n]) = int ?i"
    using assms(1) n(2) by (intro next_after_all) (auto simp: keys_wf_def)
  then have "getNextKey t km = (Some (?vs ! ?i), km\<lparr>km_lastUsedIndex := int ?i\<rparr>)"
    unfolding getNextKey_rotating [OF assms(1,2)] Let_def refresh_all_available [OF assms(3)] js
    using assms(4) by simp
  moreover have "ak_id (?vs ! ?i) = js_map_keys (km_keys km) ! ?i"
  proof -
    have "km_keys km ! ?i \<in> set (km_keys km)" using n(2) by (intro nth_mem) simp
    with assms(1) have "ak_id (snd (km_keys km ! ?i)) = fst (km_keys km ! ?i)"
      by (auto simp: keys_wf_def split: prod.splits)
    with n(2) show ?thesis by (simp add: js_map_values_def js_map_keys_def)
  qed
  ultimately show ?thesis by blast
qed

lemma rotation:
  assumes "keys_wf km" "kc_strategy (km_config km) \<notin> {LeastUsed, LeastCost}" "all_available km" "km_keys km \<noteq> []"
  shows "fst (serve_keys ts km) =
     map (\<lambda>i. Some (js_map_keys (km_keys km) ! ((nat (km_lastUsedIndex km + 1) + i) mod length (km_keys km))))
       [0..<length ts]"
  using assms
proof (induction ts arbitrary: km)
  case (Cons t ts)
  let ?n = "length (km_keys km)"
  let ?i = "nat (km_lastUsedIndex km + 1) mod ?n"
  obtain k where k: "getNextKey t km = (Some k, km\<lparr>km_lastUsedIndex := int ?i\<rparr>)" "ak_id k = js_map_keys (km_keys km) ! ?i"
    using rotating_step [OF Cons.prems] by blast
  have "keys_wf (km\<lparr>km_lastUsedIndex := int ?i\<rparr>)"
    using Cons.prems by (intro keys_wf_index) simp_all
  with Cons.IH [of "km\<lparr>km_lastUsedIndex := int ?i\<rparr>"] Cons.prems
  have "fst (serve_keys ts (km\<lparr>km_lastUsedIndex := int ?i\<rparr>)) =
     map (\<lambda>i. Some (js_map_keys (km_keys km) ! ((nat (int ?i + 1) + i) mod ?n))) [0..<length ts]"
    by simp
  moreover have "(nat (int ?i + 1) + i) mod ?n = (nat (km_lastUsedIndex km + 1) + Suc i) mod ?n" for i
  proof -
    have "(nat (int ?i + 1) + i) mod ?n = (?i + Suc i) mod ?n" by (simp add: nat_add_distrib)
    also have "\<dots> = (nat (km_lastUsedIndex km + 1) + Suc i) mod ?n" by (rule mod_add_left_eq)
    finally show ?thesis .
  qed
  moreover obtain ids km'' where "serve_keys ts (km\<lparr>km_lastUsedIndex := int ?i\<rparr>) = (ids, km'')" by fastforce
  ultimately show ?case
    by (simp add: k upt_conv_Cons map_Suc_upt [symmetric] comp_def del: upt_Suc map_Suc_upt)
qed simp

text \<open>
  When no key is limited, round robin is fair: consecutive calls are given the keys of the pool in
  order, each key exactly once in every \<open>n\<close> calls, starting after the key used last.
\<close>

theorem rotation_is_fair:
  assumes "keys_reach env config km" "kc_strategy (km_config km) = RoundRobin"
    "list_all ak_isAvailable (js_map_values (km_keys km))" "km_keys km \<noteq> []"
  shows "fst (serve_keys ts km) =
     map (\<lambda>i. Some (js_map_keys (km_keys km) ! ((nat (km_lastUsedIndex km + 1) + i) mod length (km_keys km))))
       [0..<length ts]"
  using assms by (intro rotation) (simp_all add: keys_reach_wf)

subsection \<open>Cooldowns\<close>

lemma getNextKey_state:
  assumes "keys_wf km"
  shows "km_keys (snd (getNextKey t km)) = km_keys (updateKeyAvailability t km) \<and>
    (case fst (getNextKey t km) of None \<Rightarrow> True
     | Some k \<Rightarrow> k \<in> set (js_map_values (km_keys (updateKeyAvailability t km))) \<and> ak_isAvailable k)"
proof (cases "kc_strategy (km_config km) \<in> {LeastUsed, LeastCost}")
  case True
  with getNextKey_least [of km t] show ?thesis by (auto simp: Let_def split: prod.splits option.splits)
next
  case False
  with rotating_choice [OF assms False, of t] show ?thesis
    by (auto simp: Let_def first_free_after_def split: prod.splits option.splits)
qed

lemma map_keys_get: "js_map_get (km_keys (map_keys f km)) kid = map_option f (js_map_get (km_keys km) kid)"
proof -
  have "map_of (map (map_prod id f) m) kid = map_option f (map_of m kid)" for m
    by (induction m) auto
  then show ?thesis by (simp add: js_map_get_def map_keys_def)
qed

lemma limited_not_served:
  assumes "keys_wf km" "js_map_get (km_keys km) kid = Some k" "\<not> ak_isAvailable k" "ak_rateLimitedUntil k = Some u"
    "\<forall>t \<in> set ts. t < u"
  shows "Some kid \<notin> set (fst (serve_keys ts km)) \<and> js_map_get (km_keys (snd (serve_keys ts km))) kid = Some k \<and>
    keys_wf (snd (serve_keys ts km))"
  using assms
proof (induction ts arbitrary: km)
  case (Cons t ts)
  obtain key km' where n: "getNextKey t km = (key, km')" by fastforce
  have "refreshed_key t k = k" using Cons.prems by (simp add: refreshed_key_def)
  then have "js_map_get (km_keys (updateKeyAvailability t km)) kid = Some k"
    using Cons.prems by (simp add: updateKeyAvailability_def map_keys_get)
  moreover have "km_keys km' = km_keys (updateKeyAvailability t km)"
    using getNextKey_state [OF Cons.prems(1), of t] n by simp
  moreover have wf: "keys_wf km'" using keys_wf_next [OF Cons.prems(1), of t] n by simp
  ultimately have k: "js_map_get (km_keys km') kid = Some k" by simp
  have "key \<noteq> Some key' \<or> ak_id key' \<noteq> kid" for key'
  proof (rule ccontr)
    assume "\<not> ?thesis"
    then have key: "key = Some key'" "ak_id key' = kid" by auto
    then have "key' \<in> set (js_map_values (km_keys km'))" "ak_isAvailable key'"
      using getNextKey_state [OF Cons.prems(1), of t] n by auto
    then have "js_map_get (km_keys km') kid = Some key'"
      using wf key(2) by (intro js_map_get_of_mem) (fastforce simp: keys_wf_def js_map_values_def)+
    with k Cons.prems(3) \<open>ak_isAvailable key'\<close> show False by simp
  qed
  then have "Some kid \<noteq> map_option ak_id key" by (cases key) auto
  with Cons.IH [OF wf k] Cons.prems show ?case by (auto simp: n split: prod.split)
qed simp

text \<open>
  A key marked rate-limited is given to no call before its cooldown ends, whatever the strategy and
  however many calls are made; from that instant on it is available to the next call again.
\<close>

theorem cooldown_respected:
  assumes "keys_reach env config km" "js_map_get (km_keys km) kid \<noteq> None"
  shows "let until = now + (case retryAfterMs of None \<Rightarrow> kc_cooldownMs (km_config km) | Some t \<Rightarrow> t);
             run = serve_keys ts (markRateLimited now kid retryAfterMs km) in
     if list_all (\<lambda>t. t < until) ts
     then Some kid \<notin> set (fst run) \<and>
       (case js_map_get (km_keys (updateKeyAvailability later (snd run))) kid of None \<Rightarrow> False
        | Some k \<Rightarrow> ak_isAvailable k \<longleftrightarrow> until \<noteq> 0 \<and> until \<le> later)
     else True"
proof -
  let ?until = "now + (case retryAfterMs of None \<Rightarrow> kc_cooldownMs (km_config km) | Some t \<Rightarrow> t)"
  obtain k where k: "js_map_get (km_keys km) kid = Some k" using assms(2) by blast
  let ?k = "k\<lparr>ak_isAvailable := False, ak_rateLimitedUntil := Some ?until\<rparr>"
  let ?km = "markRateLimited now kid retryAfterMs km"
  have wf: "keys_wf ?km" using assms(1) by (blast intro: keys_reach_wf keys_reach.limited)
  have g: "js_map_get (km_keys ?km) kid = Some ?k"
    by (simp add: markRateLimited_def update_key_def k Let_def js_map.get_put)
  show ?thesis
    using limited_not_served [OF wf g, of ?until ts]
    by (auto simp: Let_def list_all_iff updateKeyAvailability_def map_keys_get refreshed_key_def)
qed

section \<open>Witnesses\<close>

definition two_keys :: environment where
  "two_keys = [(''ANTHROPIC_API_KEY'', ''a''), (''ANTHROPIC_API_KEY_2'', ''b'')]"

definition sample_keys :: "key_strategy \<Rightarrow> key_manager" where
  "sample_keys strategy = \<lparr>km_keys = [(''key-1'', fresh_key ''key-1'' ''ANTHROPIC_API_KEY''),
     (''key-2'', fresh_key ''key-2'' ''ANTHROPIC_API_KEY_2'')], km_lastUsedIndex = -1,
     km_config = \<lparr>kc_pool = None, kc_strategy = strategy, kc_cooldownMs = 60000\<rparr>\<rparr>"

lemma sample_keys_built: "new_key_manager two_keys (km_config (sample_keys strategy)) = Some (sample_keys strategy)"
  by code_simp

lemma sample_keys_reached: "keys_reach two_keys (km_config (sample_keys strategy)) (sample_keys strategy)"
  by (rule keys_reach.built) (rule sample_keys_built)

definition limited_keys :: key_manager where
  "limited_keys = markRateLimited 0 ''key-2'' (Some 10) (markRateLimited 0 ''key-1'' (Some 5) (sample_keys RoundRobin))"

lemma key_choice_exact_witness:
  "fst (getNextKey 4 limited_keys) = None \<and>
   (case fst (getNextKey 7 limited_keys) of None \<Rightarrow> False | Some key \<Rightarrow> ak_id key = ''key-1'')"
proof -
  have reached: "keys_reach two_keys (km_config (sample_keys RoundRobin)) limited_keys"
    unfolding limited_keys_def by (intro keys_reach.limited sample_keys_reached)
  have pool: "map (\<lambda>k. (ak_id k, ak_rateLimitedUntil k)) (js_map_values (km_keys limited_keys))
      = [(''key-1'', Some 5), (''key-2'', Some 10)]" by code_simp
  then obtain k1 k2 where ks: "js_map_values (km_keys limited_keys) = [k1, k2]" "ak_id k1 = ''key-1''"
    "ak_rateLimitedUntil k1 = Some 5" "ak_rateLimitedUntil k2 = Some 10" by auto
  have strategy: "kc_strategy (km_config limited_keys) = RoundRobin" "km_lastUsedIndex limited_keys = -1" by code_simp+
  have "fst (getNextKey 4 limited_keys) = None"
    using key_choice_exact [OF reached, of 4]
    by (auto simp: ks less_Suc_eq numeral_2_eq_2 split: option.splits)
  moreover have "case fst (getNextKey 7 limited_keys) of None \<Rightarrow> False | Some key \<Rightarrow> ak_id key = ''key-1''"
    using key_choice_exact [OF reached, of 7]
    by (auto simp: ks strategy less_Suc_eq numeral_2_eq_2 split: option.splits)
  ultimately show ?thesis by blast
qed

lemma rotation_is_fair_witness:
  "fst (serve_keys [1, 2, 3] (sample_keys RoundRobin)) = [Some ''key-1'', Some ''key-2'', Some ''key-1'']"
  using rotation_is_fair [OF sample_keys_reached [of RoundRobin], of "[1, 2, 3]"]
  by (simp add: sample_keys_def fresh_key_def js_map_values_def js_map_keys_def upt_rec numeral_2_eq_2)

lemma cooldown_respected_witness:
  "Some ''key-1'' \<notin> set (fst (serve_keys [1, 2, 3] (markRateLimited 0 ''key-1'' (Some 10) (sample_keys LeastCost))))"
  using cooldown_respected [OF sample_keys_reached [of LeastCost], of "''key-1''" 0 "Some 10" "[1, 2, 3]"]
  by (simp add: sample_keys_def js_map_get_def Let_def)

end
