(* ===== verification/Fleet_Costs.thy ===== *)
theory Fleet_Costs
  imports Fleet_Keys Queue_Dependencies
begin

text \<open>
  The spending controls of the fleet: the budget caps (\<open>src/dispatcher/fleet-budget.ts\<close>) and the cost
  velocity monitor (\<open>src/dispatcher/cost-velocity.ts\<close>). Amounts and rates are rationals. A session's
  start time is the instant its ISO text denotes, so that the same date is the same day since the
  epoch. A percentage of a cap of zero is infinite or not a number. The clock is an argument.
\<close>

section \<open>Budget caps\<close>

record fleet_budget_config =
  fb_dailyCapUsd :: usd
  fb_hourlyCapUsd :: usd
  fb_perWaveCapUsd :: usd
  fb_alertThresholds :: "rat list"
  fb_enforceHard :: bool

record budget_checker =
  bc_config :: fleet_budget_config
  bc_inMemoryCosts :: "(task_id \<times> usd) list"
  bc_waveDispatchCount :: nat
  bc_keyManager :: "key_manager option"

text \<open>The reason of a refusal, with the two amounts its text prints.\<close>

datatype budget_refusal = DailyCap usd usd | HourlyCap usd usd | WaveCap usd usd

record budget_status =
  bs_allowed :: bool
  bs_reason :: "budget_refusal option"
  bs_daily :: usd
  bs_hourly :: usd
  bs_dailyLimit :: usd
  bs_hourlyLimit :: usd

definition new_budget_checker :: "fleet_budget_config \<Rightarrow> key_manager option \<Rightarrow> budget_checker" where
  "new_budget_checker config keys =
     \<lparr>bc_config = config, bc_inMemoryCosts = [], bc_waveDispatchCount = 0, bc_keyManager = keys\<rparr>"

definition budget_updateConfig :: "fleet_budget_config \<Rightarrow> budget_checker \<Rightarrow> budget_checker" where
  "budget_updateConfig config b = b\<lparr>bc_config := config\<rparr>"

definition DAY_MS :: millis where
  "DAY_MS = 24 * 60 * 60 * 1000"

definition HOUR_MS :: millis where
  "HOUR_MS = 60 * 60 * 1000"

definition session_cost :: "session_entry \<Rightarrow> usd" where
  "session_cost s = (case se_totalCostUsd s of None \<Rightarrow> 0 | Some c \<Rightarrow> c)"

text \<open>The loop over the sessions, with its \<open>continue\<close>.\<close>

definition add_spend :: "millis \<Rightarrow> session_entry \<Rightarrow> usd \<times> usd \<Rightarrow> usd \<times> usd" where
  "add_spend now s acc =
     (let cost = session_cost s in
      if cost \<le> 0 \<and> se_status s = SActive then acc
      else (if se_startTime s div DAY_MS = now div DAY_MS then fst acc + cost else fst acc,
            if se_startTime s \<ge> now - HOUR_MS then snd acc + cost else snd acc))"

definition getCurrentSpend :: "millis \<Rightarrow> session_entry list \<Rightarrow> usd \<times> usd" where
  "getCurrentSpend now sessions = fold (add_spend now) sessions (0, 0)"

definition getWaveSpend :: "budget_checker \<Rightarrow> usd" where
  "getWaveSpend b = fold (\<lambda>c total. total + c) (js_map_values (bc_inMemoryCosts b)) 0"

text \<open>\<open>sessions\<close> is what \<open>getExecutionSessions\<close> returns.\<close>

definition budget_canDispatch :: "millis \<Rightarrow> session_entry list \<Rightarrow> budget_checker \<Rightarrow> budget_status" where
  "budget_canDispatch now sessions b =
     (let spend = getCurrentSpend now sessions; config = bc_config b; wave = getWaveSpend b;
          status = (\<lambda>allowed reason. \<lparr>bs_allowed = allowed, bs_reason = reason, bs_daily = fst spend,
             bs_hourly = snd spend, bs_dailyLimit = fb_dailyCapUsd config, bs_hourlyLimit = fb_hourlyCapUsd config\<rparr>)
      in if fst spend \<ge> fb_dailyCapUsd config
         then status False (Some (DailyCap (fst spend) (fb_dailyCapUsd config)))
         else if snd spend \<ge> fb_hourlyCapUsd config
         then status False (Some (HourlyCap (snd spend) (fb_hourlyCapUsd config)))
         else if wave \<ge> fb_perWaveCapUsd config
         then status False (Some (WaveCap wave (fb_perWaveCapUsd config)))
         else status True None)"

definition recordDispatchCost :: "millis \<Rightarrow> task_id \<Rightarrow> usd \<Rightarrow> string option \<Rightarrow> budget_checker \<Rightarrow> budget_checker" where
  "recordDispatchCost now tid costUsd keyId b =
     b\<lparr>bc_inMemoryCosts := js_map_set tid costUsd (bc_inMemoryCosts b),
       bc_waveDispatchCount := Suc (bc_waveDispatchCount b),
       bc_keyManager := (case (keyId, bc_keyManager b) of
          (Some kid, Some km) \<Rightarrow> Some (if kid = '''' then km else recordCost now kid costUsd km)
        | (_, km) \<Rightarrow> km)\<rparr>"

definition resetWave :: "budget_checker \<Rightarrow> budget_checker" where
  "resetWave b = b\<lparr>bc_inMemoryCosts := [], bc_waveDispatchCount := 0\<rparr>"

datatype percent = Percent rat | InfinitePercent | NotAPercent

definition percent_of :: "usd \<Rightarrow> usd \<Rightarrow> percent" where
  "percent_of spend cap =
     (if cap \<noteq> 0 then Percent (spend / cap * 100) else if spend > 0 then InfinitePercent else NotAPercent)"

fun percent_ge :: "percent \<Rightarrow> rat \<Rightarrow> bool" where
  "percent_ge (Percent p) t = (p \<ge> t)"
| "percent_ge InfinitePercent t = True"
| "percent_ge NotAPercent t = False"

datatype alert_level = AlertRed | AlertOrange | AlertYellow | AlertGreen

definition getAlertLevel :: "percent \<Rightarrow> alert_level" where
  "getAlertLevel p =
     (if percent_ge p 90 then AlertRed else if percent_ge p 75 then AlertOrange
      else if percent_ge p 50 then AlertYellow else AlertGreen)"

text \<open>\<open>Math.max\<close> of the crossed thresholds.\<close>

definition getHighestCrossedThreshold :: "fleet_budget_config \<Rightarrow> percent \<Rightarrow> rat option" where
  "getHighestCrossedThreshold config p =
     (case filter (percent_ge p) (fb_alertThresholds config) of [] \<Rightarrow> None | t # ts \<Rightarrow> Some (fold max ts t))"

record budget_alert =
  al_level :: alert_level
  al_daily :: bool
  al_currentUsd :: usd
  al_capUsd :: usd
  al_percentUsed :: percent

definition metric_alert :: "fleet_budget_config \<Rightarrow> bool \<Rightarrow> usd \<Rightarrow> usd \<Rightarrow> budget_alert list" where
  "metric_alert config daily spend cap =
     (let p = percent_of spend cap in
      if getHighestCrossedThreshold config p = None then []
      else [\<lparr>al_level = getAlertLevel p, al_daily = daily, al_currentUsd = spend, al_capUsd = cap, al_percentUsed = p\<rparr>])"

definition checkAlertThresholds :: "millis \<Rightarrow> session_entry list \<Rightarrow> budget_checker \<Rightarrow> budget_alert list" where
  "checkAlertThresholds now sessions b =
     (let spend = getCurrentSpend now sessions; config = bc_config b in
      metric_alert config True (fst spend) (fb_dailyCapUsd config) @
      metric_alert config False (snd spend) (fb_hourlyCapUsd config))"

section \<open>Cost velocity\<close>

record velocity_config =
  vc_enabled :: bool
  vc_windowMinutes :: rat
  vc_warnMultiplier :: rat
  vc_killMultiplier :: rat
  vc_minSamplesForBaseline :: nat

record velocity_baseline =
  vb_medianCostPerMinute :: rat
  vb_sampleCount :: nat

record active_tracking =
  at_startTime :: millis
  at_costUpdates :: "(usd \<times> millis) list"

record velocity_tracker =
  vt_config :: velocity_config
  vt_active :: "(task_id \<times> active_tracking) list"
  vt_baseline :: "velocity_baseline option"
  vt_excluded :: "task_id list"

datatype velocity_status = VelocityNormal | VelocityWarning | VelocityCritical

record velocity_snapshot =
  vs_taskId :: task_id
  vs_currentCostUsd :: usd
  vs_elapsedMinutes :: rat
  vs_costPerMinute :: rat
  vs_medianCostPerMinute :: rat
  vs_multiplier :: rat
  vs_status :: velocity_status

text \<open>The settings that are given win over the defaults: \<open>config\<close> is \<open>{ ...DEFAULT_CONFIG, ...config }\<close>.\<close>

definition DEFAULT_VELOCITY_CONFIG :: velocity_config where
  "DEFAULT_VELOCITY_CONFIG = \<lparr>vc_enabled = False, vc_windowMinutes = 5, vc_warnMultiplier = 3,
     vc_killMultiplier = 5, vc_minSamplesForBaseline = 5\<rparr>"

definition new_velocity_tracker :: "velocity_config \<Rightarrow> velocity_tracker" where
  "new_velocity_tracker config = \<lparr>vt_config = config, vt_active = [], vt_baseline = None, vt_excluded = []\<rparr>"

record task_cost =
  tc_taskId :: task_id
  tc_costUsd :: usd
  tc_durationMs :: millis

definition minutes_of :: "millis \<Rightarrow> rat" where
  "minutes_of ms = of_int ms / 60000"

definition median :: "rat list \<Rightarrow> rat" where
  "median rates =
     (if rates = [] then 0
      else let mid = length rates div 2 in
        if even (length rates) then (rates ! (mid - 1) + rates ! mid) / 2 else rates ! mid)"

text \<open>The comparator \<open>(a, b) => a - b\<close>, by its sign.\<close>

definition numeric_order :: "rat \<Rightarrow> rat \<Rightarrow> int" where
  "numeric_order a b = (if a < b then -1 else if b < a then 1 else 0)"

definition valid_costs :: "velocity_tracker \<Rightarrow> task_cost list \<Rightarrow> task_cost list" where
  "valid_costs v costs =
     filter (\<lambda>t. tc_durationMs t > 0 \<and> tc_costUsd t > 0 \<and> tc_taskId t \<notin> set (vt_excluded v)) costs"

definition computeBaseline :: "task_cost list \<Rightarrow> velocity_tracker \<Rightarrow> velocity_baseline \<times> velocity_tracker" where
  "computeBaseline costs v =
     (let valid = valid_costs v costs;
          baseline = (if valid = [] then \<lparr>vb_medianCostPerMinute = 0, vb_sampleCount = 0\<rparr>
            else \<lparr>vb_medianCostPerMinute =
                     median (js_sort numeric_order (map (\<lambda>t. tc_costUsd t / minutes_of (tc_durationMs t)) valid)),
                   vb_sampleCount = length valid\<rparr>)
      in (baseline, v\<lparr>vt_baseline := Some baseline\<rparr>))"

definition isEnforcing :: "velocity_tracker \<Rightarrow> bool" where
  "isEnforcing v \<longleftrightarrow> vc_enabled (vt_config v) \<and>
     (case vt_baseline v of None \<Rightarrow> False
      | Some b \<Rightarrow> vb_sampleCount b \<ge> vc_minSamplesForBaseline (vt_config v) \<and> vb_medianCostPerMinute b > 0)"

definition computeSnapshot :: "velocity_tracker \<Rightarrow> task_id \<Rightarrow> usd \<Rightarrow> millis \<Rightarrow> velocity_snapshot" where
  "computeSnapshot v tid cost elapsedMs =
     (let elapsed = minutes_of elapsedMs;
          rate = (if elapsed > 0 then cost / elapsed else 0);
          med = (case vt_baseline v of None \<Rightarrow> 0 | Some b \<Rightarrow> vb_medianCostPerMinute b);
          multiplier = (if med > 0 then rate / med else 0)
      in \<lparr>vs_taskId = tid, vs_currentCostUsd = cost, vs_elapsedMinutes = elapsed, vs_costPerMinute = rate,
          vs_medianCostPerMinute = med, vs_multiplier = multiplier,
          vs_status = (if isEnforcing v \<and> multiplier \<ge> vc_killMultiplier (vt_config v) then VelocityCritical
                       else if isEnforcing v \<and> multiplier \<ge> vc_warnMultiplier (vt_config v) then VelocityWarning
                       else VelocityNormal)\<rparr>)"

text \<open>The update is appended before the window is applied; \<open>now\<close> is the same at each reading of the clock.\<close>

definition tracked :: "millis \<Rightarrow> task_id \<Rightarrow> usd \<Rightarrow> millis \<Rightarrow> velocity_tracker \<Rightarrow> active_tracking" where
  "tracked now tid cost elapsedMs v =
     (let t = (case js_map_get (vt_active v) tid of
                 None \<Rightarrow> \<lparr>at_startTime = now - elapsedMs, at_costUpdates = []\<rparr> | Some t \<Rightarrow> t);
          cutoff = of_int now - vc_windowMinutes (vt_config v) * 60 * 1000
      in t\<lparr>at_costUpdates := filter (\<lambda>u. of_int (snd u) \<ge> cutoff) (at_costUpdates t @ [(cost, now)])\<rparr>)"

definition recordCostUpdate ::
  "millis \<Rightarrow> task_id \<Rightarrow> usd \<Rightarrow> millis \<Rightarrow> velocity_tracker \<Rightarrow> velocity_snapshot \<times> velocity_tracker" where
  "recordCostUpdate now tid cost elapsedMs v =
     (let v' = v\<lparr>vt_active := js_map_set tid (tracked now tid cost elapsedMs v) (vt_active v)\<rparr>
      in (computeSnapshot v' tid cost elapsedMs, v'))"

definition last_update :: "active_tracking \<Rightarrow> (usd \<times> millis) option" where
  "last_update t = (if at_costUpdates t = [] then None else Some (last (at_costUpdates t)))"

definition getActiveSnapshots :: "millis \<Rightarrow> velocity_tracker \<Rightarrow> velocity_snapshot list" where
  "getActiveSnapshots now v =
     List.map_filter (\<lambda>(tid, t). map_option (\<lambda>u. computeSnapshot v tid (fst u) (now - at_startTime t)) (last_update t))
       (vt_active v)"

datatype kill_reason =
    MonitoringDisabled | InsufficientBaseline nat nat | ZeroMedian | NotTracked | NoCostData | NoElapsedTime
  | ExceedsThreshold rat rat rat rat \<comment> \<open>multiplier, threshold, rate, median\<close>
  | WithinThreshold

definition shouldKill :: "millis \<Rightarrow> task_id \<Rightarrow> velocity_tracker \<Rightarrow> bool \<times> kill_reason" where
  "shouldKill now tid v =
     (let config = vt_config v in
      if \<not> vc_enabled config then (False, MonitoringDisabled)
      else case vt_baseline v of
        None \<Rightarrow> (False, InsufficientBaseline 0 (vc_minSamplesForBaseline config))
      | Some b \<Rightarrow>
          if vb_sampleCount b < vc_minSamplesForBaseline config
          then (False, InsufficientBaseline (vb_sampleCount b) (vc_minSamplesForBaseline config))
          else if vb_medianCostPerMinute b = 0 then (False, ZeroMedian)
          else case js_map_get (vt_active v) tid of
            None \<Rightarrow> (False, NotTracked)
          | Some t \<Rightarrow>
              (case last_update t of
                 None \<Rightarrow> (False, NoCostData)
               | Some u \<Rightarrow>
                   let elapsed = minutes_of (now - at_startTime t) in
                   if elapsed \<le> 0 then (False, NoElapsedTime)
                   else let rate = fst u / elapsed; multiplier = rate / vb_medianCostPerMinute b in
                     if multiplier \<ge> vc_killMultiplier config
                     then (True, ExceedsThreshold multiplier (vc_killMultiplier config) rate (vb_medianCostPerMinute b))
                     else (False, WithinThreshold)))"

definition removeTracking :: "task_id \<Rightarrow> velocity_tracker \<Rightarrow> velocity_tracker" where
  "removeTracking tid v = v\<lparr>vt_active := js_map_delete tid (vt_active v)\<rparr>"

definition markVelocityKilled :: "task_id \<Rightarrow> velocity_tracker \<Rightarrow> velocity_tracker" where
  "markVelocityKilled tid v =
     v\<lparr>vt_excluded := js_set_add tid (vt_excluded v), vt_active := js_map_delete tid (vt_active v)\<rparr>"

section \<open>What the caps bound\<close>

lemma add_spend_sums:
  "fold (add_spend now) ss (d, h) =
     (d + (\<Sum>s \<leftarrow> filter (\<lambda>s. se_startTime s div DAY_MS = now div DAY_MS \<and> (session_cost s > 0 \<or> se_status s \<noteq> SActive)) ss. session_cost s),
      h + (\<Sum>s \<leftarrow> filter (\<lambda>s. se_startTime s \<ge> now - HOUR_MS \<and> (session_cost s > 0 \<or> se_status s \<noteq> SActive)) ss. session_cost s))"
  by (induction ss arbitrary: d h) (auto simp: add_spend_def Let_def)

definition day_spend :: "millis \<Rightarrow> session_entry list \<Rightarrow> usd" where
  "day_spend now ss = (\<Sum>s \<leftarrow> filter (\<lambda>s. se_startTime s div DAY_MS = now div DAY_MS \<and>
     (session_cost s > 0 \<or> se_status s \<noteq> SActive)) ss. session_cost s)"

definition hour_spend :: "millis \<Rightarrow> session_entry list \<Rightarrow> usd" where
  "hour_spend now ss = (\<Sum>s \<leftarrow> filter (\<lambda>s. se_startTime s \<ge> now - HOUR_MS \<and>
     (session_cost s > 0 \<or> se_status s \<noteq> SActive)) ss. session_cost s)"

lemma current_spend: "getCurrentSpend now ss = (day_spend now ss, hour_spend now ss)"
  by (simp add: getCurrentSpend_def add_spend_sums day_spend_def hour_spend_def)

text \<open>The cost recorded last for each task since the wave was reset.\<close>

definition wave_tasks :: "(task_id \<times> usd \<times> string option \<times> millis) list \<Rightarrow> task_id list" where
  "wave_tasks ds = remdups (map fst ds)"

definition last_cost :: "(task_id \<times> usd \<times> string option \<times> millis) list \<Rightarrow> task_id \<Rightarrow> usd" where
  "last_cost ds t = (case map_of (rev ds) t of None \<Rightarrow> 0 | Some (c, _) \<Rightarrow> c)"

fun record_all :: "(task_id \<times> usd \<times> string option \<times> millis) list \<Rightarrow> budget_checker \<Rightarrow> budget_checker" where
  "record_all [] b = b"
| "record_all ((t, c, kid, now) # ds) b = record_all ds (recordDispatchCost now t c kid b)"

lemma record_all_costs:
  "bc_inMemoryCosts (record_all ds b) = foldl (\<lambda>m (t, c, _, _). js_map_set t c m) (bc_inMemoryCosts b) ds"
  by (induction ds b rule: record_all.induct) (simp_all add: recordDispatchCost_def)

lemma distinct_costs:
  "distinct (js_map_keys m) \<Longrightarrow> distinct (js_map_keys (foldl (\<lambda>m (t, c, _, _). js_map_set t c m) m ds))"
  by (induction ds arbitrary: m) (auto simp: js_map.distinct_put)

lemma costs_get:
  "js_map_get (foldl (\<lambda>m (t, c, _, _). js_map_set t c m) m ds) t =
     (case map_of (rev ds) t of None \<Rightarrow> js_map_get m t | Some (c, _) \<Rightarrow> Some c)"
  by (induction ds arbitrary: m) (auto simp: js_map.get_put map_add_def split: option.split)

lemma sum_values:
  assumes "distinct (js_map_keys m)"
  shows "fold (\<lambda>c total. total + c) (js_map_values m) (a :: usd) =
     a + (\<Sum>t \<in> set (js_map_keys m). the (js_map_get m t))"
  using assms
proof (induction m arbitrary: a)
  case (Cons e m)
  have "(\<Sum>t \<in> fst ` set m. the (map_of (e # m) t)) = (\<Sum>t \<in> fst ` set m. the (map_of m t))"
  proof (rule sum.cong [OF refl])
    fix t assume "t \<in> fst ` set m"
    moreover have "fst e \<notin> fst ` set m" using Cons.prems by (simp add: js_map_keys_def)
    ultimately have "t \<noteq> fst e" by blast
    then show "the (map_of (e # m) t) = the (map_of m t)" by (cases e) simp
  qed
  with Cons show ?case by (simp add: js_map_values_def js_map_keys_def js_map_get_def ac_simps)
qed simp

lemma wave_spend_last:
  "getWaveSpend (record_all ds (resetWave b)) = (\<Sum>t \<leftarrow> wave_tasks ds. last_cost ds t)"
proof -
  let ?m = "bc_inMemoryCosts (record_all ds (resetWave b))"
  have m: "?m = foldl (\<lambda>m (t, c, _, _). js_map_set t c m) [] ds"
    by (simp add: record_all_costs resetWave_def)
  have d: "distinct (js_map_keys ?m)" unfolding m by (rule distinct_costs) simp
  have get: "js_map_get ?m t = (case map_of (rev ds) t of None \<Rightarrow> None | Some (c, _) \<Rightarrow> Some c)" for t
    unfolding m costs_get by (simp split: option.split)
  have keys: "set (js_map_keys ?m) = fst ` set ds"
  proof -
    have "t \<in> set (js_map_keys ?m) \<longleftrightarrow> map_of (rev ds) t \<noteq> None" for t
      using js_map.get_None_iff [of ?m t] by (auto simp: get split: option.splits)
    then show ?thesis by (auto simp: map_of_eq_None_iff)
  qed
  have "getWaveSpend (record_all ds (resetWave b)) = (\<Sum>t \<in> fst ` set ds. the (js_map_get ?m t))"
    using sum_values [OF d, of 0] by (simp add: getWaveSpend_def keys)
  also have "\<dots> = (\<Sum>t \<in> fst ` set ds. last_cost ds t)"
    by (rule sum.cong) (auto simp: get last_cost_def map_of_eq_None_iff [of "rev ds", simplified] split: option.split)
  also have "\<dots> = (\<Sum>t \<leftarrow> wave_tasks ds. last_cost ds t)"
    by (simp add: wave_tasks_def sum_list_distinct_conv_sum_set)
  finally show ?thesis .
qed

text \<open>
  The budget gate. A dispatch is allowed exactly when the spending of the current UTC day, that of the
  last sixty minutes and that of the wave are each below their cap, where an active session counts once
  it has a cost, and a wave counts for each task only the cost recorded last; the reason of a refusal is
  the first cap reached, in the order day, hour, wave.
\<close>

theorem budget_gate_exact:
  "let b' = record_all ds (resetWave b); config = bc_config b; st = budget_canDispatch now sessions b';
       day = day_spend now sessions; hour = hour_spend now sessions; wave = (\<Sum>t \<leftarrow> wave_tasks ds. last_cost ds t)
   in (bs_allowed st \<longleftrightarrow> day < fb_dailyCapUsd config \<and> hour < fb_hourlyCapUsd config \<and> wave < fb_perWaveCapUsd config) \<and>
      bs_reason st =
        (if day \<ge> fb_dailyCapUsd config then Some (DailyCap day (fb_dailyCapUsd config))
         else if hour \<ge> fb_hourlyCapUsd config then Some (HourlyCap hour (fb_hourlyCapUsd config))
         else if wave \<ge> fb_perWaveCapUsd config then Some (WaveCap wave (fb_perWaveCapUsd config)) else None)"
proof -
  have "bc_config (record_all ds b) = bc_config b" for b
    by (induction ds b rule: record_all.induct) (simp_all add: recordDispatchCost_def)
  then have "bc_config (record_all ds (resetWave b)) = bc_config b" by (simp add: resetWave_def)
  then show ?thesis
    by (auto simp: budget_canDispatch_def current_spend wave_spend_last Let_def)
qed

section \<open>The baseline\<close>

interpretation numeric: comparator numeric_order
  by unfold_locales (auto simp: numeric_order_def split: if_splits)

lemma sorted_rates: "sorted (js_sort numeric_order xs)"
proof -
  have "numeric_order a b \<le> 0 \<longleftrightarrow> a \<le> b" for a b by (auto simp: numeric_order_def)
  with numeric.sorted_js_sort [of xs] show ?thesis by simp
qed

lemma count_upto:
  assumes "k \<le> length s" "\<forall>j < k. P (s ! j)"
  shows "k \<le> length (filter P s)"
proof -
  have "filter P (take k s) = take k s" using assms by (auto simp: filter_id_conv in_set_conv_nth)
  then have "length (filter P s) = k + length (filter P (drop k s))"
    using assms(1) by (metis append_take_drop_id filter_append length_append length_take min.absorb2)
  then show ?thesis by simp
qed

lemma count_from:
  assumes "\<forall>j < length s. k \<le> j \<longrightarrow> P (s ! j)"
  shows "length s - k \<le> length (filter P s)"
proof -
  have "filter P (drop k s) = drop k s" using assms by (auto simp: filter_id_conv in_set_conv_nth)
  then have "length (filter P s) = length (filter P (take k s)) + (length s - k)"
    by (metis append_take_drop_id filter_append length_append length_drop)
  then show ?thesis by simp
qed

lemma median_halves:
  assumes "sorted s" "s \<noteq> []"
  shows "length s \<le> 2 * length (filter (\<lambda>x. x \<le> median s) s) \<and> length s \<le> 2 * length (filter (\<lambda>x. median s \<le> x) s)"
proof -
  let ?mid = "length s div 2"
  have mono: "s ! i \<le> s ! j" if "i \<le> j" "j < length s" for i j using assms(1) that by (rule sorted_nth_mono)
  show ?thesis
  proof (cases "even (length s)")
    case True
    then obtain n where n: "length s = 2 * n" by blast
    then have "0 < n" using assms(2) by (cases n) auto
    have m: "median s = (s ! (n - 1) + s ! n) / 2" using assms(2) n by (simp add: median_def Let_def)
    have "s ! (n - 1) \<le> s ! n" using \<open>0 < n\<close> n by (intro mono) auto
    then have "s ! (n - 1) \<le> median s" "median s \<le> s ! n" by (simp_all add: m)
    moreover have "s ! j \<le> s ! (n - 1)" if "j < n" for j using that n by (intro mono) auto
    moreover have "s ! n \<le> s ! j" if "n \<le> j" "j < length s" for j using that by (intro mono) auto
    ultimately have "\<forall>j < n. s ! j \<le> median s" "\<forall>j < length s. n \<le> j \<longrightarrow> median s \<le> s ! j"
      by (meson order_trans)+
    then show ?thesis
      using n count_upto [of n s "\<lambda>x. x \<le> median s"] count_from [of s n "\<lambda>x. median s \<le> x"] by simp
  next
    case False
    then obtain n where n: "length s = 2 * n + 1" by (rule oddE)
    have m: "median s = s ! n" using assms(2) n False by (simp add: median_def Let_def)
    have "\<forall>j < Suc n. s ! j \<le> median s" using n by (auto simp: m intro: mono)
    moreover have "\<forall>j < length s. n \<le> j \<longrightarrow> median s \<le> s ! j" by (auto simp: m intro: mono)
    ultimately show ?thesis
      using n count_upto [of "Suc n" s "\<lambda>x. x \<le> median s"] count_from [of s n "\<lambda>x. median s \<le> x"] by simp
  qed
qed

lemma length_filter_sort: "length (filter P (js_sort cmp xs)) = length (filter P xs)"
  by (metis mset_filter mset_js_sort size_mset)

definition task_rate :: "task_cost \<Rightarrow> rat" where
  "task_rate t = tc_costUsd t / minutes_of (tc_durationMs t)"

text \<open>
  The baseline is the median rate of the finished tasks that were not killed for their velocity and
  whose cost and duration are positive: at least half of their rates lie at or below it and at least half at
  or above it, the sample count is their number, and it is positive exactly when there is such a task.
\<close>

theorem baseline_is_median:
  "let rates = map task_rate (valid_costs v costs); b = fst (computeBaseline costs v); m = vb_medianCostPerMinute b
   in vt_baseline (snd (computeBaseline costs v)) = Some b \<and> vb_sampleCount b = length rates \<and>
      length rates \<le> 2 * length (filter (\<lambda>r. r \<le> m) rates) \<and>
      length rates \<le> 2 * length (filter (\<lambda>r. m \<le> r) rates) \<and>
      (0 < m \<longleftrightarrow> rates \<noteq> [])"
proof -
  let ?rates = "map task_rate (valid_costs v costs)"
  let ?s = "js_sort numeric_order ?rates"
  have b: "fst (computeBaseline costs v) = (if ?rates = [] then \<lparr>vb_medianCostPerMinute = 0, vb_sampleCount = 0\<rparr>
      else \<lparr>vb_medianCostPerMinute = median ?s, vb_sampleCount = length ?rates\<rparr>)"
    by (simp add: computeBaseline_def Let_def task_rate_def [abs_def])
  have kept: "vt_baseline (snd (computeBaseline costs v)) = Some (fst (computeBaseline costs v))"
    by (simp add: computeBaseline_def Let_def)
  have pos: "\<forall>r \<in> set ?s. 0 < r"
    by (auto simp: valid_costs_def task_rate_def minutes_of_def)
  have "0 < median ?s" if "?rates \<noteq> []"
  proof -
    have "?s \<noteq> []" using that by simp
    then have "length ?s \<le> 2 * length (filter (\<lambda>x. x \<le> median ?s) ?s)"
      using median_halves [OF sorted_rates] by blast
    then obtain r where "r \<in> set ?s" "r \<le> median ?s"
      using \<open>?s \<noteq> []\<close> by (metis filter_False length_0_conv list.size(3) mult_0_right le_zero_eq)
    with pos show ?thesis by force
  qed
  moreover have "length ?rates \<le> 2 * length (filter (\<lambda>r. r \<le> median ?s) ?rates) \<and>
      length ?rates \<le> 2 * length (filter (\<lambda>r. median ?s \<le> r) ?rates)" if "?rates \<noteq> []"
    using median_halves [OF sorted_rates, of ?rates] that
    by (simp only: length_filter_sort length_js_sort js_sort_eq_Nil not_False_eq_True)
  ultimately show ?thesis
    unfolding kept b Let_def by (cases "?rates = []") simp_all
qed

section \<open>Killing\<close>

lemma last_tracked:
  assumes "0 \<le> vc_windowMinutes (vt_config v)"
  shows "last_update (tracked now tid cost elapsedMs v) = Some (cost, now)"
  using assms by (simp add: last_update_def tracked_def Let_def)

text \<open>
  The kill decision agrees with the status the dashboard shows. After a cost update whose elapsed time is
  the one the tracker measures, with a window that is not negative and a kill threshold and a median that
  are positive, the task is to be killed exactly when its snapshot is critical, and that is exactly when
  the monitor is enabled, has its samples, and the cost per minute is at least the threshold times the median.
\<close>

theorem kill_agrees_with_snapshot:
  assumes "0 \<le> vc_windowMinutes (vt_config v)" "0 < vc_killMultiplier (vt_config v)"
    "case vt_baseline v of None \<Rightarrow> True | Some b \<Rightarrow> 0 \<le> vb_medianCostPerMinute b"
    "case js_map_get (vt_active v) tid of None \<Rightarrow> True | Some t \<Rightarrow> at_startTime t = now - elapsedMs"
  shows "case recordCostUpdate now tid cost elapsedMs v of (snapshot, v') \<Rightarrow>
     (fst (shouldKill now tid v') \<longleftrightarrow> vs_status snapshot = VelocityCritical) \<and>
     (fst (shouldKill now tid v') \<longleftrightarrow> isEnforcing v \<and> 0 < elapsedMs \<and>
        (case vt_baseline v of None \<Rightarrow> False
         | Some b \<Rightarrow> cost / minutes_of elapsedMs \<ge> vc_killMultiplier (vt_config v) * vb_medianCostPerMinute b))"
proof -
  let ?t = "tracked now tid cost elapsedMs v"
  let ?v = "v\<lparr>vt_active := js_map_set tid ?t (vt_active v)\<rparr>"
  have start: "now - at_startTime ?t = elapsedMs"
    using assms(4) by (auto simp: tracked_def Let_def split: option.splits)
  have enforcing: "isEnforcing ?v = isEnforcing v" by (simp add: isEnforcing_def split: option.split)
  have pos: "0 < minutes_of elapsedMs \<longleftrightarrow> 0 < elapsedMs" by (simp add: minutes_of_def)
  have kill: "fst (shouldKill now tid ?v) \<longleftrightarrow> isEnforcing v \<and> 0 < elapsedMs \<and>
      (case vt_baseline v of None \<Rightarrow> False
       | Some b \<Rightarrow> cost / minutes_of elapsedMs / vb_medianCostPerMinute b \<ge> vc_killMultiplier (vt_config v))"
    using assms(3) last_tracked [OF assms(1), of now tid cost elapsedMs]
    by (auto simp: shouldKill_def isEnforcing_def js_map.get_put start pos [symmetric] not_le Let_def
        split: option.splits)
  have critical: "vs_status (computeSnapshot ?v tid cost elapsedMs) = VelocityCritical \<longleftrightarrow>
      isEnforcing v \<and> 0 < elapsedMs \<and>
      (case vt_baseline v of None \<Rightarrow> False
       | Some b \<Rightarrow> cost / minutes_of elapsedMs / vb_medianCostPerMinute b \<ge> vc_killMultiplier (vt_config v))"
    using assms(2) by (auto simp: computeSnapshot_def Let_def enforcing pos isEnforcing_def split: option.splits if_splits)
  show ?thesis
    using kill critical
    by (auto simp: recordCostUpdate_def Let_def isEnforcing_def pos_le_divide_eq
        simp del: divide_divide_eq_left split: option.splits)
qed

definition sample_tracker :: velocity_tracker where
  "sample_tracker = \<lparr>vt_config = \<lparr>vc_enabled = True, vc_windowMinutes = 10, vc_warnMultiplier = 2,
       vc_killMultiplier = 3, vc_minSamplesForBaseline = 1\<rparr>,
     vt_active = [], vt_baseline = Some \<lparr>vb_medianCostPerMinute = 1, vb_sampleCount = 4\<rparr>, vt_excluded = []\<rparr>"

lemma kill_agrees_with_snapshot_witness:
  "fst (shouldKill 120000 ''TASK-1'' (snd (recordCostUpdate 120000 ''TASK-1'' 6 120000 sample_tracker)))"
  using kill_agrees_with_snapshot [where v = sample_tracker and tid = "''TASK-1''" and now = 120000 and elapsedMs = 120000 and cost = 6]
  by (auto simp: sample_tracker_def isEnforcing_def minutes_of_def js_map_get_def split: prod.splits)

end
