(* ===== verification/Fleet_Controller.thy ===== *)
theory Fleet_Controller
  imports Harness_Prelude
begin

text \<open>
  The fleet's pause, resume and emergency stop (\<open>src/dispatcher/fleet-controller.ts\<close>). The methods are
  asynchronous: a request changes the state at once and appends its transition to
  \<open>transitionTail\<close>; the transitions run one after the other, each suspended at its \<open>await\<close>s, while
  further requests may arrive. The dispatch manager, the preparation worker and its scheduler are the
  environment: what they answer is the argument \<open>fleet_env\<close> of the step that asks, and what is asked
  of them is recorded in \<open>fl_calls\<close>. The text of an error value is what \<open>fleet_env\<close> says.
\<close>

section \<open>State\<close>

datatype fleet_state = FleetRunning | FleetPaused | FleetStopped

record emergency_result =
  er_killedTasks :: "string list"
  er_killedPids :: "int list"
  er_prepStopped :: bool
  er_prepKilledTasks :: "string list"
  er_prepTimedOutTasks :: "string list"
  er_errors :: "string list"

text \<open>A transition in the tail and how far it has run.\<close>

datatype transition =
    ResumeQueued nat
  | ResumeStarting nat \<comment> \<open>awaiting \<open>prepScheduler.start\<close>\<close>
  | StopQueued nat emergency_result
  | StopAwaitsDispatch nat emergency_result "int list" \<comment> \<open>and the process ids of the active jobs\<close>
  | StopAwaitsPrep nat emergency_result

datatype fleet_call =
    DispatchReopened | PrepReopened | SchedulerStarted | SchedulerStopped | DispatchShutdown | PrepShutdown

datatype settled = ResumeDone | ResumeFailed string | StopDone emergency_result

record fleet =
  fl_state :: fleet_state
  fl_reason :: "string option"
  fl_restartPrep :: bool
  fl_revision :: nat
  fl_tail :: "transition list"
  fl_settled :: "(nat \<times> settled) list"
  fl_calls :: "fleet_call list"
  fl_hasScheduler :: bool
  fl_hasWorker :: bool

definition new_fleet :: "bool \<Rightarrow> bool \<Rightarrow> fleet" where
  "new_fleet scheduler worker =
     \<lparr>fl_state = FleetRunning, fl_reason = None, fl_restartPrep = False, fl_revision = 0, fl_tail = [],
      fl_settled = [], fl_calls = [], fl_hasScheduler = scheduler, fl_hasWorker = worker\<rparr>"

datatype shutdown = ShutDown "string list" "string list" \<comment> \<open>requested, timed out\<close> | ShutdownThrew string

record fleet_env =
  fe_schedulerRunning :: bool
  fe_schedulerStop :: "string option"
  fe_schedulerStart :: "string option"
  fe_dispatchReady :: bool
  fe_prepReady :: bool
  fe_dispatchReopens :: bool
  fe_prepReopens :: bool
  fe_activePids :: "int list"
  fe_dispatchShutdown :: shutdown
  fe_prepShutdown :: shutdown
  fe_prune :: "string option"

section \<open>Requests\<close>

definition fleet_canDispatch :: "fleet \<Rightarrow> string option" where
  "fleet_canDispatch f = (case fl_state f of
       FleetPaused \<Rightarrow> Some ''Fleet is paused''
     | FleetStopped \<Rightarrow> Some ''Fleet is in emergency stop mode''
     | FleetRunning \<Rightarrow> None)"

text \<open>\<open>None\<close> is the exception.\<close>

definition fleet_pause :: "string \<Rightarrow> fleet \<Rightarrow> fleet option" where
  "fleet_pause reason f =
     (if fl_state f = FleetStopped then None
      else Some (f\<lparr>fl_revision := Suc (fl_revision f), fl_state := FleetPaused, fl_reason := Some reason\<rparr>))"

definition fleet_resume :: "fleet \<Rightarrow> fleet" where
  "fleet_resume f =
     (let revision = Suc (fl_revision f) in
      f\<lparr>fl_revision := revision, fl_tail := fl_tail f @ [ResumeQueued revision]\<rparr>)"

definition empty_result :: emergency_result where
  "empty_result = \<lparr>er_killedTasks = [], er_killedPids = [], er_prepStopped = False,
     er_prepKilledTasks = [], er_prepTimedOutTasks = [], er_errors = []\<rparr>"

definition push_error :: "string \<Rightarrow> emergency_result \<Rightarrow> emergency_result" where
  "push_error e r = r\<lparr>er_errors := er_errors r @ [e]\<rparr>"

text \<open>The part of \<open>emergencyStop\<close> that runs at the call.\<close>

definition fleet_stop :: "fleet_env \<Rightarrow> string \<Rightarrow> fleet \<Rightarrow> fleet" where
  "fleet_stop env reason f =
     (let revision = Suc (fl_revision f);
          running = (fl_hasScheduler f \<and> fe_schedulerRunning env);
          result = (if \<not> running then empty_result
                    else case fe_schedulerStop env of
                      None \<Rightarrow> empty_result\<lparr>er_prepStopped := True\<rparr>
                    | Some msg \<Rightarrow> push_error (''Failed to stop prep scheduler: '' @ msg) empty_result)
      in f\<lparr>fl_revision := revision,
           fl_restartPrep := (if fl_state f \<noteq> FleetStopped then running else fl_restartPrep f),
           fl_state := FleetStopped, fl_reason := Some reason,
           fl_calls := fl_calls f @ (if running then [SchedulerStopped] else []),
           fl_tail := fl_tail f @ [StopQueued revision result]\<rparr>)"

section \<open>The transitions of the tail\<close>

definition settle :: "nat \<Rightarrow> settled \<Rightarrow> fleet \<Rightarrow> fleet" where
  "settle revision outcome f = f\<lparr>fl_tail := tl (fl_tail f), fl_settled := fl_settled f @ [(revision, outcome)]\<rparr>"

definition suspend :: "transition \<Rightarrow> fleet \<Rightarrow> fleet" where
  "suspend t f = f\<lparr>fl_tail := t # tl (fl_tail f)\<rparr>"

definition note_calls :: "fleet_call list \<Rightarrow> fleet \<Rightarrow> fleet" where
  "note_calls cs f = f\<lparr>fl_calls := fl_calls f @ cs\<rparr>"

abbreviation still_stopping :: string where
  "still_stopping \<equiv> ''Fleet cannot resume while agent resources are still shutting down''"

abbreviation superseded :: string where
  "superseded \<equiv> ''Fleet resume was superseded by a newer control transition''"

definition publish_running :: "nat \<Rightarrow> fleet \<Rightarrow> fleet" where
  "publish_running revision f =
     (if revision \<noteq> fl_revision f then settle revision (ResumeFailed superseded) f
      else settle revision ResumeDone (f\<lparr>fl_state := FleetRunning, fl_reason := None\<rparr>))"

text \<open>After the scheduler's start, or where there is none to start.\<close>

definition after_restart :: "nat \<Rightarrow> fleet \<Rightarrow> fleet" where
  "after_restart revision f =
     (if revision \<noteq> fl_revision f
      then settle revision (ResumeFailed ''Fleet resume was superseded by an emergency stop'')
             (note_calls (if fl_hasScheduler f then [SchedulerStopped] else []) f)
      else publish_running revision (f\<lparr>fl_restartPrep := False\<rparr>))"

text \<open>\<open>resumeAfterShutdown\<close> of the worker is asked only when the dispatch manager has reopened.\<close>

definition run_resume :: "fleet_env \<Rightarrow> nat \<Rightarrow> fleet \<Rightarrow> fleet" where
  "run_resume env revision f =
     (if revision \<noteq> fl_revision f then settle revision (ResumeFailed superseded) f
      else if fl_state f \<noteq> FleetStopped then publish_running revision f
      else if \<not> fe_dispatchReady env \<or> (fl_hasWorker f \<and> \<not> fe_prepReady env)
      then settle revision (ResumeFailed still_stopping) f
      else let reopened = (if fe_dispatchReopens env
                 then DispatchReopened # (if fl_hasWorker f \<and> fe_prepReopens env then [PrepReopened] else [])
                 else []);
               f1 = note_calls reopened f
        in if \<not> fe_dispatchReopens env \<or> (fl_hasWorker f \<and> \<not> fe_prepReopens env)
           then settle revision (ResumeFailed still_stopping) f1
           else if fl_restartPrep f \<and> fl_hasScheduler f
           then suspend (ResumeStarting revision) (note_calls [SchedulerStarted] f1)
           else after_restart revision f1)"

definition scheduler_started :: "fleet_env \<Rightarrow> nat \<Rightarrow> fleet \<Rightarrow> fleet" where
  "scheduler_started env revision f = (case fe_schedulerStart env of
       Some msg \<Rightarrow> settle revision (ResumeFailed msg) (note_calls [SchedulerStopped] f)
     | None \<Rightarrow> after_restart revision f)"

text \<open>Both shutdowns are started before either is awaited.\<close>

definition run_stop :: "fleet_env \<Rightarrow> nat \<Rightarrow> emergency_result \<Rightarrow> fleet \<Rightarrow> fleet" where
  "run_stop env revision r f =
     suspend (StopAwaitsDispatch revision r (fe_activePids env))
       (note_calls ((if fl_hasWorker f then [PrepShutdown] else []) @ [DispatchShutdown]) f)"

definition LATE_STOP :: string where
  "LATE_STOP = ''Emergency stop was followed by a newer fleet control transition''"

definition finish_stop :: "fleet_env \<Rightarrow> nat \<Rightarrow> emergency_result \<Rightarrow> fleet \<Rightarrow> fleet" where
  "finish_stop env revision r f =
     (let r1 = (case fe_prune env of None \<Rightarrow> r | Some msg \<Rightarrow> push_error (''Failed to prune worktrees: '' @ msg) r);
          r2 = (if revision \<noteq> fl_revision f \<and> fl_state f \<noteq> FleetStopped then push_error LATE_STOP r1 else r1)
      in settle revision (StopDone r2) f)"

definition dispatch_shut_down :: "fleet_env \<Rightarrow> nat \<Rightarrow> emergency_result \<Rightarrow> int list \<Rightarrow> fleet \<Rightarrow> fleet" where
  "dispatch_shut_down env revision r pids f =
     (let r1 = (case fe_dispatchShutdown env of
            ShutdownThrew msg \<Rightarrow> push_error (''Failed to stop dispatch resources: '' @ msg) r
          | ShutDown requested timedOut \<Rightarrow>
              (let r0 = r\<lparr>er_killedTasks := requested, er_killedPids := filter (\<lambda>pid. pid > 0) pids\<rparr> in
               if timedOut = [] then r0
               else push_error (''Timed out stopping dispatch resources for: '' @ js_join '', '' timedOut) r0))
      in if fl_hasWorker f then suspend (StopAwaitsPrep revision r1) f
         else finish_stop env revision r1 f)"

definition prep_shut_down :: "fleet_env \<Rightarrow> nat \<Rightarrow> emergency_result \<Rightarrow> fleet \<Rightarrow> fleet" where
  "prep_shut_down env revision r f =
     finish_stop env revision
       (case fe_prepShutdown env of
          ShutdownThrew msg \<Rightarrow> push_error (''Failed to stop prep resources: '' @ msg) r
        | ShutDown requested timedOut \<Rightarrow>
            (let r0 = r\<lparr>er_prepKilledTasks := requested, er_prepTimedOutTasks := timedOut,
                        er_prepStopped := (requested \<noteq> [] \<or> er_prepStopped r)\<rparr>
             in if timedOut = [] then r0
                else push_error (''Timed out stopping prep resources for: '' @ js_join '', '' timedOut) r0)) f"

text \<open>The transition at the head of the tail runs to its next \<open>await\<close> or to its end.\<close>

definition advance :: "fleet_env \<Rightarrow> fleet \<Rightarrow> fleet" where
  "advance env f = (case fl_tail f of
       [] \<Rightarrow> f
     | ResumeQueued revision # _ \<Rightarrow> run_resume env revision f
     | ResumeStarting revision # _ \<Rightarrow> scheduler_started env revision f
     | StopQueued revision r # _ \<Rightarrow> run_stop env revision r f
     | StopAwaitsDispatch revision r pids # _ \<Rightarrow> dispatch_shut_down env revision r pids f
     | StopAwaitsPrep revision r # _ \<Rightarrow> prep_shut_down env revision r f)"

datatype fleet_action = PauseFleet string | ResumeFleet | StopFleet string | AdvanceTail

definition fleet_step :: "fleet_action \<times> fleet_env \<Rightarrow> fleet \<Rightarrow> fleet" where
  "fleet_step l f = (case l of
       (PauseFleet reason, _) \<Rightarrow> (case fleet_pause reason f of None \<Rightarrow> f | Some f' \<Rightarrow> f')
     | (ResumeFleet, _) \<Rightarrow> fleet_resume f
     | (StopFleet reason, env) \<Rightarrow> fleet_stop env reason f
     | (AdvanceTail, env) \<Rightarrow> advance env f)"

section \<open>Invariants\<close>

fun transition_revision :: "transition \<Rightarrow> nat" where
  "transition_revision (ResumeQueued n) = n"
| "transition_revision (ResumeStarting n) = n"
| "transition_revision (StopQueued n _) = n"
| "transition_revision (StopAwaitsDispatch n _ _) = n"
| "transition_revision (StopAwaitsPrep n _) = n"

fun is_resume :: "transition \<Rightarrow> bool" where
  "is_resume (ResumeQueued _) = True"
| "is_resume (ResumeStarting _) = True"
| "is_resume _ = False"

text \<open>A transition that only exists while the fleet is stopped.\<close>

fun needs_stopped :: "transition \<Rightarrow> bool" where
  "needs_stopped (ResumeQueued _) = False"
| "needs_stopped _ = True"

fun no_late_error :: "transition \<Rightarrow> bool" where
  "no_late_error (StopQueued _ r) = (LATE_STOP \<notin> set (er_errors r))"
| "no_late_error (StopAwaitsDispatch _ r _) = (LATE_STOP \<notin> set (er_errors r))"
| "no_late_error (StopAwaitsPrep _ r) = (LATE_STOP \<notin> set (er_errors r))"
| "no_late_error _ = True"

fun not_late :: "settled \<Rightarrow> bool" where
  "not_late (StopDone r) = (LATE_STOP \<notin> set (er_errors r))"
| "not_late _ = True"

text \<open>What the dispatch manager, and the preparation worker, were last told.\<close>

definition last_told :: "fleet_call \<Rightarrow> fleet_call \<Rightarrow> fleet_call list \<Rightarrow> bool" where
  "last_told reopened shut cs =
     (case filter (\<lambda>c. c = reopened \<or> c = shut) (rev cs) of [] \<Rightarrow> True | c # _ \<Rightarrow> c = reopened)"

definition both_open :: "fleet \<Rightarrow> bool" where
  "both_open f \<longleftrightarrow> last_told DispatchReopened DispatchShutdown (fl_calls f) \<and>
     (fl_hasWorker f \<longrightarrow> last_told PrepReopened PrepShutdown (fl_calls f))"

definition starting_first :: "transition list \<Rightarrow> bool" where
  "starting_first ts \<longleftrightarrow> (\<forall>t \<in> set (tl ts). case t of ResumeStarting _ \<Rightarrow> False | _ \<Rightarrow> True)"

definition fleet_inv :: "fleet \<Rightarrow> bool" where
  "fleet_inv f \<longleftrightarrow>
     sorted_wrt (<) (map transition_revision (fl_tail f)) \<and>
     (\<forall>t \<in> set (fl_tail f). transition_revision t \<le> fl_revision f \<and> no_late_error t \<and>
        (needs_stopped t \<longrightarrow> fl_state f = FleetStopped)) \<and>
     starting_first (fl_tail f) \<and>
     (\<forall>(n, s) \<in> set (fl_settled f). not_late s) \<and>
     (fl_state f \<noteq> FleetStopped \<longrightarrow> both_open f) \<and>
     (case fl_tail f of ResumeStarting _ # _ \<Rightarrow> both_open f | _ \<Rightarrow> True)"

lemma last_told_append:
  "last_told a b (cs @ ds) =
     (if \<exists>c \<in> set ds. c = a \<or> c = b then last_told a b ds else last_told a b cs)"
  unfolding last_told_def
  by (cases "filter (\<lambda>c. c = a \<or> c = b) (rev ds)") (auto simp: filter_empty_conv dest: arg_cong [where f = set])

lemma last_told_Nil [simp]: "last_told a b []"
  by (simp add: last_told_def)

lemma fleet_inv_new: "fleet_inv (new_fleet s w)"
  by (simp add: fleet_inv_def new_fleet_def starting_first_def both_open_def)

lemma fleet_inv_pause: "fleet_inv f \<Longrightarrow> fleet_pause reason f = Some f' \<Longrightarrow> fleet_inv f'"
  by (auto simp: fleet_inv_def fleet_pause_def both_open_def le_SucI split: if_splits list.split_asm
      transition.split_asm list.split transition.split)

lemma fleet_inv_resume: "fleet_inv f \<Longrightarrow> fleet_inv (fleet_resume f)"
  by (auto simp: fleet_inv_def fleet_resume_def Let_def sorted_wrt_append starting_first_def both_open_def
      split: list.splits transition.splits)

lemma fleet_inv_stop: "fleet_inv f \<Longrightarrow> fleet_inv (fleet_stop env reason f)"
proof -
  assume inv: "fleet_inv f"
  let ?f = "fleet_stop env reason f"
  obtain r where tail: "fl_tail ?f = fl_tail f @ [StopQueued (Suc (fl_revision f)) r]" "LATE_STOP \<notin> set (er_errors r)"
    by (auto simp: fleet_stop_def Let_def empty_result_def push_error_def LATE_STOP_def split: option.splits)
  have told: "last_told a b (fl_calls ?f) = last_told a b (fl_calls f)" if "SchedulerStopped \<notin> {a, b}" for a b
    using that by (auto simp: fleet_stop_def Let_def last_told_append)
  have "both_open ?f = both_open f"
    by (simp add: both_open_def told) (simp add: fleet_stop_def Let_def)
  with inv tail show ?thesis
    by (auto simp: fleet_inv_def fleet_stop_def Let_def sorted_wrt_append starting_first_def
        split: list.splits transition.splits if_splits)
qed

lemmas fleet_moves = settle_def suspend_def note_calls_def

lemma fleet_inv_settle:
  assumes "fleet_inv f" "fl_tail f = t # ts" "not_late s"
  shows "fleet_inv (settle n s f)"
  using assms
  by (auto simp: fleet_inv_def settle_def starting_first_def both_open_def split: list.splits transition.splits)

lemma fleet_inv_suspend:
  assumes "fleet_inv f" "fl_tail f = t # ts" "transition_revision t' = transition_revision t" "no_late_error t'"
    "fl_state f = FleetStopped" "\<not> is_resume t'"
  shows "fleet_inv (suspend t' f)"
  using assms
  by (cases t') (auto simp: fleet_inv_def suspend_def starting_first_def both_open_def)

text \<open>Calls that are not of the two managers, and calls while the fleet is stopped.\<close>

lemma fleet_inv_calls:
  assumes "fleet_inv f"
    "(case fl_tail f of ResumeStarting _ # _ \<Rightarrow> False | _ \<Rightarrow> fl_state f = FleetStopped) \<or>
     set cs \<subseteq> {SchedulerStarted, SchedulerStopped}"
  shows "fleet_inv (note_calls cs f)"
proof -
  have "both_open (note_calls cs f) = both_open f" if "set cs \<subseteq> {SchedulerStarted, SchedulerStopped}"
    using that by (auto simp: both_open_def note_calls_def last_told_append)
  with assms show ?thesis
    by (auto simp: fleet_inv_def note_calls_def split: list.splits transition.splits)
qed

lemma fleet_inv_publish:
  assumes "fleet_inv f" "fl_tail f = t # ts" "transition_revision t = n" "both_open f" "is_resume t"
  shows "fleet_inv (publish_running n f)"
proof (cases "n = fl_revision f")
  case True
  have "ts = []"
  proof (rule ccontr)
    assume "ts \<noteq> []"
    then obtain u us where "ts = u # us" by (cases ts) auto
    with assms True show False by (auto simp: fleet_inv_def)
  qed
  with assms True show ?thesis
    by (auto simp: publish_running_def settle_def fleet_inv_def starting_first_def both_open_def)
next
  case False
  with assms show ?thesis by (simp add: publish_running_def fleet_inv_settle)
qed

lemma fleet_inv_after_restart:
  assumes "fleet_inv f" "fl_tail f = t # ts" "transition_revision t = n" "both_open f" "is_resume t"
  shows "fleet_inv (after_restart n f)"
proof (cases "n = fl_revision f")
  case True
  have "fleet_inv (f\<lparr>fl_restartPrep := False\<rparr>)"
    using assms(1) by (auto simp: fleet_inv_def both_open_def split: list.splits transition.splits)
  moreover have "both_open (f\<lparr>fl_restartPrep := False\<rparr>)" using assms(4) by (simp add: both_open_def)
  ultimately show ?thesis using True assms fleet_inv_publish [of "f\<lparr>fl_restartPrep := False\<rparr>" t ts n]
    by (simp add: after_restart_def)
next
  case False
  have "fleet_inv (note_calls (if fl_hasScheduler f then [SchedulerStopped] else []) f)"
    using assms(1) by (intro fleet_inv_calls) auto
  then show ?thesis
    using False assms(2) by (auto simp: after_restart_def note_calls_def intro!: fleet_inv_settle)
qed

lemma fleet_inv_run_resume:
  assumes inv: "fleet_inv f" and tail: "fl_tail f = ResumeQueued n # ts"
  shows "fleet_inv (run_resume env n f)"
proof (cases "n = fl_revision f \<and> fl_state f = FleetStopped \<and> fe_dispatchReady env \<and> (fl_hasWorker f \<longrightarrow> fe_prepReady env)")
  case False
  have "both_open f" if "fl_state f \<noteq> FleetStopped" using inv that by (simp add: fleet_inv_def)
  with False inv tail show ?thesis
    by (auto simp: run_resume_def intro!: fleet_inv_publish fleet_inv_settle)
next
  case True
  define cs where "cs = (if fe_dispatchReopens env
       then DispatchReopened # (if fl_hasWorker f \<and> fe_prepReopens env then [PrepReopened] else []) else [])"
  have inv1: "fleet_inv (note_calls cs f)" using inv tail True by (intro fleet_inv_calls) auto
  have tail1: "fl_tail (note_calls cs f) = ResumeQueued n # ts" using tail by (simp add: note_calls_def)
  show ?thesis
  proof (cases "fe_dispatchReopens env \<and> (fl_hasWorker f \<longrightarrow> fe_prepReopens env)")
    case closed: False
    then have "run_resume env n f = settle n (ResumeFailed still_stopping) (note_calls cs f)"
      using True by (auto simp: run_resume_def cs_def Let_def)
    with inv1 tail1 show ?thesis by (simp add: fleet_inv_settle)
  next
    case opened: True
    have open1: "both_open (note_calls cs f)"
      using opened by (auto simp: both_open_def note_calls_def cs_def last_told_append) (simp_all add: last_told_def)
    show ?thesis
    proof (cases "fl_restartPrep f \<and> fl_hasScheduler f")
      case restart: True
      then have "run_resume env n f = suspend (ResumeStarting n) (note_calls [SchedulerStarted] (note_calls cs f))"
        using True opened by (auto simp: run_resume_def cs_def Let_def)
      moreover have "fleet_inv (suspend (ResumeStarting n) (note_calls [SchedulerStarted] (note_calls cs f)))"
        using inv1 tail1 open1 True
        by (auto simp: fleet_inv_def fleet_moves starting_first_def both_open_def last_told_append)
      ultimately show ?thesis by simp
    next
      case no_restart: False
      then have "run_resume env n f = after_restart n (note_calls cs f)"
        using True opened by (auto simp: run_resume_def cs_def Let_def)
      with inv1 tail1 open1 show ?thesis by (simp add: fleet_inv_after_restart)
    qed
  qed
qed

lemma fleet_inv_scheduler_started:
  assumes inv: "fleet_inv f" and tail: "fl_tail f = ResumeStarting n # ts"
  shows "fleet_inv (scheduler_started env n f)"
proof -
  have "both_open f" using inv tail by (simp add: fleet_inv_def)
  moreover have "fleet_inv (note_calls [SchedulerStopped] f)" using inv by (intro fleet_inv_calls) auto
  moreover have "fl_tail (note_calls [SchedulerStopped] f) = ResumeStarting n # ts" using tail by (simp add: note_calls_def)
  ultimately show ?thesis
    using inv tail
    by (auto simp: scheduler_started_def intro: fleet_inv_settle fleet_inv_after_restart split: option.splits)
qed

lemma fleet_inv_finish_stop:
  assumes "fleet_inv f" "fl_tail f = t # ts" "fl_state f = FleetStopped" "LATE_STOP \<notin> set (er_errors r)"
  shows "fleet_inv (finish_stop env n r f)"
proof -
  have "finish_stop env n r f = settle n (StopDone (case fe_prune env of None \<Rightarrow> r
      | Some msg \<Rightarrow> push_error (''Failed to prune worktrees: '' @ msg) r)) f"
    using assms(3) by (simp add: finish_stop_def Let_def)
  moreover have "not_late (StopDone (case fe_prune env of None \<Rightarrow> r
      | Some msg \<Rightarrow> push_error (''Failed to prune worktrees: '' @ msg) r))"
    using assms(4) by (simp add: push_error_def LATE_STOP_def split: option.split)
  ultimately show ?thesis using assms by (simp add: fleet_inv_settle)
qed

lemma fleet_inv_run_stop:
  assumes inv: "fleet_inv f" and tail: "fl_tail f = StopQueued n r # ts"
  shows "fleet_inv (run_stop env n r f)"
proof -
  let ?cs = "(if fl_hasWorker f then [PrepShutdown] else []) @ [DispatchShutdown]"
  have s: "fl_state f = FleetStopped" "LATE_STOP \<notin> set (er_errors r)" using inv tail by (auto simp: fleet_inv_def)
  have "fleet_inv (note_calls ?cs f)" using inv tail s(1) by (intro fleet_inv_calls) auto
  then show ?thesis unfolding run_stop_def
    using tail s by (intro fleet_inv_suspend) (auto simp: note_calls_def)
qed

lemma fleet_inv_dispatch_shut_down:
  assumes inv: "fleet_inv f" and tail: "fl_tail f = StopAwaitsDispatch n r pids # ts"
  shows "fleet_inv (dispatch_shut_down env n r pids f)"
proof -
  have s: "fl_state f = FleetStopped" "LATE_STOP \<notin> set (er_errors r)" using inv tail by (auto simp: fleet_inv_def)
  define r1 where "r1 = (case fe_dispatchShutdown env of
            ShutdownThrew msg \<Rightarrow> push_error (''Failed to stop dispatch resources: '' @ msg) r
          | ShutDown requested timedOut \<Rightarrow>
              (let r0 = r\<lparr>er_killedTasks := requested, er_killedPids := filter (\<lambda>pid. pid > 0) pids\<rparr> in
               if timedOut = [] then r0
               else push_error (''Timed out stopping dispatch resources for: '' @ js_join '', '' timedOut) r0))"
  have late: "LATE_STOP \<notin> set (er_errors r1)"
    using s(2) by (simp add: r1_def push_error_def LATE_STOP_def Let_def split: shutdown.split)
  have "dispatch_shut_down env n r pids f =
      (if fl_hasWorker f then suspend (StopAwaitsPrep n r1) f else finish_stop env n r1 f)"
    by (simp add: dispatch_shut_down_def r1_def Let_def)
  with inv tail s late show ?thesis
    by (auto intro: fleet_inv_suspend fleet_inv_finish_stop)
qed

lemma fleet_inv_prep_shut_down:
  assumes inv: "fleet_inv f" and tail: "fl_tail f = StopAwaitsPrep n r # ts"
  shows "fleet_inv (prep_shut_down env n r f)"
proof -
  have s: "fl_state f = FleetStopped" "LATE_STOP \<notin> set (er_errors r)" using inv tail by (auto simp: fleet_inv_def)
  then show ?thesis unfolding prep_shut_down_def
    using inv tail by (intro fleet_inv_finish_stop) (auto simp: push_error_def LATE_STOP_def Let_def split: shutdown.split)
qed

lemma fleet_inv_advance: "fleet_inv f \<Longrightarrow> fleet_inv (advance env f)"
  by (auto simp: advance_def intro: fleet_inv_run_resume fleet_inv_scheduler_started fleet_inv_run_stop
      fleet_inv_dispatch_shut_down fleet_inv_prep_shut_down split: list.split transition.split)

lemma fleet_inv_step: "fleet_inv f \<Longrightarrow> fleet_inv (fleet_step l f)"
  by (auto simp: fleet_step_def intro: fleet_inv_pause fleet_inv_resume fleet_inv_stop fleet_inv_advance
      split: prod.split fleet_action.split option.split)

interpretation fleet_machine: invariant_machine fleet_step "\<lambda>l f. True" fleet_inv
  by unfold_locales (rule fleet_inv_step)

lemma fleet_inv_run: "fleet_inv f \<Longrightarrow> fleet_inv (run_steps fleet_step ls f)"
  by (rule fleet_machine.run_inv) (simp_all add: steps_ok_True)

section \<open>Properties\<close>

definition fleet_run :: "bool \<Rightarrow> bool \<Rightarrow> (fleet_action \<times> fleet_env) list \<Rightarrow> fleet" where
  "fleet_run scheduler worker ls = run_steps fleet_step ls (new_fleet scheduler worker)"

lemma fleet_run_inv: "fleet_inv (fleet_run s w ls)"
  unfolding fleet_run_def by (rule fleet_inv_run) (rule fleet_inv_new)

text \<open>
  While the fleet takes dispatches, the managers are open: at any moment of any run, either the fleet
  is in emergency stop, or the dispatch manager (and the preparation worker, where there is one) was
  never told to shut down or has been reopened since.
\<close>

theorem dispatch_implies_open:
  "let f = fleet_run scheduler worker ls in
   fl_state f = FleetStopped \<or>
   (last_told DispatchReopened DispatchShutdown (fl_calls f) \<and>
    (if fl_hasWorker f then last_told PrepReopened PrepShutdown (fl_calls f) else True))"
  using fleet_run_inv [of scheduler worker ls] by (auto simp: fleet_inv_def both_open_def Let_def)

text \<open>The error of a stop overtaken by a later transition is never reported.\<close>

lemma no_stop_is_late: "(n, s) \<in> set (fl_settled (fleet_run scheduler worker ls)) \<Longrightarrow> not_late s"
  using fleet_run_inv [of scheduler worker ls] by (auto simp: fleet_inv_def)

subsection \<open>The emergency stop holds\<close>

definition resumes_done :: "fleet \<Rightarrow> (nat \<times> settled) list" where
  "resumes_done f = filter (\<lambda>(n, s). s = ResumeDone) (fl_settled f)"

definition stopped_since :: "nat \<Rightarrow> (nat \<times> settled) list \<Rightarrow> fleet \<Rightarrow> bool" where
  "stopped_since n done f \<longleftrightarrow> fl_state f = FleetStopped \<and> n \<le> fl_revision f \<and>
     (\<forall>t \<in> set (fl_tail f). is_resume t \<longrightarrow> transition_revision t < n) \<and> resumes_done f = done"

lemma stopped_since_settle:
  "stopped_since n done f \<Longrightarrow> s \<noteq> ResumeDone \<Longrightarrow> stopped_since n done (settle m s f)"
  by (auto simp: stopped_since_def settle_def resumes_done_def dest: list.set_sel(2) [rotated])
    (metis list.sel(2) list.set_sel(2))

lemma stopped_since_calls [simp]: "stopped_since n done (note_calls cs f) = stopped_since n done f"
  by (simp add: stopped_since_def note_calls_def resumes_done_def)

lemma stopped_since_suspend:
  "stopped_since n done f \<Longrightarrow> \<not> is_resume t \<Longrightarrow> stopped_since n done (suspend t f)"
  by (auto simp: stopped_since_def suspend_def resumes_done_def) (metis list.sel(2) list.set_sel(2))

lemma stopped_since_finish: "stopped_since n done f \<Longrightarrow> stopped_since n done (finish_stop env m r f)"
  by (simp add: finish_stop_def Let_def stopped_since_settle)

lemma stopped_since_advance:
  assumes held: "stopped_since n done f"
  shows "stopped_since n done (advance env f)"
proof (cases "fl_tail f")
  case (Cons t ts)
  have old: "m \<noteq> fl_revision f" if "is_resume t" "transition_revision t = m" for m
    using held that Cons by (auto simp: stopped_since_def)
  show ?thesis
  proof (cases t)
    case (ResumeQueued m)
    with held old Cons show ?thesis by (simp add: advance_def run_resume_def stopped_since_settle)
  next
    case (ResumeStarting m)
    with held old Cons show ?thesis
      by (simp add: advance_def scheduler_started_def after_restart_def stopped_since_settle split: option.split)
  next
    case (StopQueued m r)
    with held Cons show ?thesis by (simp add: advance_def run_stop_def stopped_since_suspend)
  next
    case (StopAwaitsDispatch m r pids)
    with held Cons show ?thesis
      by (simp add: advance_def dispatch_shut_down_def Let_def stopped_since_suspend stopped_since_finish)
  next
    case (StopAwaitsPrep m r)
    with held Cons show ?thesis by (simp add: advance_def prep_shut_down_def stopped_since_finish)
  qed
qed (use held in \<open>simp add: advance_def\<close>)

lemma stopped_since_step:
  "stopped_since n done f \<Longrightarrow> fst l \<noteq> ResumeFleet \<Longrightarrow> stopped_since n done (fleet_step l f)"
  by (cases l; cases "fst l")
    (auto simp: fleet_step_def stopped_since_advance,
     auto simp: stopped_since_def fleet_pause_def fleet_stop_def Let_def resumes_done_def)

interpretation stop_holds: invariant_machine fleet_step "\<lambda>l f. fst l \<noteq> ResumeFleet" "stopped_since n done"
  by unfold_locales (rule stopped_since_step)

lemma stopped_since_request:
  "fleet_inv f \<Longrightarrow> stopped_since (Suc (fl_revision f)) (resumes_done f) (fleet_stop env reason f)"
  by (auto simp: stopped_since_def fleet_stop_def Let_def resumes_done_def fleet_inv_def less_Suc_eq_le)

lemma steps_ok_all: "(\<And>l s. ok l s = P l) \<Longrightarrow> steps_ok step ok ls s = list_all P ls"
  by (induction ls arbitrary: s) auto

text \<open>
  C28: An emergency stop holds. Whatever transitions were under way when it was requested, and whatever is
  requested and answered afterwards, as long as no resume is requested after it: the fleet stays in
  emergency stop, no dispatch is allowed, and no resume requested before it ever completes.
\<close>

theorem emergency_stop_holds:
  "let f = fleet_run scheduler worker before;
       f' = run_steps fleet_step after (fleet_stop env reason f) in
   if list_all (\<lambda>l. fst l \<noteq> ResumeFleet) after
   then fl_state f' = FleetStopped \<and> fleet_canDispatch f' \<noteq> None \<and> resumes_done f' = resumes_done f
   else True"
proof -
  let ?f = "fleet_run scheduler worker before"
  have "stopped_since (Suc (fl_revision ?f)) (resumes_done ?f) (run_steps fleet_step after (fleet_stop env reason ?f))"
    if "list_all (\<lambda>l. fst l \<noteq> ResumeFleet) after"
    using stopped_since_request [OF fleet_run_inv] that
    by (intro stop_holds.run_inv) (simp_all add: steps_ok_all [where P = "\<lambda>l. fst l \<noteq> ResumeFleet"])
  then show ?thesis by (auto simp: stopped_since_def fleet_canDispatch_def Let_def)
qed

subsection \<open>Every request settles\<close>

fun suspensions :: "transition \<Rightarrow> nat" where
  "suspensions (ResumeQueued _) = 2"
| "suspensions (ResumeStarting _) = 1"
| "suspensions (StopQueued _ _) = 3"
| "suspensions (StopAwaitsDispatch _ _ _) = 2"
| "suspensions (StopAwaitsPrep _ _) = 1"

definition progressed :: "fleet \<Rightarrow> fleet \<Rightarrow> bool" where
  "progressed f f' \<longleftrightarrow>
     (fl_tail f' = tl (fl_tail f) \<and>
      map fst (fl_settled f') = map fst (fl_settled f) @ [transition_revision (hd (fl_tail f))]) \<or>
     (\<exists>t. fl_tail f' = t # tl (fl_tail f) \<and> transition_revision t = transition_revision (hd (fl_tail f)) \<and>
      suspensions t < suspensions (hd (fl_tail f)) \<and> fl_settled f' = fl_settled f)"

lemma advance_progress: "fl_tail f \<noteq> [] \<Longrightarrow> progressed f (advance env f)"
  by (cases "fl_tail f"; cases "hd (fl_tail f)")
    (auto simp: progressed_def advance_def run_resume_def scheduler_started_def run_stop_def dispatch_shut_down_def
      prep_shut_down_def finish_stop_def after_restart_def publish_running_def fleet_moves Let_def split: option.split)

lemma advance_idle: "fl_tail f = [] \<Longrightarrow> advance env f = f"
  by (simp add: advance_def)

text \<open>
  C29: Every request settles, exactly once and in the order of the requests: after as many resumptions of
  the tail as its transitions have suspensions (two for a resume, three for a stop), whatever the
  managers answer, the tail is empty and each of its requests has settled, the earlier first.
\<close>

theorem every_request_settles:
  "let f' = run_steps fleet_step (map (Pair AdvanceTail) envs) f in
   if sum_list (map suspensions (fl_tail f)) \<le> length envs
   then fl_tail f' = [] \<and>
     map fst (fl_settled f') = map fst (fl_settled f) @ map transition_revision (fl_tail f)
   else True"
proof -
  have "sum_list (map suspensions (fl_tail f)) \<le> length envs \<Longrightarrow>
     fl_tail (run_steps fleet_step (map (Pair AdvanceTail) envs) f) = [] \<and>
     map fst (fl_settled (run_steps fleet_step (map (Pair AdvanceTail) envs) f)) =
       map fst (fl_settled f) @ map transition_revision (fl_tail f)" for f
  proof (induction envs arbitrary: f)
    case Nil
    have "0 < suspensions t" for t by (cases t) auto
    then have "fl_tail f = []" using Nil by (cases "fl_tail f") (auto dest: gr_implies_not0)
    then show ?case by simp
  next
    case (Cons env envs)
    show ?case
    proof (cases "fl_tail f")
      case Nil
      with Cons.IH [of f] show ?thesis by (simp add: fleet_step_def advance_idle)
    next
      case (Cons t ts)
      have pos: "0 < suspensions t" by (cases t) auto
      have "progressed f (advance env f)" using Cons by (intro advance_progress) simp
      then have "sum_list (map suspensions (fl_tail (advance env f))) \<le> length envs"
        and "map fst (fl_settled (advance env f)) @ map transition_revision (fl_tail (advance env f))
          = map fst (fl_settled f) @ map transition_revision (fl_tail f)"
        using Cons.prems Cons pos by (auto simp: progressed_def)
      with Cons.IH [of "advance env f"] show ?thesis by (simp add: fleet_step_def)
    qed
  qed
  then show ?thesis by (simp add: Let_def)
qed

end
