(* ===== verification/Model_Router.thy ===== *)
theory Model_Router
  imports Harness_Prelude
begin

text \<open>
  The model each pipeline stage uses (\<open>src/dispatcher/model-router.ts\<close>): the routing configuration, the
  legacy fields it falls back to, complexity tags and the escalation of retries.
\<close>

datatype pipeline_stage = GateStage | EnrichStage | PlanStage | WorkerStage | JudgeStage

record model_routing =
  mr_gateModel :: string
  mr_enrichModel :: string
  mr_plannerModel :: string
  mr_workerModel :: string
  mr_workerComplexModel :: string
  mr_judgeModel :: string
  mr_retryEscalation :: bool

record legacy_models =
  lm_model :: string
  lm_judgeModel :: string
  lm_enrichModel :: string

definition COMPLEX_TAGS :: "string list" where
  "COMPLEX_TAGS = [''architecture'', ''refactor'', ''design'', ''migration'']"

definition MODEL_TIERS :: "string list" where
  "MODEL_TIERS = [''claude-haiku-4-5-20251001'', ''claude-sonnet-4-6'', ''claude-opus-4-6'']"

fun next_in :: "string \<Rightarrow> string list \<Rightarrow> string" where
  "next_in m (t # t' # ts) = (if m = t then t' else next_in m (t' # ts))"
| "next_in m _ = m"

definition getNextTierModel :: "string \<Rightarrow> string" where
  "getNextTierModel currentModel = next_in currentModel MODEL_TIERS"

definition legacy_model :: "legacy_models \<Rightarrow> pipeline_stage \<Rightarrow> string" where
  "legacy_model legacy stage = (case stage of
       GateStage \<Rightarrow> lm_model legacy
     | EnrichStage \<Rightarrow> lm_enrichModel legacy
     | PlanStage \<Rightarrow> lm_enrichModel legacy
     | WorkerStage \<Rightarrow> lm_model legacy
     | JudgeStage \<Rightarrow> lm_judgeModel legacy)"

definition routed_model :: "model_routing \<Rightarrow> pipeline_stage \<Rightarrow> string list option \<Rightarrow> string" where
  "routed_model routing stage taskTags = (case stage of
       GateStage \<Rightarrow> mr_gateModel routing
     | EnrichStage \<Rightarrow> mr_enrichModel routing
     | PlanStage \<Rightarrow> mr_plannerModel routing
     | WorkerStage \<Rightarrow>
         if (case taskTags of None \<Rightarrow> False
             | Some tags \<Rightarrow> list_ex (\<lambda>tag. js_to_lower tag \<in> set COMPLEX_TAGS) tags)
         then mr_workerComplexModel routing else mr_workerModel routing
     | JudgeStage \<Rightarrow> mr_judgeModel routing)"

definition resolveModel ::
  "model_routing option \<Rightarrow> legacy_models \<Rightarrow> pipeline_stage \<Rightarrow> string list option \<Rightarrow> int option \<Rightarrow> string" where
  "resolveModel routing legacy stage taskTags retryAttempt = (case routing of
       None \<Rightarrow> legacy_model legacy stage
     | Some r \<Rightarrow>
         let model = routed_model r stage taskTags in
         if stage = WorkerStage \<and> mr_retryEscalation r \<and> (case retryAttempt of None \<Rightarrow> False | Some n \<Rightarrow> n > 0)
         then getNextTierModel model else model)"

lemma getNextTierModel_cases:
  "getNextTierModel m =
     (if m = MODEL_TIERS ! 0 then MODEL_TIERS ! 1 else if m = MODEL_TIERS ! 1 then MODEL_TIERS ! 2 else m)"
  by (simp add: getNextTierModel_def MODEL_TIERS_def)

text \<open>
  However often a worker is retried its model is at most one tier above the configured one, and a retry
  changes the model only of a worker configured with a tier below the highest.
\<close>

lemma retry_changes_model:
  "resolveModel (Some r) legacy stage tags (Some n) \<noteq> resolveModel (Some r) legacy stage tags None \<longleftrightarrow>
     stage = WorkerStage \<and> mr_retryEscalation r \<and> n > 0 \<and>
     routed_model r stage tags \<in> {MODEL_TIERS ! 0, MODEL_TIERS ! 1}"
proof -
  have "getNextTierModel m \<noteq> m \<longleftrightarrow> m \<in> {MODEL_TIERS ! 0, MODEL_TIERS ! 1}" for m
    by (auto simp: getNextTierModel_cases MODEL_TIERS_def)
  then show ?thesis by (auto simp: resolveModel_def Let_def)
qed

lemma retry_one_tier:
  "n > 0 \<Longrightarrow> resolveModel (Some r) legacy stage tags (Some n) = resolveModel (Some r) legacy stage tags (Some 1)"
  by (simp add: resolveModel_def)

end
