(* ===== verification/Docs_Bundle.thy ===== *)
theory Docs_Bundle
  imports Intent_Request Workflow_Machine
begin

text \<open>
  What the review gate of a finished task (\<open>src/review/docs-gate.ts\<close>) reads: the review bundle, the status
  line of the task, its checkboxes and the wiki action a page path stands for. The regular expressions are
  written out on strings.
\<close>

section \<open>Data\<close>

datatype docs_impact = ImpactNone | ChangelogOnly | FeaturePageUpdate | ImpactSupportBundle

fun docs_impact_name :: "docs_impact \<Rightarrow> string" where
  "docs_impact_name ImpactNone = ''none''"
| "docs_impact_name ChangelogOnly = ''changelog_only''"
| "docs_impact_name FeaturePageUpdate = ''feature_page_update''"
| "docs_impact_name ImpactSupportBundle = ''support_bundle''"

datatype wiki_action = ActChangelog | ActFeaturePage | ActSupportBundle

fun wiki_action_name :: "wiki_action \<Rightarrow> string" where
  "wiki_action_name ActChangelog = ''changelog_entry''"
| "wiki_action_name ActFeaturePage = ''feature_page_update''"
| "wiki_action_name ActSupportBundle = ''support_bundle''"

record wiki_artifact =
  wa_pagePath :: string
  wa_commitSha :: string
  wa_linkedTaskIds :: "string list"
  wa_action :: "wiki_action option"

record support_candidate =
  sd_title :: string
  sd_summary :: string
  sd_productArea :: "string option"
  sd_linkedTaskIds :: "string list option"
  sd_tags :: "string list option"

datatype bundle_verdict = BundleVerified | BundlePartial | BundleFailed

fun bundle_verdict_name :: "bundle_verdict \<Rightarrow> string" where
  "bundle_verdict_name BundleVerified = ''VERIFIED''"
| "bundle_verdict_name BundlePartial = ''PARTIAL''"
| "bundle_verdict_name BundleFailed = ''FAILED''"

datatype finding_severity = P1 | P2 | P3

fun severity_name :: "finding_severity \<Rightarrow> string" where
  "severity_name P1 = ''P1''"
| "severity_name P2 = ''P2''"
| "severity_name P3 = ''P3''"

datatype finding_state = FindingOpen | FindingResolved | FindingWaived

fun finding_state_name :: "finding_state \<Rightarrow> string" where
  "finding_state_name FindingOpen = ''open''"
| "finding_state_name FindingResolved = ''resolved''"
| "finding_state_name FindingWaived = ''waived''"

record review_finding =
  rf_title :: string
  rf_severity :: finding_severity
  rf_status :: "finding_state option"
  rf_file :: "string option"

record review_bundle =
  rb_taskId :: string
  rb_verdict :: bundle_verdict
  rb_docsImpact :: docs_impact
  rb_requiredWikiActions :: "wiki_action list option"
  rb_wikiArtifacts :: "wiki_artifact list option"
  rb_supportDocCandidates :: "support_candidate list option"
  rb_findings :: "review_finding list option"
  rb_summary :: "string option"
  rb_reviewNotes :: "string option"
  rb_reviewer :: "string option"

record gate_issue =
  gi_code :: string
  gi_message :: string
  gi_blocking :: bool
  gi_field :: "string option"
  gi_blockReasonCode :: "block_reason option"

record review_gate =
  rg_mergeReady :: bool
  rg_requiredWikiActions :: "wiki_action list"
  rg_missingWikiActions :: "wiki_action list"
  rg_issues :: "gate_issue list"
  rg_judgmentDecision :: "judgment_decision option"
  rg_judgmentProjectionFailure :: "projection_failure option"
  rg_judgmentOrchestration :: "orchestration_result option"

definition or_empty :: "'a list option \<Rightarrow> 'a list" where
  "or_empty x = (case x of None \<Rightarrow> [] | Some xs \<Rightarrow> xs)"

section \<open>The status line\<close>

text \<open>\<open>^\s*-\s*\*\*Status:\*\*\s*(.+?)\s*$\<close>\<close>

definition strict_status :: "string \<Rightarrow> string option" where
  "strict_status s = (case dropWhile is_js_space s of
       c # cs \<Rightarrow> if c = CHR ''-'' then after_marker ''**Status:**'' (dropWhile is_js_space cs) else None
     | [] \<Rightarrow> None)"

text \<open>\<open>^\s*(?:[-*]\s*)?(?:\*\*Status:\*\*|Status:)\s*(.+?)\s*$\<close>: with the bullet, then without.\<close>

definition tolerant_status :: "string \<Rightarrow> string option" where
  "tolerant_status s =
     (let t = dropWhile is_js_space s;
          starts = (case t of c # cs \<Rightarrow> if c \<in> {CHR ''-'', CHR ''*''} then [dropWhile is_js_space cs, t] else [t]
                    | [] \<Rightarrow> [t])
      in first_some (\<lambda>u. first_some (\<lambda>marker. after_marker marker u) [''**Status:**'', ''Status:'']) starts)"

definition parseStatusLine :: "string \<Rightarrow> string option" where
  "parseStatusLine taskContent =
     (let metadata = extractSection taskContent ''Metadata'';
          tolerant = (if js_trim metadata = '''' then None else first_some tolerant_status (line_starts True metadata))
      in case tolerant of
           Some v \<Rightarrow> Some v
         | None \<Rightarrow> first_some strict_status (line_starts True taskContent))"

definition normalizeStatus :: "string \<Rightarrow> string" where
  "normalizeStatus rawStatus =
     (let base = stripTaskStatusAnnotation rawStatus in
      case map_of TASK_STATUS_ALIASES base of Some st \<Rightarrow> task_status_name st | None \<Rightarrow> base)"

definition STATUS_SUGGESTIONS :: "(string \<times> string) list" where
  "STATUS_SUGGESTIONS = [(''DONE'', ''COMPLETE''), (''READY FOR SCOPING'', ''BACKLOG'')]"

definition suggestCanonicalStatus :: "string \<Rightarrow> string" where
  "suggestCanonicalStatus rawStatus =
     (case map_of STATUS_SUGGESTIONS (stripTaskStatusAnnotation rawStatus) of
        Some suggestion \<Rightarrow> ''Did you mean \"'' @ suggestion @ ''\"?''
      | None \<Rightarrow> ''Use one of: '' @ js_join '', '' TASK_STATUS_SET @ ''.'')"

section \<open>Checklists\<close>

text \<open>\<open>\s*(?:[-*+]|\d+[.)])\s*\[([^\]\n]*)\](?!\()\<close>: the content of the box and what follows it.\<close>

definition after_bullet :: "string \<Rightarrow> string option" where
  "after_bullet t = (case t of
       [] \<Rightarrow> None
     | c # cs \<Rightarrow>
         if c \<in> {CHR ''-'', CHR ''*'', CHR ''+''} then Some cs
         else if js_digit c
         then (case dropWhile js_digit t of
                 d # ds \<Rightarrow> if d \<in> {CHR ''.'', CHR '')''} then Some ds else None
               | [] \<Rightarrow> None)
         else None)"

definition box_here :: "string \<Rightarrow> (string \<times> string) option" where
  "box_here u = (case u of
       [] \<Rightarrow> None
     | c # cs \<Rightarrow>
         if c \<noteq> CHR ''['' then None
         else (let inside = (\<lambda>d. d \<noteq> CHR '']'' \<and> d \<noteq> CHR 0x0A) in
           case dropWhile inside cs of
             d # rest \<Rightarrow> if d = CHR '']'' \<and> \<not> js_starts_with rest ''('' then Some (takeWhile inside cs, rest) else None
           | [] \<Rightarrow> None))"

definition checkbox_here :: "string \<Rightarrow> (string \<times> string) option" where
  "checkbox_here s = (case after_bullet (dropWhile is_js_space s) of
       None \<Rightarrow> None | Some t \<Rightarrow> box_here (dropWhile is_js_space t))"

lemma length_dropWhile_less: "length (dropWhile P xs) \<le> length xs"
  by (induction xs) auto

lemma after_bullet_length: "after_bullet t = Some u \<Longrightarrow> length u < length t"
proof (cases t)
  case (Cons c cs)
  assume u: "after_bullet t = Some u"
  have "length (dropWhile js_digit t) \<le> length t" by (rule length_dropWhile_less)
  with u Cons show ?thesis
    by (auto simp: after_bullet_def split: if_splits list.splits)
qed (simp add: after_bullet_def)

lemma box_here_length: "box_here u = Some (i, rest) \<Longrightarrow> length rest < length u"
proof (cases u)
  case (Cons c cs)
  assume r: "box_here u = Some (i, rest)"
  have "length (dropWhile (\<lambda>d. d \<noteq> CHR '']'' \<and> d \<noteq> CHR 0x0A) cs) \<le> length cs" by (rule length_dropWhile_less)
  with r Cons show ?thesis
    by (auto simp: box_here_def Let_def split: if_splits list.splits)
qed (simp add: box_here_def)

lemma checkbox_here_length: "checkbox_here s = Some (i, rest) \<Longrightarrow> length rest < length s"
proof -
  assume "checkbox_here s = Some (i, rest)"
  then obtain t where t: "after_bullet (dropWhile is_js_space s) = Some t"
    and b: "box_here (dropWhile is_js_space t) = Some (i, rest)"
    by (auto simp: checkbox_here_def split: option.splits)
  have "length rest < length (dropWhile is_js_space t)" using b by (rule box_here_length)
  also have "\<dots> \<le> length t" by (rule length_dropWhile_less)
  also have "\<dots> < length (dropWhile is_js_space s)" using t by (rule after_bullet_length)
  also have "\<dots> \<le> length s" by (rule length_dropWhile_less)
  finally show ?thesis .
qed

text \<open>\<open>matchAll\<close> goes on after each match.\<close>

function markdown_boxes :: "bool \<Rightarrow> string \<Rightarrow> string list" where
  "markdown_boxes bol [] = []"
| "markdown_boxes bol (c # cs) =
     (case (if bol then checkbox_here (c # cs) else None) of
        Some (inner, rest) \<Rightarrow> inner # markdown_boxes False rest
      | None \<Rightarrow> markdown_boxes (is_line_end c) cs)"
  by pat_completeness auto

termination
  by (relation "measure (\<lambda>(b, s). length s)") (auto dest: checkbox_here_length split: if_splits)

fun any_suffix :: "(string \<Rightarrow> bool) \<Rightarrow> string \<Rightarrow> bool" where
  "any_suffix P [] = P []"
| "any_suffix P (c # cs) = (P (c # cs) \<or> any_suffix P cs)"

definition quote_mark :: "char \<Rightarrow> bool" where
  "quote_mark c \<longleftrightarrow> c = CHR 0x22 \<or> c = CHR 0x27"

definition checkbox_type :: "string \<Rightarrow> bool" where
  "checkbox_type u = (case word_here ''type='' u of
       Some (q # v) \<Rightarrow> quote_mark q \<and>
         (case word_here ''checkbox'' v of Some (p # _) \<Rightarrow> quote_mark p | _ \<Rightarrow> False)
     | _ \<Rightarrow> False)"

text \<open>\<open><input\b[^>]*type=["']checkbox["'][^>]*>\<close>: the attributes, and what follows the tag.\<close>

definition html_box_here :: "string \<Rightarrow> (string \<times> string) option" where
  "html_box_here s = (case word_here ''<input'' s of
       Some (c # t) \<Rightarrow>
         (let body = takeWhile (\<lambda>d. d \<noteq> CHR ''>'') (c # t) in
          case dropWhile (\<lambda>d. d \<noteq> CHR ''>'') (c # t) of
            _ # rest \<Rightarrow> if \<not> js_word_char c \<and> any_suffix checkbox_type body then Some (body, rest) else None
          | [] \<Rightarrow> None)
     | _ \<Rightarrow> None)"

lemma word_here_length: "word_here w s = Some r \<Longrightarrow> length r \<le> length s"
  by (auto simp: word_here_def split: if_splits)

lemma html_box_here_length: "html_box_here s = Some (b, rest) \<Longrightarrow> length rest < length s"
proof -
  assume h: "html_box_here s = Some (b, rest)"
  then obtain c t where w: "word_here ''<input'' s = Some (c # t)"
    by (auto simp: html_box_here_def split: option.splits list.splits)
  have "length (dropWhile (\<lambda>d. d \<noteq> CHR ''>'') (c # t)) \<le> length (c # t)" by (rule length_dropWhile_less)
  moreover have "\<exists>x. dropWhile (\<lambda>d. d \<noteq> CHR ''>'') (c # t) = x # rest"
    using h w by (auto simp: html_box_here_def Let_def split: list.splits if_splits)
  ultimately show ?thesis using word_here_length [OF w] by auto
qed

function html_boxes :: "string \<Rightarrow> string list" where
  "html_boxes [] = []"
| "html_boxes (c # cs) = (case html_box_here (c # cs) of
      Some (body, rest) \<Rightarrow> body # html_boxes rest
    | None \<Rightarrow> html_boxes cs)"
  by pat_completeness auto

termination
  by (relation "measure length") (auto dest: html_box_here_length)

text \<open>\<open>\bchecked\b\<close> in the tag, whose \<open>>\<close> ends a word; the flag says whether a word character precedes.\<close>

fun word_within :: "string \<Rightarrow> bool \<Rightarrow> string \<Rightarrow> bool" where
  "word_within w inWord [] = False"
| "word_within w inWord (c # cs) =
     ((\<not> inWord \<and> (case word_here w (c # cs) of None \<Rightarrow> False | Some r \<Rightarrow> r = [] \<or> \<not> js_word_char (hd r))) \<or>
      word_within w (js_word_char c) cs)"

definition countChecklist :: "string \<Rightarrow> nat \<times> nat" where
  "countChecklist sectionText =
     (let inner = map (\<lambda>i. js_to_lower (js_trim i)) (markdown_boxes True sectionText);
          tags = map (word_within ''checked'' True) (html_boxes sectionText)
      in (length (filter (\<lambda>i. i = ''x'') inner) + length (filter id tags),
          length (filter (\<lambda>i. i = '''') inner) + length (filter Not tags)))"

section \<open>Wiki actions\<close>

definition contains_word :: "string \<Rightarrow> string \<Rightarrow> bool" where
  "contains_word w s \<longleftrightarrow> any_suffix (\<lambda>u. word_here w u \<noteq> None) s"

text \<open>\<open>A[-_\s]?B\<close>\<close>

definition contains_joined :: "string \<Rightarrow> string \<Rightarrow> string \<Rightarrow> bool" where
  "contains_joined a b s \<longleftrightarrow> any_suffix (\<lambda>u. case word_here a u of None \<Rightarrow> False
     | Some v \<Rightarrow> word_here b v \<noteq> None \<or>
         (case v of [] \<Rightarrow> False
          | c # w \<Rightarrow> (c = CHR ''-'' \<or> c = CHR ''_'' \<or> is_js_space c) \<and> word_here b w \<noteq> None)) s"

definition inferWikiActionFromPath :: "string \<Rightarrow> wiki_action" where
  "inferWikiActionFromPath pagePath =
     (if contains_word ''changelog'' pagePath \<or> contains_joined ''release'' ''note'' pagePath \<or>
         contains_word ''change'' pagePath
      then ActChangelog
      else if contains_word ''support'' pagePath \<or> contains_word ''help'' pagePath \<or> contains_word ''faq'' pagePath \<or>
         contains_joined ''knowledge'' ''base'' pagePath \<or> contains_word ''kb'' pagePath
      then ActSupportBundle
      else ActFeaturePage)"

definition artifact_action :: "wiki_artifact \<Rightarrow> wiki_action" where
  "artifact_action a = (case wa_action a of None \<Rightarrow> inferWikiActionFromPath (wa_pagePath a) | Some x \<Rightarrow> x)"

definition hasArtifactForAction :: "wiki_action \<Rightarrow> wiki_artifact list \<Rightarrow> bool" where
  "hasArtifactForAction action artifacts = list_ex (\<lambda>a. artifact_action a = action) artifacts"

fun requiredActionsForDocsImpact :: "docs_impact \<Rightarrow> wiki_action list" where
  "requiredActionsForDocsImpact ImpactNone = []"
| "requiredActionsForDocsImpact ChangelogOnly = [ActChangelog]"
| "requiredActionsForDocsImpact FeaturePageUpdate = [ActChangelog, ActFeaturePage]"
| "requiredActionsForDocsImpact ImpactSupportBundle = [ActChangelog, ActFeaturePage, ActSupportBundle]"

section \<open>Where the readings differ from the intent\<close>

text \<open>
  A page is taken for a support page when \<open>kb\<close> occurs anywhere in its path, inside another word too, and
  for a changelog when \<open>change\<close> does; a status line without a value takes the next line as its value.
\<close>

lemma path_reads_inside_words:
  "inferWikiActionFromPath ''workbench'' = ActSupportBundle"
  "inferWikiActionFromPath ''exchange'' = ActChangelog"
  by (simp_all add: inferWikiActionFromPath_def contains_word_def contains_joined_def word_here_def js_upper_char_def
      js_lower_letter_def)

lemma empty_status_takes_next_line:
  "parseStatusLine (''- **Status:**'' @ [CHR 0x0A] @ ''- **Priority:** High'') = Some ''- **Priority:** High''"
  by code_simp

end
