(* ===== verification/Evidence_Bundle.thy ===== *)
theory Evidence_Bundle
  imports Docs_Bundle
begin

text \<open>
  The evidence bundle (\<open>src/workflow/evidence-bundle.ts\<close>): its input and output, the checks of its
  schema and the defaults it fills in. \<open>None\<close> is the error the schema throws. Inputs have their declared
  types, except the kind of an attempt and the lane and risk level, which arrive as text. Merging bundles,
  which no other file uses, is not modelled.
\<close>

section \<open>Parts of a bundle\<close>

datatype command_status = CommandPassed | CommandFailed | CommandSkipped

record command_evidence =
  ce_name :: string
  ce_command :: "string option"
  ce_status :: command_status
  ce_exitCode :: "rat option"
  ce_durationMs :: "rat option"
  ce_summary :: "string option"
  ce_outputPath :: "string option"

record attempt_input =
  at_attempt :: rat
  at_kind :: string
  at_commitSha :: "string option"
  at_baseSha :: "string option"
  at_changedFiles :: "string list option"
  at_manifestPath :: string
  at_diffPath :: string
  at_sealedAt :: string

record bundle_review =
  re_reviewId :: "string option"
  re_verdict :: "bundle_verdict option"
  re_mergeReady :: "bool option"
  re_docsImpact :: "docs_impact option"
  re_requiredWikiActions :: "wiki_action list option"
  re_missingWikiActions :: "wiki_action list option"
  re_wikiArtifacts :: "wiki_artifact list option"
  re_supportDocCandidates :: "support_candidate list option"

datatype record_verdict = RecordVerified | RecordRejected | RecordPartial

record verification_evidence =
  ve_verificationRecordId :: "string option"
  ve_verdict :: "record_verdict option"
  ve_criteriaChecked :: "rat option"
  ve_criteriaPassed :: "rat option"
  ve_commitSha :: "string option"
  ve_verifiedAt :: "string option"

record docs_evidence =
  de_docsImpact :: "docs_impact option"
  de_requiredWikiActions :: "wiki_action list option"
  de_wikiArtifacts :: "wiki_artifact list option"
  de_supportDocCandidates :: "support_candidate list option"
  de_supportContentRecords :: "rat option"
  de_lastDocsEventAt :: "string option"

text \<open>
  One record serves the input and the output: a field with a default is optional in the input and always
  present in the output.
\<close>

record evidence_bundle =
  eb_taskId :: string
  eb_intakeId :: "string option"
  eb_workflowId :: "string option"
  eb_reviewId :: "string option"
  eb_verificationRecordId :: "string option"
  eb_jobId :: "string option"
  eb_hostId :: "string option"
  eb_sessionId :: "string option"
  eb_workflowState :: "workflow_state option"
  eb_blockReasonCode :: "block_reason option"
  eb_lane :: "string option"
  eb_riskLevel :: "string option"
  eb_changedFiles :: "string list option"
  eb_outputAttempts :: "attempt_input list option"
  eb_buildResults :: "command_evidence list option"
  eb_testResults :: "command_evidence list option"
  eb_lintResults :: "command_evidence list option"
  eb_findings :: "review_finding list option"
  eb_review :: "bundle_review option"
  eb_verification :: "verification_evidence option"
  eb_docs :: "docs_evidence option"
  eb_updatedAt :: "string option"

section \<open>The checks\<close>

definition min1 :: "string \<Rightarrow> bool" where
  "min1 s \<longleftrightarrow> s \<noteq> ''''"

definition opt_ok :: "('a \<Rightarrow> bool) \<Rightarrow> 'a option \<Rightarrow> bool" where
  "opt_ok P x = (case x of None \<Rightarrow> True | Some v \<Rightarrow> P v)"

definition is_whole :: "rat \<Rightarrow> bool" where
  "is_whole q \<longleftrightarrow> q = of_int \<lfloor>q\<rfloor>"

definition commandEvidenceSchema :: "command_evidence \<Rightarrow> bool" where
  "commandEvidenceSchema c \<longleftrightarrow> min1 (ce_name c) \<and> opt_ok is_whole (ce_exitCode c) \<and>
     opt_ok (\<lambda>d. d \<ge> 0) (ce_durationMs c)"

definition findingEvidenceSchema :: "review_finding \<Rightarrow> bool" where
  "findingEvidenceSchema f \<longleftrightarrow> min1 (rf_title f)"

definition wikiArtifactSchema :: "wiki_artifact \<Rightarrow> bool" where
  "wikiArtifactSchema a \<longleftrightarrow> min1 (wa_pagePath a) \<and> min1 (wa_commitSha a) \<and> list_all min1 (wa_linkedTaskIds a)"

definition supportDocCandidateSchema :: "support_candidate \<Rightarrow> bool" where
  "supportDocCandidateSchema c \<longleftrightarrow> min1 (sd_title c) \<and> min1 (sd_summary c) \<and>
     list_all min1 (or_empty (sd_linkedTaskIds c)) \<and> list_all min1 (or_empty (sd_tags c))"

definition ATTEMPT_KINDS :: "string list" where
  "ATTEMPT_KINDS = [''worker'', ''retry'', ''lifecycle_fix'']"

definition outputAttemptSchema :: "attempt_input \<Rightarrow> bool" where
  "outputAttemptSchema a \<longleftrightarrow> is_whole (at_attempt a) \<and> at_attempt a > 0 \<and> at_kind a \<in> set ATTEMPT_KINDS \<and>
     list_all min1 (or_empty (at_changedFiles a)) \<and> min1 (at_manifestPath a) \<and> min1 (at_diffPath a) \<and>
     min1 (at_sealedAt a)"

definition whole_count :: "rat \<Rightarrow> bool" where
  "whole_count q \<longleftrightarrow> is_whole q \<and> q \<ge> 0"

definition review_part_ok :: "bundle_review \<Rightarrow> bool" where
  "review_part_ok r \<longleftrightarrow> list_all wikiArtifactSchema (or_empty (re_wikiArtifacts r)) \<and>
     list_all supportDocCandidateSchema (or_empty (re_supportDocCandidates r))"

definition verification_part_ok :: "verification_evidence \<Rightarrow> bool" where
  "verification_part_ok v \<longleftrightarrow> opt_ok whole_count (ve_criteriaChecked v) \<and> opt_ok whole_count (ve_criteriaPassed v)"

definition docs_part_ok :: "docs_evidence \<Rightarrow> bool" where
  "docs_part_ok d \<longleftrightarrow> list_all wikiArtifactSchema (or_empty (de_wikiArtifacts d)) \<and>
     list_all supportDocCandidateSchema (or_empty (de_supportDocCandidates d)) \<and>
     opt_ok whole_count (de_supportContentRecords d)"

definition evidenceBundleSchema :: "evidence_bundle \<Rightarrow> bool" where
  "evidenceBundleSchema b \<longleftrightarrow>
     min1 (eb_taskId b) \<and>
     opt_ok isWorkflowLane (eb_lane b) \<and> opt_ok isWorkflowRiskLevel (eb_riskLevel b) \<and>
     list_all min1 (or_empty (eb_changedFiles b)) \<and>
     list_all outputAttemptSchema (or_empty (eb_outputAttempts b)) \<and>
     list_all commandEvidenceSchema (or_empty (eb_buildResults b)) \<and>
     list_all commandEvidenceSchema (or_empty (eb_testResults b)) \<and>
     list_all commandEvidenceSchema (or_empty (eb_lintResults b)) \<and>
     list_all findingEvidenceSchema (or_empty (eb_findings b)) \<and>
     opt_ok review_part_ok (eb_review b) \<and> opt_ok verification_part_ok (eb_verification b) \<and>
     opt_ok docs_part_ok (eb_docs b)"

section \<open>The defaults\<close>

definition present :: "'a list option \<Rightarrow> 'a list option" where
  "present x = Some (or_empty x)"

definition full_candidate :: "support_candidate \<Rightarrow> support_candidate" where
  "full_candidate c = c\<lparr>sd_linkedTaskIds := present (sd_linkedTaskIds c), sd_tags := present (sd_tags c)\<rparr>"

definition full_attempt :: "attempt_input \<Rightarrow> attempt_input" where
  "full_attempt a = a\<lparr>at_changedFiles := present (at_changedFiles a)\<rparr>"

definition full_finding :: "review_finding \<Rightarrow> review_finding" where
  "full_finding f = f\<lparr>rf_status := Some (case rf_status f of None \<Rightarrow> FindingOpen | Some s \<Rightarrow> s)\<rparr>"

definition all_full :: "('a \<Rightarrow> 'a) \<Rightarrow> 'a list option \<Rightarrow> 'a list option" where
  "all_full f x = Some (map f (or_empty x))"

definition full_review :: "bundle_review \<Rightarrow> bundle_review" where
  "full_review r = r\<lparr>re_requiredWikiActions := present (re_requiredWikiActions r),
     re_missingWikiActions := present (re_missingWikiActions r), re_wikiArtifacts := present (re_wikiArtifacts r),
     re_supportDocCandidates := all_full full_candidate (re_supportDocCandidates r)\<rparr>"

definition full_docs :: "docs_evidence \<Rightarrow> docs_evidence" where
  "full_docs d = d\<lparr>de_requiredWikiActions := present (de_requiredWikiActions d),
     de_wikiArtifacts := present (de_wikiArtifacts d),
     de_supportDocCandidates := all_full full_candidate (de_supportDocCandidates d),
     de_supportContentRecords := Some (case de_supportContentRecords d of None \<Rightarrow> 0 | Some n \<Rightarrow> n)\<rparr>"

definition full_bundle :: "evidence_bundle \<Rightarrow> evidence_bundle" where
  "full_bundle b = b\<lparr>eb_changedFiles := present (eb_changedFiles b),
     eb_outputAttempts := all_full full_attempt (eb_outputAttempts b),
     eb_buildResults := present (eb_buildResults b), eb_testResults := present (eb_testResults b),
     eb_lintResults := present (eb_lintResults b), eb_findings := all_full full_finding (eb_findings b),
     eb_review := map_option full_review (eb_review b), eb_docs := map_option full_docs (eb_docs b)\<rparr>"

definition parseEvidenceBundle :: "evidence_bundle \<Rightarrow> evidence_bundle option" where
  "parseEvidenceBundle input = (if evidenceBundleSchema input then Some (full_bundle input) else None)"

definition createEvidenceBundle :: "evidence_bundle \<Rightarrow> evidence_bundle option" where
  "createEvidenceBundle input = parseEvidenceBundle input"

section \<open>A parsed bundle parses to itself\<close>

lemma or_empty_present [simp]: "or_empty (present x) = or_empty x" "present (present x) = present x"
  "or_empty (all_full f x) = map f (or_empty x)"
  by (simp_all add: present_def or_empty_def all_full_def)

lemma all_full_twice: "(\<And>x. f (f x) = f x) \<Longrightarrow> all_full f (all_full f xs) = all_full f xs"
  by (simp add: all_full_def or_empty_def)

lemma full_parts_twice [simp]:
  "full_candidate (full_candidate c) = full_candidate c" "full_attempt (full_attempt a) = full_attempt a"
  "full_finding (full_finding f) = full_finding f"
  by (simp_all add: full_candidate_def full_attempt_def full_finding_def)

lemma full_review_docs_twice [simp]: "full_review (full_review r) = full_review r" "full_docs (full_docs d) = full_docs d"
  by (simp_all add: full_review_def full_docs_def all_full_twice)

lemma full_parts_valid [simp]:
  "supportDocCandidateSchema (full_candidate c) = supportDocCandidateSchema c"
  "outputAttemptSchema (full_attempt a) = outputAttemptSchema a"
  "findingEvidenceSchema (full_finding f) = findingEvidenceSchema f"
  by (simp_all add: supportDocCandidateSchema_def full_candidate_def outputAttemptSchema_def full_attempt_def
      findingEvidenceSchema_def full_finding_def)

lemma full_review_valid [simp]: "review_part_ok (full_review r) = review_part_ok r"
  by (simp add: review_part_ok_def full_review_def list.pred_map comp_def)

lemma full_docs_valid [simp]: "docs_part_ok d \<Longrightarrow> docs_part_ok (full_docs d)"
  by (simp add: docs_part_ok_def full_docs_def list.pred_map comp_def opt_ok_def whole_count_def is_whole_def
      split: option.splits)

lemma opt_ok_map: "opt_ok P x \<Longrightarrow> (\<And>v. P v \<Longrightarrow> P (f v)) \<Longrightarrow> opt_ok P (map_option f x)"
  by (simp add: opt_ok_def split: option.splits)

lemma full_bundle_valid: "evidenceBundleSchema b \<Longrightarrow> evidenceBundleSchema (full_bundle b)"
  by (simp add: evidenceBundleSchema_def full_bundle_def list.pred_map comp_def opt_ok_map)

lemma full_bundle_twice: "full_bundle (full_bundle b) = full_bundle b"
  by (simp add: full_bundle_def all_full_twice option.map_comp comp_def)

lemma parse_is_idempotent: "parseEvidenceBundle b = Some b' \<Longrightarrow> parseEvidenceBundle b' = Some b'"
  by (auto simp: parseEvidenceBundle_def full_bundle_valid full_bundle_twice split: if_splits)

end
