(* ===== verification/Docs_Gate.thy ===== *)
theory Docs_Gate
  imports Docs_Bundle
begin

text \<open>
  The review gate of a finished task (\<open>src/review/docs-gate.ts\<close>): the deterministic issues of a review
  bundle and the judgment that may replace its verdict. Exact conditions for a ready review, and who may
  lift one.
\<close>

section \<open>The deterministic gate\<close>

definition DOCS_DEBT_ISSUE_CODES :: "string list" where
  "DOCS_DEBT_ISSUE_CODES = [''invalid_wiki_artifact'', ''missing_wiki_artifacts'', ''missing_support_doc_candidates'']"

definition integrityBlockers :: "review_gate \<Rightarrow> gate_issue list" where
  "integrityBlockers gate = filter (\<lambda>i. gi_blocking i \<and> gi_code i \<notin> set DOCS_DEBT_ISSUE_CODES) (rg_issues gate)"

definition blockedOnlyByDocsDebt :: "review_gate \<Rightarrow> bool" where
  "blockedOnlyByDocsDebt gate \<longleftrightarrow>
     (if rg_mergeReady gate then True
      else let blocking = filter gi_blocking (rg_issues gate) in
        blocking \<noteq> [] \<and> list_all (\<lambda>i. gi_code i \<in> set DOCS_DEBT_ISSUE_CODES) blocking)"

definition push_issue :: "string \<Rightarrow> string \<Rightarrow> bool \<Rightarrow> string \<Rightarrow> gate_issue" where
  "push_issue code message blocking field =
     \<lparr>gi_code = code, gi_message = message, gi_blocking = blocking, gi_field = Some field,
      gi_blockReasonCode = blockReasonForReviewGateIssue code\<rparr>"

text \<open>The checks of a canonical status against the two checklists.\<close>

definition checklist_issues :: "string \<Rightarrow> string \<Rightarrow> gate_issue list" where
  "checklist_issues taskContent status =
     (let successText = extractSection taskContent ''Success Criteria'';
          testingText = extractSection taskContent ''Testing Requirements'';
          s = countChecklist successText; t = countChecklist testingText;
          hasUnchecked = (snd s > 0 \<or> snd t > 0);
          claimsDone = (status = ''VERIFIED'' \<or> status = ''COMPLETE'')
      in (if claimsDone \<and> fst s + snd s + (fst t + snd t) = 0 \<and> (js_trim successText \<noteq> '''' \<or> js_trim testingText \<noteq> '''')
          then [push_issue ''checklist_not_countable''
                  ''Task claims a done status but no checkboxes were recognized in Success Criteria/Testing Requirements -- the unchecked-items check could not run.''
                  False ''successCriteria'']
          else []) @
         (if status = ''VERIFIED'' \<and> hasUnchecked
          then [push_issue ''verified_unchecked_checklists''
                  ''Task is marked VERIFIED while Success Criteria/Testing Requirements contain unchecked items.''
                  True ''status'']
          else []) @
         (if status = ''COMPLETE'' \<and> hasUnchecked
          then [push_issue ''complete_unchecked_checklists''
                  ''Task is marked COMPLETE while Success Criteria/Testing Requirements contain unchecked items.''
                  True ''status'']
          else []))"

definition status_issues :: "string option \<Rightarrow> gate_issue list" where
  "status_issues taskContent = (case taskContent of
       None \<Rightarrow> []
     | Some content \<Rightarrow>
         if content = '''' then []
         else let rawStatus = (case parseStatusLine content of None \<Rightarrow> '''' | Some r \<Rightarrow> r) in
           if rawStatus = ''''
           then [push_issue ''missing_status''
                   ''Task spec is missing a Status metadata line. Add one to the ## Metadata section.'' False ''status'']
           else if normalizeStatus rawStatus \<notin> set TASK_STATUS_SET
           then [push_issue ''non_canonical_status''
                   (''Task status \"'' @ rawStatus @ ''\" is non-canonical. '' @ suggestCanonicalStatus rawStatus) False ''status'']
           else checklist_issues content (normalizeStatus rawStatus))"

definition artifact_field :: "nat \<Rightarrow> string \<Rightarrow> string" where
  "artifact_field i name = ''wikiArtifacts['' @ digits_text i @ ''].'' @ name"

definition invalid_artifact :: "nat \<Rightarrow> string \<Rightarrow> gate_issue" where
  "invalid_artifact i name =
     push_issue ''invalid_wiki_artifact'' (''wikiArtifacts['' @ digits_text i @ ''] is missing '' @ name @ ''.'') True
       (artifact_field i name)"

definition artifact_issues :: "wiki_artifact list \<Rightarrow> gate_issue list" where
  "artifact_issues artifacts =
     concat (map (\<lambda>(i, a).
        (if js_trim (wa_pagePath a) = '''' then [invalid_artifact i ''pagePath''] else []) @
        (if js_trim (wa_commitSha a) = '''' then [invalid_artifact i ''commitSha''] else []) @
        (if wa_linkedTaskIds a = [] then [invalid_artifact i ''linkedTaskIds''] else []))
       (zip [0..<length artifacts] artifacts))"

definition unresolved :: "review_finding \<Rightarrow> bool" where
  "unresolved f \<longleftrightarrow> (rf_severity f = P1 \<or> rf_severity f = P2) \<and>
     (case rf_status f of None \<Rightarrow> True | Some st \<Rightarrow> st \<noteq> FindingResolved \<and> st \<noteq> FindingWaived)"

definition finding_issues :: "review_finding list \<Rightarrow> gate_issue list" where
  "finding_issues findings =
     map (\<lambda>f. push_issue ''unresolved_high_severity_finding''
        (''Unresolved '' @ severity_name (rf_severity f) @ '' finding: '' @ rf_title f) True ''findings'')
       (filter unresolved findings)"

definition required_actions :: "review_bundle \<Rightarrow> wiki_action list" where
  "required_actions review =
     js_uniq (requiredActionsForDocsImpact (rb_docsImpact review) @ or_empty (rb_requiredWikiActions review))"

definition missing_actions :: "review_bundle \<Rightarrow> wiki_action list" where
  "missing_actions review =
     filter (\<lambda>a. \<not> hasArtifactForAction a (or_empty (rb_wikiArtifacts review))) (required_actions review)"

definition wiki_issues :: "review_bundle \<Rightarrow> gate_issue list" where
  "wiki_issues review =
     (if missing_actions review = [] then []
      else [push_issue ''missing_wiki_artifacts''
              (''Missing required wiki artifacts for actions: '' @ js_join '', '' (map wiki_action_name (missing_actions review)))
              True ''wikiArtifacts'']) @
     (if ActSupportBundle \<in> set (required_actions review) \<and> or_empty (rb_supportDocCandidates review) = []
      then [push_issue ''missing_support_doc_candidates''
              ''support_bundle requires at least one supportDocCandidates entry.'' True ''supportDocCandidates'']
      else [])"

definition review_issues :: "review_bundle \<Rightarrow> string option \<Rightarrow> gate_issue list" where
  "review_issues review taskContent =
     status_issues taskContent @ artifact_issues (or_empty (rb_wikiArtifacts review)) @
     wiki_issues review @ finding_issues (or_empty (rb_findings review))"

definition as_docs_issue :: "gate_issue \<Rightarrow> docs_issue" where
  "as_docs_issue i = \<lparr>di_code = gi_code i, di_message = gi_message i, di_blocking = gi_blocking i,
     di_field = gi_field i, di_blockReasonCode = map_option block_reason_name (gi_blockReasonCode i)\<rparr>"

definition evaluateReviewGate :: "review_bundle \<Rightarrow> string option \<Rightarrow> review_gate" where
  "evaluateReviewGate review taskContent =
     (let issues = review_issues review taskContent; mergeReady = (\<not> list_ex gi_blocking issues);
          projection = containJudgmentProjection (projectDocsReviewDecision (map as_docs_issue issues) mergeReady)
      in \<lparr>rg_mergeReady = mergeReady, rg_requiredWikiActions = required_actions review,
          rg_missingWikiActions = missing_actions review, rg_issues = issues,
          rg_judgmentDecision = (case projection of Inr d \<Rightarrow> Some d | Inl _ \<Rightarrow> None),
          rg_judgmentProjectionFailure = (case projection of Inl f \<Rightarrow> Some f | Inr _ \<Rightarrow> None),
          rg_judgmentOrchestration = None\<rparr>)"

section \<open>The judgment of a review\<close>











section \<open>What the issues say\<close>

definition ISSUE_CODES :: "string list" where
  "ISSUE_CODES = map fst REVIEW_GATE_BLOCK_REASON_BY_ISSUE_CODE"

definition good_issue :: "gate_issue \<Rightarrow> bool" where
  "good_issue i \<longleftrightarrow> gi_code i \<in> set ISSUE_CODES \<and> js_trim (gi_message i) \<noteq> '''' \<and>
     gi_blockReasonCode i = blockReasonForReviewGateIssue (gi_code i)"

lemma trim_starts: "\<not> is_js_space c \<Longrightarrow> js_trim (c # cs) \<noteq> ''''"
  by (simp add: js_trim_eq_Nil_iff)

lemmas issue_defs = push_issue_def good_issue_def ISSUE_CODES_def REVIEW_GATE_BLOCK_REASON_BY_ISSUE_CODE_def

lemma good_push: "code \<in> set ISSUE_CODES \<Longrightarrow> \<not> is_js_space m \<Longrightarrow> good_issue (push_issue code (m # ms) blocking field)"
  by (simp add: push_issue_def good_issue_def trim_starts)

lemma issue_codes: "set ISSUE_CODES = {''missing_status'', ''non_canonical_status'', ''verified_unchecked_checklists'',
     ''complete_unchecked_checklists'', ''checklist_not_countable'', ''invalid_wiki_artifact'', ''missing_wiki_artifacts'',
     ''missing_support_doc_candidates'', ''unresolved_high_severity_finding'', ''review_required'', ''review_missing'',
     ''review_invalid'', ''review_not_merge_ready''}"
  by (simp add: ISSUE_CODES_def REVIEW_GATE_BLOCK_REASON_BY_ISSUE_CODE_def)

lemma letters_no_space: "\<not> is_js_space CHR ''T''" "\<not> is_js_space CHR ''w''" "\<not> is_js_space CHR ''M''"
  "\<not> is_js_space CHR ''s''" "\<not> is_js_space CHR ''U''"
  by (simp_all add: is_js_space_def)

lemma good_push_here:
  "good_issue (push_issue ''missing_status'' (CHR ''T'' # ms) b f)"
  "good_issue (push_issue ''non_canonical_status'' (CHR ''T'' # ms) b f)"
  "good_issue (push_issue ''verified_unchecked_checklists'' (CHR ''T'' # ms) b f)"
  "good_issue (push_issue ''complete_unchecked_checklists'' (CHR ''T'' # ms) b f)"
  "good_issue (push_issue ''checklist_not_countable'' (CHR ''T'' # ms) b f)"
  "good_issue (push_issue ''invalid_wiki_artifact'' (CHR ''w'' # ms) b f)"
  "good_issue (push_issue ''missing_wiki_artifacts'' (CHR ''M'' # ms) b f)"
  "good_issue (push_issue ''missing_support_doc_candidates'' (CHR ''s'' # ms) b f)"
  "good_issue (push_issue ''unresolved_high_severity_finding'' (CHR ''U'' # ms) b f)"
  by (rule good_push; simp add: issue_codes letters_no_space)+

lemma good_checklist_issues: "list_all good_issue (checklist_issues c st)"
  unfolding checklist_issues_def Let_def by (simp add: good_push_here)

lemma good_status_issues: "i \<in> set (status_issues c) \<Longrightarrow> good_issue i"
proof -
  have "list_all good_issue (status_issues c)"
    unfolding status_issues_def Let_def by (simp add: good_push_here good_checklist_issues split: option.split)
  then show "i \<in> set (status_issues c) \<Longrightarrow> good_issue i" by (simp add: list_all_iff)
qed

lemma good_artifact_issues: "i \<in> set (artifact_issues as) \<Longrightarrow> good_issue i"
  by (auto simp: artifact_issues_def invalid_artifact_def good_push_here split: if_splits)

lemma good_wiki_issues: "i \<in> set (wiki_issues r) \<Longrightarrow> good_issue i"
  by (auto simp: wiki_issues_def good_push_here split: if_splits)

lemma good_finding_issues: "i \<in> set (finding_issues fs) \<Longrightarrow> good_issue i"
  by (auto simp: finding_issues_def good_push_here)

lemma good_issues: "i \<in> set (review_issues r c) \<Longrightarrow> good_issue i"
  by (auto simp: review_issues_def good_status_issues good_artifact_issues good_wiki_issues good_finding_issues)

lemma plain_docs_signal: "good_issue i \<Longrightarrow> plain_signal (docs_signal (as_docs_issue i)) \<and> js_trim (sg_message (docs_signal (as_docs_issue i))) \<noteq> ''''"
proof -
  have code: "js_trim c \<noteq> ''''" if "c \<in> set ISSUE_CODES" for c
    using that by (auto simp: ISSUE_CODES_def REVIEW_GATE_BLOCK_REASON_BY_ISSUE_CODE_def trim_starts is_js_space_def)
  assume "good_issue i"
  then show ?thesis
    by (auto simp: good_issue_def plain_signal_def docs_signal_def as_docs_issue_def signal_def code
        JUDGMENT_STAGES_def JUDGMENT_SIGNAL_DISPOSITIONS_def)
qed

text \<open>The projection of the gate never fails.\<close>

lemma gate_decision:
  "\<exists>d. rg_judgmentDecision (evaluateReviewGate r c) = Some d \<and> rg_judgmentProjectionFailure (evaluateReviewGate r c) = None \<and>
     jd_action d = (if rg_mergeReady (evaluateReviewGate r c) then ''continue'' else ''human_review'') \<and>
     jd_signals d = map (docs_signal \<circ> as_docs_issue) (review_issues r c) \<and>
     projectDocsReviewDecision (map as_docs_issue (review_issues r c)) (rg_mergeReady (evaluateReviewGate r c)) = Inr d"
proof -
  let ?ready = "rg_mergeReady (evaluateReviewGate r c)"
  let ?ss = "map docs_signal (map as_docs_issue (review_issues r c))"
  let ?j = "legacy_policy (if ?ready then ''continue'' else ''human_review'') [''legacy_merge_ready:'' @ bool_text ?ready]"
  have plain: "list_all plain_signal ?ss" "list_all (\<lambda>s. js_trim (sg_message s) \<noteq> '''') ?ss"
    using plain_docs_signal good_issues by (auto simp: list_all_iff)
  have j: "ij_source ?j \<in> set JUDGMENT_SOURCES" "ij_action ?j \<in> set INTENT_JUDGMENT_ACTIONS"
    "ij_action ?j = (if ?ready then ''continue'' else ''human_review'')"
    by (simp_all add: legacy_policy_def JUDGMENT_SOURCES_def INTENT_JUDGMENT_ACTIONS_def)
  have "''docs_review'' \<in> set JUDGMENT_STAGES" by (simp add: JUDGMENT_STAGES_def)
  then obtain d where d: "containJudgmentProjection (reduceJudgment ''docs_review'' ?ss ?j) = Inr d"
      "jd_action d = ij_action ?j" "jd_signals d = ?ss"
    using reduce_plain [OF plain(1) _ j(1,2), of "''docs_review''"] plain(2)
    by (cases "containJudgmentProjection (reduceJudgment ''docs_review'' ?ss ?j)") auto
  then have "reduceJudgment ''docs_review'' ?ss ?j = Inr d"
    by (auto simp: containJudgmentProjection_def split: sum.splits contract_error.splits)
  moreover have "?ready = (\<not> list_ex gi_blocking (review_issues r c))" by (simp add: evaluateReviewGate_def Let_def)
  ultimately show ?thesis using d j(3)
    by (simp add: evaluateReviewGate_def projectDocsReviewDecision_def Let_def comp_def)
qed

subsection \<open>When a review is ready\<close>

definition docs_complete :: "review_bundle \<Rightarrow> bool" where
  "docs_complete r \<longleftrightarrow>
     (\<forall>a \<in> set (or_empty (rb_wikiArtifacts r)).
        js_trim (wa_pagePath a) \<noteq> '''' \<and> js_trim (wa_commitSha a) \<noteq> '''' \<and> wa_linkedTaskIds a \<noteq> []) \<and>
     (\<forall>x \<in> set (required_actions r). \<exists>a \<in> set (or_empty (rb_wikiArtifacts r)). artifact_action a = x) \<and>
     (ActSupportBundle \<in> set (required_actions r) \<longrightarrow> or_empty (rb_supportDocCandidates r) \<noteq> [])"

definition findings_settled :: "review_bundle \<Rightarrow> bool" where
  "findings_settled r \<longleftrightarrow> (\<forall>f \<in> set (or_empty (rb_findings r)).
     rf_severity f = P3 \<or> rf_status f = Some FindingResolved \<or> rf_status f = Some FindingWaived)"

text \<open>A task that says it is done has no unchecked box in the two sections.\<close>

definition checklists_honest :: "string option \<Rightarrow> bool" where
  "checklists_honest taskContent \<longleftrightarrow> (case taskContent of
       None \<Rightarrow> True
     | Some content \<Rightarrow> (case parseStatusLine content of
           None \<Rightarrow> True
         | Some raw \<Rightarrow> content = '''' \<or> normalizeStatus raw \<notin> {''VERIFIED'', ''COMPLETE''} \<or> raw = '''' \<or>
             (snd (countChecklist (extractSection content ''Success Criteria'')) = 0 \<and>
              snd (countChecklist (extractSection content ''Testing Requirements'')) = 0)))"

lemma artifact_issues_blocking:
  "filter gi_blocking (artifact_issues as) = artifact_issues as \<and>
   (\<forall>i \<in> set (artifact_issues as). gi_code i = ''invalid_wiki_artifact'')"
  by (auto simp: artifact_issues_def invalid_artifact_def push_issue_def filter_id_conv split: if_splits)

lemma artifact_issues_none:
  "artifact_issues as = [] \<longleftrightarrow>
     (\<forall>a \<in> set as. js_trim (wa_pagePath a) \<noteq> '''' \<and> js_trim (wa_commitSha a) \<noteq> '''' \<and> wa_linkedTaskIds a \<noteq> [])"
proof -
  have "artifact_issues as = [] \<longleftrightarrow> (\<forall>p \<in> set (zip [0..<length as] as).
      js_trim (wa_pagePath (snd p)) \<noteq> '''' \<and> js_trim (wa_commitSha (snd p)) \<noteq> '''' \<and> wa_linkedTaskIds (snd p) \<noteq> [])"
    by (fastforce simp: artifact_issues_def split: if_splits)
  also have "\<dots> \<longleftrightarrow> (\<forall>a \<in> snd ` set (zip [0..<length as] as).
      js_trim (wa_pagePath a) \<noteq> '''' \<and> js_trim (wa_commitSha a) \<noteq> '''' \<and> wa_linkedTaskIds a \<noteq> [])" by simp
  also have "snd ` set (zip [0..<length as] as) = set as" by (metis length_upt map_snd_zip set_map minus_nat.diff_0)
  finally show ?thesis .
qed

lemma wiki_issues_none:
  "wiki_issues r = [] \<longleftrightarrow>
     (\<forall>x \<in> set (required_actions r). \<exists>a \<in> set (or_empty (rb_wikiArtifacts r)). artifact_action a = x) \<and>
     (ActSupportBundle \<in> set (required_actions r) \<longrightarrow> or_empty (rb_supportDocCandidates r) \<noteq> [])"
  by (auto simp: wiki_issues_def missing_actions_def hasArtifactForAction_def filter_empty_conv list_ex_iff)

lemma wiki_issues_blocking:
  "filter gi_blocking (wiki_issues r) = wiki_issues r \<and>
   (\<forall>i \<in> set (wiki_issues r). gi_code i \<in> set DOCS_DEBT_ISSUE_CODES)"
  by (auto simp: wiki_issues_def push_issue_def DOCS_DEBT_ISSUE_CODES_def split: if_splits)

lemma finding_issues_none: "finding_issues (or_empty (rb_findings r)) = [] \<longleftrightarrow> findings_settled r"
proof -
  have "\<not> unresolved f \<longleftrightarrow> rf_severity f = P3 \<or> rf_status f = Some FindingResolved \<or> rf_status f = Some FindingWaived" for f
    by (cases "rf_severity f"; cases "rf_status f"; cases "the (rf_status f)") (auto simp: unresolved_def)
  then show ?thesis by (simp add: finding_issues_def findings_settled_def filter_empty_conv)
qed

lemma finding_issues_blocking:
  "filter gi_blocking (finding_issues fs) = finding_issues fs \<and>
   (\<forall>i \<in> set (finding_issues fs). gi_code i \<notin> set DOCS_DEBT_ISSUE_CODES)"
  by (auto simp: finding_issues_def push_issue_def filter_id_conv DOCS_DEBT_ISSUE_CODES_def)

lemma push_fields [simp]:
  "gi_blocking (push_issue code m b f) = b" "gi_code (push_issue code m b f) = code"
  by (simp_all add: push_issue_def)

lemma done_canonical: "{''VERIFIED'', ''COMPLETE''} \<subseteq> set TASK_STATUS_SET"
  by (simp add: TASK_STATUS_SET_def TASK_STATUSES_def)

lemma checklist_issues_blocking:
  "filter gi_blocking (checklist_issues c st) = [] \<longleftrightarrow>
     st \<notin> {''VERIFIED'', ''COMPLETE''} \<or>
     (snd (countChecklist (extractSection c ''Success Criteria'')) = 0 \<and>
      snd (countChecklist (extractSection c ''Testing Requirements'')) = 0)"
  unfolding checklist_issues_def Let_def by simp blast

lemma checklist_issues_codes: "list_all (\<lambda>i. gi_code i \<notin> set DOCS_DEBT_ISSUE_CODES) (checklist_issues c st)"
  unfolding checklist_issues_def Let_def by (simp add: DOCS_DEBT_ISSUE_CODES_def)

lemma status_issues_codes: "list_all (\<lambda>i. gi_code i \<notin> set DOCS_DEBT_ISSUE_CODES) (status_issues c)"
  unfolding status_issues_def Let_def
  by (simp add: checklist_issues_codes split: option.split) (simp add: DOCS_DEBT_ISSUE_CODES_def)

lemma status_issues_blocking: "filter gi_blocking (status_issues c) = [] \<longleftrightarrow> checklists_honest c"
proof (cases c)
  case (Some content)
  show ?thesis
  proof (cases "parseStatusLine content")
    case None
    then show ?thesis by (simp add: status_issues_def checklists_honest_def Some)
  next
    case raw: (Some raw)
    have "normalizeStatus raw \<notin> {''VERIFIED'', ''COMPLETE''}" if "normalizeStatus raw \<notin> set TASK_STATUS_SET"
      using that done_canonical by blast
    then show ?thesis
      by (simp add: status_issues_def checklists_honest_def Some raw checklist_issues_blocking Let_def)
  qed
qed (simp add: status_issues_def checklists_honest_def)

lemma blocking_issues:
  "filter gi_blocking (review_issues r c) =
     filter gi_blocking (status_issues c) @ artifact_issues (or_empty (rb_wikiArtifacts r)) @ wiki_issues r @
     finding_issues (or_empty (rb_findings r))"
  using artifact_issues_blocking wiki_issues_blocking finding_issues_blocking by (simp add: review_issues_def)

lemma gate_ready: "rg_mergeReady (evaluateReviewGate r c) \<longleftrightarrow> filter gi_blocking (review_issues r c) = []"
  by (simp add: evaluateReviewGate_def Let_def list_ex_iff filter_empty_conv)

lemma docs_debt_only:
  "list_all (\<lambda>i. gi_code i \<in> set DOCS_DEBT_ISSUE_CODES) (filter gi_blocking (review_issues r c)) \<longleftrightarrow>
     filter gi_blocking (status_issues c) = [] \<and> finding_issues (or_empty (rb_findings r)) = []"
proof -
  have none: "list_all (\<lambda>i. gi_code i \<in> set DOCS_DEBT_ISSUE_CODES) xs \<longleftrightarrow> xs = []"
    if "\<forall>i \<in> set xs. gi_code i \<notin> set DOCS_DEBT_ISSUE_CODES" for xs :: "gate_issue list"
    using that by (cases xs) auto
  have s: "\<forall>i \<in> set (filter gi_blocking (status_issues c)). gi_code i \<notin> set DOCS_DEBT_ISSUE_CODES"
    using status_issues_codes [of c] by (auto simp: list_all_iff)
  have "list_all (\<lambda>i. gi_code i \<in> set DOCS_DEBT_ISSUE_CODES) (artifact_issues as)" for as
    using artifact_issues_blocking [of as] by (simp add: list_all_iff DOCS_DEBT_ISSUE_CODES_def)
  moreover have "list_all (\<lambda>i. gi_code i \<in> set DOCS_DEBT_ISSUE_CODES) (wiki_issues r)"
    using wiki_issues_blocking [of r] by (simp add: list_all_iff)
  ultimately show ?thesis
    using none [OF s] none [of "finding_issues (or_empty (rb_findings r))"] finding_issues_blocking
    unfolding blocking_issues list_all_append by blast
qed

text \<open>
  C31: When a review is ready to merge, and when its verification may be recorded. The gate is ready exactly
  when the documentation is complete (every artifact well formed, every required action covered, candidates
  for a support bundle), no P1 or P2 finding is open, and a task that says it is done has no unchecked box.
  It is blocked by documentation debt at most exactly when the last two hold. Its decision is always
  projected, and continues exactly when the gate is ready.
\<close>

theorem review_ready_exact:
  "let gate = evaluateReviewGate review taskContent in
   (rg_mergeReady gate \<longleftrightarrow> docs_complete review \<and> findings_settled review \<and> checklists_honest taskContent) \<and>
   (blockedOnlyByDocsDebt gate \<longleftrightarrow> findings_settled review \<and> checklists_honest taskContent) \<and>
   (case rg_judgmentDecision gate of None \<Rightarrow> False
    | Some d \<Rightarrow> jd_action d = (if rg_mergeReady gate then ''continue'' else ''human_review''))"
proof -
  let ?gate = "evaluateReviewGate review taskContent"
  have issues: "rg_issues ?gate = review_issues review taskContent" by (simp add: evaluateReviewGate_def Let_def)
  have ready: "rg_mergeReady ?gate \<longleftrightarrow> docs_complete review \<and> findings_settled review \<and> checklists_honest taskContent"
    unfolding gate_ready blocking_issues append_is_Nil_conv status_issues_blocking artifact_issues_none
      wiki_issues_none finding_issues_none docs_complete_def by blast
  have "blockedOnlyByDocsDebt ?gate \<longleftrightarrow>
      list_all (\<lambda>i. gi_code i \<in> set DOCS_DEBT_ISSUE_CODES) (filter gi_blocking (review_issues review taskContent))"
    using gate_ready [of review taskContent]
    by (cases "filter gi_blocking (review_issues review taskContent)")
      (simp_all add: blockedOnlyByDocsDebt_def issues Let_def)
  with ready gate_decision [of review taskContent] show ?thesis
    unfolding docs_debt_only status_issues_blocking finding_issues_none by (auto simp: Let_def)
qed








end
