(* ===== verification/Docs_Reviews.thy ===== *)
theory Docs_Reviews
  imports Docs_Gate
begin

text \<open>
  The reviews on disk (\<open>src/review/docs-gate.ts\<close>): the index of the latest review of each task, rebuilt
  after every write and on a missing index, and the documentation files a verified review appends to.
  \<open>collate\<close> is \<open>localeCompare\<close>; values read back from JSON are assumed to have their declared types.
\<close>

section \<open>Reviews on disk\<close>

record persisted_review =
  pv_bundle :: review_bundle
  pv_reviewId :: string
  pv_createdAt :: string
  pv_gate :: review_gate

text \<open>
  A file of the directory: text that does not parse, or an object with the four fields the index reads and
  the review it is. The index file is kept apart; \<open>None\<close> when it is missing or does not parse.
\<close>

record review_content =
  rc_taskId :: js_value
  rc_reviewId :: js_value
  rc_updatedAt :: js_value
  rc_createdAt :: js_value
  rc_review :: persisted_review

datatype review_file = MalformedReview | ReviewFile review_content

record reviews_dir =
  rd_files :: "(string \<times> review_file) list"
  rd_index :: "(string \<times> string) list option"

definition js_string_or :: "js_value \<Rightarrow> string" where
  "js_string_or v = (case v of JStr s \<Rightarrow> s | _ \<Rightarrow> '''')"

definition without_json :: "string \<Rightarrow> string" where
  "without_json name = (if js_ends_with name ''.json'' then take (length name - 5) name else name)"

text \<open>The task, the review id and the sort key of a file, when it is indexed at all.\<close>

definition index_entry :: "string \<Rightarrow> review_file \<Rightarrow> (string \<times> string \<times> string) option" where
  "index_entry name file = (case file of
       MalformedReview \<Rightarrow> None
     | ReviewFile c \<Rightarrow>
         let taskId = js_trim (js_string_or (rc_taskId c)); rid = js_trim (js_string_or (rc_reviewId c));
             reviewId = (if rid \<noteq> '''' then rid else without_json name);
             updatedAt = js_string_or (rc_updatedAt c)
         in if taskId = '''' then None
            else Some (taskId, reviewId,
              (if updatedAt \<noteq> '''' then updatedAt else js_string_or (rc_createdAt c)) @ ''|'' @ reviewId))"

definition index_step ::
  "(string \<Rightarrow> string \<Rightarrow> int) \<Rightarrow> string \<times> review_file \<Rightarrow> (string \<times> string \<times> string) list
     \<Rightarrow> (string \<times> string \<times> string) list" where
  "index_step collate nf m = (case index_entry (fst nf) (snd nf) of
       None \<Rightarrow> m
     | Some (taskId, reviewId, key) \<Rightarrow>
         (case js_map_get m taskId of
            None \<Rightarrow> js_map_set taskId (reviewId, key) m
          | Some (_, old) \<Rightarrow> if collate key old > 0 then js_map_set taskId (reviewId, key) m else m))"

definition regenerateLatestByTaskIndex :: "(string \<Rightarrow> string \<Rightarrow> int) \<Rightarrow> reviews_dir \<Rightarrow> reviews_dir" where
  "regenerateLatestByTaskIndex collate d =
     (let files = filter (\<lambda>nf. js_ends_with (fst nf) ''.json'' \<and> fst nf \<noteq> ''latest-by-task.json'') (rd_files d);
          latest = fold (index_step collate) files []
      in d\<lparr>rd_index := Some (List.map_filter (\<lambda>t. map_option (\<lambda>v. (t, fst v)) (js_map_get latest t))
                              (js_sort collate (js_map_keys latest)))\<rparr>)"

definition readLatestByTaskIndex ::
  "(string \<Rightarrow> string \<Rightarrow> int) \<Rightarrow> reviews_dir \<Rightarrow> (string \<times> string) list \<times> reviews_dir" where
  "readLatestByTaskIndex collate d = (case rd_index d of
       Some i \<Rightarrow> (i, d)
     | None \<Rightarrow> (let d' = regenerateLatestByTaskIndex collate d in (the (rd_index d'), d')))"

definition review_text :: "persisted_review \<Rightarrow> review_content" where
  "review_text r = \<lparr>rc_taskId = JStr (rb_taskId (pv_bundle r)), rc_reviewId = JStr (pv_reviewId r),
     rc_updatedAt = JUndef, rc_createdAt = JStr (pv_createdAt r), rc_review = r\<rparr>"

definition review_name :: "string \<Rightarrow> string" where
  "review_name reviewId = reviewId @ ''.json''"

definition persistReviewBundle :: "(string \<Rightarrow> string \<Rightarrow> int) \<Rightarrow> persisted_review \<Rightarrow> reviews_dir \<Rightarrow> reviews_dir" where
  "persistReviewBundle collate r d =
     regenerateLatestByTaskIndex collate
       (d\<lparr>rd_files := js_map_set (review_name (pv_reviewId r)) (ReviewFile (review_text r)) (rd_files d)\<rparr>)"

definition loadLatestReviewBundleForTask ::
  "(string \<Rightarrow> string \<Rightarrow> int) \<Rightarrow> string \<Rightarrow> reviews_dir \<Rightarrow> persisted_review option \<times> reviews_dir" where
  "loadLatestReviewBundleForTask collate taskId d =
     (case readLatestByTaskIndex collate d of (latestByTask, d') \<Rightarrow>
        (case js_map_get latestByTask taskId of
           None \<Rightarrow> None
         | Some reviewId \<Rightarrow>
             if reviewId = '''' then None
             else (case js_map_get (rd_files d') (review_name reviewId) of
                     Some (ReviewFile c) \<Rightarrow> Some (rc_review c)
                   | _ \<Rightarrow> None), d'))"

section \<open>The documentation files\<close>

text \<open>
  \<open>day\<close> is \<open>new Date(createdAt).toISOString().split("T")[0]\<close>, computed by the host; \<open>toISOString\<close> throws on
  an invalid date, which is \<open>None\<close>.
\<close>

definition changelog_entry :: "string \<Rightarrow> persisted_review \<Rightarrow> string" where
  "changelog_entry day r =
     (let b = pv_bundle r; text = (\<lambda>v. case v of None \<Rightarrow> '''' | Some s \<Rightarrow> s) in
      js_join [CHR 0x0A] (filter (\<lambda>l. l \<noteq> '''')
        [''## '' @ day @ '' - '' @ rb_taskId b,
         ''- Review: `'' @ pv_reviewId r @ ''`'',
         ''- Verdict: '' @ bundle_verdict_name (rb_verdict b),
         ''- Docs Impact: '' @ docs_impact_name (rb_docsImpact b),
         (if text (rb_summary b) \<noteq> '''' then ''- Summary: '' @ text (rb_summary b) else ''- Summary: n/a''),
         (if text (rb_reviewer b) \<noteq> '''' then ''- Reviewer: '' @ text (rb_reviewer b) else ''''),
         '''']))"

definition feature_entry :: "string \<Rightarrow> persisted_review \<Rightarrow> string" where
  "feature_entry day r =
     (let b = pv_bundle r; summary = (case rb_summary b of None \<Rightarrow> '''' | Some s \<Rightarrow> s);
          artifacts = js_join [CHR 0x0A] (map (\<lambda>a. ''- '' @ wa_pagePath a @ '' ('' @
            wiki_action_name (artifact_action a) @ '', '' @ wa_commitSha a @ '')'') (or_empty (rb_wikiArtifacts b)))
      in js_join [CHR 0x0A]
        [''## '' @ day @ '' - '' @ rb_taskId b,
         (if summary \<noteq> '''' then ''Summary: '' @ summary else ''Summary: n/a''),
         (if artifacts \<noteq> '''' then artifacts else ''- No wiki artifacts attached''),
         ''''])"

definition support_record :: "string \<Rightarrow> persisted_review \<Rightarrow> nat \<times> support_candidate \<Rightarrow> js_value" where
  "support_record generatedAt r ic =
     (let b = pv_bundle r; c = snd ic in
      JObj [(''id'', JStr (''support-'' @ pv_reviewId r @ ''-'' @ digits_text (Suc (fst ic)))),
        (''reviewId'', JStr (pv_reviewId r)), (''taskId'', JStr (rb_taskId b)),
        (''title'', JStr (sd_title c)), (''summary'', JStr (sd_summary c)),
        (''productArea'', JStr (case sd_productArea c of None \<Rightarrow> ''general'' | Some p \<Rightarrow> p)),
        (''linkedTaskIds'', js_strs (js_uniq (rb_taskId b # or_empty (sd_linkedTaskIds c)))),
        (''tags'', js_strs (or_empty (sd_tags c))),
        (''wikiPages'', js_strs (map wa_pagePath (or_empty (rb_wikiArtifacts b)))),
        (''generatedAt'', JStr generatedAt)])"

record docs_files =
  df_changelog :: string
  df_features :: string
  df_support :: "js_value list"

record docs_result =
  dr_changelogPath :: bool \<comment> \<open>whether the path is set\<close>
  dr_featureUpdatesPath :: bool
  dr_supportContentPath :: bool
  dr_emittedSupportRecords :: nat

definition runDocsPipeline ::
  "string option \<Rightarrow> string \<Rightarrow> persisted_review \<Rightarrow> docs_files \<Rightarrow> (docs_result \<times> docs_files) option" where
  "runDocsPipeline day generatedAt r f =
     (let b = pv_bundle r in
      if rb_verdict b \<noteq> BundleVerified
      then Some (\<lparr>dr_changelogPath = False, dr_featureUpdatesPath = False, dr_supportContentPath = False,
                  dr_emittedSupportRecords = 0\<rparr>, f)
      else case day of
        None \<Rightarrow> None
      | Some d \<Rightarrow>
          let features = (rb_docsImpact b = FeaturePageUpdate \<or> rb_docsImpact b = ImpactSupportBundle);
              candidates = or_empty (rb_supportDocCandidates b);
              lines = map (support_record generatedAt r) (zip [0..<length candidates] candidates)
          in Some (\<lparr>dr_changelogPath = True, dr_featureUpdatesPath = features,
                    dr_supportContentPath = (candidates \<noteq> []), dr_emittedSupportRecords = length lines\<rparr>,
                   \<lparr>df_changelog = df_changelog f @ changelog_entry d r,
                    df_features = (if features then df_features f @ feature_entry d r else df_features f),
                    df_support = df_support f @ lines\<rparr>))"

section \<open>The latest review of a task\<close>

lemma index_step_get:
  "js_map_get (index_step collate nf m) t =
     (case index_entry (fst nf) (snd nf) of
        None \<Rightarrow> js_map_get m t
      | Some e \<Rightarrow>
          if fst e \<noteq> t then js_map_get m t
          else (case js_map_get m t of
              None \<Rightarrow> Some (snd e)
            | Some old \<Rightarrow> Some (if collate (snd (snd e)) (snd old) > 0 then snd e else old)))"
proof (cases "index_entry (fst nf) (snd nf)")
  case (Some e)
  then show ?thesis
    by (cases e; cases "js_map_get m (fst e)") (auto simp: index_step_def js_map.get_put)
qed (simp add: index_step_def)

lemma index_keeps:
  assumes "\<forall>nf \<in> set fs. \<forall>rid k. index_entry (fst nf) (snd nf) = Some (t, rid, k) \<longrightarrow> \<not> collate k key > 0"
    "js_map_get m t = Some (reviewId, key)"
  shows "js_map_get (fold (index_step collate) fs m) t = Some (reviewId, key)"
  using assms
proof (induction fs arbitrary: m)
  case (Cons nf fs)
  have "js_map_get (index_step collate nf m) t = Some (reviewId, key)"
    using Cons.prems by (cases "index_entry (fst nf) (snd nf)") (auto simp: index_step_get)
  with Cons show ?case by auto
qed simp

lemma index_loses:
  assumes "\<forall>nf \<in> set fs. \<forall>rid k. index_entry (fst nf) (snd nf) = Some (t, rid, k) \<longrightarrow> collate key k > 0"
    "pred_option (\<lambda>v. collate key (snd v) > 0) (js_map_get m t)"
  shows "pred_option (\<lambda>v. collate key (snd v) > 0) (js_map_get (fold (index_step collate) fs m) t)"
  using assms
proof (induction fs arbitrary: m)
  case (Cons nf fs)
  have "pred_option (\<lambda>v. collate key (snd v) > 0) (js_map_get (index_step collate nf m) t)"
    using Cons.prems
    by (cases "index_entry (fst nf) (snd nf)"; cases "js_map_get m t") (auto simp: index_step_get)
  with Cons show ?case by simp
qed simp

text \<open>A file whose sort key beats that of every other file of its task is the one indexed.\<close>

lemma index_latest:
  assumes "nf \<in> set fs" "distinct fs" "index_entry (fst nf) (snd nf) = Some (t, reviewId, key)"
    "\<forall>other \<in> set fs. \<forall>rid k. other \<noteq> nf \<longrightarrow> index_entry (fst other) (snd other) = Some (t, rid, k) \<longrightarrow>
       collate key k > 0 \<and> \<not> collate k key > 0"
  shows "js_map_get (fold (index_step collate) fs []) t = Some (reviewId, key)"
proof -
  obtain xs ys where fs: "fs = xs @ nf # ys" using assms(1) by (meson split_list)
  let ?m = "fold (index_step collate) xs []"
  have notin: "nf \<notin> set xs" "nf \<notin> set ys" using assms(2) fs by auto
  have xs: "collate key k > 0" if "other \<in> set xs" "index_entry (fst other) (snd other) = Some (t, rid, k)" for other rid k
  proof -
    have "other \<in> set fs" "other \<noteq> nf" using that(1) notin by (auto simp: fs)
    with assms(4) that(2) show ?thesis by blast
  qed
  have ys: "\<not> collate k key > 0" if "other \<in> set ys" "index_entry (fst other) (snd other) = Some (t, rid, k)" for other rid k
  proof -
    have "other \<in> set fs" "other \<noteq> nf" using that(1) notin by (auto simp: fs)
    with assms(4) that(2) show ?thesis by blast
  qed
  have "pred_option (\<lambda>v. collate key (snd v) > 0) (js_map_get ?m t)"
    by (rule index_loses) (use xs in blast, simp)
  then have "js_map_get (index_step collate nf ?m) t = Some (reviewId, key)"
    using assms(3) by (cases "js_map_get ?m t") (auto simp: index_step_get)
  then have "js_map_get (fold (index_step collate) ys (index_step collate nf ?m)) t = Some (reviewId, key)"
    by (rule index_keeps [rotated]) (use ys in blast)
  then show ?thesis by (simp add: fs)
qed

lemma projected_index:
  "js_map_get (List.map_filter (\<lambda>u. map_option (\<lambda>v. (u, fst v)) (js_map_get m u)) ks) t =
     (if t \<in> set ks then map_option fst (js_map_get m t) else None)"
  by (induction ks) (auto simp: List.map_filter_simps js_map_get_def split: option.split)

lemma regenerated_index:
  "js_map_get (the (rd_index (regenerateLatestByTaskIndex collate d))) t =
     map_option fst (js_map_get (fold (index_step collate)
       (filter (\<lambda>nf. js_ends_with (fst nf) ''.json'' \<and> fst nf \<noteq> ''latest-by-task.json'') (rd_files d)) []) t)"
proof -
  have "map_option fst (js_map_get m t) = None" if "t \<notin> set (js_map_keys m)" for m :: "(string \<times> string \<times> string) list"
    using that by (simp add: js_map_get_def js_map_keys_def map_of_eq_None_iff)
  then show ?thesis by (auto simp: regenerateLatestByTaskIndex_def Let_def projected_index)
qed

definition review_key :: "persisted_review \<Rightarrow> string" where
  "review_key r = pv_createdAt r @ ''|'' @ pv_reviewId r"

text \<open>The review is later than every other review of its task in the directory.\<close>

definition latest_of_task :: "(string \<Rightarrow> string \<Rightarrow> int) \<Rightarrow> persisted_review \<Rightarrow> reviews_dir \<Rightarrow> bool" where
  "latest_of_task collate r d =
     list_all (\<lambda>nf. fst nf = review_name (pv_reviewId r) \<or>
       (case index_entry (fst nf) (snd nf) of
          None \<Rightarrow> True
        | Some (t, _, k) \<Rightarrow> t \<noteq> rb_taskId (pv_bundle r) \<or>
            (collate (review_key r) k > 0 \<and> \<not> collate k (review_key r) > 0))) (rd_files d)"

definition id_plain :: "string \<Rightarrow> bool" where
  "id_plain s \<longleftrightarrow> s \<noteq> '''' \<and> js_trim s = s"

lemma json_name [simp]: "js_ends_with (review_name rid) ''.json''"
  by (simp add: js_ends_with_def js_starts_with_def review_name_def)

text \<open>
  C33: A review that was persisted is the one loaded for its task: after \<open>persistReviewBundle\<close>, whatever the
  directory held, the latest review of the task is the review written when its key (creation time, then id)
  beats that of every other review of the task. Task and review ids are not empty and carry no outer
  white space, and the review is not called after the index file.
\<close>

theorem latest_review_is_loaded:
  assumes "distinct (js_map_keys (rd_files d))" "id_plain (rb_taskId (pv_bundle r))" "id_plain (pv_reviewId r)"
    "pv_reviewId r \<noteq> ''latest-by-task''" "latest_of_task collate r d"
  shows "fst (loadLatestReviewBundleForTask collate (rb_taskId (pv_bundle r)) (persistReviewBundle collate r d)) = Some r"
proof -
  let ?t = "rb_taskId (pv_bundle r)" and ?n = "review_name (pv_reviewId r)"
  let ?files = "js_map_set ?n (ReviewFile (review_text r)) (rd_files d)"
  let ?fs = "filter (\<lambda>nf. js_ends_with (fst nf) ''.json'' \<and> fst nf \<noteq> ''latest-by-task.json'') ?files"
  have keys: "distinct (js_map_keys ?files)" using assms(1) by (rule js_map.distinct_put)
  have get: "js_map_get ?files ?n = Some (ReviewFile (review_text r))" by (simp add: js_map.get_put)
  have name: "?n \<noteq> ''latest-by-task.json''"
    using assms(4) append_same_eq [of "pv_reviewId r" "''.json''" "''latest-by-task''"] by (simp add: review_name_def)
  have entry: "index_entry ?n (ReviewFile (review_text r)) = Some (?t, pv_reviewId r, review_key r)"
    using assms(2,3) by (simp add: index_entry_def review_text_def js_string_or_def id_plain_def review_key_def Let_def)
  have other: "collate (review_key r) k > 0 \<and> \<not> collate k (review_key r) > 0"
    if "nf \<in> set ?files" "nf \<noteq> (?n, ReviewFile (review_text r))" "index_entry (fst nf) (snd nf) = Some (?t, rid, k)"
    for nf rid k
  proof -
    have "js_map_get ?files (fst nf) = Some (snd nf)" using that(1) by (intro js_map_get_of_mem keys) simp
    moreover have "fst nf \<noteq> ?n" using calculation get that(2) by (cases nf) auto
    ultimately have "nf \<in> set (rd_files d)" using js_map_get_in [of "rd_files d" "fst nf" "snd nf"] by (simp add: js_map.get_put)
    with assms(5) \<open>fst nf \<noteq> ?n\<close> that(3) show ?thesis by (auto simp: latest_of_task_def list_all_iff)
  qed
  have "js_map_get (fold (index_step collate) ?fs []) ?t = Some (pv_reviewId r, review_key r)"
  proof (rule index_latest [of "(?n, ReviewFile (review_text r))"])
    show "(?n, ReviewFile (review_text r)) \<in> set ?fs" using js_map_get_in [OF get] name by simp
    show "distinct ?fs" using keys by (simp add: js_map_keys_def distinct_map)
    show "index_entry (fst (?n, ReviewFile (review_text r))) (snd (?n, ReviewFile (review_text r))) =
        Some (?t, pv_reviewId r, review_key r)" using entry by simp
    show "\<forall>nf \<in> set ?fs. \<forall>rid k. nf \<noteq> (?n, ReviewFile (review_text r)) \<longrightarrow>
        index_entry (fst nf) (snd nf) = Some (?t, rid, k) \<longrightarrow>
        collate (review_key r) k > 0 \<and> \<not> collate k (review_key r) > 0"
      by (intro ballI allI impI) (rule other, simp_all)
  qed
  then have "js_map_get (the (rd_index (persistReviewBundle collate r d))) ?t = Some (pv_reviewId r)"
    by (simp add: persistReviewBundle_def regenerated_index)
  moreover obtain idx where idx: "rd_index (persistReviewBundle collate r d) = Some idx"
    "rd_files (persistReviewBundle collate r d) = ?files"
    by (simp add: persistReviewBundle_def regenerateLatestByTaskIndex_def Let_def)
  ultimately have "js_map_get idx ?t = Some (pv_reviewId r)" by simp
  with idx get assms(3) show ?thesis
    by (simp add: loadLatestReviewBundleForTask_def readLatestByTaskIndex_def id_plain_def review_text_def)
qed

definition sample_review :: "string \<Rightarrow> string \<Rightarrow> persisted_review" where
  "sample_review rid createdAt = \<lparr>
     pv_bundle = \<lparr>rb_taskId = ''TASK-7'', rb_verdict = BundleVerified, rb_docsImpact = ImpactNone,
       rb_requiredWikiActions = None, rb_wikiArtifacts = None, rb_supportDocCandidates = None, rb_findings = None,
       rb_summary = None, rb_reviewNotes = None, rb_reviewer = None\<rparr>,
     pv_reviewId = rid, pv_createdAt = createdAt,
     pv_gate = \<lparr>rg_mergeReady = True, rg_requiredWikiActions = [], rg_missingWikiActions = [], rg_issues = [],
       rg_judgmentDecision = None, rg_judgmentProjectionFailure = None, rg_judgmentOrchestration = None\<rparr>\<rparr>"

text \<open>A comparison by length orders the three keys below as \<open>localeCompare\<close> does.\<close>

definition by_length :: "string \<Rightarrow> string \<Rightarrow> int" where
  "by_length a b = int (length a) - int (length b)"

definition sample_dir :: reviews_dir where
  "sample_dir = \<lparr>rd_files = [(''r9.json'', ReviewFile (review_text (sample_review ''r9'' ''1''))), (''x.json'', MalformedReview)],
     rd_index = None\<rparr>"

lemma latest_review_is_loaded_witness:
  "fst (loadLatestReviewBundleForTask by_length ''TASK-7''
     (persistReviewBundle by_length (sample_review ''r10'' ''22'') sample_dir)) = Some (sample_review ''r10'' ''22'')"
proof -
  have "rb_taskId (pv_bundle (sample_review ''r10'' ''22'')) = ''TASK-7''" by (simp add: sample_review_def)
  moreover have "distinct (js_map_keys (rd_files sample_dir))" by code_simp
  moreover have "id_plain (rb_taskId (pv_bundle (sample_review ''r10'' ''22'')))" by code_simp
  moreover have "id_plain (pv_reviewId (sample_review ''r10'' ''22''))" by code_simp
  moreover have "pv_reviewId (sample_review ''r10'' ''22'') \<noteq> ''latest-by-task''" by code_simp
  moreover have "latest_of_task by_length (sample_review ''r10'' ''22'') sample_dir" by code_simp
  ultimately show ?thesis
    using latest_review_is_loaded [of sample_dir "sample_review ''r10'' ''22''" by_length] by simp
qed

section \<open>What the documentation pipeline writes\<close>

text \<open>
  Only a verified review writes, and it only appends: a support record per candidate, a feature update
  when the impact asks for one.
\<close>

lemma docs_pipeline_appends:
  "case runDocsPipeline day generatedAt r f of
     None \<Rightarrow> day = None \<and> rb_verdict (pv_bundle r) = BundleVerified
   | Some (res, f') \<Rightarrow>
       (\<exists>c fu sup. df_changelog f' = df_changelog f @ c \<and> df_features f' = df_features f @ fu \<and>
          df_support f' = df_support f @ sup \<and> length sup = dr_emittedSupportRecords res \<and>
          (rb_verdict (pv_bundle r) \<noteq> BundleVerified \<longrightarrow> f' = f) \<and>
          (dr_emittedSupportRecords res = (if rb_verdict (pv_bundle r) = BundleVerified
             then length (or_empty (rb_supportDocCandidates (pv_bundle r))) else 0)))"
  by (cases day) (auto simp: runDocsPipeline_def Let_def intro: exI [of _ "''''"])

text \<open>
  The entry of the changelog drops its closing empty line with the other empty lines, so the next entry's
  heading follows on the same line.
\<close>

lemma changelog_entries_are_glued:
  "changelog_entry ''2026-01-02'' (sample_review ''r1'' ''1'') @ changelog_entry ''2026-01-03'' (sample_review ''r2'' ''2'') =
     ''## 2026-01-02 - TASK-7'' @ [CHR 0x0A] @ ''- Review: `r1`'' @ [CHR 0x0A] @ ''- Verdict: VERIFIED'' @ [CHR 0x0A] @
     ''- Docs Impact: none'' @ [CHR 0x0A] @ ''- Summary: n/a## 2026-01-03 - TASK-7'' @ [CHR 0x0A] @ ''- Review: `r2`'' @
     [CHR 0x0A] @ ''- Verdict: VERIFIED'' @ [CHR 0x0A] @ ''- Docs Impact: none'' @ [CHR 0x0A] @ ''- Summary: n/a''"
  by code_simp

end
