(* ===== verification/State_Projector.thy ===== *)
theory State_Projector
  imports Evidence_Bundle Docs_Reviews Queue_Dependencies Task_Selection
begin

text \<open>
  The workflow state shown for a task (\<open>src/workflow/state-projector.ts\<close>): projected from its
  events, its latest review, its documentation events and a claimant diagnostic. \<open>collate\<close> is
  \<open>localeCompare\<close>, \<open>now\<close> the clock. Payloads have the types the code casts them to, so a field is present
  with its type or absent. A task status is not the name of a member of \<open>Object.prototype\<close>.
\<close>

section \<open>Events\<close>

record event_payload =
  ep_status :: "string option"
  ep_workflowState :: "workflow_state option"
  ep_verified :: "bool option"
  ep_outcome :: "string option"
  ep_intakeId :: "string option"
  ep_workflowId :: "string option"
  ep_lane :: "string option"
  ep_riskLevel :: "string option"
  ep_blockReasonCode :: "string option"
  ep_attempt :: "rat option"
  ep_kind :: "string option"
  ep_sealedCommitSha :: "string option"
  ep_baseSha :: "string option"
  ep_changedFiles :: "string list option"
  ep_manifestPath :: "string option"
  ep_diffPath :: "string option"

record claimant_diagnostic =
  cd_kind :: string
  cd_taskId :: string
  cd_commitSha :: string
  cd_claimants :: "string list"
  cd_scannerMethod :: string
  cd_reason :: string

record quack_event =
  qe_stage :: string
  qe_timestamp :: string
  qe_payload :: event_payload
  qe_diagnostic :: claimant_diagnostic \<comment> \<open>the payload of a \<open>recording_claimant_diagnostic\<close>\<close>

record docs_event =
  dv_jobId :: string
  dv_taskId :: string
  dv_timestamp :: string
  dv_docsImpact :: docs_impact
  dv_requiredWikiActions :: "wiki_action list option"
  dv_wikiArtifacts :: "wiki_artifact list option"
  dv_supportDocCandidates :: "support_candidate list option"

text \<open>A session, its start as text, and the events read for it.\<close>

record traced_session =
  ts_entry :: session_entry
  ts_startTime :: string
  ts_events :: "quack_event list"

record titled_task = parsed_task +
  tt_title :: string

definition STATUS_TO_BASE_STATE :: "(string \<times> workflow_state) list" where
  "STATUS_TO_BASE_STATE =
     [(''BACKLOG'', W_submitted), (''READY'', W_submitted), (''IN_PROGRESS'', W_executing), (''BLOCKED'', W_blocked),
      (''ON_HOLD'', W_blocked), (''DECOMPOSED'', W_blocked), (''VERIFYING'', W_verify_fix), (''COMPLETE'', W_reviewing),
      (''VERIFIED'', W_verified), (''REJECTED'', W_rejected)]"

definition newest_stamp :: "(string \<Rightarrow> string \<Rightarrow> int) \<Rightarrow> ('a \<Rightarrow> string) \<Rightarrow> 'a \<times> nat \<Rightarrow> 'a \<times> nat \<Rightarrow> int" where
  "newest_stamp collate stamp a b =
     (let timeDiff = collate (stamp (fst b)) (stamp (fst a)) in
      if timeDiff \<noteq> 0 then timeDiff else int (snd b) - int (snd a))"

definition latestByTimestamp :: "(string \<Rightarrow> string \<Rightarrow> int) \<Rightarrow> ('a \<Rightarrow> string) \<Rightarrow> 'a list \<Rightarrow> 'a option" where
  "latestByTimestamp collate stamp items =
     (case js_sort (newest_stamp collate stamp) (zip items [0..<length items]) of [] \<Rightarrow> None | p # _ \<Rightarrow> Some (fst p))"

definition STAGE_STATES :: "(string \<times> workflow_state) list" where
  "STAGE_STATES =
     [(''intake_submitted'', W_submitted), (''federated_job_submitted'', W_submitted), (''intake_classified'', W_classified),
      (''intake_routed'', W_routed), (''federated_job_assigned'', W_assigned), (''session_start'', W_executing),
      (''branch_created'', W_executing), (''agent_turn'', W_executing), (''agent_tool_use'', W_executing),
      (''verification_start'', W_verify_fix), (''lifecycle_verify_start'', W_verify_fix),
      (''lifecycle_fix_start'', W_verify_fix), (''lifecycle_fix_complete'', W_verify_fix),
      (''lifecycle_fix_exhausted'', W_blocked), (''federated_transport_failed'', W_blocked),
      (''federated_job_canceled'', W_canceled), (''agent_complete'', W_reviewing), (''agent_output_seal_start'', W_reviewing),
      (''agent_output_sealed'', W_reviewing), (''judge_start'', W_reviewing), (''judge_result'', W_reviewing),
      (''docs_change_event'', W_docs_followup), (''auto_merge_complete'', W_merged), (''session_error'', W_failed),
      (''worktree_failed'', W_failed), (''agent_output_seal_failed'', W_failed),
      (''lifecycle_status_update_failed'', W_failed), (''task_rejected'', W_rejected), (''dispatch_rejected'', W_rejected)]"

definition JOB_STATUS_STATES :: "(string \<times> workflow_state) list" where
  "JOB_STATUS_STATES =
     [(''assigned'', W_assigned), (''queued'', W_assigned), (''running'', W_executing), (''verifying'', W_verify_fix),
      (''fixing'', W_verify_fix), (''completed'', W_reviewing), (''failed'', W_failed), (''rejected'', W_rejected),
      (''blocked'', W_blocked), (''canceled'', W_canceled)]"

definition OUTCOME_STATES :: "(string \<times> workflow_state) list" where
  "OUTCOME_STATES =
     [(''canceled'', W_canceled), (''rejected'', W_rejected), (''failed'', W_failed), (''agent_failed'', W_failed),
      (''error'', W_failed), (''approved'', W_reviewing), (''completed'', W_reviewing), (''spec_changed'', W_blocked)]"

definition lookup_text :: "(string \<times> 'b) list \<Rightarrow> string option \<Rightarrow> 'b option" where
  "lookup_text m key = Option.bind key (map_of m)"

definition eventState :: "quack_event \<Rightarrow> workflow_state option" where
  "eventState event =
     (let payload = qe_payload event; stage = qe_stage event in
      if stage = ''federated_job_status''
      then (case ep_workflowState payload of Some w \<Rightarrow> Some w | None \<Rightarrow> lookup_text JOB_STATUS_STATES (ep_status payload))
      else if stage = ''lifecycle_verify_result''
      then Some (if ep_verified payload = Some True then W_verified else W_blocked)
      else if stage = ''session_complete'' then lookup_text OUTCOME_STATES (ep_outcome payload)
      else map_of STAGE_STATES stage)"

record intake_info =
  in_intakeId :: "string option"
  in_workflowId :: "string option"
  in_lane :: "string option"
  in_riskLevel :: "string option"

record workflow_info =
  wi_workflowId :: "string option"
  wi_blockReasonCode :: "block_reason option"

definition keep_if :: "('a \<Rightarrow> bool) \<Rightarrow> 'a option \<Rightarrow> 'a option" where
  "keep_if P x = (case x of Some v \<Rightarrow> if P v then Some v else None | None \<Rightarrow> None)"

definition intakePayloadFromEvent :: "quack_event \<Rightarrow> intake_info option" where
  "intakePayloadFromEvent event =
     (if qe_stage event \<notin> {''intake_submitted'', ''intake_classified'', ''intake_routed''} then None
      else let p = qe_payload event in
        Some \<lparr>in_intakeId = ep_intakeId p, in_workflowId = ep_workflowId p,
              in_lane = keep_if isWorkflowLane (ep_lane p), in_riskLevel = keep_if isWorkflowRiskLevel (ep_riskLevel p)\<rparr>)"

definition block_reason_of :: "string option \<Rightarrow> block_reason option" where
  "block_reason_of code = (case code of None \<Rightarrow> None
     | Some c \<Rightarrow> find (\<lambda>r. block_reason_name r = c) CANONICAL_BLOCK_REASON_CODES)"

definition workflowPayloadFromEvent :: "quack_event \<Rightarrow> workflow_info option" where
  "workflowPayloadFromEvent event =
     (if qe_stage event \<notin> {''lifecycle_verify_start'', ''lifecycle_verify_result'', ''lifecycle_fix_start'',
           ''lifecycle_fix_complete'', ''lifecycle_fix_exhausted''} then None
      else let p = qe_payload event in
        Some \<lparr>wi_workflowId = ep_workflowId p, wi_blockReasonCode = block_reason_of (ep_blockReasonCode p)\<rparr>)"

definition federatedBlockReasonFromEvent :: "quack_event \<Rightarrow> block_reason option" where
  "federatedBlockReasonFromEvent event =
     (if qe_stage event \<notin> {''federated_transport_failed'', ''federated_job_status''} then None
      else block_reason_of (ep_blockReasonCode (qe_payload event)))"

definition latest_payload ::
  "(string \<Rightarrow> string \<Rightarrow> int) \<Rightarrow> (quack_event \<Rightarrow> 'p option) \<Rightarrow> quack_event list \<Rightarrow> 'p option" where
  "latest_payload collate read events =
     map_option snd (latestByTimestamp collate fst
       (List.map_filter (\<lambda>e. map_option (\<lambda>p. (qe_timestamp e, p)) (read e)) events))"

definition latestIntakePayload where
  "latestIntakePayload collate events = latest_payload collate intakePayloadFromEvent events"

definition latestWorkflowPayload where
  "latestWorkflowPayload collate events = latest_payload collate workflowPayloadFromEvent events"

definition attempt_of :: "quack_event \<Rightarrow> attempt_input option" where
  "attempt_of event =
     (let p = qe_payload event in
      if qe_stage event \<noteq> ''agent_output_sealed'' then None
      else case (ep_attempt p, ep_kind p, ep_manifestPath p, ep_diffPath p) of
        (Some n, Some kind, Some manifest, Some diff) \<Rightarrow>
          if n = 0 \<or> kind = '''' \<or> manifest = '''' \<or> diff = '''' then None
          else Some \<lparr>at_attempt = n, at_kind = kind, at_commitSha = ep_sealedCommitSha p, at_baseSha = ep_baseSha p,
            at_changedFiles = present (ep_changedFiles p), at_manifestPath = manifest, at_diffPath = diff,
            at_sealedAt = qe_timestamp event\<rparr>
      | _ \<Rightarrow> None)"

definition outputAttemptsFromEvents :: "quack_event list \<Rightarrow> attempt_input list" where
  "outputAttemptsFromEvents events = List.map_filter attempt_of events"

definition blockReasonFromEvent :: "quack_event \<Rightarrow> block_reason option" where
  "blockReasonFromEvent event =
     (case Option.bind (workflowPayloadFromEvent event) wi_blockReasonCode of
        Some code \<Rightarrow> Some code
      | None \<Rightarrow> (case federatedBlockReasonFromEvent event of
          Some code \<Rightarrow> Some code
        | None \<Rightarrow>
            if qe_stage event \<in> {''agent_stuck_critical'', ''agent_stuck_killed'', ''lifecycle_fix_exhausted''}
            then Some WorkflowAttemptsExhausted
            else if qe_stage event = ''docs_change_event'' then Some PendingWikiArtifacts
            else if qe_stage event = ''session_complete''
            then (if ep_outcome (qe_payload event) = Some ''spec_changed'' then Some PendingManualHandoff else None)
            else None))"

section \<open>Blockers of a review\<close>

record blocker =
  bl_code :: block_reason
  bl_message :: string
  bl_field :: "string option"

definition coded_blocker :: "gate_issue \<Rightarrow> blocker option" where
  "coded_blocker issue =
     (if gi_blocking issue
      then map_option (\<lambda>c. \<lparr>bl_code = c, bl_message = gi_message issue, bl_field = gi_field issue\<rparr>)
             (gi_blockReasonCode issue)
      else None)"

definition firstReviewBlockReason :: "persisted_review \<Rightarrow> block_reason option" where
  "firstReviewBlockReason review =
     Option.bind (find (\<lambda>i. gi_blocking i \<and> gi_blockReasonCode i \<noteq> None) (rg_issues (pv_gate review))) gi_blockReasonCode"

definition buildReviewBlockers :: "persisted_review option \<Rightarrow> blocker list" where
  "buildReviewBlockers review = (case review of
       None \<Rightarrow> []
     | Some r \<Rightarrow> if rg_mergeReady (pv_gate r) then [] else List.map_filter coded_blocker (rg_issues (pv_gate r)))"

definition countSupportRecords :: "docs_event list \<Rightarrow> nat" where
  "countSupportRecords docsEvents = sum_list (map (\<lambda>e. length (or_empty (dv_supportDocCandidates e))) docsEvents)"

definition uniqueWikiActions :: "(string \<Rightarrow> string \<Rightarrow> int) \<Rightarrow> wiki_action list \<Rightarrow> wiki_action list" where
  "uniqueWikiActions collate values =
     js_sort (\<lambda>a b. collate (wiki_action_name a) (wiki_action_name b)) (js_uniq values)"

section \<open>The projection\<close>

record projection_input =
  wj_task :: titled_task
  wj_sessions :: "traced_session list"
  wj_events :: "quack_event list"
  wj_latestReview :: "persisted_review option"
  wj_docsEvents :: "docs_event list"
  wj_lane :: "string option"
  wj_riskLevel :: "string option"
  wj_hostId :: "string option"
  wj_claimantDiagnostic :: "claimant_diagnostic option"

record projection_record =
  wp_taskId :: string
  wp_intakeId :: "string option"
  wp_workflowId :: "string option"
  wp_title :: string
  wp_state :: workflow_state
  wp_blockReasonCode :: "block_reason option"
  wp_lane :: "string option"
  wp_riskLevel :: "string option"
  wp_mergeReady :: bool
  wp_docsImpact :: "docs_impact option"
  wp_requiredWikiActions :: "wiki_action list"
  wp_missingWikiActions :: "wiki_action list"
  wp_supportContentRecords :: nat
  wp_supportContentLastGeneratedAt :: "string option"
  wp_reviewId :: "string option"
  wp_jobId :: "string option"
  wp_hostId :: "string option"
  wp_sessionId :: "string option"
  wp_updatedAt :: string
  wp_blockers :: "blocker list"
  wp_evidenceBundle :: evidence_bundle
  wp_claimantDiagnostic :: "claimant_diagnostic option"

definition execution_events :: "quack_event list \<Rightarrow> quack_event list" where
  "execution_events events = filter (\<lambda>e. qe_stage e \<noteq> ''recording_claimant_diagnostic'') events"

definition latest_event :: "(string \<Rightarrow> string \<Rightarrow> int) \<Rightarrow> projection_input \<Rightarrow> quack_event option" where
  "latest_event collate input = latestByTimestamp collate qe_timestamp (execution_events (wj_events input))"

definition event_block_reason :: "(string \<Rightarrow> string \<Rightarrow> int) \<Rightarrow> projection_input \<Rightarrow> block_reason option" where
  "event_block_reason collate input = Option.bind (latest_event collate input) blockReasonFromEvent"

definition base_state :: "(string \<Rightarrow> string \<Rightarrow> int) \<Rightarrow> projection_input \<Rightarrow> workflow_state" where
  "base_state collate input =
     (case Option.bind (latest_event collate input) eventState of
        Some w \<Rightarrow> w
      | None \<Rightarrow> (case map_of STATUS_TO_BASE_STATE (pt_status (wj_task input)) of Some w \<Rightarrow> w | None \<Rightarrow> W_submitted))"

definition terminal_refusal :: "(string \<Rightarrow> string \<Rightarrow> int) \<Rightarrow> projection_input \<Rightarrow> bool" where
  "terminal_refusal collate input \<longleftrightarrow> event_block_reason collate input = Some PendingManualHandoff \<and>
     map_option qe_stage (latest_event collate input) = Some ''session_complete''"

definition merge_ready_gate :: "projection_input \<Rightarrow> bool option" where
  "merge_ready_gate input = map_option (\<lambda>r. rg_mergeReady (pv_gate r)) (wj_latestReview input)"

text \<open>State and reason after the chain of conditions, then after the two later overrides.\<close>

definition chained_state ::
  "(string \<Rightarrow> string \<Rightarrow> int) \<Rightarrow> projection_input \<Rightarrow> workflow_state \<times> block_reason option" where
  "chained_state collate input =
     (let state = base_state collate input; eventReason = event_block_reason collate input;
          reviewReason = Option.bind (wj_latestReview input) firstReviewBlockReason;
          refusal = terminal_refusal collate input; status = pt_status (wj_task input)
      in if reviewReason \<noteq> None \<and> \<not> refusal then (W_blocked, reviewReason)
         else if refusal then (W_blocked, eventReason)
         else if state = W_reviewing \<and> wj_latestReview input = None \<and> (status = ''COMPLETE'' \<or> status = ''VERIFIED'')
         then (W_blocked, Some PendingReview)
         else if state = W_docs_followup \<and> merge_ready_gate input = Some False
         then (W_blocked, Some PendingWikiArtifacts)
         else if merge_ready_gate input = Some True \<and> state = W_reviewing then (W_merge_ready, eventReason)
         else (state, eventReason))"

definition projected_state ::
  "(string \<Rightarrow> string \<Rightarrow> int) \<Rightarrow> projection_input \<Rightarrow> workflow_state \<times> block_reason option" where
  "projected_state collate input =
     (let (state, reason) = chained_state collate input;
          reason' = (if pt_status (wj_task input) = ''BLOCKED'' \<and> reason = None then Some PendingManualHandoff else reason)
      in if wj_claimantDiagnostic input \<noteq> None then (W_blocked, Some PendingManualHandoff) else (state, reason'))"

definition projected_blockers ::
  "(string \<Rightarrow> string \<Rightarrow> int) \<Rightarrow> projection_input \<Rightarrow> block_reason option \<Rightarrow> blocker list" where
  "projected_blockers collate input reason =
     (let reviewBlockers = buildReviewBlockers (wj_latestReview input) in
      if reviewBlockers \<noteq> [] \<and> \<not> terminal_refusal collate input \<and> wj_claimantDiagnostic input = None
      then reviewBlockers
      else (case reason of None \<Rightarrow> []
            | Some code \<Rightarrow> [\<lparr>bl_code = code,
                bl_message = (case wj_claimantDiagnostic input of Some c \<Rightarrow> cd_reason c | None \<Rightarrow> block_reason_name code),
                bl_field = None\<rparr>]))"

definition review_part :: "persisted_review \<Rightarrow> bundle_review" where
  "review_part r = \<lparr>re_reviewId = Some (pv_reviewId r), re_verdict = Some (rb_verdict (pv_bundle r)),
     re_mergeReady = Some (rg_mergeReady (pv_gate r)), re_docsImpact = Some (rb_docsImpact (pv_bundle r)),
     re_requiredWikiActions = Some (rg_requiredWikiActions (pv_gate r)),
     re_missingWikiActions = Some (rg_missingWikiActions (pv_gate r)),
     re_wikiArtifacts = present (rb_wikiArtifacts (pv_bundle r)),
     re_supportDocCandidates = present (rb_supportDocCandidates (pv_bundle r))\<rparr>"

definition latest_docs_event :: "(string \<Rightarrow> string \<Rightarrow> int) \<Rightarrow> projection_input \<Rightarrow> docs_event option" where
  "latest_docs_event collate input = latestByTimestamp collate dv_timestamp (wj_docsEvents input)"

definition required_wiki :: "(string \<Rightarrow> string \<Rightarrow> int) \<Rightarrow> projection_input \<Rightarrow> wiki_action list" where
  "required_wiki collate input = uniqueWikiActions collate
     ((case wj_latestReview input of None \<Rightarrow> [] | Some r \<Rightarrow> rg_requiredWikiActions (pv_gate r)) @
      or_empty (Option.bind (latest_docs_event collate input) dv_requiredWikiActions))"

definition docs_impact_of :: "(string \<Rightarrow> string \<Rightarrow> int) \<Rightarrow> projection_input \<Rightarrow> docs_impact option" where
  "docs_impact_of collate input = (case wj_latestReview input of
       Some r \<Rightarrow> Some (rb_docsImpact (pv_bundle r))
     | None \<Rightarrow> map_option dv_docsImpact (latest_docs_event collate input))"

definition docs_part :: "(string \<Rightarrow> string \<Rightarrow> int) \<Rightarrow> projection_input \<Rightarrow> docs_impact \<Rightarrow> docs_evidence" where
  "docs_part collate input impact =
     (let docs = latest_docs_event collate input in
      \<lparr>de_docsImpact = Some impact, de_requiredWikiActions = Some (required_wiki collate input),
       de_wikiArtifacts = present (Option.bind docs dv_wikiArtifacts),
       de_supportDocCandidates = present (Option.bind docs dv_supportDocCandidates),
       de_supportContentRecords = Some (of_nat (countSupportRecords (wj_docsEvents input))),
       de_lastDocsEventAt = map_option dv_timestamp docs\<rparr>)"

definition projection_evidence ::
  "(string \<Rightarrow> string \<Rightarrow> int) \<Rightarrow> string \<Rightarrow> projection_input \<Rightarrow> evidence_bundle" where
  "projection_evidence collate now input =
     (let events = execution_events (wj_events input); intake = latestIntakePayload collate events;
          wf = latestWorkflowPayload collate events; docs = latest_docs_event collate input;
          sr = projected_state collate input
      in \<lparr>eb_taskId = pt_id (wj_task input), eb_intakeId = Option.bind intake in_intakeId,
          eb_workflowId = or_else (Option.bind wf wi_workflowId) (Option.bind intake in_workflowId),
          eb_reviewId = map_option pv_reviewId (wj_latestReview input), eb_verificationRecordId = None,
          eb_jobId = map_option dv_jobId docs, eb_hostId = wj_hostId input,
          eb_sessionId = map_option (\<lambda>s. se_sessionId (ts_entry s)) (latestByTimestamp collate ts_startTime (wj_sessions input)),
          eb_workflowState = Some (fst sr), eb_blockReasonCode = snd sr,
          eb_lane = or_else (wj_lane input) (Option.bind intake in_lane),
          eb_riskLevel = or_else (wj_riskLevel input) (Option.bind intake in_riskLevel),
          eb_changedFiles = Some (pt_filesToModify (wj_task input)),
          eb_outputAttempts = Some (outputAttemptsFromEvents events),
          eb_buildResults = None, eb_testResults = None, eb_lintResults = None, eb_findings = None,
          eb_review = map_option review_part (wj_latestReview input), eb_verification = None,
          eb_docs = map_option (docs_part collate input) (docs_impact_of collate input), eb_updatedAt = Some now\<rparr>)"

text \<open>\<open>None\<close> when the schema of the evidence bundle throws.\<close>

definition projectWorkflowState ::
  "(string \<Rightarrow> string \<Rightarrow> int) \<Rightarrow> string \<Rightarrow> projection_input \<Rightarrow> projection_record option" where
  "projectWorkflowState collate now input =
     map_option (\<lambda>bundle.
       let (state, reason) = projected_state collate input in
       \<lparr>wp_taskId = pt_id (wj_task input), wp_intakeId = eb_intakeId bundle, wp_workflowId = eb_workflowId bundle,
        wp_title = tt_title (wj_task input), wp_state = state, wp_blockReasonCode = reason, wp_lane = eb_lane bundle,
        wp_riskLevel = eb_riskLevel bundle, wp_mergeReady = (state = W_merge_ready \<or> state = W_merged),
        wp_docsImpact = docs_impact_of collate input, wp_requiredWikiActions = required_wiki collate input,
        wp_missingWikiActions = uniqueWikiActions collate
          (case wj_latestReview input of None \<Rightarrow> [] | Some r \<Rightarrow> rg_missingWikiActions (pv_gate r)),
        wp_supportContentRecords = countSupportRecords (wj_docsEvents input),
        wp_supportContentLastGeneratedAt = map_option dv_timestamp (latest_docs_event collate input),
        wp_reviewId = eb_reviewId bundle, wp_jobId = eb_jobId bundle, wp_hostId = wj_hostId input,
        wp_sessionId = eb_sessionId bundle,
        wp_updatedAt = (case eb_updatedAt bundle of Some u \<Rightarrow> u | None \<Rightarrow> now),
        wp_blockers = projected_blockers collate input reason, wp_evidenceBundle = bundle,
        wp_claimantDiagnostic = wj_claimantDiagnostic input\<rparr>)
     (createEvidenceBundle (projection_evidence collate now input))"

section \<open>What is shown\<close>

lemma projected:
  assumes "projectWorkflowState collate now input = Some p"
  shows "wp_state p = fst (projected_state collate input)" "wp_blockReasonCode p = snd (projected_state collate input)"
    "wp_blockers p = projected_blockers collate input (snd (projected_state collate input))"
    "wp_mergeReady p \<longleftrightarrow> wp_state p = W_merge_ready \<or> wp_state p = W_merged"
    "wp_taskId p = pt_id (wj_task input)" "wp_claimantDiagnostic p = wj_claimantDiagnostic input"
proof -
  obtain state reason where "projected_state collate input = (state, reason)" by fastforce
  then show "wp_state p = fst (projected_state collate input)" "wp_blockReasonCode p = snd (projected_state collate input)"
    "wp_blockers p = projected_blockers collate input (snd (projected_state collate input))"
    "wp_mergeReady p \<longleftrightarrow> wp_state p = W_merge_ready \<or> wp_state p = W_merged"
    "wp_taskId p = pt_id (wj_task input)" "wp_claimantDiagnostic p = wj_claimantDiagnostic input"
    using assms by (auto simp: projectWorkflowState_def)
qed

lemma coded_blockers_head:
  "map_option bl_code (case List.map_filter coded_blocker issues of [] \<Rightarrow> None | b # _ \<Rightarrow> Some b) =
     Option.bind (find (\<lambda>i. gi_blocking i \<and> gi_blockReasonCode i \<noteq> None) issues) gi_blockReasonCode"
  by (induction issues) (auto simp: List.map_filter_simps coded_blocker_def split: option.split)

text \<open>The reason of a review that blocks is the code of its first blocker.\<close>

lemma review_reason_heads:
  assumes "buildReviewBlockers review = b # bs"
  shows "Option.bind review firstReviewBlockReason = Some (bl_code b)"
proof -
  obtain r where r: "review = Some r" "List.map_filter coded_blocker (rg_issues (pv_gate r)) = b # bs"
    using assms by (auto simp: buildReviewBlockers_def split: option.splits if_splits)
  then show ?thesis
    using coded_blockers_head [of "rg_issues (pv_gate r)"] by (simp add: firstReviewBlockReason_def)
qed

lemma projected_state_cases:
  "projected_state collate input =
     (if wj_claimantDiagnostic input \<noteq> None then (W_blocked, Some PendingManualHandoff)
      else (fst (chained_state collate input),
        if pt_status (wj_task input) = ''BLOCKED'' \<and> snd (chained_state collate input) = None
        then Some PendingManualHandoff else snd (chained_state collate input)))"
  by (simp add: projected_state_def split: prod.split)

text \<open>
  C35: The badge and the blocker list agree: a projection lists no blocker exactly when it has no block
  reason, and otherwise the first blocker carries the reason. A duplicate claim or a refusal of the
  specification puts its own reason in both, whatever an older review says.
\<close>

theorem blockers_agree_with_reason:
  "case projectWorkflowState collate now input of
     None \<Rightarrow> True
   | Some p \<Rightarrow>
       (wp_blockers p = [] \<longleftrightarrow> wp_blockReasonCode p = None) \<and>
       (case wp_blockers p of [] \<Rightarrow> True | b # _ \<Rightarrow> wp_blockReasonCode p = Some (bl_code b)) \<and>
       (if wj_claimantDiagnostic input = None \<and> \<not> terminal_refusal collate input then True
        else wp_state p = W_blocked \<and> map bl_code (wp_blockers p) = [PendingManualHandoff])"
proof (cases "projectWorkflowState collate now input")
  case (Some p)
  note p = projected [OF Some]
  have refusal: "event_block_reason collate input = Some PendingManualHandoff" if "terminal_refusal collate input"
    using that by (simp add: terminal_refusal_def)
  show ?thesis
  proof (cases "wj_claimantDiagnostic input \<noteq> None \<or> terminal_refusal collate input")
    case True
    then have "projected_state collate input = (W_blocked, Some PendingManualHandoff)"
      using refusal by (auto simp: projected_state_cases chained_state_def Let_def)
    with True show ?thesis by (auto simp: Some p projected_blockers_def Let_def)
  next
    case False
    show ?thesis
    proof (cases "buildReviewBlockers (wj_latestReview input)")
      case (Cons b bs)
      with False review_reason_heads [OF Cons]
      have "snd (projected_state collate input) = Some (bl_code b)"
        by (simp add: projected_state_cases chained_state_def Let_def)
      with False Cons show ?thesis by (simp add: Some p projected_blockers_def Let_def)
    next
      case Nil
      with False show ?thesis
        by (auto simp: Some p projected_blockers_def Let_def split: option.splits)
    qed
  qed
qed simp

text \<open>
  What an event says of its task, read off its stage and payload: that the task is merged or can be, that it
  is under review, that its specification was refused, or nothing of its state.
\<close>

definition says_ready :: "quack_event \<Rightarrow> bool" where
  "says_ready e \<longleftrightarrow> qe_stage e = ''auto_merge_complete'' \<or>
     qe_stage e = ''federated_job_status'' \<and> ep_workflowState (qe_payload e) \<in> {Some W_merge_ready, Some W_merged}"

definition says_under_review :: "quack_event \<Rightarrow> bool" where
  "says_under_review e \<longleftrightarrow>
     qe_stage e \<in> {''agent_complete'', ''agent_output_seal_start'', ''agent_output_sealed'', ''judge_start'', ''judge_result''} \<or>
     qe_stage e = ''session_complete'' \<and> ep_outcome (qe_payload e) \<in> {Some ''approved'', Some ''completed''} \<or>
     qe_stage e = ''federated_job_status'' \<and>
       (ep_workflowState (qe_payload e) = Some W_reviewing \<or>
        ep_workflowState (qe_payload e) = None \<and> ep_status (qe_payload e) = Some ''completed'')"

definition says_refused :: "quack_event \<Rightarrow> bool" where
  "says_refused e \<longleftrightarrow> qe_stage e = ''session_complete'' \<and> ep_outcome (qe_payload e) = Some ''spec_changed''"

definition says_nothing :: "quack_event \<Rightarrow> bool" where
  "says_nothing e \<longleftrightarrow>
     (if qe_stage e = ''federated_job_status''
      then ep_workflowState (qe_payload e) = None \<and>
        ep_status (qe_payload e) \<notin> Some ` {''assigned'', ''queued'', ''running'', ''verifying'', ''fixing'', ''completed'',
          ''failed'', ''rejected'', ''blocked'', ''canceled''}
      else if qe_stage e = ''session_complete''
      then ep_outcome (qe_payload e) \<notin> Some ` {''canceled'', ''rejected'', ''failed'', ''agent_failed'', ''error'',
          ''approved'', ''completed'', ''spec_changed''}
      else qe_stage e \<notin> {''lifecycle_verify_result'', ''intake_submitted'', ''federated_job_submitted'',
          ''intake_classified'', ''intake_routed'', ''federated_job_assigned'', ''session_start'', ''branch_created'',
          ''agent_turn'', ''agent_tool_use'', ''verification_start'', ''lifecycle_verify_start'', ''lifecycle_fix_start'',
          ''lifecycle_fix_complete'', ''lifecycle_fix_exhausted'', ''federated_transport_failed'',
          ''federated_job_canceled'', ''agent_complete'', ''agent_output_seal_start'', ''agent_output_sealed'',
          ''judge_start'', ''judge_result'', ''docs_change_event'', ''auto_merge_complete'', ''session_error'',
          ''worktree_failed'', ''agent_output_seal_failed'', ''lifecycle_status_update_failed'', ''task_rejected'',
          ''dispatch_rejected''})"

lemma tables_are_maps:
  "distinct (map fst STAGE_STATES)" "distinct (map fst JOB_STATUS_STATES)" "distinct (map fst OUTCOME_STATES)"
  by code_simp+

lemmas table_lookup = map_of_eq_Some_iff [OF tables_are_maps(1)] map_of_eq_Some_iff [OF tables_are_maps(2)]
  map_of_eq_Some_iff [OF tables_are_maps(3)]

lemma stage_states:
  "map_of STAGE_STATES s = Some W_merge_ready \<longleftrightarrow> False"
  "map_of STAGE_STATES s = Some W_merged \<longleftrightarrow> s = ''auto_merge_complete''"
  "map_of STAGE_STATES s = Some W_reviewing \<longleftrightarrow>
     s \<in> {''agent_complete'', ''agent_output_seal_start'', ''agent_output_sealed'', ''judge_start'', ''judge_result''}"
  "map_of STAGE_STATES s = None \<longleftrightarrow> s \<notin> set (map fst STAGE_STATES)"
  unfolding table_lookup by (auto simp: STAGE_STATES_def map_of_eq_None_iff)

lemma job_status_states:
  "map_of JOB_STATUS_STATES s = Some W_merge_ready \<longleftrightarrow> False"
  "map_of JOB_STATUS_STATES s = Some W_merged \<longleftrightarrow> False"
  "map_of JOB_STATUS_STATES s = Some W_reviewing \<longleftrightarrow> s = ''completed''"
  "map_of JOB_STATUS_STATES s = None \<longleftrightarrow> s \<notin> set (map fst JOB_STATUS_STATES)"
  unfolding table_lookup by (auto simp: JOB_STATUS_STATES_def map_of_eq_None_iff)

lemma outcome_states:
  "map_of OUTCOME_STATES s = Some W_merge_ready \<longleftrightarrow> False"
  "map_of OUTCOME_STATES s = Some W_merged \<longleftrightarrow> False"
  "map_of OUTCOME_STATES s = Some W_reviewing \<longleftrightarrow> s = ''approved'' \<or> s = ''completed''"
  "map_of OUTCOME_STATES s = None \<longleftrightarrow> s \<notin> set (map fst OUTCOME_STATES)"
  unfolding table_lookup by (auto simp: OUTCOME_STATES_def map_of_eq_None_iff)

lemma event_state_cases:
  "qe_stage e = ''federated_job_status'' \<Longrightarrow> eventState e =
     (case ep_workflowState (qe_payload e) of Some w \<Rightarrow> Some w | None \<Rightarrow> lookup_text JOB_STATUS_STATES (ep_status (qe_payload e)))"
  "qe_stage e = ''lifecycle_verify_result'' \<Longrightarrow> eventState e =
     Some (if ep_verified (qe_payload e) = Some True then W_verified else W_blocked)"
  "qe_stage e = ''session_complete'' \<Longrightarrow> eventState e = lookup_text OUTCOME_STATES (ep_outcome (qe_payload e))"
  "qe_stage e \<notin> {''federated_job_status'', ''lifecycle_verify_result'', ''session_complete''} \<Longrightarrow>
     eventState e = map_of STAGE_STATES (qe_stage e)"
  by (simp_all add: eventState_def Let_def)

lemma event_says:
  "eventState e \<in> {Some W_merge_ready, Some W_merged} \<longleftrightarrow> says_ready e"
  "eventState e = Some W_reviewing \<longleftrightarrow> says_under_review e"
  "eventState e = None \<longleftrightarrow> says_nothing e"
proof -
  consider "qe_stage e = ''federated_job_status''" | "qe_stage e = ''lifecycle_verify_result''"
    | "qe_stage e = ''session_complete''"
    | "qe_stage e \<notin> {''federated_job_status'', ''lifecycle_verify_result'', ''session_complete''}" by blast
  then have "(eventState e \<in> {Some W_merge_ready, Some W_merged} \<longleftrightarrow> says_ready e) \<and>
    (eventState e = Some W_reviewing \<longleftrightarrow> says_under_review e) \<and> (eventState e = None \<longleftrightarrow> says_nothing e)"
  proof cases
    case 1
    show ?thesis
      unfolding event_state_cases(1) [OF 1] says_ready_def says_under_review_def says_nothing_def 1
      by (cases "ep_workflowState (qe_payload e)"; cases "ep_status (qe_payload e)")
        (auto simp: lookup_text_def job_status_states JOB_STATUS_STATES_def)
  next
    case 2
    show ?thesis
      unfolding event_state_cases(2) [OF 2] says_ready_def says_under_review_def says_nothing_def 2 by simp
  next
    case 3
    show ?thesis
      unfolding event_state_cases(3) [OF 3] says_ready_def says_under_review_def says_nothing_def 3
      by (cases "ep_outcome (qe_payload e)") (auto simp: lookup_text_def outcome_states OUTCOME_STATES_def)
  next
    case 4
    have none: "map_of STAGE_STATES (qe_stage e) = None \<longleftrightarrow> says_nothing e"
      using 4 unfolding stage_states says_nothing_def by (simp add: STAGE_STATES_def)
    show ?thesis
      unfolding event_state_cases(4) [OF 4] none using 4
      by (simp add: says_ready_def says_under_review_def stage_states)
  qed
  then show "eventState e \<in> {Some W_merge_ready, Some W_merged} \<longleftrightarrow> says_ready e"
    "eventState e = Some W_reviewing \<longleftrightarrow> says_under_review e" "eventState e = None \<longleftrightarrow> says_nothing e" by blast+
qed

lemma refusal_is_said:
  "terminal_refusal collate input \<longleftrightarrow> (case latest_event collate input of None \<Rightarrow> False | Some e \<Rightarrow> says_refused e)"
  by (auto simp: terminal_refusal_def event_block_reason_def blockReasonFromEvent_def workflowPayloadFromEvent_def
      federatedBlockReasonFromEvent_def says_refused_def split: option.splits)

lemma no_blocking_issue:
  "firstReviewBlockReason r = None \<longleftrightarrow>
     list_all (\<lambda>i. \<not> (gi_blocking i \<and> gi_blockReasonCode i \<noteq> None)) (rg_issues (pv_gate r))"
proof (cases "find (\<lambda>i. gi_blocking i \<and> gi_blockReasonCode i \<noteq> None) (rg_issues (pv_gate r))")
  case None
  then have "firstReviewBlockReason r = None" unfolding firstReviewBlockReason_def by (simp only: Option.bind.simps)
  with None show ?thesis by (auto simp: find_None_iff list_all_iff)
next
  case (Some i)
  then have "i \<in> set (rg_issues (pv_gate r))" "gi_blocking i" "gi_blockReasonCode i \<noteq> None"
    by (auto simp: find_Some_iff)
  then show ?thesis using Some by (auto simp: firstReviewBlockReason_def list_all_iff)
qed

text \<open>
  C34: When a task is shown ready to merge. No duplicate claim is recorded for it, its last event does not
  refuse the specification, and its latest review, if there is one, has no blocking issue with a reason code;
  and either the last event says that the task is merged or ready to merge, or the latest review is ready and
  the task is under review, which its last event says, or, where that event says nothing of the state or there
  is none, its status \<open>COMPLETE\<close>. The last event leaves out records of claimant diagnostics.
\<close>

theorem shown_merge_ready_exact:
  "case projectWorkflowState collate now input of
     None \<Rightarrow> True
   | Some p \<Rightarrow>
       (let last = latestByTimestamp collate qe_timestamp
              (filter (\<lambda>e. qe_stage e \<noteq> ''recording_claimant_diagnostic'') (wj_events input))
        in wp_mergeReady p \<longleftrightarrow>
          wj_claimantDiagnostic input = None \<and>
          (case last of None \<Rightarrow> True | Some e \<Rightarrow> \<not> says_refused e) \<and>
          (case wj_latestReview input of
             None \<Rightarrow> True
           | Some r \<Rightarrow> list_all (\<lambda>i. \<not> (gi_blocking i \<and> gi_blockReasonCode i \<noteq> None)) (rg_issues (pv_gate r))) \<and>
          ((case last of None \<Rightarrow> False | Some e \<Rightarrow> says_ready e) \<or>
           (case wj_latestReview input of None \<Rightarrow> False | Some r \<Rightarrow> rg_mergeReady (pv_gate r)) \<and>
           (case last of
              None \<Rightarrow> pt_status (wj_task input) = ''COMPLETE''
            | Some e \<Rightarrow> says_under_review e \<or> says_nothing e \<and> pt_status (wj_task input) = ''COMPLETE'')))"
proof (cases "projectWorkflowState collate now input")
  case (Some p)
  have none: "merge_ready_gate input = None \<longleftrightarrow> wj_latestReview input = None" by (simp add: merge_ready_gate_def)
  have exact: "wp_mergeReady p \<longleftrightarrow>
      wj_claimantDiagnostic input = None \<and> \<not> terminal_refusal collate input \<and>
      Option.bind (wj_latestReview input) firstReviewBlockReason = None \<and>
      (base_state collate input \<in> {W_merge_ready, W_merged} \<or>
       base_state collate input = W_reviewing \<and> merge_ready_gate input = Some True)"
    unfolding projected(4) [OF Some] projected(1) [OF Some] projected_state_cases
    using none by (auto simp: chained_state_def Let_def)
  have review: "Option.bind (wj_latestReview input) firstReviewBlockReason = None \<longleftrightarrow>
      (case wj_latestReview input of None \<Rightarrow> True
       | Some r \<Rightarrow> list_all (\<lambda>i. \<not> (gi_blocking i \<and> gi_blockReasonCode i \<noteq> None)) (rg_issues (pv_gate r)))"
    by (simp add: no_blocking_issue split: option.split)
  have gate: "merge_ready_gate input = Some True \<longleftrightarrow>
      (case wj_latestReview input of None \<Rightarrow> False | Some r \<Rightarrow> rg_mergeReady (pv_gate r))"
    by (simp add: merge_ready_gate_def split: option.split)
  have status: "(case map_of STATUS_TO_BASE_STATE s of Some w \<Rightarrow> w | None \<Rightarrow> W_submitted) \<notin> {W_merge_ready, W_merged}"
    "(case map_of STATUS_TO_BASE_STATE s of Some w \<Rightarrow> w | None \<Rightarrow> W_submitted) = W_reviewing \<longleftrightarrow> s = ''COMPLETE''" for s
    by (simp_all add: STATUS_TO_BASE_STATE_def)
  have ready: "base_state collate input \<in> {W_merge_ready, W_merged} \<longleftrightarrow>
      (case latest_event collate input of None \<Rightarrow> False | Some e \<Rightarrow> says_ready e)"
    by (cases "latest_event collate input"; cases "Option.bind (latest_event collate input) eventState")
      (use status in \<open>auto simp: base_state_def simp flip: event_says(1)\<close>)
  have reviewing: "base_state collate input = W_reviewing \<longleftrightarrow>
      (case latest_event collate input of
         None \<Rightarrow> pt_status (wj_task input) = ''COMPLETE''
       | Some e \<Rightarrow> says_under_review e \<or> says_nothing e \<and> pt_status (wj_task input) = ''COMPLETE'')"
    by (cases "latest_event collate input"; cases "Option.bind (latest_event collate input) eventState")
      (use status in \<open>auto simp: base_state_def simp flip: event_says(2,3)\<close>)
  have refused: "\<not> terminal_refusal collate input \<longleftrightarrow>
      (case latest_event collate input of None \<Rightarrow> True | Some e \<Rightarrow> \<not> says_refused e)"
    by (simp add: refusal_is_said split: option.split)
  show ?thesis
    unfolding Some option.case Let_def exact review gate ready reviewing refused
    by (auto simp: latest_event_def execution_events_def)
qed simp

text \<open>The projection is produced exactly when the evidence passes its schema.\<close>

lemma projection_fails_exact:
  "projectWorkflowState collate now input = None \<longleftrightarrow> \<not> evidenceBundleSchema (projection_evidence collate now input)"
  by (simp add: projectWorkflowState_def createEvidenceBundle_def parseEvidenceBundle_def)

section \<open>Two places where the projection misleads\<close>

text \<open>
  A task on hold or decomposed, and a latest event that means blocked and carries no reason, are shown
  blocked with an empty list of blockers.
\<close>

lemma blocked_without_reason:
  assumes "projectWorkflowState collate now input = Some p" "base_state collate input = W_blocked"
    "event_block_reason collate input = None" "pt_status (wj_task input) \<noteq> ''BLOCKED''"
    "Option.bind (wj_latestReview input) firstReviewBlockReason = None" "wj_claimantDiagnostic input = None"
  shows "wp_state p = W_blocked \<and> wp_blockReasonCode p = None \<and> wp_blockers p = []"
proof -
  have "\<not> terminal_refusal collate input" using assms(3) by (simp add: terminal_refusal_def)
  then have "projected_state collate input = (W_blocked, None)"
    using assms by (simp add: projected_state_cases chained_state_def Let_def)
  moreover have "buildReviewBlockers (wj_latestReview input) = []"
    using review_reason_heads [of "wj_latestReview input"] assms(5)
    by (cases "buildReviewBlockers (wj_latestReview input)") auto
  ultimately show ?thesis by (simp add: projected [OF assms(1)] projected_blockers_def Let_def)
qed

lemma parked_tasks_have_no_reason:
  assumes "latest_event collate input = None" "pt_status (wj_task input) \<in> {''ON_HOLD'', ''DECOMPOSED''}"
  shows "base_state collate input = W_blocked" "event_block_reason collate input = None"
  using assms by (auto simp: base_state_def event_block_reason_def STATUS_TO_BASE_STATE_def)

lemma unverified_event_has_no_reason:
  assumes "qe_stage e = ''lifecycle_verify_result''" "ep_verified (qe_payload e) \<noteq> Some True"
    "ep_blockReasonCode (qe_payload e) = None"
  shows "eventState e = Some W_blocked" "blockReasonFromEvent e = None"
  using assms by (auto simp: eventState_def Let_def blockReasonFromEvent_def workflowPayloadFromEvent_def
      federatedBlockReasonFromEvent_def block_reason_of_def)

text \<open>
  A review the intent model lifted in enforce mode is ready and keeps its blocking issues; the projection
  reads the issues and shows the task blocked.
\<close>

lemma lifted_review_stays_blocked:
  assumes "projectWorkflowState collate now input = Some p" "wj_latestReview input = Some r"
    "rg_mergeReady (pv_gate r)" "firstReviewBlockReason r = Some code"
    "\<not> terminal_refusal collate input" "wj_claimantDiagnostic input = None"
  shows "wp_state p = W_blocked \<and> wp_blockReasonCode p = Some code \<and>
    wp_blockers p = [\<lparr>bl_code = code, bl_message = block_reason_name code, bl_field = None\<rparr>]"
proof -
  have "projected_state collate input = (W_blocked, Some code)"
    using assms by (simp add: projected_state_cases chained_state_def Let_def)
  then show ?thesis
    using assms by (simp add: projected [OF assms(1)] projected_blockers_def buildReviewBlockers_def Let_def)
qed

end
