(* ===== verification/State_Resolver.thy ===== *)
theory State_Resolver
  imports State_Projector Duplicate_Claimants
begin

text \<open>
  How the workflow state of a task is resolved and stored (\<open>src/workflow/workflow-state-resolver.ts\<close>,
  \<open>src/workflow/projection-store.ts\<close>): what is read from the sessions, the reviews, the documentation
  events and the claimant index, and when a recorded duplicate claim still counts.
\<close>

section \<open>The resolver\<close>

text \<open>
  A line of a documentation event file: text that does not parse, or a record. The directory is the list of
  its entries with their lines; unreadable, it counts as empty.
\<close>

definition loadDocsJobEvents :: "(string \<times> docs_event option list) list option \<Rightarrow> string \<Rightarrow> docs_event list" where
  "loadDocsJobEvents dir taskId =
     concat (map (\<lambda>(name, lines). if js_ends_with name ''.jsonl''
                     then filter (\<lambda>r. dv_taskId r = taskId) (List.map_filter id lines) else [])
       (or_empty dir))"

text \<open>\<open>scan\<close> is the producer of the claimant index, \<open>None\<close> without a task directory.\<close>

record resolver_input =
  ri_task :: titled_task
  ri_sessions :: "traced_session list"
  ri_hostId :: "string option"
  ri_scan :: "(string + task_claimant_declaration list) option"
  ri_reviews :: reviews_dir
  ri_docs :: "(string \<times> docs_event option list) list option"

definition task_sessions :: "resolver_input \<Rightarrow> traced_session list" where
  "task_sessions input = filter (\<lambda>s. se_taskId (ts_entry s) = pt_id (ri_task input)) (ri_sessions input)"

definition latest_diagnostic :: "(string \<Rightarrow> string \<Rightarrow> int) \<Rightarrow> resolver_input \<Rightarrow> claimant_diagnostic option" where
  "latest_diagnostic collate input =
     (case js_sort (\<lambda>a b. collate (qe_timestamp b) (qe_timestamp a))
             (filter (\<lambda>e. qe_stage e = ''recording_claimant_diagnostic'') (concat (map ts_events (task_sessions input)))) of
        [] \<Rightarrow> None | e # _ \<Rightarrow> Some (qe_diagnostic e))"

definition current_diagnostic :: "(string \<Rightarrow> string \<Rightarrow> int) \<Rightarrow> resolver_input \<Rightarrow> claimant_diagnostic option" where
  "current_diagnostic collate input =
     (case latest_diagnostic collate input of
        None \<Rightarrow> None
      | Some latest \<Rightarrow>
          (case ri_scan input of
             None \<Rightarrow> Some latest
           | Some scan \<Rightarrow>
               (case buildStrictDuplicateClaimantIndex collate (Some scan) of
                  DciUnavailable reason \<Rightarrow> Some (latest\<lparr>cd_kind := ''claimant-index-unavailable'', cd_claimants := [],
                    cd_reason := reason\<rparr>)
                | DciScanned contested \<Rightarrow>
                    map_option (\<lambda>claimants. latest\<lparr>cd_kind := ''duplicate-claimants'', cd_claimants := claimants,
                        cd_reason := ''Task '' @ pt_id (ri_task input) @ '' has a contested id claimed by: '' @
                          js_join '', '' claimants\<rparr>)
                      (js_map_get contested (pt_id (ri_task input))))))"

definition resolver_projection ::
  "(string \<Rightarrow> string \<Rightarrow> int) \<Rightarrow> resolver_input \<Rightarrow> persisted_review option \<Rightarrow> projection_input" where
  "resolver_projection collate input review =
     \<lparr>wj_task = ri_task input,
      wj_sessions = filter (\<lambda>s. \<not> isClaimantDiagnosticSession (ts_entry s)) (task_sessions input),
      wj_events = execution_events (concat (map ts_events (task_sessions input))),
      wj_latestReview = review, wj_docsEvents = loadDocsJobEvents (ri_docs input) (pt_id (ri_task input)),
      wj_lane = None, wj_riskLevel = None, wj_hostId = ri_hostId input,
      wj_claimantDiagnostic = current_diagnostic collate input\<rparr>"

definition resolveWorkflowState ::
  "(string \<Rightarrow> string \<Rightarrow> int) \<Rightarrow> string \<Rightarrow> resolver_input \<Rightarrow> projection_record option \<times> reviews_dir" where
  "resolveWorkflowState collate now input =
     (case loadLatestReviewBundleForTask collate (pt_id (ri_task input)) (ri_reviews input) of (review, reviews) \<Rightarrow>
        (projectWorkflowState collate now (resolver_projection collate input review), reviews))"

text \<open>The store keeps one file per task; one that is missing or does not parse reads as \<open>null\<close>.\<close>

type_synonym projection_store = "(string \<times> projection_record option) list"

definition store_get :: "projection_store \<Rightarrow> string \<Rightarrow> projection_record option" where
  "store_get store taskId = (case js_map_get store taskId of Some (Some r) \<Rightarrow> Some r | _ \<Rightarrow> None)"

definition store_save :: "projection_record \<Rightarrow> projection_store \<Rightarrow> projection_store" where
  "store_save record store = js_map_set (wp_taskId record) (Some record) store"

definition refreshWorkflowStateProjection ::
  "(string \<Rightarrow> string \<Rightarrow> int) \<Rightarrow> string \<Rightarrow> resolver_input \<Rightarrow> projection_store
     \<Rightarrow> projection_record option \<times> reviews_dir \<times> projection_store" where
  "refreshWorkflowStateProjection collate now input store =
     (case resolveWorkflowState collate now input of (projection, reviews) \<Rightarrow>
        (projection, reviews, (case projection of None \<Rightarrow> store | Some p \<Rightarrow> store_save p store)))"

section \<open>Contested tasks\<close>

definition diagnosed :: "resolver_input \<Rightarrow> bool" where
  "diagnosed input = list_ex (\<lambda>e. qe_stage e = ''recording_claimant_diagnostic'') (concat (map ts_events (task_sessions input)))"

lemma latest_diagnostic_iff: "latest_diagnostic collate input = None \<longleftrightarrow> \<not> diagnosed input"
proof -
  let ?ds = "filter (\<lambda>e. qe_stage e = ''recording_claimant_diagnostic'') (concat (map ts_events (task_sessions input)))"
  have "latest_diagnostic collate input = None \<longleftrightarrow> ?ds = []"
    by (simp add: latest_diagnostic_def split: list.split) (metis js_sort_eq_Nil list.distinct(1))
  then show ?thesis by (simp add: diagnosed_def filter_empty_conv list_ex_iff)
qed

text \<open>Whether the claimants of the task are in dispute now: as recorded when nothing can be scanned.\<close>

definition in_dispute :: "(string \<Rightarrow> string \<Rightarrow> int) \<Rightarrow> resolver_input \<Rightarrow> bool" where
  "in_dispute collate input \<longleftrightarrow> (case ri_scan input of
       None \<Rightarrow> True
     | Some scan \<Rightarrow> (case buildStrictDuplicateClaimantIndex collate (Some scan) of
           DciUnavailable _ \<Rightarrow> True
         | DciScanned contested \<Rightarrow> js_map_get contested (pt_id (ri_task input)) \<noteq> None))"

lemma current_diagnostic_iff:
  "current_diagnostic collate input \<noteq> None \<longleftrightarrow> diagnosed input \<and> in_dispute collate input"
  using latest_diagnostic_iff [of collate input]
  by (cases "latest_diagnostic collate input")
    (auto simp: current_diagnostic_def in_dispute_def split: option.splits duplicate_claimant_index.splits)

text \<open>
  C36: A task in dispute is never shown ready. When a diagnostic was recorded for the task and its id is
  still contested, or the scan fails or cannot be made, the resolved state is blocked on a manual handoff
  and its only blocker says why; once the scan finds one owner the diagnostic no longer counts.
\<close>

theorem contested_task_is_blocked:
  "case fst (resolveWorkflowState collate now input) of
     None \<Rightarrow> True
   | Some p \<Rightarrow>
       (wp_claimantDiagnostic p \<noteq> None \<longleftrightarrow> diagnosed input \<and> in_dispute collate input) \<and>
       (case wp_claimantDiagnostic p of None \<Rightarrow> True
        | Some d \<Rightarrow> wp_state p = W_blocked \<and> \<not> wp_mergeReady p \<and>
            wp_blockers p = [\<lparr>bl_code = PendingManualHandoff, bl_message = cd_reason d, bl_field = None\<rparr>])"
proof (cases "fst (resolveWorkflowState collate now input)")
  case (Some p)
  obtain review where "projectWorkflowState collate now (resolver_projection collate input review) = Some p"
    using Some by (auto simp: resolveWorkflowState_def split: prod.splits)
  note p = projected [OF this]
  have diagnostic: "wj_claimantDiagnostic (resolver_projection collate input review) = current_diagnostic collate input"
    by (simp add: resolver_projection_def)
  show ?thesis
    using current_diagnostic_iff [of collate input]
    by (cases "current_diagnostic collate input")
      (auto simp: Some p diagnostic projected_state_cases projected_blockers_def Let_def)
qed simp

text \<open>A refreshed projection is the one the store returns; a failed one leaves the store alone.\<close>

lemma refresh_stores:
  "case refreshWorkflowStateProjection collate now input store of (projection, reviews, store') \<Rightarrow>
     (case projection of
        None \<Rightarrow> store' = store
      | Some p \<Rightarrow> store_get store' (pt_id (ri_task input)) = Some p)"
proof -
  obtain projection reviews where res: "resolveWorkflowState collate now input = (projection, reviews)" by fastforce
  have "wp_taskId p = pt_id (ri_task input)" if some: "projection = Some p" for p
  proof -
    obtain review where "projectWorkflowState collate now (resolver_projection collate input review) = Some p"
      using res some by (auto simp: resolveWorkflowState_def split: prod.splits)
    then show ?thesis by (simp add: projected(5) resolver_projection_def)
  qed
  then show ?thesis
    by (cases projection) (auto simp: refreshWorkflowStateProjection_def res store_get_def store_save_def js_map.get_put)
qed

end
