(* ===== verification/Judge_Enforcement.thy ===== *)
theory Judge_Enforcement
  imports Judge_Verdict
begin

text \<open>
  The constraints on the judge's verdict (\<open>src/judge/enforcement-constraints.ts\<close>): a pass that is not
  enforced in code, or that every flag check contradicts, is demoted, and an approval with a demotion
  becomes a revision. Results have the types the code declares; numbers are rationals.
\<close>

section \<open>Data\<close>

datatype check_severity = CheckWarning | CheckFlag

record compliance_check =
  cc_criterion :: string
  cc_criterionIndex :: "rat option"
  cc_patternMatched :: string
  cc_found :: bool
  cc_evidence :: "string list"
  cc_description :: string
  cc_severity :: check_severity

record judged_evaluation =
  jc_criterion :: string
  jc_index :: "rat option"
  jc_status :: criterion_status
  jc_evidence :: string
  jc_reasoning :: string
  jc_enforcement :: enforcement_type

datatype demotion_rule = RuleInstructionOnly | RuleNotImplemented | RuleComplianceConflict

fun demotion_rule_name :: "demotion_rule \<Rightarrow> string" where
  "demotion_rule_name RuleInstructionOnly = ''llm_instruction_only''"
| "demotion_rule_name RuleNotImplemented = ''not_implemented''"
| "demotion_rule_name RuleComplianceConflict = ''compliance_conflict''"

text \<open>Every demotion is from \<open>PASS\<close> to \<open>PARTIAL\<close>.\<close>

record demotion =
  dm_criterion :: string
  dm_rule :: demotion_rule
  dm_detail :: string

record judged_result =
  jg_verdict :: judge_verdict
  jg_confidence :: rat
  jg_scopeViolations :: "string list"
  jg_criteriaGaps :: "string list"
  jg_qualityIssues :: "string list"
  jg_feedback :: string
  jg_criteriaEvaluation :: "judged_evaluation list option"
  jg_enforcementDemotions :: "demotion list option"
  jg_followUpItems :: "follow_up_item list option"

section \<open>The text of a criterion\<close>

definition MIN_CONTAINMENT_LENGTH :: nat where
  "MIN_CONTAINMENT_LENGTH = 12"

definition TOKEN_OVERLAP_THRESHOLD :: rat where
  "TOKEN_OVERLAP_THRESHOLD = 6 / 10"

definition MIN_TOKEN_LENGTH :: nat where
  "MIN_TOKEN_LENGTH = 3"

text \<open>\<open>^[\s>*+-]*(?:\[[ xX]?\])?\s*\<close>\<close>

definition marker_char :: "char \<Rightarrow> bool" where
  "marker_char c \<longleftrightarrow> is_js_space c \<or> c \<in> {CHR ''>'', CHR ''*'', CHR ''+'', CHR ''-''}"

definition drop_box :: "string \<Rightarrow> string" where
  "drop_box s = (case s of
       CHR ''['' # c # CHR '']'' # r \<Rightarrow> if c \<in> {CHR '' '', CHR ''x'', CHR ''X''} then r else s
     | CHR ''['' # CHR '']'' # r \<Rightarrow> r
     | _ \<Rightarrow> s)"

definition drop_markers :: "string \<Rightarrow> string" where
  "drop_markers s = dropWhile is_js_space (drop_box (dropWhile marker_char s))"

text \<open>\<open>^\d+[.)]\s*\<close>\<close>

definition drop_number :: "string \<Rightarrow> string" where
  "drop_number s = (case run_of js_digit s of
       Some (_, c # r) \<Rightarrow> if c \<in> {CHR ''.'', CHR '')''} then dropWhile is_js_space r else s
     | _ \<Rightarrow> s)"

definition closing_char :: "char \<Rightarrow> bool" where
  "closing_char c \<longleftrightarrow> is_js_space c \<or> c \<in> {CHR ''.'', CHR ''!'', CHR ''?'', CHR '':'', CHR '';'', CHR '',''}"

definition drop_closing :: "string \<Rightarrow> string" where
  "drop_closing s = rev (dropWhile closing_char (rev s))"

definition normalizeCriterionText :: "string \<Rightarrow> string" where
  "normalizeCriterionText text =
     js_trim (drop_closing (collapse_spaces False (filter (\<lambda>c. c \<noteq> CHR 0x60)
       (drop_number (drop_markers (js_to_lower text))))))"

definition token_char :: "char \<Rightarrow> bool" where
  "token_char c \<longleftrightarrow> js_lower_letter c \<or> js_digit c"

text \<open>The pieces \<open>split(/[^a-z0-9]+/u)\<close> leaves; empty ones are filtered out with the short ones.\<close>

fun token_runs :: "string \<Rightarrow> string \<Rightarrow> string list" where
  "token_runs acc [] = [rev acc]"
| "token_runs acc (c # cs) = (if token_char c then token_runs (c # acc) cs else rev acc # token_runs [] cs)"

definition tokenizeCriterion :: "string \<Rightarrow> string list" where
  "tokenizeCriterion normalized = js_uniq (filter (\<lambda>t. length t \<ge> MIN_TOKEN_LENGTH) (token_runs [] normalized))"

definition tokenOverlap :: "string list \<Rightarrow> string list \<Rightarrow> rat" where
  "tokenOverlap a b =
     (if a = [] \<or> b = [] then 0
      else let intersection = length (filter (\<lambda>t. t \<in> set b) a);
               union = length a + length b - intersection
           in if union = 0 then 0 else of_nat intersection / of_nat union)"

section \<open>Groups of compliance checks\<close>

record compliance_group =
  cg_normalized :: string
  cg_tokens :: "string list"
  cg_results :: "compliance_check list"
  cg_criterionIndex :: "rat option"

record group_match =
  gm_group :: compliance_group
  gm_rank :: nat
  gm_score :: rat

record compliance_grouping =
  gr_text :: "compliance_group list"
  gr_byIndex :: "(rat \<times> compliance_group) list"

definition new_group :: "compliance_check \<Rightarrow> rat option \<Rightarrow> compliance_group" where
  "new_group check index =
     (let normalized = normalizeCriterionText (cc_criterion check) in
      \<lparr>cg_normalized = normalized, cg_tokens = tokenizeCriterion normalized, cg_results = [check],
       cg_criterionIndex = index\<rparr>)"

definition add_check :: "'k \<Rightarrow> rat option \<Rightarrow> compliance_check \<Rightarrow> ('k \<times> compliance_group) list \<Rightarrow> ('k \<times> compliance_group) list" where
  "add_check k index check m = (case js_map_get m k of
       Some g \<Rightarrow> js_map_set k (g\<lparr>cg_results := cg_results g @ [check]\<rparr>) m
     | None \<Rightarrow> js_map_set k (new_group check index) m)"

definition groupComplianceByCriterion :: "compliance_check list \<Rightarrow> compliance_grouping" where
  "groupComplianceByCriterion checks =
     (let byCriterion = fold (\<lambda>c. add_check (cc_criterion c) None c) checks [];
          byIndex = fold (\<lambda>c m. case cc_criterionIndex c of None \<Rightarrow> m | Some i \<Rightarrow> add_check i (Some i) c m) checks [];
          indexFree = filter (\<lambda>c. cc_criterionIndex c = None) checks
      in \<lparr>gr_text = js_map_values byCriterion,
          gr_byIndex = map (\<lambda>(i, g). (i, g\<lparr>cg_results := cg_results g @
            filter (\<lambda>c. normalizeCriterionText (cc_criterion c) = cg_normalized g) indexFree\<rparr>)) byIndex\<rparr>)"

definition scoreGroup :: "string \<Rightarrow> string list \<Rightarrow> compliance_group \<Rightarrow> group_match option" where
  "scoreGroup evalNormalized evalTokens grp =
     (let g = cg_normalized grp in
      if evalNormalized = '''' \<or> g = '''' then None
      else if evalNormalized = g then Some \<lparr>gm_group = grp, gm_rank = 3, gm_score = 1\<rparr>
      else let shorter = (if length evalNormalized \<le> length g then evalNormalized else g);
               longer = (if shorter = evalNormalized then g else evalNormalized);
               overlap = tokenOverlap evalTokens (cg_tokens grp)
           in if length shorter \<ge> MIN_CONTAINMENT_LENGTH \<and> js_includes longer shorter
              then Some \<lparr>gm_group = grp, gm_rank = 2, gm_score = of_nat (length shorter)\<rparr>
              else if overlap \<ge> TOKEN_OVERLAP_THRESHOLD
              then Some \<lparr>gm_group = grp, gm_rank = 1, gm_score = overlap\<rparr>
              else None)"

definition INDEX_MATCH_RANK :: nat where
  "INDEX_MATCH_RANK = 100"

text \<open>The comparator of the sort: only its sign matters.\<close>

definition better_first :: "group_match \<Rightarrow> group_match \<Rightarrow> int" where
  "better_first a b =
     (if gm_rank a \<noteq> gm_rank b then int (gm_rank b) - int (gm_rank a)
      else if gm_score b < gm_score a then -1 else if gm_score a < gm_score b then 1 else 0)"

definition findBestGroup :: "string \<Rightarrow> compliance_group list \<Rightarrow> group_match option" where
  "findBestGroup criterion groups =
     (let normalized = normalizeCriterionText criterion; tokens = tokenizeCriterion normalized in
      case js_sort better_first (List.map_filter (scoreGroup normalized tokens) groups) of
        [] \<Rightarrow> None
      | [best] \<Rightarrow> Some best
      | best # runnerUp # _ \<Rightarrow>
          if gm_rank runnerUp = gm_rank best \<and> gm_score runnerUp = gm_score best then None else Some best)"

datatype group_resolution = Matched "group_match option" | NoGroupForIndex

text \<open>The index of an evaluation when it names a position of the specification.\<close>

definition usable_index :: "rat option \<Rightarrow> string list option \<Rightarrow> nat option" where
  "usable_index index successCriteria = (case (index, successCriteria) of
       (Some q, Some spec) \<Rightarrow>
         if q = of_int \<lfloor>q\<rfloor> \<and> q \<ge> 0 \<and> q < of_nat (length spec) then Some (nat \<lfloor>q\<rfloor>) else None
     | _ \<Rightarrow> None)"

definition corroborated :: "string \<Rightarrow> nat \<Rightarrow> string list \<Rightarrow> bool" where
  "corroborated criterion i spec \<longleftrightarrow>
     (let n = normalizeCriterionText criterion in
      normalizeCriterionText (spec ! i) = n \<and> length (filter (\<lambda>c. normalizeCriterionText c = n) spec) = 1)"

definition resolveGroup :: "judged_evaluation \<Rightarrow> compliance_grouping \<Rightarrow> string list option \<Rightarrow> group_resolution" where
  "resolveGroup evaluation groups successCriteria =
     (let text = Matched (findBestGroup (jc_criterion evaluation) (gr_text groups)) in
      case usable_index (jc_index evaluation) successCriteria of
        None \<Rightarrow> text
      | Some i \<Rightarrow>
          if corroborated (jc_criterion evaluation) i (the successCriteria)
          then (case js_map_get (gr_byIndex groups) (of_nat i) of
              None \<Rightarrow> NoGroupForIndex
            | Some g \<Rightarrow> Matched (Some \<lparr>gm_group = g, gm_rank = INDEX_MATCH_RANK, gm_score = 1\<rparr>))
          else text)"

section \<open>The constraints\<close>

definition enforcement_tag :: "enforcement_type \<Rightarrow> string" where
  "enforcement_tag t = (case t of DeterministicCode \<Rightarrow> ''deterministic_code''
     | LlmInstructionOnly \<Rightarrow> ''llm_instruction_only'' | NotImplemented \<Rightarrow> ''not_implemented'')"

definition cap_detail :: "enforcement_type \<Rightarrow> string" where
  "cap_detail t = ''enforcement_type \"'' @ enforcement_tag t @ ''\" cannot keep PASS '' @
     ''(the judge prompt contract says instruction-only or absent enforcement is at best PARTIAL)''"

definition conflict_detail :: "compliance_check list \<Rightarrow> string" where
  "conflict_detail flags = ''no code evidence found by flag-severity compliance check(s): '' @
     js_join ''; '' (js_uniq (map cc_description flags))"

definition contradicted :: "group_match option \<Rightarrow> compliance_check list option" where
  "contradicted m = (case m of
       None \<Rightarrow> None
     | Some gm \<Rightarrow> let flags = filter (\<lambda>r. cc_severity r = CheckFlag) (cg_results (gm_group gm)) in
         if flags \<noteq> [] \<and> list_all (\<lambda>r. \<not> cc_found r) flags then Some flags else None)"

text \<open>The demotion of one evaluation, if any.\<close>

definition demotion_of ::
  "compliance_grouping \<Rightarrow> string list option \<Rightarrow> judged_evaluation \<Rightarrow> demotion option" where
  "demotion_of groups successCriteria e =
     (if jc_status e \<noteq> CritPass then None
      else if jc_enforcement e = LlmInstructionOnly
      then Some \<lparr>dm_criterion = jc_criterion e, dm_rule = RuleInstructionOnly, dm_detail = cap_detail LlmInstructionOnly\<rparr>
      else if jc_enforcement e = NotImplemented
      then Some \<lparr>dm_criterion = jc_criterion e, dm_rule = RuleNotImplemented, dm_detail = cap_detail NotImplemented\<rparr>
      else (case resolveGroup e groups successCriteria of
          NoGroupForIndex \<Rightarrow> None
        | Matched m \<Rightarrow> map_option (\<lambda>flags. \<lparr>dm_criterion = jc_criterion e, dm_rule = RuleComplianceConflict,
              dm_detail = conflict_detail flags\<rparr>) (contradicted m)))"

definition demoteEvaluation :: "judged_evaluation \<Rightarrow> string \<Rightarrow> judged_evaluation" where
  "demoteEvaluation e detail =
     e\<lparr>jc_status := CritPartial, jc_reasoning := jc_reasoning e @ '' [enforcement demotion: '' @ detail @ '']''\<rparr>"

definition constrained ::
  "compliance_grouping \<Rightarrow> string list option \<Rightarrow> judged_evaluation \<Rightarrow> judged_evaluation" where
  "constrained groups successCriteria e =
     (case demotion_of groups successCriteria e of None \<Rightarrow> e | Some d \<Rightarrow> demoteEvaluation e (dm_detail d))"

definition add_gap :: "demotion \<Rightarrow> string list \<Rightarrow> string list" where
  "add_gap d gaps = (if dm_criterion d \<in> set gaps then gaps else gaps @ [dm_criterion d])"

definition override_feedback :: "demotion list \<Rightarrow> string \<Rightarrow> string" where
  "override_feedback ds feedback =
     ''[ENFORCEMENT OVERRIDE] '' @ digits_text (length ds) @ '' criterion(s) demoted PASS->PARTIAL ('' @
     js_join ''; '' (map (\<lambda>d. demotion_rule_name (dm_rule d) @ '': \"'' @ dm_criterion d @ ''\"'') ds) @
     ''). Original verdict APPROVE downgraded to REVISE. '' @ feedback"

definition applyEnforcementConstraints ::
  "judged_result \<Rightarrow> compliance_check list option \<Rightarrow> string list option \<Rightarrow> judged_result" where
  "applyEnforcementConstraints result complianceChecks successCriteria =
     (case jg_criteriaEvaluation result of
        None \<Rightarrow> result
      | Some evaluations \<Rightarrow>
          let groups = groupComplianceByCriterion (case complianceChecks of None \<Rightarrow> [] | Some cs \<Rightarrow> cs);
              demotions = List.map_filter (demotion_of groups successCriteria) evaluations;
              downgraded = (jg_verdict result = Approve)
          in if evaluations = [] \<or> demotions = [] then result
             else result\<lparr>jg_verdict := if downgraded then Revise else jg_verdict result,
               jg_feedback := if downgraded then override_feedback demotions (jg_feedback result) else jg_feedback result,
               jg_criteriaEvaluation := Some (map (constrained groups successCriteria) evaluations),
               jg_criteriaGaps := fold add_gap demotions (jg_criteriaGaps result),
               jg_enforcementDemotions :=
                 Some ((case jg_enforcementDemotions result of None \<Rightarrow> [] | Some ds \<Rightarrow> ds) @ demotions)\<rparr>)"

section \<open>What the constraints do\<close>

lemma demotion_passes: "demotion_of groups spec e = Some d \<Longrightarrow> jc_status e = CritPass \<and> dm_criterion d = jc_criterion e"
  by (auto simp: demotion_of_def split: if_splits group_resolution.splits)

lemma demotions_none:
  "List.map_filter (demotion_of groups spec) es = [] \<longleftrightarrow> list_all (\<lambda>e. demotion_of groups spec e = None) es"
  by (induction es) (auto simp: List.map_filter_simps split: option.split)

lemma constrained_simps:
  "demotion_of groups spec e = None \<Longrightarrow> constrained groups spec e = e"
  "demotion_of groups spec e = Some d \<Longrightarrow> jc_status (constrained groups spec e) = CritPartial"
  by (simp_all add: constrained_def demoteEvaluation_def)

text \<open>What is left after the constraints is no longer demoted.\<close>

lemma constrained_stable: "demotion_of groups spec (constrained groups spec e) = None"
proof (cases "demotion_of groups spec e")
  case (Some d)
  then show ?thesis using constrained_simps(2) demotion_passes by (metis criterion_status.distinct(3) option.exhaust)
qed (simp add: constrained_simps)

definition check_groups :: "compliance_check list option \<Rightarrow> compliance_grouping" where
  "check_groups checks = groupComplianceByCriterion (case checks of None \<Rightarrow> [] | Some cs \<Rightarrow> cs)"

definition demotions_of :: "judged_result \<Rightarrow> compliance_check list option \<Rightarrow> string list option \<Rightarrow> demotion list" where
  "demotions_of r checks spec =
     List.map_filter (demotion_of (check_groups checks) spec)
       (case jg_criteriaEvaluation r of None \<Rightarrow> [] | Some es \<Rightarrow> es)"

lemma apply_cases:
  "applyEnforcementConstraints r checks spec =
     (let ds = demotions_of r checks spec in
      if ds = [] then r
      else r\<lparr>jg_verdict := if jg_verdict r = Approve then Revise else jg_verdict r,
        jg_feedback := if jg_verdict r = Approve then override_feedback ds (jg_feedback r) else jg_feedback r,
        jg_criteriaEvaluation := map_option (map (constrained (check_groups checks) spec)) (jg_criteriaEvaluation r),
        jg_criteriaGaps := fold add_gap ds (jg_criteriaGaps r),
        jg_enforcementDemotions := Some ((case jg_enforcementDemotions r of None \<Rightarrow> [] | Some x \<Rightarrow> x) @ ds)\<rparr>)"
  by (auto simp: applyEnforcementConstraints_def demotions_of_def check_groups_def Let_def List.map_filter_simps
      split: option.split)

lemma demotions_again:
  "demotions_of (applyEnforcementConstraints r checks spec) checks spec = []"
proof (cases "demotions_of r checks spec = []")
  case True
  then show ?thesis by (simp add: apply_cases)
next
  case False
  then obtain es where "jg_criteriaEvaluation r = Some es"
    by (cases "jg_criteriaEvaluation r") (auto simp: demotions_of_def List.map_filter_simps)
  with False show ?thesis
    by (simp add: apply_cases Let_def demotions_of_def demotions_none list_all_iff)
      (metis constrained_stable imageE)
qed

text \<open>
  C38: Applying the constraints twice is applying them once, whatever the checks and the specification.
\<close>

theorem constraints_idempotent:
  "applyEnforcementConstraints (applyEnforcementConstraints r checks spec) checks spec =
     applyEnforcementConstraints r checks spec"
  using demotions_again [of r checks spec] by (simp add: apply_cases [of "applyEnforcementConstraints r checks spec"])

lemma gaps_grow: "set (fold add_gap ds gaps) = dm_criterion ` set ds \<union> set gaps"
  by (induction ds arbitrary: gaps) (auto simp: add_gap_def)

section \<open>A guess never demotes\<close>

lemma better_first_sign:
  "better_first a b < 0 \<longleftrightarrow> gm_rank b < gm_rank a \<or> gm_rank b = gm_rank a \<and> gm_score b < gm_score a"
  "0 < better_first a b \<longleftrightarrow> gm_rank a < gm_rank b \<or> gm_rank a = gm_rank b \<and> gm_score a < gm_score b"
  "better_first a b \<le> 0 \<longleftrightarrow> gm_rank b < gm_rank a \<or> gm_rank b = gm_rank a \<and> gm_score b \<le> gm_score a"
  by (auto simp: better_first_def)

lemma better_first_zero: "better_first a b = 0 \<longleftrightarrow> gm_rank a = gm_rank b \<and> gm_score a = gm_score b"
  by (auto simp: better_first_def)

interpretation match_order: comparator better_first
proof unfold_locales
  show "better_first x y < 0 \<longleftrightarrow> 0 < better_first y x" for x y by (simp add: better_first_sign)
  show "better_first x z \<le> 0" if "better_first x y \<le> 0" "better_first y z \<le> 0" for x y z
    using that unfolding better_first_sign by (elim disjE conjE) simp_all
qed

text \<open>The group chosen by text beats every other candidate strictly; with a tie at the top there is none.\<close>

lemma best_group_beats:
  assumes "findBestGroup criterion groups = Some m"
  shows "\<exists>rest. mset (List.map_filter (scoreGroup (normalizeCriterionText criterion)
       (tokenizeCriterion (normalizeCriterionText criterion))) groups) = add_mset m (mset rest) \<and>
     (\<forall>x \<in> set rest. better_first m x < 0)"
proof -
  let ?ms = "List.map_filter (scoreGroup (normalizeCriterionText criterion)
    (tokenizeCriterion (normalizeCriterionText criterion))) groups"
  define ss where "ss = js_sort better_first ?ms"
  have sorted: "sorted_wrt (\<lambda>a b. better_first a b \<le> 0) ss" unfolding ss_def by (rule match_order.sorted_js_sort)
  have mset: "mset ss = mset ?ms" by (simp add: ss_def)
  have found: "(case ss of [] \<Rightarrow> None | [best] \<Rightarrow> Some best
     | best # runnerUp # _ \<Rightarrow> if better_first runnerUp best = 0 then None else Some best) = Some m"
    using assms unfolding findBestGroup_def Let_def ss_def [symmetric] better_first_zero .
  obtain rest where rest: "ss = m # rest" "case rest of [] \<Rightarrow> True | x # _ \<Rightarrow> better_first x m \<noteq> 0"
    using found by (auto split: list.splits if_splits)
  have strict: "better_first m x < 0" if x: "x \<in> set rest" for x
  proof -
    obtain y ys where ys: "rest = y # ys" using x by (cases rest) auto
    have "better_first m y < 0"
      using sorted rest ys match_order.cmp_zero_sym [of m y] by (auto simp: order.order_iff_strict)
    moreover have "x = y \<or> better_first y x \<le> 0" using sorted rest(1) ys x by auto
    ultimately show ?thesis unfolding better_first_sign by (elim disjE conjE) simp_all
  qed
  show ?thesis using rest(1) mset strict by (intro exI [of _ rest]) (metis mset.simps(2))
qed

text \<open>Conversely, a candidate that beats all the others strictly is chosen.\<close>

lemma best_group_chosen:
  assumes ms: "mset (List.map_filter (scoreGroup (normalizeCriterionText criterion)
       (tokenizeCriterion (normalizeCriterionText criterion))) groups) = add_mset m (mset rest)"
    and beats: "\<forall>x \<in> set rest. better_first m x < 0"
  shows "findBestGroup criterion groups = Some m"
proof -
  define ss where "ss = js_sort better_first (List.map_filter (scoreGroup (normalizeCriterionText criterion)
       (tokenizeCriterion (normalizeCriterionText criterion))) groups)"
  have sorted: "sorted_wrt (\<lambda>a b. better_first a b \<le> 0) ss" unfolding ss_def by (rule match_order.sorted_js_sort)
  have mset: "mset ss = add_mset m (mset rest)" by (simp add: ss_def ms)
  then obtain h t where ht: "ss = h # t" by (cases ss) auto
  have "h = m"
  proof (rule ccontr)
    assume "h \<noteq> m"
    moreover have "set ss = insert m (set rest)" using mset by (metis set_mset_mset set_mset_add_mset_insert)
    ultimately have "h \<in> set rest" "m \<in> set t" using ht by auto
    then have "better_first m h < 0" "better_first h m \<le> 0" using beats sorted ht by auto
    then show False unfolding better_first_sign by (elim disjE conjE) simp_all
  qed
  with mset ht have "mset t = mset rest" by simp
  then have "\<forall>x \<in> set t. better_first x m \<noteq> 0"
    using beats by (metis match_order.cmp_zero_sym mset_eq_setD less_irrefl)
  then show ?thesis unfolding findBestGroup_def Let_def ss_def [symmetric] ht \<open>h = m\<close>
    by (cases t) (simp_all add: better_first_zero)
qed

section \<open>The checks of a criterion\<close>

text \<open>
  Which of the checks speak of an evaluation, and what they say, written without the groups. The index of an
  evaluation counts when the text at that position of the specification is the evaluation's, up to
  normalisation, and no other position has that text. The checks are then those made at that index, with the
  checks that carry no index and have the same text.
\<close>

definition all_failed :: "compliance_check set \<Rightarrow> bool" where
  "all_failed C \<longleftrightarrow> (\<exists>c \<in> C. cc_severity c = CheckFlag) \<and> (\<forall>c \<in> C. cc_severity c = CheckFlag \<longrightarrow> \<not> cc_found c)"

definition names_position :: "string list option \<Rightarrow> judged_evaluation \<Rightarrow> nat \<Rightarrow> bool" where
  "names_position spec e i \<longleftrightarrow> (case spec of None \<Rightarrow> False
     | Some cs \<Rightarrow> jc_index e = Some (of_nat i) \<and> i < length cs \<and>
         (\<forall>j < length cs. normalizeCriterionText (cs ! j) = normalizeCriterionText (jc_criterion e) \<longleftrightarrow> j = i))"

definition checks_at :: "compliance_check list \<Rightarrow> nat \<Rightarrow> compliance_check set" where
  "checks_at checks i = {c \<in> set checks. cc_criterionIndex c = Some (of_nat i) \<or> cc_criterionIndex c = None \<and>
     (case find (\<lambda>d. cc_criterionIndex d = Some (of_nat i)) checks of None \<Rightarrow> False
      | Some d \<Rightarrow> normalizeCriterionText (cc_criterion c) = normalizeCriterionText (cc_criterion d))}"

text \<open>
  Without such an index the text decides. Two texts are alike to degree 3 when they are equal after
  normalisation, 2 when one of at least 12 characters contains the other, 1 when six in ten of their words are
  shared; a degree is refined by the length of the shorter text, or by the share. The checks are those of the
  one criterion that is more alike than every other.
\<close>

definition likeness :: "string \<Rightarrow> string \<Rightarrow> (nat \<times> rat) option" where
  "likeness s t =
     (let a = normalizeCriterionText s; b = normalizeCriterionText t;
          A = set (tokenizeCriterion a); B = set (tokenizeCriterion b);
          share = of_nat (card (A \<inter> B)) / of_nat (card (A \<union> B)) in
      if a = [] \<or> b = [] then None
      else if a = b then Some (3, 1)
      else if 12 \<le> length a \<and> 12 \<le> length b \<and> (\<exists>u v. a = u @ b @ v \<or> b = u @ a @ v)
      then Some (2, of_nat (min (length a) (length b)))
      else if 6 / 10 \<le> share then Some (1, share) else None)"

definition closest :: "compliance_check list \<Rightarrow> string \<Rightarrow> string \<Rightarrow> bool" where
  "closest checks s t \<longleftrightarrow> t \<in> cc_criterion ` set checks \<and>
     (case likeness s t of None \<Rightarrow> False
      | Some (d, q) \<Rightarrow> \<forall>t' \<in> cc_criterion ` set checks - {t}.
          case likeness s t' of None \<Rightarrow> True | Some (d', q') \<Rightarrow> d' < d \<or> d' = d \<and> q' < q)"

definition refuted :: "compliance_check list \<Rightarrow> string list option \<Rightarrow> judged_evaluation \<Rightarrow> bool" where
  "refuted checks spec e \<longleftrightarrow>
     (if \<exists>i. names_position spec e i then \<exists>i. names_position spec e i \<and> all_failed (checks_at checks i)
      else \<exists>t. closest checks (jc_criterion e) t \<and> all_failed {c \<in> set checks. cc_criterion c = t})"

subsection \<open>The groups hold those checks\<close>

definition group_of :: "rat option \<Rightarrow> compliance_check list \<Rightarrow> compliance_group option" where
  "group_of ix cs = (case cs of [] \<Rightarrow> None | c # _ \<Rightarrow> Some ((new_group c ix)\<lparr>cg_results := cs\<rparr>))"

lemma group_of_none: "group_of ix cs = None \<longleftrightarrow> cs = []"
  by (simp add: group_of_def split: list.split)

lemma grouped:
  fixes key :: "compliance_check \<Rightarrow> 'k option" and ix :: "'k \<Rightarrow> rat option"
  defines "m cs \<equiv> fold (\<lambda>c m. case key c of None \<Rightarrow> m | Some k \<Rightarrow> add_check k (ix k) c m) cs []"
  shows "distinct (js_map_keys (m checks)) \<and>
    (\<forall>k. js_map_get (m checks) k = group_of (ix k) (filter (\<lambda>c. key c = Some k) checks))"
proof (induction checks rule: rev_induct)
  case (snoc c cs)
  then have IH: "distinct (js_map_keys (m cs))"
    "\<And>k. js_map_get (m cs) k = group_of (ix k) (filter (\<lambda>c. key c = Some k) cs)" by auto
  show ?case
  proof (cases "key c")
    case (Some k)
    then have "m (cs @ [c]) = add_check k (ix k) c (m cs)" by (simp add: m_def)
    with IH Some show ?thesis
      by (cases "filter (\<lambda>c. key c = Some k) cs")
        (auto simp: add_check_def group_of_def new_group_def Let_def js_map_laws js_map.distinct_put
          split: list.split)
  qed (use IH in \<open>simp add: m_def\<close>)
qed (simp add: m_def group_of_def)

definition text_group :: "compliance_check list \<Rightarrow> string \<Rightarrow> compliance_group" where
  "text_group checks t = \<lparr>cg_normalized = normalizeCriterionText t,
     cg_tokens = tokenizeCriterion (normalizeCriterionText t),
     cg_results = filter (\<lambda>c. cc_criterion c = t) checks, cg_criterionIndex = None\<rparr>"

lemma group_of_text:
  assumes "group_of None (filter (\<lambda>c. cc_criterion c = t) checks) = Some g"
  shows "g = text_group checks t"
proof -
  obtain c cs where c: "filter (\<lambda>c. cc_criterion c = t) checks = c # cs"
    using assms by (cases "filter (\<lambda>c. cc_criterion c = t) checks") (auto simp: group_of_def)
  then have "cc_criterion c = t" by (auto dest!: filter_eq_ConsD)
  with assms c show ?thesis by (simp add: group_of_def new_group_def text_group_def Let_def)
qed

lemma text_groups:
  "\<exists>ts. distinct ts \<and> set ts = cc_criterion ` set checks \<and>
     gr_text (groupComplianceByCriterion checks) = map (text_group checks) ts"
proof -
  let ?m = "fold (\<lambda>c. add_check (cc_criterion c) None c) checks []"
  have g: "distinct (js_map_keys ?m)"
    "\<And>k. js_map_get ?m k = group_of None (filter (\<lambda>c. cc_criterion c = k) checks)"
    using grouped [where key = "\<lambda>c. Some (cc_criterion c)" and ix = "\<lambda>_. None" and checks = checks]
    by simp_all
  have "k \<in> set (js_map_keys ?m) \<longleftrightarrow> k \<in> cc_criterion ` set checks" for k
    using js_map.get_None_iff [of ?m k] by (auto simp: g(2) group_of_none filter_empty_conv)
  then have "set (js_map_keys ?m) = cc_criterion ` set checks" by blast
  moreover have "js_map_values ?m = map (text_group checks) (js_map_keys ?m)"
  proof -
    have "snd p = text_group checks (fst p)" if "p \<in> set ?m" for p
      using that g js_map_get_of_mem [of ?m "fst p" "snd p"] by (metis group_of_text prod.collapse)
    then show ?thesis by (simp add: js_map_values_def js_map_keys_def)
  qed
  ultimately show ?thesis using g(1) by (auto simp: groupComplianceByCriterion_def Let_def)
qed

lemma starts_with_iff: "js_starts_with s p \<longleftrightarrow> (\<exists>v. s = p @ v)"
  by (auto simp: js_starts_with_def) (metis append_take_drop_id)

lemma includes_iff: "js_includes s p \<longleftrightarrow> (\<exists>u v. s = u @ p @ v)"
proof (induction s)
  case (Cons c cs)
  show ?case
  proof
    assume "js_includes (c # cs) p"
    then consider v where "c # cs = p @ v" | u v where "cs = u @ p @ v"
      using Cons by (auto simp: starts_with_iff)
    then show "\<exists>u v. c # cs = u @ p @ v" by cases (metis append_Nil, metis append_Cons)
  next
    assume "\<exists>u v. c # cs = u @ p @ v"
    then obtain u v where uv: "c # cs = u @ p @ v" by blast
    show "js_includes (c # cs) p"
    proof (cases u)
      case Nil
      with uv have "js_starts_with (c # cs) p" by (auto simp: starts_with_iff)
      then show ?thesis by simp
    qed (use uv Cons in auto)
  qed
qed simp

lemma overlap_is_share:
  assumes "distinct a" "distinct b"
  shows "tokenOverlap a b = of_nat (card (set a \<inter> set b)) / of_nat (card (set a \<union> set b))"
proof -
  have i: "length (filter (\<lambda>t. t \<in> set b) a) = card (set a \<inter> set b)"
    using assms(1) by (simp add: distinct_card [symmetric] Int_def)
  have u: "length a + length b - card (set a \<inter> set b) = card (set a \<union> set b)"
    using card_Un_Int [of "set a" "set b"] assms by (simp add: distinct_card)
  show ?thesis
    by (cases "a = [] \<or> b = []") (use i u in \<open>auto simp: tokenOverlap_def Let_def simp del: diff_is_0_eq\<close>)
qed

lemma tokens_distinct: "distinct (tokenizeCriterion s)"
  by (simp add: tokenizeCriterion_def)

lemma score_text_group:
  "scoreGroup (normalizeCriterionText s) (tokenizeCriterion (normalizeCriterionText s)) (text_group checks t) =
     map_option (\<lambda>(d, q). \<lparr>gm_group = text_group checks t, gm_rank = d, gm_score = q\<rparr>) (likeness s t)"
proof -
  let ?a = "normalizeCriterionText s" and ?b = "normalizeCriterionText t"
  let ?contained = "\<exists>u v. ?a = u @ ?b @ v \<or> ?b = u @ ?a @ v"
  note simps = scoreGroup_def likeness_def Let_def text_group_def MIN_CONTAINMENT_LENGTH_def
    TOKEN_OVERLAP_THRESHOLD_def overlap_is_share tokens_distinct
  show ?thesis
  proof (cases "?a = ?b")
    case False
    have no: "\<not> (\<exists>u v. x = u @ y @ v)" if "length x \<le> length y" "x \<noteq> y" for x y :: string
      using that by auto
    show ?thesis
    proof (cases "length ?a \<le> length ?b")
      case True
      then have "js_includes ?b ?a \<longleftrightarrow> ?contained" using no [OF True False] by (auto simp: includes_iff)
      with True False show ?thesis by (auto simp: simps min_def)
    next
      case longer: False
      then have "js_includes ?a ?b \<longleftrightarrow> ?contained" using no [of ?b ?a] False by (auto simp: includes_iff)
      with longer False show ?thesis by (auto simp: simps min_def)
    qed
  qed (simp add: simps)
qed

lemma set_map_filter: "set (List.map_filter f xs) = {y. \<exists>x \<in> set xs. f x = Some y}"
  by (force simp: List.map_filter_def)

lemma map_filter_append: "List.map_filter f (xs @ ys) = List.map_filter f xs @ List.map_filter f ys"
  by (simp add: List.map_filter_def)

lemma text_match_exact:
  assumes "distinct ts"
  shows "findBestGroup s (map (text_group checks) ts) = Some m \<longleftrightarrow>
    (\<exists>t \<in> set ts. \<exists>d q. likeness s t = Some (d, q) \<and>
       m = \<lparr>gm_group = text_group checks t, gm_rank = d, gm_score = q\<rparr> \<and>
       (\<forall>t' \<in> set ts - {t}. case likeness s t' of None \<Rightarrow> True | Some (d', q') \<Rightarrow> d' < d \<or> d' = d \<and> q' < q))"
proof -
  let ?score = "scoreGroup (normalizeCriterionText s) (tokenizeCriterion (normalizeCriterionText s))"
  let ?ms = "List.map_filter ?score (map (text_group checks) ts)"
  let ?beaten = "\<lambda>t d q. \<forall>t' \<in> set ts - {t}.
    case likeness s t' of None \<Rightarrow> True | Some (d', q') \<Rightarrow> d' < d \<or> d' = d \<and> q' < q"
  have others: "\<exists>rest. mset ?ms = add_mset \<lparr>gm_group = text_group checks t, gm_rank = d, gm_score = q\<rparr> (mset rest) \<and>
      ((\<forall>x \<in> set rest. better_first \<lparr>gm_group = text_group checks t, gm_rank = d, gm_score = q\<rparr> x < 0) \<longleftrightarrow> ?beaten t d q)"
    if t: "t \<in> set ts" "likeness s t = Some (d, q)" for t d q
  proof -
    let ?m = "\<lparr>gm_group = text_group checks t, gm_rank = d, gm_score = q\<rparr>"
    obtain us vs where ts: "ts = us @ t # vs" using t(1) by (meson split_list)
    let ?rest = "List.map_filter ?score (map (text_group checks) (us @ vs))"
    have "set ts - {t} = set (us @ vs)" using assms ts by auto
    then have "?beaten t d q \<longleftrightarrow> (\<forall>t' \<in> set (us @ vs).
        case likeness s t' of None \<Rightarrow> True | Some (d', q') \<Rightarrow> d' < d \<or> d' = d \<and> q' < q)" by simp
    also have "\<dots> \<longleftrightarrow> (\<forall>x \<in> set ?rest. better_first ?m x < 0)"
      unfolding set_map_filter
      by (force simp: score_text_group better_first_sign split: option.splits)
    finally have "(\<forall>x \<in> set ?rest. better_first ?m x < 0) \<longleftrightarrow> ?beaten t d q" by blast
    moreover have "mset ?ms = add_mset ?m (mset ?rest)"
      by (simp add: ts map_filter_append List.map_filter_simps score_text_group t(2))
    ultimately show ?thesis by blast
  qed
  show ?thesis
  proof
    assume found: "findBestGroup s (map (text_group checks) ts) = Some m"
    obtain rest where rest: "mset ?ms = add_mset m (mset rest)" "\<forall>x \<in> set rest. better_first m x < 0"
      using best_group_beats [OF found] by blast
    then have "m \<in> set ?ms" by (metis set_mset_mset union_single_eq_member)
    then obtain t d q where t: "t \<in> set ts" "likeness s t = Some (d, q)"
      and m: "m = \<lparr>gm_group = text_group checks t, gm_rank = d, gm_score = q\<rparr>"
      by (auto simp: set_map_filter score_text_group)
    obtain rest' where rest': "mset ?ms = add_mset m (mset rest')"
      "(\<forall>x \<in> set rest'. better_first m x < 0) \<longleftrightarrow> ?beaten t d q" using others [OF t] m by blast
    with rest have "set rest = set rest'" by (metis add_mset_add_mset_same_iff mset_eq_setD)
    with rest rest' t m show "\<exists>t \<in> set ts. \<exists>d q. likeness s t = Some (d, q) \<and>
       m = \<lparr>gm_group = text_group checks t, gm_rank = d, gm_score = q\<rparr> \<and> ?beaten t d q" by blast
  next
    assume "\<exists>t \<in> set ts. \<exists>d q. likeness s t = Some (d, q) \<and>
       m = \<lparr>gm_group = text_group checks t, gm_rank = d, gm_score = q\<rparr> \<and> ?beaten t d q"
    then obtain t d q where t: "t \<in> set ts" "likeness s t = Some (d, q)" "?beaten t d q"
      and m: "m = \<lparr>gm_group = text_group checks t, gm_rank = d, gm_score = q\<rparr>" by blast
    obtain rest where "mset ?ms = add_mset m (mset rest)" "\<forall>x \<in> set rest. better_first m x < 0"
      using others [OF t(1,2)] t(3) m by blast
    then show "findBestGroup s (map (text_group checks) ts) = Some m" by (rule best_group_chosen)
  qed
qed

lemma unique_position:
  assumes "i < length cs"
  shows "P (cs ! i) \<and> length (filter P cs) = 1 \<longleftrightarrow> (\<forall>j < length cs. P (cs ! j) \<longleftrightarrow> j = i)"
proof -
  let ?S = "{j. j < length cs \<and> P (cs ! j)}"
  have card: "length (filter P cs) = card ?S" by (rule length_filter_conv_card)
  have "?S = {i}" if "P (cs ! i)" "card ?S = 1"
  proof -
    from that(2) obtain x where x: "?S = {x}" by (rule card_1_singletonE)
    have "i \<in> ?S" using that(1) assms by simp
    with x show ?thesis by simp
  qed
  moreover have "P (cs ! i) \<and> card ?S = 1" if "?S = {i}"
  proof -
    have "i \<in> ?S" unfolding that by simp
    then have "P (cs ! i)" unfolding mem_Collect_eq by blast
    with that show ?thesis by simp
  qed
  ultimately have "P (cs ! i) \<and> length (filter P cs) = 1 \<longleftrightarrow> ?S = {i}" unfolding card by blast
  also have "\<dots> \<longleftrightarrow> (\<forall>j < length cs. P (cs ! j) \<longleftrightarrow> j = i)"
    using assms unfolding set_eq_iff mem_Collect_eq singleton_iff by blast
  finally show ?thesis .
qed

lemma named_index:
  "names_position spec e i \<longleftrightarrow>
     usable_index (jc_index e) spec = Some i \<and> corroborated (jc_criterion e) i (the spec)"
proof (cases spec)
  case (Some cs)
  have "usable_index (jc_index e) (Some cs) = Some i \<longleftrightarrow> jc_index e = Some (of_nat i) \<and> i < length cs"
    by (cases "jc_index e") (auto simp: usable_index_def)
  then show ?thesis
    using unique_position [of i cs "\<lambda>c. normalizeCriterionText c = normalizeCriterionText (jc_criterion e)"]
    by (auto simp: names_position_def corroborated_def Let_def Some)
qed (simp add: names_position_def usable_index_def split: option.split)

lemma find_as_filter: "find P xs = (case filter P xs of [] \<Rightarrow> None | x # _ \<Rightarrow> Some x)"
  by (induction xs) auto

lemma index_group:
  "case js_map_get (gr_byIndex (groupComplianceByCriterion checks)) (of_nat i) of
     None \<Rightarrow> checks_at checks i = {}
   | Some g \<Rightarrow> set (cg_results g) = checks_at checks i"
proof -
  let ?m = "fold (\<lambda>c m. case cc_criterionIndex c of None \<Rightarrow> m | Some i \<Rightarrow> add_check i (Some i) c m) checks []"
  let ?here = "filter (\<lambda>c. cc_criterionIndex c = Some (of_nat i)) checks"
  let ?free = "filter (\<lambda>c. cc_criterionIndex c = None) checks"
  have "js_map_get (gr_byIndex (groupComplianceByCriterion checks)) (of_nat i) =
      map_option (\<lambda>g. g\<lparr>cg_results := cg_results g @
        filter (\<lambda>c. normalizeCriterionText (cc_criterion c) = cg_normalized g) ?free\<rparr>) (group_of (Some (of_nat i)) ?here)"
    using grouped [where key = cc_criterionIndex and ix = Some and checks = checks]
    by (simp add: groupComplianceByCriterion_def Let_def js_map_get_def map_of_map)
  then show ?thesis
    by (cases ?here)
      (auto simp: group_of_def new_group_def Let_def checks_at_def find_as_filter filter_empty_conv dest: filter_eq_ConsD)
qed

lemma contradicted_exact: "contradicted (Some m) = None \<longleftrightarrow> \<not> all_failed (set (cg_results (gm_group m)))"
  by (auto simp: contradicted_def all_failed_def Let_def list_all_iff filter_empty_conv)

lemma resolution_exact:
  "(case resolveGroup e (groupComplianceByCriterion checks) spec of
      NoGroupForIndex \<Rightarrow> False | Matched m \<Rightarrow> contradicted m \<noteq> None) \<longleftrightarrow> refuted checks spec e"
proof (cases "\<exists>i. names_position spec e i")
  case True
  then obtain i where i: "names_position spec e i" by blast
  then have u: "\<And>j. names_position spec e j \<longleftrightarrow> j = i" by (auto simp: named_index)
  have "resolveGroup e (groupComplianceByCriterion checks) spec =
     (case js_map_get (gr_byIndex (groupComplianceByCriterion checks)) (of_nat i) of
        None \<Rightarrow> NoGroupForIndex
      | Some g \<Rightarrow> Matched (Some \<lparr>gm_group = g, gm_rank = INDEX_MATCH_RANK, gm_score = 1\<rparr>))"
    using i by (simp add: resolveGroup_def Let_def named_index)
  then show ?thesis using index_group [of checks i]
    by (auto simp: refuted_def u contradicted_exact all_failed_def split: option.splits)
next
  case False
  obtain ts where ts: "distinct ts" "set ts = cc_criterion ` set checks"
    "gr_text (groupComplianceByCriterion checks) = map (text_group checks) ts" using text_groups by blast
  have "resolveGroup e (groupComplianceByCriterion checks) spec =
      Matched (findBestGroup (jc_criterion e) (gr_text (groupComplianceByCriterion checks)))"
    using False by (auto simp: resolveGroup_def Let_def named_index split: option.split)
  moreover have "contradicted (findBestGroup (jc_criterion e) (map (text_group checks) ts)) \<noteq> None \<longleftrightarrow>
      (\<exists>t. closest checks (jc_criterion e) t \<and> all_failed {c \<in> set checks. cc_criterion c = t})"
  proof -
    define beaten where "beaten t d q \<longleftrightarrow> (\<forall>t' \<in> set ts - {t}. case likeness (jc_criterion e) t' of
        None \<Rightarrow> True | Some (d', q') \<Rightarrow> d' < d \<or> d' = d \<and> q' < q)" for t and d :: nat and q :: rat
    have chosen: "findBestGroup (jc_criterion e) (map (text_group checks) ts) = Some m \<longleftrightarrow>
        (\<exists>t \<in> set ts. \<exists>d q. likeness (jc_criterion e) t = Some (d, q) \<and>
           m = \<lparr>gm_group = text_group checks t, gm_rank = d, gm_score = q\<rparr> \<and> beaten t d q)" for m
      unfolding text_match_exact [OF ts(1)] beaten_def ..
    have close: "closest checks (jc_criterion e) t \<longleftrightarrow>
        t \<in> set ts \<and> (\<exists>d q. likeness (jc_criterion e) t = Some (d, q) \<and> beaten t d q)" for t
      unfolding closest_def ts(2) [symmetric] beaten_def
      by (cases "likeness (jc_criterion e) t"; cases "the (likeness (jc_criterion e) t)") simp_all
    have "contradicted (findBestGroup (jc_criterion e) (map (text_group checks) ts)) \<noteq> None \<longleftrightarrow>
        (\<exists>m. findBestGroup (jc_criterion e) (map (text_group checks) ts) = Some m \<and>
          all_failed (set (cg_results (gm_group m))))"
    proof (cases "findBestGroup (jc_criterion e) (map (text_group checks) ts)")
      case (Some m)
      then show ?thesis using contradicted_exact [of m] by simp
    qed (simp add: contradicted_def)
    also have "\<dots> \<longleftrightarrow> (\<exists>t. closest checks (jc_criterion e) t \<and> all_failed {c \<in> set checks. cc_criterion c = t})"
      unfolding chosen close by (fastforce simp: text_group_def)
    finally show ?thesis .
  qed
  ultimately show ?thesis using False by (simp add: refuted_def ts(3))
qed

lemma demotion_exact:
  "demotion_of (groupComplianceByCriterion checks) spec e \<noteq> None \<longleftrightarrow>
     jc_status e = CritPass \<and> (jc_enforcement e \<noteq> DeterministicCode \<or> refuted checks spec e)"
  using resolution_exact [of e checks spec]
  by (cases "jc_enforcement e") (auto simp: demotion_of_def split: group_resolution.splits)

lemma map_filter_criteria:
  assumes "\<And>e d. f e = Some d \<Longrightarrow> g d = h e"
  shows "map g (List.map_filter f es) = map h (filter (\<lambda>e. f e \<noteq> None) es)"
  using assms by (induction es) (auto simp: List.map_filter_simps split: option.split)

text \<open>
  C37: What a constrained result says, exactly. An evaluation is unfounded when it is a pass that is not
  enforced in code, or a pass that the checks of its criterion refute: there are flag checks among them and
  every one found nothing. When two criteria of the checks are equally alike to the evaluation and none is more
  alike, no checks are its own, so a pass that only such a tie speaks against is kept. The unfounded evaluations
  become partial and every other one is untouched; their criteria are added to the gaps and to the demotions;
  the verdict is the judge's, except that an approval with an unfounded evaluation is a revision; and with none
  the whole result is the judge's.
\<close>

theorem constraints_sound:
  "let r' = applyEnforcementConstraints r checks spec;
       cs = (case checks of None \<Rightarrow> [] | Some cs \<Rightarrow> cs);
       unfounded = (\<lambda>e. jc_status e = CritPass \<and> (if jc_enforcement e = DeterministicCode then refuted cs spec e else True));
       evaluations = (case jg_criteriaEvaluation r of None \<Rightarrow> [] | Some es \<Rightarrow> es);
       demoted = map jc_criterion (filter unfounded evaluations);
       listed = (\<lambda>r. case jg_enforcementDemotions r of None \<Rightarrow> [] | Some ds \<Rightarrow> map dm_criterion ds)
   in (if demoted = [] then r' = r else True) \<and>
     jg_verdict r' = (if jg_verdict r = Approve \<and> demoted \<noteq> [] then Revise else jg_verdict r) \<and>
     set (jg_criteriaGaps r') = set (jg_criteriaGaps r) \<union> set demoted \<and>
     listed r' = listed r @ demoted \<and>
     rel_option (list_all2 (\<lambda>e e'. e' =
       (if unfounded e then e\<lparr>jc_status := CritPartial, jc_reasoning := jc_reasoning e'\<rparr> else e)))
       (jg_criteriaEvaluation r) (jg_criteriaEvaluation r')"
proof -
  define cs where "cs = (case checks of None \<Rightarrow> [] | Some cs \<Rightarrow> cs)"
  define unfounded where
    "unfounded = (\<lambda>e. jc_status e = CritPass \<and> (if jc_enforcement e = DeterministicCode then refuted cs spec e else True))"
  define es where "es = (case jg_criteriaEvaluation r of None \<Rightarrow> [] | Some es \<Rightarrow> es)"
  let ?r = "applyEnforcementConstraints r checks spec" and ?ds = "demotions_of r checks spec"
  have groups: "check_groups checks = groupComplianceByCriterion cs" by (simp add: check_groups_def cs_def)
  have d: "demotion_of (check_groups checks) spec e \<noteq> None \<longleftrightarrow> unfounded e" for e
    unfolding groups demotion_exact unfounded_def by simp
  have ds: "map dm_criterion ?ds = map jc_criterion (filter unfounded es)"
    unfolding demotions_of_def es_def [symmetric] d [symmetric]
    by (rule map_filter_criteria) (simp add: demotion_passes)
  then have none: "?ds = [] \<longleftrightarrow> map jc_criterion (filter unfounded es) = []" by (metis map_is_Nil_conv)
  have gaps: "dm_criterion ` set ?ds = set (map jc_criterion (filter unfounded es))"
    using ds by (metis list.set_map)
  have one: "constrained (check_groups checks) spec e = (if unfounded e
      then e\<lparr>jc_status := CritPartial, jc_reasoning := jc_reasoning (constrained (check_groups checks) spec e)\<rparr> else e)" for e
    using d [of e] by (auto simp: constrained_def demoteEvaluation_def split: option.splits)
  have "rel_option (list_all2 (\<lambda>e e'. e' =
       (if unfounded e then e\<lparr>jc_status := CritPartial, jc_reasoning := jc_reasoning e'\<rparr> else e)))
       (jg_criteriaEvaluation r) (jg_criteriaEvaluation ?r)"
  proof (cases "?ds = []")
    case True
    then have "\<forall>e \<in> set es. \<not> unfounded e" using none by (simp add: filter_empty_conv)
    then show ?thesis using True
      by (cases "jg_criteriaEvaluation r") (auto simp: apply_cases Let_def es_def list_all2_same)
  next
    case False
    then show ?thesis using one
      by (cases "jg_criteriaEvaluation r") (auto simp: apply_cases Let_def list.rel_map list_all2_same)
  qed
  moreover have "if map jc_criterion (filter unfounded es) = [] then ?r = r else True"
    using none by (simp add: apply_cases Let_def)
  moreover have "jg_verdict ?r = (if jg_verdict r = Approve \<and> map jc_criterion (filter unfounded es) \<noteq> [] then Revise else jg_verdict r)"
    unfolding none [symmetric] by (simp add: apply_cases Let_def)
  moreover have "set (jg_criteriaGaps ?r) = set (jg_criteriaGaps r) \<union> set (map jc_criterion (filter unfounded es))"
    unfolding gaps [symmetric] by (auto simp: apply_cases Let_def gaps_grow)
  moreover have "(case jg_enforcementDemotions ?r of None \<Rightarrow> [] | Some ds \<Rightarrow> map dm_criterion ds) =
      (case jg_enforcementDemotions r of None \<Rightarrow> [] | Some ds \<Rightarrow> map dm_criterion ds) @ map jc_criterion (filter unfounded es)"
    unfolding ds [symmetric] by (auto simp: apply_cases Let_def split: option.split)
  ultimately show ?thesis unfolding Let_def cs_def es_def unfounded_def by (intro conjI)
qed

section \<open>The index of a parsed answer\<close>

definition text_value :: "js_value \<Rightarrow> string option" where
  "text_value v = (case v of JStr s \<Rightarrow> Some s | _ \<Rightarrow> None)"

definition text_values :: "js_value \<Rightarrow> string list option" where
  "text_values v = (case v of JArr xs \<Rightarrow> those (map text_value xs) | _ \<Rightarrow> None)"

text \<open>An evaluation as \<open>parseJudgeResponse\<close> builds it: it never sets the index of a criterion.\<close>

definition typed_evaluation :: "criterion_evaluation \<Rightarrow> judged_evaluation option" where
  "typed_evaluation e =
     (case (text_value (ce_criterion e), text_value (ce_evidence e), text_value (ce_reasoning e)) of
        (Some c, Some v, Some r) \<Rightarrow> Some \<lparr>jc_criterion = c, jc_index = None, jc_status = ce_status e, jc_evidence = v,
          jc_reasoning = r, jc_enforcement = ce_enforcement e\<rparr>
      | _ \<Rightarrow> None)"

text \<open>A parsed result whose fields have their declared types.\<close>

definition typed_result :: "judge_result \<Rightarrow> judged_result option" where
  "typed_result r =
     (case (text_values (jr_scopeViolations r), text_values (jr_criteriaGaps r), text_values (jr_qualityIssues r),
            text_value (jr_feedback r),
            case jr_criteriaEvaluation r of None \<Rightarrow> Some None | Some es \<Rightarrow> map_option Some (those (map typed_evaluation es))) of
        (Some sv, Some gaps, Some q, Some f, Some es) \<Rightarrow>
          Some \<lparr>jg_verdict = jr_verdict r, jg_confidence = jr_confidence r, jg_scopeViolations = sv, jg_criteriaGaps = gaps,
            jg_qualityIssues = q, jg_feedback = f, jg_criteriaEvaluation = es, jg_enforcementDemotions = None,
            jg_followUpItems = jr_followUpItems r\<rparr>
      | _ \<Rightarrow> None)"

lemma those_in: "those xs = Some ys \<Longrightarrow> y \<in> set ys \<Longrightarrow> Some y \<in> set xs"
  by (induction xs arbitrary: ys) (auto split: option.splits)

lemma typed_index: "typed_result r = Some t \<Longrightarrow> jg_criteriaEvaluation t = Some es \<Longrightarrow> e \<in> set es \<Longrightarrow> jc_index e = None"
  by (auto simp: typed_result_def typed_evaluation_def split: option.splits dest!: those_in)

text \<open>
  So the specification's criteria, which only corroborate an index, play no part: every result of the
  parser is matched by text.
\<close>

lemma criterion_index_unused:
  assumes "typed_result r = Some t"
  shows "applyEnforcementConstraints t checks spec = applyEnforcementConstraints t checks None"
proof (cases "jg_criteriaEvaluation t")
  case (Some es)
  have e: "demotion_of g spec e = demotion_of g None e \<and> constrained g spec e = constrained g None e"
    if "e \<in> set es" for e g
    using typed_index [OF assms Some that] by (simp add: demotion_of_def constrained_def resolveGroup_def usable_index_def)
  have "List.map_filter (demotion_of g spec) es = List.map_filter (demotion_of g None) es"
    "map (constrained g spec) es = map (constrained g None) es" for g
    using e by (induction es) (auto simp: List.map_filter_simps split: option.split)
  then show ?thesis unfolding applyEnforcementConstraints_def Some option.case Let_def by (simp only:)
qed (simp add: applyEnforcementConstraints_def)

end
