(* ===== verification/Progress_Detector.thy ===== *)
theory Progress_Detector
  imports Harness_Prelude
begin

text \<open>
  The detector of stuck agents (\<open>src/monitor/progress-detector.ts\<close>): what it tracks of each dispatch, the
  health it reports, and the warnings its periodic check emits. \<open>now\<close> is the clock, read once per call;
  the callback is modelled by the events handed to it, and does not call the detector back. Instants are
  kept as numbers, and the reasons of \<open>shouldKill\<close> as data.
\<close>

section \<open>State\<close>

record stuck_config =
  sc_enabled :: bool
  sc_warningMinutes :: rat
  sc_criticalMinutes :: rat
  sc_killMinutes :: rat
  sc_checkIntervalSeconds :: rat
  sc_fileHeartbeat :: bool

definition DEFAULT_STUCK_CONFIG :: stuck_config where
  "DEFAULT_STUCK_CONFIG = \<lparr>sc_enabled = True, sc_warningMinutes = 5, sc_criticalMinutes = 10, sc_killMinutes = 15,
     sc_checkIntervalSeconds = 30, sc_fileHeartbeat = True\<rparr>"

record partial_stuck_config =
  psc_enabled :: "bool option"
  psc_warningMinutes :: "rat option"
  psc_criticalMinutes :: "rat option"
  psc_killMinutes :: "rat option"
  psc_checkIntervalSeconds :: "rat option"
  psc_fileHeartbeat :: "bool option"

datatype health_status = Healthy | Slow | Warning | Critical | Stuck

record task_tracking =
  tt_taskId :: string
  tt_sessionId :: string
  tt_startedAt :: millis
  tt_lastActivityTime :: millis
  tt_lastActivityType :: string
  tt_lastActivityDetail :: string
  tt_lastFileActivityTime :: millis
  tt_turnCount :: nat
  tt_toolUseCount :: nat
  tt_cumulativeCostUsd :: usd
  tt_inLlmResponse :: bool
  tt_warningEmitted :: bool
  tt_criticalEmitted :: bool

record agent_health =
  ah_taskId :: string
  ah_status :: health_status
  ah_lastActivity :: "string \<times> string \<times> millis"
  ah_silentMs :: millis
  ah_turnCount :: nat
  ah_toolUseCount :: nat
  ah_cumulativeCostUsd :: usd
  ah_startedAt :: millis
  ah_inLlmResponse :: bool

datatype stuck_level = LevelWarning | LevelCritical | LevelKill

record stuck_event =
  sk_taskId :: string
  sk_sessionId :: string
  sk_level :: stuck_level
  sk_silentMs :: millis
  sk_lastActivity :: string
  sk_turnNumber :: nat
  sk_totalCostUsd :: usd

text \<open>The interval timer is a flag, and so is the presence of a callback.\<close>

record progress_detector =
  pd_config :: stuck_config
  pd_tracking :: "(string \<times> task_tracking) list"
  pd_checking :: bool
  pd_callback :: bool

definition new_detector :: "partial_stuck_config \<Rightarrow> progress_detector" where
  "new_detector p = (let d = DEFAULT_STUCK_CONFIG; pick = (\<lambda>x y. case x of None \<Rightarrow> y | Some v \<Rightarrow> v) in
     \<lparr>pd_config = \<lparr>sc_enabled = (case psc_enabled p of None \<Rightarrow> sc_enabled d | Some b \<Rightarrow> b),
        sc_warningMinutes = pick (psc_warningMinutes p) (sc_warningMinutes d),
        sc_criticalMinutes = pick (psc_criticalMinutes p) (sc_criticalMinutes d),
        sc_killMinutes = pick (psc_killMinutes p) (sc_killMinutes d),
        sc_checkIntervalSeconds = pick (psc_checkIntervalSeconds p) (sc_checkIntervalSeconds d),
        sc_fileHeartbeat = (case psc_fileHeartbeat p of None \<Rightarrow> sc_fileHeartbeat d | Some b \<Rightarrow> b)\<rparr>,
      pd_tracking = [], pd_checking = False, pd_callback = False\<rparr>)"

definition setStuckCallback :: "progress_detector \<Rightarrow> progress_detector" where
  "setStuckCallback pd = pd\<lparr>pd_callback := True\<rparr>"

definition startChecking :: "progress_detector \<Rightarrow> progress_detector" where
  "startChecking pd = (if pd_checking pd then pd else if \<not> sc_enabled (pd_config pd) then pd else pd\<lparr>pd_checking := True\<rparr>)"

definition stopChecking :: "progress_detector \<Rightarrow> progress_detector" where
  "stopChecking pd = (if pd_checking pd then pd\<lparr>pd_checking := False\<rparr> else pd)"

section \<open>Events\<close>

record activity_event =
  av_taskId :: string
  av_sessionId :: string
  av_stage :: string
  av_toolName :: "string option"
  av_filePath :: "string option"
  av_turnNumber :: "nat option"
  av_contentPreview :: "string option"
  av_totalCostUsd :: "usd option"
  av_turnsUsed :: "nat option"

definition fresh_tracking :: "millis \<Rightarrow> string \<Rightarrow> string \<Rightarrow> task_tracking" where
  "fresh_tracking now taskId sessionId =
     \<lparr>tt_taskId = taskId, tt_sessionId = sessionId, tt_startedAt = now, tt_lastActivityTime = now,
      tt_lastActivityType = ''session_start'', tt_lastActivityDetail = ''Session started'', tt_lastFileActivityTime = 0,
      tt_turnCount = 0, tt_toolUseCount = 0, tt_cumulativeCostUsd = 0, tt_inLlmResponse = False,
      tt_warningEmitted = False, tt_criticalEmitted = False\<rparr>"

definition startTracking :: "millis \<Rightarrow> string \<Rightarrow> string \<Rightarrow> progress_detector \<Rightarrow> progress_detector" where
  "startTracking now taskId sessionId pd =
     pd\<lparr>pd_tracking := js_map_set taskId (fresh_tracking now taskId sessionId) (pd_tracking pd)\<rparr>"

text \<open>The entry of the task, started when there is none, replaced by its update.\<close>

definition with_tracking ::
  "millis \<Rightarrow> string \<Rightarrow> string \<Rightarrow> (task_tracking \<Rightarrow> task_tracking) \<Rightarrow> progress_detector \<Rightarrow> progress_detector" where
  "with_tracking now taskId sessionId f pd =
     (let t = (case js_map_get (pd_tracking pd) taskId of Some t \<Rightarrow> t | None \<Rightarrow> fresh_tracking now taskId sessionId)
      in pd\<lparr>pd_tracking := js_map_set taskId (f t) (pd_tracking pd)\<rparr>)"

definition active_now :: "millis \<Rightarrow> string \<Rightarrow> string \<Rightarrow> task_tracking \<Rightarrow> task_tracking" where
  "active_now now type detail t =
     t\<lparr>tt_lastActivityTime := now, tt_lastActivityType := type, tt_lastActivityDetail := detail,
       tt_warningEmitted := False, tt_criticalEmitted := False\<rparr>"

definition recordActivity ::
  "millis \<Rightarrow> string \<Rightarrow> string \<Rightarrow> string \<Rightarrow> string \<Rightarrow> progress_detector \<Rightarrow> progress_detector" where
  "recordActivity now taskId sessionId type detail pd =
     with_tracking now taskId sessionId
       (\<lambda>t. let u = active_now now type detail t in
         if type = ''turn'' then u\<lparr>tt_turnCount := Suc (tt_turnCount u), tt_inLlmResponse := True\<rparr> else u) pd"

definition tool_detail :: "activity_event \<Rightarrow> string" where
  "tool_detail e =
     (let toolName = (case av_toolName e of None \<Rightarrow> ''unknown'' | Some n \<Rightarrow> n) in
      case av_filePath e of
        None \<Rightarrow> toolName
      | Some p \<Rightarrow> if p = '''' then toolName else toolName @ '': '' @ p)"

definition recordToolUse :: "millis \<Rightarrow> activity_event \<Rightarrow> progress_detector \<Rightarrow> progress_detector" where
  "recordToolUse now e pd =
     with_tracking now (av_taskId e) (av_sessionId e)
       (\<lambda>t. (active_now now ''tool_use'' (tool_detail e) t)\<lparr>tt_toolUseCount := Suc (tt_toolUseCount t), tt_inLlmResponse := False\<rparr>) pd"

definition recordComplete :: "activity_event \<Rightarrow> progress_detector \<Rightarrow> progress_detector" where
  "recordComplete e pd = (case js_map_get (pd_tracking pd) (av_taskId e) of
       None \<Rightarrow> pd
     | Some t \<Rightarrow> pd\<lparr>pd_tracking := js_map_set (av_taskId e)
         (t\<lparr>tt_cumulativeCostUsd := (case av_totalCostUsd e of None \<Rightarrow> tt_cumulativeCostUsd t | Some c \<Rightarrow> c),
            tt_turnCount := (case av_turnsUsed e of None \<Rightarrow> tt_turnCount t | Some n \<Rightarrow> n)\<rparr>) (pd_tracking pd)\<rparr>)"

definition extractTurnDetail :: "activity_event \<Rightarrow> string" where
  "extractTurnDetail e =
     (let turn = (case av_turnNumber e of None \<Rightarrow> 0 | Some n \<Rightarrow> n);
          preview = (case av_contentPreview e of None \<Rightarrow> '''' | Some p \<Rightarrow> p)
      in ''Turn '' @ digits_text turn @ (if preview = '''' then '''' else '': '' @ take 50 preview))"

definition stuck_removeTracking :: "string \<Rightarrow> progress_detector \<Rightarrow> progress_detector" where
  "stuck_removeTracking taskId pd = pd\<lparr>pd_tracking := js_map_delete taskId (pd_tracking pd)\<rparr>"

definition processEvent :: "millis \<Rightarrow> activity_event \<Rightarrow> progress_detector \<Rightarrow> progress_detector" where
  "processEvent now e pd =
     (let taskId = av_taskId e; sessionId = av_sessionId e; stage = av_stage e in
      if taskId = '''' then pd
      else if stage = ''session_start'' then startTracking now taskId sessionId pd
      else if stage = ''agent_turn'' then recordActivity now taskId sessionId ''turn'' (extractTurnDetail e) pd
      else if stage = ''blueprint_start'' then recordActivity now taskId sessionId ''blueprint_stage'' ''Blueprint: start'' pd
      else if stage = ''blueprint_warning''
      then recordActivity now taskId sessionId ''blueprint_stage'' ''Blueprint: slow (warning)'' pd
      else if stage = ''blueprint_fallback''
      then recordActivity now taskId sessionId ''blueprint_stage'' ''Blueprint: fallback (minimal)'' pd
      else if stage = ''agent_tool_use'' then recordToolUse now e pd
      else if stage = ''agent_complete'' then recordComplete e pd
      else if stage = ''session_complete'' \<or> stage = ''session_error'' then stuck_removeTracking taskId pd
      else pd)"

definition recordFileActivity :: "millis \<Rightarrow> string \<Rightarrow> progress_detector \<Rightarrow> progress_detector" where
  "recordFileActivity now taskId pd = (case js_map_get (pd_tracking pd) taskId of
       None \<Rightarrow> pd
     | Some t \<Rightarrow> pd\<lparr>pd_tracking := js_map_set taskId
         (t\<lparr>tt_lastFileActivityTime := now, tt_warningEmitted := False, tt_criticalEmitted := False\<rparr>) (pd_tracking pd)\<rparr>)"

section \<open>Health and checks\<close>

definition getEffectiveThreshold :: "rat \<Rightarrow> bool \<Rightarrow> rat" where
  "getEffectiveThreshold baseMs inLlmResponse = (if inLlmResponse then baseMs * 2 else baseMs)"

definition threshold_ms :: "(stuck_config \<Rightarrow> rat) \<Rightarrow> stuck_config \<Rightarrow> task_tracking \<Rightarrow> rat" where
  "threshold_ms minutes c t = getEffectiveThreshold (minutes c * 60000) (tt_inLlmResponse t)"

definition silent_ms :: "millis \<Rightarrow> task_tracking \<Rightarrow> millis" where
  "silent_ms now t = now - max (tt_lastActivityTime t) (tt_lastFileActivityTime t)"

definition computeStatus :: "stuck_config \<Rightarrow> millis \<Rightarrow> task_tracking \<Rightarrow> health_status" where
  "computeStatus c silentMs t =
     (let s = of_int silentMs; warningMs = threshold_ms sc_warningMinutes c t in
      if \<not> sc_enabled c then Healthy
      else if s \<ge> threshold_ms sc_killMinutes c t then Stuck
      else if s \<ge> threshold_ms sc_criticalMinutes c t then Critical
      else if s \<ge> warningMs then Warning
      else if s \<ge> warningMs * (6 / 10) then Slow
      else Healthy)"

definition getHealth :: "millis \<Rightarrow> string \<Rightarrow> progress_detector \<Rightarrow> agent_health option" where
  "getHealth now taskId pd =
     map_option (\<lambda>t. \<lparr>ah_taskId = tt_taskId t, ah_status = computeStatus (pd_config pd) (silent_ms now t) t,
       ah_lastActivity = (tt_lastActivityType t, tt_lastActivityDetail t, tt_lastActivityTime t),
       ah_silentMs = silent_ms now t, ah_turnCount = tt_turnCount t, ah_toolUseCount = tt_toolUseCount t,
       ah_cumulativeCostUsd = tt_cumulativeCostUsd t, ah_startedAt = tt_startedAt t,
       ah_inLlmResponse = tt_inLlmResponse t\<rparr>) (js_map_get (pd_tracking pd) taskId)"

definition getAllHealth :: "millis \<Rightarrow> progress_detector \<Rightarrow> agent_health list" where
  "getAllHealth now pd = List.map_filter (\<lambda>taskId. getHealth now taskId pd) (js_map_keys (pd_tracking pd))"

text \<open>The reasons of a verdict; a silence carries its minutes, rounded half up, and the extension.\<close>

datatype stuck_reason = StuckDisabled | StuckNotTracked | StuckWithin | StuckSilent int rat bool

definition stuck_shouldKill :: "millis \<Rightarrow> string \<Rightarrow> progress_detector \<Rightarrow> bool \<times> stuck_reason" where
  "stuck_shouldKill now taskId pd =
     (let c = pd_config pd in
      if \<not> sc_enabled c then (False, StuckDisabled)
      else (case js_map_get (pd_tracking pd) taskId of
          None \<Rightarrow> (False, StuckNotTracked)
        | Some t \<Rightarrow>
            if of_int (silent_ms now t) \<ge> threshold_ms sc_killMinutes c t
            then (True, StuckSilent \<lfloor>of_int (silent_ms now t) / 60000 + 1 / (2 :: rat)\<rfloor> (sc_killMinutes c) (tt_inLlmResponse t))
            else (False, StuckWithin)))"

definition stuck_event_of :: "stuck_level \<Rightarrow> millis \<Rightarrow> task_tracking \<Rightarrow> stuck_event" where
  "stuck_event_of level silentMs t =
     \<lparr>sk_taskId = tt_taskId t, sk_sessionId = tt_sessionId t, sk_level = level, sk_silentMs = silentMs,
      sk_lastActivity = tt_lastActivityDetail t, sk_turnNumber = tt_turnCount t, sk_totalCostUsd = tt_cumulativeCostUsd t\<rparr>"

definition check_task :: "stuck_config \<Rightarrow> millis \<Rightarrow> task_tracking \<Rightarrow> stuck_event option \<times> task_tracking" where
  "check_task c now t =
     (let silentMs = silent_ms now t; s = of_int silentMs in
      if s \<ge> threshold_ms sc_killMinutes c t then (Some (stuck_event_of LevelKill silentMs t), t)
      else if s \<ge> threshold_ms sc_criticalMinutes c t \<and> \<not> tt_criticalEmitted t
      then (Some (stuck_event_of LevelCritical silentMs t), t\<lparr>tt_criticalEmitted := True\<rparr>)
      else if s \<ge> threshold_ms sc_warningMinutes c t \<and> \<not> tt_warningEmitted t
      then (Some (stuck_event_of LevelWarning silentMs t), t\<lparr>tt_warningEmitted := True\<rparr>)
      else (None, t))"

definition checkAllTasks :: "millis \<Rightarrow> progress_detector \<Rightarrow> stuck_event list \<times> progress_detector" where
  "checkAllTasks now pd =
     (if \<not> sc_enabled (pd_config pd) \<or> \<not> pd_callback pd then ([], pd)
      else (List.map_filter (\<lambda>p. fst (check_task (pd_config pd) now (snd p))) (pd_tracking pd),
            pd\<lparr>pd_tracking := map (\<lambda>p. (fst p, snd (check_task (pd_config pd) now (snd p)))) (pd_tracking pd)\<rparr>))"

section \<open>Runs of the detector\<close>

datatype detector_action =
    DaCallback | DaStart | DaStop | DaCheck
  | DaEvent activity_event
  | DaFile string
  | DaRemove string

text \<open>One action at an instant; the state carries what has been reported.\<close>

fun detector_step ::
  "millis \<times> detector_action \<Rightarrow> stuck_event list \<times> progress_detector \<Rightarrow> stuck_event list \<times> progress_detector" where
  "detector_step (now, DaCallback) (out, pd) = (out, setStuckCallback pd)"
| "detector_step (now, DaStart) (out, pd) = (out, startChecking pd)"
| "detector_step (now, DaStop) (out, pd) = (out, stopChecking pd)"
| "detector_step (now, DaCheck) (out, pd) = (case checkAllTasks now pd of (new, pd') \<Rightarrow> (out @ new, pd'))"
| "detector_step (now, DaEvent e) (out, pd) = (out, processEvent now e pd)"
| "detector_step (now, DaFile taskId) (out, pd) = (out, recordFileActivity now taskId pd)"
| "detector_step (now, DaRemove taskId) (out, pd) = (out, stuck_removeTracking taskId pd)"

definition detector_wf :: "progress_detector \<Rightarrow> bool" where
  "detector_wf pd \<longleftrightarrow> distinct (js_map_keys (pd_tracking pd)) \<and>
     (\<forall>i t. js_map_get (pd_tracking pd) i = Some t \<longrightarrow> tt_taskId t = i)"

lemma tracked_id: "detector_wf pd \<Longrightarrow> js_map_get (pd_tracking pd) i = Some t \<Longrightarrow> tt_taskId t = i"
  by (simp add: detector_wf_def)

lemma wf_set: "detector_wf pd \<Longrightarrow> tt_taskId t = i \<Longrightarrow> detector_wf (pd\<lparr>pd_tracking := js_map_set i t (pd_tracking pd)\<rparr>)"
  by (auto simp: detector_wf_def js_map.get_put intro: js_map.distinct_put)

lemma wf_other [simp]:
  "detector_wf (pd\<lparr>pd_checking := b\<rparr>) = detector_wf pd" "detector_wf (pd\<lparr>pd_callback := b\<rparr>) = detector_wf pd"
  by (simp_all add: detector_wf_def)

lemma wf_with_tracking:
  assumes "detector_wf pd" "\<And>t. tt_taskId (f t) = tt_taskId t"
  shows "detector_wf (with_tracking now i s f pd)"
  unfolding with_tracking_def Let_def
  by (rule wf_set [OF assms(1)]) (use assms tracked_id in \<open>auto simp: fresh_tracking_def split: option.split\<close>)

lemma wf_remove: "detector_wf pd \<Longrightarrow> detector_wf (stuck_removeTracking i pd)"
  by (auto simp: detector_wf_def stuck_removeTracking_def js_map.get_del intro: js_map.distinct_del split: if_splits)

lemma check_keeps_id: "tt_taskId (snd (check_task c now t)) = tt_taskId t"
  by (simp add: check_task_def Let_def)

lemma checked_get:
  "js_map_get (map (\<lambda>p. (fst p, snd (check_task c now (snd p)))) m) i = map_option (\<lambda>t. snd (check_task c now t)) (js_map_get m i)"
  by (induction m) (auto simp: js_map_get_def)

lemma wf_step: "detector_wf (snd s) \<Longrightarrow> detector_wf (snd (detector_step l s))"
proof -
  assume wf: "detector_wf (snd s)"
  obtain now a out pd where l: "l = (now, a)" "s = (out, pd)" by (cases l; cases s) auto
  have fields: "tt_taskId (active_now now ty d t) = tt_taskId t" for ty d t by (simp add: active_now_def)
  have event: "detector_wf (processEvent now e pd)" for e
    using wf l by (auto simp: processEvent_def Let_def recordActivity_def recordToolUse_def recordComplete_def
        startTracking_def fields fresh_tracking_def split: option.split
        intro!: wf_with_tracking wf_remove wf_set dest: tracked_id)
  show ?thesis
  proof (cases a)
    case DaCheck
    then show ?thesis
      using wf l by (auto simp: checkAllTasks_def detector_wf_def checked_get check_keeps_id)
        (simp add: js_map_keys_def comp_def)
  next
    case (DaFile i)
    then show ?thesis
      using wf l by (auto simp: recordFileActivity_def split: option.split intro!: wf_set dest: tracked_id)
  qed (use wf l event in \<open>auto simp: setStuckCallback_def startChecking_def stopChecking_def wf_remove\<close>)
qed

interpretation detector_shape: invariant_machine detector_step "\<lambda>l s. True" "\<lambda>s. detector_wf (snd s)"
  by unfold_locales (rule wf_step)

lemma steps_unrestricted: "steps_ok step (\<lambda>l s. True) ls s"
  by (induction ls arbitrary: s) auto

definition after_run :: "partial_stuck_config \<Rightarrow> (millis \<times> detector_action) list \<Rightarrow> progress_detector" where
  "after_run p acts = snd (run_steps detector_step acts ([], new_detector p))"

lemma after_run_wf: "detector_wf (after_run p acts)"
proof -
  have "detector_wf (new_detector p)" by (simp add: detector_wf_def new_detector_def Let_def)
  then show ?thesis
    unfolding after_run_def by (intro detector_shape.run_inv) (simp_all add: steps_unrestricted)
qed

subsection \<open>What a check reports\<close>

lemma reported_of_task:
  assumes "distinct (js_map_keys m)" "\<forall>p \<in> set m. tt_taskId (snd p) = fst p"
  shows "filter (\<lambda>e. sk_taskId e = i) (List.map_filter (\<lambda>p. fst (check_task c now (snd p))) m) =
    (case js_map_get m i of None \<Rightarrow> [] | Some t \<Rightarrow> (case fst (check_task c now t) of None \<Rightarrow> [] | Some e \<Rightarrow> [e]))"
  using assms
proof (induction m)
  case (Cons p m)
  have id: "sk_taskId e = fst p" if "fst (check_task c now (snd p)) = Some e" for e
    using that Cons.prems(2) by (auto simp: check_task_def Let_def stuck_event_of_def split: if_splits)
  have none: "js_map_get m i = None" if "fst p = i"
    using that Cons.prems(1) by (auto simp: js_map_get_def js_map_keys_def map_of_eq_None_iff)
  have get: "js_map_get (p # m) i = (if fst p = i then Some (snd p) else js_map_get m i)"
    by (cases p) (simp add: js_map_get_def)
  have IH: "filter (\<lambda>e. sk_taskId e = i) (List.map_filter (\<lambda>p. fst (check_task c now (snd p))) m) =
    (case js_map_get m i of None \<Rightarrow> [] | Some t \<Rightarrow> (case fst (check_task c now t) of None \<Rightarrow> [] | Some e \<Rightarrow> [e]))"
    using Cons by (simp add: js_map_keys_def)
  show ?case
    using id none IH by (cases "fst (check_task c now (snd p))") (auto simp: List.map_filter_simps get)
qed (simp add: List.map_filter_simps js_map_get_def)

lemma kill_event: "fst (check_task c now t) = Some e \<Longrightarrow> sk_level e = LevelKill \<longleftrightarrow>
    of_int (silent_ms now t) \<ge> threshold_ms sc_killMinutes c t"
  by (auto simp: check_task_def Let_def stuck_event_of_def split: if_splits)

lemma kill_reported: "of_int (silent_ms now t) \<ge> threshold_ms sc_killMinutes c t \<Longrightarrow>
    fst (check_task c now t) = Some (stuck_event_of LevelKill (silent_ms now t) t)"
  by (simp add: check_task_def Let_def)

lemma kill_selected:
  "(\<exists>e \<in> set (case fst (check_task c now t) of None \<Rightarrow> [] | Some e \<Rightarrow> [e]). sk_level e = LevelKill) \<longleftrightarrow>
     of_int (silent_ms now t) \<ge> threshold_ms sc_killMinutes c t"
proof (cases "fst (check_task c now t)")
  case None
  then show ?thesis using kill_reported [of c t now] by auto
next
  case (Some e)
  then show ?thesis using kill_event [OF Some] by simp
qed

text \<open>
  C39: The three answers about a stuck agent agree. After any run, with detection enabled and a callback
  set, the periodic check reports a kill for a task exactly when \<open>shouldKill\<close> says so and exactly when
  its health is \<open>stuck\<close>, all read at the same instant.
\<close>

theorem kill_answers_agree:
  "let pd = after_run p acts in
   if sc_enabled (pd_config pd) \<and> pd_callback pd
   then ((\<exists>e \<in> set (fst (checkAllTasks now pd)). sk_taskId e = i \<and> sk_level e = LevelKill) \<longleftrightarrow> fst (stuck_shouldKill now i pd)) \<and>
     (fst (stuck_shouldKill now i pd) \<longleftrightarrow> map_option ah_status (getHealth now i pd) = Some Stuck)
   else True"
proof -
  define pd where "pd = after_run p acts"
  have wf: "distinct (js_map_keys (pd_tracking pd))" "\<forall>q \<in> set (pd_tracking pd). tt_taskId (snd q) = fst q"
    using after_run_wf [of p acts] js_map_get_of_mem by (fastforce simp: detector_wf_def pd_def)+
  let ?new = "fst (checkAllTasks now pd)"
  have "((\<exists>e \<in> set ?new. sk_taskId e = i \<and> sk_level e = LevelKill) \<longleftrightarrow> fst (stuck_shouldKill now i pd)) \<and>
     (fst (stuck_shouldKill now i pd) \<longleftrightarrow> map_option ah_status (getHealth now i pd) = Some Stuck)"
    if on: "sc_enabled (pd_config pd)" "pd_callback pd"
  proof -
    have new: "filter (\<lambda>e. sk_taskId e = i) ?new = (case js_map_get (pd_tracking pd) i of None \<Rightarrow> []
        | Some t \<Rightarrow> (case fst (check_task (pd_config pd) now t) of None \<Rightarrow> [] | Some e \<Rightarrow> [e]))"
      using reported_of_task [OF wf] on by (simp add: checkAllTasks_def)
    have "(\<exists>e \<in> set ?new. sk_taskId e = i \<and> sk_level e = LevelKill) \<longleftrightarrow>
        (\<exists>e \<in> set (filter (\<lambda>e. sk_taskId e = i) ?new). sk_level e = LevelKill)"
      by auto
    also have "\<dots> \<longleftrightarrow> (case js_map_get (pd_tracking pd) i of None \<Rightarrow> False
        | Some t \<Rightarrow> of_int (silent_ms now t) \<ge> threshold_ms sc_killMinutes (pd_config pd) t)"
      unfolding new by (cases "js_map_get (pd_tracking pd) i") (simp, simp only: option.case kill_selected)
    also have "\<dots> \<longleftrightarrow> fst (stuck_shouldKill now i pd)"
      using on by (simp add: stuck_shouldKill_def Let_def split: option.split)
    finally have "(\<exists>e \<in> set ?new. sk_taskId e = i \<and> sk_level e = LevelKill) \<longleftrightarrow> fst (stuck_shouldKill now i pd)" .
    moreover have "fst (stuck_shouldKill now i pd) \<longleftrightarrow> map_option ah_status (getHealth now i pd) = Some Stuck"
      using on by (cases "js_map_get (pd_tracking pd) i") (simp_all add: stuck_shouldKill_def getHealth_def computeStatus_def Let_def)
    ultimately show ?thesis by blast
  qed
  then show ?thesis by (simp add: pd_def Let_def)
qed

subsection \<open>One warning per silence\<close>

definition ACTIVITY_STAGES :: "string list" where
  "ACTIVITY_STAGES = [''session_start'', ''agent_turn'', ''blueprint_start'', ''blueprint_warning'',
     ''blueprint_fallback'', ''agent_tool_use'']"

text \<open>An action that is no sign of life of the task.\<close>

definition quiet :: "string \<Rightarrow> millis \<times> detector_action \<Rightarrow> bool" where
  "quiet i l = (case snd l of
       DaEvent e \<Rightarrow> \<not> (av_taskId e = i \<and> av_stage e \<in> set ACTIVITY_STAGES)
     | DaFile j \<Rightarrow> j \<noteq> i
     | _ \<Rightarrow> True)"

definition reports :: "string \<Rightarrow> stuck_level \<Rightarrow> stuck_event list \<Rightarrow> nat" where
  "reports i level out = length (filter (\<lambda>e. sk_level e = level) (filter (\<lambda>e. sk_taskId e = i) out))"

definition level_emitted :: "stuck_level \<Rightarrow> task_tracking \<Rightarrow> bool" where
  "level_emitted level t = (if level = LevelCritical then tt_criticalEmitted t else tt_warningEmitted t)"

text \<open>At most one report so far, and none while the flag of the tracked task is down.\<close>

definition reported_once :: "string \<Rightarrow> stuck_level \<Rightarrow> stuck_event list \<times> progress_detector \<Rightarrow> bool" where
  "reported_once i level s \<longleftrightarrow> detector_wf (snd s) \<and> reports i level (fst s) \<le> 1 \<and>
     (case js_map_get (pd_tracking (snd s)) i of
        None \<Rightarrow> True
      | Some t \<Rightarrow> if level_emitted level t then True else reports i level (fst s) = 0)"

lemma reports_append [simp]: "reports i level (xs @ ys) = reports i level xs + reports i level ys"
  by (simp add: reports_def)

lemma check_level:
  assumes "level \<noteq> LevelKill"
  shows "case check_task c now t of (e, t') \<Rightarrow>
     (if level_emitted level t then level_emitted level t' \<and> (case e of None \<Rightarrow> True | Some x \<Rightarrow> sk_level x \<noteq> level)
      else level_emitted level t' = (case e of None \<Rightarrow> False | Some x \<Rightarrow> sk_level x = level))"
  using assms by (cases level) (auto simp: check_task_def Let_def level_emitted_def stuck_event_of_def)

lemma checked_once:
  assumes "level \<noteq> LevelKill" "reported_once i level (out, pd)" "checkAllTasks now pd = (new, pd')"
  shows "reported_once i level (out @ new, pd')"
proof (cases "sc_enabled (pd_config pd) \<and> pd_callback pd")
  case True
  have wf: "distinct (js_map_keys (pd_tracking pd))" "\<forall>q \<in> set (pd_tracking pd). tt_taskId (snd q) = fst q"
    using assms(2) js_map_get_of_mem by (fastforce simp: detector_wf_def reported_once_def)+
  have new: "reports i level new = (case js_map_get (pd_tracking pd) i of None \<Rightarrow> 0
      | Some t \<Rightarrow> (case fst (check_task (pd_config pd) now t) of None \<Rightarrow> 0 | Some e \<Rightarrow> if sk_level e = level then 1 else 0))"
  proof -
    have "filter (\<lambda>e. sk_taskId e = i) new = (case js_map_get (pd_tracking pd) i of None \<Rightarrow> []
        | Some t \<Rightarrow> (case fst (check_task (pd_config pd) now t) of None \<Rightarrow> [] | Some e \<Rightarrow> [e]))"
      using reported_of_task [OF wf, of i "pd_config pd" now] True assms(3) by (simp add: checkAllTasks_def)
    then show ?thesis unfolding reports_def by (simp split: option.split)
  qed
  have get: "js_map_get (pd_tracking pd') i = map_option (\<lambda>t. snd (check_task (pd_config pd) now t)) (js_map_get (pd_tracking pd) i)"
    using True assms(3) by (auto simp: checkAllTasks_def checked_get)
  have shape: "detector_wf pd'"
    using wf_step [of "(out, pd)" "(now, DaCheck)"] assms(2,3) by (simp add: reported_once_def)
  show ?thesis
  proof (cases "js_map_get (pd_tracking pd) i")
    case None
    then show ?thesis using assms(2) new get shape by (simp add: reported_once_def)
  next
    case (Some t)
    then show ?thesis
      using check_level [OF assms(1), where c = "pd_config pd" and now = now and t = t] assms(2) new get shape
      by (auto simp: reported_once_def split: option.splits if_splits prod.splits)
  qed
next
  case False
  then show ?thesis using assms(2,3) by (auto simp: checkAllTasks_def)
qed

lemma reported_same:
  assumes "reported_once i level (out, pd)" "detector_wf pd'"
    "js_map_get (pd_tracking pd') i = None \<or>
     (\<exists>t t'. js_map_get (pd_tracking pd) i = Some t \<and> js_map_get (pd_tracking pd') i = Some t' \<and>
        level_emitted level t' = level_emitted level t)"
  shows "reported_once i level (out, pd')"
  using assms by (auto simp: reported_once_def)

lemma quiet_event:
  assumes "quiet i (now, DaEvent e)"
  shows "js_map_get (pd_tracking (processEvent now e pd)) i = None \<or>
     (\<exists>t t'. js_map_get (pd_tracking pd) i = Some t \<and> js_map_get (pd_tracking (processEvent now e pd)) i = Some t' \<and>
        level_emitted level t' = level_emitted level t)"
proof (cases "av_taskId e = i")
  case True
  with assms show ?thesis
    by (cases "js_map_get (pd_tracking pd) i")
      (auto simp: quiet_def ACTIVITY_STAGES_def processEvent_def Let_def recordComplete_def stuck_removeTracking_def
        js_map.get_put js_map.get_del level_emitted_def)
next
  case False
  then have "js_map_get (pd_tracking (processEvent now e pd)) i = js_map_get (pd_tracking pd) i"
    by (auto simp: processEvent_def Let_def recordActivity_def recordToolUse_def with_tracking_def recordComplete_def
        startTracking_def stuck_removeTracking_def js_map.get_put js_map.get_del split: option.split)
  then show ?thesis by (cases "js_map_get (pd_tracking pd) i") auto
qed

lemma quiet_step:
  assumes "level \<noteq> LevelKill" "reported_once i level s" "quiet i l"
  shows "reported_once i level (detector_step l s)"
proof -
  obtain now a out pd where l: "l = (now, a)" "s = (out, pd)" by (cases l; cases s) auto
  have wf: "detector_wf (snd (detector_step l s))" using assms(2) by (intro wf_step) (simp add: reported_once_def)
  have same: "reported_once i level (out, pd\<lparr>pd_callback := b\<rparr>)" "reported_once i level (out, pd\<lparr>pd_checking := b\<rparr>)" for b
    using assms(2) unfolding l reported_once_def fst_conv snd_conv by simp_all
  show ?thesis
  proof (cases a)
    case DaCheck
    then show ?thesis using checked_once [OF assms(1)] assms(2) l by (auto split: prod.split)
  next
    case (DaEvent e)
    then show ?thesis
      using reported_same [OF assms(2) [unfolded l]] quiet_event [of i now e pd level] assms(3) wf l by simp
  next
    case (DaFile j)
    then have "js_map_get (pd_tracking (recordFileActivity now j pd)) i = js_map_get (pd_tracking pd) i"
      using assms(3) l by (auto simp: quiet_def recordFileActivity_def js_map.get_put split: option.split)
    with DaFile show ?thesis
      using reported_same [OF assms(2) [unfolded l], of "recordFileActivity now j pd"] wf l
      by (cases "js_map_get (pd_tracking pd) i") simp_all
  next
    case (DaRemove j)
    then have "js_map_get (pd_tracking (stuck_removeTracking j pd)) i \<in> {None, js_map_get (pd_tracking pd) i}"
      by (simp add: stuck_removeTracking_def js_map.get_del)
    with DaRemove show ?thesis
      using reported_same [OF assms(2) [unfolded l], of "stuck_removeTracking j pd"] wf l
      by (cases "js_map_get (pd_tracking pd) i") auto
  qed (use l same in \<open>simp_all add: setStuckCallback_def startChecking_def stopChecking_def assms(2) [unfolded l]\<close>)
qed

text \<open>
  C40: One warning per silence: after any run, as long as nothing shows a sign of life of a task, the
  checks that follow, however many and at whatever instants, report at most one warning and at most one
  critical for it.
\<close>

theorem one_warning_per_silence:
  "if list_all (quiet i) acts
   then let out = fst (run_steps detector_step acts ([], after_run p before)) in
     reports i LevelWarning out \<le> 1 \<and> reports i LevelCritical out \<le> 1
   else True"
proof -
  have "reported_once i level (run_steps detector_step acts s)"
    if "list_all (quiet i) acts" "reported_once i level s" "level \<noteq> LevelKill" for level s
    using that
  proof (induction acts arbitrary: s)
    case (Cons l acts)
    then show ?case using quiet_step [of level i s l] by simp
  qed simp
  moreover have "reported_once i level ([], after_run p before)" for level
    using after_run_wf [of p before] by (simp add: reported_once_def reports_def split: option.split)
  ultimately show ?thesis by (fastforce simp: reported_once_def Let_def)
qed

text \<open>
  The order is not guarded: when a check first finds the critical threshold passed, the next one reports
  the weaker warning.
\<close>

lemma warning_after_critical:
  assumes "of_int (silent_ms now t) \<ge> threshold_ms sc_criticalMinutes c t" "tt_criticalEmitted t" "\<not> tt_warningEmitted t"
    "of_int (silent_ms now t) < threshold_ms sc_killMinutes c t"
    "threshold_ms sc_warningMinutes c t \<le> threshold_ms sc_criticalMinutes c t"
  shows "fst (check_task c now t) = Some (stuck_event_of LevelWarning (silent_ms now t) t)"
  using assms by (simp add: check_task_def Let_def)

end
