(* ===== verification/Spec2Isabelle.thy ===== *)
theory Spec2Isabelle
  imports Queue_Properties Queue_Durability Workflow_Machine Judgment_Orchestrator
    Judgment_Producers Task_Selection Judge_Verdict Federation_Properties Federation_Admission
    Approval_Gates Fleet_Costs Fleet_Controller Model_Router State_Resolver
    Judge_Enforcement Progress_Detector
begin

text \<open>
  A model of the decision-making core of Quack-Harness, a harness that takes task files from a
  backlog, dispatches coding agents on them, verifies and judges their output, and merges it.

  \<^bold>\<open>The parts of the program and the theories that model them.\<close>

  \<^item> \<open>Harness_Prelude\<close>: the JavaScript data and library behaviour the sources use (dynamically
    typed values, trimming and case, \<open>Set\<close>, insertion-ordered \<open>Map\<close>, the stable \<open>sort\<close>), and three
    interfaces: \<open>ordered_map\<close>, \<open>comparator\<close> and \<open>invariant_machine\<close>.
  \<^item> \<open>Task_Status\<close>, \<open>Duplicate_Claimants\<close> (\<open>src/core/task-status.ts\<close>,
    \<open>src/core/duplicate-claimants.ts\<close>): the canonical statuses and ids of tasks; the index of task
    files that declare the same id, and the refusals made from it.
  \<^item> The dispatch queue (\<open>src/queue\<close>). \<open>Queue_Types\<close>, \<open>Concurrency_Guard\<close>, \<open>Failure_Propagator\<close> and
    \<open>Queue_Persistence\<close> model its helper files, \<open>Queue_Dependencies\<close> how it decides that a
    dependency is met, \<open>Queue_State\<close> the fields of \<open>DispatchQueue\<close>, \<open>Queue_Operations\<close> its public
    methods and completion handlers, \<open>Queue_Machine\<close> its asynchronous methods. The methods are cut
    at every \<open>await\<close>: a suspended method is a frame with its local variables, and a run is a list
    of labels, each an operation, a timer or the resumption of one of the frames, with what the
    rest of the system answers during that step. So every interleaving JavaScript allows at the
    granularity of awaits is a run.
  \<^item> \<open>Workflow_Machine\<close> (\<open>src/workflow\<close>): the table of states and transitions and its validation.
  \<^item> \<open>Judgment_Reducer\<close>, \<open>Judgment_Orchestrator\<close>, \<open>Judgment_Producers\<close> (\<open>src/judgment\<close>): the
    contract of a judgment, the rollout policy around the intent model, and the producers of the
    signals a judgment is made of.
  \<^item> The gates around a judgment. \<open>Judgment_Adapters\<close> (\<open>src/judgment/judgment-adapters.ts\<close>): how the
    result of each stage becomes a decision. \<open>Intent_Request\<close> (\<open>src/judgment/intent-request.ts\<close>): what
    the intent model is asked and how its answer is checked. \<open>Review_Gate\<close> (\<open>src/review/loop-gate.ts\<close>):
    the evaluation of a loop review. \<open>Advisory_Override\<close> (\<open>src/judgment/advisory-override.ts\<close>): what a
    human decision contradicts. \<open>Spec_Identity\<close> (\<open>src/core/spec-identity.ts\<close>): the contract of a
    specification and the comparison of identities. \<open>Approval_Gates\<close>
    (\<open>src/dispatcher/blueprint-approval.ts\<close>, \<open>judge-approval.ts\<close>): the approval records and every
    call that writes them.
  \<^item> \<open>Task_Selection\<close> (\<open>src/dispatcher/task-selector.ts\<close>, \<open>dependency-resolver.ts\<close>): which backlog
    tasks may run, and in which order.
  \<^item> \<open>Judge_Verdict\<close> (\<open>src/judge/verdict.ts\<close>): the answer of the judge and its parser.
    \<open>Judge_Enforcement\<close> (\<open>enforcement-constraints.ts\<close>): the demotion of passes that are not enforced.
  \<^item> \<open>Progress_Detector\<close> (\<open>src/monitor/progress-detector.ts\<close>): the health of running agents.
  \<^item> The controls of the fleet (\<open>src/dispatcher\<close>). \<open>Fleet_Keys\<close> (\<open>key-manager.ts\<close>): the pool of API
    keys. \<open>Fleet_Costs\<close> (\<open>fleet-budget.ts\<close>, \<open>cost-velocity.ts\<close>): the budget caps and the monitor of
    runaway costs. \<open>Fleet_Controller\<close> (\<open>fleet-controller.ts\<close>): pause, resume and emergency stop, whose
    transitions are queued and suspended at their awaits. \<open>Model_Router\<close> (\<open>model-router.ts\<close>).
  \<^item> The gate of a finished task (\<open>src/review/docs-gate.ts\<close>): \<open>Docs_Bundle\<close> what it reads, \<open>Docs_Gate\<close>
    its issues and the judgment that may lift them, \<open>Docs_Reviews\<close> the reviews and documentation files
    on disk. The state shown for a task (\<open>src/workflow\<close>): \<open>Evidence_Bundle\<close> (\<open>evidence-bundle.ts\<close>),
    \<open>State_Projector\<close> (\<open>state-projector.ts\<close>), \<open>State_Resolver\<close> (\<open>workflow-state-resolver.ts\<close>,
    \<open>projection-store.ts\<close>).
  \<^item> The federation of head node and workers (\<open>src/monitor/federation\<close>, \<open>src/federation\<close>,
    \<open>src/monitor/routes/federation.ts\<close>). \<open>Federation_Types\<close>: job records, statuses, leases, the order
    of the queue. \<open>Federation_Store\<close>: the ledger of job files, updated one job at a time.
    \<open>Federation_Routing\<close>: the listener registry with its token binding, host load, the router.
    \<open>Federation_Pause\<close>: the handshake of a run paused at a human gate. \<open>Federation_Events\<close>: what
    workers report, lease renewal, cancellation. \<open>Federation_Scheduling\<close>: the gate of a job, blocks
    that heal, assignment, stale leases, the tick. \<open>Federation_Admission\<close>: how a request enters the
    queue. \<open>Federation_Lifecycle\<close> puts every call that updates one job side by side as the machine
    \<open>job_step\<close>; \<open>Federation_Capacity\<close> and \<open>Federation_Properties\<close> state what follows.

  \<^bold>\<open>How they interact.\<close> The queue asks the guard before a dispatch, hands the failed item and its
  map to the propagator, logs every change through the persistence and checks the claimants of a
  task before it starts it. Its machine calls the dispatch manager, the task service, the event
  reader and the admission fence, which are the fields of the record \<open>env\<close>: arguments of every
  step, about which nothing is assumed unless a theorem says so. The workflow invariants use the
  status normalisation. The scheduler asks the claimant index of \<open>Duplicate_Claimants\<close> and routes over
  the hosts of the registry, whose load it reads off the ledger; leases it issues are extended by
  events and renewals, surrendered by a released pause and reissued by a resume claim. Both the queue
  and a federated job are runs of an \<open>invariant_machine\<close>. The orchestrator uses the reducer through the interface
  \<open>judgment_contract\<close>; the producers feed it signals. A loop review is projected by the adapters, asks the
  intent model through the orchestrator, and leaves the gate facts that an approval record stores; a
  decision on that record reads its advice from them and the contract it was made for from the
  identity of its specification. The approvals directory is an \<open>invariant_machine\<close> too. The budget
  checker charges the pool of API keys with the cost of each finished dispatch; the fleet controller
  and the budget checker are asked before a dispatch. The review gate is projected by the adapters and
  judged by the orchestrator; the resolver projects its latest review, the events of the task and the
  current answer of the claimant index into the state shown.

  \<^bold>\<open>What the lemmas show.\<close> \<open>Queue_Invariants\<close> and \<open>Queue_Accounting\<close>: the shape of the queue's state
  and the accounting of its lanes, kept by every step. \<open>Queue_Starts\<close>: the only step that starts a
  task. \<open>Queue_Recovery\<close>: what the constructor makes of a disk. \<open>Queue_Durability\<close>: the disk determines
  the queue up to recovery. \<open>Queue_Properties\<close> states what follows for the code, the good and the
  bad. \<open>Federation_Lifecycle\<close>: the invariant of a job record under any calls. \<open>Federation_Capacity\<close>:
  the load of hosts through a tick. \<open>Federation_Properties\<close>: leases, grants and retries over any
  calls. \<open>Intent_Request\<close>: references are distinct and an
  accepted answer accounts for each signal once. \<open>Review_Gate\<close>: when the evaluation grants automatic
  approval. \<open>Spec_Identity\<close>: which edits the contract sees. \<open>Approval_Gates\<close>: the advice an approval
  contradicts is on its record, after any calls. \<open>Fleet_Controller\<close>: what an emergency stop guarantees
  while transitions overlap. \<open>Fleet_Keys\<close>: fairness and cooldowns of the pool. \<open>Fleet_Costs\<close>: the sums
  the caps bound, and the median. \<open>Docs_Gate\<close>: when a review is ready and who may lift it.
  \<open>State_Projector\<close>: when a task is shown ready, and that badge and blockers agree. \<open>Judge_Enforcement\<close>:
  what a constrained verdict says, against a reading of the checks that does not use the groups.
  \<open>Progress_Detector\<close>: one warning per silence. The theories of the other components carry their own properties.

  \<^bold>\<open>Bounds.\<close> The breadth-first search of the propagator and every loop of the model terminate: their
  recursion is structural or has a measure; there is no fuel. Numbers of the sources are counts,
  instants and amounts: natural numbers, integers and rationals; the rounding of doubles is not
  modelled. Strings are Latin-1.

  \<^bold>\<open>Not modelled.\<close> Processes, git, Docker, HTTP, the database and the model calls, which are I/O; the
  shell and secret scanners, whose findings are inputs. Of the federation: the owner files by which
  \<open>store.ts\<close> locks a job (an update is one atomic step of the model), the verification and merge of
  completed jobs (\<open>orchestration.ts\<close>), the request schemas and the commands sent to hosts. Of
  the gates: the transport and prompts of the intent and review models, and how the current file of a
  task is found on disk; the merging of evidence bundles, which nothing calls; the preflight.
\<close>

end
